(* ===== verification/Lifecycle.thy ===== *)
theory Lifecycle
  imports Prelude
begin

text \<open>
  The authoritative ticket lifecycle of \<open>src/crates/config/src/lifecycle.rs\<close>: the phases,
  the review decisions, the lifecycle record, the events and the transition function
  \<open>Lifecycle::apply\<close>, one definition per arm of its \<open>match\<close>. Counters are 64-bit words,
  so \<open>+= 1\<close> wraps as it does in a release build. Every \<open>ensure!\<close> is a branch that returns
  its message, in the order of the source.
\<close>

section \<open>Data\<close>

datatype Phase =
    Planning
  | PlanReady
  | PlanRejected
  | Building
  | Testing
  | Submit
  | Done
  | Blocked

fun phase_as_str :: "Phase \<Rightarrow> string" where
  "phase_as_str Planning = ''planning''"
| "phase_as_str PlanReady = ''plan_ready''"
| "phase_as_str PlanRejected = ''plan_rejected''"
| "phase_as_str Building = ''building''"
| "phase_as_str Testing = ''testing''"
| "phase_as_str Submit = ''submit''"
| "phase_as_str Done = ''done''"
| "phase_as_str Blocked = ''blocked''"

record Decision =
  d_pr_number :: "u64 option"
  d_round :: u64
  d_actor :: string
  d_approved :: bool
  d_report :: string
  d_revision :: u64
  d_head :: "string option"

record TransitionRecord =
  tr_version :: u64
  tr_actor :: string
  tr_from :: Phase
  tr_to :: Phase
  tr_ts :: u64
  tr_detail :: string

record Lifecycle =
  lc_history :: "TransitionRecord list"
  lc_merge_pending :: bool
  lc_pr_delivery :: "Decision option"
  lc_review_round :: u64
  lc_version :: u64
  lc_phase :: Phase
  lc_role :: string
  lc_ts :: u64
  lc_plan :: string
  lc_revision :: u64
  lc_head :: "string option"
  lc_plan_decision :: "Decision option"
  lc_test_decision :: "Decision option"
  lc_test_human :: "Decision option"
  lc_pr_decision :: "Decision option"
  lc_pr_human :: "Decision option"
  lc_verified_head :: "string option"
  lc_verification_task :: "string option"
  lc_pr_number :: "u64 option"
  lc_merge_sha :: "string option"
  lc_feedback :: "string option"

text \<open>\<open>Lifecycle::default()\<close>.\<close>

definition default_lifecycle :: Lifecycle where
  "default_lifecycle = \<lparr>
     lc_history = [], lc_merge_pending = False, lc_pr_delivery = None, lc_review_round = 0,
     lc_version = 0, lc_phase = Planning, lc_role = [], lc_ts = 0, lc_plan = [],
     lc_revision = 0, lc_head = None, lc_plan_decision = None, lc_test_decision = None,
     lc_test_human = None, lc_pr_decision = None, lc_pr_human = None,
     lc_verified_head = None, lc_verification_task = None, lc_pr_number = None,
     lc_merge_sha = None, lc_feedback = None \<rparr>"

datatype Event =
    Move Phase "string option"
  | Block string
  | Plan string
  | Decide u64 Phase bool string u64 "string option"
      \<comment> \<open>round, phase, approved, report, revision, head\<close>
  | Verified string string
  | Pr u64
  | BeginMerge string
  | CancelMerge
  | ReviewDelivered u64
  | ReconcileMerged u64 string
  | Merged u64 string string

section \<open>Rendering of an event for the transition history\<close>

text \<open>
  \<open>#[derive(Debug)]\<close> of \<open>Event\<close>. A string field is printed in double quotes with the
  escapes of \<open>str::escape_debug\<close>; a control character without a short escape is printed
  as its code point in hexadecimal.
\<close>

definition hex_char :: "nat \<Rightarrow> char" where
  "hex_char d = (if d < 10 then char_of (48 + d) else char_of (87 + d))"

definition show_hex_byte :: "nat \<Rightarrow> string" where
  "show_hex_byte n = (if n < 16 then [hex_char n] else [hex_char (n div 16), hex_char (n mod 16)])"

definition escape_debug_char :: "char \<Rightarrow> string" where
  "escape_debug_char c =
     (let n = (of_char c :: nat); bs = CHR 0x5C in
      if n = 0 then [bs, CHR ''0'']
      else if n = 9 then [bs, CHR ''t'']
      else if n = 10 then [bs, CHR ''n'']
      else if n = 13 then [bs, CHR ''r'']
      else if c = CHR 0x22 \<or> c = bs then [bs, c]
      else if n < 32 \<or> n = 127 then bs # ''u{'' @ show_hex_byte n @ ''}''
      else [c])"

definition debug_str :: "string \<Rightarrow> string" where
  "debug_str s = CHR 0x22 # concat (map escape_debug_char s) @ [CHR 0x22]"

fun debug_opt_str :: "string option \<Rightarrow> string" where
  "debug_opt_str None = ''None''"
| "debug_opt_str (Some s) = ''Some('' @ debug_str s @ '')''"

fun debug_phase :: "Phase \<Rightarrow> string" where
  "debug_phase Planning = ''Planning''"
| "debug_phase PlanReady = ''PlanReady''"
| "debug_phase PlanRejected = ''PlanRejected''"
| "debug_phase Building = ''Building''"
| "debug_phase Testing = ''Testing''"
| "debug_phase Submit = ''Submit''"
| "debug_phase Done = ''Done''"
| "debug_phase Blocked = ''Blocked''"

fun debug_bool :: "bool \<Rightarrow> string" where
  "debug_bool True = ''true''"
| "debug_bool False = ''false''"

fun debug_event :: "Event \<Rightarrow> string" where
  "debug_event (Move p h) =
     ''Move { phase: '' @ debug_phase p @ '', head: '' @ debug_opt_str h @ '' }''"
| "debug_event (Block r) = ''Block { reason: '' @ debug_str r @ '' }''"
| "debug_event (Plan c) = ''Plan { content: '' @ debug_str c @ '' }''"
| "debug_event (Decide r p a rep rv h) =
     ''Decide { round: '' @ show_u64 r @ '', phase: '' @ debug_phase p @ '', approved: '' @
     debug_bool a @ '', report: '' @ debug_str rep @ '', revision: '' @ show_u64 rv @
     '', head: '' @ debug_opt_str h @ '' }''"
| "debug_event (Verified h t) =
     ''Verified { head: '' @ debug_str h @ '', task: '' @ debug_str t @ '' }''"
| "debug_event (Pr n) = ''Pr { number: '' @ show_u64 n @ '' }''"
| "debug_event (BeginMerge h) = ''BeginMerge { head: '' @ debug_str h @ '' }''"
| "debug_event CancelMerge = ''CancelMerge''"
| "debug_event (ReviewDelivered r) = ''ReviewDelivered { round: '' @ show_u64 r @ '' }''"
| "debug_event (ReconcileMerged n sha) =
     ''ReconcileMerged { number: '' @ show_u64 n @ '', sha: '' @ debug_str sha @ '' }''"
| "debug_event (Merged n h sha) =
     ''Merged { number: '' @ show_u64 n @ '', head: '' @ debug_str h @ '', sha: '' @
     debug_str sha @ '' }''"

fun event_detail :: "Lifecycle \<Rightarrow> Event \<Rightarrow> string" where
  "event_detail s (Decide r p a rep rv h) =
     ''review round '' @ show_u64 r @ '': '' @ (if a then ''approve'' else ''reject'') @
     '': '' @ rep"
| "event_detail s (Block reason) = ''blocked: '' @ reason"
| "event_detail s (Plan c) = ''plan revision '' @ show_u64 (lc_revision s + 1) @ '' uploaded''"
| "event_detail s e = debug_event e"

section \<open>Merge readiness and review delivery\<close>

definition merge_ready :: "Lifecycle \<Rightarrow> string \<Rightarrow> bool" where
  "merge_ready s h \<longleftrightarrow>
     lc_pr_delivery s = None \<and> lc_phase s = Submit \<and> lc_head s = Some h \<and>
     is_some_and (lc_pr_decision s) d_approved \<and> is_some_and (lc_pr_human s) d_approved"

definition deliverable_review :: "Lifecycle \<Rightarrow> Decision option" where
  "deliverable_review s =
     (case lc_pr_delivery s of
        None \<Rightarrow> None
      | Some d \<Rightarrow>
          if d_pr_number d \<noteq> None \<and> d_pr_number d = lc_pr_number s \<and>
             d_round d = lc_review_round s \<and> d_revision d = lc_revision s \<and>
             (if d_approved d
              then lc_phase s = Submit \<and> d_head d = lc_head s \<and> lc_pr_decision s = Some d \<and>
                   is_some_and (lc_pr_human s) d_approved
              else lc_phase s = Building)
          then Some d else None)"

section \<open>Transitions\<close>

definition clear_work :: "Lifecycle \<Rightarrow> Lifecycle" where
  "clear_work s = s\<lparr>lc_head := None, lc_verified_head := None, lc_verification_task := None,
     lc_test_decision := None, lc_test_human := None, lc_pr_decision := None,
     lc_pr_human := None\<rparr>"

text \<open>
  Each arm takes the old state and the lower-cased actor and returns the changed copy;
  \<open>None\<close> is the early \<open>return Ok(self.clone())\<close> of a move to the current phase.
\<close>

definition apply_plan :: "Lifecycle \<Rightarrow> string \<Rightarrow> string \<Rightarrow> Lifecycle option result" where
  "apply_plan s actor content =
     ensure (actor = ''forge'' \<and> lc_phase s = Planning)
       ''Plans may only be edited by FORGE in planning''
     (ensure (\<not> blank content) ''Plan must not be empty''
     (Ok (Some (clear_work (s\<lparr>lc_plan := content, lc_revision := lc_revision s + 1,
                             lc_plan_decision := None\<rparr>)))))"

fun move_permitted :: "Lifecycle \<Rightarrow> Phase \<Rightarrow> Phase \<Rightarrow> string option \<Rightarrow> bool" where
  "move_permitted s _ Blocked h = True"
| "move_permitted s Blocked Planning h = True"
| "move_permitted s PlanRejected Planning h = True"
| "move_permitted s PlanReady Planning h = True"
| "move_permitted s Building Planning h = True"
| "move_permitted s Testing Planning h = True"
| "move_permitted s Submit Planning h = True"
| "move_permitted s Planning PlanReady h = (\<not> blank (lc_plan s) \<and> 0 < lc_revision s)"
| "move_permitted s PlanReady Building h =
     is_some_and (lc_plan_decision s) (\<lambda>d. d_approved d \<and> d_revision d = lc_revision s)"
| "move_permitted s Building Testing h = is_some_and h (\<lambda>x. \<not> blank x)"
| "move_permitted s Testing Submit h =
     (is_some_and (lc_test_decision s) (\<lambda>d. d_approved d \<and> d_revision d = lc_revision s \<and>
         d_round d = lc_review_round s \<and> d_head d = lc_head s) \<and>
      lc_verified_head s = lc_head s \<and> lc_verification_task s \<noteq> None \<and> lc_head s \<noteq> None)"
| "move_permitted s Testing Building h = True"
| "move_permitted s Submit Building h = True"
| "move_permitted s _ _ h = False"

definition move_effect :: "Lifecycle \<Rightarrow> Phase \<Rightarrow> string option \<Rightarrow> Lifecycle" where
  "move_effect s p h =
     (let n1 = (if p = Planning \<or> p = Blocked
                then let n = (clear_work s)\<lparr>lc_plan_decision := None\<rparr>
                     in if p = Planning then n\<lparr>lc_plan := []\<rparr> else n
                else s);
          n2 = (if p = Building then clear_work n1 else n1);
          n3 = (if p = Testing then n2\<lparr>lc_head := h\<rparr> else n2);
          n4 = (if p = PlanReady \<or> p = Testing \<or> p = Submit
                then n3\<lparr>lc_review_round := lc_review_round n3 + 1\<rparr> else n3)
      in n4\<lparr>lc_pr_delivery := None, lc_feedback := None, lc_phase := p\<rparr>)"

definition apply_move ::
  "Lifecycle \<Rightarrow> string \<Rightarrow> Phase \<Rightarrow> string option \<Rightarrow> Lifecycle option result" where
  "apply_move s actor p h =
     ensure (actor = ''forge'' \<or> (actor = ''vessel'' \<and> p = Building) \<or>
             (actor = ''sentinel'' \<and> lc_phase s = Testing \<and> p = Blocked))
       ''Actor cannot move lifecycle''
     (if lc_phase s = p then Ok None
      else ensure (move_permitted s (lc_phase s) p h)
             (''Invalid or ungated transition '' @ phase_as_str (lc_phase s) @ '' -> '' @
              phase_as_str p)
           (Ok (Some (move_effect s p h))))"

definition apply_block :: "Lifecycle \<Rightarrow> string \<Rightarrow> Lifecycle option result" where
  "apply_block s reason =
     ensure (\<not> blank reason) ''Blocked lifecycle requires a reason''
     (Ok (Some ((clear_work s)\<lparr>lc_plan_decision := None, lc_pr_delivery := None,
                              lc_feedback := Some reason, lc_phase := Blocked\<rparr>)))"

text \<open>The \<open>match (phase, actor)\<close> that stores the decision; \<open>None\<close> is \<open>unreachable!()\<close>.\<close>

fun record_decision :: "Lifecycle \<Rightarrow> Phase \<Rightarrow> string \<Rightarrow> Decision \<Rightarrow> Lifecycle option" where
  "record_decision n PlanReady actor d = Some (n\<lparr>lc_plan_decision := Some d\<rparr>)"
| "record_decision n Testing actor d =
     Some (if actor = ''sentinel'' then n\<lparr>lc_test_decision := Some d\<rparr>
           else n\<lparr>lc_test_human := Some d\<rparr>)"
| "record_decision n Submit actor d =
     Some (if actor = ''sentinel'' then n\<lparr>lc_pr_decision := Some d\<rparr>
           else n\<lparr>lc_pr_human := Some d\<rparr>)"
| "record_decision n _ actor d = None"

definition decide_effect ::
  "Lifecycle \<Rightarrow> string \<Rightarrow> Phase \<Rightarrow> bool \<Rightarrow> string \<Rightarrow> Decision \<Rightarrow> Lifecycle option" where
  "decide_effect s actor p approved report d =
     map_option (\<lambda>n1.
       let n2 = (if approved \<and> p = PlanReady
                 then (clear_work (n1\<lparr>lc_phase := Building\<rparr>))\<lparr>lc_feedback := None\<rparr> else n1);
           n3 = (if approved \<and> p = Testing \<and> actor = ''sentinel''
                 then n2\<lparr>lc_phase := Submit, lc_review_round := lc_review_round n2 + 1,
                         lc_pr_delivery := None, lc_feedback := None\<rparr> else n2)
       in if approved then n3
          else let n4 = (if actor = ''human'' then n3\<lparr>lc_pr_delivery := None\<rparr> else n3)
               in clear_work (n4\<lparr>lc_feedback := Some report,
                    lc_phase := (if p = PlanReady then PlanRejected else Building)\<rparr>))
       (record_decision
          (if p = Submit \<and> actor = ''sentinel'' then s\<lparr>lc_pr_delivery := Some d\<rparr> else s)
          p actor d)"

definition apply_decide ::
  "Lifecycle \<Rightarrow> string \<Rightarrow> u64 \<Rightarrow> Phase \<Rightarrow> bool \<Rightarrow> string \<Rightarrow> u64 \<Rightarrow> string option \<Rightarrow>
   Lifecycle option result" where
  "apply_decide s actor rnd p approved report rv h =
     ensure (p = lc_phase s \<and> rnd = lc_review_round s) ''Review phase or round changed''
     (ensure (rv = lc_revision s) ''Stale plan revision''
     (ensure (\<not> blank report) ''Review requires a report''
     (ensure (actor = ''sentinel'' \<or> actor = ''human'') ''Only SENTINEL or a human may review''
     (ensure (p \<noteq> PlanReady \<or> actor = ''sentinel'') ''SENTINEL reviews the plan''
     (ensure (p = PlanReady \<or> p = Testing \<or> p = Submit) ''Not a review phase''
     (ensure (p = PlanReady \<or> (h \<noteq> None \<and> h = lc_head s)) ''Review must identify the tested head''
     (ensure (\<not> (p \<noteq> PlanReady \<and> approved \<and> p = Testing) \<or>
              (lc_verified_head s = lc_head s \<and> lc_verification_task s \<noteq> None))
        ''Successful A2A verification required''
     (ensure (\<not> (p \<noteq> PlanReady \<and> p = Submit) \<or> lc_pr_number s \<noteq> None)
        ''Record the PR before reviewing it''
     (let d = \<lparr>d_pr_number = (if p = Submit then lc_pr_number s else None), d_round = rnd,
               d_actor = actor, d_approved = approved, d_report = report,
               d_revision = rv, d_head = h\<rparr>
      in case decide_effect s actor p approved report d of
           None \<Rightarrow> Err ''internal error: entered unreachable code''
         | Some n \<Rightarrow> Ok (Some n))))))))))"

definition apply_verified :: "Lifecycle \<Rightarrow> string \<Rightarrow> string \<Rightarrow> string \<Rightarrow> Lifecycle option result" where
  "apply_verified s actor h task =
     ensure (actor = ''sentinel'' \<and> lc_phase s = Testing) ''Verification belongs to testing''
     (ensure (lc_head s = Some h \<and> task \<noteq> [])
        ''Verification must identify the tested head and task''
     (Ok (Some (s\<lparr>lc_verified_head := Some h, lc_verification_task := Some task\<rparr>))))"

definition apply_pr :: "Lifecycle \<Rightarrow> string \<Rightarrow> u64 \<Rightarrow> Lifecycle option result" where
  "apply_pr s actor number =
     ensure (actor = ''forge'' \<and> lc_phase s = Submit \<and> 0 < number)
       ''PR publication requires submit''
     (Ok (Some
       (let n = (if lc_pr_number s \<noteq> Some number
                 then s\<lparr>lc_pr_delivery := None, lc_pr_decision := None, lc_pr_human := None,
                        lc_review_round := lc_review_round s + 1\<rparr> else s)
        in n\<lparr>lc_pr_number := Some number\<rparr>)))"

definition apply_review_delivered :: "Lifecycle \<Rightarrow> string \<Rightarrow> u64 \<Rightarrow> Lifecycle option result" where
  "apply_review_delivered s actor rnd =
     ensure (actor = ''sentinel'' \<and> is_some_and (lc_pr_delivery s) (\<lambda>d. d_round d = rnd))
       ''No matching pending delivery''
     (Ok (Some (s\<lparr>lc_pr_delivery := None\<rparr>)))"

definition apply_begin_merge :: "Lifecycle \<Rightarrow> string \<Rightarrow> string \<Rightarrow> Lifecycle option result" where
  "apply_begin_merge s actor h =
     ensure (actor = ''vessel'' \<and> merge_ready s h) ''Candidate is not ready to merge''
     (Ok (Some (s\<lparr>lc_merge_pending := True\<rparr>)))"

definition apply_cancel_merge :: "Lifecycle \<Rightarrow> string \<Rightarrow> Lifecycle option result" where
  "apply_cancel_merge s actor =
     ensure (actor = ''vessel'') ''Only VESSEL reconciles a merge''
     (Ok (Some (s\<lparr>lc_merge_pending := False\<rparr>)))"

definition apply_reconcile_merged ::
  "Lifecycle \<Rightarrow> string \<Rightarrow> u64 \<Rightarrow> string \<Rightarrow> Lifecycle option result" where
  "apply_reconcile_merged s actor number sha =
     ensure (actor = ''vessel'' \<and> 0 < number \<and> sha \<noteq> [])
       ''External merge requires GitHub evidence''
     (Ok (Some (s\<lparr>lc_phase := Done, lc_pr_number := Some number, lc_merge_sha := Some sha,
                  lc_merge_pending := False\<rparr>)))"

definition apply_merged ::
  "Lifecycle \<Rightarrow> string \<Rightarrow> u64 \<Rightarrow> string \<Rightarrow> string \<Rightarrow> Lifecycle option result" where
  "apply_merged s actor number h sha =
     ensure (actor = ''vessel'' \<and> merge_ready s h \<and> lc_pr_number s = Some number \<and> sha \<noteq> [])
       ''Merge requires reviewed current head and merge evidence''
     (Ok (Some (s\<lparr>lc_phase := Done, lc_merge_sha := Some sha, lc_merge_pending := False\<rparr>)))"

fun apply_event :: "Lifecycle \<Rightarrow> string \<Rightarrow> Event \<Rightarrow> Lifecycle option result" where
  "apply_event s actor (Plan c) = apply_plan s actor c"
| "apply_event s actor (Move p h) = apply_move s actor p h"
| "apply_event s actor (Block r) = apply_block s r"
| "apply_event s actor (Decide rnd p a rep rv h) = apply_decide s actor rnd p a rep rv h"
| "apply_event s actor (Verified h t) = apply_verified s actor h t"
| "apply_event s actor (Pr n) = apply_pr s actor n"
| "apply_event s actor (ReviewDelivered r) = apply_review_delivered s actor r"
| "apply_event s actor (BeginMerge h) = apply_begin_merge s actor h"
| "apply_event s actor CancelMerge = apply_cancel_merge s actor"
| "apply_event s actor (ReconcileMerged n sha) = apply_reconcile_merged s actor n sha"
| "apply_event s actor (Merged n h sha) = apply_merged s actor n h sha"

text \<open>The events that are accepted while a merge is in progress.\<close>

fun reconciles :: "Event \<Rightarrow> bool" where
  "reconciles (Merged _ _ _) = True"
| "reconciles CancelMerge = True"
| "reconciles (ReconcileMerged _ _) = True"
| "reconciles _ = False"

text \<open>The common tail of \<open>apply\<close>: version, history, role and time stamp.\<close>

definition stamp :: "Lifecycle \<Rightarrow> string \<Rightarrow> Event \<Rightarrow> u64 \<Rightarrow> Lifecycle \<Rightarrow> Lifecycle" where
  "stamp s actor e ts n =
     (let v = lc_version n + 1 in
      n\<lparr>lc_version := v,
        lc_history := lc_history n @ [\<lparr>tr_version = v, tr_actor = actor, tr_from = lc_phase s,
          tr_to = lc_phase n, tr_ts = ts, tr_detail = event_detail s e\<rparr>],
        lc_role := actor, lc_ts := ts\<rparr>)"

definition lc_apply :: "Lifecycle \<Rightarrow> string \<Rightarrow> Event \<Rightarrow> u64 \<Rightarrow> Lifecycle result" where
  "lc_apply s actor0 e ts =
     ensure (lc_phase s \<noteq> Done) ''Done is terminal''
     (let actor = to_lowercase actor0 in
      ensure (\<not> lc_merge_pending s \<or> reconciles e)
        ''Merge is in progress; reconcile before changing the candidate''
      (bind_result (apply_event s actor e)
        (\<lambda>r. case r of None \<Rightarrow> Ok s | Some n \<Rightarrow> Ok (stamp s actor e ts n))))"

text \<open>A run of several events, stopping at the first refusal.\<close>

fun lc_run :: "Lifecycle \<Rightarrow> (string \<times> Event \<times> u64) list \<Rightarrow> Lifecycle result" where
  "lc_run s [] = Ok s"
| "lc_run s ((a, e, t) # es) = bind_result (lc_apply s a e t) (\<lambda>s'. lc_run s' es)"

text \<open>The state a legacy (unversioned) record is upgraded to.\<close>

definition legacy_lifecycle :: "string \<Rightarrow> Lifecycle" where
  "legacy_lifecycle l = default_lifecycle\<lparr>
     lc_phase := (if l = ''Merged'' \<or> l = ''merged'' \<or> l = ''done'' then Done else Planning),
     lc_feedback := Some ''Legacy state requires a new plan review''\<rparr>"

lemmas apply_arm_defs =
  apply_plan_def apply_move_def apply_block_def apply_decide_def apply_verified_def apply_pr_def
  apply_review_delivered_def apply_begin_merge_def apply_cancel_merge_def
  apply_reconcile_merged_def apply_merged_def

end
