(* ===== verification/Reachability.thy ===== *)
theory Reachability
  imports Prelude
begin

text \<open>
  Reachable states of a labelled transition system and the proof rule for invariants, shared
  by the stateful components. The locale is the contract an invariant meets; each component
  interprets it with its own start states, steps and invariant.
\<close>

inductive reach :: "('s \<Rightarrow> bool) \<Rightarrow> ('s \<Rightarrow> 'l \<Rightarrow> 's \<Rightarrow> bool) \<Rightarrow> 's \<Rightarrow> bool"
  for init :: "'s \<Rightarrow> bool" and trans :: "'s \<Rightarrow> 'l \<Rightarrow> 's \<Rightarrow> bool" where
  reach_init: "init s \<Longrightarrow> reach init trans s"
| reach_step: "reach init trans s \<Longrightarrow> trans s l s' \<Longrightarrow> reach init trans s'"

lemma reach_mono: "reach init tr s \<Longrightarrow> (\<And>x. init x \<Longrightarrow> init2 x) \<Longrightarrow> reach init2 tr s"
  by (induction rule: reach.induct) (auto intro: reach_init reach_step)

locale invariant_system =
  fixes init :: "'s \<Rightarrow> bool"
    and trans :: "'s \<Rightarrow> 'l \<Rightarrow> 's \<Rightarrow> bool"
    and inv :: "'s \<Rightarrow> bool"
  assumes inv_start: "init s \<Longrightarrow> inv s"
    and inv_trans: "trans s l s' \<Longrightarrow> inv s \<Longrightarrow> inv s'"
begin

lemma reach_inv: "reach init trans s \<Longrightarrow> inv s"
  by (induction rule: reach.induct) (auto intro: inv_start inv_trans)

lemma reach_step_inv: "reach init trans s \<Longrightarrow> trans s l s' \<Longrightarrow> inv s'"
  using reach_inv reach_step by metis

end

end
