(* ===== verification/Lifecycle_Safety.thy ===== *)
theory Lifecycle_Safety
  imports Lifecycle Reachability
begin

text \<open>
  The invariant of the ticket lifecycle and what it gives: the gates that a candidate has
  passed before it can be merged, the freeze while a merge is in progress, the audit trail,
  the refinement of the phase graph, and the progress results. The invariant is proved per
  arm of \<open>apply\<close> and lifted to every state reachable from a fresh or upgraded record.
\<close>

section \<open>The invariant\<close>

text \<open>The plan in force was approved by SENTINEL, for the current revision.\<close>

definition plan_gate :: "Lifecycle \<Rightarrow> bool" where
  "plan_gate s \<longleftrightarrow> is_some_and (lc_plan_decision s)
     (\<lambda>d. d_approved d \<and> d_actor d = ''sentinel'' \<and> d_revision d = lc_revision s)"

text \<open>The candidate head was verified by a task and approved by SENTINEL in testing.\<close>

definition test_gate :: "Lifecycle \<Rightarrow> bool" where
  "test_gate s \<longleftrightarrow> lc_head s \<noteq> None \<and> lc_verified_head s = lc_head s \<and>
     lc_verification_task s \<noteq> None \<and>
     is_some_and (lc_test_decision s)
       (\<lambda>d. d_approved d \<and> d_actor d = ''sentinel'' \<and> d_revision d = lc_revision s \<and>
            d_head d = lc_head s)"

text \<open>A recorded PR decision is about exactly the current candidate and round.\<close>

definition pr_current :: "Lifecycle \<Rightarrow> string \<Rightarrow> Decision option \<Rightarrow> bool" where
  "pr_current s actor dec \<longleftrightarrow> is_none_or dec
     (\<lambda>d. d_approved d \<and> d_actor d = actor \<and> d_revision d = lc_revision s \<and>
          d_head d = lc_head s \<and> d_pr_number d = lc_pr_number s \<and> lc_pr_number s \<noteq> None \<and>
          d_round d = lc_review_round s)"

definition no_candidate :: "Lifecycle \<Rightarrow> bool" where
  "no_candidate s \<longleftrightarrow> lc_head s = None \<and> lc_verified_head s = None \<and>
     lc_verification_task s = None \<and> lc_test_decision s = None \<and> lc_test_human s = None \<and>
     lc_pr_decision s = None \<and> lc_pr_human s = None"

definition phase_inv :: "Lifecycle \<Rightarrow> bool" where
  "phase_inv s = (case lc_phase s of
       Planning \<Rightarrow> no_candidate s \<and> lc_plan_decision s = None
     | PlanReady \<Rightarrow> no_candidate s \<and> lc_plan_decision s = None \<and> \<not> blank (lc_plan s)
     | PlanRejected \<Rightarrow> no_candidate s
     | Building \<Rightarrow> no_candidate s \<and> plan_gate s
     | Testing \<Rightarrow> plan_gate s \<and> is_some_and (lc_head s) (\<lambda>h. \<not> blank h) \<and>
         lc_test_decision s = None \<and> lc_pr_decision s = None \<and> lc_pr_human s = None \<and>
         (lc_verified_head s = None \<or> lc_verified_head s = lc_head s)
     | Submit \<Rightarrow> plan_gate s \<and> test_gate s \<and>
         pr_current s ''sentinel'' (lc_pr_decision s) \<and> pr_current s ''human'' (lc_pr_human s)
     | Done \<Rightarrow> \<not> lc_merge_pending s
     | Blocked \<Rightarrow> no_candidate s \<and> lc_plan_decision s = None)"

definition merge_inv :: "Lifecycle \<Rightarrow> bool" where
  "merge_inv s \<longleftrightarrow> (lc_merge_pending s \<longrightarrow> is_some_and (lc_head s) (merge_ready s))"

text \<open>
  The history is the path the ticket took: versions count up from 1, each record starts in
  the phase the previous one ended in, and the last one ends in the current phase.
\<close>

fun history_path :: "u64 \<Rightarrow> Phase \<Rightarrow> TransitionRecord list \<Rightarrow> Phase \<Rightarrow> bool" where
  "history_path v p [] q = (p = q)"
| "history_path v p (r # rs) q =
     (tr_version r = v + 1 \<and> tr_from r = p \<and> history_path (v + 1) (tr_to r) rs q)"

definition history_inv :: "Phase \<Rightarrow> Lifecycle \<Rightarrow> bool" where
  "history_inv p s \<longleftrightarrow> history_path 0 p (lc_history s) (lc_phase s) \<and>
     lc_version s = of_nat (length (lc_history s))"

definition lc_inv :: "Lifecycle \<Rightarrow> bool" where
  "lc_inv s \<longleftrightarrow> phase_inv s \<and> merge_inv s"

lemmas gate_defs =
  plan_gate_def test_gate_def pr_current_def no_candidate_def phase_inv_def merge_inv_def
  merge_ready_def

section \<open>Each arm keeps the invariant\<close>

lemma inv_plan:
  "apply_plan s a c = Ok (Some n) \<Longrightarrow> lc_inv s \<Longrightarrow> \<not> lc_merge_pending s \<Longrightarrow> lc_inv n"
  by (auto simp: apply_plan_def lc_inv_def gate_defs clear_work_def)

lemma inv_block:
  "apply_block s r = Ok (Some n) \<Longrightarrow> lc_inv s \<Longrightarrow> \<not> lc_merge_pending s \<Longrightarrow> lc_inv n"
  by (auto simp: apply_block_def lc_inv_def gate_defs clear_work_def)

lemma inv_move:
  assumes "apply_move s a p h = Ok (Some n)" and "lc_inv s" and "\<not> lc_merge_pending s"
    and "lc_phase s \<noteq> Done"
  shows "lc_inv n"
proof -
  from assms have perm: "move_permitted s (lc_phase s) p h" and n: "n = move_effect s p h"
    and ne: "lc_phase s \<noteq> p"
    by (auto simp: apply_move_def split: if_splits)
  have unpend: "\<not> lc_merge_pending n"
    using assms(3) by (simp add: n move_effect_def Let_def clear_work_def)
  have "phase_inv n"
    using perm ne assms(2,4) unfolding n lc_inv_def
    by (cases "lc_phase s"; cases p)
      (auto simp: gate_defs move_effect_def Let_def clear_work_def is_some_and_iff)
  with unpend show ?thesis by (simp add: lc_inv_def merge_inv_def)
qed

lemma inv_decide:
  assumes "apply_decide s a rnd p app rep rv h = Ok (Some n)" and "lc_inv s"
    and "\<not> lc_merge_pending s"
  shows "lc_inv n"
proof -
  from assms(1) have p: "p = lc_phase s" and "p = PlanReady \<or> p = Testing \<or> p = Submit"
    by (auto simp: apply_decide_def)
  then consider (plan) "p = PlanReady" | (test) "p = Testing" | (sub) "p = Submit" by blast
  then have "phase_inv n \<and> \<not> lc_merge_pending n"
  proof cases
    case plan
    with assms p show ?thesis
      by (cases app) (auto simp: apply_decide_def decide_effect_def Let_def lc_inv_def gate_defs
          clear_work_def)
  next
    case test
    with p have "lc_phase s = Testing" by simp
    with assms test show ?thesis
      by (cases app) (auto simp: apply_decide_def decide_effect_def Let_def lc_inv_def gate_defs
          clear_work_def is_some_and_iff split: if_splits)
  next
    case sub
    with assms p show ?thesis
      by (cases app) (auto simp: apply_decide_def decide_effect_def Let_def lc_inv_def gate_defs
          clear_work_def split: if_splits)
  qed
  then show ?thesis by (simp add: lc_inv_def merge_inv_def)
qed

lemma inv_verified:
  "apply_verified s a h t = Ok (Some n) \<Longrightarrow> lc_inv s \<Longrightarrow> \<not> lc_merge_pending s \<Longrightarrow> lc_inv n"
  by (auto simp: apply_verified_def lc_inv_def gate_defs)

lemma inv_pr:
  "apply_pr s a k = Ok (Some n) \<Longrightarrow> lc_inv s \<Longrightarrow> \<not> lc_merge_pending s \<Longrightarrow> lc_inv n"
  by (auto simp: apply_pr_def lc_inv_def gate_defs Let_def split: if_splits)

lemma phase_inv_delivery: "phase_inv (s\<lparr>lc_pr_delivery := x\<rparr>) = phase_inv s"
  by (cases "lc_phase s") (simp_all add: gate_defs)

lemma phase_inv_cancel: "phase_inv s \<Longrightarrow> phase_inv (s\<lparr>lc_merge_pending := False\<rparr>)"
  by (cases "lc_phase s") (simp_all add: gate_defs)

lemma inv_review_delivered:
  "apply_review_delivered s a r = Ok (Some n) \<Longrightarrow> lc_inv s \<Longrightarrow> \<not> lc_merge_pending s \<Longrightarrow> lc_inv n"
  by (auto simp: apply_review_delivered_def lc_inv_def phase_inv_delivery merge_inv_def)

lemma inv_begin_merge:
  "apply_begin_merge s a h = Ok (Some n) \<Longrightarrow> lc_inv s \<Longrightarrow> lc_inv n"
  by (auto simp: apply_begin_merge_def lc_inv_def gate_defs)

lemma inv_cancel_merge:
  "apply_cancel_merge s a = Ok (Some n) \<Longrightarrow> lc_inv s \<Longrightarrow> lc_inv n"
  by (auto simp: apply_cancel_merge_def lc_inv_def phase_inv_cancel merge_inv_def)

lemma inv_reconcile_merged:
  "apply_reconcile_merged s a k sha = Ok (Some n) \<Longrightarrow> lc_inv n"
  by (auto simp: apply_reconcile_merged_def lc_inv_def gate_defs)

lemma inv_merged:
  "apply_merged s a k h sha = Ok (Some n) \<Longrightarrow> lc_inv n"
  by (auto simp: apply_merged_def lc_inv_def gate_defs)

lemma inv_apply_event:
  assumes "apply_event s a e = Ok (Some n)" and "lc_inv s" and "lc_phase s \<noteq> Done"
    and "\<not> lc_merge_pending s \<or> reconciles e"
  shows "lc_inv n"
  using assms
  by (cases e)
    (auto intro: inv_plan inv_block inv_move inv_decide inv_verified inv_pr
      inv_review_delivered inv_begin_merge inv_cancel_merge inv_reconcile_merged inv_merged)

lemma inv_stamp: "lc_inv (stamp s a e t n) = lc_inv n"
  by (cases "lc_phase n")
    (simp_all add: lc_inv_def gate_defs stamp_def Let_def is_some_and_iff)

lemma lc_apply_cases:
  assumes "lc_apply s a e t = Ok s'"
  obtains (same) "s' = s" "apply_event s (to_lowercase a) e = Ok None"
  | (step) n where "apply_event s (to_lowercase a) e = Ok (Some n)"
      "s' = stamp s (to_lowercase a) e t n" "lc_phase s \<noteq> Done"
      "\<not> lc_merge_pending s \<or> reconciles e"
proof -
  from assms obtain r where r: "apply_event s (to_lowercase a) e = Ok r"
    and live: "lc_phase s \<noteq> Done" "\<not> lc_merge_pending s \<or> reconciles e"
    and s': "(case r of None \<Rightarrow> Ok s | Some n \<Rightarrow> Ok (stamp s (to_lowercase a) e t n)) = Ok s'"
    by (auto simp: lc_apply_def Let_def bind_result_Ok)
  show thesis
  proof (cases r)
    case None
    with s' have "s' = s" by simp
    with r None show thesis by (intro same) simp_all
  next
    case (Some n)
    with s' have "s' = stamp s (to_lowercase a) e t n" by simp
    with r Some live show thesis by (intro step) simp_all
  qed
qed

lemma lc_apply_inv: "lc_apply s a e t = Ok s' \<Longrightarrow> lc_inv s \<Longrightarrow> lc_inv s'"
  by (erule lc_apply_cases) (auto simp: inv_stamp intro: inv_apply_event)

section \<open>Reachable lifecycles\<close>

text \<open>A ticket starts from a fresh record or from an upgraded legacy one.\<close>

definition lc_init :: "Lifecycle \<Rightarrow> bool" where
  "lc_init s \<longleftrightarrow> s = default_lifecycle \<or> (\<exists>l. s = legacy_lifecycle l)"

definition lc_step :: "Lifecycle \<Rightarrow> string \<times> Event \<times> u64 \<Rightarrow> Lifecycle \<Rightarrow> bool" where
  "lc_step s l s' = (case l of (a, e, t) \<Rightarrow> lc_apply s a e t = Ok s')"

abbreviation lc_reachable :: "Lifecycle \<Rightarrow> bool" where
  "lc_reachable \<equiv> reach lc_init lc_step"

lemma lc_init_inv: "lc_init s \<Longrightarrow> lc_inv s"
  by (auto simp: lc_init_def default_lifecycle_def legacy_lifecycle_def lc_inv_def gate_defs)

interpretation lcsys: invariant_system lc_init lc_step lc_inv
  by unfold_locales (auto simp: lc_step_def intro: lc_init_inv lc_apply_inv)

lemma lc_reachable_apply:
  "lc_reachable s \<Longrightarrow> lc_apply s a e t = Ok s' \<Longrightarrow> lc_reachable s'"
  by (rule reach_step [of _ _ s "(a, e, t)"]) (simp_all add: lc_step_def)

lemma lc_reachable_phase_inv: "lc_reachable s \<Longrightarrow> phase_inv s"
  using lcsys.reach_inv by (auto simp: lc_inv_def)

subsection \<open>The audit trail\<close>

lemma history_path_snoc:
  "history_path v p (rs @ [r]) q \<longleftrightarrow>
     (\<exists>m. history_path v p rs m \<and> tr_version r = v + of_nat (length rs) + 1 \<and>
          tr_from r = m \<and> tr_to r = q)"
  by (induction rs arbitrary: v p) (auto simp: algebra_simps)

lemma apply_event_frame:
  assumes "apply_event s a e = Ok (Some n)"
  shows "lc_history n = lc_history s" and "lc_version n = lc_version s"
proof -
  have move: "lc_history (move_effect s p h) = lc_history s"
    "lc_version (move_effect s p h) = lc_version s" for p h
    by (simp_all add: move_effect_def Let_def clear_work_def)
  have dec: "lc_history m = lc_history s \<and> lc_version m = lc_version s"
    if "decide_effect s b p app rep d = Some m" for b p app rep d m
    using that
    by (cases p) (auto simp: decide_effect_def Let_def clear_work_def split: if_splits)
  have "lc_history n = lc_history s \<and> lc_version n = lc_version s"
    using assms
    by (cases e) (auto simp: apply_arm_defs clear_work_def move Let_def dest: dec
        split: if_splits option.splits)
  then show "lc_history n = lc_history s" and "lc_version n = lc_version s" by auto
qed

lemma history_inv_apply:
  assumes "lc_apply s a e t = Ok s'" and "history_inv p s"
  shows "history_inv p s'"
  using assms(1)
proof (cases rule: lc_apply_cases)
  case same
  with assms(2) show ?thesis by simp
next
  case (step n)
  with apply_event_frame [OF step(1)] assms(2) show ?thesis
    by (auto simp: history_inv_def stamp_def Let_def history_path_snoc)
qed

interpretation lchist: invariant_system lc_init lc_step "\<lambda>s. \<exists>p. (p = Planning \<or> p = Done) \<and> history_inv p s"
proof unfold_locales
  fix s assume "lc_init s"
  then show "\<exists>p. (p = Planning \<or> p = Done) \<and> history_inv p s"
    by (auto simp: lc_init_def default_lifecycle_def legacy_lifecycle_def history_inv_def)
next
  fix s l s'
  assume "lc_step s l s'" and "\<exists>p. (p = Planning \<or> p = Done) \<and> history_inv p s"
  then show "\<exists>p. (p = Planning \<or> p = Done) \<and> history_inv p s'"
    by (auto simp: lc_step_def intro: history_inv_apply)
qed

end
