(* ===== verification/Lifecycle_Progress.thy ===== *)
theory Lifecycle_Progress
  imports Lifecycle_Safety
begin

text \<open>
  Runs of the lifecycle: the three legs of a successful ticket (plan approval, verified
  testing, reviewed merge), each for an arbitrary starting state in its phase, and the
  escape from any unfinished state back to planning.
\<close>

lemma lc_run_append:
  "lc_run s (es @ fs) = bind_result (lc_run s es) (\<lambda>s'. lc_run s' fs)"
  by (induction es arbitrary: s) (auto simp: bind_result_def split: sum.splits)

lemma lc_run_append_Ok:
  "lc_run s es = Ok s' \<Longrightarrow> lc_run s (es @ fs) = lc_run s' fs"
  by (simp add: lc_run_append)

lemma lc_run_reachable: "lc_run s es = Ok s' \<Longrightarrow> lc_reachable s \<Longrightarrow> lc_reachable s'"
proof (induction es arbitrary: s)
  case Nil
  then show ?case by simp
next
  case (Cons x es)
  then show ?case
    by (cases x) (auto simp: bind_result_Ok intro: lc_reachable_apply)
qed

lemma lower_actors [simp]:
  "to_lowercase ''forge'' = ''forge''" "to_lowercase ''sentinel'' = ''sentinel''"
  "to_lowercase ''human'' = ''human''" "to_lowercase ''vessel'' = ''vessel''"
  by (simp_all add: to_lowercase_Cons to_lower_char_def)

definition plan_leg :: "Lifecycle \<Rightarrow> string \<Rightarrow> string \<Rightarrow> u64 \<Rightarrow> (string \<times> Event \<times> u64) list" where
  "plan_leg s c rep t =
     [(''forge'', Plan c, t), (''forge'', Move PlanReady None, t),
      (''sentinel'', Decide (lc_review_round s + 1) PlanReady True rep (lc_revision s + 1) None, t)]"

definition test_leg :: "Lifecycle \<Rightarrow> string \<Rightarrow> string \<Rightarrow> string \<Rightarrow> u64 \<Rightarrow> (string \<times> Event \<times> u64) list" where
  "test_leg s h task rep t =
     [(''forge'', Move Testing (Some h), t), (''sentinel'', Verified h task, t),
      (''sentinel'', Decide (lc_review_round s + 1) Testing True rep (lc_revision s) (Some h), t)]"

definition review_leg ::
  "Lifecycle \<Rightarrow> string \<Rightarrow> u64 \<Rightarrow> string \<Rightarrow> u64 \<Rightarrow> (string \<times> Event \<times> u64) list" where
  "review_leg s h n rep t =
     (let r = (if lc_pr_number s = Some n then lc_review_round s else lc_review_round s + 1) in
      [(''forge'', Pr n, t),
       (''sentinel'', Decide r Submit True rep (lc_revision s) (Some h), t),
       (''human'', Decide r Submit True rep (lc_revision s) (Some h), t),
       (''sentinel'', ReviewDelivered r, t)])"

definition merge_leg :: "string \<Rightarrow> u64 \<Rightarrow> string \<Rightarrow> u64 \<Rightarrow> (string \<times> Event \<times> u64) list" where
  "merge_leg h n sha t = [(''vessel'', BeginMerge h, t), (''vessel'', Merged n h sha, t)]"

text \<open>The stamp changes the version, history, role and time only.\<close>

lemma stamp_fields [simp]:
  "lc_phase (stamp s a e t n) = lc_phase n"
  "lc_merge_pending (stamp s a e t n) = lc_merge_pending n"
  "lc_pr_delivery (stamp s a e t n) = lc_pr_delivery n"
  "lc_review_round (stamp s a e t n) = lc_review_round n"
  "lc_plan (stamp s a e t n) = lc_plan n"
  "lc_revision (stamp s a e t n) = lc_revision n"
  "lc_head (stamp s a e t n) = lc_head n"
  "lc_plan_decision (stamp s a e t n) = lc_plan_decision n"
  "lc_test_decision (stamp s a e t n) = lc_test_decision n"
  "lc_test_human (stamp s a e t n) = lc_test_human n"
  "lc_pr_decision (stamp s a e t n) = lc_pr_decision n"
  "lc_pr_human (stamp s a e t n) = lc_pr_human n"
  "lc_verified_head (stamp s a e t n) = lc_verified_head n"
  "lc_verification_task (stamp s a e t n) = lc_verification_task n"
  "lc_pr_number (stamp s a e t n) = lc_pr_number n"
  "lc_merge_sha (stamp s a e t n) = lc_merge_sha n"
  "lc_feedback (stamp s a e t n) = lc_feedback n"
  by (simp_all add: stamp_def Let_def)

lemmas leg_simps =
  lc_apply_def Let_def apply_arm_defs clear_work_def move_effect_def decide_effect_def
  merge_ready_def

lemma plan_leg_runs:
  assumes "lc_phase s = Planning" and "\<not> lc_merge_pending s" and "\<not> blank c"
    and "\<not> blank rep" and "lc_revision s + 1 \<noteq> 0"
  shows "\<exists>s'. lc_run s (plan_leg s c rep t) = Ok s' \<and> lc_phase s' = Building \<and>
              \<not> lc_merge_pending s'"
  using assms by (simp add: plan_leg_def leg_simps word_gt_0)

lemma test_leg_runs:
  assumes "lc_phase s = Building" and "\<not> lc_merge_pending s" and "\<not> blank h"
    and "\<not> blank rep" and "task \<noteq> []"
  shows "\<exists>s'. lc_run s (test_leg s h task rep t) = Ok s' \<and> lc_phase s' = Submit \<and>
              \<not> lc_merge_pending s' \<and> lc_head s' = Some h"
  using assms by (simp add: test_leg_def leg_simps)

lemma review_leg_runs:
  assumes "lc_phase s = Submit" and "\<not> lc_merge_pending s" and "lc_head s = Some h"
    and "\<not> blank rep" and "0 < n"
  shows "\<exists>s'. lc_run s (review_leg s h n rep t) = Ok s' \<and> merge_ready s' h \<and>
              \<not> lc_merge_pending s' \<and> lc_pr_number s' = Some n"
  using assms
  by (cases "lc_pr_number s = Some n") (simp_all add: review_leg_def leg_simps)

lemma merge_leg_runs:
  assumes "merge_ready s h" and "\<not> lc_merge_pending s" and "lc_pr_number s = Some n"
    and "sha \<noteq> []"
  shows "\<exists>s'. lc_run s (merge_leg h n sha t) = Ok s' \<and> lc_phase s' = Done \<and>
              lc_merge_sha s' = Some sha \<and> lc_pr_number s' = Some n \<and> lc_head s' = Some h"
  using assms by (simp add: merge_leg_def leg_simps)

text \<open>A counter that wraps to 0 would make one uploaded plan unusable; a second upload helps.\<close>

lemma replan_runs:
  assumes "lc_phase s = Planning" and "\<not> lc_merge_pending s"
  shows "\<exists>es s'. lc_run s es = Ok s' \<and> lc_phase s' = Planning \<and> \<not> lc_merge_pending s' \<and>
           lc_revision s' + 1 \<noteq> 0 \<and> (\<forall>a e t. (a, e, t) \<in> set es \<longrightarrow> (\<exists>c. e = Plan c))"
proof (cases "lc_revision s + 1 = 0")
  case False
  with assms show ?thesis by (intro exI [of _ "[]"]) auto
next
  case True
  then have rv: "lc_revision s + 2 \<noteq> 0"
    by (simp add: eq_neg_iff_add_eq_0 [symmetric])
  have "\<not> blank ''x''" by (simp add: blank_iff is_whitespace_def)
  then have "\<exists>s'. lc_run s [(''forge'', Plan ''x'', 0)] = Ok s' \<and> lc_phase s' = Planning \<and>
          \<not> lc_merge_pending s' \<and> lc_revision s' = lc_revision s + 1"
    using assms by (simp add: leg_simps)
  then obtain s' where "lc_run s [(''forge'', Plan ''x'', 0)] = Ok s'" "lc_phase s' = Planning"
    "\<not> lc_merge_pending s'" "lc_revision s' = lc_revision s + 1" by blast
  with rv show ?thesis by (intro exI [of _ "[(''forge'', Plan ''x'', 0)]"] exI [of _ s']) (auto simp: add.assoc)
qed

lemma escape_runs:
  assumes "lc_reachable s" and "lc_phase s \<noteq> Done"
  shows "\<exists>es s'. lc_run s es = Ok s' \<and> lc_phase s' = Planning \<and> \<not> lc_merge_pending s' \<and>
           length es \<le> 2 \<and> (\<forall>a e t. (a, e, t) \<in> set es \<longrightarrow> e = CancelMerge \<or> e = Move Planning None)"
proof -
  let ?c = "[(''vessel'', CancelMerge, 0)] :: (string \<times> Event \<times> u64) list"
  let ?m = "[(''forge'', Move Planning None, 0)] :: (string \<times> Event \<times> u64) list"
  have cancel: "\<exists>s'. lc_run s ?c = Ok s' \<and> lc_phase s' = lc_phase s \<and> \<not> lc_merge_pending s'"
    using assms(2) by (simp add: leg_simps)
  have replan: "\<exists>s'. lc_run u ?m = Ok s' \<and> lc_phase s' = Planning \<and> \<not> lc_merge_pending s'"
    if "lc_phase u \<noteq> Done" "\<not> lc_merge_pending u" for u
    using that by (cases "lc_phase u") (simp_all add: leg_simps)
  from cancel obtain u where u: "lc_run s ?c = Ok u" "lc_phase u = lc_phase s" "\<not> lc_merge_pending u"
    by blast
  with replan assms(2) obtain s' where "lc_run u ?m = Ok s'" "lc_phase s' = Planning"
    "\<not> lc_merge_pending s'" by metis
  with u(1) show ?thesis
    by (intro exI [of _ "?c @ ?m"] exI [of _ s']) (auto simp: bind_result_Ok)
qed

end
