(* ===== verification/Lifecycle_Properties.thy ===== *)
theory Lifecycle_Properties
  imports Lifecycle_Progress
begin

text \<open>
  The properties of the ticket lifecycle. A concrete ticket, run from a fresh record, serves
  as the witness of the hypotheses.
\<close>

section \<open>The abstract phase graph\<close>

text \<open>
  What the lifecycle promises to its clients about phases: who may take which edge. The
  guards on plan text, heads and evidence are not part of this view.
\<close>

inductive phase_edge :: "string \<Rightarrow> Phase \<Rightarrow> Phase \<Rightarrow> bool" where
  edge_block: "p \<noteq> Done \<Longrightarrow> phase_edge a p Blocked"
| edge_replan: "p \<noteq> Done \<Longrightarrow> phase_edge ''forge'' p Planning"
| edge_propose: "phase_edge ''forge'' Planning PlanReady"
| edge_plan_approved: "phase_edge ''sentinel'' PlanReady Building"
| edge_plan_rejected: "phase_edge ''sentinel'' PlanReady PlanRejected"
| edge_test: "phase_edge ''forge'' Building Testing"
| edge_test_approved: "phase_edge ''sentinel'' Testing Submit"
| edge_rework: "p = Testing \<or> p = Submit \<Longrightarrow>
    a = ''forge'' \<or> a = ''vessel'' \<or> a = ''sentinel'' \<or> a = ''human'' \<Longrightarrow> phase_edge a p Building"
| edge_merged: "p \<noteq> Done \<Longrightarrow> phase_edge ''vessel'' p Done"

inductive_cases phase_edge_from_doneE: "phase_edge a Done q"
inductive_cases phase_edge_to_buildingE: "phase_edge a p Building"
inductive_cases phase_edge_to_submitE: "phase_edge a p Submit"

lemma decide_phase:
  assumes "apply_decide s a rnd p app rep rv h = Ok (Some n)"
  shows "lc_phase n = lc_phase s \<or> phase_edge a (lc_phase s) (lc_phase n)"
  using assms
  by (cases p; cases app)
    (auto simp: apply_decide_def decide_effect_def clear_work_def Let_def
      intro: phase_edge.intros split: if_splits)

lemma move_phase:
  assumes "apply_move s a p h = Ok (Some n)" and "phase_inv s" and "lc_phase s \<noteq> Done"
  shows "phase_edge a (lc_phase s) (lc_phase n)"
proof -
  have n: "lc_phase n = p" and perm: "move_permitted s (lc_phase s) p h"
    using assms(1) by (auto simp: apply_move_def move_effect_def Let_def split: if_splits)
  show ?thesis
    using perm assms unfolding n
    by (cases "lc_phase s"; cases p)
      (auto simp: apply_move_def phase_inv_def intro: phase_edge.intros)
qed

lemma event_phase:
  assumes "apply_event s a e = Ok (Some n)" and "phase_inv s" and "lc_phase s \<noteq> Done"
  shows "lc_phase n = lc_phase s \<or> phase_edge a (lc_phase s) (lc_phase n)"
proof (cases "(\<exists>p h. e = Move p h) \<or> (\<exists>rnd p app rep rv h. e = Decide rnd p app rep rv h)")
  case True
  with assms show ?thesis by (auto dest: decide_phase move_phase)
next
  case False
  with assms show ?thesis
    by (cases e)
      (auto simp: apply_plan_def apply_block_def apply_verified_def apply_pr_def
        apply_review_delivered_def apply_begin_merge_def apply_cancel_merge_def
        apply_reconcile_merged_def apply_merged_def clear_work_def Let_def
        intro: phase_edge.intros split: if_splits)
qed

section \<open>A concrete ticket\<close>

lemma demo_blank [simp]:
  "\<not> blank ''# Plan''" "\<not> blank ''ok''" "\<not> blank ''c0ffee''" "\<not> blank ''green''"
  "\<not> blank ''lgtm''" "\<not> blank ''ship it''" "\<not> blank ''no''"
  by (simp_all add: blank_iff is_whitespace_def)

lemma default_reachable: "lc_reachable default_lifecycle"
  by (rule reach_init) (simp add: lc_init_def)

text \<open>A reachable ticket in each of the review phases, for concrete texts.\<close>

lemma demo_building:
  obtains s where "lc_reachable s" "lc_phase s = Building" "\<not> lc_merge_pending s"
  using plan_leg_runs [of default_lifecycle "''# Plan''" "''ok''" 1] lc_run_reachable
    default_reachable
  by (auto simp: default_lifecycle_def)

lemma demo_submit:
  obtains s where "lc_reachable s" "lc_phase s = Submit" "\<not> lc_merge_pending s"
    "lc_head s = Some ''c0ffee''"
  using demo_building test_leg_runs [where h = "''c0ffee''" and rep = "''ok''" and task = "''t''"]
    lc_run_reachable demo_blank
  by (metis list.distinct(1))

lemma demo_ready:
  obtains s where "lc_reachable s" "merge_ready s ''c0ffee''" "lc_pr_number s = Some 7"
    "\<not> lc_merge_pending s"
proof -
  obtain s where s: "lc_reachable s" "lc_phase s = Submit" "\<not> lc_merge_pending s"
    "lc_head s = Some ''c0ffee''" by (rule demo_submit)
  have "(0::u64) < 7" by (simp add: word_gt_0)
  with review_leg_runs [OF s(2-4), of "''ok''" 7] obtain s' where
    "lc_run s (review_leg s ''c0ffee'' 7 ''ok'' 1) = Ok s'" "merge_ready s' ''c0ffee''"
    "\<not> lc_merge_pending s'" "lc_pr_number s' = Some 7"
    by (metis demo_blank(2))
  with s(1) that show thesis by (metis lc_run_reachable)
qed

lemma lifecycle_invariant_merge: "lc_reachable s \<Longrightarrow> merge_inv s"
  using lcsys.reach_inv by (auto simp: lc_inv_def)

section \<open>Properties\<close>

text \<open>
  C3 (invariant). Every lifecycle reachable from a fresh or upgraded record satisfies the
  phase invariant: outside testing, submit and done there is no candidate head and no review
  evidence at all; building, testing and submit only ever hold with a SENTINEL approval of the
  current plan revision; submit only with a verified head that SENTINEL approved in testing;
  and a recorded PR decision is always about the current head, revision, PR and round. While
  a merge is pending the candidate is merge-ready.
\<close>

theorem lifecycle_invariant:
  assumes "lc_reachable s"
  shows "phase_inv s \<and> merge_inv s"
  using lcsys.reach_inv [OF assms] by (simp add: lc_inv_def)

theorem lifecycle_invariant_witness:
  "\<exists>s. lc_reachable s \<and> lc_phase s = Submit \<and> phase_inv s \<and> merge_inv s"
proof -
  obtain s where "lc_reachable s" "lc_phase s = Submit" by (rule demo_submit)
  with lifecycle_invariant [of s] show ?thesis by blast
qed

text \<open>
  C1 (safety). No unreviewed merge. If an event takes a reachable ticket to done, the actor is
  VESSEL, and the event either reports a merge that already happened on GitHub
  (\<open>ReconcileMerged\<close>) or is a merge of exactly the current head and PR for which all gates
  are passed: SENTINEL approved the current plan revision, the head was verified and approved
  in testing, SENTINEL and a human both approved this head of this PR in the current round,
  and the review was delivered.
\<close>

theorem merge_needs_every_gate:
  assumes reach: "lc_reachable s" and ap: "lc_apply s a e t = Ok s'" and fin: "lc_phase s' = Done"
  shows "to_lowercase a = ''vessel'' \<and>
    ((\<exists>k sha. e = ReconcileMerged k sha \<and> 0 < k \<and> sha \<noteq> []) \<or>
     (\<exists>k h sha ds dh. e = Merged k h sha \<and> sha \<noteq> [] \<and> lc_head s = Some h \<and>
        lc_pr_number s = Some k \<and> plan_gate s \<and> test_gate s \<and> lc_pr_delivery s = None \<and>
        lc_pr_decision s = Some ds \<and> lc_pr_human s = Some dh \<and>
        d_approved ds \<and> d_actor ds = ''sentinel'' \<and> d_head ds = Some h \<and> d_pr_number ds = Some k \<and>
        d_approved dh \<and> d_actor dh = ''human'' \<and> d_head dh = Some h \<and> d_pr_number dh = Some k \<and>
        d_round ds = lc_review_round s \<and> d_round dh = lc_review_round s))"
  using ap
proof (cases rule: lc_apply_cases)
  case same
  with ap fin show ?thesis by (simp add: lc_apply_def)
next
  case (step n)
  have "lc_phase n = Done" using fin step(2) by simp
  with step(1,3) have "to_lowercase a = ''vessel'' \<and>
      ((\<exists>k sha. e = ReconcileMerged k sha \<and> 0 < k \<and> sha \<noteq> []) \<or>
       (\<exists>k h sha. e = Merged k h sha \<and> sha \<noteq> [] \<and> merge_ready s h \<and> lc_pr_number s = Some k))"
    by (cases e) (auto simp: apply_arm_defs clear_work_def move_effect_def decide_effect_def
        Let_def split: if_splits option.splits elim!: record_decision.elims)
  moreover have "phase_inv s" by (rule lc_reachable_phase_inv [OF reach])
  ultimately show ?thesis
    by (auto simp: merge_ready_def phase_inv_def pr_current_def is_some_and_iff is_none_or_iff)
qed

theorem merge_needs_every_gate_witness:
  "\<exists>s s'. lc_reachable s \<and> lc_apply s ''vessel'' (Merged 7 ''c0ffee'' ''abc'') 9 = Ok s' \<and>
     lc_phase s' = Done \<and> plan_gate s \<and> test_gate s"
proof -
  obtain s where s: "lc_reachable s" "merge_ready s ''c0ffee''" "lc_pr_number s = Some 7"
    "\<not> lc_merge_pending s" by (rule demo_ready)
  then have "\<exists>s'. lc_apply s ''vessel'' (Merged 7 ''c0ffee'' ''abc'') 9 = Ok s' \<and> lc_phase s' = Done"
    by (simp add: leg_simps)
  with merge_needs_every_gate [OF s(1)] s(1) show ?thesis by blast
qed

text \<open>
  While a merge is in progress the candidate is frozen: the only accepted steps
  are VESSEL's, they leave the head, the PR decisions, the plan and the revision as they were,
  and they either finish the ticket or go back to the same merge-ready candidate.
\<close>

theorem pending_merge_freezes_candidate:
  assumes reach: "lc_reachable s" and pend: "lc_merge_pending s"
    and ap: "lc_apply s a e t = Ok s'"
  shows "to_lowercase a = ''vessel'' \<and> lc_head s' = lc_head s \<and>
    lc_pr_decision s' = lc_pr_decision s \<and> lc_pr_human s' = lc_pr_human s \<and>
    lc_plan s' = lc_plan s \<and> lc_revision s' = lc_revision s \<and> \<not> lc_merge_pending s' \<and>
    (lc_phase s' = Done \<or> is_some_and (lc_head s) (merge_ready s'))"
  using ap
proof (cases rule: lc_apply_cases)
  case same
  from same(2) ap pend have "reconciles e" by (auto simp: lc_apply_def Let_def)
  with same(2) show ?thesis by (cases e) (auto simp: apply_arm_defs)
next
  case (step n)
  from lifecycle_invariant_merge [OF reach] pend
  obtain h where h: "lc_head s = Some h" "merge_ready s h"
    by (auto simp: merge_inv_def is_some_and_iff)
  from step(4) pend have "reconciles e" by simp
  with step(1,2) h show ?thesis
    by (cases e) (auto simp: apply_arm_defs merge_ready_def)
qed

theorem pending_merge_freezes_candidate_witness:
  "\<exists>s s'. lc_reachable s \<and> lc_merge_pending s \<and> lc_apply s ''vessel'' CancelMerge 1 = Ok s' \<and>
     is_some_and (lc_head s) (merge_ready s')"
proof -
  obtain u where u: "lc_reachable u" "merge_ready u ''c0ffee''" "\<not> lc_merge_pending u"
    by (rule demo_ready)
  then have "\<exists>s. lc_apply u ''vessel'' (BeginMerge ''c0ffee'') 1 = Ok s \<and> lc_merge_pending s \<and>
      lc_phase s = Submit"
    by (simp add: leg_simps)
  then obtain s where s: "lc_apply u ''vessel'' (BeginMerge ''c0ffee'') 1 = Ok s"
    "lc_merge_pending s" "lc_phase s = Submit" by blast
  have r: "lc_reachable s" by (rule lc_reachable_apply [OF u(1) s(1)])
  from s have "\<exists>s'. lc_apply s ''vessel'' CancelMerge 1 = Ok s' \<and> lc_phase s' = Submit"
    by (simp add: leg_simps)
  then obtain s' where "lc_apply s ''vessel'' CancelMerge 1 = Ok s'" "lc_phase s' = Submit" by blast
  with pending_merge_freezes_candidate [OF r s(2)] r s(2) show ?thesis by fastforce
qed

end
