(* ===== verification/Lifecycle_Reviews.thy ===== *)
theory Lifecycle_Reviews
  imports Lifecycle_Properties
begin

text \<open>
  Further properties of the ticket lifecycle: the phase graph as a refinement, the audit
  trail, reviews (staleness, veto, delivery), liveness and the absence of panics.
\<close>

text \<open>
  The lifecycle implements the abstract phase graph: every accepted event on
  a reachable ticket either leaves the phase alone or takes an edge of \<open>phase_edge\<close> for the
  acting role. In particular building is only entered from planning work by SENTINEL's plan
  approval, and submit only by SENTINEL's testing approval.
\<close>

theorem lifecycle_refines_phase_graph:
  assumes "lc_reachable s" and "lc_apply s a e t = Ok s'" and "lc_phase s' \<noteq> lc_phase s"
  shows "phase_edge (to_lowercase a) (lc_phase s) (lc_phase s')"
  using assms(2)
proof (cases rule: lc_apply_cases)
  case same
  with assms(3) show ?thesis by simp
next
  case (step n)
  with event_phase [OF step(1) lc_reachable_phase_inv [OF assms(1)] step(3)] assms(3)
  show ?thesis by auto
qed

theorem lifecycle_refines_phase_graph_witness:
  "\<exists>s s'. lc_reachable s \<and> lc_apply s ''FORGE'' (Move Testing (Some ''c0ffee'')) 5 = Ok s' \<and>
     phase_edge ''forge'' (lc_phase s) (lc_phase s')"
proof -
  obtain s where s: "lc_reachable s" "lc_phase s = Building" "\<not> lc_merge_pending s"
    by (rule demo_building)
  have low: "to_lowercase ''FORGE'' = ''forge''" by code_simp
  from s low have "\<exists>s'. lc_apply s ''FORGE'' (Move Testing (Some ''c0ffee'')) 5 = Ok s' \<and>
      lc_phase s' = Testing"
    by (simp add: leg_simps)
  then obtain s' where s': "lc_apply s ''FORGE'' (Move Testing (Some ''c0ffee'')) 5 = Ok s'"
    "lc_phase s' = Testing" by blast
  from lifecycle_refines_phase_graph [OF s(1) s'(1)] s s' low show ?thesis by auto
qed

text \<open>
  The history of every reachable ticket is the path it took: record versions
  count up by one, each record starts in the phase where the previous one ended, the last one
  ends in the current phase, and the version is the number of records (modulo \<open>2 ^ 64\<close>).
\<close>

theorem history_is_the_path_taken:
  assumes "lc_reachable s"
  shows "\<exists>p. (p = Planning \<or> p = Done) \<and> history_path 0 p (lc_history s) (lc_phase s) \<and>
    lc_version s = of_nat (length (lc_history s))"
  using lchist.reach_inv [OF assms] by (auto simp: history_inv_def)

theorem history_is_the_path_taken_witness:
  "\<exists>s p. lc_reachable s \<and> lc_phase s = Submit \<and> history_path 0 p (lc_history s) Submit"
proof -
  obtain s where "lc_reachable s" "lc_phase s = Submit" by (rule demo_submit)
  with history_is_the_path_taken [of s] show ?thesis by metis
qed

text \<open>
  An accepted event either changes nothing at all (a move to the current
  phase) or appends exactly one history record, raises the version by one and stamps the
  lower-cased actor and the time; nothing else in the history is touched.
\<close>

theorem apply_appends_one_record:
  assumes "lc_apply s a e t = Ok s'"
  shows "(s' = s \<and> (\<exists>h. e = Move (lc_phase s) h)) \<or>
    (lc_version s' = lc_version s + 1 \<and> lc_role s' = to_lowercase a \<and> lc_ts s' = t \<and>
     lc_history s' = lc_history s @ [\<lparr>tr_version = lc_version s + 1, tr_actor = to_lowercase a,
       tr_from = lc_phase s, tr_to = lc_phase s', tr_ts = t, tr_detail = event_detail s e\<rparr>])"
  using assms
proof (cases rule: lc_apply_cases)
  case same
  then show ?thesis by (cases e) (auto simp: apply_arm_defs split: if_splits option.splits)
next
  case (step n)
  with apply_event_frame [OF step(1)] show ?thesis by (simp add: stamp_def Let_def)
qed

theorem apply_appends_one_record_witness:
  "\<exists>s'. lc_apply default_lifecycle ''Forge'' (Plan ''# Plan'') 3 = Ok s' \<and> lc_version s' = 1"
proof -
  have low: "to_lowercase ''Forge'' = ''forge''" by code_simp
  then have "\<exists>s'. lc_apply default_lifecycle ''Forge'' (Plan ''# Plan'') 3 = Ok s'"
    by (simp add: leg_simps default_lifecycle_def)
  then obtain s' where s': "lc_apply default_lifecycle ''Forge'' (Plan ''# Plan'') 3 = Ok s'" ..
  from apply_appends_one_record [OF s'] have "lc_version s' = 1"
    by (auto simp: default_lifecycle_def)
  with s' show ?thesis by blast
qed

text \<open>
  Stale reviews are refused: a review is only accepted for the current phase,
  round and plan revision, with a non-blank report, from SENTINEL or a human (the plan from
  SENTINEL only), and outside plan review it must name the current head; approving in testing
  needs a successful verification of that head, and reviewing a PR needs a recorded PR.
\<close>

theorem accepted_review_is_current:
  assumes "lc_apply s a (Decide rnd p app rep rv h) t = Ok s'"
  shows "p = lc_phase s \<and> rnd = lc_review_round s \<and> rv = lc_revision s \<and> \<not> blank rep \<and>
    to_lowercase a \<in> {''sentinel'', ''human''} \<and> p \<in> {PlanReady, Testing, Submit} \<and>
    (p = PlanReady \<longrightarrow> to_lowercase a = ''sentinel'') \<and>
    (p \<noteq> PlanReady \<longrightarrow> h \<noteq> None \<and> h = lc_head s) \<and>
    (p = Testing \<and> app \<longrightarrow> lc_verified_head s = h \<and> lc_verification_task s \<noteq> None) \<and>
    (p = Submit \<longrightarrow> lc_pr_number s \<noteq> None) \<and> \<not> lc_merge_pending s"
  using assms
  by (auto simp: lc_apply_def Let_def bind_result_Ok apply_decide_def)

theorem accepted_review_is_current_witness:
  "\<exists>s s'. lc_apply s ''human'' (Decide (lc_review_round s) Submit False ''no'' (lc_revision s)
      (Some ''c0ffee'')) 1 = Ok s' \<and> lc_pr_number s \<noteq> None"
proof -
  obtain s where s: "merge_ready s ''c0ffee''" "lc_pr_number s = Some 7" "\<not> lc_merge_pending s"
    by (rule demo_ready)
  then have "\<exists>s'. lc_apply s ''human'' (Decide (lc_review_round s) Submit False ''no''
      (lc_revision s) (Some ''c0ffee'')) 1 = Ok s'"
    by (simp add: leg_simps)
  then show ?thesis using accepted_review_is_current by blast
qed

text \<open>
  A rejected candidate loses its evidence: after an accepted rejection in
  testing or submit the ticket is back in building with the report as feedback, the plan
  approval still in force, no head, no verification and no test or PR decision, so that it
  cannot be merged; a human veto also withdraws a queued SENTINEL review.
\<close>

theorem rejection_discards_evidence:
  assumes "lc_reachable s" and "lc_apply s a (Decide rnd p False rep rv h) t = Ok s'"
    and "p \<noteq> PlanReady"
  shows "lc_phase s' = Building \<and> lc_feedback s' = Some rep \<and> no_candidate s' \<and> plan_gate s' \<and>
    \<not> merge_ready s' x \<and> (to_lowercase a = ''human'' \<longrightarrow> lc_pr_delivery s' = None)"
proof -
  from assms(2,3) have "lc_phase s' = Building \<and> lc_feedback s' = Some rep \<and>
      (to_lowercase a = ''human'' \<longrightarrow> lc_pr_delivery s' = None)"
    by (cases p)
      (auto simp: lc_apply_def Let_def bind_result_Ok apply_decide_def decide_effect_def
        clear_work_def)
  moreover have "phase_inv s'"
    by (rule lc_reachable_phase_inv [OF lc_reachable_apply [OF assms(1,2)]])
  ultimately show ?thesis by (auto simp: phase_inv_def merge_ready_def)
qed

theorem rejection_discards_evidence_witness:
  "\<exists>s s'. lc_reachable s \<and> merge_ready s ''c0ffee'' \<and>
     lc_apply s ''human'' (Decide (lc_review_round s) Submit False ''no'' (lc_revision s)
      (Some ''c0ffee'')) 1 = Ok s' \<and> no_candidate s'"
proof -
  obtain s where s: "lc_reachable s" "merge_ready s ''c0ffee''" "lc_pr_number s = Some 7"
    "\<not> lc_merge_pending s" by (rule demo_ready)
  then have "\<exists>s'. lc_apply s ''human'' (Decide (lc_review_round s) Submit False ''no''
      (lc_revision s) (Some ''c0ffee'')) 1 = Ok s'"
    by (simp add: leg_simps)
  with rejection_discards_evidence [OF s(1)] s show ?thesis by blast
qed

text \<open>
  C7 (liveness). No ticket is stuck: from every reachable unfinished state there is a run of
  accepted events after which the given head is ready to merge with every gate passed for it, and VESSEL's two merge events for
  this head and PR then finish the ticket; \<open>ReconcileMerged\<close> is not used. This includes tickets that are blocked, rejected or in
  the middle of a merge, and a revision counter about to wrap.
\<close>

theorem every_ticket_can_finish:
  assumes "lc_reachable s" and "lc_phase s \<noteq> Done"
    and "\<not> blank h" and "0 < k" and "sha \<noteq> []"
  shows "\<exists>es s1 s'. lc_run s es = Ok s1 \<and> merge_ready s1 h \<and> lc_pr_number s1 = Some k \<and>
    lc_run s1 [(''vessel'', BeginMerge h, 0), (''vessel'', Merged k h sha, 0)] = Ok s' \<and>
    lc_phase s' = Done \<and> lc_head s' = Some h \<and> lc_merge_sha s' = Some sha \<and> lc_pr_number s' = Some k \<and>
    (\<forall>a e t. (a, e, t) \<in> set es \<longrightarrow> (\<forall>i x. e \<noteq> ReconcileMerged i x))"
proof -
  obtain e1 s1 where 1: "lc_run s e1 = Ok s1" "lc_phase s1 = Planning" "\<not> lc_merge_pending s1"
    "\<forall>a e t. (a, e, t) \<in> set e1 \<longrightarrow> e = CancelMerge \<or> e = Move Planning None"
    using escape_runs [OF assms(1,2)] by metis
  obtain e2 s2 where 2: "lc_run s1 e2 = Ok s2" "lc_phase s2 = Planning" "\<not> lc_merge_pending s2"
    "lc_revision s2 + 1 \<noteq> 0" "\<forall>a e t. (a, e, t) \<in> set e2 \<longrightarrow> (\<exists>c. e = Plan c)"
    using replan_runs [OF 1(2,3)] by metis
  obtain s3 where 3: "lc_run s2 (plan_leg s2 ''ok'' ''ok'' 0) = Ok s3" "lc_phase s3 = Building"
    "\<not> lc_merge_pending s3"
    using plan_leg_runs [OF 2(2,3) demo_blank(2) demo_blank(2) 2(4)] by blast
  obtain s4 where 4: "lc_run s3 (test_leg s3 h ''t'' ''ok'' 0) = Ok s4" "lc_phase s4 = Submit"
    "\<not> lc_merge_pending s4" "lc_head s4 = Some h"
    using test_leg_runs [OF 3(2,3) assms(3) demo_blank(2), of "''t''"] by blast
  obtain s5 where 5: "lc_run s4 (review_leg s4 h k ''ok'' 0) = Ok s5" "merge_ready s5 h"
    "\<not> lc_merge_pending s5" "lc_pr_number s5 = Some k"
    using review_leg_runs [OF 4(2-4) demo_blank(2) assms(4)] by blast
  obtain s6 where 6: "lc_run s5 [(''vessel'', BeginMerge h, 0), (''vessel'', Merged k h sha, 0)] = Ok s6" "lc_phase s6 = Done"
    "lc_merge_sha s6 = Some sha" "lc_pr_number s6 = Some k" "lc_head s6 = Some h"
    using merge_leg_runs [OF 5(2-4) assms(5), of 0] unfolding merge_leg_def by blast
  let ?es = "e1 @ e2 @ plan_leg s2 ''ok'' ''ok'' 0 @ test_leg s3 h ''t'' ''ok'' 0 @ review_leg s4 h k ''ok'' 0"
  have "lc_run s ?es = Ok s5"
    by (simp only: lc_run_append_Ok [OF 1(1)] lc_run_append_Ok [OF 2(1)] lc_run_append_Ok [OF 3(1)]
        lc_run_append_Ok [OF 4(1)] 5(1))
  moreover have "\<forall>a e t. (a, e, t) \<in> set ?es \<longrightarrow> (\<forall>i x. e \<noteq> ReconcileMerged i x)"
    using 1(4) 2(5)
    by (auto simp: plan_leg_def test_leg_def review_leg_def Let_def) blast
  ultimately show ?thesis using 5(2,4) 6 by blast
qed

theorem every_ticket_can_finish_witness:
  "\<exists>es s1 s'. lc_run default_lifecycle es = Ok s1 \<and> merge_ready s1 ''c0ffee'' \<and>
     lc_run s1 [(''vessel'', BeginMerge ''c0ffee'', 0), (''vessel'', Merged 7 ''c0ffee'' ''abc'', 0)] = Ok s' \<and>
     lc_phase s' = Done \<and> lc_head s' = Some ''c0ffee'' \<and> lc_merge_sha s' = Some ''abc''"
proof -
  have "lc_phase default_lifecycle \<noteq> Done" "(0::u64) < 7" "''abc'' \<noteq> []"
    by (simp_all add: default_lifecycle_def word_gt_0)
  from every_ticket_can_finish [OF default_reachable this(1) demo_blank(3) this(2,3)]
  show ?thesis by blast
qed

text \<open>
  The transition function never reaches its \<open>unreachable!()\<close>: whatever the state,
  actor, event and time, \<open>apply\<close> returns a state or one of its stated refusals.
\<close>

theorem apply_never_panics:
  "lc_apply s a e t \<noteq> Err ''internal error: entered unreachable code''"
proof -
  let ?m = "''internal error: entered unreachable code''"
  have dec: "decide_effect s b p app rep d = None \<longleftrightarrow> p \<notin> {PlanReady, Testing, Submit}"
    for b p app rep d
    by (cases p) (simp_all add: decide_effect_def)
  have "apply_decide s b rnd p app rep rv h \<noteq> Err ?m" for b rnd p app rep rv h
    unfolding apply_decide_def Let_def
    by (simp add: ensure_def dec split: option.split)
  then have "apply_event s b e \<noteq> Err ?m" for b
    by (cases e)
      (simp_all add: apply_plan_def apply_move_def apply_block_def apply_verified_def apply_pr_def
        apply_review_delivered_def apply_begin_merge_def apply_cancel_merge_def
        apply_reconcile_merged_def apply_merged_def ensure_Err)
  then show ?thesis
    by (auto simp: lc_apply_def Let_def ensure_Err bind_result_def split: sum.splits option.splits)
qed

text \<open>
  Delivery of a PR review: once SENTINEL and then a human approve the current
  head of the recorded PR in submit, SENTINEL's decision is deliverable, and recording its
  delivery makes the head ready to merge.
\<close>

theorem approved_review_is_delivered_then_merge_ready:
  assumes "lc_phase s = Submit" and "lc_head s = Some h" and "lc_pr_number s = Some k"
    and "lc_apply s ''sentinel'' (Decide r Submit True rep rv (Some h)) t1 = Ok s1"
    and "lc_apply s1 ''human'' (Decide r' Submit True rep' rv' (Some h)) t2 = Ok s2"
  shows "deliverable_review s2 = Some \<lparr>d_pr_number = Some k, d_round = lc_review_round s,
      d_actor = ''sentinel'', d_approved = True, d_report = rep, d_revision = lc_revision s,
      d_head = Some h\<rparr> \<and>
    (\<exists>s3. lc_apply s2 ''sentinel'' (ReviewDelivered (lc_review_round s)) t3 = Ok s3 \<and>
       merge_ready s3 h \<and> deliverable_review s3 = None)"
proof -
  from assms(1-4) have 1: "lc_phase s1 = Submit \<and> lc_head s1 = Some h \<and> lc_pr_number s1 = Some k \<and>
      lc_review_round s1 = lc_review_round s \<and> lc_revision s1 = lc_revision s \<and>
      lc_pr_decision s1 = lc_pr_delivery s1 \<and>
      lc_pr_delivery s1 = Some \<lparr>d_pr_number = Some k, d_round = lc_review_round s,
        d_actor = ''sentinel'', d_approved = True, d_report = rep, d_revision = lc_revision s,
        d_head = Some h\<rparr>"
    by (auto simp: lc_apply_def Let_def bind_result_Ok apply_decide_def decide_effect_def)
  with assms(5) have 2: "lc_phase s2 = Submit \<and> lc_head s2 = Some h \<and> lc_pr_number s2 = Some k \<and>
      lc_review_round s2 = lc_review_round s \<and> lc_revision s2 = lc_revision s \<and>
      lc_pr_decision s2 = lc_pr_decision s1 \<and> lc_pr_delivery s2 = lc_pr_delivery s1 \<and>
      is_some_and (lc_pr_human s2) d_approved \<and> \<not> lc_merge_pending s2"
    by (auto simp: lc_apply_def Let_def bind_result_Ok apply_decide_def decide_effect_def)
  with 1 show ?thesis
    by (auto simp: deliverable_review_def leg_simps)
qed

theorem approved_review_is_delivered_then_merge_ready_witness:
  "\<exists>s s1 s2. lc_apply s ''sentinel'' (Decide (lc_review_round s) Submit True ''ok''
       (lc_revision s) (Some ''c0ffee'')) 1 = Ok s1 \<and>
     lc_apply s1 ''human'' (Decide (lc_review_round s) Submit True ''ok'' (lc_revision s)
       (Some ''c0ffee'')) 1 = Ok s2 \<and> deliverable_review s2 \<noteq> None"
proof -
  obtain s where s: "merge_ready s ''c0ffee''" "lc_pr_number s = Some 7" "\<not> lc_merge_pending s"
    by (rule demo_ready)
  then have ph: "lc_phase s = Submit" "lc_head s = Some ''c0ffee''" by (auto simp: merge_ready_def)
  obtain s1 where s1: "lc_apply s ''sentinel'' (Decide (lc_review_round s) Submit True ''ok''
       (lc_revision s) (Some ''c0ffee'')) 1 = Ok s1" "lc_phase s1 = Submit"
       "lc_head s1 = Some ''c0ffee''" "lc_pr_number s1 = Some 7" "\<not> lc_merge_pending s1"
       "lc_review_round s1 = lc_review_round s" "lc_revision s1 = lc_revision s"
    using ph s by (simp add: leg_simps)
  then obtain s2 where s2: "lc_apply s1 ''human'' (Decide (lc_review_round s) Submit True ''ok''
       (lc_revision s) (Some ''c0ffee'')) 1 = Ok s2"
    by (simp add: leg_simps)
  have "deliverable_review s2 \<noteq> None"
    using approved_review_is_delivered_then_merge_ready [OF ph s(2) s1(1) s2] by simp
  with s1(1) s2 show ?thesis by blast
qed

end
