(* ===== verification/Glob.thy ===== *)
theory Glob
  imports Prelude
begin

text \<open>
  \<open>glob_match\<close> of \<open>src/crates/pocketflow-core/src/store.rs\<close>, the matcher behind key
  enumeration: the backtracking loop over two indices with the position of the last star,
  and its equivalence with the declarative meaning of a pattern.
\<close>

abbreviation STAR :: char where "STAR \<equiv> CHR ''*''"
abbreviation QM :: char where "QM \<equiv> CHR ''?''"

text \<open>The trailing loop: only stars may remain.\<close>

definition rest_is_stars :: "string \<Rightarrow> nat \<Rightarrow> bool" where
  "rest_is_stars p pi = (dropWhile (\<lambda>c. c = STAR) (drop pi p) = [])"

text \<open>The main loop; \<open>star = None\<close> is the source's \<open>usize::MAX\<close>.\<close>

function glob_loop ::
  "string \<Rightarrow> string \<Rightarrow> nat \<Rightarrow> nat \<Rightarrow> nat option \<Rightarrow> nat \<Rightarrow> bool" where
  "glob_loop p t pi ti star mark =
     (if ti < length t
      then if pi < length p \<and> (p ! pi = QM \<or> p ! pi = t ! ti)
           then glob_loop p t (pi + 1) (ti + 1) star mark
           else if pi < length p \<and> p ! pi = STAR
           then glob_loop p t (pi + 1) ti (Some pi) ti
           else (case star of
                   Some s \<Rightarrow> glob_loop p t (s + 1) (mark + 1) star (mark + 1)
                 | None \<Rightarrow> False)
      else rest_is_stars p pi)"
  by pat_completeness auto
termination
  by (relation "measures [\<lambda>(p, t, pi, ti, star, mark). if mark \<le> ti then 0 else 1,
        \<lambda>(p, t, pi, ti, star, mark). length t - mark,
        \<lambda>(p, t, pi, ti, star, mark). length t - ti,
        \<lambda>(p, t, pi, ti, star, mark). length p - pi]") auto

declare glob_loop.simps [simp del]

definition glob_match :: "string \<Rightarrow> string \<Rightarrow> bool" where
  "glob_match p t = glob_loop p t 0 0 None 0"

section \<open>The meaning of a pattern\<close>

text \<open>
  \<open>*\<close> stands for any run of characters, \<open>?\<close> for one character, everything else for itself.
\<close>

fun glob_spec :: "string \<Rightarrow> string \<Rightarrow> bool" where
  "glob_spec [] t = (t = [])"
| "glob_spec (c # p) t =
     (if c = STAR then glob_spec p t \<or> (case t of [] \<Rightarrow> False | _ # t' \<Rightarrow> glob_spec (c # p) t')
      else (case t of [] \<Rightarrow> False | x # t' \<Rightarrow> (c = QM \<or> c = x) \<and> glob_spec p t'))"

lemma glob_spec_star: "glob_spec (STAR # p) t \<longleftrightarrow> (\<exists>k \<le> length t. glob_spec p (drop k t))"
proof (induction t)
  case Nil
  then show ?case by simp
next
  case (Cons x t)
  have "(\<exists>k \<le> length (x # t). glob_spec p (drop k (x # t))) \<longleftrightarrow>
      glob_spec p (x # t) \<or> (\<exists>k \<le> length t. glob_spec p (drop k t))"
    by (metis Suc_le_mono bot_nat_0.extremum drop0 drop_Suc_Cons length_Cons not0_implies_Suc)
  with Cons.IH show ?case by simp
qed

lemma glob_spec_literal:
  "c \<noteq> STAR \<Longrightarrow> glob_spec (c # p) (x # t) \<longleftrightarrow> (c = QM \<or> c = x) \<and> glob_spec p t"
  "c \<noteq> STAR \<Longrightarrow> \<not> glob_spec (c # p) []"
  by simp_all

lemma glob_spec_empty: "glob_spec p [] \<longleftrightarrow> (\<forall>c \<in> set p. c = STAR)"
  by (induction p) auto

text \<open>A star-free segment consumes exactly its own length.\<close>

lemma glob_spec_segment:
  assumes "STAR \<notin> set seg"
  shows "glob_spec (seg @ p) t \<longleftrightarrow> length seg \<le> length t \<and>
    (\<forall>i < length seg. seg ! i = QM \<or> seg ! i = t ! i) \<and> glob_spec p (drop (length seg) t)"
  using assms
proof (induction seg arbitrary: t)
  case Nil
  then show ?case by simp
next
  case (Cons c seg)
  then show ?case
    by (cases t) (auto simp: nth_Cons All_less_Suc2 split: nat.splits)
qed

section \<open>Correctness of the loop\<close>

text \<open>
  What the loop still has to decide: the rest of the pattern against the rest of the text, or
  a later alignment of what follows the last star.
\<close>

definition glob_goal :: "string \<Rightarrow> string \<Rightarrow> nat \<Rightarrow> nat \<Rightarrow> nat option \<Rightarrow> nat \<Rightarrow> bool" where
  "glob_goal p t pi ti star mark \<longleftrightarrow> glob_spec (drop pi p) (drop ti t) \<or>
     (case star of None \<Rightarrow> False
      | Some s \<Rightarrow> (\<exists>k > mark. k \<le> length t \<and> glob_spec (drop (s + 1) p) (drop k t)))"

text \<open>The segment between the last star and the pattern index is star-free and aligned.\<close>

definition glob_inv :: "string \<Rightarrow> string \<Rightarrow> nat \<Rightarrow> nat \<Rightarrow> nat option \<Rightarrow> nat \<Rightarrow> bool" where
  "glob_inv p t pi ti star mark \<longleftrightarrow> pi \<le> length p \<and> ti \<le> length t \<and>
     (case star of None \<Rightarrow> True
      | Some s \<Rightarrow> s < pi \<and> mark \<le> ti \<and> ti - mark = pi - (s + 1) \<and>
          STAR \<notin> set (take (pi - (s + 1)) (drop (s + 1) p)))"

lemma drop_segment:
  assumes "s < pi" and "pi \<le> length p"
  shows "drop (s + 1) p = take (pi - (s + 1)) (drop (s + 1) p) @ drop pi p"
  using assms by (metis Suc_eq_plus1 Suc_leI add.commute append_take_drop_id drop_drop le_add_diff_inverse)

lemma segment_extend:
  assumes "s < pi" and "pi < length p"
  shows "take (pi - s) (drop (Suc s) p) = take (pi - Suc s) (drop (Suc s) p) @ [p ! pi]"
proof -
  have "pi - s = Suc (pi - Suc s)" using assms by simp
  moreover have "pi - Suc s < length (drop (Suc s) p)" using assms by simp
  ultimately show ?thesis using assms by (simp add: take_Suc_conv_app_nth)
qed

text \<open>Another alignment after the last star lets the remaining pattern match further right.\<close>

lemma later_alignment:
  assumes inv: "glob_inv p t pi ti (Some s) mark"
    and k: "mark < k" "k \<le> length t" "glob_spec (drop (s + 1) p) (drop k t)"
  shows "\<exists>j > ti. j \<le> length t \<and> glob_spec (drop pi p) (drop j t)"
proof -
  let ?seg = "take (pi - (s + 1)) (drop (s + 1) p)"
  from inv have s: "s < pi" "pi \<le> length p" "mark \<le> ti" "ti - mark = pi - (s + 1)"
    and nostar: "STAR \<notin> set ?seg"
    by (auto simp: glob_inv_def)
  have len: "length ?seg = pi - (s + 1)" using s by simp
  from k(3) have "glob_spec (?seg @ drop pi p) (drop k t)"
    using drop_segment [OF s(1,2)] by simp
  then have "length ?seg \<le> length (drop k t)"
    and "glob_spec (drop pi p) (drop (length ?seg) (drop k t))"
    using glob_spec_segment [OF nostar] by blast+
  then have "pi - (s + 1) + k \<le> length t"
    and "glob_spec (drop pi p) (drop (pi - (s + 1) + k) t)"
    using k(2) len by (auto simp: drop_drop)
  moreover have "ti < pi - (s + 1) + k" using s k(1) by linarith
  ultimately show ?thesis by blast
qed

lemma ex_after_Suc:
  assumes "m < (n :: nat)"
  shows "(P (m + 1) \<or> (\<exists>k > m + 1. k \<le> n \<and> P k)) \<longleftrightarrow> (\<exists>k > m. k \<le> n \<and> P k)"
  using assms by (metis Suc_eq_plus1 Suc_leI Suc_lessD less_Suc_eq not_less_eq)

lemma glob_goal_at_star:
  assumes inv: "glob_inv p t pi ti star mark" and dp: "drop pi p = STAR # drop (pi + 1) p"
    and ti: "ti < length t"
  shows "glob_goal p t (pi + 1) ti (Some pi) ti = glob_goal p t pi ti star mark"
proof -
  let ?P = "\<lambda>k. k \<le> length t \<and> glob_spec (drop (pi + 1) p) (drop k t)"
  have new: "glob_goal p t (pi + 1) ti (Some pi) ti \<longleftrightarrow> (\<exists>k \<ge> ti. ?P k)"
    using ti by (auto simp: glob_goal_def) (metis le_eq_less_or_eq)+
  have spec: "glob_spec (drop pi p) (drop i t) \<longleftrightarrow> (\<exists>k \<ge> i. ?P k)" if "i \<le> length t" for i
    unfolding dp glob_spec_star
    by (metis (no_types, lifting) add.commute add_le_imp_le_diff drop_drop le_add1 le_add_diff_inverse
        length_drop nat_add_left_cancel_le that)
  have "\<exists>k \<ge> ti. ?P k"
    if "star = Some s" "mark < k" "k \<le> length t" "glob_spec (drop (s + 1) p) (drop k t)" for s k
    using later_alignment [of p t pi ti s mark k] that inv spec by (metis less_imp_le order_trans)
  with new spec [of ti] ti show ?thesis
    by (auto simp: glob_goal_def split: option.splits)
qed

lemma glob_loop_correct:
  assumes "STAR \<notin> set t" and "glob_inv p t pi ti star mark"
  shows "glob_loop p t pi ti star mark \<longleftrightarrow> glob_goal p t pi ti star mark"
  using assms
proof (induction p t pi ti star mark rule: glob_loop.induct)
  case (1 p t pi ti star mark)
  note nostar = "1.prems"(1) and inv = "1.prems"(2)
  show ?case
  proof (cases "ti < length t")
    case False
    with inv have end_t: "drop ti t = []" "ti = length t" by (auto simp: glob_inv_def)
    have "\<not> (\<exists>k > mark. k \<le> length t \<and> glob_spec (drop (s + 1) p) (drop k t))" if "star = Some s" for s
      using later_alignment inv that end_t by fastforce
    then show ?thesis
      using False end_t
      by (auto simp: glob_loop.simps [of p t] rest_is_stars_def glob_goal_def glob_spec_empty
          split: option.splits)
  next
    case ti: True
    have dt: "drop ti t = t ! ti # drop (ti + 1) t" using ti by (simp add: Cons_nth_drop_Suc)
    have tns: "t ! ti \<noteq> STAR" using nostar ti nth_mem by metis
    show ?thesis
    proof (cases "pi < length p \<and> (p ! pi = QM \<or> p ! pi = t ! ti)")
      case lit: True
      then have dp: "drop pi p = p ! pi # drop (pi + 1) p" by (simp add: Cons_nth_drop_Suc)
      have ns: "p ! pi \<noteq> STAR" using lit tns by auto
      have "glob_inv p t (pi + 1) (ti + 1) star mark"
        using inv lit ti ns by (auto simp: glob_inv_def segment_extend split: option.splits)
      then have "glob_loop p t (pi + 1) (ti + 1) star mark = glob_goal p t (pi + 1) (ti + 1) star mark"
        using "1.IH"(1) ti lit nostar by blast
      moreover have "glob_goal p t (pi + 1) (ti + 1) star mark = glob_goal p t pi ti star mark"
        using lit ns by (simp add: glob_goal_def dp dt)
      ultimately show ?thesis using ti lit by (simp add: glob_loop.simps [of p t pi ti])
    next
      case nolit: False
      show ?thesis
      proof (cases "pi < length p \<and> p ! pi = STAR")
        case st: True
        then have dp: "drop pi p = STAR # drop (pi + 1) p"
          by (metis Cons_nth_drop_Suc Suc_eq_plus1)
        have "glob_inv p t (pi + 1) ti (Some pi) ti"
          using inv st ti by (auto simp: glob_inv_def)
        then have "glob_loop p t (pi + 1) ti (Some pi) ti = glob_goal p t (pi + 1) ti (Some pi) ti"
          using "1.IH"(2) ti nolit st nostar by blast
        moreover have "glob_goal p t (pi + 1) ti (Some pi) ti = glob_goal p t pi ti star mark"
          by (rule glob_goal_at_star [OF inv dp ti])
        ultimately show ?thesis using ti nolit st by (simp add: glob_loop.simps [of p t pi ti])
      next
        case nost: False
        have stuck: "\<not> glob_spec (drop pi p) (drop ti t)"
        proof (cases "pi < length p")
          case True
          then have "drop pi p = p ! pi # drop (pi + 1) p" by (simp add: Cons_nth_drop_Suc)
          with True nolit nost dt show ?thesis by auto
        next
          case False
          with dt show ?thesis by simp
        qed
        show ?thesis
        proof (cases star)
          case None
          with ti nolit nost stuck show ?thesis
            by (auto simp: glob_loop.simps [of p t pi ti] glob_goal_def)
        next
          case (Some s)
          have inv': "glob_inv p t (s + 1) (mark + 1) star (mark + 1)"
            using inv ti Some by (auto simp: glob_inv_def)
          have "glob_loop p t (s + 1) (mark + 1) star (mark + 1) =
              glob_goal p t (s + 1) (mark + 1) star (mark + 1)"
            using "1.IH"(3) [OF ti nolit nost Some nostar inv'] by simp
          moreover have "glob_goal p t (s + 1) (mark + 1) star (mark + 1) = glob_goal p t pi ti star mark"
          proof -
            have "mark < length t" using inv ti Some by (auto simp: glob_inv_def)
            from ex_after_Suc [OF this, of "\<lambda>k. glob_spec (drop (s + 1) p) (drop k t)"]
            show ?thesis using stuck Some by (simp add: glob_goal_def)
          qed
          ultimately show ?thesis
            using ti nolit nost Some by (auto simp: glob_loop.simps [of p t pi ti])
        qed
      qed
    qed
  qed
qed

text \<open>
  C35 (equivalence). On texts without a literal star the two-index backtracking matcher decides
  exactly the declarative meaning of the pattern.
\<close>

theorem glob_match_correct:
  assumes "STAR \<notin> set t"
  shows "glob_match p t \<longleftrightarrow> glob_spec p t"
proof -
  have "glob_inv p t 0 0 None 0" by (simp add: glob_inv_def)
  from glob_loop_correct [OF assms this] show ?thesis
    by (simp add: glob_match_def glob_goal_def)
qed

theorem glob_match_correct_witness:
  "glob_match ''ns:a:*:chat:?'' ''ns:a:ticket:T-1:chat:f'' \<and> \<not> glob_match ''ns:a:*'' ''ns:b:x''"
proof -
  have "glob_spec ''ns:a:*:chat:?'' ''ns:a:ticket:T-1:chat:f''" by code_simp
  moreover have "\<not> glob_spec ''ns:a:*'' ''ns:b:x''" by code_simp
  ultimately show ?thesis
    using glob_match_correct [of "''ns:a:ticket:T-1:chat:f''" "''ns:a:*:chat:?''"]
      glob_match_correct [of "''ns:b:x''" "''ns:a:*''"] by simp
qed

text \<open>
  The restriction is needed: a star in the text is consumed by a star of the
  pattern as if it were an ordinary character, so the pattern \<open>*\<close> does not match \<open>*ab\<close>
  although its documented meaning is any run of characters.
\<close>

theorem glob_match_star_in_text:
  "\<not> glob_match ''*'' ''*ab'' \<and> glob_spec ''*'' ''*ab''"
proof
  show "\<not> glob_match ''*'' ''*ab''"
    by (simp add: glob_match_def glob_loop.simps [of "''*''" "''*ab''"])
  show "glob_spec ''*'' ''*ab''" by code_simp
qed

end
