(* ===== verification/Json.thy ===== *)
theory Json
  imports Prelude "HOL-Library.Monad_Syntax"
begin

text \<open>
  The \<open>serde_json::Value\<close> type and the parts of serde's data model that the sources rely on:
  reading the fields of an object into a struct (missing fields, defaults, options) and the
  scalar conversions. A number is a \<open>u64\<close>, a negative integer or a float (kept as its text).
  An object is an association list; a reader finds the first entry of a key.
\<close>

datatype json_number = PosInt u64 | NegInt int | FloatNum string

datatype json =
    JNull
  | JBool bool
  | JNum json_number
  | JStr string
  | JArr "json list"
  | JObj "(string \<times> json) list"

text \<open>\<open>Value::get\<close> with a string index, \<open>as_str\<close>, \<open>as_u64\<close>, \<open>as_array\<close>.\<close>

fun json_get :: "json \<Rightarrow> string \<Rightarrow> json option" where
  "json_get (JObj fs) k = map_of fs k"
| "json_get _ k = None"

fun as_str :: "json \<Rightarrow> string option" where
  "as_str (JStr s) = Some s"
| "as_str _ = None"

fun as_u64 :: "json \<Rightarrow> u64 option" where
  "as_u64 (JNum (PosInt n)) = Some n"
| "as_u64 _ = None"

fun as_array :: "json \<Rightarrow> json list option" where
  "as_array (JArr xs) = Some xs"
| "as_array _ = None"

section \<open>Deserialisation of scalars, options, vectors and fields\<close>

abbreviation de_u64 :: "json \<Rightarrow> u64 option" where
  "de_u64 \<equiv> as_u64"

abbreviation de_string :: "json \<Rightarrow> string option" where
  "de_string \<equiv> as_str"

fun de_bool :: "json \<Rightarrow> bool option" where
  "de_bool (JBool b) = Some b"
| "de_bool _ = None"

fun de_option :: "(json \<Rightarrow> 'a option) \<Rightarrow> json \<Rightarrow> 'a option option" where
  "de_option f JNull = Some None"
| "de_option f v = map_option Some (f v)"

fun de_vec :: "(json \<Rightarrow> 'a option) \<Rightarrow> json \<Rightarrow> 'a list option" where
  "de_vec f (JArr xs) = those (map f xs)"
| "de_vec f _ = None"

definition de_req :: "(string \<times> json) list \<Rightarrow> string \<Rightarrow> (json \<Rightarrow> 'a option) \<Rightarrow> 'a option" where
  "de_req fs k f = Option.bind (map_of fs k) f"

definition de_dflt :: "(string \<times> json) list \<Rightarrow> string \<Rightarrow> (json \<Rightarrow> 'a option) \<Rightarrow> 'a \<Rightarrow> 'a option" where
  "de_dflt fs k f d = (case map_of fs k of None \<Rightarrow> Some d | Some v \<Rightarrow> f v)"

section \<open>Serialisation\<close>

fun ser_option :: "('a \<Rightarrow> json) \<Rightarrow> 'a option \<Rightarrow> json" where
  "ser_option f None = JNull"
| "ser_option f (Some v) = f v"

definition ser_u64 :: "u64 \<Rightarrow> json" where
  "ser_u64 n = JNum (PosInt n)"

definition ser_vec :: "('a \<Rightarrow> json) \<Rightarrow> 'a list \<Rightarrow> json" where
  "ser_vec f xs = JArr (map f xs)"

lemma de_ser_u64 [simp]: "as_u64 (ser_u64 n) = Some n"
  by (simp add: ser_u64_def)

lemma de_ser_option:
  assumes "\<And>v. f (g v) = Some v" and "\<And>v. g v \<noteq> JNull"
  shows "de_option f (ser_option g x) = Some x"
proof (cases x)
  case None
  then show ?thesis by simp
next
  case (Some v)
  with assms show ?thesis by (cases "g v") (auto, (metis assms(1) option.simps(9))+)
qed

lemma those_map_Some: "(\<And>v. f (g v) = Some v) \<Longrightarrow> those (map f (map g xs)) = Some xs"
  by (induction xs) auto

lemma de_ser_vec: "(\<And>v. f (g v) = Some v) \<Longrightarrow> de_vec f (ser_vec g xs) = Some xs"
  by (simp add: ser_vec_def those_map_Some [simplified])

end
