(* ===== verification/Lifecycle_Codec.thy ===== *)
theory Lifecycle_Codec
  imports Lifecycle_Safety Json
begin

text \<open>
  The stored form of a lifecycle record: serde's derived encoding of the structs of
  \<open>src/crates/config/src/lifecycle.rs\<close> (field names, \<open>rename_all = "snake_case"\<close> for phases,
  \<open>#[serde(default)]\<close>), \<open>Phase::parse\<close> and \<open>Lifecycle::decode\<close>, which also upgrades
  legacy records. The text of an error raised inside serde is not modelled.
\<close>

section \<open>Encoding\<close>

definition phase_to_json :: "Phase \<Rightarrow> json" where
  "phase_to_json p = JStr (phase_as_str p)"

definition decision_to_json :: "Decision \<Rightarrow> json" where
  "decision_to_json d = JObj [
     (''pr_number'', ser_option ser_u64 (d_pr_number d)), (''round'', ser_u64 (d_round d)),
     (''actor'', JStr (d_actor d)), (''approved'', JBool (d_approved d)),
     (''report'', JStr (d_report d)), (''revision'', ser_u64 (d_revision d)),
     (''head'', ser_option JStr (d_head d))]"

definition transition_to_json :: "TransitionRecord \<Rightarrow> json" where
  "transition_to_json r = JObj [
     (''version'', ser_u64 (tr_version r)), (''actor'', JStr (tr_actor r)),
     (''from'', phase_to_json (tr_from r)), (''to'', phase_to_json (tr_to r)),
     (''ts'', ser_u64 (tr_ts r)), (''detail'', JStr (tr_detail r))]"

definition lifecycle_to_json :: "Lifecycle \<Rightarrow> json" where
  "lifecycle_to_json s = JObj [
     (''history'', ser_vec transition_to_json (lc_history s)),
     (''merge_pending'', JBool (lc_merge_pending s)),
     (''pr_delivery'', ser_option decision_to_json (lc_pr_delivery s)),
     (''review_round'', ser_u64 (lc_review_round s)),
     (''version'', ser_u64 (lc_version s)),
     (''phase'', phase_to_json (lc_phase s)),
     (''role'', JStr (lc_role s)),
     (''ts'', ser_u64 (lc_ts s)),
     (''plan'', JStr (lc_plan s)),
     (''revision'', ser_u64 (lc_revision s)),
     (''head'', ser_option JStr (lc_head s)),
     (''plan_decision'', ser_option decision_to_json (lc_plan_decision s)),
     (''test_decision'', ser_option decision_to_json (lc_test_decision s)),
     (''test_human'', ser_option decision_to_json (lc_test_human s)),
     (''pr_decision'', ser_option decision_to_json (lc_pr_decision s)),
     (''pr_human'', ser_option decision_to_json (lc_pr_human s)),
     (''verified_head'', ser_option JStr (lc_verified_head s)),
     (''verification_task'', ser_option JStr (lc_verification_task s)),
     (''pr_number'', ser_option ser_u64 (lc_pr_number s)),
     (''merge_sha'', ser_option JStr (lc_merge_sha s)),
     (''feedback'', ser_option JStr (lc_feedback s))]"

section \<open>Decoding\<close>

definition phase_of_str :: "string \<Rightarrow> Phase option" where
  "phase_of_str s =
     (if s = ''planning'' then Some Planning
      else if s = ''plan_ready'' then Some PlanReady
      else if s = ''plan_rejected'' then Some PlanRejected
      else if s = ''building'' then Some Building
      else if s = ''testing'' then Some Testing
      else if s = ''submit'' then Some Submit
      else if s = ''done'' then Some Done
      else if s = ''blocked'' then Some Blocked
      else None)"

text \<open>A unit variant is a string, or an object with the variant as its only key and no content.\<close>

fun de_phase :: "json \<Rightarrow> Phase option" where
  "de_phase (JStr s) = phase_of_str s"
| "de_phase (JObj [(k, JNull)]) = phase_of_str k"
| "de_phase _ = None"

definition phase_parse :: "string \<Rightarrow> Phase option" where
  "phase_parse s = de_phase (JStr s)"

definition decision_of_fields :: "(string \<times> json) list \<Rightarrow> Decision option" where
  "decision_of_fields fs = do {
     n \<leftarrow> de_dflt fs ''pr_number'' (de_option de_u64) None;
     r \<leftarrow> de_req fs ''round'' de_u64;
     a \<leftarrow> de_req fs ''actor'' de_string;
     ok \<leftarrow> de_req fs ''approved'' de_bool;
     rep \<leftarrow> de_req fs ''report'' de_string;
     rv \<leftarrow> de_req fs ''revision'' de_u64;
     h \<leftarrow> de_dflt fs ''head'' (de_option de_string) None;
     Some \<lparr>d_pr_number = n, d_round = r, d_actor = a, d_approved = ok, d_report = rep,
           d_revision = rv, d_head = h\<rparr> }"

text \<open>serde's derived structs are read from an object or from an array of all fields in order.\<close>

fun de_decision :: "json \<Rightarrow> Decision option" where
  "de_decision (JObj fs) = decision_of_fields fs"
| "de_decision (JArr xs) =
     (if length xs = 7
      then decision_of_fields (zip [''pr_number'', ''round'', ''actor'', ''approved'', ''report'',
             ''revision'', ''head''] xs)
      else None)"
| "de_decision _ = None"

definition transition_of_fields :: "(string \<times> json) list \<Rightarrow> TransitionRecord option" where
  "transition_of_fields fs = do {
     v \<leftarrow> de_req fs ''version'' de_u64;
     a \<leftarrow> de_req fs ''actor'' de_string;
     p \<leftarrow> de_req fs ''from'' de_phase;
     q \<leftarrow> de_req fs ''to'' de_phase;
     t \<leftarrow> de_req fs ''ts'' de_u64;
     d \<leftarrow> de_req fs ''detail'' de_string;
     Some \<lparr>tr_version = v, tr_actor = a, tr_from = p, tr_to = q, tr_ts = t, tr_detail = d\<rparr> }"

fun de_transition :: "json \<Rightarrow> TransitionRecord option" where
  "de_transition (JObj fs) = transition_of_fields fs"
| "de_transition (JArr xs) =
     (if length xs = 6
      then transition_of_fields (zip [''version'', ''actor'', ''from'', ''to'', ''ts'', ''detail''] xs)
      else None)"
| "de_transition _ = None"

definition lifecycle_of_fields :: "(string \<times> json) list \<Rightarrow> Lifecycle option" where
  "lifecycle_of_fields fs = do {
     hist \<leftarrow> de_dflt fs ''history'' (de_vec de_transition) [];
     mp \<leftarrow> de_dflt fs ''merge_pending'' de_bool False;
     del \<leftarrow> de_dflt fs ''pr_delivery'' (de_option de_decision) None;
     rr \<leftarrow> de_dflt fs ''review_round'' de_u64 0;
     v \<leftarrow> de_dflt fs ''version'' de_u64 0;
     p \<leftarrow> de_dflt fs ''phase'' de_phase Planning;
     ro \<leftarrow> de_dflt fs ''role'' de_string [];
     t \<leftarrow> de_dflt fs ''ts'' de_u64 0;
     pl \<leftarrow> de_dflt fs ''plan'' de_string [];
     rv \<leftarrow> de_dflt fs ''revision'' de_u64 0;
     h \<leftarrow> de_dflt fs ''head'' (de_option de_string) None;
     pd \<leftarrow> de_dflt fs ''plan_decision'' (de_option de_decision) None;
     td \<leftarrow> de_dflt fs ''test_decision'' (de_option de_decision) None;
     th \<leftarrow> de_dflt fs ''test_human'' (de_option de_decision) None;
     prd \<leftarrow> de_dflt fs ''pr_decision'' (de_option de_decision) None;
     prh \<leftarrow> de_dflt fs ''pr_human'' (de_option de_decision) None;
     vh \<leftarrow> de_dflt fs ''verified_head'' (de_option de_string) None;
     vt \<leftarrow> de_dflt fs ''verification_task'' (de_option de_string) None;
     n \<leftarrow> de_dflt fs ''pr_number'' (de_option de_u64) None;
     ms \<leftarrow> de_dflt fs ''merge_sha'' (de_option de_string) None;
     fb \<leftarrow> de_dflt fs ''feedback'' (de_option de_string) None;
     Some \<lparr>lc_history = hist, lc_merge_pending = mp, lc_pr_delivery = del, lc_review_round = rr,
           lc_version = v, lc_phase = p, lc_role = ro, lc_ts = t, lc_plan = pl, lc_revision = rv,
           lc_head = h, lc_plan_decision = pd, lc_test_decision = td, lc_test_human = th,
           lc_pr_decision = prd, lc_pr_human = prh, lc_verified_head = vh,
           lc_verification_task = vt, lc_pr_number = n, lc_merge_sha = ms, lc_feedback = fb\<rparr> }"

fun de_lifecycle :: "json \<Rightarrow> Lifecycle option" where
  "de_lifecycle (JObj fs) = lifecycle_of_fields fs"
| "de_lifecycle _ = None"

text \<open>Outbox entries that do not name their PR are dropped together with the PR decisions.\<close>

definition scrub_delivery :: "Lifecycle \<Rightarrow> Lifecycle" where
  "scrub_delivery s =
     (if is_some_and (lc_pr_delivery s) (\<lambda>d. d_pr_number d = None)
      then s\<lparr>lc_pr_delivery := None, lc_pr_decision := None, lc_pr_human := None\<rparr> else s)"

definition decode_lifecycle :: "json option \<Rightarrow> Lifecycle result" where
  "decode_lifecycle value =
     (case value of
        None \<Rightarrow> Ok default_lifecycle
      | Some v \<Rightarrow>
          if json_get v ''version'' \<noteq> None
          then (case de_lifecycle v of
                  None \<Rightarrow> Err ''serde_json error''
                | Some s \<Rightarrow> Ok (scrub_delivery s))
          else (let legacy = (case as_str v of
                      Some l \<Rightarrow> Some l
                    | None \<Rightarrow> Option.bind (json_get v ''phase'') as_str)
                in case legacy of
                     None \<Rightarrow> Err ''Malformed lifecycle record; refusing to reset it''
                   | Some l \<Rightarrow> Ok (legacy_lifecycle l)))"

section \<open>Round trips\<close>

lemma phase_of_as_str [simp]: "phase_of_str (phase_as_str p) = Some p"
  by (cases p) (simp_all add: phase_of_str_def)

lemma de_phase_to_json [simp]: "de_phase (phase_to_json p) = Some p"
  by (simp add: phase_to_json_def)

lemma not_null [simp]:
  "ser_u64 n \<noteq> JNull" "decision_to_json d \<noteq> JNull" "transition_to_json r \<noteq> JNull"
  by (simp_all add: ser_u64_def decision_to_json_def transition_to_json_def)

lemma de_ser_opt_u64 [simp]: "de_option de_u64 (ser_option ser_u64 x) = Some x"
  by (rule de_ser_option) simp_all

lemma de_ser_opt_string [simp]: "de_option de_string (ser_option JStr x) = Some x"
  by (rule de_ser_option) simp_all

lemma de_decision_to_json [simp]: "de_decision (decision_to_json d) = Some d"
  by (cases d) (simp add: decision_to_json_def decision_of_fields_def de_dflt_def de_req_def)

lemma de_ser_opt_decision [simp]: "de_option de_decision (ser_option decision_to_json x) = Some x"
  by (rule de_ser_option) simp_all

lemma de_transition_to_json [simp]: "de_transition (transition_to_json r) = Some r"
  by (cases r) (simp add: transition_to_json_def transition_of_fields_def de_req_def)

lemma de_ser_history [simp]:
  "de_vec de_transition (ser_vec transition_to_json rs) = Some rs"
  by (rule de_ser_vec) simp

lemma de_lifecycle_to_json [simp]: "de_lifecycle (lifecycle_to_json s) = Some s"
  by (cases s) (simp add: lifecycle_to_json_def lifecycle_of_fields_def de_dflt_def)

lemma lifecycle_to_json_version [simp]:
  "json_get (lifecycle_to_json s) ''version'' = Some (ser_u64 (lc_version s))"
  by (simp add: lifecycle_to_json_def)

lemma decode_encode: "decode_lifecycle (Some (lifecycle_to_json s)) = Ok (scrub_delivery s)"
  by (simp add: decode_lifecycle_def)

text \<open>A queued review always names its PR, so the upgrade never touches a live record.\<close>

definition delivery_named :: "Lifecycle \<Rightarrow> bool" where
  "delivery_named s \<longleftrightarrow> is_none_or (lc_pr_delivery s) (\<lambda>d. d_pr_number d \<noteq> None)"

lemma delivery_named_event:
  assumes "apply_event s a e = Ok (Some n)" and "delivery_named s"
  shows "delivery_named n"
proof -
  have dec: "delivery_named m"
    if "apply_decide s a rnd p app rep rv h = Ok (Some m)" for rnd p app rep rv h m
    using that assms(2)
    by (cases p; cases app) (auto simp: apply_decide_def decide_effect_def Let_def clear_work_def
        delivery_named_def split: if_splits)
  show ?thesis
  proof (cases "\<exists>rnd p app rep rv h. e = Decide rnd p app rep rv h")
    case True
    with assms(1) show ?thesis by (auto intro: dec)
  next
    case False
    with assms show ?thesis
      by (cases e) (auto simp: apply_plan_def apply_move_def apply_block_def apply_verified_def
          apply_pr_def apply_review_delivered_def apply_begin_merge_def apply_cancel_merge_def
          apply_reconcile_merged_def apply_merged_def clear_work_def move_effect_def Let_def
          delivery_named_def split: if_splits)
  qed
qed

lemma delivery_named_stamp: "delivery_named (stamp s a e t n) = delivery_named n"
  by (simp add: delivery_named_def stamp_def Let_def)

interpretation lcdel: invariant_system lc_init lc_step delivery_named
proof unfold_locales
  fix s assume "lc_init s"
  then show "delivery_named s"
    by (auto simp: lc_init_def default_lifecycle_def legacy_lifecycle_def delivery_named_def)
next
  fix s l s' assume st: "lc_step s l s'" and inv: "delivery_named s"
  obtain a e t where l: "l = (a, e, t)" by (cases l)
  from st l have "lc_apply s a e t = Ok s'" by (simp add: lc_step_def)
  then show "delivery_named s'"
    by (rule lc_apply_cases) (auto simp: inv delivery_named_stamp intro: delivery_named_event)
qed

lemma scrub_named: "delivery_named s \<Longrightarrow> scrub_delivery s = s"
  by (auto simp: delivery_named_def scrub_delivery_def is_some_and_iff is_none_or_iff)

text \<open>
  C37 (roundtrip). Storing a reachable lifecycle and decoding it gives back exactly the same
  record, with all its approvals, evidence and history.
\<close>

theorem stored_lifecycle_roundtrip:
  assumes "lc_reachable s"
  shows "decode_lifecycle (Some (lifecycle_to_json s)) = Ok s"
  by (simp add: decode_encode scrub_named [OF lcdel.reach_inv [OF assms]])

theorem stored_lifecycle_roundtrip_witness:
  "decode_lifecycle (Some (lifecycle_to_json default_lifecycle)) = Ok default_lifecycle"
  by (rule stored_lifecycle_roundtrip) (rule reach_init, simp add: lc_init_def)

text \<open>
  Upgrading a record without a version never keeps an approval: the result is in
  planning, or done when the record said merged or done, with no decision, no head and no
  plan; a value that names no phase is refused rather than reset.
\<close>

theorem legacy_upgrade_drops_approvals:
  assumes "json_get v ''version'' = None"
  shows "case decode_lifecycle (Some v) of
      Inl m \<Rightarrow> m = ''Malformed lifecycle record; refusing to reset it'' \<and> as_str v = None
    | Inr s \<Rightarrow> (lc_phase s = Planning \<or> lc_phase s = Done) \<and> no_candidate s \<and>
        lc_plan_decision s = None \<and> lc_plan s = [] \<and> lc_version s = 0 \<and> \<not> merge_ready s h"
  using assms
  by (cases "as_str v"; cases "Option.bind (json_get v ''phase'') as_str")
    (auto simp: decode_lifecycle_def legacy_lifecycle_def default_lifecycle_def no_candidate_def
      merge_ready_def)

theorem legacy_upgrade_drops_approvals_witness:
  "case decode_lifecycle (Some (JStr ''approved'')) of
      Inl m \<Rightarrow> False | Inr s \<Rightarrow> lc_phase s = Planning \<and> lc_plan_decision s = None"
  using legacy_upgrade_drops_approvals [of "JStr ''approved''" "[]"]
  by (simp add: decode_lifecycle_def legacy_lifecycle_def)

end
