(* ===== verification/Shared_Store.thy ===== *)
theory Shared_Store
  imports Glob Lifecycle_Codec "HOL-Library.AList"
begin

text \<open>
  \<open>SharedStore\<close> of \<open>src/crates/pocketflow-core/src/store.rs\<close> with its in-memory backend:
  tenant name spacing, get, set, delete and key enumeration, leases, the compare-and-set
  lifecycle transition, and the event ring buffer. The hash map is an association list with
  distinct keys; its order stands for the unspecified iteration order. Wall-clock times are
  arguments. Every operation holds the map's write lock for its whole body, so operations are
  atomic steps.
\<close>

section \<open>State\<close>

record StoreEvent =
  ev_agent :: string
  ev_type :: string
  ev_payload :: json
  ev_ts :: u64

definition RING_BUFFER_SIZE :: nat where
  "RING_BUFFER_SIZE = 1000"

record SharedStore =
  ss_map :: "(string \<times> json) list"
  ss_ring :: "StoreEvent list"
  ss_tenant :: string

definition new_in_memory_with_tenant :: "string \<Rightarrow> SharedStore" where
  "new_in_memory_with_tenant tenant = \<lparr>ss_map = [], ss_ring = [], ss_tenant = tenant\<rparr>"

definition new_in_memory :: SharedStore where
  "new_in_memory = new_in_memory_with_tenant ''default''"

section \<open>Keys\<close>

definition ns_key :: "string \<Rightarrow> string \<Rightarrow> string" where
  "ns_key tenant key = ''ns:'' @ tenant @ '':'' @ key"

text \<open>\<open>str::split_once(':')\<close>.\<close>

definition split_once_colon :: "string \<Rightarrow> (string \<times> string) option" where
  "split_once_colon s =
     (let pre = takeWhile (\<lambda>c. c \<noteq> CHR '':'') s in
      if length pre < length s then Some (pre, drop (length pre + 1) s) else None)"

definition tenant_index_key :: "string \<Rightarrow> string option" where
  "tenant_index_key key =
     (case strip_prefix ''ns:'' key of
        None \<Rightarrow> None
      | Some rest \<Rightarrow> (case split_once_colon rest of
            None \<Rightarrow> None
          | Some (tenant, _) \<Rightarrow> Some (''ns:'' @ tenant @ '':_keys'')))"

definition status_key :: "string \<Rightarrow> string" where
  "status_key ticket = ''ticket:'' @ ticket @ '':status''"

section \<open>Operations\<close>

definition backend_get :: "SharedStore \<Rightarrow> string \<Rightarrow> json option" where
  "backend_get s key = map_of (ss_map s) key"

definition backend_set :: "SharedStore \<Rightarrow> string \<Rightarrow> json \<Rightarrow> SharedStore" where
  "backend_set s key v = s\<lparr>ss_map := AList.update key v (ss_map s)\<rparr>"

definition backend_del :: "SharedStore \<Rightarrow> string \<Rightarrow> SharedStore" where
  "backend_del s key = s\<lparr>ss_map := AList.delete key (ss_map s)\<rparr>"

definition backend_keys :: "SharedStore \<Rightarrow> string \<Rightarrow> string list" where
  "backend_keys s pat = filter (glob_match pat) (map fst (ss_map s))"

definition store_get :: "SharedStore \<Rightarrow> string \<Rightarrow> json option" where
  "store_get s key = backend_get s (ns_key (ss_tenant s) key)"

definition store_set :: "SharedStore \<Rightarrow> string \<Rightarrow> json \<Rightarrow> SharedStore" where
  "store_set s key v = backend_set s (ns_key (ss_tenant s) key) v"

definition store_del :: "SharedStore \<Rightarrow> string \<Rightarrow> SharedStore" where
  "store_del s key = backend_del s (ns_key (ss_tenant s) key)"

definition store_keys :: "SharedStore \<Rightarrow> string \<Rightarrow> string list" where
  "store_keys s pat = backend_keys s (ns_key (ss_tenant s) pat)"

definition raw_keys :: "SharedStore \<Rightarrow> string \<Rightarrow> string list" where
  "raw_keys s pat = backend_keys s pat"

definition raw_del :: "SharedStore \<Rightarrow> string \<Rightarrow> SharedStore" where
  "raw_del s key = backend_del s key"

definition store_get_typed :: "(json \<Rightarrow> 'a option) \<Rightarrow> SharedStore \<Rightarrow> string \<Rightarrow> 'a option" where
  "store_get_typed de s key = Option.bind (store_get s key) de"

text \<open>\<open>set_typed\<close>: the conversion of the stored structs to JSON cannot fail.\<close>

definition store_set_typed :: "('a \<Rightarrow> json) \<Rightarrow> SharedStore \<Rightarrow> string \<Rightarrow> 'a \<Rightarrow> SharedStore result" where
  "store_set_typed ser s key v = Ok (store_set s key (ser v))"

subsection \<open>Leases\<close>

definition lease_json :: "string \<Rightarrow> u64 \<Rightarrow> json" where
  "lease_json token expires_at = JObj [(''token'', JStr token), (''expires_at'', ser_u64 expires_at)]"

text \<open>\<open>now\<close> is the time in milliseconds (\<open>u128\<close>); the expiry must fit into \<open>u64\<close>.\<close>

definition try_claim ::
  "SharedStore \<Rightarrow> nat \<Rightarrow> string \<Rightarrow> string \<Rightarrow> u64 \<Rightarrow> (SharedStore \<times> bool) result" where
  "try_claim s now key token ttl_secs =
     ensure (0 < ttl_secs) ''Lease TTL must be positive''
     (let k = ns_key (ss_tenant s) key;
          expires_at = now + unat ttl_secs * 1000
      in if 2 ^ 64 \<le> expires_at
         then Err ''out of range integral type conversion attempted''
         else if (case backend_get s k of
                    None \<Rightarrow> False
                  | Some existing \<Rightarrow>
                      is_none_or (Option.bind (json_get existing ''expires_at'') as_u64)
                        (\<lambda>expiry. now < unat expiry))
         then Ok (s, False)
         else Ok (backend_set s k (lease_json token (of_nat expires_at)), True))"

definition release_claim :: "SharedStore \<Rightarrow> string \<Rightarrow> string \<Rightarrow> SharedStore" where
  "release_claim s key token =
     (let k = ns_key (ss_tenant s) key in
      if Option.bind (Option.bind (backend_get s k) (\<lambda>v. json_get v ''token'')) as_str = Some token
      then backend_del s k else s)"

subsection \<open>The lifecycle record of a ticket\<close>

definition store_lifecycle :: "SharedStore \<Rightarrow> string \<Rightarrow> Lifecycle result" where
  "store_lifecycle s ticket =
     decode_lifecycle (backend_get s (ns_key (ss_tenant s) (status_key ticket)))"

definition store_transition ::
  "SharedStore \<Rightarrow> string \<Rightarrow> u64 \<Rightarrow> string \<Rightarrow> Event \<Rightarrow> u64 \<Rightarrow> (SharedStore \<times> Lifecycle) result" where
  "store_transition s ticket version actor e ts =
     (let key = ns_key (ss_tenant s) (status_key ticket) in
      bind_result (decode_lifecycle (backend_get s key)) (\<lambda>current.
      ensure (lc_version current = version) ''Lifecycle changed; refresh before retrying''
      (bind_result (lc_apply current actor e ts) (\<lambda>nxt.
       Ok (backend_set s key (lifecycle_to_json nxt), nxt)))))"

subsection \<open>The event ring buffer\<close>

definition emit :: "SharedStore \<Rightarrow> u64 \<Rightarrow> string \<Rightarrow> string \<Rightarrow> json \<Rightarrow> SharedStore" where
  "emit s ts agent event_type payload =
     (let event = \<lparr>ev_agent = agent, ev_type = event_type, ev_payload = payload, ev_ts = ts\<rparr>;
          buf = (if RING_BUFFER_SIZE \<le> length (ss_ring s) then tl (ss_ring s) else ss_ring s)
      in s\<lparr>ss_ring := buf @ [event]\<rparr>)"

definition get_events_since :: "SharedStore \<Rightarrow> nat \<Rightarrow> StoreEvent list" where
  "get_events_since s cursor =
     (if length (ss_ring s) \<le> cursor then [] else drop cursor (ss_ring s))"

definition event_count :: "SharedStore \<Rightarrow> nat" where
  "event_count s = length (ss_ring s)"

section \<open>Basic laws\<close>

lemma backend_get_set: "backend_get (backend_set s k v) k' = (if k' = k then Some v else backend_get s k')"
  by (simp add: backend_get_def backend_set_def update_conv' )

lemma backend_get_del: "backend_get (backend_del s k) k' = (if k' = k then None else backend_get s k')"
  by (simp add: backend_get_def backend_del_def delete_conv')

lemma backend_tenant [simp]:
  "ss_tenant (backend_set s k v) = ss_tenant s" "ss_tenant (backend_del s k) = ss_tenant s"
  "ss_ring (backend_set s k v) = ss_ring s" "ss_ring (backend_del s k) = ss_ring s"
  by (simp_all add: backend_set_def backend_del_def)

lemma ns_key_same_tenant [simp]: "ns_key t k = ns_key t k' \<longleftrightarrow> k = k'"
  by (simp add: ns_key_def)

lemma status_key_inj [simp]: "status_key a = status_key b \<longleftrightarrow> a = b"
  by (simp add: status_key_def)

text \<open>The key-value contract clients rely on.\<close>

locale kv_store =
  fixes get :: "'s \<Rightarrow> string \<Rightarrow> json option"
    and put :: "'s \<Rightarrow> string \<Rightarrow> json \<Rightarrow> 's"
    and remove :: "'s \<Rightarrow> string \<Rightarrow> 's"
  assumes get_put: "get (put s k v) k' = (if k' = k then Some v else get s k')"
    and get_remove: "get (remove s k) k' = (if k' = k then None else get s k')"
begin

lemma get_put_same [simp]: "get (put s k v) k = Some v"
  by (simp add: get_put)

lemma get_put_other: "k' \<noteq> k \<Longrightarrow> get (put s k v) k' = get s k'"
  by (simp add: get_put)

lemma get_remove_same [simp]: "get (remove s k) k = None"
  by (simp add: get_remove)

lemma put_remove_get: "get (remove (put s k v) k) k' = get (remove s k) k'"
  by (simp add: get_put get_remove)

lemma put_commute: "k \<noteq> k' \<Longrightarrow> get (put (put s k v) k' w) x = get (put (put s k' w) k v) x"
  by (simp add: get_put)

end

interpretation store_kv: kv_store store_get store_set store_del
  by unfold_locales
    (simp_all add: store_get_def store_set_def store_del_def backend_get_set backend_get_del)

end
