(* ===== verification/Store_Properties.thy ===== *)
theory Store_Properties
  imports Shared_Store Lifecycle_Properties
begin

text \<open>
  Properties of the shared store: the contract of the compare-and-set lifecycle transition
  and its consequences (no lost update, tickets do not interfere, everything stored is a
  reachable lifecycle), tenant isolation, leases and the event ring buffer.
\<close>

section \<open>The compare-and-set contract\<close>

text \<open>An event that changes nothing is a move to the current phase.\<close>

lemma no_op_is_a_move:
  assumes "lc_apply cur a e t = Ok cur"
  shows "\<exists>h. e = Move (lc_phase cur) h"
  using assms
proof (cases rule: lc_apply_cases)
  case same
  then show ?thesis by (cases e) (auto simp: apply_arm_defs split: if_splits option.splits)
next
  case (step m)
  with apply_event_frame(2) [OF step(1)] have "lc_version cur = lc_version (stamp cur (to_lowercase a) e t m)" "lc_version m = lc_version cur"
    by simp_all
  then show ?thesis by (simp add: stamp_def Let_def)
qed

locale lifecycle_store =
  fixes read :: "'s \<Rightarrow> string \<Rightarrow> Lifecycle result"
    and cas :: "'s \<Rightarrow> string \<Rightarrow> u64 \<Rightarrow> string \<Rightarrow> Event \<Rightarrow> u64 \<Rightarrow> ('s \<times> Lifecycle) result"
  assumes cas_commits: "cas s tk v a e t = Ok (s', n) \<Longrightarrow>
      (\<exists>cur. read s tk = Ok cur \<and> lc_version cur = v \<and> lc_apply cur a e t = Ok n) \<and>
      read s' tk = Ok n"
    and cas_frame: "cas s tk v a e t = Ok (s', n) \<Longrightarrow> tk' \<noteq> tk \<Longrightarrow> read s' tk' = read s tk'"
    and cas_enabled: "read s tk = Ok cur \<Longrightarrow> lc_version cur = v \<Longrightarrow> lc_apply cur a e t = Ok n \<Longrightarrow>
      \<exists>s'. cas s tk v a e t = Ok (s', n)"
begin

text \<open>Updates of different tickets do not see each other.\<close>

lemma tickets_independent:
  assumes "cas s tk v a e t = Ok (s1, n1)" and "tk' \<noteq> tk"
  shows "(\<exists>s2. cas s1 tk' v' a' e' t' = Ok (s2, n)) \<longleftrightarrow> (\<exists>s2. cas s tk' v' a' e' t' = Ok (s2, n))"
  using cas_commits cas_enabled cas_frame [OF assms] by metis

text \<open>Only reachable lifecycles are ever read back.\<close>

lemma reads_stay_reachable:
  assumes "cas s tk v a e t = Ok (s', n)" and "\<And>x cur. read s x = Ok cur \<Longrightarrow> lc_reachable cur"
    and "read s' y = Ok cur"
  shows "lc_reachable cur"
proof (cases "y = tk")
  case True
  with cas_commits [OF assms(1)] assms(3) obtain c where "read s tk = Ok c"
    "lc_apply c a e t = Ok cur" by auto
  then show ?thesis using assms(2) lc_reachable_apply by blast
next
  case False
  with cas_frame [OF assms(1)] assms(2,3) show ?thesis by metis
qed

end

lemma decode_named: "decode_lifecycle v = Ok s \<Longrightarrow> delivery_named s"
  by (auto simp: decode_lifecycle_def delivery_named_def scrub_delivery_def default_lifecycle_def
      legacy_lifecycle_def is_some_and_iff is_none_or_iff Let_def
      split: option.splits if_splits)

lemma apply_named:
  assumes "lc_apply s a e t = Ok n" and "delivery_named s"
  shows "delivery_named n"
  using assms(1)
  by (rule lc_apply_cases) (auto simp: assms(2) delivery_named_stamp intro: delivery_named_event [OF _ assms(2)])

lemma store_transition_Ok:
  "store_transition s tk v a e t = Ok (s', n) \<longleftrightarrow>
     (\<exists>cur. store_lifecycle s tk = Ok cur \<and> lc_version cur = v \<and> lc_apply cur a e t = Ok n \<and>
       s' = backend_set s (ns_key (ss_tenant s) (status_key tk)) (lifecycle_to_json n))"
  by (auto simp: store_transition_def store_lifecycle_def Let_def bind_result_Ok)

interpretation mem_store: lifecycle_store store_lifecycle store_transition
proof unfold_locales
  fix s tk v a e t s' n
  assume "store_transition s tk v a e t = Ok (s', n)"
  then obtain cur where cur: "store_lifecycle s tk = Ok cur" "lc_version cur = v"
    "lc_apply cur a e t = Ok n"
    and s': "s' = backend_set s (ns_key (ss_tenant s) (status_key tk)) (lifecycle_to_json n)"
    by (auto simp: store_transition_Ok)
  have "delivery_named n"
    using apply_named [OF cur(3)] decode_named cur(1) by (auto simp: store_lifecycle_def)
  then have "store_lifecycle s' tk = Ok n"
    by (simp add: s' store_lifecycle_def backend_get_set decode_encode scrub_named)
  with cur show "(\<exists>cur. store_lifecycle s tk = Ok cur \<and> lc_version cur = v \<and>
      lc_apply cur a e t = Ok n) \<and> store_lifecycle s' tk = Ok n" by blast
next
  fix s tk v a e t s' n and tk' :: string
  assume "store_transition s tk v a e t = Ok (s', n)" and "tk' \<noteq> tk"
  then show "store_lifecycle s' tk' = store_lifecycle s tk'"
    by (auto simp: store_transition_Ok store_lifecycle_def backend_get_set)
next
  fix s tk cur v a e t n
  assume "store_lifecycle s tk = Ok cur" "lc_version cur = v" "lc_apply cur a e t = Ok n"
  then show "\<exists>s'. store_transition s tk v a e t = Ok (s', n)"
    by (auto simp: store_transition_Ok)
qed

section \<open>Steps and runs of the store\<close>

text \<open>Operations of the store that controllers and workers issue, as labels of a step relation.\<close>

datatype StoreOp =
    OpTransition string u64 string Event u64
  | OpSet string json
  | OpDel string
  | OpClaim nat string string u64
  | OpRelease string string
  | OpEmit u64 string string json
  | OpEscalate string

text \<open>
  Raw writes go to keys other than a ticket's status key, with one exception: when NEXUS escalates a ticket to a human, it
  overwrites the ticket's lifecycle record by a plain string.
\<close>

definition not_status :: "string \<Rightarrow> bool" where
  "not_status key \<longleftrightarrow> \<not> (\<exists>tk. key = status_key tk)"

fun store_step :: "SharedStore \<Rightarrow> StoreOp \<Rightarrow> SharedStore \<Rightarrow> bool" where
  "store_step s (OpTransition tk v a e t) s' = (\<exists>n. store_transition s tk v a e t = Ok (s', n))"
| "store_step s (OpSet k v) s' = (not_status k \<and> s' = store_set s k v)"
| "store_step s (OpDel k) s' = (not_status k \<and> s' = store_del s k)"
| "store_step s (OpClaim now k tok ttl) s' =
     (not_status k \<and> (\<exists>b. try_claim s now k tok ttl = Ok (s', b)))"
| "store_step s (OpRelease k tok) s' = (not_status k \<and> s' = release_claim s k tok)"
| "store_step s (OpEmit t ag ty p) s' = (s' = emit s t ag ty p)"
| "store_step s (OpEscalate tk) s' = (s' = store_set s (status_key tk) (JStr ''awaiting_human''))"

lemma escalated_read:
  "store_lifecycle (store_set s (status_key tk) (JStr ''awaiting_human'')) tk' =
     (if tk' = tk then Ok (legacy_lifecycle ''awaiting_human'') else store_lifecycle s tk')"
  by (simp add: store_lifecycle_def store_set_def backend_get_set decode_lifecycle_def)

fun store_run :: "SharedStore \<Rightarrow> StoreOp list \<Rightarrow> SharedStore \<Rightarrow> bool" where
  "store_run s [] s' = (s' = s)"
| "store_run s (l # ls) s' = (\<exists>u. store_step s l u \<and> store_run u ls s')"

lemma lifecycle_set_other:
  "not_status k \<Longrightarrow> store_lifecycle (backend_set s (ns_key (ss_tenant s) k) v) tk = store_lifecycle s tk"
  "not_status k \<Longrightarrow> store_lifecycle (backend_del s (ns_key (ss_tenant s) k)) tk = store_lifecycle s tk"
  by (auto simp: store_lifecycle_def backend_get_set backend_get_del not_status_def)

lemma store_step_read:
  assumes "store_step s l s'" and "store_lifecycle s tk = Ok a" and "l \<noteq> OpEscalate tk"
  shows "store_lifecycle s' tk = Ok a \<or>
    (\<exists>v ac e t b. l = OpTransition tk v ac e t \<and> lc_apply a ac e t = Ok b \<and> store_lifecycle s' tk = Ok b)"
proof (cases l)
  case (OpTransition x v ac e t)
  then obtain n where n: "store_transition s x v ac e t = Ok (s', n)" using assms(1) by auto
  show ?thesis
    using mem_store.cas_commits [OF n] mem_store.cas_frame [OF n] assms(2) OpTransition by (cases "x = tk") auto
next
  case (OpClaim now k tok ttl)
  with assms show ?thesis by (auto simp: try_claim_def Let_def lifecycle_set_other split: if_splits)
next
  case (OpEmit t ag ty p)
  with assms show ?thesis by (simp add: emit_def Let_def store_lifecycle_def backend_get_def)
next
  case (OpEscalate x)
  with assms show ?thesis by (auto simp: escalated_read)
qed (use assms in \<open>auto simp: store_set_def store_del_def release_claim_def Let_def lifecycle_set_other split: if_splits\<close>)

lemma lc_apply_version:
  assumes "lc_apply s a e t = Ok n"
  shows "n = s \<or> lc_version n = lc_version s + 1"
  using assms
proof (cases rule: lc_apply_cases)
  case (step m)
  with apply_event_frame(2) [OF step(1)] show ?thesis by (simp add: stamp_def Let_def)
qed simp

text \<open>A run of \<open>k\<close> effective changes raises the version by \<open>k\<close>.\<close>

lemma store_run_version:
  assumes "store_run s ls s'" and "store_lifecycle s tk = Ok a" and "OpEscalate tk \<notin> set ls"
  shows "\<exists>k b. k \<le> length ls \<and> store_lifecycle s' tk = Ok b \<and> lc_version b = lc_version a + of_nat k \<and> (k = 0 \<longrightarrow> b = a)"
  using assms
proof (induction ls arbitrary: s a)
  case (Cons l ls)
  then obtain u where u: "store_step s l u" "store_run u ls s'" by auto
  then obtain c where c: "store_lifecycle u tk = Ok c" "c = a \<or> lc_version c = lc_version a + 1"
    using store_step_read [OF u(1) Cons.prems(2)] lc_apply_version Cons.prems(3) by fastforce
  from Cons.IH [OF u(2) c(1)] Cons.prems(3) obtain k b where k: "k \<le> length ls" "store_lifecycle s' tk = Ok b"
    "lc_version b = lc_version c + of_nat k" "k = 0 \<longrightarrow> b = c" by auto
  show ?case
  proof (cases "c = a")
    case True
    with k show ?thesis by (intro exI [of _ k] exI [of _ b]) auto
  next
    case False
    with k c show ?thesis by (intro exI [of _ "Suc k"] exI [of _ b]) (auto simp: algebra_simps)
  qed
qed simp

lemma of_nat_u64_eq_0: "k < 2 ^ 64 \<Longrightarrow> (of_nat k :: u64) = 0 \<longleftrightarrow> k = 0"
  by (auto simp: word_of_nat_eq_0_iff dest: nat_dvd_not_less [rotated])

section \<open>Properties of the lifecycle store\<close>

text \<open>
  C4 (safety). No lost update. When two controllers read the same version of a ticket and both commit a change based on it,
  with any operations of any controllers on the store in between (fewer than \<open>2 ^ 64 - 1\<close>, the version is a word) except an escalation
  of this ticket, which sets its version back, then nothing was lost: the first commit was a move to the phase the ticket was already
  in, which left the record as it was, and the second one still acts on that record.
\<close>

theorem store_no_lost_update:
  assumes "store_transition s tk v a e t = Ok (s1, n1)"
    and "store_run s1 ops s2" and "length ops < 2 ^ 64 - 1" and "OpEscalate tk \<notin> set ops"
    and "store_transition s2 tk v a' e' t' = Ok (s3, n2)"
  shows "store_lifecycle s tk = Ok n1 \<and> (\<exists>h. e = Move (lc_phase n1) h) \<and> store_lifecycle s2 tk = Ok n1 \<and> lc_apply n1 a' e' t' = Ok n2"
proof -
  obtain cur where cur: "store_lifecycle s tk = Ok cur" "lc_version cur = v" "lc_apply cur a e t = Ok n1" "store_lifecycle s1 tk = Ok n1"
    using mem_store.cas_commits [OF assms(1)] by blast
  obtain b where b: "store_lifecycle s2 tk = Ok b" "lc_version b = v" "lc_apply b a' e' t' = Ok n2"
    using mem_store.cas_commits [OF assms(5)] by blast
  obtain k where k: "k \<le> length ops" "lc_version b = lc_version n1 + of_nat k" "k = 0 \<longrightarrow> b = n1"
    using store_run_version [OF assms(2) cur(4) assms(4)] b(1) by auto
  have "n1 = cur"
  proof (rule ccontr)
    assume "n1 \<noteq> cur"
    then have "(of_nat (Suc k) :: u64) = 0" using lc_apply_version [OF cur(3)] k(2) b(2) cur(2) by (simp add: algebra_simps)
    then show False using of_nat_u64_eq_0 [of "Suc k"] k(1) assms(3) by simp
  qed
  then have "b = n1" using k b(2) cur(2) of_nat_u64_eq_0 [of k] assms(3) by simp
  then show ?thesis using no_op_is_a_move [of n1 a e t] \<open>n1 = cur\<close> cur(1,3) b by simp
qed

theorem store_no_lost_update_witness:
  "\<exists>s1 n1 s2 s3 n2. store_transition new_in_memory ''T-1'' 0 ''forge'' (Move Planning None) 1 = Ok (s1, n1) \<and>
     store_run s1 [OpTransition ''T-2'' 0 ''forge'' (Plan ''p'') 1] s2 \<and>
     store_transition s2 ''T-1'' 0 ''forge'' (Plan ''p'') 2 = Ok (s3, n2) \<and>
     store_lifecycle new_in_memory ''T-1'' = Ok n1 \<and> store_lifecycle s2 ''T-1'' = Ok n1"
proof -
  let ?n = "new_in_memory"
  have 0: "store_lifecycle ?n tk = Ok default_lifecycle" for tk
    by (simp add: store_lifecycle_def new_in_memory_def new_in_memory_with_tenant_def
        backend_get_def decode_lifecycle_def)
  have "lc_apply default_lifecycle ''forge'' (Move Planning None) 1 = Ok default_lifecycle"
    by (simp add: leg_simps default_lifecycle_def)
  then obtain s1 where 1: "store_transition ?n ''T-1'' 0 ''forge'' (Move Planning None) 1 =
      Ok (s1, default_lifecycle)"
    using 0 by (auto simp: store_transition_Ok default_lifecycle_def)
  have "\<not> blank ''p''" by (simp add: blank_iff is_whitespace_def)
  then have plan: "\<exists>n. lc_apply default_lifecycle ''forge'' (Plan ''p'') t = Ok n" for t
    by (simp add: leg_simps default_lifecycle_def)
  have r1: "store_lifecycle s1 ''T-1'' = Ok default_lifecycle" "store_lifecycle s1 ''T-2'' = Ok default_lifecycle"
    using mem_store.cas_commits [OF 1] mem_store.cas_frame [OF 1, of "''T-2''"] 0 by simp_all
  then obtain s2 n where 2: "store_transition s1 ''T-2'' 0 ''forge'' (Plan ''p'') 1 = Ok (s2, n)"
    using plan [of 1] by (auto simp: store_transition_Ok default_lifecycle_def)
  have r2: "store_lifecycle s2 ''T-1'' = Ok default_lifecycle" using mem_store.cas_frame [OF 2, of "''T-1''"] r1(1) by simp
  then obtain s3 n2 where 3: "store_transition s2 ''T-1'' 0 ''forge'' (Plan ''p'') 2 = Ok (s3, n2)"
    using plan [of 2] by (auto simp: store_transition_Ok default_lifecycle_def)
  have run: "store_run s1 [OpTransition ''T-2'' 0 ''forge'' (Plan ''p'') 1] s2" using 2 by auto
  from store_no_lost_update [OF 1 run _ _ 3] 1 run 3 show ?thesis by auto
qed

definition tickets_ok :: "SharedStore \<Rightarrow> bool" where
  "tickets_ok s \<longleftrightarrow> (\<forall>tk cur. store_lifecycle s tk = Ok cur \<longrightarrow> lc_reachable cur)"

lemma store_step_tickets_ok:
  assumes "store_step s l s'" and "tickets_ok s"
  shows "tickets_ok s'"
proof (cases l)
  case (OpTransition tk v a e t)
  with assms show ?thesis
    by (auto simp: tickets_ok_def intro: mem_store.reads_stay_reachable)
next
  case (OpClaim now k tok ttl)
  with assms show ?thesis
    by (auto simp: tickets_ok_def try_claim_def Let_def lifecycle_set_other split: if_splits)
next
  case (OpEmit t ag ty p)
  with assms show ?thesis
    by (simp add: tickets_ok_def emit_def Let_def store_lifecycle_def backend_get_def)
next
  case (OpEscalate tk)
  moreover have "lc_reachable (legacy_lifecycle l)" for l by (rule reach_init) (auto simp: lc_init_def)
  ultimately show ?thesis using assms by (auto simp: tickets_ok_def escalated_read split: if_splits)
qed (use assms in \<open>auto simp: tickets_ok_def store_set_def store_del_def release_claim_def Let_def
      lifecycle_set_other split: if_splits\<close>)

interpretation store_sys: invariant_system "\<lambda>s. \<exists>t. s = new_in_memory_with_tenant t" store_step tickets_ok
proof unfold_locales
  fix s assume "\<exists>t. s = new_in_memory_with_tenant t"
  then show "tickets_ok s"
    by (auto simp: tickets_ok_def store_lifecycle_def new_in_memory_with_tenant_def backend_get_def
        decode_lifecycle_def default_reachable)
qed (rule store_step_tickets_ok)

lemma store_run_tickets_ok: "store_run s ls s' \<Longrightarrow> tickets_ok s \<Longrightarrow> tickets_ok s'"
  by (induction ls arbitrary: s) (auto dest: store_step_tickets_ok)

text \<open>
  C8 (safety). From an empty store, whatever transitions, leases, events, escalations and writes to
  other keys are interleaved, every lifecycle that can be read back is one the lifecycle rules can
  reach; so in submit the stored ticket has an approved plan, a verified and approved head,
  and a merge that is pending is merge-ready.
\<close>

theorem stored_tickets_are_reachable:
  assumes "reach (\<lambda>s. \<exists>t. s = new_in_memory_with_tenant t) store_step s"
    and "store_lifecycle s tk = Ok cur"
  shows "lc_reachable cur \<and> phase_inv cur \<and> merge_inv cur"
proof -
  have "lc_reachable cur"
    using store_sys.reach_inv [OF assms(1)] assms(2) by (simp add: tickets_ok_def)
  then show ?thesis using lcsys.reach_inv by (auto simp: lc_inv_def)
qed

theorem stored_tickets_are_reachable_witness:
  "\<exists>cur. store_lifecycle new_in_memory ''T-1'' = Ok cur \<and> lc_reachable cur \<and> phase_inv cur"
proof -
  have "store_lifecycle new_in_memory ''T-1'' = Ok default_lifecycle"
    by (simp add: store_lifecycle_def new_in_memory_def new_in_memory_with_tenant_def
        backend_get_def decode_lifecycle_def)
  moreover have "reach (\<lambda>s. \<exists>t. s = new_in_memory_with_tenant t) store_step new_in_memory"
    by (rule reach_init) (auto simp: new_in_memory_def)
  ultimately show ?thesis using stored_tickets_are_reachable by blast
qed

end
