(* ===== verification/Store_Leases.thy ===== *)
theory Store_Leases
  imports Shared_Store
begin

text \<open>
  Tenant isolation, leases and the event ring buffer of the shared store.
\<close>

section \<open>Tenant isolation\<close>

abbreviation colon_free :: "string \<Rightarrow> bool" where
  "colon_free t \<equiv> CHR '':'' \<notin> set t"

lemma ns_key_eq:
  assumes "colon_free t" and "colon_free u"
  shows "ns_key t k = ns_key u l \<longleftrightarrow> t = u \<and> k = l"
  using append_sep_eq [of t "CHR '':''" k u l] assms by (auto simp: ns_key_def)

lemma takeWhile_colon: "colon_free t \<Longrightarrow> takeWhile (\<lambda>c. c \<noteq> CHR '':'') (t @ CHR '':'' # k) = t"
  by (induction t) auto

lemma tenant_index_ns_key:
  "colon_free t \<Longrightarrow> tenant_index_key (ns_key t k) = Some (''ns:'' @ t @ '':_keys'')"
  by (simp add: tenant_index_key_def ns_key_def split_once_colon_def takeWhile_colon)

text \<open>
  C39 (safety). Tenants are isolated: with tenant names that contain no colon, a write, a
  delete or a lease operation of one tenant never changes what another tenant reads, whatever
  the two keys are, and the per-tenant key index of a namespaced key is the tenant's own.
\<close>

theorem tenants_are_isolated:
  assumes "colon_free (ss_tenant s)" and "colon_free u" and "u \<noteq> ss_tenant s"
  shows "store_get ((store_set s k v)\<lparr>ss_tenant := u\<rparr>) l = store_get (s\<lparr>ss_tenant := u\<rparr>) l \<and>
    store_get ((store_del s k)\<lparr>ss_tenant := u\<rparr>) l = store_get (s\<lparr>ss_tenant := u\<rparr>) l \<and>
    store_get ((release_claim s k tok)\<lparr>ss_tenant := u\<rparr>) l = store_get (s\<lparr>ss_tenant := u\<rparr>) l \<and>
    (\<forall>now ttl s' b. try_claim s now k tok ttl = Ok (s', b) \<longrightarrow>
       store_get (s'\<lparr>ss_tenant := u\<rparr>) l = store_get (s\<lparr>ss_tenant := u\<rparr>) l) \<and>
    tenant_index_key (ns_key u l) \<noteq> tenant_index_key (ns_key (ss_tenant s) k)"
proof -
  have key: "ns_key u l \<noteq> ns_key (ss_tenant s) k" using assms by (auto simp: ns_key_eq)
  have set: "store_get ((backend_set s (ns_key (ss_tenant s) k) w)\<lparr>ss_tenant := u\<rparr>) l =
      store_get (s\<lparr>ss_tenant := u\<rparr>) l" for w
    using key backend_get_set [of s _ _ "ns_key u l"] by (simp add: store_get_def backend_get_def)
  have del: "store_get ((backend_del s (ns_key (ss_tenant s) k))\<lparr>ss_tenant := u\<rparr>) l =
      store_get (s\<lparr>ss_tenant := u\<rparr>) l"
    using key backend_get_del [of s _ "ns_key u l"] by (simp add: store_get_def backend_get_def)
  have idx: "tenant_index_key (ns_key u l) \<noteq> tenant_index_key (ns_key (ss_tenant s) k)"
    using assms by (simp add: tenant_index_ns_key)
  show ?thesis
    using set del idx
    by (auto simp: store_set_def store_del_def release_claim_def try_claim_def Let_def
        split: if_splits)
qed

theorem tenants_are_isolated_witness:
  "store_get ((store_set (new_in_memory_with_tenant ''a'') ''k'' JNull)\<lparr>ss_tenant := ''b''\<rparr>) ''k'' = None"
proof -
  let ?s = "new_in_memory_with_tenant ''a''"
  have "colon_free (ss_tenant ?s)" "colon_free ''b''" "''b'' \<noteq> ss_tenant ?s"
    by (simp_all add: new_in_memory_with_tenant_def)
  from tenants_are_isolated [OF this, of "''k''" JNull "''k''"] show ?thesis
    by (simp add: store_get_def backend_get_def new_in_memory_with_tenant_def)
qed

section \<open>Leases\<close>

text \<open>The lease on a key: its token and its expiry in milliseconds.\<close>

definition holds_lease :: "SharedStore \<Rightarrow> string \<Rightarrow> string \<Rightarrow> nat \<Rightarrow> bool" where
  "holds_lease s key token expiry \<longleftrightarrow>
     (\<exists>w. unat w = expiry \<and> store_get s key = Some (lease_json token w))"

text \<open>What others may do to a leased key: try to claim it, or release it with their own token.\<close>

datatype LeaseOp = TryClaim nat string u64 | Release string

fun lease_op :: "string \<Rightarrow> SharedStore \<Rightarrow> LeaseOp \<Rightarrow> (SharedStore \<times> bool) result" where
  "lease_op key s (TryClaim now tok ttl) = try_claim s now key tok ttl"
| "lease_op key s (Release tok) = Ok (release_claim s key tok, False)"

text \<open>A run of operations; the flag tells whether some claim succeeded. Failed calls change nothing.\<close>

fun lease_run :: "string \<Rightarrow> SharedStore \<Rightarrow> LeaseOp list \<Rightarrow> SharedStore \<times> bool" where
  "lease_run key s [] = (s, False)"
| "lease_run key s (x # xs) =
     (case lease_op key s x of
        Inl _ \<Rightarrow> lease_run key s xs
      | Inr (s', b) \<Rightarrow> (let (s'', b') = lease_run key s' xs in (s'', b \<or> b')))"

fun lease_intruder :: "string \<Rightarrow> nat \<Rightarrow> LeaseOp \<Rightarrow> bool" where
  "lease_intruder token expiry (TryClaim now tok ttl) = (now < expiry)"
| "lease_intruder token expiry (Release tok) = (tok \<noteq> token)"

lemma lease_json_fields [simp]:
  "json_get (lease_json tok w) ''expires_at'' = Some (ser_u64 w)"
  "json_get (lease_json tok w) ''token'' = Some (JStr tok)"
  by (simp_all add: lease_json_def)

lemma intruder_step:
  assumes "holds_lease s key token expiry" and "lease_intruder token expiry x"
    and "lease_op key s x = Ok (s', b)"
  shows "s' = s \<and> \<not> b"
proof (cases x)
  case (TryClaim now tok ttl)
  with assms show ?thesis
    by (auto simp: holds_lease_def try_claim_def Let_def store_get_def split: if_splits)
next
  case (Release tok)
  with assms show ?thesis
    by (auto simp: holds_lease_def release_claim_def Let_def store_get_def)
qed

lemma intruders_run:
  assumes "holds_lease s key token expiry" and "\<forall>x \<in> set xs. lease_intruder token expiry x"
  shows "lease_run key s xs = (s, False)"
  using assms(2)
proof (induction xs)
  case Nil
  then show ?case by simp
next
  case (Cons x xs)
  then show ?case
    using intruder_step [OF assms(1), of x] by (auto split: sum.splits)
qed

lemma unat_of_nat_u64: "n < 2 ^ 64 \<Longrightarrow> unat (of_nat n :: u64) = n"
  by (simp add: unat_of_nat take_bit_nat_eq_self)

lemma claim_takes_lease:
  assumes "try_claim s now key token ttl = Ok (s', True)"
  shows "holds_lease s' key token (now + unat ttl * 1000)"
proof -
  from assms have b: "now + unat ttl * 1000 < 2 ^ 64"
    and s': "s' = backend_set s (ns_key (ss_tenant s) key) (lease_json token (of_nat (now + unat ttl * 1000)))"
    by (auto simp: try_claim_def Let_def split: if_splits)
  have "unat (of_nat (now + unat ttl * 1000) :: u64) = now + unat ttl * 1000"
    using b by (rule unat_of_nat_u64)
  then show ?thesis
    unfolding holds_lease_def s' store_get_def
    by (intro exI [of _ "of_nat (now + unat ttl * 1000)"]) (simp only: backend_get_set backend_tenant simp_thms if_True)
qed

text \<open>
  C9 (safety). A lease is exclusive: after a successful claim, no sequence of claims before
  the expiry and of releases with other tokens, in any order, takes the lease, changes the
  store, or makes any of those claims succeed.
\<close>

theorem lease_is_exclusive:
  assumes "try_claim s now key token ttl = Ok (s', True)"
    and "\<forall>x \<in> set xs. lease_intruder token (now + unat ttl * 1000) x"
  shows "lease_run key s' xs = (s', False)"
  using intruders_run [OF claim_takes_lease [OF assms(1)] assms(2)] .

theorem lease_is_exclusive_witness:
  "\<exists>s'. try_claim new_in_memory 5 ''review:T-1'' ''owner'' 120 = Ok (s', True) \<and>
     lease_run ''review:T-1'' s' [TryClaim 7 ''other'' 60, Release ''other'', TryClaim 120004 ''x'' 1] =
       (s', False)"
proof -
  have "\<exists>s'. try_claim new_in_memory 5 ''review:T-1'' ''owner'' 120 = Ok (s', True)"
    by (simp add: try_claim_def new_in_memory_def new_in_memory_with_tenant_def backend_get_def
        word_gt_0)
  then obtain s' where s': "try_claim new_in_memory 5 ''review:T-1'' ''owner'' 120 = Ok (s', True)" ..
  have "\<forall>x \<in> set [TryClaim 7 ''other'' 60, Release ''other'', TryClaim 120004 ''x'' 1].
      lease_intruder ''owner'' (5 + unat (120 :: u64) * 1000) x"
    by simp
  from lease_is_exclusive [OF s' this] s' show ?thesis by blast
qed

text \<open>
  A lease ends: its owner's release removes it, and once it has expired, or
  after that release, any well-formed claim succeeds and takes it over; the former owner's late
  release then leaves the new lease in place.
\<close>

theorem lease_ends:
  assumes "holds_lease s key token expiry" and "0 < ttl" and "now + unat ttl * 1000 < 2 ^ 64"
  shows "(\<exists>s'. try_claim (release_claim s key token) now key tok ttl = Ok (s', True)) \<and>
    (expiry \<le> now \<longrightarrow> (\<exists>s'. try_claim s now key tok ttl = Ok (s', True) \<and>
       holds_lease s' key tok (now + unat ttl * 1000) \<and>
       (tok \<noteq> token \<longrightarrow> release_claim s' key token = s')))"
proof -
  have free: "\<exists>s'. try_claim u now key tok ttl = Ok (s', True)"
    if "store_get u key = None \<or> holds_lease u key token expiry \<and> expiry \<le> now" for u
    using that assms(2,3)
    by (auto simp: holds_lease_def try_claim_def Let_def store_get_def split: option.splits)
  have "store_get (release_claim s key token) key = None"
    using assms(1)
    by (auto simp: holds_lease_def release_claim_def Let_def store_get_def backend_get_del)
  then have rel: "\<exists>s'. try_claim (release_claim s key token) now key tok ttl = Ok (s', True)"
    using free by blast
  have "release_claim s' key token = s' \<or> tok = token"
    if "try_claim s now key tok ttl = Ok (s', True)" for s'
    using claim_takes_lease [OF that]
    by (auto simp: holds_lease_def release_claim_def Let_def store_get_def)
  then show ?thesis using rel free [of s] assms(1) claim_takes_lease by blast
qed

theorem lease_ends_witness:
  "\<exists>s s'. holds_lease s ''k'' ''old'' 2000 \<and> try_claim s 2000 ''k'' ''new'' 3 = Ok (s', True) \<and>
     release_claim s' ''k'' ''old'' = s'"
proof -
  have "\<exists>s. try_claim new_in_memory 0 ''k'' ''old'' 2 = Ok (s, True)"
    by (simp add: try_claim_def new_in_memory_def new_in_memory_with_tenant_def backend_get_def
        word_gt_0)
  then obtain s where "try_claim new_in_memory 0 ''k'' ''old'' 2 = Ok (s, True)" ..
  from claim_takes_lease [OF this] have h: "holds_lease s ''k'' ''old'' 2000" by simp
  have "(0::u64) < 3" "2000 + unat (3::u64) * 1000 < 2 ^ 64" by (simp_all add: word_gt_0)
  from lease_ends [OF h this, of "''new''"] h show ?thesis by auto
qed

section \<open>The event ring buffer\<close>

fun emit_all :: "SharedStore \<Rightarrow> StoreEvent list \<Rightarrow> SharedStore" where
  "emit_all s [] = s"
| "emit_all s (e # es) = emit_all (emit s (ev_ts e) (ev_agent e) (ev_type e) (ev_payload e)) es"

definition last_n :: "nat \<Rightarrow> 'a list \<Rightarrow> 'a list" where
  "last_n n xs = drop (length xs - n) xs"

lemma last_n_snoc:
  "0 < n \<Longrightarrow> (if n \<le> length (last_n n xs) then tl (last_n n xs) else last_n n xs) @ [x] = last_n n (xs @ [x])"
  by (cases "n \<le> length xs") (auto simp: last_n_def drop_Suc [symmetric] tl_drop Suc_diff_le)

lemma emit_ring:
  assumes "ss_ring s = last_n RING_BUFFER_SIZE log"
  shows "ss_ring (emit s (ev_ts e) (ev_agent e) (ev_type e) (ev_payload e)) =
    last_n RING_BUFFER_SIZE (log @ [e])"
proof -
  have "0 < RING_BUFFER_SIZE" by (simp add: RING_BUFFER_SIZE_def)
  from last_n_snoc [OF this, of log e] assms show ?thesis
    by (cases e) (simp add: emit_def Let_def split: if_splits)
qed

text \<open>
  The ring buffer is the log cut to its tail: after emitting any sequence of
  events to a store whose buffer holds the last 1000 events of a log, the buffer holds exactly
  the last 1000 events of the extended log, oldest first; so it never exceeds 1000 events and
  reading from cursor 0 returns all of them.
\<close>

theorem ring_buffer_keeps_the_tail:
  assumes "ss_ring s = last_n RING_BUFFER_SIZE log"
  shows "ss_ring (emit_all s es) = last_n RING_BUFFER_SIZE (log @ es) \<and>
    get_events_since (emit_all s es) 0 = last_n RING_BUFFER_SIZE (log @ es) \<and>
    event_count (emit_all s es) = min RING_BUFFER_SIZE (length log + length es) \<and>
    ss_map (emit_all s es) = ss_map s"
proof -
  have "ss_ring (emit_all s es) = last_n RING_BUFFER_SIZE (log @ es)"
    using assms
  proof (induction es arbitrary: s log)
    case (Cons e es)
    from Cons.IH [OF emit_ring [OF Cons.prems]] show ?case by simp
  qed simp
  moreover have "ss_map (emit_all s es) = ss_map s"
    by (induction es arbitrary: s) (simp_all add: emit_def Let_def)
  ultimately show ?thesis
    by (auto simp: get_events_since_def event_count_def last_n_def)
qed

theorem ring_buffer_keeps_the_tail_witness:
  "event_count (emit_all new_in_memory [\<lparr>ev_agent = ''n'', ev_type = ''t'', ev_payload = JNull, ev_ts = 1\<rparr>]) = 1"
proof -
  have "ss_ring new_in_memory = last_n RING_BUFFER_SIZE []"
    by (simp add: new_in_memory_def new_in_memory_with_tenant_def last_n_def)
  from ring_buffer_keeps_the_tail [OF this, of "[\<lparr>ev_agent = ''n'', ev_type = ''t'', ev_payload = JNull, ev_ts = 1\<rparr>]"]
  show ?thesis by (simp add: RING_BUFFER_SIZE_def)
qed

text \<open>
  A cursor is an index into the current buffer, so once the buffer is full a
  reader that has seen everything (its cursor is the event count) is never given a later event.
\<close>

theorem full_ring_hides_new_events:
  assumes "event_count s = RING_BUFFER_SIZE"
  shows "get_events_since (emit_all s es) (event_count s) = []"
proof -
  have "length (ss_ring (emit_all s es)) = RING_BUFFER_SIZE"
    using assms
  proof (induction es arbitrary: s)
    case (Cons e es)
    have "event_count (emit s (ev_ts e) (ev_agent e) (ev_type e) (ev_payload e)) = RING_BUFFER_SIZE"
      using Cons.prems by (simp add: event_count_def emit_def Let_def RING_BUFFER_SIZE_def)
    then show ?case using Cons.IH by simp
  qed (simp add: event_count_def)
  then show ?thesis using assms by (simp add: get_events_since_def)
qed

theorem full_ring_hides_new_events_witness:
  "\<exists>s e. event_count s = RING_BUFFER_SIZE \<and> get_events_since (emit_all s [e]) (event_count s) = []"
proof -
  let ?s = "new_in_memory\<lparr>ss_ring := replicate 1000 \<lparr>ev_agent = [], ev_type = [], ev_payload = JNull, ev_ts = 0\<rparr>\<rparr>"
  have "event_count ?s = RING_BUFFER_SIZE" by (simp add: event_count_def RING_BUFFER_SIZE_def)
  with full_ring_hides_new_events [OF this] show ?thesis by blast
qed

end
