(* ===== verification/Flow.thy ===== *)
theory Flow
  imports Shared_Store
begin

text \<open>
  The flow engine of \<open>src/crates/pocketflow-core/src\<close>: \<open>action.rs\<close>, \<open>node.rs\<close>,
  \<open>batch.rs\<close> and \<open>flow.rs\<close>. A node's three phases are written by the agent crates
  (they call language models, spawn processes and use the network), so they are fields of the
  node's record here. They act on the store and on an external world \<open>'w\<close>; the system clock
  is a function \<open>clk\<close> of that world. Logging is left out.
\<close>

section \<open>Actions\<close>

type_synonym Action = string

definition NO_TICKETS :: Action where
  "NO_TICKETS = ''no_tickets''"

definition STOP_SIGNAL :: Action where
  "STOP_SIGNAL = ''__stop__''"

definition PAUSE_SIGNAL :: Action where
  "PAUSE_SIGNAL = ''__pause__''"

section \<open>Nodes\<close>

text \<open>What a phase returns, with the store and the world it leaves behind.\<close>

type_synonym ('a, 'w) effect = "'a result \<times> SharedStore \<times> 'w"

text \<open>
  The trait passes no store to \<open>exec\<close> and asks it not to write to one, but a node object may
  keep a handle from an earlier phase: VESSEL clones the store in \<open>prep\<close> and commits lifecycle
  transitions through the clone in \<open>exec\<close>. A handle shares the contents of the store, so
  \<open>exec\<close> is given the store here as the other phases are. The batch nodes of the program keep
  no handle; one item's work sees only the item and the world.
\<close>

record 'w Node =
  nd_name :: string
  nd_prep :: "SharedStore \<Rightarrow> 'w \<Rightarrow> (json, 'w) effect"
  nd_exec :: "SharedStore \<Rightarrow> json \<Rightarrow> 'w \<Rightarrow> (json, 'w) effect"
  nd_post :: "SharedStore \<Rightarrow> json \<Rightarrow> 'w \<Rightarrow> (Action, 'w) effect"

definition action_payload :: "Action \<Rightarrow> json" where
  "action_payload a = JObj [(''action'', JStr a)]"

text \<open>\<open>Node::run\<close>: the phases in order, each bracketed by events; the first error ends it.\<close>

definition node_run :: "('w \<Rightarrow> u64) \<Rightarrow> 'w Node \<Rightarrow> SharedStore \<Rightarrow> 'w \<Rightarrow> (Action, 'w) effect" where
  "node_run clk nd s w =
     (let name = nd_name nd;
          s = emit s (clk w) name ''prep_started'' (JObj []) in
      case nd_prep nd s w of
        (Inl e, s, w) \<Rightarrow> (Err e, s, w)
      | (Inr prep_result, s, w) \<Rightarrow>
          let s = emit s (clk w) name ''prep_done'' (JObj []);
              s = emit s (clk w) name ''exec_started'' (JObj []) in
          (case nd_exec nd s prep_result w of
             (Inl e, s, w) \<Rightarrow> (Err e, s, w)
           | (Inr exec_result, s, w) \<Rightarrow>
               let s = emit s (clk w) name ''exec_done'' (JObj []);
                   s = emit s (clk w) name ''post_started'' (JObj []) in
               (case nd_post nd s exec_result w of
                  (Inl e, s, w) \<Rightarrow> (Err e, s, w)
                | (Inr action, s, w) \<Rightarrow>
                    (Ok action, emit s (clk w) name ''post_done'' (action_payload action), w))))"

section \<open>Batch nodes\<close>

record 'w BatchNode =
  bn_name :: string
  bn_prep :: "SharedStore \<Rightarrow> 'w \<Rightarrow> (json list, 'w) effect"
  bn_exec_one :: "json \<Rightarrow> 'w \<Rightarrow> json result \<times> 'w"
  bn_post :: "SharedStore \<Rightarrow> json result list \<Rightarrow> 'w \<Rightarrow> (Action, 'w) effect"

text \<open>
  \<open>join_all\<close> runs the futures of all items concurrently and returns their results in the
  order of the items. The schedule \<open>sched\<close> lists the item indices in the order in which the
  futures take effect.
\<close>

fun join_all ::
  "(json \<Rightarrow> 'w \<Rightarrow> json result \<times> 'w) \<Rightarrow> json list \<Rightarrow> nat list \<Rightarrow> (nat \<rightharpoonup> json result) \<Rightarrow> 'w \<Rightarrow>
   (nat \<rightharpoonup> json result) \<times> 'w" where
  "join_all f items [] slots w = (slots, w)"
| "join_all f items (i # sched) slots w =
     (let (r, w') = f (items ! i) w in join_all f items sched (slots(i \<mapsto> r)) w')"

definition items_payload :: "nat \<Rightarrow> json" where
  "items_payload n = JObj [(''items'', ser_u64 (of_nat n))]"

definition run_batch ::
  "('w \<Rightarrow> u64) \<Rightarrow> nat list \<Rightarrow> 'w BatchNode \<Rightarrow> SharedStore \<Rightarrow> 'w \<Rightarrow> (Action, 'w) effect" where
  "run_batch clk sched bn s w =
     (let name = bn_name bn;
          s = emit s (clk w) name ''batch_prep_started'' (JObj []) in
      case bn_prep bn s w of
        (Inl e, s, w) \<Rightarrow> (Err e, s, w)
      | (Inr items, s, w) \<Rightarrow>
          if length items = 0 then
            (Ok NO_TICKETS, emit s (clk w) name ''batch_empty'' (JObj []), w)
          else
            let s = emit s (clk w) name ''batch_exec_started'' (items_payload (length items));
                (slots, w) = join_all (bn_exec_one bn) items sched Map.empty w;
                results = map (\<lambda>i. the (slots i)) [0..<length items];
                s = emit s (clk w) name ''batch_exec_done'' (items_payload (length items)) in
            (case bn_post bn s results w of
               (Inl e, s, w) \<Rightarrow> (Err e, s, w)
             | (Inr action, s, w) \<Rightarrow>
                 (Ok action, emit s (clk w) name ''batch_done'' (action_payload action), w)))"

text \<open>
  \<open>Arc<dyn Node>\<close>: a plain node with the default \<open>run\<close>, or a batch node, whose blanket
  implementation overrides \<open>run\<close> with \<open>run_batch\<close>. The schedule of a batch is chosen by
  the world.
\<close>

datatype 'w DynNode = PlainNode "'w Node" | BatchedNode "'w \<Rightarrow> nat list" "'w BatchNode"

fun dyn_run :: "('w \<Rightarrow> u64) \<Rightarrow> 'w DynNode \<Rightarrow> SharedStore \<Rightarrow> 'w \<Rightarrow> (Action, 'w) effect" where
  "dyn_run clk (PlainNode nd) s w = node_run clk nd s w"
| "dyn_run clk (BatchedNode sched bn) s w = run_batch clk (sched w) bn s w"

section \<open>Flows\<close>

record 'w FlowNode =
  fn_node :: "'w DynNode"
  fn_routes :: "(string \<times> string) list"

record 'w Flow =
  fl_start :: string
  fl_nodes :: "(string \<times> 'w FlowNode) list"
  fl_max_steps :: nat
  fl_max_visits :: nat

definition flow_new :: "string \<Rightarrow> 'w Flow" where
  "flow_new start = \<lparr>fl_start = start, fl_nodes = [], fl_max_steps = 10000, fl_max_visits = 20\<rparr>"

definition flow_max_steps :: "nat \<Rightarrow> 'w Flow \<Rightarrow> 'w Flow" where
  "flow_max_steps n fl = fl\<lparr>fl_max_steps := n\<rparr>"

definition flow_max_visits_per_node :: "nat \<Rightarrow> 'w Flow \<Rightarrow> 'w Flow" where
  "flow_max_visits_per_node n fl = fl\<lparr>fl_max_visits := n\<rparr>"

text \<open>Collecting the routes into a hash map keeps the last target given for an action.\<close>

definition collect_routes :: "(string \<times> string) list \<Rightarrow> (string \<times> string) list" where
  "collect_routes rs = fold (\<lambda>(a, t). AList.update a t) rs []"

definition add_node ::
  "string \<Rightarrow> 'w DynNode \<Rightarrow> (string \<times> string) list \<Rightarrow> 'w Flow \<Rightarrow> 'w Flow" where
  "add_node name node routes fl =
     fl\<lparr>fl_nodes :=
       AList.update name \<lparr>fn_node = node, fn_routes = collect_routes routes\<rparr> (fl_nodes fl)\<rparr>"

definition unknown_node :: "string \<Rightarrow> string" where
  "unknown_node name = ''Flow: unknown node '' @ [CHR 0x27] @ name @ [CHR 0x27]"

text \<open>
  The loop of \<open>Flow::run\<close>, with its two guards. \<open>steps\<close> and the visit counts are
  \<open>usize\<close> in the code; both are bounded by the limits, so they do not overflow.
\<close>

function flow_loop ::
  "('w \<Rightarrow> u64) \<Rightarrow> 'w Flow \<Rightarrow> string \<Rightarrow> nat \<Rightarrow> (string \<Rightarrow> nat) \<Rightarrow> SharedStore \<Rightarrow> 'w \<Rightarrow>
   (Action, 'w) effect" where
  "flow_loop clk fl current steps node_visits s w =
     (if fl_max_steps fl \<le> steps then (Ok PAUSE_SIGNAL, s, w)
      else
        let visits = node_visits current + 1 in
        if fl_max_visits fl < visits then (Ok PAUSE_SIGNAL, s, w)
        else
          (case map_of (fl_nodes fl) current of
             None \<Rightarrow> (Err (unknown_node current), s, w)
           | Some flow_node \<Rightarrow>
               (case dyn_run clk (fn_node flow_node) s w of
                  (Inl e, s', w') \<Rightarrow> (Err e, s', w')
                | (Inr action, s', w') \<Rightarrow>
                    if action = STOP_SIGNAL then (Ok action, s', w')
                    else if action = PAUSE_SIGNAL then (Ok action, s', w')
                    else
                      (case map_of (fn_routes flow_node) action of
                         Some nxt \<Rightarrow>
                           flow_loop clk fl nxt (steps + 1) (node_visits(current := visits)) s' w'
                       | None \<Rightarrow> (Ok action, s', w')))))"
  by pat_completeness auto
termination
  by (relation "measure (\<lambda>(_, fl, _, steps, _). fl_max_steps fl - steps)") auto

declare flow_loop.simps [simp del]

definition flow_run :: "('w \<Rightarrow> u64) \<Rightarrow> 'w Flow \<Rightarrow> SharedStore \<Rightarrow> 'w \<Rightarrow> (Action, 'w) effect" where
  "flow_run clk fl s w = flow_loop clk fl (fl_start fl) 0 (\<lambda>_. 0) s w"

section \<open>Reference semantics: walks over the route table\<close>

text \<open>The flow continues from a node to \<open>nxt\<close>.\<close>

definition flow_goes :: "('w \<Rightarrow> u64) \<Rightarrow> 'w Flow \<Rightarrow> string \<Rightarrow> SharedStore \<Rightarrow> 'w \<Rightarrow> string \<Rightarrow> SharedStore \<Rightarrow> 'w \<Rightarrow> bool" where
  "flow_goes clk fl cur s w nxt s' w' \<longleftrightarrow>
     (\<exists>fn a. map_of (fl_nodes fl) cur = Some fn \<and> dyn_run clk (fn_node fn) s w = (Ok a, s', w') \<and>
        a \<noteq> STOP_SIGNAL \<and> a \<noteq> PAUSE_SIGNAL \<and> map_of (fn_routes fn) a = Some nxt)"

text \<open>The flow ends at a node with result \<open>r\<close>, for a reason other than a limit.\<close>

definition flow_ends :: "('w \<Rightarrow> u64) \<Rightarrow> 'w Flow \<Rightarrow> string \<Rightarrow> SharedStore \<Rightarrow> 'w \<Rightarrow> (Action, 'w) effect \<Rightarrow> bool" where
  "flow_ends clk fl cur s w out \<longleftrightarrow>
     (case map_of (fl_nodes fl) cur of
        None \<Rightarrow> out = (Err (unknown_node cur), s, w)
      | Some fn \<Rightarrow> dyn_run clk (fn_node fn) s w = out \<and>
          (case fst out of Inl _ \<Rightarrow> True
           | Inr a \<Rightarrow> a = STOP_SIGNAL \<or> a = PAUSE_SIGNAL \<or> map_of (fn_routes fn) a = None))"

text \<open>A walk through the nodes \<open>vs\<close>, in this order, that is about to run node \<open>c\<close>.\<close>

inductive walk ::
  "('w \<Rightarrow> u64) \<Rightarrow> 'w Flow \<Rightarrow> string \<Rightarrow> SharedStore \<Rightarrow> 'w \<Rightarrow> string list \<Rightarrow> string \<Rightarrow> SharedStore \<Rightarrow> 'w \<Rightarrow> bool"
  for clk fl where
  walk_here: "walk clk fl cur s w [] cur s w"
| walk_on: "flow_goes clk fl cur s w nxt s1 w1 \<Longrightarrow> walk clk fl nxt s1 w1 vs c s' w' \<Longrightarrow>
    walk clk fl cur s w (cur # vs) c s' w'"

inductive_cases walk_NilE: "walk clk fl cur s w [] c s' w'"
inductive_cases walk_ConsE: "walk clk fl cur s w (v # vs) c s' w'"

lemma flow_step_cases:
  obtains (goes) nxt s' w' where "flow_goes clk fl cur s w nxt s' w'"
  | (ends) out where "flow_ends clk fl cur s w out"
proof (cases "map_of (fl_nodes fl) cur")
  case None
  then show thesis using ends [of "(Err (unknown_node cur), s, w)"] by (simp add: flow_ends_def)
next
  case (Some fn)
  obtain r s' w' where run: "dyn_run clk (fn_node fn) s w = (r, s', w')"
    by (metis prod_cases3)
  show thesis
  proof (cases "flow_ends clk fl cur s w (r, s', w')")
    case True
    then show thesis by (rule ends)
  next
    case False
    then show thesis using Some run goes by (auto simp: flow_ends_def flow_goes_def split: sum.splits)
  qed
qed

lemma flow_loop_goes:
  assumes "flow_goes clk fl cur s w nxt s' w'" and "steps < fl_max_steps fl"
    and "visits cur < fl_max_visits fl"
  shows "flow_loop clk fl cur steps visits s w =
    flow_loop clk fl nxt (steps + 1) (visits(cur := visits cur + 1)) s' w'"
  using assms by (subst flow_loop.simps) (auto simp: flow_goes_def Let_def)

lemma flow_loop_ends:
  assumes "flow_ends clk fl cur s w out" and "steps < fl_max_steps fl"
    and "visits cur < fl_max_visits fl"
  shows "flow_loop clk fl cur steps visits s w = out"
  using assms
  by (subst flow_loop.simps) (auto simp: flow_ends_def Let_def split: option.splits sum.splits prod.splits)

lemma flow_loop_paused:
  assumes "fl_max_steps fl \<le> steps \<or> fl_max_visits fl \<le> visits cur"
  shows "flow_loop clk fl cur steps visits s w = (Ok PAUSE_SIGNAL, s, w)"
  using assms by (subst flow_loop.simps) (auto simp: Let_def)

lemma flow_goes_det:
  "flow_goes clk fl cur s w n1 s1 w1 \<Longrightarrow> flow_goes clk fl cur s w n2 s2 w2 \<Longrightarrow> n1 = n2 \<and> s1 = s2 \<and> w1 = w2"
  by (auto simp: flow_goes_def)

lemma flow_goes_not_ends: "flow_goes clk fl cur s w n s1 w1 \<Longrightarrow> \<not> flow_ends clk fl cur s w out"
  by (cases out) (auto simp: flow_goes_def flow_ends_def)

lemma walk_nodes: "walk clk fl cur s w vs c s' w' \<Longrightarrow> set vs \<subseteq> dom (map_of (fl_nodes fl))"
  by (induction rule: walk.induct) (auto simp: flow_goes_def)

end
