(* ===== verification/Flow_Properties.thy ===== *)
theory Flow_Properties
  imports Flow Store_Leases
begin

text \<open>
  Correctness of the flow engine: a pass is a walk over the route table cut off by the two
  limits, it runs boundedly many nodes, a node run brackets its phases with six events in order,
  and a batch hands its results over in item order whatever the schedule.
\<close>

section \<open>The loop against the walks\<close>

text \<open>
  \<open>paced\<close>: from a node, with \<open>steps\<close> steps and \<open>visits\<close> visits already spent, the outcome
  is that of the walk over the route table cut off where a limit is reached.
\<close>

definition paced ::
  "('w \<Rightarrow> u64) \<Rightarrow> 'w Flow \<Rightarrow> string \<Rightarrow> nat \<Rightarrow> (string \<Rightarrow> nat) \<Rightarrow> SharedStore \<Rightarrow> 'w \<Rightarrow>
   (Action, 'w) effect \<Rightarrow> bool" where
  "paced clk fl cur steps visits s w out \<longleftrightarrow>
     (\<exists>vs c s1 w1. walk clk fl cur s w vs c s1 w1 \<and>
        steps + length vs \<le> fl_max_steps fl \<and> (\<forall>n. visits n + count_list vs n \<le> fl_max_visits fl) \<and>
        (if steps + length vs = fl_max_steps fl \<or> visits c + count_list vs c = fl_max_visits fl
         then out = (Ok PAUSE_SIGNAL, s1, w1) else flow_ends clk fl c s1 w1 out))"

lemma paced_here:
  assumes "steps \<le> fl_max_steps fl" and "\<forall>n. visits n \<le> fl_max_visits fl"
    and "if steps = fl_max_steps fl \<or> visits cur = fl_max_visits fl
         then out = (Ok PAUSE_SIGNAL, s, w) else flow_ends clk fl cur s w out"
  shows "paced clk fl cur steps visits s w out"
  unfolding paced_def using assms
  by (intro exI [of _ "[]"] exI [of _ cur] exI [of _ s] exI [of _ w]) (simp add: walk_here)

lemma paced_on:
  assumes "flow_goes clk fl cur s w nxt s' w'"
    and "paced clk fl nxt (Suc steps) (visits(cur := Suc (visits cur))) s' w' out"
  shows "paced clk fl cur steps visits s w out"
proof -
  let ?visits = "visits(cur := Suc (visits cur))"
  from assms(2) obtain vs c s1 w1 where w: "walk clk fl nxt s' w' vs c s1 w1"
    and b: "Suc steps + length vs \<le> fl_max_steps fl"
      "\<forall>n. ?visits n + count_list vs n \<le> fl_max_visits fl"
      "if Suc steps + length vs = fl_max_steps fl \<or> ?visits c + count_list vs c = fl_max_visits fl
       then out = (Ok PAUSE_SIGNAL, s1, w1) else flow_ends clk fl c s1 w1 out"
    unfolding paced_def by blast
  have "?visits n + count_list vs n = visits n + count_list (cur # vs) n" for n by simp
  moreover have "Suc steps + length vs = steps + length (cur # vs)" by simp
  ultimately show ?thesis
    using walk_on [OF assms(1) w] b unfolding paced_def by metis
qed

lemma flow_loop_paced:
  assumes "steps \<le> fl_max_steps fl" and "\<forall>n. visits n \<le> fl_max_visits fl"
  shows "paced clk fl cur steps visits s w (flow_loop clk fl cur steps visits s w)"
  using assms
proof (induction "fl_max_steps fl - steps" arbitrary: cur steps visits s w rule: less_induct)
  case less
  show ?case
  proof (cases "steps = fl_max_steps fl \<or> visits cur = fl_max_visits fl")
    case True
    with less.prems flow_loop_paused [of fl steps visits cur] show ?thesis
      by (intro paced_here) auto
  next
    case False
    with less.prems have lim: "steps < fl_max_steps fl" "visits cur < fl_max_visits fl"
      by (simp_all add: order.not_eq_order_implies_strict)
    consider (goes) nxt s' w' where "flow_goes clk fl cur s w nxt s' w'"
      | (ends) out where "flow_ends clk fl cur s w out"
      by (rule flow_step_cases)
    then show ?thesis
    proof cases
      case ends
      with flow_loop_ends [where visits = visits, OF ends lim] False less.prems show ?thesis
        by (intro paced_here) auto
    next
      case goes
      let ?visits = "visits(cur := Suc (visits cur))"
      have "paced clk fl nxt (Suc steps) ?visits s' w' (flow_loop clk fl nxt (Suc steps) ?visits s' w')"
        using lim less.prems by (intro less.hyps) auto
      then show ?thesis
        using paced_on [OF goes] flow_loop_goes [where visits = visits, OF goes lim] by simp
    qed
  qed
qed

text \<open>Walks are deterministic: a pass has only one paced outcome.\<close>

lemma flow_loop_walk:
  assumes "walk clk fl cur s w vs c s' w'"
    and "steps + length vs \<le> fl_max_steps fl" and "\<forall>n. visits n + count_list vs n \<le> fl_max_visits fl"
  shows "flow_loop clk fl cur steps visits s w =
    flow_loop clk fl c (steps + length vs) (\<lambda>n. visits n + count_list vs n) s' w'"
  using assms
proof (induction arbitrary: steps visits rule: walk.induct)
  case (walk_on cur s w nxt s1 w1 vs c s' w')
  let ?visits = "visits(cur := Suc (visits cur))"
  from walk_on.prems(2) [rule_format, of cur] walk_on.prems(1)
  have lim: "steps < fl_max_steps fl" "visits cur < fl_max_visits fl" by simp_all
  have "flow_loop clk fl nxt (Suc steps) ?visits s1 w1 =
      flow_loop clk fl c (Suc steps + length vs) (\<lambda>n. ?visits n + count_list vs n) s' w'"
    using walk_on.prems(1) walk_on.prems(2) by (intro walk_on.IH) (auto split: if_splits)
  moreover have "(\<lambda>n. ?visits n + count_list vs n) = (\<lambda>n. visits n + count_list (cur # vs) n)" by auto
  ultimately show ?case
    using flow_loop_goes [where visits = visits, OF walk_on.hyps(1) lim] by simp
qed simp

lemma walk_length_bound:
  assumes "walk clk fl cur s w vs c s' w'" and "\<forall>n. count_list vs n \<le> k"
  shows "length vs \<le> k * card (dom (map_of (fl_nodes fl)))"
proof -
  have "length vs = sum (count_list vs) (set vs)" by (simp add: sum_count_set)
  also have "\<dots> \<le> sum (\<lambda>_. k) (set vs)" using assms(2) by (intro sum_mono) auto
  also have "\<dots> \<le> k * card (dom (map_of (fl_nodes fl)))"
    using walk_nodes [OF assms(1)] by (simp add: card_mono finite_dom_map_of)
  finally show ?thesis .
qed

section \<open>Passes\<close>

text \<open>
  C15 (equivalence). A pass of the flow always returns, and what it returns is what the route
  table says: there is a walk from the start node, each next node being the route of the action
  the previous one returned, that respects both limits (so it runs at most
  \<open>max_visits \<times> number of nodes\<close> nodes). If a limit is reached the pass ends with the pause
  signal and no further effect; otherwise it ends the way the node it stands at ends: unknown
  node, error, stop, pause or an action without route.
\<close>

theorem flow_run_is_a_bounded_walk:
  "\<exists>vs c s1 w1. walk clk fl (fl_start fl) s w vs c s1 w1 \<and>
     length vs \<le> fl_max_steps fl \<and> (\<forall>n. count_list vs n \<le> fl_max_visits fl) \<and>
     length vs \<le> fl_max_visits fl * card (dom (map_of (fl_nodes fl))) \<and>
     (if length vs = fl_max_steps fl \<or> count_list vs c = fl_max_visits fl
      then flow_run clk fl s w = (Ok PAUSE_SIGNAL, s1, w1)
      else flow_ends clk fl c s1 w1 (flow_run clk fl s w))"
proof -
  have "paced clk fl (fl_start fl) 0 (\<lambda>_. 0) s w (flow_run clk fl s w)"
    unfolding flow_run_def by (rule flow_loop_paced) simp_all
  then obtain vs c s1 w1 where w: "walk clk fl (fl_start fl) s w vs c s1 w1"
    and "length vs \<le> fl_max_steps fl" and n: "\<forall>n. count_list vs n \<le> fl_max_visits fl"
    and "if length vs = fl_max_steps fl \<or> count_list vs c = fl_max_visits fl
      then flow_run clk fl s w = (Ok PAUSE_SIGNAL, s1, w1)
      else flow_ends clk fl c s1 w1 (flow_run clk fl s w)"
    unfolding paced_def by auto
  with walk_length_bound [OF w n] show ?thesis by blast
qed

text \<open>A two-node flow: \<open>a\<close> always routes to \<open>b\<close>, which stops.\<close>

definition const_node :: "string \<Rightarrow> Action \<Rightarrow> unit DynNode" where
  "const_node name a = PlainNode \<lparr>nd_name = name, nd_prep = (\<lambda>s w. (Ok JNull, s, w)),
     nd_exec = (\<lambda>s v w. (Ok JNull, s, w)), nd_post = (\<lambda>s v w. (Ok a, s, w))\<rparr>"

definition two_nodes :: "unit Flow" where
  "two_nodes = add_node ''b'' (const_node ''b'' STOP_SIGNAL) []
     (add_node ''a'' (const_node ''a'' ''go_b'') [(''go_b'', ''b'')] (flow_new ''a''))"

lemma const_node_runs:
  "\<exists>s'. dyn_run clk (const_node name a) s w = (Ok a, s', ())"
  by (simp add: const_node_def node_run_def Let_def)

lemma two_nodes_lookup:
  "map_of (fl_nodes two_nodes) ''a'' = Some \<lparr>fn_node = const_node ''a'' ''go_b'', fn_routes = [(''go_b'', ''b'')]\<rparr>"
  "map_of (fl_nodes two_nodes) ''b'' = Some \<lparr>fn_node = const_node ''b'' STOP_SIGNAL, fn_routes = []\<rparr>"
  "fl_start two_nodes = ''a''" "fl_max_steps two_nodes = 10000" "fl_max_visits two_nodes = 20"
  by (simp_all add: two_nodes_def add_node_def flow_new_def collect_routes_def)

text \<open>
  Work that fits into the limits is never cut short: if the route table leads
  from the start through a walk to a node that ends with some outcome, and the walk stays
  strictly below both limits where it ends, the pass returns exactly that outcome.
\<close>

theorem flow_run_completes:
  assumes "walk clk fl (fl_start fl) s w vs c s1 w1" and "flow_ends clk fl c s1 w1 out"
    and "length vs < fl_max_steps fl" and "\<forall>n. count_list vs n \<le> fl_max_visits fl"
    and "count_list vs c < fl_max_visits fl"
  shows "flow_run clk fl s w = out"
proof -
  have "flow_run clk fl s w = flow_loop clk fl c (length vs) (count_list vs) s1 w1"
    unfolding flow_run_def
    using flow_loop_walk [OF assms(1), of 0 "\<lambda>_. 0"] assms(3,4) by simp
  then show ?thesis
    using flow_loop_ends [where visits = "count_list vs", OF assms(2,3,5)] by simp
qed

theorem flow_run_completes_witness:
  "\<exists>s'. flow_run (\<lambda>_. 0) two_nodes new_in_memory () = (Ok STOP_SIGNAL, s', ())"
proof -
  obtain s1 where a: "dyn_run (\<lambda>_. 0) (const_node ''a'' ''go_b'') new_in_memory () = (Ok ''go_b'', s1, ())"
    using const_node_runs by blast
  obtain s2 where b: "dyn_run (\<lambda>_. 0) (const_node ''b'' STOP_SIGNAL) s1 () = (Ok STOP_SIGNAL, s2, ())"
    using const_node_runs by blast
  have "flow_goes (\<lambda>_. 0) two_nodes ''a'' new_in_memory () ''b'' s1 ()"
    using a by (simp add: flow_goes_def two_nodes_lookup STOP_SIGNAL_def PAUSE_SIGNAL_def)
  then have w: "walk (\<lambda>_. 0) two_nodes (fl_start two_nodes) new_in_memory () [''a''] ''b'' s1 ()"
    unfolding two_nodes_lookup by (rule walk_on) (rule walk_here)
  have e: "flow_ends (\<lambda>_. 0) two_nodes ''b'' s1 () (Ok STOP_SIGNAL, s2, ())"
    using b by (simp add: flow_ends_def two_nodes_lookup)
  have "flow_run (\<lambda>_. 0) two_nodes new_in_memory () = (Ok STOP_SIGNAL, s2, ())"
    by (rule flow_run_completes [OF w e]) (simp_all add: two_nodes_lookup)
  then show ?thesis by blast
qed

section \<open>Node runs\<close>

definition node_events :: "string list" where
  "node_events = [''prep_started'', ''prep_done'', ''exec_started'', ''exec_done'', ''post_started'', ''post_done'']"

definition event_tags :: "StoreEvent list \<Rightarrow> (string \<times> string) list" where
  "event_tags es = map (\<lambda>e. (ev_agent e, ev_type e)) es"

text \<open>A node whose own phases emit no events.\<close>

definition quiet :: "'w Node \<Rightarrow> bool" where
  "quiet nd \<longleftrightarrow> (\<forall>s w. ss_ring (fst (snd (nd_prep nd s w))) = ss_ring s) \<and>
     (\<forall>s v w. ss_ring (fst (snd (nd_exec nd s v w))) = ss_ring s) \<and>
     (\<forall>s v w. ss_ring (fst (snd (nd_post nd s v w))) = ss_ring s)"

lemma last_n_map: "last_n n (map f xs) = map f (last_n n xs)"
  by (simp add: last_n_def drop_map)

text \<open>The buffer shows the tail of a log of (agent, event type) pairs.\<close>

definition logged :: "SharedStore \<Rightarrow> (string \<times> string) list \<Rightarrow> bool" where
  "logged s log \<longleftrightarrow> event_tags (ss_ring s) = last_n RING_BUFFER_SIZE log"

lemma logged_emit:
  assumes "logged s log"
  shows "logged (emit s ts a t p) (log @ [(a, t)])"
proof -
  have "0 < RING_BUFFER_SIZE" by (simp add: RING_BUFFER_SIZE_def)
  moreover have "length (ss_ring s) = length (last_n RING_BUFFER_SIZE log)"
    using arg_cong [OF assms [unfolded logged_def], of length] by (simp add: event_tags_def)
  ultimately show ?thesis
    using last_n_snoc [of RING_BUFFER_SIZE log "(a, t)"] assms
    by (auto simp: emit_def Let_def event_tags_def logged_def map_tl split: if_splits)
qed

lemma logged_ring: "ss_ring s' = ss_ring s \<Longrightarrow> logged s' log \<longleftrightarrow> logged s log"
  by (simp add: logged_def)

lemma quiet_logged:
  assumes "quiet nd" and "logged s log"
  shows "nd_prep nd s w = (r, s', w') \<Longrightarrow> logged s' log"
    and "nd_exec nd s v w = (r, s', w') \<Longrightarrow> logged s' log"
    and "nd_post nd s v w = (r', s', w') \<Longrightarrow> logged s' log"
  using assms logged_ring [of s' s log] unfolding quiet_def by (metis fst_conv snd_conv)+

lemma node_run_stages:
  assumes "quiet nd" and "logged s log" and "node_run clk nd s w = (r, s', w')"
  shows "\<exists>k. logged s' (log @ map (Pair (nd_name nd)) (take k node_events)) \<and>
    (if is_ok r then k = 6 else k \<in> {1, 3, 5})"
proof -
  let ?n = "nd_name nd" and ?log = "\<lambda>k. log @ map (Pair (nd_name nd)) (take k node_events)"
  note emit_more = logged_emit [where a = ?n]
  have log1: "logged (emit s (clk w) ?n ''prep_started'' (JObj [])) (?log 1)"
    using emit_more [OF assms(2)] by (simp add: node_events_def)
  obtain p s1 w1 where prep: "nd_prep nd (emit s (clk w) ?n ''prep_started'' (JObj [])) w = (p, s1, w1)"
    by (metis prod_cases3)
  define s3 where "s3 = emit (emit s1 (clk w1) ?n ''prep_done'' (JObj [])) (clk w1) ?n ''exec_started'' (JObj [])"
  have at1: "logged s1 (?log 1)" using quiet_logged(1) [OF assms(1) log1 prep] .
  have log3: "logged s3 (?log 3)"
    using emit_more [OF emit_more [OF at1]] unfolding s3_def by (simp add: node_events_def eval_nat_numeral)
  show ?thesis
  proof (cases p)
    case (Inl e)
    with assms(3) prep at1 show ?thesis by (auto simp: node_run_def Let_def)
  next
    case (Inr v)
    obtain x s4 w2 where ex: "nd_exec nd s3 v w1 = (x, s4, w2)" by (metis prod_cases3)
    have at3: "logged s4 (?log 3)" using quiet_logged(2) [OF assms(1) log3 ex] .
    define s5 where "s5 = emit (emit s4 (clk w2) ?n ''exec_done'' (JObj [])) (clk w2) ?n ''post_started'' (JObj [])"
    have log5: "logged s5 (?log 5)"
      using emit_more [OF emit_more [OF at3]] unfolding s5_def by (simp add: node_events_def eval_nat_numeral)
    note run = assms(3) [unfolded node_run_def Let_def prep, simplified Inr, simplified,
        folded s3_def, unfolded ex]
    show ?thesis
    proof (cases x)
      case (Inl e)
      with run at3 show ?thesis by auto
    next
      case (Inr y)
      obtain a s6 w3 where post: "nd_post nd s5 y w2 = (a, s6, w3)" by (metis prod_cases3)
      have at5: "logged s6 (?log 5)" using quiet_logged(3) [OF assms(1) log5 post] .
      show ?thesis
      proof (cases a)
        case (Inl e)
        with run Inr post at5 show ?thesis by (auto simp: s5_def)
      next
        case (Inr act)
        have "logged (emit s6 (clk w3) ?n ''post_done'' (action_payload act)) (?log 6)"
          using emit_more [OF at5] by (simp add: node_events_def eval_nat_numeral)
        with run Inr \<open>x = Ok y\<close> post show ?thesis by (auto simp: s5_def)
      qed
    qed
  qed
qed

text \<open>
  A node run brackets its phases with events, in order: a run that returns an
  action has appended exactly the six events of its phases to the log, a run that fails has
  appended exactly those up to the start of the phase that failed. (The phases themselves emit
  nothing; the buffer shows the last 1000 events of the log.)
\<close>

theorem node_run_emits_phases_in_order:
  assumes "quiet nd" and "event_tags (ss_ring s) = last_n RING_BUFFER_SIZE log"
    and "node_run clk nd s w = (r, s', w')"
  shows "\<exists>k. event_tags (ss_ring s') =
      last_n RING_BUFFER_SIZE (log @ map (Pair (nd_name nd)) (take k node_events)) \<and>
    (if is_ok r then k = 6 else k \<in> {1, 3, 5})"
  using node_run_stages [OF assms(1) _ assms(3)] assms(2) unfolding logged_def .

theorem node_run_emits_phases_in_order_witness:
  "\<exists>s'. node_run (\<lambda>_. 7) \<lparr>nd_name = ''n'', nd_prep = (\<lambda>s w. (Ok JNull, s, w)),
       nd_exec = (\<lambda>s v w. (Err ''boom'', s, w)), nd_post = (\<lambda>s v w. (Ok [], s, w))\<rparr> new_in_memory () =
       (Err ''boom'', s', ()) \<and>
     (\<exists>k. event_tags (ss_ring s') = last_n RING_BUFFER_SIZE (map (Pair ''n'') (take k node_events)))"
proof -
  let ?nd = "\<lparr>nd_name = ''n'', nd_prep = (\<lambda>s w. (Ok JNull, s, w)),
       nd_exec = (\<lambda>s v w. (Err ''boom'', s, w)), nd_post = (\<lambda>s v w. (Ok [], s, w))\<rparr> :: unit Node"
  have q: "quiet ?nd" by (simp add: quiet_def)
  have l: "event_tags (ss_ring new_in_memory) = last_n RING_BUFFER_SIZE []"
    by (simp add: event_tags_def last_n_def new_in_memory_def new_in_memory_with_tenant_def)
  obtain s' where "node_run (\<lambda>_. 7) ?nd new_in_memory () = (Err ''boom'', s', ())"
    by (simp add: node_run_def Let_def)
  with node_run_emits_phases_in_order [OF q l this] show ?thesis by auto
qed

section \<open>Batches\<close>

lemma join_all_slots:
  assumes "distinct sched" and "\<forall>item w. fst (f item w) = g item"
  shows "fst (join_all f items sched slots w) i = (if i \<in> set sched then Some (g (items ! i)) else slots i)"
  using assms(1)
proof (induction sched arbitrary: slots w)
  case (Cons j sched)
  obtain r w' where r: "f (items ! j) w = (r, w')" by fastforce
  with assms(2) have "r = g (items ! j)" by (metis fst_conv)
  with Cons r show ?case by (simp add: Let_def)
qed simp

text \<open>
  Whatever order the concurrent items finish in, the batch collects one result
  per item, in the order of the items, and hands exactly that vector to the final phase; a
  failing item is an error entry of the vector, not a failure of the batch. (The result of an
  item is taken to depend on the item only.)
\<close>

theorem batch_results_in_item_order:
  assumes "distinct sched" and "set sched = {..<length items}" and "items \<noteq> []"
    and "\<forall>item w. fst (bn_exec_one bn item w) = f item"
    and "bn_prep bn (emit s (clk w) (bn_name bn) ''batch_prep_started'' (JObj [])) w = (Ok items, s1, w1)"
  shows "\<exists>s2 w2. ss_map s2 = ss_map s1 \<and>
    run_batch clk sched bn s w =
      (case bn_post bn s2 (map f items) w2 of
         (Inl e, s3, w3) \<Rightarrow> (Err e, s3, w3)
       | (Inr a, s3, w3) \<Rightarrow> (Ok a, emit s3 (clk w3) (bn_name bn) ''batch_done'' (action_payload a), w3))"
proof -
  obtain slots w2 where j: "join_all (bn_exec_one bn) items sched Map.empty w1 = (slots, w2)" by fastforce
  have "slots i = Some (f (items ! i))" if "i < length items" for i
    using join_all_slots [OF assms(1,4), of items Map.empty w1 i] that assms(2) j by simp
  then have "map (\<lambda>i. the (slots i)) [0..<length items] = map f items"
    by (intro nth_equalityI) simp_all
  with assms(3,5) j show ?thesis
    by (intro exI [of _ "emit (emit s1 (clk w1) (bn_name bn) ''batch_exec_started'' (items_payload (length items)))
          (clk w2) (bn_name bn) ''batch_exec_done'' (items_payload (length items))"] exI [of _ w2])
      (simp add: run_batch_def Let_def emit_def)
qed

theorem batch_results_in_item_order_witness:
  "\<exists>s' w'. run_batch (\<lambda>_. 0) [1, 0]
     \<lparr>bn_name = ''pool'', bn_prep = (\<lambda>s w. (Ok [JStr ''x'', JNull], s, w)),
      bn_exec_one = (\<lambda>v w. (if v = JNull then Err ''failed'' else Ok v, w + (1::nat))),
      bn_post = (\<lambda>s rs w. (if rs = [Ok (JStr ''x''), Err ''failed''] then Ok ''done'' else Err ''bad'', s, w))\<rparr>
     new_in_memory 5 = (Ok ''done'', s', w')"
proof -
  let ?bn = "\<lparr>bn_name = ''pool'', bn_prep = (\<lambda>s w. (Ok [JStr ''x'', JNull], s, w)),
      bn_exec_one = (\<lambda>v w. (if v = JNull then Err ''failed'' else Ok v, w + (1::nat))),
      bn_post = (\<lambda>s rs w. (if rs = [Ok (JStr ''x''), Err ''failed''] then Ok ''done'' else Err ''bad'', s, w))\<rparr>"
  have p: "distinct [1, 0 :: nat]" "set [1, 0] = {..<length [JStr ''x'', JNull]}" "[JStr ''x'', JNull] \<noteq> []"
    by auto
  have f: "\<forall>item w. fst (bn_exec_one ?bn item w) = (if item = JNull then Err ''failed'' else Ok item)" by simp
  have q: "bn_prep ?bn (emit new_in_memory ((\<lambda>_. 0) 5) (bn_name ?bn) ''batch_prep_started'' (JObj [])) 5 =
      (Ok [JStr ''x'', JNull], emit new_in_memory 0 ''pool'' ''batch_prep_started'' (JObj []), 5)" by simp
  from batch_results_in_item_order [OF p f q] show ?thesis by auto
qed

end
