(* ===== verification/Ticket_State.thy ===== *)
theory Ticket_State
  imports Json
begin

text \<open>
  \<open>src/crates/config/src/state.rs\<close>: tickets and their status, worker slots, the stored (serde)
  form of both, and the builders of the store keys that the agents share.
\<close>

section \<open>Tickets\<close>

datatype TicketStatus =
    Open
  | Assigned string
  | InProgress string
  | MergedAs string u64
  | Failed string string u32
  | Completed string string
  | Exhausted string u32
  | AwaitingHuman string string u32

record Ticket =
  tk_id :: string
  tk_title :: string
  tk_body :: string
  tk_priority :: u32
  tk_branch :: "string option"
  tk_status :: TicketStatus
  tk_issue_url :: "string option"
  tk_attempts :: u32

definition MAX_ATTEMPTS :: u32 where
  "MAX_ATTEMPTS = 3"

fun status_assignable :: "TicketStatus \<Rightarrow> bool" where
  "status_assignable Open = True"
| "status_assignable (Failed _ _ attempts) = (attempts < MAX_ATTEMPTS)"
| "status_assignable _ = False"

definition is_assignable :: "Ticket \<Rightarrow> bool" where
  "is_assignable t = status_assignable (tk_status t)"

fun is_terminal :: "TicketStatus \<Rightarrow> bool" where
  "is_terminal (MergedAs _ _) = True"
| "is_terminal (Exhausted _ _) = True"
| "is_terminal (Failed _ _ attempts) = (MAX_ATTEMPTS \<le> attempts)"
| "is_terminal (Completed _ outcome) = (outcome \<noteq> ''pr_opened'')"
| "is_terminal _ = False"

section \<open>Workers\<close>

datatype WorkerStatus =
    Idle
  | WAssigned string "string option"
  | Working string "string option"
  | WDone string string
  | Suspended string string "string option"

record WorkerSlot =
  ws_id :: string
  ws_status :: WorkerStatus
  ws_workspace_id :: "string option"

fun worker_ticket_id :: "WorkerStatus \<Rightarrow> string option" where
  "worker_ticket_id (WAssigned t _) = Some t"
| "worker_ticket_id (Working t _) = Some t"
| "worker_ticket_id (WDone t _) = Some t"
| "worker_ticket_id (Suspended t _ _) = Some t"
| "worker_ticket_id Idle = None"

section \<open>Stored form\<close>

definition ser_u32 :: "u32 \<Rightarrow> json" where
  "ser_u32 n = ser_u64 (ucast n)"

definition de_u32 :: "json \<Rightarrow> u32 option" where
  "de_u32 v = Option.bind (as_u64 v) (\<lambda>n. if unat n < 2 ^ 32 then Some (ucast n) else None)"

lemma de_ser_u32 [simp]: "de_u32 (ser_u32 n) = Some n"
proof -
  have n: "unat n < 2 ^ 32" using unsigned_less [of n, where 'a = nat] by simp
  then have u: "unat (ucast n :: u64) = unat n"
    by (simp add: unsigned_ucast_eq take_bit_nat_eq_self)
  then have "ucast (ucast n :: u64) = n"
    by (metis of_nat_unat ucast_id)
  with n u show ?thesis by (simp add: de_u32_def ser_u32_def)
qed

text \<open>An internally tagged variant: the tag goes into the object beside the variant's fields.\<close>

definition tagged :: "string \<Rightarrow> (string \<times> json) list \<Rightarrow> json" where
  "tagged tag fs = JObj ((''type'', JStr tag) # fs)"

fun ticket_status_to_json :: "TicketStatus \<Rightarrow> json" where
  "ticket_status_to_json Open = tagged ''open'' []"
| "ticket_status_to_json (Assigned w) = tagged ''assigned'' [(''worker_id'', JStr w)]"
| "ticket_status_to_json (InProgress w) = tagged ''in_progress'' [(''worker_id'', JStr w)]"
| "ticket_status_to_json (MergedAs w n) = tagged ''merged'' [(''worker_id'', JStr w), (''pr_number'', ser_u64 n)]"
| "ticket_status_to_json (Failed w r a) =
     tagged ''failed'' [(''worker_id'', JStr w), (''reason'', JStr r), (''attempts'', ser_u32 a)]"
| "ticket_status_to_json (Completed w out) =
     tagged ''completed'' [(''worker_id'', JStr w), (''outcome'', JStr out)]"
| "ticket_status_to_json (Exhausted w a) =
     tagged ''exhausted'' [(''worker_id'', JStr w), (''attempts'', ser_u32 a)]"
| "ticket_status_to_json (AwaitingHuman w r a) =
     tagged ''awaiting_human'' [(''worker_id'', JStr w), (''reason'', JStr r), (''attempts'', ser_u32 a)]"

definition ticket_status_of_fields :: "string \<Rightarrow> (string \<times> json) list \<Rightarrow> TicketStatus option" where
  "ticket_status_of_fields tag fs =
     (if tag = ''open'' then Some Open
      else do {
        w \<leftarrow> de_req fs ''worker_id'' de_string;
        if tag = ''assigned'' then Some (Assigned w)
        else if tag = ''in_progress'' then Some (InProgress w)
        else if tag = ''merged'' then map_option (MergedAs w) (de_req fs ''pr_number'' de_u64)
        else if tag = ''failed'' then do {
          r \<leftarrow> de_req fs ''reason'' de_string; a \<leftarrow> de_req fs ''attempts'' de_u32; Some (Failed w r a) }
        else if tag = ''completed'' then map_option (Completed w) (de_req fs ''outcome'' de_string)
        else if tag = ''exhausted'' then map_option (Exhausted w) (de_req fs ''attempts'' de_u32)
        else if tag = ''awaiting_human'' then do {
          r \<leftarrow> de_req fs ''reason'' de_string; a \<leftarrow> de_req fs ''attempts'' de_u32; Some (AwaitingHuman w r a) }
        else None })"

text \<open>The array form of a tagged variant: the tag, then exactly the variant's fields in order.\<close>

definition ticket_status_fields :: "string \<Rightarrow> string list" where
  "ticket_status_fields tag =
     (if tag = ''open'' then []
      else if tag = ''merged'' then [''worker_id'', ''pr_number'']
      else if tag = ''failed'' \<or> tag = ''awaiting_human'' then [''worker_id'', ''reason'', ''attempts'']
      else if tag = ''completed'' then [''worker_id'', ''outcome'']
      else if tag = ''exhausted'' then [''worker_id'', ''attempts'']
      else [''worker_id''])"

fun de_ticket_status :: "json \<Rightarrow> TicketStatus option" where
  "de_ticket_status (JObj fs) = do { tag \<leftarrow> de_req fs ''type'' de_string; ticket_status_of_fields tag fs }"
| "de_ticket_status (JArr (JStr tag # xs)) =
     (if length xs = length (ticket_status_fields tag)
      then ticket_status_of_fields tag (zip (ticket_status_fields tag) xs) else None)"
| "de_ticket_status _ = None"

definition ticket_to_json :: "Ticket \<Rightarrow> json" where
  "ticket_to_json t = JObj [
     (''id'', JStr (tk_id t)), (''title'', JStr (tk_title t)), (''body'', JStr (tk_body t)),
     (''priority'', ser_u32 (tk_priority t)), (''branch'', ser_option JStr (tk_branch t)),
     (''status'', ticket_status_to_json (tk_status t)),
     (''issue_url'', ser_option JStr (tk_issue_url t)), (''attempts'', ser_u32 (tk_attempts t))]"

definition ticket_of_fields :: "(string \<times> json) list \<Rightarrow> Ticket option" where
  "ticket_of_fields fs = do {
     i \<leftarrow> de_req fs ''id'' de_string;
     t \<leftarrow> de_req fs ''title'' de_string;
     b \<leftarrow> de_req fs ''body'' de_string;
     p \<leftarrow> de_req fs ''priority'' de_u32;
     br \<leftarrow> de_dflt fs ''branch'' (de_option de_string) None;
     st \<leftarrow> de_dflt fs ''status'' de_ticket_status Open;
     u \<leftarrow> de_dflt fs ''issue_url'' (de_option de_string) None;
     a \<leftarrow> de_dflt fs ''attempts'' de_u32 0;
     Some \<lparr>tk_id = i, tk_title = t, tk_body = b, tk_priority = p, tk_branch = br, tk_status = st,
           tk_issue_url = u, tk_attempts = a\<rparr> }"

text \<open>In the array form, missing trailing fields take their defaults where they have one.\<close>

fun de_ticket :: "json \<Rightarrow> Ticket option" where
  "de_ticket (JObj fs) = ticket_of_fields fs"
| "de_ticket (JArr xs) =
     (if 5 \<le> length xs \<and> length xs \<le> 8
      then ticket_of_fields (zip [''id'', ''title'', ''body'', ''priority'', ''branch'', ''status'',
             ''issue_url'', ''attempts''] xs)
      else None)"
| "de_ticket _ = None"

fun worker_status_to_json :: "WorkerStatus \<Rightarrow> json" where
  "worker_status_to_json Idle = tagged ''idle'' []"
| "worker_status_to_json (WAssigned t u) =
     tagged ''assigned'' [(''ticket_id'', JStr t), (''issue_url'', ser_option JStr u)]"
| "worker_status_to_json (Working t u) =
     tagged ''working'' [(''ticket_id'', JStr t), (''issue_url'', ser_option JStr u)]"
| "worker_status_to_json (WDone t out) =
     tagged ''done'' [(''ticket_id'', JStr t), (''outcome'', JStr out)]"
| "worker_status_to_json (Suspended t r u) =
     tagged ''suspended'' [(''ticket_id'', JStr t), (''reason'', JStr r), (''issue_url'', ser_option JStr u)]"

definition worker_status_of_fields :: "string \<Rightarrow> (string \<times> json) list \<Rightarrow> WorkerStatus option" where
  "worker_status_of_fields tag fs =
     (if tag = ''idle'' then Some Idle
      else do {
        t \<leftarrow> de_req fs ''ticket_id'' de_string;
        if tag = ''done'' then map_option (WDone t) (de_req fs ''outcome'' de_string)
        else if tag = ''assigned'' then map_option (WAssigned t) (de_dflt fs ''issue_url'' (de_option de_string) None)
        else if tag = ''working'' then map_option (Working t) (de_dflt fs ''issue_url'' (de_option de_string) None)
        else if tag = ''suspended'' then do {
          r \<leftarrow> de_req fs ''reason'' de_string;
          u \<leftarrow> de_dflt fs ''issue_url'' (de_option de_string) None;
          Some (Suspended t r u) }
        else None })"

definition worker_status_fields :: "string \<Rightarrow> string list" where
  "worker_status_fields tag =
     (if tag = ''idle'' then []
      else if tag = ''done'' then [''ticket_id'', ''outcome'']
      else if tag = ''suspended'' then [''ticket_id'', ''reason'', ''issue_url'']
      else [''ticket_id'', ''issue_url''])"

fun de_worker_status :: "json \<Rightarrow> WorkerStatus option" where
  "de_worker_status (JObj fs) = do { tag \<leftarrow> de_req fs ''type'' de_string; worker_status_of_fields tag fs }"
| "de_worker_status (JArr (JStr tag # xs)) =
     (if length xs = length (worker_status_fields tag)
      then worker_status_of_fields tag (zip (worker_status_fields tag) xs) else None)"
| "de_worker_status _ = None"

definition worker_slot_to_json :: "WorkerSlot \<Rightarrow> json" where
  "worker_slot_to_json s = JObj [
     (''id'', JStr (ws_id s)), (''status'', worker_status_to_json (ws_status s)),
     (''workspace_id'', ser_option JStr (ws_workspace_id s))]"

definition worker_slot_of_fields :: "(string \<times> json) list \<Rightarrow> WorkerSlot option" where
  "worker_slot_of_fields fs = do {
     i \<leftarrow> de_req fs ''id'' de_string;
     st \<leftarrow> de_req fs ''status'' de_worker_status;
     w \<leftarrow> de_dflt fs ''workspace_id'' (de_option de_string) None;
     Some \<lparr>ws_id = i, ws_status = st, ws_workspace_id = w\<rparr> }"

fun de_worker_slot :: "json \<Rightarrow> WorkerSlot option" where
  "de_worker_slot (JObj fs) = worker_slot_of_fields fs"
| "de_worker_slot (JArr xs) =
     (if length xs = 2 \<or> length xs = 3
      then worker_slot_of_fields (zip [''id'', ''status'', ''workspace_id''] xs) else None)"
| "de_worker_slot _ = None"

section \<open>Store keys\<close>

definition ticket_key :: "string \<Rightarrow> string \<Rightarrow> string" where
  "ticket_key ticket_id subkey = ''ticket:'' @ ticket_id @ '':'' @ subkey"

definition pr_review_namespace :: "u64 \<Rightarrow> string \<Rightarrow> u64 \<Rightarrow> string" where
  "pr_review_namespace revision head round =
     ''pr_review:'' @ show_u64 revision @ '':'' @ head @ '':'' @ show_u64 round"

definition review_chat_key :: "string \<Rightarrow> string \<Rightarrow> string" where
  "review_chat_key ticket_id review_type = ''ticket:'' @ ticket_id @ '':chat:sentinel:'' @ review_type"

definition review_verdict_key :: "string \<Rightarrow> string \<Rightarrow> string" where
  "review_verdict_key ticket_id review_type = ''ticket:'' @ ticket_id @ '':review:sentinel:'' @ review_type"

definition review_action_key :: "string \<Rightarrow> string \<Rightarrow> string" where
  "review_action_key ticket_id review_type =
     ''ticket:'' @ ticket_id @ '':chat_action:sentinel:'' @ review_type"

definition heartbeat_key :: "string \<Rightarrow> string \<Rightarrow> string" where
  "heartbeat_key role ticket_id = ''heartbeat:'' @ role @ ''-T-'' @ ticket_id"

definition full_ticket_key :: "string \<Rightarrow> string \<Rightarrow> string \<Rightarrow> string" where
  "full_ticket_key ticket_id subkey role = ''ticket:'' @ ticket_id @ '':'' @ subkey @ '':'' @ role"

definition full_ticket_key_flat :: "string \<Rightarrow> string \<Rightarrow> string" where
  "full_ticket_key_flat ticket_id subkey = ''ticket:'' @ ticket_id @ '':'' @ subkey"

definition address_review_dispatched_key :: "u64 \<Rightarrow> string" where
  "address_review_dispatched_key n = ''_address_review_dispatched_'' @ show_u64 n"

definition address_review_rearmed_key :: "u64 \<Rightarrow> string" where
  "address_review_rearmed_key n = ''_address_review_rearmed_'' @ show_u64 n"

definition address_review_dispatched_at_key :: "u64 \<Rightarrow> string" where
  "address_review_dispatched_at_key n = ''_address_review_dispatched_at_'' @ show_u64 n"

definition address_review_attempts_key :: "u64 \<Rightarrow> string" where
  "address_review_attempts_key n = ''_address_review_attempts_'' @ show_u64 n"

section \<open>Lemmas\<close>

lemma de_ticket_status_roundtrip [simp]: "de_ticket_status (ticket_status_to_json st) = Some st"
  by (cases st) (simp_all add: tagged_def ticket_status_of_fields_def de_req_def)

lemma de_option_string [simp]: "de_option de_string (ser_option JStr x) = Some x"
  by (cases x) simp_all

lemma de_worker_status_roundtrip [simp]: "de_worker_status (worker_status_to_json st) = Some st"
  by (cases st) (simp_all add: tagged_def worker_status_of_fields_def de_req_def de_dflt_def)

lemma show_u64_head: "show_u64 n = c # cs \<Longrightarrow> is_ascii_digit c"
  using show_nat_digits [of c "unat n"] by (simp add: show_u64_def)

lemma show_u64_no_colon [simp]: "CHR '':'' \<notin> set (show_u64 n)"
  using show_nat_digits [of "CHR '':''" "unat n"] by (auto simp: show_u64_def is_ascii_digit_def)

text \<open>
  Tickets and worker slots survive the store: reading back what was written
  returns the same value, for every status and every optional field; and a ticket record written
  before the \<open>status\<close>, \<open>issue_url\<close> and \<open>attempts\<close> fields existed reads as an open ticket.
\<close>

theorem ticket_store_roundtrip:
  "de_ticket (ticket_to_json t) = Some t \<and> de_worker_slot (worker_slot_to_json slot) = Some slot \<and>
   map_option is_assignable (de_ticket (JObj [(''id'', JStr i), (''title'', JStr ti), (''body'', JStr b),
     (''priority'', ser_u32 p), (''branch'', JNull)])) = Some True"
  by (simp add: ticket_to_json_def worker_slot_to_json_def ticket_of_fields_def worker_slot_of_fields_def
      de_req_def de_dflt_def is_assignable_def)

text \<open>
  A ticket is never both assignable and terminal; a failed ticket is exactly one
  of the two, the attempt limit deciding which; and the only tickets that are neither are those in
  somebody's hands: assigned, in progress, awaiting a human, or completed with an open pull request.
\<close>

theorem ticket_status_partition:
  "\<not> (status_assignable st \<and> is_terminal st) \<and>
   (status_assignable (Failed w r a) = (\<not> is_terminal (Failed w r a))) \<and>
   ((\<not> status_assignable st \<and> \<not> is_terminal st) =
     (case st of Assigned _ \<Rightarrow> True | InProgress _ \<Rightarrow> True | AwaitingHuman _ _ _ \<Rightarrow> True
        | Completed _ out \<Rightarrow> out = ''pr_opened'' | _ \<Rightarrow> False))"
  by (cases st) auto

text \<open>
  The review name space identifies the review: two equal name spaces have the
  same revision, head and round, whatever characters the head contains.
\<close>

theorem pr_review_namespace_injective:
  "(pr_review_namespace r h n = pr_review_namespace r' h' n') = (r = r' \<and> h = h' \<and> n = n')"
proof -
  have "r = r' \<and> h = h' \<and> n = n'"
    if e: "show_u64 r @ CHR '':'' # h @ CHR '':'' # show_u64 n = show_u64 r' @ CHR '':'' # h' @ CHR '':'' # show_u64 n'"
  proof -
    from append_sep_eq [OF e] have r: "r = r'" and "h @ CHR '':'' # show_u64 n = h' @ CHR '':'' # show_u64 n'"
      by simp_all
    then have "rev (show_u64 n) @ CHR '':'' # rev h = rev (show_u64 n') @ CHR '':'' # rev h'"
      by (metis rev_append rev.simps(2) append.assoc append_Cons append_Nil)
    from append_sep_eq [OF this] r show ?thesis by simp
  qed
  then show ?thesis by (auto simp: pr_review_namespace_def)
qed

text \<open>
  The four per-pull-request marker families of the rework loop never overwrite each
  other: equal keys are the same family with the same pull request number.
\<close>

theorem address_review_keys_disjoint:
  "address_review_dispatched_key n \<noteq> address_review_dispatched_at_key m \<and>
   address_review_dispatched_key n \<noteq> address_review_rearmed_key m \<and>
   address_review_dispatched_key n \<noteq> address_review_attempts_key m \<and>
   address_review_dispatched_at_key n \<noteq> address_review_rearmed_key m \<and>
   address_review_dispatched_at_key n \<noteq> address_review_attempts_key m \<and>
   address_review_rearmed_key n \<noteq> address_review_attempts_key m \<and>
   inj address_review_dispatched_key \<and> inj address_review_dispatched_at_key \<and>
   inj address_review_rearmed_key \<and> inj address_review_attempts_key"
proof -
  have "show_u64 n \<noteq> CHR ''a'' # xs" for xs
    using show_u64_head [of n "CHR ''a''"] by (auto simp: is_ascii_digit_def)
  then show ?thesis
    by (simp add: address_review_dispatched_key_def address_review_dispatched_at_key_def
        address_review_rearmed_key_def address_review_attempts_key_def inj_on_def)
qed

text \<open>
  Ticket-scoped keys are unambiguous: for ticket ids without a colon, equal keys
  belong to the same ticket and have the same sub-key and role, and the chat, verdict and action
  keys of a review are never confused with each other.
\<close>

theorem ticket_keys_unambiguous:
  assumes t: "CHR '':'' \<notin> set t" and t': "CHR '':'' \<notin> set t'"
    and k: "CHR '':'' \<notin> set k" and k': "CHR '':'' \<notin> set k'"
  shows "(ticket_key t x = ticket_key t' x') = (t = t' \<and> x = x') \<and>
    (full_ticket_key t k r = full_ticket_key t' k' r') = (t = t' \<and> k = k' \<and> r = r') \<and>
    review_chat_key t x \<noteq> review_verdict_key t' x' \<and>
    review_chat_key t x \<noteq> review_action_key t' x' \<and>
    review_verdict_key t x \<noteq> review_action_key t' x'"
proof -
  have tk: "(ticket_key t u = ticket_key t' u') = (t = t' \<and> u = u')" for u u'
    using append_sep_eq [OF _ t t', of u u'] by (auto simp: ticket_key_def)
  have "(k @ CHR '':'' # r = k' @ CHR '':'' # r') = (k = k' \<and> r = r')"
    using append_sep_eq [OF _ k k', of r r'] by auto
  moreover have "full_ticket_key a b c = ticket_key a (b @ CHR '':'' # c)" for a b c
    by (simp add: full_ticket_key_def ticket_key_def)
  moreover have "review_chat_key a b = ticket_key a (''chat:sentinel:'' @ b)"
    "review_verdict_key a b = ticket_key a (''review:sentinel:'' @ b)"
    "review_action_key a b = ticket_key a (''chat_action:sentinel:'' @ b)" for a b
    by (simp_all add: review_chat_key_def review_verdict_key_def review_action_key_def ticket_key_def)
  ultimately show ?thesis by (simp add: tk)
qed

theorem ticket_keys_unambiguous_witness:
  "full_ticket_key ''T-1'' ''chat'' ''forge'' \<noteq> full_ticket_key ''T-2'' ''chat'' ''forge''"
  using ticket_keys_unambiguous [of "''T-1''" "''T-2''" "''chat''" "''chat''" "[]" "[]" "''forge''" "''forge''"]
  by simp

end
