(* ===== verification/Command_Gate.thy ===== *)
theory Command_Gate
  imports Shared_Store
begin

text \<open>
  \<open>src/crates/pocketflow-core/src/command_gate.rs\<close>: a worker proposes a dangerous command through
  the store and polls for the decision of NEXUS. Each of its calls of the store is awaited, so the rest of the
  system may act on the store before each of them: \<open>env t\<close> is what it does before turn \<open>t\<close>. \<open>elapsed i\<close> is
  the time in milliseconds since the proposal at poll \<open>i\<close>, \<open>ts i\<close> the wall clock there.
\<close>

section \<open>Commands\<close>

definition DANGEROUS_PATTERNS :: "string list" where
  "DANGEROUS_PATTERNS = [''rm -rf'', ''rm -r /'', ''chmod 777'', ''git push --force'', ''curl | sh'',
     ''wget | sh'', ''bash <('', ''DROP TABLE'', ''DROP DATABASE'', ''DELETE FROM'', ''mkfs'',
     ''dd if='', ''> /dev/'']"

definition is_dangerous :: "string \<Rightarrow> bool" where
  "is_dangerous cmd =
     (let lower = to_lowercase cmd in
      list_ex (\<lambda>p. contains lower (to_lowercase p)) DANGEROUS_PATTERNS)"

datatype RiskLevel = Low | Medium | High

record CommandProposal =
  cp_worker_id :: string
  cp_command :: string
  cp_reason :: string
  cp_risk_level :: RiskLevel

datatype CommandDecision = Approved | Rejected string

section \<open>Stored form\<close>

fun risk_name :: "RiskLevel \<Rightarrow> string" where
  "risk_name Low = ''Low''"
| "risk_name Medium = ''Medium''"
| "risk_name High = ''High''"

definition risk_of_name :: "string \<Rightarrow> RiskLevel option" where
  "risk_of_name s =
     (if s = ''Low'' then Some Low else if s = ''Medium'' then Some Medium
      else if s = ''High'' then Some High else None)"

fun de_risk :: "json \<Rightarrow> RiskLevel option" where
  "de_risk (JStr s) = risk_of_name s"
| "de_risk (JObj [(k, JNull)]) = risk_of_name k"
| "de_risk _ = None"

definition proposal_to_json :: "CommandProposal \<Rightarrow> json" where
  "proposal_to_json p = JObj [
     (''worker_id'', JStr (cp_worker_id p)), (''command'', JStr (cp_command p)),
     (''reason'', JStr (cp_reason p)), (''risk_level'', JStr (risk_name (cp_risk_level p)))]"

definition proposal_of_fields :: "(string \<times> json) list \<Rightarrow> CommandProposal option" where
  "proposal_of_fields fs = do {
     w \<leftarrow> de_req fs ''worker_id'' de_string;
     c \<leftarrow> de_req fs ''command'' de_string;
     r \<leftarrow> de_req fs ''reason'' de_string;
     l \<leftarrow> de_req fs ''risk_level'' de_risk;
     Some \<lparr>cp_worker_id = w, cp_command = c, cp_reason = r, cp_risk_level = l\<rparr> }"

fun de_proposal :: "json \<Rightarrow> CommandProposal option" where
  "de_proposal (JObj fs) = proposal_of_fields fs"
| "de_proposal (JArr xs) =
     (if length xs = 4
      then proposal_of_fields (zip [''worker_id'', ''command'', ''reason'', ''risk_level''] xs) else None)"
| "de_proposal _ = None"

fun decision_value :: "CommandDecision \<Rightarrow> json" where
  "decision_value Approved = JStr ''Approved''"
| "decision_value (Rejected r) = JObj [(''Rejected'', JObj [(''reason'', JStr r)])]"

fun de_rejected :: "json \<Rightarrow> CommandDecision option" where
  "de_rejected (JObj fs) = map_option Rejected (de_req fs ''reason'' de_string)"
| "de_rejected (JArr [v]) = map_option Rejected (de_string v)"
| "de_rejected _ = None"

fun de_command_decision :: "json \<Rightarrow> CommandDecision option" where
  "de_command_decision (JStr s) = (if s = ''Approved'' then Some Approved else None)"
| "de_command_decision (JObj [(k, v)]) =
     (if k = ''Approved'' \<and> v = JNull then Some Approved
      else if k = ''Rejected'' then de_rejected v else None)"
| "de_command_decision _ = None"

lemma de_decision_value [simp]: "de_command_decision (decision_value d) = Some d"
  by (cases d) (simp_all add: de_req_def)

lemma de_proposal_to_json [simp]: "de_proposal (proposal_to_json p) = Some p"
proof -
  have "de_risk (JStr (risk_name l)) = Some l" for l by (cases l) (simp_all add: risk_of_name_def)
  then show ?thesis by (simp add: proposal_to_json_def proposal_of_fields_def de_req_def)
qed

section \<open>The gate\<close>

definition proposal_key :: "string \<Rightarrow> string" where
  "proposal_key worker_id = ''command_gate::'' @ worker_id"

definition decision_key :: "string \<Rightarrow> string" where
  "decision_key worker_id = ''command_gate::'' @ worker_id @ ''::decision''"

definition gate_timeout_error :: "string \<Rightarrow> string" where
  "gate_timeout_error worker_id =
     ''CommandGate timeout: NEXUS did not respond within 60s for worker '' @ worker_id"

definition command_payload :: "string \<Rightarrow> json" where
  "command_payload command = JObj [(''command'', JStr command)]"

text \<open>The turns of a check: the calls of the store that it awaits.\<close>

datatype GateTurn = ClearDecision | Publish | Announce | Poll nat | RemoveProposal | ConsumeDecision | LogOutcome

text \<open>The end of a check whose poll found a decision.\<close>

definition gate_decide ::
  "(GateTurn \<Rightarrow> SharedStore \<Rightarrow> SharedStore) \<Rightarrow> string \<Rightarrow> string \<Rightarrow> u64 \<Rightarrow> SharedStore \<Rightarrow> CommandDecision \<Rightarrow> unit result \<times> SharedStore" where
  "gate_decide env worker_id command now s decision =
     (let s = store_del (env RemoveProposal s) (proposal_key worker_id);
          s = store_del (env ConsumeDecision s) (decision_key worker_id) in
      case decision of
        Approved \<Rightarrow> (Ok (), emit (env LogOutcome s) now worker_id ''command_gate_approved'' (command_payload command))
      | Rejected reason \<Rightarrow>
          (Err (''Command rejected by NEXUS: '' @ reason),
           emit (env LogOutcome s) now worker_id ''command_gate_rejected''
             (JObj [(''command'', JStr command), (''reason'', JStr reason)])))"

text \<open>The polling loop; \<open>None\<close> is a loop that never ends. The timeout is 60 s.\<close>

partial_function (option) gate_poll ::
  "(nat \<Rightarrow> nat) \<Rightarrow> (nat \<Rightarrow> u64) \<Rightarrow> (GateTurn \<Rightarrow> SharedStore \<Rightarrow> SharedStore) \<Rightarrow> string \<Rightarrow> string \<Rightarrow> nat \<Rightarrow> SharedStore \<Rightarrow>
   (unit result \<times> SharedStore) option" where
  "gate_poll elapsed ts env worker_id command i s =
     (if 60 * 1000 \<le> elapsed i
      then Some (Err (gate_timeout_error worker_id), store_del (env RemoveProposal s) (proposal_key worker_id))
      else (case store_get_typed de_command_decision (env (Poll i) s) (decision_key worker_id) of
              Some decision \<Rightarrow> Some (gate_decide env worker_id command (ts i) (env (Poll i) s) decision)
            | None \<Rightarrow> gate_poll elapsed ts env worker_id command (i + 1) (env (Poll i) s)))"

definition gate_proposal :: "string \<Rightarrow> string \<Rightarrow> string \<Rightarrow> CommandProposal" where
  "gate_proposal worker_id command reason =
     \<lparr>cp_worker_id = worker_id, cp_command = command, cp_reason = reason, cp_risk_level = High\<rparr>"

definition gate_propose ::
  "(GateTurn \<Rightarrow> SharedStore \<Rightarrow> SharedStore) \<Rightarrow> u64 \<Rightarrow> SharedStore \<Rightarrow> string \<Rightarrow> string \<Rightarrow> string \<Rightarrow> unit result \<times> SharedStore" where
  "gate_propose env now s worker_id command reason =
     (let s = store_del (env ClearDecision s) (decision_key worker_id);
          s = env Publish s in
      case store_set_typed proposal_to_json s (proposal_key worker_id) (gate_proposal worker_id command reason) of
        Inl e \<Rightarrow> (Err e, s)
      | Inr s \<Rightarrow> (Ok (), emit (env Announce s) now worker_id ''command_gate_proposed'' (command_payload command)))"

definition check_and_wait ::
  "(nat \<Rightarrow> nat) \<Rightarrow> (nat \<Rightarrow> u64) \<Rightarrow> (GateTurn \<Rightarrow> SharedStore \<Rightarrow> SharedStore) \<Rightarrow> SharedStore \<Rightarrow> string \<Rightarrow> string \<Rightarrow> string \<Rightarrow>
   (unit result \<times> SharedStore) option" where
  "check_and_wait elapsed ts env s worker_id command reason =
     (if \<not> is_dangerous command then Some (Ok (), s)
      else (case gate_propose env (ts 0) s worker_id command reason of
              (Inl e, s') \<Rightarrow> Some (Err e, s')
            | (Inr _, s') \<Rightarrow> gate_poll elapsed ts env worker_id command 0 s'))"

definition approve :: "SharedStore \<Rightarrow> string \<Rightarrow> SharedStore result" where
  "approve s worker_id = store_set_typed decision_value s (decision_key worker_id) Approved"

definition reject :: "SharedStore \<Rightarrow> string \<Rightarrow> string \<Rightarrow> SharedStore result" where
  "reject s worker_id reason = store_set_typed decision_value s (decision_key worker_id) (Rejected reason)"

definition pending_proposal :: "SharedStore \<Rightarrow> string \<Rightarrow> CommandProposal option" where
  "pending_proposal s worker_id = store_get_typed de_proposal s (proposal_key worker_id)"

section \<open>Lemmas\<close>

lemma gate_keys_differ [simp]: "decision_key w \<noteq> proposal_key w" "proposal_key w \<noteq> decision_key w"
  by (simp_all add: decision_key_def proposal_key_def)

lemma get_emit [simp]: "store_get (emit s t a e p) k = store_get s k"
  by (simp add: store_get_def backend_get_def emit_def Let_def)

lemma get_typed_emit [simp]: "store_get_typed de (emit s t a e p) k = store_get_typed de s k"
  by (simp add: store_get_typed_def)

text \<open>
  The store that a check finds when it comes to a turn, before the others act, as long as no poll has ended the loop: what the gate itself
  has written so far, and what the others did at the turns before.
\<close>

fun turn_state :: "(GateTurn \<Rightarrow> SharedStore \<Rightarrow> SharedStore) \<Rightarrow> u64 \<Rightarrow> SharedStore \<Rightarrow> string \<Rightarrow> string \<Rightarrow> string \<Rightarrow> nat \<Rightarrow> SharedStore" where
  "turn_state env now s w c r 0 = s"
| "turn_state env now s w c r (Suc 0) = store_del (env ClearDecision s) (decision_key w)"
| "turn_state env now s w c r (Suc (Suc 0)) =
     store_set (env Publish (turn_state env now s w c r (Suc 0))) (proposal_key w) (proposal_to_json (gate_proposal w c r))"
| "turn_state env now s w c r (Suc (Suc (Suc 0))) =
     emit (env Announce (turn_state env now s w c r (Suc (Suc 0)))) now w ''command_gate_proposed'' (command_payload c)"
| "turn_state env now s w c r (Suc (Suc (Suc (Suc i)))) = env (Poll i) (turn_state env now s w c r (Suc (Suc (Suc i))))"

definition gate_turn :: "nat \<Rightarrow> GateTurn" where
  "gate_turn n = (if n = 0 then ClearDecision else if n = 1 then Publish else if n = 2 then Announce else Poll (n - 3))"

abbreviation decision_in :: "SharedStore \<Rightarrow> string \<Rightarrow> CommandDecision option" where
  "decision_in s w \<equiv> store_get_typed de_command_decision s (decision_key w)"

abbreviation polled :: "(GateTurn \<Rightarrow> SharedStore \<Rightarrow> SharedStore) \<Rightarrow> u64 \<Rightarrow> SharedStore \<Rightarrow> string \<Rightarrow> string \<Rightarrow> string \<Rightarrow> nat \<Rightarrow> SharedStore" where
  "polled env now s w c r i \<equiv> env (Poll i) (turn_state env now s w c r (Suc (Suc (Suc i))))"

lemma propose_state: "gate_propose env now s w c r = (Ok (), turn_state env now s w c r 3)"
  by (simp add: gate_propose_def store_set_typed_def Let_def numeral_3_eq_3)

lemma gate_poll_skip:
  assumes "elapsed i < 60000" and "decision_in (polled env now s w c r i) w = None"
  shows "gate_poll elapsed ts env w c i (turn_state env now s w c r (Suc (Suc (Suc i)))) =
    gate_poll elapsed ts env w c (Suc i) (turn_state env now s w c r (Suc (Suc (Suc (Suc i)))))"
  using assms by (subst gate_poll.simps) simp

lemma gate_poll_reach:
  assumes "\<forall>j<i. elapsed j < 60000 \<and> decision_in (polled env (ts 0) s w c r j) w = None" and "is_dangerous c"
  shows "check_and_wait elapsed ts env s w c r = gate_poll elapsed ts env w c i (turn_state env (ts 0) s w c r (Suc (Suc (Suc i))))"
  using assms(1)
proof (induction i)
  case 0
  then show ?case using assms(2) by (simp add: check_and_wait_def propose_state numeral_3_eq_3)
next
  case (Suc i)
  then show ?case using gate_poll_skip [of elapsed i env "ts 0" s w c r] by simp
qed

lemma gate_poll_at:
  "60000 \<le> elapsed i \<Longrightarrow>
     gate_poll elapsed ts env w c i s = Some (Err (gate_timeout_error w), store_del (env RemoveProposal s) (proposal_key w))"
  "elapsed i < 60000 \<Longrightarrow> decision_in (env (Poll i) s) w = Some d \<Longrightarrow>
     gate_poll elapsed ts env w c i s = Some (gate_decide env w c (ts i) (env (Poll i) s) d)"
  by (subst gate_poll.simps; simp)+

text \<open>With time passing at least 500 ms per poll, some poll within the first 121 ends the loop.\<close>

lemma slow_clock: "(\<And>i. elapsed i + 500 \<le> elapsed (Suc i)) \<Longrightarrow> 500 * i \<le> (elapsed i :: nat)"
proof (induction i)
  case (Suc i)
  from Suc.IH [OF Suc.prems] Suc.prems [of i] show ?case by simp
qed simp

lemma least_witness: "P (n :: nat) \<Longrightarrow> \<exists>i \<le> n. P i \<and> (\<forall>j<i. \<not> P j)"
  by (metis Least_le LeastI not_less_Least)

lemma first_ending_poll:
  assumes "\<And>i. elapsed i + 500 \<le> (elapsed (Suc i) :: nat)"
  obtains i where "i \<le> 120" and "60000 \<le> elapsed i \<or> decision_in (polled env now s w c r i) w \<noteq> None"
    and "\<forall>j<i. elapsed j < 60000 \<and> decision_in (polled env now s w c r j) w = None"
proof -
  let ?ends = "\<lambda>i. 60000 \<le> elapsed i \<or> decision_in (polled env now s w c r i) w \<noteq> None"
  have "?ends 120" using slow_clock [of elapsed 120] assms by simp
  then obtain i where "i \<le> 120" and "?ends i" and "\<forall>j<i. \<not> ?ends j"
    using least_witness [of ?ends 120] by blast
  then show thesis using that [of i] by (simp add: not_le)
qed

text \<open>Others do not publish a proposal in the worker's name while it ends a check.\<close>

definition no_foreign_proposal :: "(GateTurn \<Rightarrow> SharedStore \<Rightarrow> SharedStore) \<Rightarrow> string \<Rightarrow> bool" where
  "no_foreign_proposal env w \<longleftrightarrow> (\<forall>t s. t = ConsumeDecision \<or> t = LogOutcome \<longrightarrow> store_get s (proposal_key w) = None \<longrightarrow>
     store_get (env t s) (proposal_key w) = None)"

lemma gate_decide_cleans:
  assumes "no_foreign_proposal env w"
  shows "store_get (snd (gate_decide env w c t s d)) (proposal_key w) = None"
  using assms by (cases d) (simp_all add: gate_decide_def Let_def store_kv.get_remove no_foreign_proposal_def)

lemma gate_decide_Ok: "is_ok (fst (gate_decide env w c t s d)) \<longleftrightarrow> d = Approved"
  by (cases d) (simp_all add: gate_decide_def Let_def)

text \<open>
  C38 (termination). The gate always answers: if every poll sleeps at least its 500 ms, then
  whatever the rest of the system does to the store before each of its calls, the check of any command returns, after at
  most 121 polls; and if nobody else publishes a proposal in the worker's name while the check ends, a dangerous command's proposal
  is gone from the store afterwards.
\<close>

theorem gate_always_answers:
  assumes "\<And>i. elapsed i + 500 \<le> (elapsed (Suc i) :: nat)"
  shows "\<exists>r s'. check_and_wait elapsed ts env s w c reason = Some (r, s') \<and>
    (is_dangerous c \<and> no_foreign_proposal env w \<longrightarrow> store_get s' (proposal_key w) = None)"
proof (cases "is_dangerous c")
  case True
  obtain i where "i \<le> 120" and i: "60000 \<le> elapsed i \<or> decision_in (polled env (ts 0) s w c reason i) w \<noteq> None"
    and before: "\<forall>j<i. elapsed j < 60000 \<and> decision_in (polled env (ts 0) s w c reason j) w = None"
    by (rule first_ending_poll [of elapsed env "ts 0" s w c reason, OF assms(1)])
  note run = gate_poll_reach [where elapsed = elapsed and ts = ts and env = env and s = s and w = w and c = c and r = reason and i = i, OF before True]
  show ?thesis
  proof (cases "60000 \<le> elapsed i")
    case True
    then show ?thesis using run by (simp add: gate_poll_at(1) store_kv.get_remove)
  next
    case False
    with i obtain d where "decision_in (polled env (ts 0) s w c reason i) w = Some d" by blast
    with False run have "check_and_wait elapsed ts env s w c reason =
        Some (gate_decide env w c (ts i) (polled env (ts 0) s w c reason i) d)"
      by (simp add: gate_poll_at(2))
    then show ?thesis using gate_decide_cleans by (metis prod.collapse)
  qed
qed (simp add: check_and_wait_def)

theorem gate_always_answers_witness:
  "\<exists>r s'. check_and_wait (\<lambda>i. 500 * i) (\<lambda>_. 0) (\<lambda>_ s. s) new_in_memory ''forge-1'' ''rm -rf /'' ''clean'' =
     Some (r, s') \<and> store_get s' (proposal_key ''forge-1'') = None"
proof -
  have "is_dangerous ''rm -rf /''" by code_simp
  moreover have "500 * i + 500 \<le> 500 * Suc i" for i by simp
  moreover have "no_foreign_proposal (\<lambda>_ s. s) ''forge-1''" by (simp add: no_foreign_proposal_def)
  ultimately show ?thesis
    using gate_always_answers [of "\<lambda>i. 500 * i" "\<lambda>_. 0" "\<lambda>_ s. s" new_in_memory "''forge-1''" "''rm -rf /''" "''clean''"] by blast
qed

section \<open>Approvals\<close>

text \<open>What is true of the store at turn \<open>m\<close> and not at turn \<open>k\<close> was made true in between.\<close>

lemma first_change:
  assumes "\<not> Q (f (k :: nat))" and "Q (f m)" and "k \<le> m"
  obtains n where "k \<le> n" and "n < m" and "\<not> Q (f n)" and "Q (f (Suc n))"
  using assms
proof (induction m)
  case (Suc m)
  show ?case
  proof (cases "Q (f m)")
    case True
    with Suc have "k \<le> m" by (metis le_Suc_eq)
    with Suc True show ?thesis by (metis less_Suc_eq)
  next
    case False
    with Suc show ?thesis by (metis le_Suc_eq lessI)
  qed
qed simp

text \<open>The gate's own calls write no decision, so a change of the decision is the work of the others.\<close>

lemma decision_by_others:
  "decision_in (turn_state env now s w c r (Suc (Suc n))) w = decision_in (env (gate_turn (Suc n)) (turn_state env now s w c r (Suc n))) w"
proof (cases n)
  case (Suc k)
  then show ?thesis
    by (cases k) (simp_all add: gate_turn_def)
qed (simp add: gate_turn_def store_get_typed_def store_kv.get_put)

text \<open>
  C14 (safety). A dangerous command runs only on an approval that somebody else wrote during this very check: when the check returns without
  error, its proposal was published; a decision left over from before the check was deleted at its start; all polls before the last found no decision
  and the last one, before the timeout, found an approval; at some turn after the deletion and up to that poll the others turned the
  decision of this worker into an approval; and the approval is deleted again. The others may act before each call of the store. A decision
  does not name its proposal, so an approval of an earlier proposal that arrives after the deletion counts.
\<close>

theorem dangerous_needs_fresh_approval:
  assumes "\<And>i. elapsed i + 500 \<le> (elapsed (Suc i) :: nat)" and "is_dangerous c"
    and "check_and_wait elapsed ts env s w c reason = Some (Ok (), s')"
  shows "\<exists>i n u. pending_proposal (turn_state env (ts 0) s w c reason 2) w =
      Some \<lparr>cp_worker_id = w, cp_command = c, cp_reason = reason, cp_risk_level = High\<rparr> \<and>
    store_get (turn_state env (ts 0) s w c reason 1) (decision_key w) = None \<and>
    elapsed i < 60000 \<and> (\<forall>j<i. decision_in (polled env (ts 0) s w c reason j) w = None) \<and>
    decision_in (polled env (ts 0) s w c reason i) w = Some Approved \<and>
    1 \<le> n \<and> n \<le> i + 3 \<and> decision_in (turn_state env (ts 0) s w c reason n) w \<noteq> Some Approved \<and>
    decision_in (env (gate_turn n) (turn_state env (ts 0) s w c reason n)) w = Some Approved \<and>
    s' = emit (env LogOutcome (store_del u (decision_key w))) (ts i) w ''command_gate_approved'' (command_payload c)"
proof -
  let ?at = "turn_state env (ts 0) s w c reason"
  obtain i where "i \<le> 120" and i: "60000 \<le> elapsed i \<or> decision_in (polled env (ts 0) s w c reason i) w \<noteq> None"
    and before: "\<forall>j<i. elapsed j < 60000 \<and> decision_in (polled env (ts 0) s w c reason j) w = None"
    by (rule first_ending_poll [of elapsed env "ts 0" s w c reason, OF assms(1)])
  have run: "gate_poll elapsed ts env w c i (?at (Suc (Suc (Suc i)))) = Some (Ok (), s')"
    using assms(3) gate_poll_reach [where elapsed = elapsed and ts = ts and env = env and s = s and w = w and c = c and r = reason and i = i, OF before assms(2)] by simp
  have lim: "elapsed i < 60000"
    using run gate_poll_at(1) [of elapsed i] by (fastforce simp: not_le [symmetric])
  with i obtain d where d: "decision_in (polled env (ts 0) s w c reason i) w = Some d" by auto
  with run lim have dec: "gate_decide env w c (ts i) (polled env (ts 0) s w c reason i) d = (Ok (), s')"
    by (simp add: gate_poll_at(2))
  have a: "d = Approved" using gate_decide_Ok [of env w c "ts i" "polled env (ts 0) s w c reason i" d] dec by simp
  have cleared: "store_get (?at 1) (decision_key w) = None" by (simp add: store_kv.get_remove)
  then have "decision_in (?at 1) w \<noteq> Some Approved" by (simp add: store_get_typed_def)
  moreover have "decision_in (?at (Suc (Suc (Suc (Suc i))))) w = Some Approved" using d a by simp
  ultimately obtain n where n: "1 \<le> n" "n < Suc (Suc (Suc (Suc i)))" "decision_in (?at n) w \<noteq> Some Approved" "decision_in (?at (Suc n)) w = Some Approved"
    using first_change [of "\<lambda>x. decision_in x w = Some Approved" ?at 1 "Suc (Suc (Suc (Suc i)))"] by auto
  have changed: "decision_in (env (gate_turn n) (?at n)) w = Some Approved"
    using n(1,4) decision_by_others [of env "ts 0" s w c reason "n - 1"] by simp
  have published: "pending_proposal (?at 2) w = Some \<lparr>cp_worker_id = w, cp_command = c, cp_reason = reason, cp_risk_level = High\<rparr>"
    by (simp add: pending_proposal_def store_get_typed_def store_kv.get_put numeral_2_eq_2 gate_proposal_def [symmetric])
  have "n \<le> i + 3" using n(2) by simp
  moreover have "s' = emit (env LogOutcome (store_del (env ConsumeDecision (store_del (env RemoveProposal (polled env (ts 0) s w c reason i)) (proposal_key w)))
      (decision_key w))) (ts i) w ''command_gate_approved'' (command_payload c)"
    using dec a by (simp add: gate_decide_def Let_def)
  ultimately show ?thesis
    using published cleared lim before d a n(1,3) changed by blast
qed

definition demo_approver :: "GateTurn \<Rightarrow> SharedStore \<Rightarrow> SharedStore" where
  "demo_approver t s = (if t = Poll 1 then store_set s (decision_key ''w'') (JStr ''Approved'') else s)"

lemma demo_gate_approved:
  "\<exists>s'. check_and_wait (\<lambda>i. 500 * i) (\<lambda>_. 0) demo_approver (store_set new_in_memory (decision_key ''w'') (JStr ''Approved'')) ''w'' ''rm -rf /'' ''clean'' = Some (Ok (), s')"
proof -
  let ?s = "store_set new_in_memory (decision_key ''w'') (JStr ''Approved'')"
  have d: "is_dangerous ''rm -rf /''" by code_simp
  have "check_and_wait (\<lambda>i. 500 * i) (\<lambda>_. 0) demo_approver ?s ''w'' ''rm -rf /'' ''clean'' =
      gate_poll (\<lambda>i. 500 * i) (\<lambda>_. 0) demo_approver ''w'' ''rm -rf /'' 1 (turn_state demo_approver 0 ?s ''w'' ''rm -rf /'' ''clean'' (Suc (Suc (Suc 1))))"
    by (rule gate_poll_reach [OF _ d]) (simp add: demo_approver_def store_get_typed_def store_kv.get_put store_kv.get_remove)
  then show ?thesis by (simp add: gate_poll_at(2) demo_approver_def store_get_typed_def store_kv.get_put gate_decide_def Let_def)
qed

theorem dangerous_needs_fresh_approval_witness:
  "\<exists>s' i. check_and_wait (\<lambda>i. 500 * i) (\<lambda>_. 0) demo_approver (store_set new_in_memory (decision_key ''w'') (JStr ''Approved'')) ''w'' ''rm -rf /'' ''clean'' = Some (Ok (), s') \<and>
     decision_in (polled demo_approver 0 (store_set new_in_memory (decision_key ''w'') (JStr ''Approved'')) ''w'' ''rm -rf /'' ''clean'' i) ''w'' = Some Approved"
proof -
  have d: "is_dangerous ''rm -rf /''" by code_simp
  have clock: "500 * i + 500 \<le> 500 * Suc i" for i by simp
  obtain s' where r: "check_and_wait (\<lambda>i. 500 * i) (\<lambda>_. 0) demo_approver (store_set new_in_memory (decision_key ''w'') (JStr ''Approved'')) ''w'' ''rm -rf /'' ''clean'' =
      Some (Ok (), s')" using demo_gate_approved by blast
  from dangerous_needs_fresh_approval [OF clock d r] r show ?thesis by blast
qed

text \<open>An approval that arrives before the proposal is published, such as a late answer to an earlier proposal, lets the command pass.\<close>

theorem approval_before_the_proposal_counts:
  "\<exists>s'. check_and_wait (\<lambda>i. 500 * i) (\<lambda>_. 0) (\<lambda>t s. if t = Publish then store_set s (decision_key ''w'') (JStr ''Approved'') else s)
      new_in_memory ''w'' ''rm -rf /'' ''clean'' = Some (Ok (), s')"
proof -
  have "is_dangerous ''rm -rf /''" by code_simp
  then show ?thesis
    by (simp add: check_and_wait_def propose_state numeral_3_eq_3 gate_poll_at(2) store_get_typed_def store_kv.get_put gate_decide_def Let_def)
qed

end
