(* ===== verification/A2A_Protocol.thy ===== *)
theory A2A_Protocol
  imports Ticket_State Lifecycle
begin

text \<open>
  The crate \<open>src/crates/a2a-protocol\<close>: the payloads of a \<open>verify\<close> task with their stored form,
  the store keys of the audit trail, and the command policy. serde_json's printer is not part of
  the repository: \<open>text\<close>, an argument of the definitions that print, stands for it.
\<close>

section \<open>Command policy (\<open>lib.rs\<close>)\<close>

definition program_name :: "string \<Rightarrow> string" where
  "program_name s = after_last (\<lambda>c. c = CHR ''/'') s"

definition forbidden_programs :: "string list" where
  "forbidden_programs = [''sudo'', ''su'', ''redis-cli'', ''docker'', ''podman'', ''mount'', ''umount'',
     ''mkfs'', ''dd'', ''shutdown'', ''reboot'', ''openflows-harness'']"

text \<open>\<open>slice::first\<close> and \<open>slice::get\<close>.\<close>

definition arg_at :: "nat \<Rightarrow> string list \<Rightarrow> string option" where
  "arg_at i args = (if i < length args then Some (args ! i) else None)"

fun prohibited_operation :: "string list \<Rightarrow> string option" where
  "prohibited_operation [] = None"
| "prohibited_operation (argv0 # args) =
     (let program = program_name argv0;
          subcommand = arg_at 0 args;
          script = arg_at 1 args in
      if program \<in> set forbidden_programs
      then Some ''privileged, destructive, or coordination-control operation''
      else if program = ''rm'' \<and> list_ex (\<lambda>a. a = ''/'' \<or> a = ''/*'') args
      then Some ''filesystem-root deletion''
      else if program = ''git'' \<and> is_some_and (arg_at 0 args) (\<lambda>a. a = ''push'')
      then Some ''verification cannot push repository changes''
      else if (program \<in> {''cargo'', ''npm'', ''pnpm''} \<and> subcommand \<in> {Some ''publish'', Some ''deploy''}) \<or>
              (program \<in> {''npm'', ''pnpm''} \<and> subcommand = Some ''run'' \<and>
               script \<in> {Some ''publish'', Some ''deploy''})
      then Some ''publishing or deployment is not verification''
      else None)"

definition is_allowlisted :: "string list \<Rightarrow> bool" where
  "is_allowlisted argv \<longleftrightarrow> argv \<noteq> [] \<and> prohibited_operation argv = None"

definition debug_argv :: "string list \<Rightarrow> string" where
  "debug_argv argv = ''['' @ join '', '' (map debug_str argv) @ '']''"

definition validate_command_argv :: "string list \<Rightarrow> unit result" where
  "validate_command_argv argv =
     ensure (argv \<noteq> [])
       ''Missing verification command. Use: verify request --expect-exit 0 -- cargo test''
     (ensure (\<not> list_ex is_whitespace (hd argv))
       (''The executable contains whitespace: the command was passed as a single argument. Use `verify request --expect-exit 0 -- cargo test --workspace --all-features`, or one --argv per token. Do not quote the whole command. Received argv: ''
         @ debug_argv argv)
     (case prohibited_operation argv of
        Some reason \<Rightarrow> Err (''verification policy denied: '' @ reason @ ''; argv: '' @ debug_argv argv)
      | None \<Rightarrow> Ok ()))"

section \<open>Keys (\<open>keys.rs\<close>)\<close>

definition verification_key :: "string \<Rightarrow> string" where
  "verification_key pair_id = ''pair:'' @ pair_id @ '':verification''"

definition audit_task_key :: "string \<Rightarrow> string" where
  "audit_task_key task_id = ''audit:a2a:'' @ task_id"

definition audit_rejected_key :: string where
  "audit_rejected_key = ''audit:a2a:rejected''"

section \<open>Payloads (\<open>verify.rs\<close>)\<close>

type_synonym i32 = "32 word"

datatype VerifyKind = CommandKind | ArtifactCheck

datatype VerifyCwd = RepoCwd | WorktreeCwd

record VerifyExpect =
  ve_exit_code :: "i32 option"
  ve_artifacts :: "string list"

record VerifyRequest =
  vr_pair_id :: string
  vr_kind :: VerifyKind
  vr_cwd :: VerifyCwd
  vr_argv :: "string list"
  vr_timeout_secs :: u64
  vr_env_allowlist :: "string list"
  vr_expect :: VerifyExpect

record VerifyArtifact =
  va_path :: string
  va_sha256 :: string

record ExecutorInfo =
  ei_role :: string
  ei_workspace :: string

record VerifyResult =
  vx_head_sha :: "string option"
  vx_task_id :: string
  vx_exit_code :: "i32 option"
  vx_timed_out :: bool
  vx_duration_ms :: u64
  vx_stdout_ref :: string
  vx_stderr_ref :: string
  vx_artifacts :: "VerifyArtifact list"
  vx_executor :: ExecutorInfo

datatype VerifyProgressEvent = StdoutChunk string | StderrChunk string

definition satisfies :: "VerifyResult \<Rightarrow> VerifyExpect \<Rightarrow> bool" where
  "satisfies r expect =
     (if vx_timed_out r then False
      else (case ve_exit_code expect of
              Some expected \<Rightarrow> vx_exit_code r = Some expected
            | None \<Rightarrow> True))"

subsection \<open>Stored form\<close>

definition ser_i32 :: "i32 \<Rightarrow> json" where
  "ser_i32 n = JNum (if 0 \<le> sint n then PosInt (of_int (sint n)) else NegInt (sint n))"

fun de_i32 :: "json \<Rightarrow> i32 option" where
  "de_i32 (JNum (PosInt m)) = (if unat m < 2 ^ 31 then Some (of_nat (unat m)) else None)"
| "de_i32 (JNum (NegInt k)) = (if - (2 ^ 31) \<le> k \<and> k < 0 then Some (of_int k) else None)"
| "de_i32 _ = None"

fun kind_name :: "VerifyKind \<Rightarrow> string" where
  "kind_name CommandKind = ''command''"
| "kind_name ArtifactCheck = ''artifact_check''"

definition kind_of_name :: "string \<Rightarrow> VerifyKind option" where
  "kind_of_name s = (if s = ''command'' then Some CommandKind
     else if s = ''artifact_check'' then Some ArtifactCheck else None)"

fun cwd_name :: "VerifyCwd \<Rightarrow> string" where
  "cwd_name RepoCwd = ''repo''"
| "cwd_name WorktreeCwd = ''worktree''"

definition cwd_of_name :: "string \<Rightarrow> VerifyCwd option" where
  "cwd_of_name s = (if s = ''repo'' then Some RepoCwd
     else if s = ''worktree'' then Some WorktreeCwd else None)"

text \<open>A unit variant: its name, or an object with the name as only key and no content.\<close>

fun de_unit_variant :: "(string \<Rightarrow> 'a option) \<Rightarrow> json \<Rightarrow> 'a option" where
  "de_unit_variant f (JStr s) = f s"
| "de_unit_variant f (JObj [(k, JNull)]) = f k"
| "de_unit_variant f _ = None"

text \<open>
  A derived struct is read from an object, or from an array of its fields in order, of which
  trailing ones may be missing down to \<open>least\<close> when they have defaults.
\<close>

fun de_struct :: "nat \<Rightarrow> string list \<Rightarrow> ((string \<times> json) list \<Rightarrow> 'a option) \<Rightarrow> json \<Rightarrow> 'a option" where
  "de_struct least names f (JObj fs) = f fs"
| "de_struct least names f (JArr xs) =
     (if least \<le> length xs \<and> length xs \<le> length names then f (zip names xs) else None)"
| "de_struct least names f _ = None"

definition expect_to_json :: "VerifyExpect \<Rightarrow> json" where
  "expect_to_json e = JObj [(''exit_code'', ser_option ser_i32 (ve_exit_code e)),
     (''artifacts'', ser_vec JStr (ve_artifacts e))]"

definition de_expect :: "json \<Rightarrow> VerifyExpect option" where
  "de_expect = de_struct 1 [''exit_code'', ''artifacts''] (\<lambda>fs. do {
     c \<leftarrow> de_dflt fs ''exit_code'' (de_option de_i32) None;
     a \<leftarrow> de_dflt fs ''artifacts'' (de_vec de_string) [];
     Some \<lparr>ve_exit_code = c, ve_artifacts = a\<rparr> })"

definition default_expect :: VerifyExpect where
  "default_expect = \<lparr>ve_exit_code = None, ve_artifacts = []\<rparr>"

definition request_to_json :: "VerifyRequest \<Rightarrow> json" where
  "request_to_json r = JObj [
     (''pair_id'', JStr (vr_pair_id r)), (''kind'', JStr (kind_name (vr_kind r))),
     (''cwd'', JStr (cwd_name (vr_cwd r))), (''argv'', ser_vec JStr (vr_argv r)),
     (''timeout_secs'', ser_u64 (vr_timeout_secs r)),
     (''env_allowlist'', ser_vec JStr (vr_env_allowlist r)),
     (''expect'', expect_to_json (vr_expect r))]"

definition request_of_fields :: "(string \<times> json) list \<Rightarrow> VerifyRequest option" where
  "request_of_fields fs = do {
     p \<leftarrow> de_req fs ''pair_id'' de_string;
     k \<leftarrow> de_req fs ''kind'' (de_unit_variant kind_of_name);
     c \<leftarrow> de_req fs ''cwd'' (de_unit_variant cwd_of_name);
     a \<leftarrow> de_req fs ''argv'' (de_vec de_string);
     t \<leftarrow> de_req fs ''timeout_secs'' de_u64;
     e \<leftarrow> de_dflt fs ''env_allowlist'' (de_vec de_string) [];
     x \<leftarrow> de_dflt fs ''expect'' de_expect default_expect;
     Some \<lparr>vr_pair_id = p, vr_kind = k, vr_cwd = c, vr_argv = a, vr_timeout_secs = t,
           vr_env_allowlist = e, vr_expect = x\<rparr> }"

definition de_request :: "json \<Rightarrow> VerifyRequest option" where
  "de_request = de_struct 5 [''pair_id'', ''kind'', ''cwd'', ''argv'', ''timeout_secs'', ''env_allowlist'',
     ''expect''] request_of_fields"

text \<open>\<open>idempotency_seed\<close>: the pair and the printed request.\<close>

definition idempotency_seed :: "(json \<Rightarrow> string) \<Rightarrow> VerifyRequest \<Rightarrow> string" where
  "idempotency_seed text r = vr_pair_id r @ '':'' @ text (request_to_json r)"

definition artifact_to_json :: "VerifyArtifact \<Rightarrow> json" where
  "artifact_to_json a = JObj [(''path'', JStr (va_path a)), (''sha256'', JStr (va_sha256 a))]"

definition de_artifact :: "json \<Rightarrow> VerifyArtifact option" where
  "de_artifact = de_struct 2 [''path'', ''sha256''] (\<lambda>fs. do {
     p \<leftarrow> de_req fs ''path'' de_string;
     h \<leftarrow> de_req fs ''sha256'' de_string;
     Some \<lparr>va_path = p, va_sha256 = h\<rparr> })"

definition executor_to_json :: "ExecutorInfo \<Rightarrow> json" where
  "executor_to_json e = JObj [(''role'', JStr (ei_role e)), (''workspace'', JStr (ei_workspace e))]"

definition de_executor :: "json \<Rightarrow> ExecutorInfo option" where
  "de_executor = de_struct 2 [''role'', ''workspace''] (\<lambda>fs. do {
     r \<leftarrow> de_req fs ''role'' de_string;
     w \<leftarrow> de_req fs ''workspace'' de_string;
     Some \<lparr>ei_role = r, ei_workspace = w\<rparr> })"

definition result_to_json :: "VerifyResult \<Rightarrow> json" where
  "result_to_json r = JObj [
     (''head_sha'', ser_option JStr (vx_head_sha r)), (''task_id'', JStr (vx_task_id r)),
     (''exit_code'', ser_option ser_i32 (vx_exit_code r)), (''timed_out'', JBool (vx_timed_out r)),
     (''duration_ms'', ser_u64 (vx_duration_ms r)), (''stdout_ref'', JStr (vx_stdout_ref r)),
     (''stderr_ref'', JStr (vx_stderr_ref r)),
     (''artifacts'', ser_vec artifact_to_json (vx_artifacts r)),
     (''executor'', executor_to_json (vx_executor r))]"

definition result_of_fields :: "(string \<times> json) list \<Rightarrow> VerifyResult option" where
  "result_of_fields fs = do {
     h \<leftarrow> de_dflt fs ''head_sha'' (de_option de_string) None;
     t \<leftarrow> de_req fs ''task_id'' de_string;
     c \<leftarrow> de_dflt fs ''exit_code'' (de_option de_i32) None;
     o' \<leftarrow> de_req fs ''timed_out'' de_bool;
     d \<leftarrow> de_req fs ''duration_ms'' de_u64;
     so \<leftarrow> de_req fs ''stdout_ref'' de_string;
     se \<leftarrow> de_req fs ''stderr_ref'' de_string;
     a \<leftarrow> de_dflt fs ''artifacts'' (de_vec de_artifact) [];
     e \<leftarrow> de_req fs ''executor'' de_executor;
     Some \<lparr>vx_head_sha = h, vx_task_id = t, vx_exit_code = c, vx_timed_out = o', vx_duration_ms = d,
           vx_stdout_ref = so, vx_stderr_ref = se, vx_artifacts = a, vx_executor = e\<rparr> }"

definition de_result :: "json \<Rightarrow> VerifyResult option" where
  "de_result = de_struct 9 [''head_sha'', ''task_id'', ''exit_code'', ''timed_out'', ''duration_ms'',
     ''stdout_ref'', ''stderr_ref'', ''artifacts'', ''executor''] result_of_fields"

fun event_to_json :: "VerifyProgressEvent \<Rightarrow> json" where
  "event_to_json (StdoutChunk c) = JObj [(''stream'', JStr ''stdout''), (''chunk'', JStr c)]"
| "event_to_json (StderrChunk c) = JObj [(''stream'', JStr ''stderr''), (''chunk'', JStr c)]"

definition event_of_tag :: "string \<Rightarrow> string \<Rightarrow> VerifyProgressEvent option" where
  "event_of_tag tag chunk = (if tag = ''stdout'' then Some (StdoutChunk chunk)
     else if tag = ''stderr'' then Some (StderrChunk chunk) else None)"

fun de_event :: "json \<Rightarrow> VerifyProgressEvent option" where
  "de_event (JObj fs) = do {
     tag \<leftarrow> de_req fs ''stream'' de_string; c \<leftarrow> de_req fs ''chunk'' de_string; event_of_tag tag c }"
| "de_event (JArr [JStr tag, JStr c]) = event_of_tag tag c"
| "de_event _ = None"

section \<open>Lemmas\<close>

lemma of_nat_unat_of_int:
  assumes "0 \<le> k" and "k < 2 ^ 31"
  shows "unat (of_int k :: u64) = nat k"
proof -
  have "uint (of_int k :: u64) = k"
    using assms by (simp add: uint_word_of_int_eq take_bit_int_eq_self)
  then show ?thesis by (metis nat_uint_eq)
qed

lemma de_ser_i32 [simp]: "de_i32 (ser_i32 n) = Some n"
proof -
  have b: "- (2 ^ 31) \<le> sint n" "sint n < 2 ^ 31"
    using sint_greater_eq [of n] sint_lt [of n] by simp_all
  show ?thesis
  proof (cases "0 \<le> sint n")
    case True
    with b show ?thesis
      using of_nat_unat_of_int [of "sint n"] by (simp add: ser_i32_def nat_less_iff)
  next
    case False
    with b show ?thesis by (simp add: ser_i32_def)
  qed
qed

lemma ser_i32_not_null [simp]: "ser_i32 n \<noteq> JNull"
  by (simp add: ser_i32_def)

lemma de_ser_opt_i32 [simp]: "de_option de_i32 (ser_option ser_i32 x) = Some x"
  by (rule de_ser_option) simp_all

lemma de_ser_strings [simp]: "de_vec de_string (ser_vec JStr xs) = Some xs"
  by (rule de_ser_vec) simp

lemma de_expect_to_json [simp]: "de_expect (expect_to_json e) = Some e"
  by (simp add: de_expect_def expect_to_json_def de_dflt_def)

lemma de_names [simp]:
  "kind_of_name (kind_name k) = Some k" "cwd_of_name (cwd_name c) = Some c"
  by (cases k; simp add: kind_of_name_def) (cases c; simp add: cwd_of_name_def)

lemma de_request_to_json [simp]: "de_request (request_to_json r) = Some r"
  by (simp add: de_request_def request_to_json_def request_of_fields_def de_req_def de_dflt_def)

lemma de_artifact_to_json [simp]: "de_artifact (artifact_to_json a) = Some a"
  by (simp add: de_artifact_def artifact_to_json_def de_req_def)

lemma de_executor_to_json [simp]: "de_executor (executor_to_json e) = Some e"
  by (simp add: de_executor_def executor_to_json_def de_req_def)

lemma de_result_to_json [simp]: "de_result (result_to_json r) = Some r"
  by (simp add: de_result_def result_to_json_def result_of_fields_def de_req_def de_dflt_def
      de_ser_vec [of de_artifact])

lemma request_to_json_inj [simp]: "request_to_json a = request_to_json b \<longleftrightarrow> a = b"
  by (metis de_request_to_json option.inject)

text \<open>
  What the policy accepts, exactly: a non-empty command whose executable has no
  white space and that is not one of the prohibited operations; the verdict on a command does
  not depend on the directory part of its executable, and appending arguments to a prohibited
  \<open>rm\<close>, or to any command whose program or sub-command is prohibited, never lifts the prohibition.
\<close>

theorem verify_policy_exact:
  "(validate_command_argv argv = Ok ()) =
     (argv \<noteq> [] \<and> \<not> list_ex is_whitespace (hd argv) \<and> is_allowlisted argv) \<and>
   (CHR ''/'' \<notin> set prog \<longrightarrow>
      prohibited_operation ((dir @ ''/'' @ prog) # args) = prohibited_operation (prog # args)) \<and>
   (prohibited_operation argv \<noteq> None \<longrightarrow> prohibited_operation (argv @ extra) \<noteq> None)"
proof (intro conjI)
  show "(validate_command_argv argv = Ok ()) =
     (argv \<noteq> [] \<and> \<not> list_ex is_whitespace (hd argv) \<and> is_allowlisted argv)"
    by (auto simp: validate_command_argv_def is_allowlisted_def split: option.splits)
next
  have "program_name (dir @ ''/'' @ prog) = program_name prog" if "CHR ''/'' \<notin> set prog"
  proof -
    from that have "\<forall>d \<in> set prog. d \<noteq> CHR ''/''" by auto
    then show ?thesis by (simp add: program_name_def after_last_append after_last_id)
  qed
  then show "CHR ''/'' \<notin> set prog \<longrightarrow>
      prohibited_operation ((dir @ ''/'' @ prog) # args) = prohibited_operation (prog # args)"
    by (cases "CHR ''/'' \<in> set prog") (simp_all only: prohibited_operation.simps simp_thms)
next
  show "prohibited_operation argv \<noteq> None \<longrightarrow> prohibited_operation (argv @ extra) \<noteq> None"
    by (cases argv) (auto simp: Let_def arg_at_def nth_append split: if_splits)
qed

theorem verify_policy_exact_witness:
  "validate_command_argv [''cargo'', ''test''] = Ok () \<and>
   prohibited_operation [''/usr/bin/git'', ''push''] \<noteq> None \<and>
   prohibited_operation ([''git'', ''push''] @ [''--dry-run'']) \<noteq> None"
proof -
  have "prohibited_operation [''git'', ''push''] \<noteq> None" by code_simp
  moreover have "is_allowlisted [''cargo'', ''test'']" "\<not> list_ex is_whitespace ''cargo''" by code_simp+
  ultimately show ?thesis
    using verify_policy_exact [of "[''cargo'', ''test'']" "''git''" "''/usr/bin''" "[''push'']" "[]"]
      verify_policy_exact [of "[''git'', ''push'']" "[]" "[]" "[]" "[''--dry-run'']"]
    by simp
qed

text \<open>
  Requests, results and progress events survive their stored form, and the
  idempotency seed tells requests apart: for pair ids without a colon and a printer that prints
  the two requests' values alike only if they are equal, two requests have the same seed only
  when they are the same request.
\<close>

theorem verify_payload_roundtrip:
  assumes "text (request_to_json a) = text (request_to_json b) \<Longrightarrow> request_to_json a = request_to_json b"
    and "CHR '':'' \<notin> set (vr_pair_id a)" and "CHR '':'' \<notin> set (vr_pair_id b)"
  shows "de_request (request_to_json a) = Some a \<and> de_result (result_to_json r) = Some r \<and>
    de_event (event_to_json e) = Some e \<and>
    (idempotency_seed text a = idempotency_seed text b) = (a = b)"
proof -
  have "de_event (event_to_json e) = Some e" by (cases e) (simp_all add: de_req_def event_of_tag_def)
  moreover have "a = b" if "idempotency_seed text a = idempotency_seed text b"
  proof -
    from that have "vr_pair_id a @ CHR '':'' # text (request_to_json a) =
        vr_pair_id b @ CHR '':'' # text (request_to_json b)" by (simp add: idempotency_seed_def)
    from append_sep_eq [OF this assms(2,3)] assms(1) show ?thesis by simp
  qed
  ultimately show ?thesis by auto
qed

definition sample_request :: "u64 \<Rightarrow> VerifyRequest" where
  "sample_request t = \<lparr>vr_pair_id = ''T-1'', vr_kind = CommandKind, vr_cwd = RepoCwd,
     vr_argv = [''cargo'', ''test''], vr_timeout_secs = t, vr_env_allowlist = [],
     vr_expect = \<lparr>ve_exit_code = Some 0, ve_artifacts = []\<rparr>\<rparr>"

text \<open>A printer that shows the time limit only, enough to tell the sample requests apart.\<close>

definition timeout_text :: "json \<Rightarrow> string" where
  "timeout_text v = (case Option.bind (json_get v ''timeout_secs'') as_u64 of Some n \<Rightarrow> show_u64 n | None \<Rightarrow> [])"

theorem verify_payload_roundtrip_witness:
  "idempotency_seed timeout_text (sample_request 60) \<noteq> idempotency_seed timeout_text (sample_request 90)"
proof -
  have "sample_request 60 \<noteq> sample_request 90" by (simp add: sample_request_def)
  moreover have "timeout_text (request_to_json (sample_request 60)) \<noteq> timeout_text (request_to_json (sample_request 90))"
    by (simp add: timeout_text_def request_to_json_def sample_request_def)
  ultimately show ?thesis
    using verify_payload_roundtrip [of timeout_text "sample_request 60" "sample_request 90"]
    by (auto simp: sample_request_def)
qed

end
