(* ===== verification/Event_Buffer.thy ===== *)
theory Event_Buffer
  imports A2A_Protocol
begin

text \<open>
  \<open>EventBuffer\<close> of \<open>src/crates/agent-nexus/src/a2a/routing.rs\<close>: the bounded buffer of progress
  events behind resubscription. The length of an event's JSON text is serde_json's: the argument
  \<open>sz\<close>. The eviction loop is a partial function, so that a loop that never ends is \<open>None\<close>.
\<close>

record BufferedEvent =
  be_seq :: u64
  be_event :: VerifyProgressEvent
  be_timestamp :: int

record EventBuffer =
  eb_events :: "BufferedEvent list"
  eb_next_seq :: u64
  eb_max_events :: nat
  eb_max_bytes :: nat
  eb_current_bytes :: nat

definition MAX_EVENTS :: nat where
  "MAX_EVENTS = 1000"

definition MAX_BYTES :: nat where
  "MAX_BYTES = 1048576"

definition new_buffer :: EventBuffer where
  "new_buffer = \<lparr>eb_events = [], eb_next_seq = 0, eb_max_events = MAX_EVENTS,
     eb_max_bytes = MAX_BYTES, eb_current_bytes = 0\<rparr>"

text \<open>The loop evicts while over capacity; with an empty queue it would spin.\<close>

partial_function (option) evict ::
  "(VerifyProgressEvent \<Rightarrow> nat) \<Rightarrow> EventBuffer \<Rightarrow> EventBuffer option" where
  "evict sz b =
     (if eb_max_events b < length (eb_events b) \<or> eb_max_bytes b < eb_current_bytes b
      then (case eb_events b of
              evicted # rest \<Rightarrow>
                evict sz (b\<lparr>eb_events := rest,
                              eb_current_bytes := eb_current_bytes b - sz (be_event evicted)\<rparr>)
            | [] \<Rightarrow> evict sz b)
      else Some b)"

definition push ::
  "(VerifyProgressEvent \<Rightarrow> nat) \<Rightarrow> int \<Rightarrow> EventBuffer \<Rightarrow> VerifyProgressEvent \<Rightarrow>
   (EventBuffer \<times> BufferedEvent) option" where
  "push sz now b event =
     (let event_size = sz event;
          seq = eb_next_seq b;
          buffered = \<lparr>be_seq = seq, be_event = event, be_timestamp = now\<rparr>;
          b' = b\<lparr>eb_next_seq := eb_next_seq b + 1,
                 eb_events := eb_events b @ [buffered],
                 eb_current_bytes := eb_current_bytes b + event_size\<rparr>
      in map_option (\<lambda>b''. (b'', buffered)) (evict sz b'))"

definition events_since :: "EventBuffer \<Rightarrow> u64 \<Rightarrow> BufferedEvent list" where
  "events_since b last_seq = filter (\<lambda>e. last_seq \<le> be_seq e) (eb_events b)"

text \<open>\<open>saturating_sub(1)\<close>.\<close>

definition current_seq :: "EventBuffer \<Rightarrow> u64" where
  "current_seq b = (if eb_next_seq b = 0 then 0 else eb_next_seq b - 1)"

section \<open>The specification: the longest tail within the limits\<close>

definition bytes_of :: "(VerifyProgressEvent \<Rightarrow> nat) \<Rightarrow> BufferedEvent list \<Rightarrow> nat" where
  "bytes_of sz es = sum_list (map (sz \<circ> be_event) es)"

definition fits :: "(VerifyProgressEvent \<Rightarrow> nat) \<Rightarrow> nat \<Rightarrow> nat \<Rightarrow> BufferedEvent list \<Rightarrow> bool" where
  "fits sz n m es \<longleftrightarrow> length es \<le> n \<and> bytes_of sz es \<le> m"

fun longest_tail :: "(VerifyProgressEvent \<Rightarrow> nat) \<Rightarrow> nat \<Rightarrow> nat \<Rightarrow> BufferedEvent list \<Rightarrow> BufferedEvent list" where
  "longest_tail sz n m [] = []"
| "longest_tail sz n m (e # es) = (if fits sz n m (e # es) then e # es else longest_tail sz n m es)"

lemma bytes_of_simps [simp]:
  "bytes_of sz [] = 0" "bytes_of sz (e # es) = sz (be_event e) + bytes_of sz es"
  "bytes_of sz (xs @ ys) = bytes_of sz xs + bytes_of sz ys"
  by (simp_all add: bytes_of_def)

lemma fits_Nil [simp]: "fits sz n m []"
  by (simp add: fits_def)

lemma fits_tail: "fits sz n m (xs @ ys) \<Longrightarrow> fits sz n m ys"
  by (simp add: fits_def)

lemma fits_init: "fits sz n m (xs @ ys) \<Longrightarrow> fits sz n m xs"
  by (simp add: fits_def)

lemma longest_tail_fits: "fits sz n m (longest_tail sz n m es)"
  by (induction es) auto

lemma longest_tail_suffix: "suffix (longest_tail sz n m es) es"
  by (induction es) (auto intro: suffix_ConsI)

lemma longest_tail_max: "suffix ts es \<Longrightarrow> fits sz n m ts \<Longrightarrow> suffix ts (longest_tail sz n m es)"
  by (induction es) (auto simp: suffix_Cons)

text \<open>Appending an event to the tail or to the whole history gives the same tail.\<close>

lemma longest_tail_append:
  "longest_tail sz n m (longest_tail sz n m es @ [e]) = longest_tail sz n m (es @ [e])"
proof (induction es)
  case (Cons x es)
  then show ?case using fits_init [of sz n m "x # es" "[e]"] by (auto split: if_splits)
qed simp

lemma evict_total:
  assumes "eb_current_bytes b = bytes_of sz (eb_events b)"
  shows "evict sz b = Some (b\<lparr>eb_events := longest_tail sz (eb_max_events b) (eb_max_bytes b) (eb_events b),
      eb_current_bytes := bytes_of sz (longest_tail sz (eb_max_events b) (eb_max_bytes b) (eb_events b))\<rparr>)"
  using assms
proof (induction "eb_events b" arbitrary: b)
  case Nil
  then show ?case by (subst evict.simps, cases b) simp
next
  case (Cons e es)
  let ?b = "b\<lparr>eb_events := es, eb_current_bytes := eb_current_bytes b - sz (be_event e)\<rparr>"
  show ?case
  proof (cases "fits sz (eb_max_events b) (eb_max_bytes b) (e # es)")
    case True
    then show ?thesis using Cons.prems Cons.hyps(2) [symmetric]
      by (subst evict.simps) (simp add: fits_def)
  next
    case False
    have "evict sz b = evict sz ?b"
      using False Cons.prems Cons.hyps(2) [symmetric] by (subst evict.simps) (auto simp: fits_def)
    moreover have "eb_current_bytes ?b = bytes_of sz (eb_events ?b)"
      using Cons.prems Cons.hyps(2) [symmetric] by simp
    ultimately show ?thesis
      using Cons.hyps(1) [of ?b] Cons.hyps(2) [symmetric] False by simp
  qed
qed

section \<open>Runs\<close>

text \<open>The history: the events pushed so far with their sequence numbers.\<close>

fun push_all ::
  "(VerifyProgressEvent \<Rightarrow> nat) \<Rightarrow> EventBuffer \<Rightarrow> (int \<times> VerifyProgressEvent) list \<Rightarrow> EventBuffer option" where
  "push_all sz b [] = Some b"
| "push_all sz b ((t, e) # xs) =
     (case push sz t b e of None \<Rightarrow> None | Some (b', _) \<Rightarrow> push_all sz b' xs)"

fun numbered :: "u64 \<Rightarrow> (int \<times> VerifyProgressEvent) list \<Rightarrow> BufferedEvent list" where
  "numbered n [] = []"
| "numbered n ((t, e) # xs) = \<lparr>be_seq = n, be_event = e, be_timestamp = t\<rparr> # numbered (n + 1) xs"

definition buffers_history :: "(VerifyProgressEvent \<Rightarrow> nat) \<Rightarrow> EventBuffer \<Rightarrow> BufferedEvent list \<Rightarrow> bool" where
  "buffers_history sz b hist \<longleftrightarrow>
     eb_max_events b = MAX_EVENTS \<and> eb_max_bytes b = MAX_BYTES \<and>
     eb_events b = longest_tail sz MAX_EVENTS MAX_BYTES hist \<and>
     eb_current_bytes b = bytes_of sz (eb_events b)"

lemma push_history:
  assumes "buffers_history sz b hist"
  shows "\<exists>b'. push sz t b e =
      Some (b', \<lparr>be_seq = eb_next_seq b, be_event = e, be_timestamp = t\<rparr>) \<and>
    eb_next_seq b' = eb_next_seq b + 1 \<and>
    buffers_history sz b' (hist @ [\<lparr>be_seq = eb_next_seq b, be_event = e, be_timestamp = t\<rparr>])"
proof -
  let ?e = "\<lparr>be_seq = eb_next_seq b, be_event = e, be_timestamp = t\<rparr>"
  let ?b = "b\<lparr>eb_next_seq := eb_next_seq b + 1, eb_events := eb_events b @ [?e],
      eb_current_bytes := eb_current_bytes b + sz e\<rparr>"
  have "eb_current_bytes ?b = bytes_of sz (eb_events ?b)"
    using assms by (simp add: buffers_history_def)
  from evict_total [OF this] show ?thesis
    using assms by (simp add: push_def Let_def buffers_history_def longest_tail_append)
qed

lemma push_all_history:
  assumes "buffers_history sz b hist"
  shows "\<exists>b'. push_all sz b xs = Some b' \<and> eb_next_seq b' = eb_next_seq b + of_nat (length xs) \<and>
    buffers_history sz b' (hist @ numbered (eb_next_seq b) xs)"
  using assms
proof (induction xs arbitrary: b hist)
  case (Cons x xs)
  obtain t e where x: "x = (t, e)" by fastforce
  from push_history [OF Cons.prems, of t e] obtain b1 where
    p: "push sz t b e = Some (b1, \<lparr>be_seq = eb_next_seq b, be_event = e, be_timestamp = t\<rparr>)"
    and n: "eb_next_seq b1 = eb_next_seq b + 1"
    and h: "buffers_history sz b1 (hist @ [\<lparr>be_seq = eb_next_seq b, be_event = e, be_timestamp = t\<rparr>])"
    by blast
  from Cons.IH [OF h] n p x show ?case by (auto simp: ac_simps)
qed simp

lemma new_buffer_history: "buffers_history sz new_buffer []"
  by (simp add: buffers_history_def new_buffer_def)

text \<open>
  C36 (refinement). The progress buffer is exactly the longest tail of the task's event history
  that has at most 1000 events and at most 1 MiB: any number of pushes returns (the eviction loop
  never spins, even for one event over the byte limit), the events carry consecutive sequence
  numbers from 0, the byte counter is the size of what is held, and no longer tail would fit.
\<close>

theorem event_buffer_is_longest_tail:
  "\<exists>b. push_all sz new_buffer xs = Some b \<and>
     suffix (eb_events b) (numbered 0 xs) \<and>
     length (eb_events b) \<le> 1000 \<and> eb_current_bytes b \<le> 1048576 \<and>
     eb_current_bytes b = bytes_of sz (eb_events b) \<and>
     (\<forall>ts. suffix ts (numbered 0 xs) \<and> length ts \<le> 1000 \<and> bytes_of sz ts \<le> 1048576 \<longrightarrow>
        suffix ts (eb_events b))"
proof -
  from push_all_history [OF new_buffer_history, of sz xs] obtain b where
    p: "push_all sz new_buffer xs = Some b" and h: "buffers_history sz b (numbered 0 xs)"
    by (auto simp: new_buffer_def)
  have e: "eb_events b = longest_tail sz MAX_EVENTS MAX_BYTES (numbered 0 xs)"
    and c: "eb_current_bytes b = bytes_of sz (eb_events b)"
    using h by (simp_all add: buffers_history_def)
  have "fits sz MAX_EVENTS MAX_BYTES (eb_events b)" unfolding e by (rule longest_tail_fits)
  then show ?thesis
    using p c longest_tail_suffix [of sz MAX_EVENTS MAX_BYTES "numbered 0 xs"]
      longest_tail_max [of _ "numbered 0 xs" sz MAX_EVENTS MAX_BYTES]
    by (auto simp: fits_def e MAX_EVENTS_def MAX_BYTES_def)
qed

theorem event_buffer_is_longest_tail_witness:
  "\<exists>b. push_all (\<lambda>_. 2000000) new_buffer [(0, StdoutChunk ''x'')] = Some b \<and> eb_events b = []"
proof -
  obtain b where b: "push_all (\<lambda>_. 2000000) new_buffer [(0, StdoutChunk ''x'')] = Some b"
    and s: "eb_current_bytes b = bytes_of (\<lambda>_. 2000000) (eb_events b)" "eb_current_bytes b \<le> 1048576"
    using event_buffer_is_longest_tail [of "\<lambda>_. 2000000" "[(0, StdoutChunk ''x'')]"] by blast
  then have "eb_events b = []" by (cases "eb_events b") auto
  with b show ?thesis by blast
qed

end
