(* ===== verification/A2A_Relay.thy ===== *)
theory A2A_Relay
  imports Event_Buffer Shared_Store
begin

text \<open>
  \<open>A2ARelay\<close> of \<open>src/crates/agent-nexus/src/a2a/routing.rs\<close> and \<open>submit_verify_request\<close> of
  \<open>verify_handler.rs\<close>: sessions, pair tokens, request validation, the task table with its
  idempotency index, result mirroring, progress streaming and cancellation. The hash maps are
  association lists. SHA-256 (\<open>sha\<close>), JSON printing (\<open>text\<close>) and fresh UUIDs are arguments, as is
  the monotonic clock (nanoseconds). A broadcast channel is the list of the events sent on it.
\<close>

section \<open>State\<close>

record A2ASession =
  se_pair_id :: string
  se_role :: string
  se_workspace_id :: string

datatype TaskState = TaskPending | TaskRunning | TaskCompleted | TaskCancelled

record TaskEntry =
  te_task_id :: string
  te_request :: VerifyRequest
  te_idempotency_key :: string
  te_requester :: string
  te_state :: TaskState
  te_result :: "VerifyResult option"

record A2ARelay =
  ar_store :: SharedStore
  ar_sessions :: "((string \<times> string) \<times> A2ASession) list"
  ar_tasks :: "(string \<times> TaskEntry) list"
  ar_idempotency :: "(string \<times> string) list"
  ar_idempotency_ts :: "(string \<times> nat) list"
  ar_event_buffers :: "(string \<times> EventBuffer) list"
  ar_broadcast_senders :: "(string \<times> BufferedEvent list) list"
  ar_cancel_tokens :: "(string \<times> bool) list"

abbreviation task_at :: "A2ARelay \<Rightarrow> string \<Rightarrow> TaskEntry option" where
  "task_at r \<equiv> map_of (ar_tasks r)"

definition new_relay :: "SharedStore \<Rightarrow> A2ARelay" where
  "new_relay store = \<lparr>ar_store = store, ar_sessions = [], ar_tasks = [], ar_idempotency = [],
     ar_idempotency_ts = [], ar_event_buffers = [], ar_broadcast_senders = [], ar_cancel_tokens = []\<rparr>"

section \<open>Sessions\<close>

definition register_session :: "A2ARelay \<Rightarrow> string \<Rightarrow> string \<Rightarrow> string \<Rightarrow> A2ARelay result" where
  "register_session r pair_id role workspace_id =
     Ok (r\<lparr>ar_sessions := AList.update (pair_id, role)
            \<lparr>se_pair_id = pair_id, se_role = role, se_workspace_id = workspace_id\<rparr> (ar_sessions r)\<rparr>)"

definition deregister_session :: "A2ARelay \<Rightarrow> string \<Rightarrow> string \<Rightarrow> A2ARelay result" where
  "deregister_session r pair_id role =
     Ok (r\<lparr>ar_sessions := AList.delete (pair_id, role) (ar_sessions r)\<rparr>)"

definition get_session :: "A2ARelay \<Rightarrow> string \<Rightarrow> string \<Rightarrow> A2ASession option" where
  "get_session r pair_id role = map_of (ar_sessions r) (pair_id, role)"

section \<open>Pair tokens\<close>

definition pair_token_key :: "string \<Rightarrow> string" where
  "pair_token_key pair_id = ''pair:'' @ pair_id @ '':a2a_token_sha256''"

definition record_pair_token ::
  "(string \<Rightarrow> string) \<Rightarrow> A2ARelay \<Rightarrow> string \<Rightarrow> string \<Rightarrow> A2ARelay result" where
  "record_pair_token sha r pair_id token =
     ensure (\<not> blank pair_id) ''pair_id must not be empty''
     (ensure (\<not> blank token) ''pair token must not be empty''
     (Ok (r\<lparr>ar_store := store_set (ar_store r) (pair_token_key pair_id) (JStr (sha token))\<rparr>)))"

definition verify_pair_token ::
  "(string \<Rightarrow> string) \<Rightarrow> A2ARelay \<Rightarrow> string \<Rightarrow> string \<Rightarrow> unit result" where
  "verify_pair_token sha r pair_id token =
     ensure (\<not> blank pair_id) ''pair_id must not be empty''
     (ensure (\<not> blank token) ''A2A pair token is required; reprovision Sentinel/FORGE workspaces''
     (case store_get_typed de_string (ar_store r) (pair_token_key pair_id) of
        None \<Rightarrow> Err (''A2A pair token is not registered for '' @ pair_id @
                     ''; reprovision Sentinel/FORGE workspaces'')
      | Some expected \<Rightarrow>
          ensure (expected = sha token) (''A2A pair token mismatch for '' @ pair_id) (Ok ())))"

section \<open>Requests\<close>

definition MAX_TIMEOUT_SECS :: u64 where
  "MAX_TIMEOUT_SECS = 3600"

text \<open>Both values of the working directory are allowed.\<close>

definition validate_verify_request :: "VerifyRequest \<Rightarrow> string \<Rightarrow> unit result" where
  "validate_verify_request req requester_pair_id =
     (if vr_pair_id req \<noteq> requester_pair_id
      then Err (''pair_id mismatch: request says '' @ vr_pair_id req @ '', requester is '' @ requester_pair_id)
      else bind_result (validate_command_argv (vr_argv req)) (\<lambda>_.
        if vr_timeout_secs req = 0 then Err ''timeout_secs must be > 0''
        else if MAX_TIMEOUT_SECS < vr_timeout_secs req
        then Err (''timeout_secs exceeds maximum ('' @ show_u64 MAX_TIMEOUT_SECS @ '')'')
        else Ok ()))"

definition active :: "TaskEntry \<Rightarrow> bool" where
  "active t \<longleftrightarrow> te_state t = TaskPending \<or> te_state t = TaskRunning"

definition audit_request_key :: "string \<Rightarrow> string" where
  "audit_request_key task_id = audit_task_key task_id @ '':request''"

definition audit_result_key :: "string \<Rightarrow> string" where
  "audit_result_key task_id = audit_task_key task_id @ '':result''"

definition mirror_request :: "A2ARelay \<Rightarrow> string \<Rightarrow> VerifyRequest \<Rightarrow> A2ARelay" where
  "mirror_request r task_id req =
     r\<lparr>ar_store := store_set (ar_store r) (audit_request_key task_id) (request_to_json req)\<rparr>"

text \<open>\<open>entry(k).or_default()\<close> of the buffer map.\<close>

definition buffer_of :: "A2ARelay \<Rightarrow> string \<Rightarrow> EventBuffer" where
  "buffer_of r task_id =
     (case map_of (ar_event_buffers r) task_id of Some b \<Rightarrow> b | None \<Rightarrow> new_buffer)"

text \<open>
  Lookup, replacement of a finished task and insertion are under the locks of the three maps (\<open>enroll_task\<close>); the rest comes after they are
  released (\<open>announce_task\<close>).
\<close>

definition enroll_task ::
  "(json \<Rightarrow> string) \<Rightarrow> string \<Rightarrow> nat \<Rightarrow> A2ARelay \<Rightarrow> VerifyRequest \<Rightarrow> string \<Rightarrow> A2ARelay \<times> string \<times> bool" where
  "enroll_task text uuid now r req requester =
     (let key = idempotency_seed text req;
          existing = Option.bind (map_of (ar_idempotency r) key)
            (\<lambda>task_id. if is_some_and (task_at r task_id) active then Some task_id else None) in
      case existing of
        Some task_id \<Rightarrow> (r, task_id, False)
      | None \<Rightarrow>
          let task_id = uuid;
              entry = \<lparr>te_task_id = task_id, te_request = req, te_idempotency_key = key,
                       te_requester = requester, te_state = TaskPending, te_result = None\<rparr>
          in (r\<lparr>ar_tasks := AList.update task_id entry (ar_tasks r),
                ar_idempotency := AList.update key task_id (ar_idempotency r),
                ar_idempotency_ts := AList.update key now (ar_idempotency_ts r)\<rparr>, task_id, True))"

definition announce_task :: "A2ARelay \<Rightarrow> string \<Rightarrow> VerifyRequest \<Rightarrow> A2ARelay" where
  "announce_task r task_id req =
     (let r = mirror_request r task_id req;
          r = r\<lparr>ar_event_buffers := AList.update task_id (buffer_of r task_id) (ar_event_buffers r)\<rparr>
      in r\<lparr>ar_broadcast_senders := AList.update task_id [] (ar_broadcast_senders r)\<rparr>)"

definition check_or_create_task ::
  "(json \<Rightarrow> string) \<Rightarrow> string \<Rightarrow> nat \<Rightarrow> A2ARelay \<Rightarrow> VerifyRequest \<Rightarrow> string \<Rightarrow> A2ARelay \<times> string" where
  "check_or_create_task text uuid now r req requester =
     (case enroll_task text uuid now r req requester of (r', task_id, fresh) \<Rightarrow>
        (if fresh then announce_task r' task_id req else r', task_id))"

text \<open>A rejected request is kept, the last one only; \<open>date\<close> is the current time as text.\<close>

definition log_rejected_request ::
  "(json \<Rightarrow> string) \<Rightarrow> string \<Rightarrow> A2ARelay \<Rightarrow> VerifyRequest \<Rightarrow> string \<Rightarrow> A2ARelay" where
  "log_rejected_request text date r req reason =
     (let entry = JObj [(''pair_id'', JStr (vr_pair_id req)), (''argv'', ser_vec JStr (vr_argv req)),
                        (''reason'', JStr reason), (''timestamp'', JStr date)]
      in r\<lparr>ar_store := store_set (ar_store r) audit_rejected_key (JStr (text entry))\<rparr>)"

definition submit_verify_request ::
  "(json \<Rightarrow> string) \<Rightarrow> string \<Rightarrow> nat \<Rightarrow> string \<Rightarrow> A2ARelay \<Rightarrow> VerifyRequest \<Rightarrow> string \<Rightarrow>
   A2ARelay \<times> string result" where
  "submit_verify_request text uuid now date r req requester_pair_id =
     (case validate_verify_request req requester_pair_id of
        Inl e \<Rightarrow> (log_rejected_request text date r req e, Err e)
      | Inr _ \<Rightarrow>
          let (r', task_id) = check_or_create_task text uuid now r req requester_pair_id
          in (r', Ok task_id))"

text \<open>The part of a submission up to the release of the locks.\<close>

definition submit_enroll ::
  "(json \<Rightarrow> string) \<Rightarrow> string \<Rightarrow> nat \<Rightarrow> string \<Rightarrow> A2ARelay \<Rightarrow> VerifyRequest \<Rightarrow> string \<Rightarrow>
   A2ARelay \<times> string result" where
  "submit_enroll text uuid now date r req requester_pair_id =
     (case validate_verify_request req requester_pair_id of
        Inl e \<Rightarrow> (log_rejected_request text date r req e, Err e)
      | Inr _ \<Rightarrow> (case enroll_task text uuid now r req requester_pair_id of (r', task_id, _) \<Rightarrow> (r', Ok task_id)))"

section \<open>Execution\<close>

text \<open>The first pending task of the pair in the map's iteration order; the copy handed out still
  shows the task as pending.\<close>

definition claim_next_task :: "A2ARelay \<Rightarrow> string \<Rightarrow> A2ARelay \<times> TaskEntry option" where
  "claim_next_task r pair_id =
     (case List.find (\<lambda>(_, t). vr_pair_id (te_request t) = pair_id \<and> te_state t = TaskPending) (ar_tasks r) of
        None \<Rightarrow> (r, None)
      | Some (task_id, entry) \<Rightarrow>
          (r\<lparr>ar_tasks := AList.update task_id (entry\<lparr>te_state := TaskRunning\<rparr>) (ar_tasks r)\<rparr>, Some entry))"

definition get_task_request :: "A2ARelay \<Rightarrow> string \<Rightarrow> VerifyRequest option" where
  "get_task_request r task_id = Option.bind (store_get (ar_store r) (audit_request_key task_id)) de_request"

definition get_task_result :: "A2ARelay \<Rightarrow> string \<Rightarrow> VerifyResult option" where
  "get_task_result r task_id = Option.bind (store_get (ar_store r) (audit_result_key task_id)) de_result"

definition mirror_result :: "A2ARelay \<Rightarrow> string \<Rightarrow> VerifyResult \<Rightarrow> A2ARelay" where
  "mirror_result r pair_id result =
     (let s = store_set (ar_store r) (verification_key pair_id) (result_to_json result);
          s = store_set s (audit_result_key (vx_task_id result)) (result_to_json result)
      in r\<lparr>ar_store := s\<rparr>)"

text \<open>
  \<open>complete_task\<close> in its two stages: the result is made durable first and published in the task
  table afterwards, under a new lock. Other operations may run in between.
\<close>

definition complete_begin :: "A2ARelay \<Rightarrow> string \<Rightarrow> VerifyResult \<Rightarrow> (A2ARelay \<times> VerifyRequest) result" where
  "complete_begin r task_id result =
     (case (case task_at r task_id of Some entry \<Rightarrow> Some (te_request entry) | None \<Rightarrow> get_task_request r task_id) of
        None \<Rightarrow> Err (''task not found: '' @ task_id)
      | Some request \<Rightarrow> Ok (mirror_result r (vr_pair_id request) result, request))"

definition complete_publish ::
  "(json \<Rightarrow> string) \<Rightarrow> A2ARelay \<Rightarrow> string \<Rightarrow> VerifyRequest \<Rightarrow> VerifyResult \<Rightarrow> A2ARelay" where
  "complete_publish text r task_id request result =
     (let entry = (case task_at r task_id of
                     Some entry \<Rightarrow> entry
                   | None \<Rightarrow> \<lparr>te_task_id = task_id, te_request = request,
                              te_idempotency_key = idempotency_seed text request,
                              te_requester = ''audit-recovery'', te_state = TaskRunning, te_result = None\<rparr>)
      in r\<lparr>ar_tasks := AList.update task_id
             (entry\<lparr>te_state := TaskCompleted, te_result := Some result\<rparr>) (ar_tasks r)\<rparr>)"

definition complete_task :: "(json \<Rightarrow> string) \<Rightarrow> A2ARelay \<Rightarrow> string \<Rightarrow> VerifyResult \<Rightarrow> A2ARelay result" where
  "complete_task text r task_id result =
     bind_result (complete_begin r task_id result)
       (\<lambda>(r', request). Ok (complete_publish text r' task_id request result))"

definition get_task_state :: "A2ARelay \<Rightarrow> string \<Rightarrow> TaskState option" where
  "get_task_state r task_id = map_option te_state (task_at r task_id)"

definition get_task :: "(json \<Rightarrow> string) \<Rightarrow> A2ARelay \<Rightarrow> string \<Rightarrow> TaskEntry option" where
  "get_task text r task_id =
     (case task_at r task_id of
        Some entry \<Rightarrow>
          if te_result entry \<noteq> None \<or> te_state entry = TaskCompleted then Some entry
          else (case get_task_result r task_id of
                  Some result \<Rightarrow> Some (entry\<lparr>te_state := TaskCompleted, te_result := Some result\<rparr>)
                | None \<Rightarrow> Some entry)
      | None \<Rightarrow>
          (case get_task_request r task_id of
             None \<Rightarrow> None
           | Some request \<Rightarrow>
               (case get_task_result r task_id of
                  None \<Rightarrow> None
                | Some result \<Rightarrow>
                    Some \<lparr>te_task_id = task_id, te_request = request,
                      te_idempotency_key = idempotency_seed text request,
                      te_requester = ''audit-recovery'', te_state = TaskCompleted,
                      te_result = Some result\<rparr>)))"

section \<open>Cleaning up\<close>

definition IDEMPOTENCY_TTL_SECS :: nat where
  "IDEMPOTENCY_TTL_SECS = 3600"

definition stale_key :: "nat \<Rightarrow> A2ARelay \<Rightarrow> string \<times> nat \<Rightarrow> bool" where
  "stale_key now r = (\<lambda>(key, inserted).
     IDEMPOTENCY_TTL_SECS < (now - inserted) div 1000000000 \<and>
     is_none_or (Option.bind (map_of (ar_idempotency r) key) (task_at r))
       (\<lambda>task. te_state task = TaskCompleted \<or> te_state task = TaskCancelled))"

definition evict_key :: "string \<Rightarrow> A2ARelay \<Rightarrow> A2ARelay" where
  "evict_key key r =
     (let r' = (case map_of (ar_idempotency r) key of
                  Some task_id \<Rightarrow> r\<lparr>ar_idempotency := AList.delete key (ar_idempotency r),
                                    ar_tasks := AList.delete task_id (ar_tasks r)\<rparr>
                | None \<Rightarrow> r)
      in r'\<lparr>ar_idempotency_ts := AList.delete key (ar_idempotency_ts r')\<rparr>)"

definition cleanup_idempotency :: "nat \<Rightarrow> A2ARelay \<Rightarrow> A2ARelay" where
  "cleanup_idempotency now r =
     fold evict_key (map fst (filter (stale_key now r) (ar_idempotency_ts r))) r"

section \<open>Progress\<close>

text \<open>\<open>None\<close>: the eviction loop of the buffer does not end.\<close>

definition push_progress_event ::
  "(VerifyProgressEvent \<Rightarrow> nat) \<Rightarrow> int \<Rightarrow> A2ARelay \<Rightarrow> string \<Rightarrow> VerifyProgressEvent \<Rightarrow>
   (A2ARelay \<times> BufferedEvent) option" where
  "push_progress_event sz now r task_id event =
     (case push sz now (buffer_of r task_id) event of
        None \<Rightarrow> None
      | Some (b, buffered) \<Rightarrow>
          let r = r\<lparr>ar_event_buffers := AList.update task_id b (ar_event_buffers r)\<rparr>;
              r = (case map_of (ar_broadcast_senders r) task_id of
                     Some sent \<Rightarrow> r\<lparr>ar_broadcast_senders :=
                       AList.update task_id (sent @ [buffered]) (ar_broadcast_senders r)\<rparr>
                   | None \<Rightarrow> r)
          in Some (r, buffered))"

text \<open>A subscriber receives what is sent after its position in the channel.\<close>

definition subscribe_to_task :: "A2ARelay \<Rightarrow> string \<Rightarrow> A2ARelay \<times> nat" where
  "subscribe_to_task r task_id =
     (case map_of (ar_broadcast_senders r) task_id of
        Some sent \<Rightarrow> (r, length sent)
      | None \<Rightarrow> (r\<lparr>ar_broadcast_senders := AList.update task_id [] (ar_broadcast_senders r)\<rparr>, 0))"

definition replay_events_since :: "A2ARelay \<Rightarrow> string \<Rightarrow> u64 \<Rightarrow> BufferedEvent list" where
  "replay_events_since r task_id last_seq =
     (case map_of (ar_event_buffers r) task_id of
        Some buffer \<Rightarrow> events_since buffer last_seq
      | None \<Rightarrow> [])"

definition current_event_seq :: "A2ARelay \<Rightarrow> string \<Rightarrow> u64" where
  "current_event_seq r task_id =
     (case map_of (ar_event_buffers r) task_id of Some b \<Rightarrow> current_seq b | None \<Rightarrow> 0)"

section \<open>Cancellation\<close>

definition set_cancel_flag :: "A2ARelay \<Rightarrow> string \<Rightarrow> A2ARelay" where
  "set_cancel_flag r task_id = r\<lparr>ar_cancel_tokens := AList.update task_id True (ar_cancel_tokens r)\<rparr>"

text \<open>\<open>cancel_task\<close> in its two stages, like \<open>complete_task\<close>.\<close>

definition cancel_begin :: "A2ARelay \<Rightarrow> string \<Rightarrow> VerifyResult \<Rightarrow> A2ARelay result" where
  "cancel_begin r task_id result =
     (case task_at r task_id of
        None \<Rightarrow> Err (''task not found: '' @ task_id)
      | Some entry \<Rightarrow>
          Ok (mirror_result (set_cancel_flag r task_id) (vr_pair_id (te_request entry)) result))"

definition cancel_publish :: "A2ARelay \<Rightarrow> string \<Rightarrow> VerifyResult \<Rightarrow> A2ARelay" where
  "cancel_publish r task_id result =
     (case task_at r task_id of
        Some entry \<Rightarrow> r\<lparr>ar_tasks := AList.update task_id
          (entry\<lparr>te_state := TaskCancelled, te_result := Some result\<rparr>) (ar_tasks r)\<rparr>
      | None \<Rightarrow> r)"

definition cancel_task :: "A2ARelay \<Rightarrow> string \<Rightarrow> VerifyResult \<Rightarrow> A2ARelay result" where
  "cancel_task r task_id result =
     bind_result (cancel_begin r task_id result) (\<lambda>r'. Ok (cancel_publish r' task_id result))"

definition mark_cancelled :: "A2ARelay \<Rightarrow> string \<Rightarrow> A2ARelay \<times> bool" where
  "mark_cancelled r task_id =
     (case map_of (ar_cancel_tokens r) task_id of
        Some flag \<Rightarrow> (set_cancel_flag r task_id, \<not> flag)
      | None \<Rightarrow> (set_cancel_flag r task_id, True))"

definition create_cancel_token :: "A2ARelay \<Rightarrow> string \<Rightarrow> A2ARelay \<times> bool" where
  "create_cancel_token r task_id =
     (case map_of (ar_cancel_tokens r) task_id of
        Some flag \<Rightarrow> (r, flag)
      | None \<Rightarrow> (r\<lparr>ar_cancel_tokens := AList.update task_id False (ar_cancel_tokens r)\<rparr>, False))"

definition is_cancelled :: "A2ARelay \<Rightarrow> string \<Rightarrow> bool" where
  "is_cancelled r task_id = (map_of (ar_cancel_tokens r) task_id = Some True)"

end
