(* ===== verification/Relay_Invariant.thy ===== *)
theory Relay_Invariant
  imports A2A_Relay Reachability
begin

text \<open>
  The relay as a transition system: the operations of all connected workspaces in any order,
  with the two stages of submitting, of completing and of cancelling a task as separate steps, so that every
  interleaving the locks allow is a run. A configuration has the relay, the completions and
  cancellations between their stages, and the task ids handed out so far (UUIDs are fresh).
\<close>

record RelaySys =
  rs_relay :: A2ARelay
  rs_completing :: "(string \<times> VerifyRequest \<times> VerifyResult) list"
  rs_cancelling :: "(string \<times> VerifyResult) list"
  rs_used :: "string set"

datatype RelayOp =
    SubmitTask string nat string VerifyRequest string
  | AnnounceTask string VerifyRequest
  | Claim string
  | CompleteBegin string VerifyResult
  | CompletePublish string VerifyRequest VerifyResult
  | CancelBegin string VerifyResult
  | CancelPublish string VerifyResult
  | Cleanup nat
  | Progress int string VerifyProgressEvent
  | Subscribe string
  | RecordToken string string
  | MarkCancelled string
  | CreateToken string
  | Register string string string
  | Deregister string string

text \<open>
  The HTTP handlers pass a result only to the task it names; that is the guard of the two
  begin steps. Requests reach the table through \<open>submit_verify_request\<close>; a task is announced at some time after it was enrolled.
\<close>

inductive relay_step ::
  "(json \<Rightarrow> string) \<Rightarrow> (VerifyProgressEvent \<Rightarrow> nat) \<Rightarrow> (string \<Rightarrow> string) \<Rightarrow> RelaySys \<Rightarrow> RelayOp \<Rightarrow> RelaySys \<Rightarrow> bool"
  for jtext sz sha where
  step_submit: "uuid \<notin> rs_used c \<Longrightarrow>
     submit_enroll jtext uuid now date (rs_relay c) req p = (r', out) \<Longrightarrow>
     relay_step jtext sz sha c (SubmitTask uuid now date req p) (c\<lparr>rs_relay := r', rs_used := insert uuid (rs_used c)\<rparr>)"
| step_announce: "tid \<in> rs_used c \<Longrightarrow>
     relay_step jtext sz sha c (AnnounceTask tid req) (c\<lparr>rs_relay := announce_task (rs_relay c) tid req\<rparr>)"
| step_claim: "claim_next_task (rs_relay c) p = (r', out) \<Longrightarrow>
     relay_step jtext sz sha c (Claim p) (c\<lparr>rs_relay := r'\<rparr>)"
| step_complete_begin: "vx_task_id res = tid \<Longrightarrow> complete_begin (rs_relay c) tid res = Ok (r', req) \<Longrightarrow>
     relay_step jtext sz sha c (CompleteBegin tid res)
       (c\<lparr>rs_relay := r', rs_completing := (tid, req, res) # rs_completing c, rs_used := insert tid (rs_used c)\<rparr>)"
| step_complete_publish: "(tid, req, res) \<in> set (rs_completing c) \<Longrightarrow>
     relay_step jtext sz sha c (CompletePublish tid req res)
       (c\<lparr>rs_relay := complete_publish jtext (rs_relay c) tid req res,
          rs_completing := remove1 (tid, req, res) (rs_completing c)\<rparr>)"
| step_cancel_begin: "vx_task_id res = tid \<Longrightarrow> cancel_begin (rs_relay c) tid res = Ok r' \<Longrightarrow>
     relay_step jtext sz sha c (CancelBegin tid res)
       (c\<lparr>rs_relay := r', rs_cancelling := (tid, res) # rs_cancelling c\<rparr>)"
| step_cancel_publish: "(tid, res) \<in> set (rs_cancelling c) \<Longrightarrow>
     relay_step jtext sz sha c (CancelPublish tid res)
       (c\<lparr>rs_relay := cancel_publish (rs_relay c) tid res,
          rs_cancelling := remove1 (tid, res) (rs_cancelling c)\<rparr>)"
| step_cleanup: "relay_step jtext sz sha c (Cleanup now) (c\<lparr>rs_relay := cleanup_idempotency now (rs_relay c)\<rparr>)"
| step_progress: "push_progress_event sz now (rs_relay c) tid e = Some (r', b) \<Longrightarrow>
     relay_step jtext sz sha c (Progress now tid e) (c\<lparr>rs_relay := r'\<rparr>)"
| step_subscribe: "subscribe_to_task (rs_relay c) tid = (r', n) \<Longrightarrow>
     relay_step jtext sz sha c (Subscribe tid) (c\<lparr>rs_relay := r'\<rparr>)"
| step_token: "record_pair_token sha (rs_relay c) p tok = Ok r' \<Longrightarrow>
     relay_step jtext sz sha c (RecordToken p tok) (c\<lparr>rs_relay := r'\<rparr>)"
| step_mark: "mark_cancelled (rs_relay c) tid = (r', b) \<Longrightarrow>
     relay_step jtext sz sha c (MarkCancelled tid) (c\<lparr>rs_relay := r'\<rparr>)"
| step_create_token: "create_cancel_token (rs_relay c) tid = (r', b) \<Longrightarrow>
     relay_step jtext sz sha c (CreateToken tid) (c\<lparr>rs_relay := r'\<rparr>)"
| step_register: "register_session (rs_relay c) p ro w = Ok r' \<Longrightarrow>
     relay_step jtext sz sha c (Register p ro w) (c\<lparr>rs_relay := r'\<rparr>)"
| step_deregister: "deregister_session (rs_relay c) p ro = Ok r' \<Longrightarrow>
     relay_step jtext sz sha c (Deregister p ro) (c\<lparr>rs_relay := r'\<rparr>)"

definition relay_start :: "RelaySys \<Rightarrow> bool" where
  "relay_start c \<longleftrightarrow> (\<exists>store. rs_relay c = new_relay store) \<and> rs_completing c = [] \<and> rs_cancelling c = []"

section \<open>What each operation does to the task table\<close>

text \<open>The ways the table and its index change in one operation.\<close>

datatype table_change =
    Same
  | Add string TaskEntry
  | Put string TaskEntry

definition changes :: "A2ARelay \<Rightarrow> A2ARelay \<Rightarrow> table_change \<Rightarrow> bool" where
  "changes r r' ch \<longleftrightarrow>
     (case ch of
        Same \<Rightarrow> ar_tasks r' = ar_tasks r \<and> ar_idempotency r' = ar_idempotency r
      | Add tid t \<Rightarrow> task_at r' = (task_at r)(tid \<mapsto> t) \<and>
          map_of (ar_idempotency r') = (map_of (ar_idempotency r))(te_idempotency_key t \<mapsto> tid)
      | Put tid t \<Rightarrow> task_at r' = (task_at r)(tid \<mapsto> t) \<and> ar_idempotency r' = ar_idempotency r)"

text \<open>Stored results are never lost.\<close>

definition results_kept :: "A2ARelay \<Rightarrow> A2ARelay \<Rightarrow> bool" where
  "results_kept r r' \<longleftrightarrow> (\<forall>tid. get_task_result r tid \<noteq> None \<longrightarrow> get_task_result r' tid \<noteq> None)"

lemma results_kept_refl [simp]: "ar_store r' = ar_store r \<Longrightarrow> results_kept r r'"
  by (simp add: results_kept_def get_task_result_def)

lemma result_key_other [simp]:
  "audit_result_key tid \<noteq> audit_request_key tid'" "audit_result_key tid \<noteq> audit_rejected_key"
  "audit_result_key tid \<noteq> pair_token_key p" "audit_result_key tid \<noteq> verification_key p"
proof -
  have "rev (audit_result_key tid) \<noteq> rev (audit_request_key tid')" "rev (audit_result_key tid) \<noteq> rev audit_rejected_key"
    by (simp_all add: audit_result_key_def audit_request_key_def audit_rejected_key_def)
  then show "audit_result_key tid \<noteq> audit_request_key tid'" "audit_result_key tid \<noteq> audit_rejected_key"
    by metis+
qed (simp_all add: audit_result_key_def audit_task_key_def pair_token_key_def verification_key_def)

lemma results_kept_set:
  assumes "\<And>tid. key \<noteq> audit_result_key tid"
  shows "results_kept r (r\<lparr>ar_store := store_set (ar_store r) key v\<rparr>)"
proof -
  have "audit_result_key tid \<noteq> key" for tid using assms by metis
  then show ?thesis by (simp add: results_kept_def get_task_result_def store_kv.get_put)
qed

lemma audit_result_key_inj [simp]: "audit_result_key a = audit_result_key b \<longleftrightarrow> a = b"
  by (simp add: audit_result_key_def audit_task_key_def)

lemma mirror_result_keeps:
  "results_kept r (mirror_result r p res)" "get_task_result (mirror_result r p res) (vx_task_id res) = Some res"
  "ar_tasks (mirror_result r p res) = ar_tasks r" "ar_idempotency (mirror_result r p res) = ar_idempotency r"
  by (simp_all add: results_kept_def get_task_result_def mirror_result_def Let_def store_kv.get_put)

lemma results_kept_store:
  "results_kept r r' \<Longrightarrow> ar_store r'' = ar_store r' \<Longrightarrow> results_kept r r''"
  by (simp add: results_kept_def get_task_result_def)

lemma enroll_changes:
  assumes "enroll_task jtext uuid now r req p = (r', tid, fresh)"
  shows "(changes r r' Same \<or>
      (\<exists>t. changes r r' (Add uuid t) \<and> te_task_id t = uuid \<and> te_state t = TaskPending \<and> te_request t = req \<and>
        te_result t = None \<and>
        \<not> is_some_and (Option.bind (map_of (ar_idempotency r) (te_idempotency_key t)) (task_at r)) active)) \<and>
    ar_store r' = ar_store r"
proof (cases "Option.bind (map_of (ar_idempotency r) (idempotency_seed jtext req))
    (\<lambda>i. if is_some_and (task_at r i) active then Some i else None)")
  case (Some i)
  with assms show ?thesis by (simp add: enroll_task_def changes_def)
next
  case None
  let ?t = "\<lparr>te_task_id = uuid, te_request = req, te_idempotency_key = idempotency_seed jtext req,
    te_requester = p, te_state = TaskPending, te_result = None\<rparr>"
  from assms None have "changes r r' (Add uuid ?t)" "ar_store r' = ar_store r"
    by (auto simp: enroll_task_def changes_def Let_def update_conv')
  moreover have "\<not> is_some_and (Option.bind (map_of (ar_idempotency r) (idempotency_seed jtext req)) (task_at r)) active"
    using None by (auto simp: is_some_and_iff bind_eq_Some_conv bind_eq_None_conv split: if_splits)
  ultimately show ?thesis by (intro conjI disjI2 exI [of _ ?t]) simp_all
qed

lemma announce_changes: "changes r (announce_task r tid req) Same \<and> results_kept r (announce_task r tid req)"
proof -
  have "results_kept r (r\<lparr>ar_store := store_set (ar_store r) (audit_request_key tid) (request_to_json req)\<rparr>)"
    by (rule results_kept_set) (metis result_key_other(1))
  then have "results_kept r (announce_task r tid req)"
    by (rule results_kept_store) (simp add: announce_task_def mirror_request_def Let_def)
  then show ?thesis by (simp add: announce_task_def mirror_request_def Let_def changes_def)
qed

lemma changes_then_same: "changes r r' ch \<Longrightarrow> changes r' r'' Same \<Longrightarrow> changes r r'' ch"
  by (cases ch) (auto simp: changes_def)

text \<open>The effect of a submission on the table, whole or up to the release of the locks.\<close>

definition submitted :: "string \<Rightarrow> A2ARelay \<Rightarrow> A2ARelay \<Rightarrow> bool" where
  "submitted uuid r r' \<longleftrightarrow> (changes r r' Same \<or>
      (\<exists>t. changes r r' (Add uuid t) \<and> te_task_id t = uuid \<and> te_state t = TaskPending \<and> te_result t = None \<and>
        \<not> is_some_and (Option.bind (map_of (ar_idempotency r) (te_idempotency_key t)) (task_at r)) active)) \<and>
    results_kept r r'"

lemma rejected_changes: "submitted uuid r (log_rejected_request jtext date r req e)"
proof -
  have "results_kept r (log_rejected_request jtext date r req e)"
    unfolding log_rejected_request_def Let_def by (rule results_kept_set) (metis result_key_other(2))
  then show ?thesis by (simp add: submitted_def log_rejected_request_def Let_def changes_def)
qed

lemma enroll_submitted: "enroll_task jtext uuid now r req p = (r', tid, fresh) \<Longrightarrow> submitted uuid r r'"
  using enroll_changes [of jtext uuid now r req p r' tid fresh] results_kept_refl [of r' r] unfolding submitted_def by blast

lemma submit_enroll_changes: "submit_enroll jtext uuid now date r req p = (r', out) \<Longrightarrow> submitted uuid r r'"
  by (auto simp: submit_enroll_def rejected_changes intro: enroll_submitted split: sum.splits prod.splits)

lemma submit_changes:
  assumes "submit_verify_request jtext uuid now date r req p = (r', out)"
  shows "submitted uuid r r'"
proof (cases "validate_verify_request req p")
  case (Inl e)
  with assms show ?thesis using rejected_changes [of uuid r jtext date req e] by (simp add: submit_verify_request_def)
next
  case (Inr u)
  obtain r1 tid fresh where e: "enroll_task jtext uuid now r req p = (r1, tid, fresh)" by (metis prod_cases3)
  have "r' = (if fresh then announce_task r1 tid req else r1)"
    using assms Inr e by (simp add: submit_verify_request_def check_or_create_task_def)
  then show ?thesis
    using enroll_submitted [OF e] announce_changes [of r1 tid req] changes_then_same [of r r1 _ r']
    unfolding submitted_def results_kept_def by (cases fresh) (metis+)
qed

lemma find_task:
  assumes "List.find (\<lambda>(_, t). P t) ts = Some (tid, t)" and "distinct (map fst ts)"
  shows "map_of ts tid = Some t \<and> P t"
  using assms by (auto simp: find_Some_iff map_of_eq_Some_iff) (metis nth_mem)+

lemma claim_changes:
  assumes "claim_next_task r p = (r', out)" and "distinct (map fst (ar_tasks r))"
  shows "(case out of
      None \<Rightarrow> r' = r
    | Some t \<Rightarrow> \<exists>tid. task_at r tid = Some t \<and> te_state t = TaskPending \<and> vr_pair_id (te_request t) = p \<and>
        changes r r' (Put tid (t\<lparr>te_state := TaskRunning\<rparr>)) \<and> ar_store r' = ar_store r)"
proof (cases "List.find (\<lambda>(_, t). vr_pair_id (te_request t) = p \<and> te_state t = TaskPending) (ar_tasks r)")
  case None
  with assms(1) show ?thesis by (auto simp: claim_next_task_def)
next
  case (Some x)
  obtain tid t where x: "x = (tid, t)" by fastforce
  from find_task [OF Some [unfolded x] assms(2)]
  have t: "task_at r tid = Some t" "te_state t = TaskPending" "vr_pair_id (te_request t) = p" by simp_all
  from Some x assms(1) have o': "out = Some t"
    and r': "r' = r\<lparr>ar_tasks := AList.update tid (t\<lparr>te_state := TaskRunning\<rparr>) (ar_tasks r)\<rparr>"
    by (simp_all add: claim_next_task_def)
  from t show ?thesis by (simp add: o') (intro exI [of _ tid], simp add: r' changes_def update_conv')
qed

lemma publish_changes:
  "\<exists>t. changes r (complete_publish jtext r tid req res) (Put tid t) \<and> te_state t = TaskCompleted \<and>
     te_result t = Some res \<and> (case task_at r tid of Some t0 \<Rightarrow> te_task_id t = te_task_id t0 | None \<Rightarrow> te_task_id t = tid)"
  by (cases "task_at r tid") (auto simp: complete_publish_def Let_def changes_def update_conv')

lemma cancel_publish_changes:
  "(case task_at r tid of
      None \<Rightarrow> cancel_publish r tid res = r
    | Some t0 \<Rightarrow> changes r (cancel_publish r tid res)
        (Put tid (t0\<lparr>te_state := TaskCancelled, te_result := Some res\<rparr>)))"
  by (cases "task_at r tid") (auto simp: cancel_publish_def changes_def update_conv')

section \<open>Cleaning up\<close>

lemma evict_key_maps:
  "task_at (evict_key k r) = (case map_of (ar_idempotency r) k of Some i \<Rightarrow> (task_at r)(i := None) | None \<Rightarrow> task_at r)"
  "map_of (ar_idempotency (evict_key k r)) = (map_of (ar_idempotency r))(k := None)"
  "ar_store (evict_key k r) = ar_store r"
  by (auto simp: evict_key_def Let_def delete_conv' fun_upd_idem split: option.splits)

lemma evict_keys_store [simp]: "ar_store (fold evict_key ks r) = ar_store r"
  by (induction ks arbitrary: r) (simp_all add: evict_key_maps)

lemma evict_keys_shrink:
  "map_of (ar_idempotency (fold evict_key ks r)) k = Some i \<Longrightarrow> map_of (ar_idempotency r) k = Some i"
  "task_at (fold evict_key ks r) i = Some t \<Longrightarrow> task_at r i = Some t"
proof (induction ks arbitrary: r)
  case (Cons x ks)
  {
    case 1
    with Cons.IH(1) [of "evict_key x r"] show ?case by (auto simp: evict_key_maps split: if_splits)
  next
    case 2
    with Cons.IH(2) [of "evict_key x r"] show ?case by (auto simp: evict_key_maps split: option.splits if_splits)
  }
qed simp_all

text \<open>Evicting keys whose tasks are finished leaves every active task in the table.\<close>

lemma evict_keys_keep:
  assumes "\<forall>k \<in> set ks. is_none_or (Option.bind (map_of (ar_idempotency r) k) (task_at r)) (\<lambda>t. \<not> active t)"
    and "task_at r i = Some t" and "active t"
  shows "task_at (fold evict_key ks r) i = Some t"
  using assms
proof (induction ks arbitrary: r)
  case (Cons k ks)
  have keep: "task_at (evict_key k r) i = Some t"
    using Cons.prems by (auto simp: evict_key_maps split: option.splits)
  have "is_none_or (Option.bind (map_of (ar_idempotency (evict_key k r)) k') (task_at (evict_key k r))) (\<lambda>t. \<not> active t)"
    if "k' \<in> set ks" for k'
    using Cons.prems(1) that
    by (auto simp: evict_key_maps is_none_or_iff bind_eq_Some_conv split: option.splits if_splits)
  then show ?case using Cons.IH [OF _ keep Cons.prems(3)] by simp
qed simp

lemma cleanup_keeps_active:
  assumes "task_at r i = Some t" and "active t"
  shows "task_at (cleanup_idempotency now r) i = Some t"
  unfolding cleanup_idempotency_def
  using assms
  by (intro evict_keys_keep) (auto simp: stale_key_def is_none_or_iff active_def)

section \<open>The invariant\<close>

definition table_ok :: "A2ARelay \<Rightarrow> string set \<Rightarrow> bool" where
  "table_ok r used \<longleftrightarrow>
     distinct (map fst (ar_tasks r)) \<and>
     (\<forall>tid t. task_at r tid = Some t \<longrightarrow> te_task_id t = tid \<and> tid \<in> used) \<and>
     (\<forall>tid t. task_at r tid = Some t \<and> active t \<longrightarrow>
        map_of (ar_idempotency r) (te_idempotency_key t) = Some tid) \<and>
     (\<forall>tid t. task_at r tid = Some t \<and> \<not> active t \<longrightarrow>
        te_result t \<noteq> None \<and> get_task_result r tid \<noteq> None)"

definition relay_ok :: "RelaySys \<Rightarrow> bool" where
  "relay_ok c \<longleftrightarrow> table_ok (rs_relay c) (rs_used c) \<and>
     (\<forall>tid req res. (tid, req, res) \<in> set (rs_completing c) \<longrightarrow>
        tid \<in> rs_used c \<and> get_task_result (rs_relay c) tid \<noteq> None) \<and>
     (\<forall>tid res. (tid, res) \<in> set (rs_cancelling c) \<longrightarrow> get_task_result (rs_relay c) tid \<noteq> None)"

lemma table_ok_same:
  assumes "table_ok r U" and "changes r r' Same" and "results_kept r r'" and "U \<subseteq> U'"
  shows "table_ok r' U'"
  using assms unfolding table_ok_def changes_def results_kept_def by auto

lemma table_ok_add:
  assumes "table_ok r U" and "changes r r' (Add uuid t)" and "results_kept r r'"
    and "te_task_id t = uuid" and "te_state t = TaskPending"
    and new: "uuid \<notin> U"
    and free: "\<not> is_some_and (Option.bind (map_of (ar_idempotency r) (te_idempotency_key t)) (task_at r)) active"
    and "distinct (map fst (ar_tasks r'))"
  shows "table_ok r' (insert uuid U)"
proof -
  have act: "map_of (ar_idempotency r') (te_idempotency_key t') = Some tid"
    if "task_at r tid = Some t'" "active t'" for tid t'
  proof -
    from assms(1) that have i: "map_of (ar_idempotency r) (te_idempotency_key t') = Some tid"
      by (auto simp: table_ok_def)
    with free that have "te_idempotency_key t' \<noteq> te_idempotency_key t" by auto
    with i assms(2) show ?thesis by (simp add: changes_def)
  qed
  have "tid \<noteq> uuid" if "task_at r tid = Some t'" for tid t'
    using assms(1) new that by (auto simp: table_ok_def)
  with act assms show ?thesis
    unfolding table_ok_def results_kept_def changes_def by (auto simp: active_def split: if_splits)
qed

lemma table_ok_put:
  assumes "table_ok r U" and "changes r r' (Put tid t)" and "results_kept r r'"
    and "te_task_id t = tid" and "tid \<in> U" and "distinct (map fst (ar_tasks r'))"
    and "if active t then (\<exists>t0. task_at r tid = Some t0 \<and> active t0 \<and> te_idempotency_key t = te_idempotency_key t0)
         else te_result t \<noteq> None \<and> get_task_result r' tid \<noteq> None"
  shows "table_ok r' U"
  using assms unfolding table_ok_def results_kept_def changes_def by (auto split: if_splits)

lemma distinct_tasks:
  assumes "distinct (map fst (ar_tasks r))"
  shows "claim_next_task r p = (r', out) \<Longrightarrow> distinct (map fst (ar_tasks r'))"
    and "submit_enroll jtext u n d r req p = (r'', o'') \<Longrightarrow> distinct (map fst (ar_tasks r''))"
    and "distinct (map fst (ar_tasks (complete_publish jtext r tid req res)))"
    and "distinct (map fst (ar_tasks (cancel_publish r tid res)))"
    and "distinct (map fst (ar_tasks (fold evict_key ks r)))"
proof -
  note [simp] = distinct_update distinct_delete
  show "claim_next_task r p = (r', out) \<Longrightarrow> distinct (map fst (ar_tasks r'))"
    using assms by (auto simp: claim_next_task_def split: option.splits)
  show "submit_enroll jtext u n d r req p = (r'', o'') \<Longrightarrow> distinct (map fst (ar_tasks r''))"
    using assms by (auto simp: submit_enroll_def enroll_task_def log_rejected_request_def Let_def split: sum.splits option.splits)
  show "distinct (map fst (ar_tasks (complete_publish jtext r tid req res)))"
    using assms by (simp add: complete_publish_def Let_def)
  show "distinct (map fst (ar_tasks (cancel_publish r tid res)))"
    using assms by (simp add: cancel_publish_def split: option.splits)
  have "distinct (map fst (ar_tasks (evict_key k s)))" if "distinct (map fst (ar_tasks s))" for k s
    using that by (simp add: evict_key_def Let_def distinct_delete split: option.splits)
  then show "distinct (map fst (ar_tasks (fold evict_key ks r)))"
    using assms by (induction ks arbitrary: r) simp_all
qed

lemma evict_key_indexed:
  assumes "\<forall>tid t. task_at r tid = Some t \<and> active t \<longrightarrow> map_of (ar_idempotency r) (te_idempotency_key t) = Some tid"
  shows "\<forall>tid t. task_at (evict_key k r) tid = Some t \<and> active t \<longrightarrow>
    map_of (ar_idempotency (evict_key k r)) (te_idempotency_key t) = Some tid"
  using assms by (auto simp: evict_key_maps split: option.splits if_splits)

lemma table_ok_cleanup:
  assumes "table_ok r U"
  shows "table_ok (cleanup_idempotency now r) U"
proof -
  have idx: "\<forall>tid t. task_at (fold evict_key ks s) tid = Some t \<and> active t \<longrightarrow>
      map_of (ar_idempotency (fold evict_key ks s)) (te_idempotency_key t) = Some tid"
    if "\<forall>tid t. task_at s tid = Some t \<and> active t \<longrightarrow> map_of (ar_idempotency s) (te_idempotency_key t) = Some tid"
    for ks s
    using that
  proof (induction ks arbitrary: s)
    case (Cons k ks)
    from Cons.IH [OF evict_key_indexed [OF Cons.prems]] show ?case by simp
  qed simp
  have "get_task_result (cleanup_idempotency now r) = get_task_result r"
    by (simp add: fun_eq_iff get_task_result_def cleanup_idempotency_def)
  moreover have "\<forall>tid t. task_at (cleanup_idempotency now r) tid = Some t \<longrightarrow> task_at r tid = Some t"
    by (auto simp: cleanup_idempotency_def dest: evict_keys_shrink(2))
  moreover have "\<forall>tid t. task_at (cleanup_idempotency now r) tid = Some t \<and> active t \<longrightarrow>
      map_of (ar_idempotency (cleanup_idempotency now r)) (te_idempotency_key t) = Some tid"
    unfolding cleanup_idempotency_def using assms by (intro idx) (simp add: table_ok_def)
  moreover have "distinct (map fst (ar_tasks (cleanup_idempotency now r)))"
    unfolding cleanup_idempotency_def using assms by (intro distinct_tasks(5)) (simp add: table_ok_def)
  ultimately show ?thesis using assms unfolding table_ok_def
    by (simp del: map_of_eq_Some_iff) blast
qed

text \<open>Operations that leave the table alone.\<close>

lemma quiet_operations:
  "push_progress_event sz now r tid e = Some (r', b) \<Longrightarrow> changes r r' Same \<and> ar_store r' = ar_store r"
  "subscribe_to_task r tid = (r', n) \<Longrightarrow> changes r r' Same \<and> ar_store r' = ar_store r"
  "mark_cancelled r tid = (r', f) \<Longrightarrow> changes r r' Same \<and> ar_store r' = ar_store r"
  "create_cancel_token r tid = (r', f) \<Longrightarrow> changes r r' Same \<and> ar_store r' = ar_store r"
  "register_session r p ro w = Ok r' \<Longrightarrow> changes r r' Same \<and> ar_store r' = ar_store r"
  "deregister_session r p ro = Ok r' \<Longrightarrow> changes r r' Same \<and> ar_store r' = ar_store r"
  by (auto simp: push_progress_event_def subscribe_to_task_def mark_cancelled_def create_cancel_token_def
      set_cancel_flag_def register_session_def deregister_session_def changes_def Let_def
      split: option.splits prod.splits)

lemma token_operation:
  "record_pair_token sha r p tok = Ok r' \<Longrightarrow> changes r r' Same \<and> results_kept r r'"
  using results_kept_set [of "pair_token_key p" r] result_key_other(3) [symmetric]
  by (auto simp: record_pair_token_def changes_def)

lemma relay_ok_same:
  assumes "relay_ok c" and "changes (rs_relay c) r' Same" and "results_kept (rs_relay c) r'"
  shows "relay_ok (c\<lparr>rs_relay := r'\<rparr>)"
  using assms table_ok_same [of "rs_relay c" "rs_used c" r' "rs_used c"]
  unfolding relay_ok_def results_kept_def by simp

lemma relay_ok_table:
  assumes "relay_ok c" and "table_ok r' U" and "results_kept (rs_relay c) r'" and "rs_used c \<subseteq> U"
  shows "relay_ok (c\<lparr>rs_relay := r', rs_used := U\<rparr>)"
  using assms unfolding relay_ok_def results_kept_def by simp blast

lemma relay_ok_submit:
  assumes "relay_ok c" and new: "uuid \<notin> rs_used c"
    and sub: "submit_enroll jtext uuid now date (rs_relay c) req p = (r', out)"
  shows "relay_ok (c\<lparr>rs_relay := r', rs_used := insert uuid (rs_used c)\<rparr>)"
proof (rule relay_ok_table [OF assms(1)])
  have ok: "table_ok (rs_relay c) (rs_used c)" using assms(1) by (simp add: relay_ok_def)
  from submit_enroll_changes [OF sub] show kept: "results_kept (rs_relay c) r'" by (simp add: submitted_def)
  have d: "distinct (map fst (ar_tasks r'))"
    using ok distinct_tasks(2) [OF _ sub] by (simp add: table_ok_def)
  from submit_enroll_changes [OF sub] show "table_ok r' (insert uuid (rs_used c))"
    unfolding submitted_def using table_ok_same [OF ok _ kept] table_ok_add [OF ok _ kept _ _ new _ d] by blast
qed blast

lemma relay_ok_claim:
  assumes "relay_ok c" and claim: "claim_next_task (rs_relay c) p = (r', out)"
  shows "relay_ok (c\<lparr>rs_relay := r'\<rparr>)"
proof -
  have ok: "table_ok (rs_relay c) (rs_used c)" using assms(1) by (simp add: relay_ok_def)
  then have d: "distinct (map fst (ar_tasks (rs_relay c)))" by (simp add: table_ok_def)
  show ?thesis
  proof (cases out)
    case None
    with claim_changes [OF claim d] assms(1) show ?thesis by simp
  next
    case (Some t)
    with claim_changes [OF claim d] obtain tid where t: "task_at (rs_relay c) tid = Some t" "te_state t = TaskPending"
      and ch: "changes (rs_relay c) r' (Put tid (t\<lparr>te_state := TaskRunning\<rparr>))"
      and st: "ar_store r' = ar_store (rs_relay c)" by auto
    from ok t(1) have "te_task_id t = tid" "tid \<in> rs_used c"
      by (simp_all add: table_ok_def del: map_of_eq_Some_iff)
    then have "table_ok r' (rs_used c)"
      using t st distinct_tasks(1) [OF d claim] by (intro table_ok_put [OF ok ch]) (simp_all add: active_def)
    with relay_ok_table [OF assms(1) this] st show ?thesis by simp
  qed
qed

lemma relay_ok_publish:
  assumes "relay_ok c" and "(tid, req, res) \<in> set (rs_completing c)"
  shows "relay_ok (c\<lparr>rs_relay := complete_publish jtext (rs_relay c) tid req res,
    rs_completing := remove1 (tid, req, res) (rs_completing c)\<rparr>)"
proof -
  let ?r' = "complete_publish jtext (rs_relay c) tid req res"
  have ok: "table_ok (rs_relay c) (rs_used c)" and tid: "tid \<in> rs_used c" "get_task_result (rs_relay c) tid \<noteq> None"
    using assms by (auto simp: relay_ok_def)
  have st: "ar_store ?r' = ar_store (rs_relay c)" by (simp add: complete_publish_def Let_def)
  obtain t where ch: "changes (rs_relay c) ?r' (Put tid t)" and t: "te_state t = TaskCompleted" "te_result t = Some res"
    "case task_at (rs_relay c) tid of Some t0 \<Rightarrow> te_task_id t = te_task_id t0 | None \<Rightarrow> te_task_id t = tid"
    using publish_changes by blast
  from t(3) ok have "te_task_id t = tid"
    by (auto simp: table_ok_def simp del: map_of_eq_Some_iff split: option.splits)
  then have "table_ok ?r' (rs_used c)"
    using ok t tid st distinct_tasks(3) [of "rs_relay c"]
    by (intro table_ok_put [OF ok ch]) (simp_all add: active_def table_ok_def get_task_result_def)
  with assms(1) st show ?thesis
    unfolding relay_ok_def by (auto simp: get_task_result_def dest!: set_remove1_subset [THEN subsetD] split: option.splits)
qed

lemma relay_ok_cancel_publish:
  assumes "relay_ok c" and "(tid, res) \<in> set (rs_cancelling c)"
  shows "relay_ok (c\<lparr>rs_relay := cancel_publish (rs_relay c) tid res,
    rs_cancelling := remove1 (tid, res) (rs_cancelling c)\<rparr>)"
proof -
  let ?r' = "cancel_publish (rs_relay c) tid res"
  have ok: "table_ok (rs_relay c) (rs_used c)" and tid: "get_task_result (rs_relay c) tid \<noteq> None"
    using assms by (auto simp: relay_ok_def)
  have st: "ar_store ?r' = ar_store (rs_relay c)" by (simp add: cancel_publish_def split: option.splits)
  have "table_ok ?r' (rs_used c)"
  proof (cases "task_at (rs_relay c) tid")
    case None
    with ok show ?thesis by (simp add: cancel_publish_def)
  next
    case (Some t0)
    with cancel_publish_changes [of "rs_relay c" tid res]
    have ch: "changes (rs_relay c) ?r' (Put tid (t0\<lparr>te_state := TaskCancelled, te_result := Some res\<rparr>))" by simp
    from ok Some have "te_task_id t0 = tid" "tid \<in> rs_used c"
      by (simp_all add: table_ok_def del: map_of_eq_Some_iff)
    then show ?thesis
      using ok tid st distinct_tasks(4) [of "rs_relay c"]
      by (intro table_ok_put [OF ok ch]) (simp_all add: active_def table_ok_def get_task_result_def)
  qed
  with assms(1) st show ?thesis
    unfolding relay_ok_def by (auto simp: get_task_result_def dest!: set_remove1_subset [THEN subsetD])
qed

end
