(* ===== verification/Relay_Properties.thy ===== *)
theory Relay_Properties
  imports Relay_Invariant
begin

text \<open>
  Correctness of the A2A relay over all interleavings: one active task per request, each task
  claimed once, results durable before they are visible, deduplication that survives clean-up,
  and pair tokens that admit nobody else.
\<close>

section \<open>The invariant along runs\<close>

lemma complete_begin_Ok:
  "complete_begin r tid res = Ok (r', req) \<Longrightarrow> r' = mirror_result r (vr_pair_id req) res"
  unfolding complete_begin_def
  by (cases "case task_at r tid of None \<Rightarrow> get_task_request r tid | Some e \<Rightarrow> Some (te_request e)") auto

lemma cancel_begin_Ok:
  "cancel_begin r tid res = Ok r' \<Longrightarrow> \<exists>p. r' = mirror_result (set_cancel_flag r tid) p res"
  unfolding cancel_begin_def by (cases "task_at r tid") auto

lemma relay_ok_quiet:
  "changes (rs_relay c) r' Same \<and> ar_store r' = ar_store (rs_relay c) \<Longrightarrow> relay_ok c \<Longrightarrow> relay_ok (c\<lparr>rs_relay := r'\<rparr>)"
  by (rule relay_ok_same) simp_all

lemma relay_ok_step: "relay_step jtext sz sha c l c' \<Longrightarrow> relay_ok c \<Longrightarrow> relay_ok c'"
proof (induction rule: relay_step.induct)
  case (step_complete_begin res tid c r' req)
  have r': "r' = mirror_result (rs_relay c) (vr_pair_id req) res"
    by (rule complete_begin_Ok [OF step_complete_begin.hyps(2)])
  have kept: "results_kept (rs_relay c) r'" unfolding r' by (rule mirror_result_keeps(1))
  have same: "changes (rs_relay c) r' Same" by (simp add: r' changes_def mirror_result_keeps)
  have "table_ok (rs_relay c) (rs_used c)" using step_complete_begin.prems by (simp add: relay_ok_def)
  then have "table_ok r' (insert tid (rs_used c))" using table_ok_same [OF _ same kept] by blast
  from relay_ok_table [OF step_complete_begin.prems this kept]
  have "relay_ok (c\<lparr>rs_relay := r', rs_used := insert tid (rs_used c)\<rparr>)" by blast
  then show ?case
    using mirror_result_keeps(2) [of "rs_relay c" _ res] step_complete_begin.hyps(1)
    by (auto simp: relay_ok_def r')
next
  case (step_cancel_begin res tid c r')
  obtain p where r': "r' = mirror_result (set_cancel_flag (rs_relay c) tid) p res"
    using cancel_begin_Ok [OF step_cancel_begin.hyps(2)] by blast
  have "results_kept (rs_relay c) (set_cancel_flag (rs_relay c) tid)"
    by (rule results_kept_refl) (simp add: set_cancel_flag_def)
  with mirror_result_keeps(1) [of "set_cancel_flag (rs_relay c) tid" p res]
  have "results_kept (rs_relay c) r'" unfolding r' results_kept_def by blast
  then have "relay_ok (c\<lparr>rs_relay := r'\<rparr>)"
    using step_cancel_begin.prems mirror_result_keeps(3,4)
    by (intro relay_ok_same) (auto simp: r' changes_def set_cancel_flag_def)
  then show ?case
    using mirror_result_keeps(2) [of "set_cancel_flag (rs_relay c) tid" p res] step_cancel_begin.hyps(1)
    by (auto simp: relay_ok_def r')
next
  case (step_cleanup c now)
  then show ?case
    using relay_ok_table [OF step_cleanup table_ok_cleanup [of "rs_relay c" "rs_used c" now]]
    by (simp add: relay_ok_def cleanup_idempotency_def)
next
  case (step_token c p tok r')
  then show ?case using token_operation [of sha "rs_relay c" p tok r'] by (intro relay_ok_same) simp_all
next
  case (step_announce tid c req)
  then show ?case using announce_changes [of "rs_relay c" tid req] by (intro relay_ok_same) simp_all
qed (drule quiet_operations, erule (1) relay_ok_quiet | blast intro: relay_ok_submit relay_ok_claim
    relay_ok_publish relay_ok_cancel_publish)+

lemma relay_ok_start: "relay_start c \<Longrightarrow> relay_ok c"
  by (auto simp: relay_start_def relay_ok_def table_ok_def new_relay_def)

interpretation relaysys: invariant_system relay_start "relay_step jtext sz sha" relay_ok for jtext sz sha
  by unfold_locales (auto intro: relay_ok_start relay_ok_step)

text \<open>A task id that is not (or no longer) pending.\<close>

definition settled :: "string \<Rightarrow> RelaySys \<Rightarrow> bool" where
  "settled tid c \<longleftrightarrow> relay_ok c \<and> tid \<in> rs_used c \<and>
     is_none_or (task_at (rs_relay c) tid) (\<lambda>t. te_state t \<noteq> TaskPending)"

lemma settled_same:
  assumes "changes r r' Same" shows "task_at r' = task_at r"
  using assms by (simp add: changes_def)

lemma settled_step:
  assumes "relay_step jtext sz sha c l c'" and "settled tid c"
  shows "settled tid c'"
proof -
  have ok: "relay_ok c" using assms(2) by (simp add: settled_def)
  have ok': "relay_ok c'" using relay_ok_step [OF assms(1) ok] .
  have "tid \<in> rs_used c' \<and> is_none_or (task_at (rs_relay c') tid) (\<lambda>t. te_state t \<noteq> TaskPending)"
    using assms
  proof (induction rule: relay_step.induct)
    case (step_submit uuid c now date req p r' out)
    then have "uuid \<noteq> tid" by (auto simp: settled_def)
    with submit_enroll_changes [OF step_submit.hyps(2)] step_submit.prems show ?case
      by (auto simp: settled_def submitted_def changes_def)
  next
    case (step_announce i c req)
    with announce_changes [of "rs_relay c" i req] show ?case by (auto simp: settled_def changes_def)
  next
    case (step_claim c p r' out)
    then have "distinct (map fst (ar_tasks (rs_relay c)))" by (simp add: settled_def relay_ok_def table_ok_def)
    from claim_changes [OF step_claim.hyps this] step_claim.prems show ?case
      by (cases out) (auto simp: settled_def changes_def is_none_or_iff split: if_splits)
  next
    case (step_complete_publish i req res c)
    from publish_changes [of "rs_relay c" jtext i req res] step_complete_publish.prems show ?case
      by (auto simp: settled_def changes_def is_none_or_iff split: if_splits)
  next
    case (step_cancel_publish i res c)
    from cancel_publish_changes [of "rs_relay c" i res] step_cancel_publish.prems show ?case
      by (auto simp: settled_def changes_def is_none_or_iff split: option.splits if_splits)
  next
    case (step_cleanup c now)
    have "task_at (rs_relay c) tid = Some t" if "task_at (cleanup_idempotency now (rs_relay c)) tid = Some t" for t
      using that by (auto simp: cleanup_idempotency_def dest: evict_keys_shrink(2))
    with step_cleanup show ?case by (auto simp: settled_def is_none_or_iff)
  qed (auto simp: settled_def mirror_result_keeps set_cancel_flag_def changes_def
      dest!: quiet_operations token_operation complete_begin_Ok cancel_begin_Ok)
  with ok' show ?thesis by (simp add: settled_def)
qed

interpretation relaysettled: invariant_system "settled tid" "relay_step jtext sz sha" "settled tid" for tid jtext sz sha
  by unfold_locales (auto intro: settled_step)

section \<open>A sample run\<close>

definition demo_relay_start :: RelaySys where
  "demo_relay_start = \<lparr>rs_relay = new_relay new_in_memory, rs_completing = [], rs_cancelling = [], rs_used = {}\<rparr>"

definition demo_submitted :: RelaySys where
  "demo_submitted = demo_relay_start\<lparr>
     rs_relay := fst (enroll_task timeout_text ''u1'' 0 (new_relay new_in_memory) (sample_request 60) ''T-1''),
     rs_used := {''u1''}\<rparr>"

lemma demo_valid: "validate_verify_request (sample_request 60) ''T-1'' = Ok ()"
  by code_simp

lemma demo_step:
  "relay_step timeout_text sz sha demo_relay_start (SubmitTask ''u1'' 0 ''now'' (sample_request 60) ''T-1'') demo_submitted"
proof -
  obtain r' tid fresh where r': "enroll_task timeout_text ''u1'' 0 (new_relay new_in_memory) (sample_request 60) ''T-1'' = (r', tid, fresh)"
    by (metis prod_cases3)
  then have "submit_enroll timeout_text ''u1'' 0 ''now'' (rs_relay demo_relay_start) (sample_request 60) ''T-1'' = (r', Ok tid)"
    by (simp add: submit_enroll_def demo_valid demo_relay_start_def)
  from step_submit [where c = demo_relay_start, OF _ this] r' show ?thesis
    by (simp add: demo_submitted_def demo_relay_start_def)
qed

lemma demo_reach: "reach relay_start (relay_step timeout_text sz sha) demo_submitted"
proof -
  have "reach relay_start (relay_step timeout_text sz sha) demo_relay_start"
    by (rule reach_init) (auto simp: relay_start_def demo_relay_start_def)
  then show ?thesis by (rule reach_step) (rule demo_step)
qed

lemma demo_task:
  "\<exists>t. task_at (rs_relay demo_submitted) ''u1'' = Some t \<and> te_state t = TaskPending \<and> te_task_id t = ''u1'' \<and>
     te_request t = sample_request 60 \<and> te_idempotency_key t = idempotency_seed timeout_text (sample_request 60) \<and>
     ar_tasks (rs_relay demo_submitted) = [(''u1'', t)]"
  by (simp add: demo_submitted_def enroll_task_def new_relay_def Let_def)

section \<open>Properties\<close>

lemma indexed_resubmission:
  assumes "map_of (ar_idempotency r) (idempotency_seed jtext req) = Some tid"
    and "task_at r tid = Some t" and "active t"
  shows "check_or_create_task jtext uuid now r req p = (r, tid)"
  using assms by (simp add: check_or_create_task_def enroll_task_def)

text \<open>
  C11 (invariant). One active task per request: in every state of every interleaving, submitting a
  request again while its task is pending or running returns that task and changes nothing,
  also right after a clean-up at any time, and no other active task exists for the request.
\<close>

theorem resubmission_returns_active_task:
  assumes "reach relay_start (relay_step jtext sz sha) c"
    and "task_at (rs_relay c) tid = Some t" and "active t"
    and "te_idempotency_key t = idempotency_seed jtext req"
  shows "check_or_create_task jtext uuid now (rs_relay c) req p = (rs_relay c, tid) \<and>
    check_or_create_task jtext uuid now (cleanup_idempotency now' (rs_relay c)) req p =
      (cleanup_idempotency now' (rs_relay c), tid) \<and>
    (task_at (rs_relay c) tid' = Some t' \<and> active t' \<and> te_idempotency_key t' = te_idempotency_key t \<longrightarrow>
      tid' = tid)"
proof -
  have ok: "table_ok (rs_relay c) (rs_used c)" using relaysys.reach_inv [OF assms(1)] by (simp add: relay_ok_def)
  let ?r' = "cleanup_idempotency now' (rs_relay c)"
  have "map_of (ar_idempotency (rs_relay c)) (idempotency_seed jtext req) = Some tid"
    using ok assms(2-4) unfolding table_ok_def by metis
  then have now: "check_or_create_task jtext uuid now (rs_relay c) req p = (rs_relay c, tid)"
    using assms(2,3) by (rule indexed_resubmission)
  have keep: "task_at ?r' tid = Some t" by (rule cleanup_keeps_active [OF assms(2,3)])
  have "map_of (ar_idempotency ?r') (idempotency_seed jtext req) = Some tid"
    using table_ok_cleanup [OF ok, of now'] keep assms(3,4) unfolding table_ok_def by metis
  then have "check_or_create_task jtext uuid now ?r' req p = (?r', tid)"
    using keep assms(3) by (rule indexed_resubmission)
  moreover have "tid' = tid" if "task_at (rs_relay c) tid' = Some t'" "active t'"
      "te_idempotency_key t' = te_idempotency_key t"
    using ok assms(2,3) that unfolding table_ok_def by (metis option.inject)
  ultimately show ?thesis using now by blast
qed

theorem resubmission_returns_active_task_witness:
  "check_or_create_task timeout_text ''u2'' 9 (rs_relay demo_submitted) (sample_request 60) ''T-1'' =
     (rs_relay demo_submitted, ''u1'')"
proof -
  obtain t where t: "task_at (rs_relay demo_submitted) ''u1'' = Some t" "te_state t = TaskPending"
    "te_idempotency_key t = idempotency_seed timeout_text (sample_request 60)"
    using demo_task by blast
  then have "active t" by (simp add: active_def)
  from resubmission_returns_active_task [OF demo_reach t(1) this t(3)] show ?thesis by blast
qed

text \<open>
  C10 (safety). Every task is claimed at most once: a claim hands out a pending task of the
  claiming pair, and in whatever way the run goes on, no later claim by anybody hands out that
  task again.
\<close>

theorem task_claimed_once:
  assumes "reach relay_start (relay_step jtext sz sha) c"
    and "claim_next_task (rs_relay c) p = (r', Some t)"
    and "reach (\<lambda>x. x = c\<lparr>rs_relay := r'\<rparr>) (relay_step jtext sz sha) c2"
    and "claim_next_task (rs_relay c2) q = (r2, Some t2)"
  shows "vr_pair_id (te_request t) = p \<and> te_task_id t2 \<noteq> te_task_id t"
proof -
  have ok: "relay_ok c" by (rule relaysys.reach_inv [OF assms(1)])
  then have d: "distinct (map fst (ar_tasks (rs_relay c)))" by (simp add: relay_ok_def table_ok_def)
  from claim_changes [OF assms(2) d] obtain tid where t: "task_at (rs_relay c) tid = Some t"
    "vr_pair_id (te_request t) = p" and ch: "changes (rs_relay c) r' (Put tid (t\<lparr>te_state := TaskRunning\<rparr>))" by auto
  have named: "te_task_id t = tid" "tid \<in> rs_used c"
    using ok t(1) unfolding relay_ok_def table_ok_def by blast+
  have "settled tid (c\<lparr>rs_relay := r'\<rparr>)"
    using relay_ok_claim [OF ok assms(2)] named ch by (simp add: settled_def changes_def)
  then have "reach (settled tid) (relay_step jtext sz sha) c2"
    using reach_mono [OF assms(3)] by blast
  then have "settled tid c2" by (rule relaysettled.reach_inv)
  then have ok2: "relay_ok c2" and s2: "is_none_or (task_at (rs_relay c2) tid) (\<lambda>t. te_state t \<noteq> TaskPending)"
    by (simp_all add: settled_def)
  then have d2: "distinct (map fst (ar_tasks (rs_relay c2)))" by (simp add: relay_ok_def table_ok_def)
  from claim_changes [OF assms(4) d2] obtain tid2 where t2: "task_at (rs_relay c2) tid2 = Some t2"
    "te_state t2 = TaskPending" by auto
  moreover have "te_task_id t2 = tid2" using ok2 t2(1) unfolding relay_ok_def table_ok_def by blast
  ultimately show ?thesis using s2 named t(2) by (auto simp: is_none_or_iff)
qed

text \<open>A second request of the same pair.\<close>

definition demo_two :: RelaySys where
  "demo_two = demo_submitted\<lparr>
     rs_relay := fst (enroll_task timeout_text ''u2'' 0 (rs_relay demo_submitted) (sample_request 90) ''T-1''),
     rs_used := {''u1'', ''u2''}\<rparr>"

lemma demo_valid_two: "validate_verify_request (sample_request 90) ''T-1'' = Ok ()"
  by code_simp

lemma demo_two_reach: "reach relay_start (relay_step timeout_text sz sha) demo_two"
proof (rule reach_step [OF demo_reach])
  obtain r' tid fresh where r': "enroll_task timeout_text ''u2'' 0 (rs_relay demo_submitted) (sample_request 90) ''T-1'' = (r', tid, fresh)"
    by (metis prod_cases3)
  then have "submit_enroll timeout_text ''u2'' 0 ''now'' (rs_relay demo_submitted) (sample_request 90) ''T-1'' = (r', Ok tid)"
    by (simp add: submit_enroll_def demo_valid_two)
  from step_submit [where c = demo_submitted, OF _ this] r'
  show "relay_step timeout_text sz sha demo_submitted (SubmitTask ''u2'' 0 ''now'' (sample_request 90) ''T-1'') demo_two"
    by (simp add: demo_two_def demo_submitted_def demo_relay_start_def insert_commute)
qed

lemma demo_two_tasks:
  "\<exists>t u. ar_tasks (rs_relay demo_two) = [(''u1'', t), (''u2'', u)] \<and> te_state t = TaskPending \<and> te_state u = TaskPending \<and>
     vr_pair_id (te_request t) = ''T-1'' \<and> vr_pair_id (te_request u) = ''T-1'' \<and> te_task_id t = ''u1'' \<and> te_task_id u = ''u2''"
proof -
  have "idempotency_seed timeout_text (sample_request 90) \<noteq> idempotency_seed timeout_text (sample_request 60)"
    by (simp add: idempotency_seed_def timeout_text_def request_to_json_def sample_request_def)
  then show ?thesis
    by (simp add: demo_two_def demo_submitted_def enroll_task_def new_relay_def Let_def sample_request_def)
qed

theorem task_claimed_once_witness:
  "\<exists>r' t r2 t2. claim_next_task (rs_relay demo_two) ''T-1'' = (r', Some t) \<and>
     claim_next_task r' ''T-1'' = (r2, Some t2) \<and> te_task_id t2 \<noteq> te_task_id t"
proof -
  obtain t u where tu: "ar_tasks (rs_relay demo_two) = [(''u1'', t), (''u2'', u)]" "te_state t = TaskPending"
    "te_state u = TaskPending" "vr_pair_id (te_request t) = ''T-1''" "vr_pair_id (te_request u) = ''T-1''"
    using demo_two_tasks by blast
  let ?r' = "(rs_relay demo_two)\<lparr>ar_tasks := [(''u1'', t\<lparr>te_state := TaskRunning\<rparr>), (''u2'', u)]\<rparr>"
  have c1: "claim_next_task (rs_relay demo_two) ''T-1'' = (?r', Some t)"
    using tu by (simp add: claim_next_task_def)
  have c2: "\<exists>r2. claim_next_task (rs_relay (demo_two\<lparr>rs_relay := ?r'\<rparr>)) ''T-1'' = (r2, Some u)"
    using tu by (simp add: claim_next_task_def)
  have "reach (\<lambda>x. x = demo_two\<lparr>rs_relay := ?r'\<rparr>) (relay_step timeout_text (\<lambda>_. 1) (\<lambda>s. s)) (demo_two\<lparr>rs_relay := ?r'\<rparr>)"
    by (rule reach_init) simp
  with c1 c2 task_claimed_once [OF demo_two_reach c1 this] show ?thesis by fastforce
qed

text \<open>
  C12 (safety). Results are durable before they are visible: in every state of every interleaving,
  a task that reads as completed or cancelled carries its result, and a result for it can be read
  back from the store, even while other completions and cancellations are between their stages.
\<close>

theorem finished_tasks_are_durable:
  assumes "reach relay_start (relay_step jtext sz sha) c"
    and "task_at (rs_relay c) tid = Some t"
    and "te_state t = TaskCompleted \<or> te_state t = TaskCancelled"
  shows "te_result t \<noteq> None \<and> get_task_result (rs_relay c) tid \<noteq> None \<and>
    get_task_result (new_relay (ar_store (rs_relay c))) tid \<noteq> None"
proof -
  have "\<not> active t" using assms(3) by (auto simp: active_def)
  moreover have "table_ok (rs_relay c) (rs_used c)" using relaysys.reach_inv [OF assms(1)] by (simp add: relay_ok_def)
  ultimately have "te_result t \<noteq> None \<and> get_task_result (rs_relay c) tid \<noteq> None"
    using assms(2) unfolding table_ok_def by blast
  then show ?thesis by (simp add: get_task_result_def new_relay_def)
qed

definition demo_result :: VerifyResult where
  "demo_result = \<lparr>vx_head_sha = None, vx_task_id = ''u1'', vx_exit_code = Some 0, vx_timed_out = False,
     vx_duration_ms = 5, vx_stdout_ref = [], vx_stderr_ref = [], vx_artifacts = [],
     vx_executor = \<lparr>ei_role = ''forge'', ei_workspace = ''w''\<rparr>\<rparr>"

lemma demo_complete_reach:
  "\<exists>c t. reach relay_start (relay_step timeout_text sz sha) c \<and> task_at (rs_relay c) ''u1'' = Some t \<and>
     te_state t = TaskCompleted"
proof -
  obtain t where t: "task_at (rs_relay demo_submitted) ''u1'' = Some t" using demo_task by blast
  define r' where "r' = mirror_result (rs_relay demo_submitted) (vr_pair_id (te_request t)) demo_result"
  define c1 where "c1 = demo_submitted\<lparr>rs_relay := r', rs_completing := [(''u1'', te_request t, demo_result)],
      rs_used := insert ''u1'' (rs_used demo_submitted)\<rparr>"
  have "complete_begin (rs_relay demo_submitted) ''u1'' demo_result = Ok (r', te_request t)"
    using t by (simp add: complete_begin_def r'_def)
  from step_complete_begin [where c = demo_submitted, OF _ this]
  have "relay_step timeout_text sz sha demo_submitted (CompleteBegin ''u1'' demo_result) c1"
    by (simp add: c1_def demo_result_def demo_submitted_def demo_relay_start_def)
  with demo_reach have "reach relay_start (relay_step timeout_text sz sha) c1" by (rule reach_step)
  moreover have "(''u1'', te_request t, demo_result) \<in> set (rs_completing c1)" by (simp add: c1_def)
  ultimately have "reach relay_start (relay_step timeout_text sz sha)
      (c1\<lparr>rs_relay := complete_publish timeout_text (rs_relay c1) ''u1'' (te_request t) demo_result,
          rs_completing := remove1 (''u1'', te_request t, demo_result) (rs_completing c1)\<rparr>)"
    by (blast intro: reach_step step_complete_publish)
  moreover obtain t' where "changes (rs_relay c1) (complete_publish timeout_text (rs_relay c1) ''u1'' (te_request t) demo_result) (Put ''u1'' t')"
    "te_state t' = TaskCompleted"
    using publish_changes by blast
  ultimately show ?thesis by (fastforce simp: changes_def)
qed

theorem finished_tasks_are_durable_witness:
  "\<exists>c. reach relay_start (relay_step timeout_text (\<lambda>_. 1) (\<lambda>s. s)) c \<and> get_task_result (rs_relay c) ''u1'' \<noteq> None"
proof -
  obtain c t where c: "reach relay_start (relay_step timeout_text (\<lambda>_. 1) (\<lambda>s. s)) c"
    "task_at (rs_relay c) ''u1'' = Some t" "te_state t = TaskCompleted"
    using demo_complete_reach by blast
  from finished_tasks_are_durable [OF c(1,2)] c show ?thesis by blast
qed

text \<open>
  Pair tokens admit exactly their holders: after a token is recorded for a pair,
  a presented token is accepted for that pair iff it is not blank and has the recorded token's hash,
  and nothing changes for any other pair, nor for the stored requests and results.
\<close>

theorem pair_token_admits_only_holder:
  assumes "record_pair_token sha r p token = Ok r'"
  shows "(verify_pair_token sha r' p tok = Ok ()) = (\<not> blank tok \<and> sha tok = sha token) \<and>
    (q \<noteq> p \<longrightarrow> verify_pair_token sha r' q tok = verify_pair_token sha r q tok) \<and>
    get_task_result r' tid = get_task_result r tid \<and> ar_tasks r' = ar_tasks r"
proof -
  from assms have p: "\<not> blank p"
    and r': "r' = r\<lparr>ar_store := store_set (ar_store r) (pair_token_key p) (JStr (sha token))\<rparr>"
    by (simp_all add: record_pair_token_def)
  have "pair_token_key q = pair_token_key p \<longleftrightarrow> q = p" by (simp add: pair_token_key_def)
  then show ?thesis
    using p result_key_other(3) [of tid p]
    by (auto simp: r' verify_pair_token_def store_get_typed_def store_kv.get_put get_task_result_def)
qed

theorem pair_token_admits_only_holder_witness:
  "\<exists>r'. record_pair_token rev (new_relay new_in_memory) ''T-1'' ''secret'' = Ok r' \<and>
     verify_pair_token rev r' ''T-1'' ''secret'' = Ok () \<and> verify_pair_token rev r' ''T-1'' ''guess'' \<noteq> Ok ()"
proof -
  have b: "\<not> blank ''T-1''" "\<not> blank ''secret''" by (simp_all add: blank_iff is_whitespace_def)
  then obtain r' where r': "record_pair_token rev (new_relay new_in_memory) ''T-1'' ''secret'' = Ok r'"
    by (simp add: record_pair_token_def)
  from pair_token_admits_only_holder [OF r', of "''secret''"] pair_token_admits_only_holder [OF r', of "''guess''"] b r'
  show ?thesis by auto
qed

end
