(* ===== verification/A2A_Server.thy ===== *)
theory A2A_Server
  imports A2A_Relay
begin

text \<open>
  The JSON-RPC surface of the relay, \<open>src/crates/agent-nexus/src/a2a/http_server.rs\<close>: the handlers of
  the seven methods and their dispatch. Errors are either safe to show to the caller
  (\<open>InvalidVerifyRequest\<close>) or internal. The text of a serde error is not modelled.
\<close>

section \<open>Errors and parameters\<close>

datatype RpcError = InvalidVerifyRequest string | InternalError string

type_synonym 'a rpc = "RpcError + 'a"

definition internal :: "'a result \<Rightarrow> 'a rpc" where
  "internal r = (case r of Inl e \<Rightarrow> Inl (InternalError e) | Inr v \<Rightarrow> Inr v)"

text \<open>\<open>params.get(k).and_then(as_str).context(message)?\<close>.\<close>

definition string_param :: "json \<Rightarrow> string \<Rightarrow> string \<Rightarrow> (string \<Rightarrow> 'r \<times> 'a rpc) \<Rightarrow> 'r \<Rightarrow> 'r \<times> 'a rpc" where
  "string_param params k message f r =
     (case Option.bind (json_get params k) as_str of
        Some v \<Rightarrow> f v
      | None \<Rightarrow> (r, Inl (InternalError message)))"

definition pair_token :: "json \<Rightarrow> string result" where
  "pair_token params =
     (case Option.bind (json_get params ''pair_token'') as_str of
        Some t \<Rightarrow> Ok t | None \<Rightarrow> Err ''A2A pair_token is required'')"

text \<open>\<open>relay.verify_pair_token(pair, pair_token(params)?).await?\<close>.\<close>

definition authenticated ::
  "(string \<Rightarrow> string) \<Rightarrow> A2ARelay \<Rightarrow> string \<Rightarrow> json \<Rightarrow> (A2ARelay \<times> 'a rpc) \<Rightarrow> A2ARelay \<times> 'a rpc" where
  "authenticated sha r pair_id params k =
     (case bind_result (pair_token params) (verify_pair_token sha r pair_id) of
        Inl e \<Rightarrow> (r, Inl (InternalError e))
      | Inr _ \<Rightarrow> k)"

definition pair_mismatch :: "string \<Rightarrow> string \<Rightarrow> string \<Rightarrow> string" where
  "pair_mismatch method owner pair_id =
     method @ '' pair_id mismatch: task belongs to '' @ owner @ '' but caller claims '' @ pair_id"

section \<open>Handlers\<close>

definition handle_message_send ::
  "(string \<Rightarrow> string) \<Rightarrow> (json \<Rightarrow> string) \<Rightarrow> string \<Rightarrow> nat \<Rightarrow> string \<Rightarrow> A2ARelay \<Rightarrow> json \<Rightarrow> A2ARelay \<times> json rpc" where
  "handle_message_send sha jtext uuid now date r params =
     (let raw = (case Option.bind (json_get params ''message'') (\<lambda>m. json_get m ''task'') of
                   Some v \<Rightarrow> v | None \<Rightarrow> params) in
      case de_request raw of
        None \<Rightarrow> (r, Inl (InvalidVerifyRequest ''Invalid VerifyRequest: ''))
      | Some req \<Rightarrow>
          authenticated sha r (vr_pair_id req) params
            (case submit_verify_request jtext uuid now date r req (vr_pair_id req) of
               (r', Inl e) \<Rightarrow> (r', Inl (InvalidVerifyRequest e))
             | (r', Inr task_id) \<Rightarrow>
                 (r', Inr (JObj [(''task_id'', JStr task_id), (''status'', JStr ''pending'')]))))"

fun state_str :: "TaskState \<Rightarrow> string" where
  "state_str TaskPending = ''pending''"
| "state_str TaskRunning = ''running''"
| "state_str TaskCompleted = ''completed''"
| "state_str TaskCancelled = ''cancelled''"

definition handle_tasks_get ::
  "(string \<Rightarrow> string) \<Rightarrow> (json \<Rightarrow> string) \<Rightarrow> A2ARelay \<Rightarrow> json \<Rightarrow> A2ARelay \<times> json rpc" where
  "handle_tasks_get sha jtext r params =
     string_param params ''task_id'' ''tasks/get requires string task_id'' (\<lambda>task_id.
     string_param params ''pair_id'' ''tasks/get requires string pair_id'' (\<lambda>pair_id.
     authenticated sha r pair_id params
       (case get_task jtext r task_id of
          None \<Rightarrow> (r, Inl (InternalError ''task not found''))
        | Some entry \<Rightarrow>
            if vr_pair_id (te_request entry) \<noteq> pair_id
            then (r, Inl (InternalError (pair_mismatch ''tasks/get'' (vr_pair_id (te_request entry)) pair_id)))
            else (r, Inr (JObj ([(''task_id'', JStr (te_task_id entry)),
                    (''pair_id'', JStr (vr_pair_id (te_request entry))),
                    (''status'', JStr (state_str (te_state entry)))] @
                    (case te_result entry of Some res \<Rightarrow> [(''result'', result_to_json res)] | None \<Rightarrow> []))))))
       r) r"

definition handle_tasks_claim :: "(string \<Rightarrow> string) \<Rightarrow> A2ARelay \<Rightarrow> json \<Rightarrow> A2ARelay \<times> json rpc" where
  "handle_tasks_claim sha r params =
     string_param params ''pair_id'' ''tasks/claim requires string pair_id'' (\<lambda>pair_id.
     string_param params ''role'' ''tasks/claim requires string role'' (\<lambda>role.
       if \<not> eq_ignore_ascii_case role ''forge''
       then (r, Inl (InternalError ''tasks/claim is only available to the forge executor role''))
       else authenticated sha r pair_id params
         (if Option.bind (json_get params ''checkout_version'') as_u64 \<noteq> Some 3
          then (r, Inl (InternalError ''Executor upgrade required: verification checkout with workspace login environment (version 3) is mandatory''))
          else (case claim_next_task r pair_id of
                  (r', Some entry) \<Rightarrow>
                    (r', Inr (JObj [(''task_id'', JStr (te_task_id entry)),
                                    (''request'', request_to_json (te_request entry))]))
                | (r', None) \<Rightarrow> (r', Inr JNull)))) r) r"

text \<open>The pair that owns a task for the guard of \<open>tasks/complete\<close>.\<close>

definition completion_owner :: "(json \<Rightarrow> string) \<Rightarrow> A2ARelay \<Rightarrow> string \<Rightarrow> string option" where
  "completion_owner jtext r task_id =
     (case get_task jtext r task_id of
        Some entry \<Rightarrow> Some (vr_pair_id (te_request entry))
      | None \<Rightarrow> map_option vr_pair_id (get_task_request r task_id))"

definition handle_tasks_complete ::
  "(string \<Rightarrow> string) \<Rightarrow> (json \<Rightarrow> string) \<Rightarrow> A2ARelay \<Rightarrow> json \<Rightarrow> A2ARelay \<times> json rpc" where
  "handle_tasks_complete sha jtext r params =
     string_param params ''task_id'' ''tasks/complete requires string task_id'' (\<lambda>task_id.
     string_param params ''pair_id'' ''tasks/complete requires string pair_id'' (\<lambda>pair_id.
     authenticated sha r pair_id params
       (case json_get params ''result'' of
          None \<Rightarrow> (r, Inl (InternalError ''tasks/complete requires a result''))
        | Some v \<Rightarrow>
          (case de_result v of
             None \<Rightarrow> (r, Inl (InternalError ''tasks/complete requires a valid VerifyResult result''))
           | Some result \<Rightarrow>
               if vx_task_id result \<noteq> task_id
               then (r, Inl (InternalError (''tasks/complete task_id mismatch: result carries '' @
                      vx_task_id result @ '', request says '' @ task_id)))
               else if is_some_and (completion_owner jtext r task_id) (\<lambda>owner. owner \<noteq> pair_id)
               then (r, Inl (InternalError (pair_mismatch ''tasks/complete''
                      (the (completion_owner jtext r task_id)) pair_id)))
               else (case complete_task jtext r task_id result of
                       Inl e \<Rightarrow> (r, Inl (InternalError e))
                     | Inr r' \<Rightarrow>
                         (r', Inr (JObj [(''task_id'', JStr task_id), (''status'', JStr ''completed'')]))))))
       r) r"

definition cancelled_result :: "string \<Rightarrow> string \<Rightarrow> VerifyResult" where
  "cancelled_result task_id pair_id =
     \<lparr>vx_head_sha = None, vx_task_id = task_id, vx_exit_code = None, vx_timed_out = False,
      vx_duration_ms = 0, vx_stdout_ref = ''audit:a2a:'' @ task_id @ '':stdout'',
      vx_stderr_ref = ''audit:a2a:'' @ task_id @ '':stderr'', vx_artifacts = [],
      vx_executor = \<lparr>ei_role = ''forge'', ei_workspace = ''unknown-'' @ pair_id\<rparr>\<rparr>"

definition handle_tasks_cancel ::
  "(string \<Rightarrow> string) \<Rightarrow> (json \<Rightarrow> string) \<Rightarrow> A2ARelay \<Rightarrow> json \<Rightarrow> A2ARelay \<times> json rpc" where
  "handle_tasks_cancel sha jtext r params =
     string_param params ''task_id'' ''tasks/cancel requires string task_id'' (\<lambda>task_id.
     string_param params ''pair_id'' ''tasks/cancel requires string pair_id'' (\<lambda>pair_id.
     authenticated sha r pair_id params
       (let done = Inr (JObj [(''task_id'', JStr task_id), (''cancelled'', JBool True)]) in
        case get_task jtext r task_id of
          None \<Rightarrow> (r, done)
        | Some entry \<Rightarrow>
            if vr_pair_id (te_request entry) \<noteq> pair_id
            then (r, Inl (InternalError (pair_mismatch ''tasks/cancel'' (vr_pair_id (te_request entry)) pair_id)))
            else if te_state entry = TaskRunning \<or> te_state entry = TaskPending
            then ((case cancel_task r task_id (cancelled_result task_id (vr_pair_id (te_request entry))) of
                     Inl _ \<Rightarrow> r | Inr r' \<Rightarrow> r'), done)
            else (r, done)))
       r) r"

definition buffered_to_json :: "BufferedEvent \<Rightarrow> json" where
  "buffered_to_json b = JObj [(''seq'', ser_u64 (be_seq b)), (''event'', event_to_json (be_event b)),
     (''timestamp'', JNum (if 0 \<le> be_timestamp b then PosInt (of_int (be_timestamp b)) else NegInt (be_timestamp b)))]"

definition handle_tasks_resubscribe :: "A2ARelay \<Rightarrow> json \<Rightarrow> A2ARelay \<times> json rpc" where
  "handle_tasks_resubscribe r params =
     string_param params ''task_id'' ''tasks/resubscribe requires string task_id'' (\<lambda>task_id.
       let last_event_id = (case Option.bind (json_get params ''last_event_id'') as_u64 of Some n \<Rightarrow> n | None \<Rightarrow> 0);
           events = replay_events_since r task_id last_event_id in
       (r, Inr (JObj [(''task_id'', JStr task_id), (''events'', ser_vec buffered_to_json events),
          (''current_seq'', ser_u64 (current_event_seq r task_id)),
          (''event_count'', ser_u64 (of_nat (length events)))]))) r"

text \<open>A push into the buffer always returns (see the buffer's theory); the other case leaves the relay alone.\<close>

definition handle_tasks_progress ::
  "(string \<Rightarrow> string) \<Rightarrow> (json \<Rightarrow> string) \<Rightarrow> (VerifyProgressEvent \<Rightarrow> nat) \<Rightarrow> int \<Rightarrow> A2ARelay \<Rightarrow> json \<Rightarrow>
   A2ARelay \<times> json rpc" where
  "handle_tasks_progress sha jtext sz clock r params =
     string_param params ''task_id'' ''tasks/push_progress requires string task_id'' (\<lambda>task_id.
     string_param params ''pair_id'' ''tasks/push_progress requires string pair_id'' (\<lambda>pair_id.
     authenticated sha r pair_id params
       (if is_some_and (get_task jtext r task_id) (\<lambda>entry. vr_pair_id (te_request entry) \<noteq> pair_id)
        then (r, Inl (InternalError (pair_mismatch ''tasks/push_progress''
               (vr_pair_id (te_request (the (get_task jtext r task_id)))) pair_id)))
        else (case de_event params of
                None \<Rightarrow> (r, Inl (InternalError ''tasks/push_progress requires valid VerifyProgressEvent params''))
              | Some event \<Rightarrow>
                  (case push_progress_event sz clock r task_id event of
                     None \<Rightarrow> (r, Inl (InternalError ''unreachable''))
                   | Some (r', buffered) \<Rightarrow>
                       (r', Inr (JObj [(''task_id'', JStr task_id), (''seq'', ser_u64 (be_seq buffered))])))))
       ) r) r"

section \<open>Dispatch\<close>

record JsonRpcError =
  je_code :: int
  je_message :: string

record JsonRpcResponse =
  jr_result :: "json option"
  jr_error :: "JsonRpcError option"
  jr_id :: json

definition rpc_response :: "json \<Rightarrow> json rpc \<Rightarrow> JsonRpcResponse" where
  "rpc_response reqid out =
     (case out of
        Inr v \<Rightarrow> \<lparr>jr_result = Some v, jr_error = None, jr_id = reqid\<rparr>
      | Inl (InvalidVerifyRequest m) \<Rightarrow>
          \<lparr>jr_result = None, jr_error = Some \<lparr>je_code = - 32602, je_message = m\<rparr>, jr_id = reqid\<rparr>
      | Inl (InternalError m) \<Rightarrow>
          \<lparr>jr_result = None, jr_error = Some \<lparr>je_code = - 32603,
             je_message = ''Internal error; inspect NEXUS relay logs for this request''\<rparr>, jr_id = reqid\<rparr>)"

text \<open>What the environment supplies to a request: a fresh UUID, the clocks and the date.\<close>

record RpcEnv =
  re_uuid :: string
  re_now :: nat
  re_date :: string
  re_clock :: int

definition rpc_call ::
  "(string \<Rightarrow> string) \<Rightarrow> (json \<Rightarrow> string) \<Rightarrow> (VerifyProgressEvent \<Rightarrow> nat) \<Rightarrow> RpcEnv \<Rightarrow> A2ARelay \<Rightarrow> string \<Rightarrow> json \<Rightarrow>
   (A2ARelay \<times> json rpc) option" where
  "rpc_call sha jtext sz env r method params =
     (if method = ''message/send'' then Some (handle_message_send sha jtext (re_uuid env) (re_now env) (re_date env) r params)
      else if method = ''tasks/get'' then Some (handle_tasks_get sha jtext r params)
      else if method = ''tasks/claim'' then Some (handle_tasks_claim sha r params)
      else if method = ''tasks/complete'' then Some (handle_tasks_complete sha jtext r params)
      else if method = ''tasks/cancel'' then Some (handle_tasks_cancel sha jtext r params)
      else if method = ''tasks/resubscribe'' then Some (handle_tasks_resubscribe r params)
      else if method = ''tasks/push_progress'' then Some (handle_tasks_progress sha jtext sz (re_clock env) r params)
      else None)"

definition handle_rpc ::
  "(string \<Rightarrow> string) \<Rightarrow> (json \<Rightarrow> string) \<Rightarrow> (VerifyProgressEvent \<Rightarrow> nat) \<Rightarrow> RpcEnv \<Rightarrow> A2ARelay \<Rightarrow> string \<Rightarrow> json \<Rightarrow> json \<Rightarrow>
   A2ARelay \<times> JsonRpcResponse" where
  "handle_rpc sha jtext sz env r method params reqid =
     (case rpc_call sha jtext sz env r method params of
        None \<Rightarrow> (r, \<lparr>jr_result = None,
            jr_error = Some \<lparr>je_code = - 32601, je_message = ''Method not found: '' @ method\<rparr>, jr_id = reqid\<rparr>)
      | Some (r', out) \<Rightarrow> (r', rpc_response reqid out))"

end
