(* ===== verification/Server_Properties.thy ===== *)
theory Server_Properties
  imports A2A_Server Relay_Properties
begin

text \<open>
  Pair isolation at the JSON-RPC surface: without a pair's token no call touches the pair's tasks or
  their stored results, and no call reads them out through the task methods; plus the error codes a
  caller can see.
\<close>

definition untouched :: "A2ARelay \<Rightarrow> A2ARelay \<Rightarrow> string \<Rightarrow> bool" where
  "untouched r r' tid \<longleftrightarrow> task_at r' tid = task_at r tid \<and> get_task_result r' tid = get_task_result r tid"

lemma untouched_refl [simp]: "untouched r r tid"
  by (simp add: untouched_def)

text \<open>The caller holds no token that is valid for pair \<open>p\<close>.\<close>

definition stranger :: "(string \<Rightarrow> string) \<Rightarrow> A2ARelay \<Rightarrow> json \<Rightarrow> string \<Rightarrow> bool" where
  "stranger sha r params p \<longleftrightarrow>
     is_none_or (Option.bind (json_get params ''pair_token'') as_str) (\<lambda>tok. verify_pair_token sha r p tok \<noteq> Ok ())"


lemma auth_other:
  assumes "stranger sha r params p" and "bind_result (pair_token params) (verify_pair_token sha r q) = Ok u"
  shows "q \<noteq> p"
proof
  assume "q = p"
  with assms show False
    by (cases "Option.bind (json_get params ''pair_token'') as_str") (auto simp: pair_token_def stranger_def)
qed

lemma authenticated_cases:
  assumes "stranger sha r params p"
  obtains (rejected) e where "authenticated sha r q params k = (r, Inl (InternalError e))"
  | (other) "q \<noteq> p" and "authenticated sha r q params k = k"
proof (cases "bind_result (pair_token params) (verify_pair_token sha r q)")
  case (Inl e)
  then show ?thesis using rejected by (simp add: authenticated_def)
next
  case (Inr u)
  then show ?thesis using other auth_other [OF assms Inr] by (simp add: authenticated_def)
qed

lemma string_param_cases:
  obtains (missing) m where "string_param params k message f r = (r, Inl (InternalError m))"
  | (given) v where "string_param params k message f r = f v"
  by (cases "Option.bind (json_get params k) as_str") (auto simp: string_param_def)

lemma get_task_owner:
  "task_at r tid = Some t \<Longrightarrow> \<exists>e. get_task jtext r tid = Some e \<and> te_request e = te_request t"
  by (auto simp: get_task_def split: option.splits)

lemma result_elsewhere:
  "get_task_result (mirror_result r q res) tid = (if tid = vx_task_id res then Some res else get_task_result r tid)"
  by (simp add: get_task_result_def mirror_result_def Let_def store_kv.get_put)

lemma submit_untouched:
  assumes "submit_verify_request jtext uuid now date r req q = (r', out)" and "tid \<noteq> uuid"
  shows "untouched r r' tid"
proof -
  have "task_at r' tid = task_at r tid"
    using submit_changes [OF assms(1)] assms(2) by (auto simp: submitted_def changes_def)
  moreover have "get_task_result r' tid = get_task_result r tid"
    using assms(1)
    by (auto simp: submit_verify_request_def log_rejected_request_def check_or_create_task_def enroll_task_def announce_task_def mirror_request_def
        Let_def get_task_result_def store_kv.get_put split: sum.splits option.splits)
  ultimately show ?thesis by (simp add: untouched_def)
qed

lemma complete_untouched:
  assumes "complete_task jtext r i res = Ok r'" and "vx_task_id res = i" and "tid \<noteq> i"
  shows "untouched r r' tid"
proof -
  from assms(1) obtain r1 req where b: "complete_begin r i res = Ok (r1, req)"
    and r': "r' = complete_publish jtext r1 i req res"
    by (auto simp: complete_task_def bind_result_Ok)
  have r1: "r1 = mirror_result r (vr_pair_id req) res" by (rule complete_begin_Ok [OF b])
  have "task_at r' tid = task_at r tid"
    using publish_changes [of r1 jtext i req res] assms(3) by (auto simp: r' r1 changes_def mirror_result_keeps)
  moreover have "ar_store r' = ar_store r1" by (simp add: r' complete_publish_def Let_def)
  ultimately show ?thesis
    using assms(2,3) result_elsewhere [of r "vr_pair_id req" res tid] by (simp add: untouched_def get_task_result_def r1)
qed

lemma cancel_untouched:
  assumes "cancel_task r i res = Ok r'" and "vx_task_id res = i" and "tid \<noteq> i"
  shows "untouched r r' tid"
proof -
  from assms(1) obtain r1 where b: "cancel_begin r i res = Ok r1" and r': "r' = cancel_publish r1 i res"
    by (auto simp: cancel_task_def bind_result_Ok)
  from cancel_begin_Ok [OF b] obtain q where r1: "r1 = mirror_result (set_cancel_flag r i) q res" by blast
  have "task_at r' tid = task_at r tid"
    using cancel_publish_changes [of r1 i res] assms(3)
    by (auto simp: r' r1 changes_def mirror_result_keeps set_cancel_flag_def cancel_publish_def split: option.splits)
  moreover have "ar_store r' = ar_store r1" by (simp add: r' cancel_publish_def split: option.splits)
  ultimately show ?thesis
    using assms(2,3) result_elsewhere [of "set_cancel_flag r i" q res tid]
    by (simp add: untouched_def get_task_result_def r1 set_cancel_flag_def)
qed

section \<open>Handlers\<close>

lemma auth_untouched:
  assumes "stranger sha r params p" and "authenticated sha r q params k = (r', out)"
    and "q \<noteq> p \<Longrightarrow> k = (r', out) \<Longrightarrow> untouched r r' tid"
  shows "untouched r r' tid"
  using assms by (cases rule: authenticated_cases [OF assms(1), of q k]) auto

lemma param_untouched:
  assumes "string_param params k message f r = (r', out)"
    and "\<And>v. f v = (r', out) \<Longrightarrow> untouched r r' tid"
  shows "untouched r r' tid"
  using assms by (cases rule: string_param_cases [of params k message f r]) auto

lemma send_untouched:
  assumes "stranger sha r params p" and "tid \<noteq> uuid"
    and "handle_message_send sha jtext uuid now date r params = (r', out)"
  shows "untouched r r' tid"
proof -
  obtain raw where "(case de_request raw of
      None \<Rightarrow> (r, Inl (InvalidVerifyRequest ''Invalid VerifyRequest: ''))
    | Some req \<Rightarrow> authenticated sha r (vr_pair_id req) params
        (case submit_verify_request jtext uuid now date r req (vr_pair_id req) of
           (r', Inl e) \<Rightarrow> (r', Inl (InvalidVerifyRequest e))
         | (r', Inr task_id) \<Rightarrow> (r', Inr (JObj [(''task_id'', JStr task_id), (''status'', JStr ''pending'')])))) = (r', out)"
    using assms(3) unfolding handle_message_send_def Let_def by blast
  then show ?thesis
    by (auto split: option.splits prod.splits sum.splits intro: submit_untouched [OF _ assms(2)]
        elim!: auth_untouched [OF assms(1)])
qed

lemma get_untouched:
  assumes "stranger sha r params p" and "handle_tasks_get sha jtext r params = (r', out)"
  shows "untouched r r' tid"
  using assms(2) unfolding handle_tasks_get_def
  by (auto split: option.splits if_splits elim!: param_untouched auth_untouched [OF assms(1)])

lemma claim_untouched:
  assumes "stranger sha r params p" and "task_at r tid = Some t" and "vr_pair_id (te_request t) = p"
    and "distinct (map fst (ar_tasks r))" and "handle_tasks_claim sha r params = (r', out)"
  shows "untouched r r' tid"
proof -
  have claim: "untouched r s tid" if "claim_next_task r q = (s, x)" "q \<noteq> p" for q s x
    using claim_changes [OF that(1) assms(4)] that(2) assms(2,3)
    by (cases x) (auto simp: untouched_def changes_def get_task_result_def)
  from assms(5) show ?thesis unfolding handle_tasks_claim_def
    by (auto split: option.splits if_splits prod.splits intro: claim elim!: param_untouched auth_untouched [OF assms(1)])
qed

lemma complete_handler_untouched:
  assumes "stranger sha r params p" and "task_at r tid = Some t" and "vr_pair_id (te_request t) = p"
    and "handle_tasks_complete sha jtext r params = (r', out)"
  shows "untouched r r' tid"
proof -
  have own: "completion_owner jtext r tid = Some p"
    using get_task_owner [OF assms(2), of jtext] assms(3) by (auto simp: completion_owner_def)
  from assms(4) show ?thesis unfolding handle_tasks_complete_def
  proof (elim param_untouched)
    fix i q
    assume a: "authenticated sha r q params (case json_get params ''result'' of
          None \<Rightarrow> (r, Inl (InternalError ''tasks/complete requires a result''))
        | Some v \<Rightarrow>
          (case de_result v of
             None \<Rightarrow> (r, Inl (InternalError ''tasks/complete requires a valid VerifyResult result''))
           | Some result \<Rightarrow>
               if vx_task_id result \<noteq> i
               then (r, Inl (InternalError (''tasks/complete task_id mismatch: result carries '' @
                      vx_task_id result @ '', request says '' @ i)))
               else if is_some_and (completion_owner jtext r i) (\<lambda>owner. owner \<noteq> q)
               then (r, Inl (InternalError (pair_mismatch ''tasks/complete''
                      (the (completion_owner jtext r i)) q)))
               else (case complete_task jtext r i result of
                       Inl e \<Rightarrow> (r, Inl (InternalError e))
                     | Inr r' \<Rightarrow>
                         (r', Inr (JObj [(''task_id'', JStr i), (''status'', JStr ''completed'')]))))) = (r', out)"
    then show "untouched r r' tid"
    proof (rule auth_untouched [OF assms(1)], goal_cases)
      case 1
      show ?thesis
      proof (cases "i = tid")
        case True
        with 1 own show ?thesis by (auto split: option.splits if_splits)
      next
        case False
        then show ?thesis using 1 complete_untouched [of jtext r i]
          by (auto split: option.splits if_splits sum.splits)
      qed
    qed
  qed
qed

lemma cancel_handler_untouched:
  assumes "stranger sha r params p" and "task_at r tid = Some t" and "vr_pair_id (te_request t) = p"
    and "handle_tasks_cancel sha jtext r params = (r', out)"
  shows "untouched r r' tid"
proof -
  obtain e where e: "get_task jtext r tid = Some e" "vr_pair_id (te_request e) = p"
    using get_task_owner [OF assms(2), of jtext] assms(3) by auto
  have cancel: "untouched r (case cancel_task r i (cancelled_result i q) of Inl _ \<Rightarrow> r | Inr r' \<Rightarrow> r') tid"
    if "get_task jtext r i = Some x" "vr_pair_id (te_request x) \<noteq> p" for i q x
  proof -
    have "i \<noteq> tid" using e that by auto
    then show ?thesis
      using cancel_untouched [of r i "cancelled_result i q"] by (auto simp: cancelled_result_def split: sum.splits)
  qed
  from assms(4) show ?thesis unfolding handle_tasks_cancel_def Let_def
    by (auto split: option.splits if_splits intro: cancel elim!: param_untouched auth_untouched [OF assms(1)])
qed

lemma progress_untouched:
  assumes "stranger sha r params p" and "handle_tasks_progress sha jtext sz clock r params = (r', out)"
  shows "untouched r r' tid"
proof -
  have "untouched r s tid" if "push_progress_event sz clock r i e = Some (s, b)" for i e s b
    using quiet_operations(1) [OF that] by (simp add: untouched_def changes_def get_task_result_def)
  with assms(2) show ?thesis unfolding handle_tasks_progress_def
    by (auto split: option.splits if_splits elim!: param_untouched auth_untouched [OF assms(1)])
qed

lemma rpc_call_untouched:
  assumes "rpc_call sha jtext sz env r method params = Some (r', out)"
    and "stranger sha r params (vr_pair_id (te_request t))" and "task_at r tid = Some t"
    and "distinct (map fst (ar_tasks r))" and "tid \<noteq> re_uuid env"
  shows "untouched r r' tid"
proof -
  have "untouched r s tid" if "handle_tasks_resubscribe r params = (s, x)" for s x
    using that unfolding handle_tasks_resubscribe_def by (auto simp: Let_def elim!: param_untouched)
  moreover note send_untouched [OF assms(2,5)] get_untouched [OF assms(2)] claim_untouched [OF assms(2,3) refl assms(4)]
    complete_handler_untouched [OF assms(2,3) refl] cancel_handler_untouched [OF assms(2,3) refl] progress_untouched [OF assms(2)]
  ultimately show ?thesis
    using assms(1) by (auto simp: rpc_call_def split: if_splits)
qed

lemma stranger_cannot_read:
  assumes "stranger sha r params (vr_pair_id (te_request t))" and "task_at r tid = Some t"
    and "json_get params ''task_id'' = Some (JStr tid)"
  shows "\<exists>e. handle_tasks_get sha jtext r params = (r, Inl (InternalError e))"
proof -
  obtain e where e: "get_task jtext r tid = Some e" "te_request e = te_request t"
    using get_task_owner [OF assms(2), of jtext] by blast
  show ?thesis
  proof (cases "Option.bind (json_get params ''pair_id'') as_str")
    case None
    then show ?thesis using assms(3) by (simp add: handle_tasks_get_def string_param_def)
  next
    case (Some q)
    show ?thesis
    proof (cases "bind_result (pair_token params) (verify_pair_token sha r q)")
      case (Inl m)
      then show ?thesis using Some assms(3) by (simp add: handle_tasks_get_def string_param_def authenticated_def)
    next
      case (Inr u)
      with auth_other [OF assms(1) Inr] show ?thesis
        using Some assms(3) e by (simp add: handle_tasks_get_def string_param_def authenticated_def)
    qed
  qed
qed

text \<open>
  C13 (safety). Pairs are isolated: in every reachable state of the relay, no JSON-RPC call, whatever its
  method and parameters, changes a task or its stored result unless the caller presents a token that is
  valid for the task's pair; and \<open>tasks/get\<close> tells such a caller nothing about the task.
\<close>

theorem rpc_pairs_are_isolated:
  assumes "reach relay_start (relay_step jtext sz sha) c" and "task_at (rs_relay c) tid = Some t"
    and "stranger sha (rs_relay c) params (vr_pair_id (te_request t))"
    and "re_uuid env \<notin> rs_used c"
    and "handle_rpc sha jtext sz env (rs_relay c) method params reqid = (r', resp)"
  shows "task_at r' tid = Some t \<and> get_task_result r' tid = get_task_result (rs_relay c) tid \<and>
    (method = ''tasks/get'' \<and> json_get params ''task_id'' = Some (JStr tid) \<longrightarrow> jr_result resp = None)"
proof -
  have ok: "table_ok (rs_relay c) (rs_used c)" using relaysys.reach_inv [OF assms(1)] by (simp add: relay_ok_def)
  then have d: "distinct (map fst (ar_tasks (rs_relay c)))" and "tid \<in> rs_used c"
    using assms(2) unfolding table_ok_def by blast+
  with assms(4) have "tid \<noteq> re_uuid env" by blast
  then have "untouched (rs_relay c) r' tid"
    using assms(5) rpc_call_untouched [OF _ assms(3,2) d, of jtext sz env "method"]
    by (auto simp: handle_rpc_def split: option.splits prod.splits)
  moreover have "jr_result resp = None" if "method = ''tasks/get''" "json_get params ''task_id'' = Some (JStr tid)"
    using stranger_cannot_read [OF assms(3,2) that(2), of jtext] assms(5) that(1)
    by (auto simp: handle_rpc_def rpc_call_def rpc_response_def)
  ultimately show ?thesis using assms(2) by (simp add: untouched_def)
qed

definition demo_env :: RpcEnv where
  "demo_env = \<lparr>re_uuid = ''u9'', re_now = 0, re_date = [], re_clock = 0\<rparr>"

definition demo_params :: json where
  "demo_params = JObj [(''task_id'', JStr ''u1''), (''pair_id'', JStr ''T-1''), (''pair_token'', JStr ''guess'')]"

theorem rpc_pairs_are_isolated_witness:
  "\<exists>r' resp. handle_rpc (\<lambda>s. s) timeout_text (\<lambda>_. 1) demo_env (rs_relay demo_submitted) ''tasks/get'' demo_params JNull = (r', resp) \<and>
     task_at r' ''u1'' \<noteq> None \<and> jr_result resp = None"
proof -
  obtain t where t: "task_at (rs_relay demo_submitted) ''u1'' = Some t" "te_request t = sample_request 60"
    using demo_task by blast
  have "store_get new_in_memory k = None" for k
    by (simp add: store_get_def backend_get_def new_in_memory_def new_in_memory_with_tenant_def)
  then have "store_get (ar_store (rs_relay demo_submitted)) (pair_token_key ''T-1'') = None"
    by (simp add: demo_submitted_def enroll_task_def new_relay_def Let_def
        store_kv.get_put pair_token_key_def audit_request_key_def audit_task_key_def)
  then have st: "stranger (\<lambda>s. s) (rs_relay demo_submitted) demo_params (vr_pair_id (te_request t))"
    using t(2) by (simp add: stranger_def verify_pair_token_def sample_request_def store_get_typed_def ensure_def demo_params_def)
  have un: "re_uuid demo_env \<notin> rs_used demo_submitted" by (simp add: demo_submitted_def demo_env_def)
  obtain r' resp where h: "handle_rpc (\<lambda>s. s) timeout_text (\<lambda>_. 1) demo_env (rs_relay demo_submitted) ''tasks/get'' demo_params JNull = (r', resp)"
    by fastforce
  from rpc_pairs_are_isolated [OF demo_reach t(1) st un h] h show ?thesis by (simp add: demo_params_def)
qed

end
