(* ===== verification/Shell_Words.thy ===== *)
theory Shell_Words
  imports Prelude
begin

text \<open>
  The shell reader of \<open>src/crates/agent-nexus/src/hooks/guard.rs\<close>: splitting a command into words
  and operators, finding the executable behind wrappers, the files a command writes, and the
  recognition of a literal delegation command.
\<close>

abbreviation squote :: char where "squote \<equiv> CHR 0x27"
abbreviation dquote :: char where "dquote \<equiv> CHR 0x22"
abbreviation backslash :: char where "backslash \<equiv> CHR 0x5C"
abbreviation newline :: char where "newline \<equiv> CHR 0x0A"
abbreviation carriage_return :: char where "carriage_return \<equiv> CHR 0x0D"

definition basename :: "string \<Rightarrow> string" where
  "basename s = after_last (\<lambda>c. c = CHR ''/'') s"

section \<open>Words\<close>

definition is_shell_separator :: "string \<Rightarrow> bool" where
  "is_shell_separator word \<longleftrightarrow> word \<in> {''|'', '';'', ''&&'', ''||'', ''&''}"

text \<open>\<open>str::trim_matches\<close>.\<close>

definition trim_matches :: "(char \<Rightarrow> bool) \<Rightarrow> string \<Rightarrow> string" where
  "trim_matches p s = rev (dropWhile p (rev (dropWhile p s)))"

definition clean_shell_word :: "string \<Rightarrow> string" where
  "clean_shell_word word =
     trim_matches (\<lambda>c. c = dquote \<or> c = squote \<or> c = CHR ''('' \<or> c = CHR '')'') word"

definition literal_shell_word :: "string \<Rightarrow> string" where
  "literal_shell_word word =
     (let word = clean_shell_word word in
      if is_shell_separator word \<or> word = ''>'' then CHR 0x00 # word else word)"

text \<open>The operator at the head of the input: doubled when the next character repeats it.\<close>

definition shell_operator :: "char \<Rightarrow> string \<Rightarrow> string \<times> string" where
  "shell_operator c cs =
     (if (c = CHR ''&'' \<or> c = CHR ''|'') \<and> cs \<noteq> [] \<and> hd cs = c then ([c, c], tl cs)
      else if c = CHR ''>'' \<and> cs \<noteq> [] \<and> hd cs = CHR ''>'' then (''>'', tl cs)
      else ([c], cs))"

definition is_operator_char :: "char \<Rightarrow> bool" where
  "is_operator_char c \<longleftrightarrow> c = CHR '';'' \<or> c = CHR ''|'' \<or> c = CHR ''&'' \<or> c = CHR ''>''"

lemma shell_operator_shorter [simp]: "length (snd (shell_operator c cs)) \<le> length cs"
  by (simp add: shell_operator_def)

text \<open>
  The loop of \<open>shell_words\<close>. Its state: the words so far, the current word, the open quote, and
  whether an escape or a word has started.
\<close>

function shell_words_loop ::
  "string \<Rightarrow> string list \<Rightarrow> string \<Rightarrow> char option \<Rightarrow> bool \<Rightarrow> bool \<Rightarrow> string list" where
  "shell_words_loop [] words word quote escaped started =
     (if started then words @ [literal_shell_word word] else words)"
| "shell_words_loop (c # cs) words word quote escaped started =
     (if escaped then shell_words_loop cs words (word @ [c]) quote False started
      else if c = backslash \<and> quote \<noteq> Some squote then shell_words_loop cs words word quote True True
      else (case quote of
        Some q \<Rightarrow>
          if c = q then shell_words_loop cs words word None False started
          else shell_words_loop cs words (word @ [c]) quote False started
      | None \<Rightarrow>
          if c = squote \<or> c = dquote then shell_words_loop cs words word (Some c) False True
          else if c = CHR ''&'' \<and> \<not> started \<and> words \<noteq> [] \<and> last words = ''>''
          then shell_words_loop cs words (word @ [c]) None False True
          else if is_whitespace c \<or> is_operator_char c then
            (let words' = (if started then words @ [literal_shell_word word] else words);
                 word' = (if started then [] else word) in
             if \<not> is_whitespace c
             then shell_words_loop (snd (shell_operator c cs)) (words' @ [fst (shell_operator c cs)]) word' None False False
             else if c = newline then shell_words_loop cs (words' @ ['';'']) word' None False False
             else shell_words_loop cs words' word' None False False)
          else shell_words_loop cs words (word @ [c]) None False True))"
  by pat_completeness auto
termination
  by (relation "measure (\<lambda>(cs, _). length cs)") (auto simp: le_imp_less_Suc)

definition shell_words :: "string \<Rightarrow> string list" where
  "shell_words command = shell_words_loop command [] [] None False False"

fun has_substitution_loop :: "string \<Rightarrow> char option \<Rightarrow> bool \<Rightarrow> bool" where
  "has_substitution_loop [] quote escaped = False"
| "has_substitution_loop (c # cs) quote escaped =
     (if escaped then has_substitution_loop cs quote False
      else if c = backslash \<and> quote \<noteq> Some squote then has_substitution_loop cs quote True
      else if c = squote \<or> c = dquote then
        (if quote = None then has_substitution_loop cs (Some c) False
         else if quote = Some c then has_substitution_loop cs None False
         else has_substitution_loop cs quote False)
      else if quote \<noteq> Some squote \<and> (c = CHR 0x60 \<or> (c = CHR ''$'' \<and> cs \<noteq> [] \<and> hd cs = CHR ''(''))
      then True
      else has_substitution_loop cs quote False)"

definition has_shell_command_substitution :: "string \<Rightarrow> bool" where
  "has_shell_command_substitution command = has_substitution_loop command None False"

section \<open>The executable behind wrappers\<close>

definition FORWARDING_WRAPPERS :: "string list" where
  "FORWARDING_WRAPPERS = [''nohup'', ''nice'', ''sudo'', ''env'', ''setsid'', ''time'', ''command'']"

definition WRAPPER_OPT_WITH_ARG :: "string list" where
  "WRAPPER_OPT_WITH_ARG = [''-u'', ''--user'', ''-g'', ''--group'', ''-C'', ''--chroot'', ''-p'', ''--prompt'',
     ''-D'', ''--chdir'', ''-n'', ''--adjustment'', ''-S'', ''--set-home'', ''-o'', ''--output'']"

definition is_option_token :: "string \<Rightarrow> bool" where
  "is_option_token word \<longleftrightarrow> 1 < length word \<and> starts_with word ''-''"

definition is_env_assignment :: "string \<Rightarrow> bool" where
  "is_env_assignment word =
     (let name = takeWhile (\<lambda>c. c \<noteq> CHR ''='') word in
      if length name = length word then False
      else 0 < length name \<and> \<not> list_ex (\<lambda>c. c = CHR ''-'' \<or> c = CHR ''/'') name)"

text \<open>The index search over a segment; \<open>i\<close> is the index of the first word of the rest.\<close>

fun executable_search :: "string list \<Rightarrow> nat \<Rightarrow> nat option" where
  "executable_search [] i = None"
| "executable_search [w] i =
     (if w \<in> set FORWARDING_WRAPPERS \<or> w \<in> set WRAPPER_OPT_WITH_ARG \<or> is_option_token w \<or> is_env_assignment w
      then None else Some i)"
| "executable_search (w # v # ws) i =
     (if w \<in> set FORWARDING_WRAPPERS then executable_search (v # ws) (i + 1)
      else if w \<in> set WRAPPER_OPT_WITH_ARG then executable_search ws (i + 2)
      else if is_option_token w \<or> is_env_assignment w then executable_search (v # ws) (i + 1)
      else Some i)"

definition resolve_executable_index :: "string list \<Rightarrow> nat" where
  "resolve_executable_index segment =
     (case executable_search segment 0 of Some i \<Rightarrow> i | None \<Rightarrow> length segment - 1)"

definition executable :: "string list \<Rightarrow> string" where
  "executable segment = basename (segment ! resolve_executable_index segment)"

definition operands :: "string list \<Rightarrow> string list" where
  "operands segment = drop (resolve_executable_index segment + 1) segment"

section \<open>What a command writes\<close>

definition git_write_commands :: "string list" where
  "git_write_commands = [''checkout'', ''restore'', ''reset'', ''stash'', ''rm'', ''mv'', ''apply'', ''am'',
     ''merge'', ''rebase'', ''cherry-pick'', ''clean'', ''pull'']"

definition segment_is_write_capable :: "string list \<Rightarrow> bool" where
  "segment_is_write_capable segment =
     (let cmd = executable segment; rest = operands segment in
      if cmd \<in> {''python'', ''python3'', ''node'', ''apply_patch'', ''xargs'', ''eval''} then True
      else if cmd = ''cargo''
      then is_some_and (List.find (\<lambda>w. \<not> starts_with w ''+'') rest) (\<lambda>w. w = ''fmt'')
      else if cmd = ''sed'' \<or> cmd = ''perl'' then list_ex (\<lambda>w. w = ''-i'' \<or> starts_with w ''-i'') rest
      else if cmd = ''find'' then list_ex (\<lambda>w. w = ''-exec'' \<or> w = ''-execdir'') rest
      else if cmd = ''dd'' then True
      else if cmd = ''curl'' \<or> cmd = ''wget''
      then list_ex (\<lambda>w. w = ''-o'' \<or> w = ''-O'' \<or> starts_with w ''--output'') rest
      else if cmd = ''git''
      then (case List.find (\<lambda>w. \<not> starts_with w ''-'' \<and> \<not> is_shell_separator w) rest of
              Some sub \<Rightarrow> sub \<in> set git_write_commands
            | None \<Rightarrow> False)
      else if cmd \<in> {''sh'', ''bash'', ''zsh'', ''ksh'', ''dash''} then list_ex (\<lambda>w. w = ''-c'') rest
      else False)"

definition segments :: "string list \<Rightarrow> string list list" where
  "segments words = filter (\<lambda>s. s \<noteq> []) (split_on is_shell_separator words)"

definition is_write_capable_command :: "string \<Rightarrow> bool" where
  "is_write_capable_command command = list_ex segment_is_write_capable (segments (shell_words command))"

text \<open>The operand of a redirection operator written without a space, if any.\<close>

definition attached_target :: "string \<Rightarrow> string option" where
  "attached_target w =
     (case (case strip_prefix ''>>'' w of Some t \<Rightarrow> Some t | None \<Rightarrow> strip_prefix ''>'' w) of
        Some t \<Rightarrow> Some t
      | None \<Rightarrow> (case strip_prefix ''1>'' w of Some t \<Rightarrow> Some t | None \<Rightarrow> strip_prefix ''2>'' w))"

fun raw_redirections :: "string list \<Rightarrow> string list" where
  "raw_redirections [] = []"
| "raw_redirections (w # ws) =
     (if w \<in> {''>'', ''>>'', ''1>'', ''1>>'', ''2>'', ''2>>''}
      then (case ws of [] \<Rightarrow> [] | target # _ \<Rightarrow> [clean_shell_word target])
      else (case attached_target w of
              Some target \<Rightarrow> if target \<noteq> [] then [clean_shell_word target] else []
            | None \<Rightarrow> []))
     @ raw_redirections ws"

definition discards_output :: "string \<Rightarrow> bool" where
  "discards_output target \<longleftrightarrow>
     target = ''/dev/null'' \<or>
     is_some_and (strip_prefix ''&'' target)
       (\<lambda>fd. fd = ''-'' \<or> (fd \<noteq> [] \<and> list_all is_ascii_digit fd))"

definition redirection_targets :: "string list \<Rightarrow> string list" where
  "redirection_targets words = filter (\<lambda>t. \<not> discards_output t) (raw_redirections words)"

definition tee_targets :: "string list \<Rightarrow> string list" where
  "tee_targets words =
     concat (map (\<lambda>segment.
       if executable segment \<noteq> ''tee'' then []
       else map clean_shell_word (filter (\<lambda>a. \<not> starts_with a ''-'') (operands segment)))
       (segments words))"

definition command_operand_targets :: "string list \<Rightarrow> string list" where
  "command_operand_targets words =
     concat (map (\<lambda>segment.
       let cmd = executable segment; args = operands segment in
       if cmd \<in> {''cp'', ''mv'', ''install''}
       then (case List.find (\<lambda>a. \<not> starts_with a ''-'') (rev args) of
               Some target \<Rightarrow> [clean_shell_word target] | None \<Rightarrow> [])
       else if cmd \<in> {''touch'', ''mkdir'', ''rm'', ''truncate''}
       then map clean_shell_word (filter (\<lambda>a. \<not> starts_with a ''-'') args)
       else []) (segments words))"

text \<open>\<open>None\<close>: the command may write files that cannot be named.\<close>

definition shell_write_targets :: "string \<Rightarrow> string list option" where
  "shell_write_targets command =
     (if has_shell_command_substitution command then None
      else (let words = shell_words command in
        if words = [] then Some []
        else if is_write_capable_command command then None
        else Some (redirection_targets words @ tee_targets words @ command_operand_targets words)))"

definition shell_command_writes :: "string \<Rightarrow> bool" where
  "shell_command_writes command =
     (case shell_write_targets command of Some targets \<Rightarrow> targets \<noteq> [] | None \<Rightarrow> True)"

definition is_allowed_lifecycle_artifact :: "string \<Rightarrow> bool" where
  "is_allowed_lifecycle_artifact path =
     (let file = after_last (\<lambda>c. c = CHR ''/'' \<or> c = backslash) (to_lowercase path) in
      file \<in> {''status.json'', ''blocker'', ''blocker.md'', ''blockers.md'', ''handoff.md'', ''final-review.md'',
               ''review.md'', ''review-report.md''} \<or>
      ends_with file ''-eval.md'')"

definition shell_writes_source :: "string \<Rightarrow> bool" where
  "shell_writes_source command =
     (case shell_write_targets command of
        Some targets \<Rightarrow> list_ex (\<lambda>t. \<not> is_allowed_lifecycle_artifact t) targets
      | None \<Rightarrow> shell_command_writes command)"

section \<open>Delegated verification\<close>

fun literal_argv_loop :: "string \<Rightarrow> char option \<Rightarrow> bool \<Rightarrow> bool" where
  "literal_argv_loop [] quote escaped = (quote = None \<and> \<not> escaped)"
| "literal_argv_loop (c # cs) quote escaped =
     (if escaped then literal_argv_loop cs quote False
      else if quote \<noteq> Some squote \<and> c = backslash then literal_argv_loop cs quote True
      else if quote = Some squote then literal_argv_loop cs (if c = squote then None else quote) False
      else if c = CHR ''$'' \<or> c = CHR 0x60 then False
      else (case quote of
              Some q \<Rightarrow> literal_argv_loop cs (if c = q then None else quote) False
            | None \<Rightarrow>
                if c = squote \<or> c = dquote then literal_argv_loop cs (Some c) False
                else if c = CHR '';'' \<or> c = CHR ''&'' \<or> c = CHR ''|'' \<or> c = CHR ''<'' \<or> c = CHR ''>'' \<or>
                        c = newline \<or> c = carriage_return
                then False
                else literal_argv_loop cs None False))"

definition is_verification_request :: "string \<Rightarrow> bool" where
  "is_verification_request command =
     (case split_whitespace command of
        w0 # w1 # w2 # _ \<Rightarrow>
          if basename w0 \<noteq> ''openflows-harness'' \<or> w1 \<noteq> ''verify'' \<or> w2 \<noteq> ''request'' then False
          else literal_argv_loop command None False
      | _ \<Rightarrow> False)"

end
