(* ===== verification/Shell_Properties.thy ===== *)
theory Shell_Properties
  imports Shell_Words
begin

text \<open>
  Correctness of the shell reader: indices it uses are in range, a write cannot hide behind a
  command separator, quoted text is never read as shell syntax, and a command accepted as a
  literal delegation has no shell syntax at all; and the wrapper options that defeat it.
\<close>

section \<open>Indices\<close>

lemma executable_search_bounds:
  "executable_search ws i = Some j \<Longrightarrow> i \<le> j \<and> j < i + length ws"
  by (induction ws i rule: executable_search.induct) (auto split: if_splits)

lemma resolve_in_range: "segment \<noteq> [] \<Longrightarrow> resolve_executable_index segment < length segment"
  using executable_search_bounds [of segment 0]
  by (auto simp: resolve_executable_index_def split: option.splits)

section \<open>Words of a sequence of commands\<close>

lemma shell_operator_append:
  "shell_operator c (cs @ CHR '';'' # b) =
     (fst (shell_operator c cs), snd (shell_operator c cs) @ CHR '';'' # b)"
  if "c \<noteq> CHR '';''"
  using that by (cases cs) (auto simp: shell_operator_def)

lemma operator_semicolon [simp]: "shell_operator (CHR '';'') cs = ('';'', cs)"
  by (simp add: shell_operator_def)

declare shell_words_loop.simps(2) [simp del]

text \<open>The branches of the reader, one rule each.\<close>

lemma loop_escaped:
  "shell_words_loop (c # cs) ws w q True st = shell_words_loop cs ws (w @ [c]) q False st"
  by (simp add: shell_words_loop.simps)

lemma loop_backslash:
  "q \<noteq> Some squote \<Longrightarrow> shell_words_loop (backslash # cs) ws w q False st = shell_words_loop cs ws w q True True"
  by (simp add: shell_words_loop.simps)

lemma loop_quoted:
  "c \<noteq> backslash \<or> q = squote \<Longrightarrow> shell_words_loop (c # cs) ws w (Some q) False st =
     shell_words_loop cs ws (if c = q then w else w @ [c]) (if c = q then None else Some q) False st"
  by (auto simp: shell_words_loop.simps)

lemma loop_open:
  "c = squote \<or> c = dquote \<Longrightarrow> shell_words_loop (c # cs) ws w None False st = shell_words_loop cs ws w (Some c) False True"
  by (auto simp: shell_words_loop.simps)

lemma loop_duplicate:
  "ws \<noteq> [] \<Longrightarrow> last ws = ''>'' \<Longrightarrow>
   shell_words_loop (CHR ''&'' # cs) ws w None False False = shell_words_loop cs ws (w @ ''&'') None False True"
  by (simp add: shell_words_loop.simps)

definition flush :: "string list \<Rightarrow> string \<Rightarrow> bool \<Rightarrow> string list" where
  "flush ws w st = (if st then ws @ [literal_shell_word w] else ws)"

lemma operator_char_plain:
  "is_operator_char c \<Longrightarrow> \<not> is_whitespace c \<and> c \<noteq> backslash \<and> c \<noteq> squote \<and> c \<noteq> dquote"
  by (auto simp: is_operator_char_def is_whitespace_def)

lemma whitespace_plain:
  "is_whitespace c \<Longrightarrow> \<not> is_operator_char c \<and> c \<noteq> backslash \<and> c \<noteq> squote \<and> c \<noteq> dquote \<and> c \<noteq> CHR ''&''"
  by (auto simp: is_operator_char_def is_whitespace_def)

lemma loop_operator:
  "is_operator_char c \<Longrightarrow> \<not> (c = CHR ''&'' \<and> \<not> st \<and> ws \<noteq> [] \<and> last ws = ''>'') \<Longrightarrow>
   shell_words_loop (c # cs) ws w None False st =
     shell_words_loop (snd (shell_operator c cs)) (flush ws w st @ [fst (shell_operator c cs)]) (if st then [] else w) None False False"
  using operator_char_plain [of c]
  by (simp add: shell_words_loop.simps Let_def flush_def split del: if_split cong: if_cong)
    (auto split: if_split)

lemma loop_space:
  "is_whitespace c \<Longrightarrow> shell_words_loop (c # cs) ws w None False st =
     shell_words_loop cs (flush ws w st @ (if c = newline then ['';''] else [])) (if st then [] else w) None False False"
  using whitespace_plain [of c] by (simp add: shell_words_loop.simps Let_def flush_def)

lemma loop_char:
  "c \<noteq> backslash \<Longrightarrow> c \<noteq> squote \<Longrightarrow> c \<noteq> dquote \<Longrightarrow> \<not> is_operator_char c \<Longrightarrow> \<not> is_whitespace c \<Longrightarrow>
   shell_words_loop (c # cs) ws w None False st = shell_words_loop cs ws (w @ [c]) None False True"
  by (simp add: shell_words_loop.simps is_operator_char_def)

lemmas loop_rules = loop_escaped loop_backslash loop_quoted loop_open loop_duplicate loop_operator
  loop_space loop_char

lemma char_cases [case_names esc bsl quo opn oper space plain]:
  assumes "e \<Longrightarrow> P" and "\<not> e \<Longrightarrow> c = backslash \<Longrightarrow> q \<noteq> Some squote \<Longrightarrow> P"
    and "\<And>k. \<not> e \<Longrightarrow> q = Some k \<Longrightarrow> c \<noteq> backslash \<or> k = squote \<Longrightarrow> P"
    and "\<not> e \<Longrightarrow> q = None \<Longrightarrow> c = squote \<or> c = dquote \<Longrightarrow> P"
    and "\<not> e \<Longrightarrow> q = None \<Longrightarrow> is_operator_char c \<Longrightarrow> P"
    and "\<not> e \<Longrightarrow> q = None \<Longrightarrow> is_whitespace c \<Longrightarrow> P"
    and "\<not> e \<Longrightarrow> q = None \<Longrightarrow> c \<noteq> backslash \<Longrightarrow> c \<noteq> squote \<Longrightarrow> c \<noteq> dquote \<Longrightarrow>
      \<not> is_operator_char c \<Longrightarrow> \<not> is_whitespace c \<Longrightarrow> P"
  shows P
  using assms by (cases q) blast+

lemma words_prefix:
  assumes "ws \<noteq> [] \<or> p = [] \<or> last p \<noteq> ''>''"
  shows "shell_words_loop cs (p @ ws) word q e st = p @ shell_words_loop cs ws word q e st"
  using assms
proof (induction "length cs" arbitrary: cs ws word q e st rule: less_induct)
  case less
  show ?case
  proof (cases cs)
    case Nil
    then show ?thesis by simp
  next
    case (Cons c cs')
    have IH: "shell_words_loop cs2 (p @ ws2) word2 q2 e2 st2 = p @ shell_words_loop cs2 ws2 word2 q2 e2 st2"
      if "length cs2 \<le> length cs'" "ws2 \<noteq> [] \<or> p = [] \<or> last p \<noteq> ''>''" for cs2 ws2 word2 q2 e2 st2
      using less.hyps [of cs2 ws2] that Cons by simp
    have fl: "flush (p @ ws) word st = p @ flush ws word st" by (simp add: flush_def)
    have lst: "(p @ ws \<noteq> [] \<and> last (p @ ws) = ''>'') = (ws \<noteq> [] \<and> last ws = ''>'')"
      using less.prems by (cases "ws = []") auto
    show ?thesis
    proof (cases rule: char_cases [where e = e and c = c and q = q])
      case oper
      show ?thesis
      proof (cases "c = CHR ''&'' \<and> \<not> st \<and> ws \<noteq> [] \<and> last ws = ''>''")
        case True
        with oper Cons lst less.prems show ?thesis by (simp add: loop_duplicate IH)
      next
        case False
        with oper Cons lst less.prems show ?thesis
          by (simp add: loop_operator fl IH)
      qed
    next
      case space
      have "flush ws word st @ (if c = newline then ['';''] else []) \<noteq> [] \<or> p = [] \<or> last p \<noteq> ''>''"
        using less.prems by (auto simp: flush_def)
      with space Cons show ?thesis by (simp add: loop_space fl IH)
    qed (use Cons less.prems in \<open>auto simp: loop_rules IH\<close>)
  qed
qed

text \<open>The quoting state after reading a text.\<close>

fun quote_state :: "string \<Rightarrow> char option \<Rightarrow> bool \<Rightarrow> char option \<times> bool" where
  "quote_state [] quote escaped = (quote, escaped)"
| "quote_state (c # cs) quote escaped =
     (if escaped then quote_state cs quote False
      else if c = backslash \<and> quote \<noteq> Some squote then quote_state cs quote True
      else (case quote of
              Some q \<Rightarrow> quote_state cs (if c = q then None else Some q) False
            | None \<Rightarrow> quote_state cs (if c = squote \<or> c = dquote then Some c else None) False))"

definition closed :: "string \<Rightarrow> bool" where
  "closed s \<longleftrightarrow> quote_state s None False = (None, False)"

lemma quote_state_operator:
  assumes "is_operator_char c" shows "quote_state (snd (shell_operator c cs)) None False = quote_state cs None False"
  using assms by (cases cs) (auto simp: shell_operator_def is_operator_char_def)

lemma words_after_semicolon:
  "shell_words_loop b (ws @ ['';'']) [] None False False = ws @ '';'' # shell_words b"
  using words_prefix [of "[]" "ws @ ['';'']" b "[]" None False False] by (simp add: shell_words_def)

lemma words_sequence:
  assumes "quote_state a q e = (None, False)" and "st \<or> word = []" and "e \<longrightarrow> st" and "q \<noteq> None \<longrightarrow> st"
  shows "shell_words_loop (a @ CHR '';'' # b) words word q e st =
    shell_words_loop a words word q e st @ '';'' # shell_words b"
  using assms
proof (induction "length a" arbitrary: a words word q e st rule: less_induct)
  case less
  show ?case
  proof (cases a)
    case Nil
    with less.prems show ?thesis
      using words_after_semicolon [of b "flush words word st"]
      by (auto simp: loop_operator is_operator_char_def flush_def)
  next
    case (Cons c cs)
    note IH = less.hyps [of cs, simplified Cons, simplified]
    show ?thesis
    proof (cases rule: char_cases [where e = e and c = c and q = q])
      case oper
      have oq: "quote_state (snd (shell_operator c cs)) None False = (None, False)"
        using less.prems(1) oper Cons by (auto simp: quote_state_operator is_operator_char_def)
      have app: "shell_operator c (cs @ CHR '';'' # b) =
          (fst (shell_operator c cs), snd (shell_operator c cs) @ CHR '';'' # b)"
        by (cases "c = CHR '';''") (simp_all add: shell_operator_append)
      show ?thesis
      proof (cases "c = CHR ''&'' \<and> \<not> st \<and> words \<noteq> [] \<and> last words = ''>''")
        case True
        with oper Cons less.prems show ?thesis by (simp add: loop_duplicate IH)
      next
        case False
        have "length (snd (shell_operator c cs)) < length a" using Cons by (simp add: le_imp_less_Suc)
        from less.hyps [OF this oq] False oper Cons less.prems app show ?thesis
          by (auto simp: loop_operator)
      qed
    next
      case space
      then have "quote_state cs None False = (None, False)" using less.prems(1) Cons
        by (auto simp: is_whitespace_def)
      with space Cons less.prems(2) show ?thesis by (cases st) (simp_all add: loop_space IH)
    qed (use Cons less.prems in \<open>auto simp: loop_rules IH split: if_splits\<close>)
  qed
qed

lemma shell_words_sequence:
  "closed a \<Longrightarrow> shell_words (a @ '';'' @ b) = shell_words a @ '';'' # shell_words b"
  using words_sequence [of a None False False "[]" b "[]"] by (simp add: closed_def shell_words_def)

section \<open>Writes cannot hide behind a separator\<close>

lemma split_on_sequence: "p x \<Longrightarrow> split_on p (xs @ x # ys) = split_on p xs @ split_on p ys"
proof (induction xs)
  case (Cons y xs)
  then show ?case by (cases "split_on p xs") auto
qed simp

lemma segments_sequence: "segments (xs @ '';'' # ys) = segments xs @ segments ys"
  by (simp add: segments_def split_on_sequence is_shell_separator_def)

definition redirection_at :: "string \<Rightarrow> string list \<Rightarrow> string list" where
  "redirection_at w ws =
     (if w \<in> {''>'', ''>>'', ''1>'', ''1>>'', ''2>'', ''2>>''}
      then (case ws of [] \<Rightarrow> [] | target # _ \<Rightarrow> [clean_shell_word target])
      else (case attached_target w of
              Some target \<Rightarrow> if target \<noteq> [] then [clean_shell_word target] else []
            | None \<Rightarrow> []))"

lemma raw_redirections_Cons: "raw_redirections (w # ws) = redirection_at w ws @ raw_redirections ws"
  by (simp add: redirection_at_def)

declare raw_redirections.simps(2) [simp del]

lemma redirection_at_append: "set (redirection_at w xs) \<subseteq> set (redirection_at w (xs @ ys))"
  by (cases xs) (simp_all add: redirection_at_def)

lemma redirections_sequence:
  "set (raw_redirections xs) \<subseteq> set (raw_redirections (xs @ ys))"
  "set (raw_redirections ys) \<subseteq> set (raw_redirections (xs @ ys))"
proof (induction xs)
  case (Cons x xs)
  { case 1 show ?case using Cons(1) redirection_at_append [of x xs ys] by (auto simp: raw_redirections_Cons) }
  { case 2 show ?case using Cons(2) by (auto simp: raw_redirections_Cons) }
qed simp_all

declare has_substitution_loop.simps(2) [simp del] literal_argv_loop.simps(2) [simp del]

definition substitutes :: "char \<Rightarrow> string \<Rightarrow> bool" where
  "substitutes c cs \<longleftrightarrow> c = CHR 0x60 \<or> (c = CHR ''$'' \<and> cs \<noteq> [] \<and> hd cs = CHR ''('')"

lemma substitutes_append: "substitutes c cs \<Longrightarrow> substitutes c (cs @ b)"
  by (auto simp: substitutes_def)

lemma substitution_rules:
  "has_substitution_loop (c # cs) q True = has_substitution_loop cs q False"
  "q \<noteq> Some squote \<Longrightarrow> has_substitution_loop (backslash # cs) q False = has_substitution_loop cs q True"
  "c = squote \<or> c = dquote \<Longrightarrow> has_substitution_loop (c # cs) None False = has_substitution_loop cs (Some c) False"
  "k = squote \<or> k = dquote \<Longrightarrow> c \<noteq> backslash \<or> k = squote \<Longrightarrow>
     has_substitution_loop (c # cs) (Some k) False =
     (if c = k then has_substitution_loop cs None False
      else k \<noteq> squote \<and> substitutes c cs \<or> has_substitution_loop cs (Some k) False)"
  "c \<noteq> backslash \<Longrightarrow> c \<noteq> squote \<Longrightarrow> c \<noteq> dquote \<Longrightarrow>
     has_substitution_loop (c # cs) None False = (substitutes c cs \<or> has_substitution_loop cs None False)"
  by (auto simp: has_substitution_loop.simps substitutes_def)

lemma literal_rules:
  "literal_argv_loop (c # cs) q True = literal_argv_loop cs q False"
  "q \<noteq> Some squote \<Longrightarrow> literal_argv_loop (backslash # cs) q False = literal_argv_loop cs q True"
  "c = squote \<or> c = dquote \<Longrightarrow> literal_argv_loop (c # cs) None False = literal_argv_loop cs (Some c) False"
  "k = squote \<or> k = dquote \<Longrightarrow> c \<noteq> backslash \<or> k = squote \<Longrightarrow>
     literal_argv_loop (c # cs) (Some k) False =
     ((k = squote \<or> c \<noteq> CHR ''$'' \<and> c \<noteq> CHR 0x60) \<and> literal_argv_loop cs (if c = k then None else Some k) False)"
  "c \<noteq> backslash \<Longrightarrow> c \<noteq> squote \<Longrightarrow> c \<noteq> dquote \<Longrightarrow> literal_argv_loop (c # cs) None False \<Longrightarrow>
     \<not> is_operator_char c \<and> c \<noteq> newline \<and> c \<noteq> CHR ''$'' \<and> c \<noteq> CHR 0x60 \<and> literal_argv_loop cs None False"
  by (auto simp: literal_argv_loop.simps is_operator_char_def split: if_splits)

text \<open>The quoting states that occur.\<close>

abbreviation quoting :: "char option \<Rightarrow> bool" where
  "quoting q \<equiv> q = None \<or> q = Some squote \<or> q = Some dquote"

lemma quote_cases [consumes 1, case_names esc bsl quo opn plain]:
  assumes "quoting q" and "e \<Longrightarrow> P" and "\<not> e \<Longrightarrow> c = backslash \<Longrightarrow> q \<noteq> Some squote \<Longrightarrow> P"
    and "\<And>k. \<not> e \<Longrightarrow> q = Some k \<Longrightarrow> k = squote \<or> k = dquote \<Longrightarrow> c \<noteq> backslash \<or> k = squote \<Longrightarrow> P"
    and "\<not> e \<Longrightarrow> q = None \<Longrightarrow> c = squote \<or> c = dquote \<Longrightarrow> P"
    and "\<not> e \<Longrightarrow> q = None \<Longrightarrow> c \<noteq> backslash \<Longrightarrow> c \<noteq> squote \<Longrightarrow> c \<noteq> dquote \<Longrightarrow> P"
  shows P
  using assms by blast

lemma substitution_append:
  "has_substitution_loop a q e \<Longrightarrow> quoting q \<Longrightarrow> has_substitution_loop (a @ b) q e"
proof (induction a arbitrary: q e)
  case (Cons c cs)
  from Cons.prems(2) show ?case
  proof (cases rule: quote_cases [where e = e and c = c])
    case (quo k)
    with Cons show ?thesis by (auto simp: substitution_rules intro: substitutes_append split: if_splits)
  next
    case opn
    with Cons show ?thesis by (auto simp: substitution_rules)
  next
    case plain
    with Cons show ?thesis by (auto simp: substitution_rules intro: substitutes_append)
  qed (use Cons in \<open>simp_all add: substitution_rules\<close>)
qed simp

lemma substitution_after:
  assumes "quote_state a q e = (None, False)" and "quoting q" and "has_substitution_loop b None False"
  shows "has_substitution_loop (a @ b) q e"
  using assms(1,2)
proof (induction a arbitrary: q e)
  case (Cons c cs)
  from Cons.prems(2) show ?case
  proof (cases rule: quote_cases [where e = e and c = c])
    case (quo k)
    with Cons show ?thesis by (auto simp: substitution_rules split: if_splits)
  qed (use Cons in \<open>auto simp: substitution_rules\<close>)
qed (use assms(3) in simp)

abbreviation write_targets :: "string list \<Rightarrow> string list" where
  "write_targets ws \<equiv> redirection_targets ws @ tee_targets ws @ command_operand_targets ws"

lemma write_targets_Nil: "write_targets [] = []"
  by (simp add: redirection_targets_def tee_targets_def command_operand_targets_def segments_def)

lemma writes_source_iff:
  "shell_writes_source c \<longleftrightarrow> has_shell_command_substitution c \<or> is_write_capable_command c \<or>
     (\<exists>t \<in> set (write_targets (shell_words c)). \<not> is_allowed_lifecycle_artifact t)"
proof -
  have "shell_write_targets c = (if has_shell_command_substitution c \<or> is_write_capable_command c then None
      else Some (write_targets (shell_words c)))"
    using write_targets_Nil
    by (auto simp: shell_write_targets_def Let_def is_write_capable_command_def segments_def)
  then show ?thesis
    by (simp add: shell_writes_source_def shell_command_writes_def list_ex_iff)
qed

lemma targets_sequence:
  "set (redirection_targets xs) \<union> set (redirection_targets ys) \<subseteq> set (redirection_targets (xs @ '';'' # ys))"
  "tee_targets (xs @ '';'' # ys) = tee_targets xs @ tee_targets ys"
  "command_operand_targets (xs @ '';'' # ys) = command_operand_targets xs @ command_operand_targets ys"
  using redirections_sequence(1) [of xs "'';'' # ys"] redirections_sequence(2) [of ys "xs @ ['';'']"]
  by (auto simp: redirection_targets_def tee_targets_def command_operand_targets_def segments_sequence)

lemma substitution_sequence:
  "has_shell_command_substitution a \<or> closed a \<and> has_shell_command_substitution b \<Longrightarrow>
   has_shell_command_substitution (a @ '';'' @ b)"
  using substitution_append [of a None False "'';'' @ b"] substitution_after [of a None False "'';'' @ b"]
  by (auto simp: has_shell_command_substitution_def closed_def substitution_rules)

text \<open>
  C34 (safety). A write cannot hide behind a separator: for any command line whose quotes and escapes
  are closed and any second command line, if either of the two is recognised as writing source,
  so is their sequence.
\<close>

theorem write_cannot_hide_in_sequence:
  assumes "closed a" and "shell_writes_source a \<or> shell_writes_source b"
  shows "shell_writes_source (a @ '';'' @ b)"
proof -
  note words = shell_words_sequence [OF assms(1), of b]
  have cap: "is_write_capable_command (a @ '';'' @ b) = (is_write_capable_command a \<or> is_write_capable_command b)"
    unfolding is_write_capable_command_def words segments_sequence by simp
  show ?thesis
    using assms(2) substitution_sequence [of a b] assms(1) targets_sequence(1) [of "shell_words a" "shell_words b"]
    unfolding writes_source_iff cap words targets_sequence(2,3) by auto
qed

theorem write_cannot_hide_in_sequence_witness:
  "shell_writes_source (''git status'' @ '';'' @ '' touch src/lib.rs'')"
proof -
  have "closed ''git status''" and "shell_writes_source '' touch src/lib.rs''" by code_simp+
  then show ?thesis using write_cannot_hide_in_sequence by blast
qed

section \<open>Delegated verification\<close>

lemma literal_word_plain: "\<not> is_shell_separator (literal_shell_word w) \<and> literal_shell_word w \<noteq> ''>''"
  by (auto simp: literal_shell_word_def Let_def is_shell_separator_def)

lemma literal_no_substitution:
  "literal_argv_loop cs q e \<Longrightarrow> quoting q \<Longrightarrow> \<not> has_substitution_loop cs q e \<and> quote_state cs q e = (None, False)"
proof (induction cs arbitrary: q e)
  case (Cons c cs)
  from Cons.prems(2) show ?case
  proof (cases rule: quote_cases [where e = e and c = c])
    case (quo k)
    with Cons show ?thesis by (auto simp: substitution_rules literal_rules substitutes_def)
  next
    case plain
    with Cons.prems(1) literal_rules(5) [of c cs]
    have "literal_argv_loop cs None False" "c \<noteq> CHR ''$''" "c \<noteq> CHR 0x60" by simp_all
    with Cons.IH [of None False] plain show ?thesis by (simp add: substitution_rules substitutes_def)
  qed (use Cons in \<open>auto simp: substitution_rules literal_rules\<close>)
qed simp

lemma literal_words:
  assumes "literal_argv_loop cs q e" and "quoting q" and "w \<in> set (shell_words_loop cs ws word q e st)"
  shows "w \<in> set ws \<or> \<not> is_shell_separator w \<and> w \<noteq> ''>''"
  using assms
proof (induction cs arbitrary: ws word q e st)
  case Nil
  then show ?case using literal_word_plain [of word] by (auto split: if_splits)
next
  case (Cons c cs)
  from Cons.prems(2) show ?case
  proof (cases rule: quote_cases [where e = e and c = c])
    case (quo k)
    have e: "e = False" using quo(1) by simp
    have lit: "literal_argv_loop cs (if c = k then None else Some k) False"
      using Cons.prems(1) literal_rules(4) [OF quo(3,4), of cs] unfolding e quo(2) by blast
    have "w \<in> set (shell_words_loop cs ws (if c = k then word else word @ [c]) (if c = k then None else Some k) False st)"
      using Cons.prems(3) unfolding e quo(2) by (simp only: loop_quoted [OF quo(4)])
    from Cons.IH [OF lit _ this] quo(3) show ?thesis by (simp split: if_split)
  next
    case plain
    with Cons.prems(1) literal_rules(5) [of c cs]
    have lit: "literal_argv_loop cs None False" and c: "\<not> is_operator_char c" "c \<noteq> newline" by simp_all
    show ?thesis
    proof (cases "is_whitespace c")
      case True
      with Cons.prems(3) plain c
      have "w \<in> set (shell_words_loop cs (flush ws word st) (if st then [] else word) None False False)"
        by (simp add: loop_space)
      from Cons.IH [OF lit _ this] literal_word_plain [of word] show ?thesis
        by (auto simp: flush_def split: if_splits)
    next
      case False
      with Cons.prems(3) plain c have "w \<in> set (shell_words_loop cs ws (word @ [c]) None False True)"
        by (simp add: loop_char)
      from Cons.IH [OF lit _ this] show ?thesis by simp
    qed
  next
    case esc
    with Cons.prems show ?thesis using Cons.IH [of q False] by (simp add: loop_escaped literal_rules)
  next
    case bsl
    with Cons.prems show ?thesis using Cons.IH [of q True] by (simp add: loop_backslash literal_rules)
  next
    case opn
    with Cons.prems show ?thesis using Cons.IH [of "Some c" False] by (auto simp: loop_open literal_rules)
  qed
qed

lemma split_on_none: "(\<forall>x \<in> set xs. \<not> p x) \<Longrightarrow> split_on p xs = [xs]"
  by (induction xs) auto

text \<open>
  A command accepted as a delegated verification has no shell syntax: it contains no
  command substitution, its quotes are closed, and the shell reader finds neither a separator nor
  a redirection in it, so it is at most one simple command.
\<close>

theorem verification_request_is_one_command:
  assumes "is_verification_request c"
  shows "\<not> has_shell_command_substitution c \<and> closed c \<and>
    list_all (\<lambda>w. \<not> is_shell_separator w \<and> w \<noteq> ''>'') (shell_words c) \<and>
    length (segments (shell_words c)) \<le> 1"
proof -
  have lit: "literal_argv_loop c None False"
    using assms by (auto simp: is_verification_request_def split: list.splits if_splits)
  then have "list_all (\<lambda>w. \<not> is_shell_separator w \<and> w \<noteq> ''>'') (shell_words c)"
    using literal_words [OF lit] by (force simp: list_all_iff shell_words_def)
  moreover from this have "length (segments (shell_words c)) \<le> 1"
    by (simp add: segments_def list_all_iff split_on_none)
  ultimately show ?thesis
    using literal_no_substitution [OF lit] by (simp add: has_shell_command_substitution_def closed_def)
qed

theorem verification_request_is_one_command_witness:
  "closed ''openflows-harness verify request --expect-exit 0 -- cargo test''"
proof -
  have "is_verification_request ''openflows-harness verify request --expect-exit 0 -- cargo test''" by code_simp
  from verification_request_is_one_command [OF this] show ?thesis by blast
qed

text \<open>
  Writes the reader does not see: an option of a wrapper that takes no value, but is
  listed as taking one, swallows the executable; a brace group hides its first command; and the
  long or combined in-place options of \<open>sed\<close> and \<open>perl\<close> are not recognised.
\<close>

theorem unseen_writes:
  "shell_write_targets ''sudo -n rm src/lib.rs'' = Some [] \<and>
   shell_write_targets ''time -p rm src/lib.rs'' = Some [] \<and>
   shell_write_targets ''{ rm src/lib.rs; }'' = Some [] \<and>
   shell_write_targets ''sed --in-place s/a/b/ src/lib.rs'' = Some [] \<and>
   shell_write_targets ''perl -pi -e 1 src/lib.rs'' = Some [] \<and>
   shell_write_targets ''sudo -u root rm src/lib.rs'' = Some [''src/lib.rs'']"
  by code_simp

end
