(* ===== verification/Phase_Guard.thy ===== *)
theory Phase_Guard
  imports Shell_Words Shared_Store
begin

text \<open>
  The phase-aware tool guard of the hook consumer: \<open>src/crates/agent-nexus/src/hooks/guard.rs\<close> on
  top of the shell reader, the context lookups of \<open>hooks/context.rs\<close> and the decision type of
  \<open>hooks/types.rs\<close>. The guard only reads the store. The em dash of a message is its UTF-8 bytes.
\<close>

section \<open>Decisions (\<open>types.rs\<close>)\<close>

record HookDecision =
  hd_deny :: bool
  hd_reason :: "string option"
  hd_rewrite :: "json option"
  hd_model_context :: "string option"

definition observe :: HookDecision where
  "observe = \<lparr>hd_deny = False, hd_reason = None, hd_rewrite = None, hd_model_context = None\<rparr>"

definition deny :: "string \<Rightarrow> HookDecision" where
  "deny reason = \<lparr>hd_deny = True, hd_reason = Some reason, hd_rewrite = None, hd_model_context = None\<rparr>"

definition with_model_context :: "HookDecision \<Rightarrow> string \<Rightarrow> HookDecision" where
  "with_model_context d context = d\<lparr>hd_model_context := Some context\<rparr>"

section \<open>Context (\<open>context.rs\<close>)\<close>

record HookContext =
  hc_role :: "string option"
  hc_ticket_id :: "string option"
  hc_workspace_id :: "string option"

definition no_context :: HookContext where
  "no_context = \<lparr>hc_role = None, hc_ticket_id = None, hc_workspace_id = None\<rparr>"

record TicketState =
  ts_phase :: "string option"
  ts_plan_exists :: bool
  ts_gate_approved :: bool
  ts_pr_recorded :: bool
  ts_handoff_exists :: bool
  ts_flags :: json

definition GUIDANCE_TAIL :: nat where
  "GUIDANCE_TAIL = 8"

definition guidance_key :: "string \<Rightarrow> string" where
  "guidance_key ticket_id = ''ticket:'' @ ticket_id @ '':hooks:guidance''"

definition pending_guidance :: "SharedStore \<Rightarrow> string \<Rightarrow> json list" where
  "pending_guidance s ticket_id =
     (case store_get_typed as_array s (guidance_key ticket_id) of Some tail \<Rightarrow> tail | None \<Rightarrow> [])"

definition record_guidance :: "SharedStore \<Rightarrow> string \<Rightarrow> json \<Rightarrow> SharedStore" where
  "record_guidance s ticket_id guidance =
     (let tail = pending_guidance s ticket_id @ [guidance];
          tail = (if GUIDANCE_TAIL < length tail then drop (length tail - GUIDANCE_TAIL) tail else tail)
      in store_set s (guidance_key ticket_id) (JArr tail))"

definition drain_guidance :: "SharedStore \<Rightarrow> string \<Rightarrow> SharedStore \<times> json list" where
  "drain_guidance s ticket_id =
     (let tail = pending_guidance s ticket_id in
      (if tail \<noteq> [] then store_del s (guidance_key ticket_id) else s, tail))"

definition review_report_key :: "string \<Rightarrow> string" where
  "review_report_key ticket_id = ''ticket:'' @ ticket_id @ '':hooks:review_report''"

definition review_report_exists :: "SharedStore \<Rightarrow> string \<Rightarrow> bool" where
  "review_report_exists s ticket_id \<longleftrightarrow> store_get s (review_report_key ticket_id) \<noteq> None"

definition record_review_report_marker :: "SharedStore \<Rightarrow> string \<Rightarrow> SharedStore" where
  "record_review_report_marker s ticket_id = store_set s (review_report_key ticket_id) (JBool True)"

abbreviation colon_parts :: "string \<Rightarrow> string list" where
  "colon_parts s \<equiv> split_on (\<lambda>c. c = CHR '':'') s"

text \<open>The parts from the first one equal to \<open>marker\<close> on.\<close>

definition from_marker :: "string \<Rightarrow> string list \<Rightarrow> string list" where
  "from_marker marker segs = dropWhile (\<lambda>s. s \<noteq> marker) segs"

definition strip_namespace :: "string \<Rightarrow> string" where
  "strip_namespace raw =
     (let segs = colon_parts raw in
      if ''ticket'' \<in> set segs then join '':'' (from_marker ''ticket'' segs) else raw)"

definition part_after :: "string \<Rightarrow> string \<Rightarrow> string option" where
  "part_after marker un_ns =
     (case from_marker marker (colon_parts un_ns) of _ # x # _ \<Rightarrow> Some x | _ \<Rightarrow> None)"

definition ticket_from_key :: "string \<Rightarrow> string option" where
  "ticket_from_key un_ns = part_after ''ticket'' un_ns"

definition role_from_key :: "string \<Rightarrow> string option" where
  "role_from_key un_ns = part_after ''chat'' un_ns"

fun chat_scan :: "SharedStore \<Rightarrow> string \<Rightarrow> string list \<Rightarrow> HookContext" where
  "chat_scan s chat_id [] = no_context"
| "chat_scan s chat_id (key # keys) =
     (if \<not> contains key '':chat:'' then chat_scan s chat_id keys
      else (let un_ns = strip_namespace key in
        if store_get_typed de_string s un_ns = Some chat_id
        then \<lparr>hc_role = role_from_key un_ns, hc_ticket_id = ticket_from_key un_ns, hc_workspace_id = None\<rparr>
        else chat_scan s chat_id keys))"

definition resolve_chat :: "SharedStore \<Rightarrow> string \<Rightarrow> HookContext" where
  "resolve_chat s chat_id =
     (if chat_id = [] then no_context else chat_scan s chat_id (store_keys s ''ticket:*''))"

definition read_ticket_state :: "SharedStore \<Rightarrow> string \<Rightarrow> TicketState" where
  "read_ticket_state s ticket_id =
     (let lifecycle = (case store_lifecycle s ticket_id of Inl _ \<Rightarrow> None | Inr l \<Rightarrow> Some l) in
      \<lparr>ts_phase = map_option (\<lambda>l. phase_as_str (lc_phase l)) lifecycle,
       ts_plan_exists = (is_some_and lifecycle (\<lambda>l. lc_plan l \<noteq> []) \<or>
         store_keys s (''pair:'' @ ticket_id @ '':plan'') \<noteq> []),
       ts_gate_approved = is_some_and lifecycle (\<lambda>l. is_some_and (lc_plan_decision l) d_approved),
       ts_pr_recorded = (store_get s (''ticket:'' @ ticket_id @ '':pr'') \<noteq> None),
       ts_handoff_exists = (store_get s (''ticket:'' @ ticket_id @ '':handoff'') \<noteq> None),
       ts_flags = (case store_get s (''ticket:'' @ ticket_id @ '':basic_status'') of Some v \<Rightarrow> v | None \<Rightarrow> JNull)\<rparr>)"

section \<open>Tools (\<open>guard.rs\<close>)\<close>

definition is_valid_phase :: "string \<Rightarrow> bool" where
  "is_valid_phase phase \<longleftrightarrow> phase \<in> {''planning'', ''plan_ready'', ''plan_rejected'', ''building'', ''testing'',
     ''submit'', ''done'', ''blocked''}"

definition is_write_tool :: "string \<Rightarrow> bool" where
  "is_write_tool name \<longleftrightarrow> name \<in> {''write'', ''edit'', ''create'', ''patch'', ''write_file'', ''edit_file'', ''apply_patch''}"

definition is_harness :: "string \<Rightarrow> bool" where
  "is_harness name \<longleftrightarrow> contains (to_lowercase name) ''harness''"

definition is_shell :: "string \<Rightarrow> bool" where
  "is_shell name \<longleftrightarrow> to_lowercase name \<in> {''bash'', ''sh'', ''shell'', ''execute'', ''exec''}"

definition command_text :: "json \<Rightarrow> string" where
  "command_text input =
     (case Option.bind (json_get input ''command'') as_str of
        Some command \<Rightarrow> command
      | None \<Rightarrow> (case Option.bind (json_get input ''argv'') as_array of
            Some argv \<Rightarrow> join '' '' (List.map_filter as_str argv)
          | None \<Rightarrow> (case as_str input of Some s \<Rightarrow> s | None \<Rightarrow> [])))"

definition is_write_attempt :: "string \<Rightarrow> json \<Rightarrow> bool" where
  "is_write_attempt tool_name input \<longleftrightarrow>
     is_write_tool tool_name \<or> (is_shell tool_name \<and> shell_writes_source (command_text input))"

definition is_probe_segment :: "string \<Rightarrow> bool" where
  "is_probe_segment seg =
     (let cmd = to_lowercase seg in
      contains cmd ''status get'' \<or> contains cmd ''gate status'' \<or> contains cmd ''dispatch read'' \<or>
      contains cmd ''plan read'' \<or> contains cmd ''plan write'' \<or> contains cmd ''review read'' \<or>
      contains cmd ''git status'' \<or> contains cmd ''git diff'' \<or> cmd = ''ls'')"

definition probe_parts :: "string \<Rightarrow> string list" where
  "probe_parts command =
     filter (\<lambda>s. s \<noteq> []) (map trim (split_on (\<lambda>c. c = CHR '';'' \<or> c = CHR ''&'' \<or> c = CHR ''|'') command))"

definition is_probe_command :: "string \<Rightarrow> bool" where
  "is_probe_command command \<longleftrightarrow>
     list_all is_probe_segment (probe_parts command) \<and> probe_parts command \<noteq> []"

definition is_exact_replan :: "string \<Rightarrow> bool" where
  "is_exact_replan command =
     (let cmd = to_lowercase (trim command) in
      cmd = ''openflows-harness status set planning'' \<or> cmd = ''openflows-harness status set blocked'')"

definition is_plan_recovery_command :: "string \<Rightarrow> json \<Rightarrow> bool" where
  "is_plan_recovery_command tool_name input =
     (let lower = to_lowercase tool_name;
          command = (if is_shell lower \<or> is_harness lower then to_lowercase (command_text input) else []) in
      if command = [] \<or> \<not> contains command ''openflows-harness'' then False
      else contains command ''plan write'' \<or> contains command ''status set planning'' \<or>
           contains command ''status set blocked'' \<or> contains command ''status get'' \<or>
           contains command ''plan read'' \<or> contains command ''dispatch read'')"

definition target_path :: "json \<Rightarrow> string" where
  "target_path input =
     (case Option.bind (case json_get input ''path'' of Some v \<Rightarrow> Some v | None \<Rightarrow> json_get input ''file_path'') as_str of
        Some p \<Rightarrow> p | None \<Rightarrow> [])"

definition chat_plan_path :: "string \<Rightarrow> string" where
  "chat_plan_path chat_id = ''/home/coder/.coder/plans/PLAN-'' @ chat_id @ ''.md''"

definition is_plan_path :: "string \<Rightarrow> string \<Rightarrow> bool" where
  "is_plan_path path chat_id \<longleftrightarrow> path = chat_plan_path chat_id"

text \<open>The value of the first \<open>--file\<close> option.\<close>

fun file_option :: "string list \<Rightarrow> string option" where
  "file_option [] = None"
| "file_option (a # rest) =
     (case (if a = ''--file'' then (case rest of [] \<Rightarrow> None | b # _ \<Rightarrow> Some b)
            else strip_prefix ''--file='' a) of
        Some p \<Rightarrow> Some p
      | None \<Rightarrow> file_option rest)"

definition uploads_other_plan :: "string \<Rightarrow> string \<Rightarrow> string list \<Rightarrow> bool" where
  "uploads_other_plan tool_name chat_id segment =
     (case (if executable segment = ''openflows-harness'' then Some (operands segment)
            else if is_harness tool_name then Some segment else None) of
        None \<Rightarrow> False
      | Some args \<Rightarrow>
          (case args of
             a # b # _ \<Rightarrow> a = ''plan'' \<and> b = ''write'' \<and>
               \<not> is_some_and (file_option args) (\<lambda>p. is_plan_path p chat_id)
           | _ \<Rightarrow> False))"

definition has_nonstandard_plan_upload :: "string \<Rightarrow> json \<Rightarrow> string \<Rightarrow> bool" where
  "has_nonstandard_plan_upload tool_name input chat_id =
     (if \<not> is_shell tool_name \<and> \<not> is_harness tool_name then False
      else list_ex (uploads_other_plan tool_name chat_id) (segments (shell_words (command_text input))))"

definition is_plan_write :: "string \<Rightarrow> json \<Rightarrow> string \<Rightarrow> bool" where
  "is_plan_write tool_name input chat_id =
     (if is_plan_path (target_path input) chat_id then True
      else (case (if is_shell tool_name then shell_write_targets (command_text input) else None) of
        Some targets \<Rightarrow> targets \<noteq> [] \<and> list_all (\<lambda>p. is_plan_path p chat_id) targets
      | None \<Rightarrow>
          is_harness tool_name \<and>
          contains (to_lowercase (case Option.bind (json_get input ''command'') as_str of Some c \<Rightarrow> c | None \<Rightarrow> []))
            ''plan write''))"

definition is_blocker_write :: "json \<Rightarrow> bool" where
  "is_blocker_write input =
     (let file = after_last (\<lambda>c. c = CHR ''/'' \<or> c = backslash) (to_lowercase (target_path input)) in
      file \<in> {''status.json'', ''blocker'', ''blocker.md'', ''blockers.md''})"

section \<open>Guidance\<close>

definition em_dash :: string where
  "em_dash = [CHR 0xE2, CHR 0x80, CHR 0x94]"

definition phase_guidance :: "string \<Rightarrow> bool \<Rightarrow> string \<Rightarrow> string" where
  "phase_guidance phase plan_exists role =
     (if eq_ignore_ascii_case role ''sentinel'' then
        ''You are SENTINEL, the read-only reviewer. Your job is to review plans and PRs and submit verdicts ''
        @ em_dash @ '' you must not write or edit source. Read the plan/PR, run read-only checks, and use `openflows-harness review submit` / `gate decide`.''
      else if phase = ''planning'' then
        (if plan_exists
         then ''Planning: read source, inspect repository state and runtime capabilities before revising the plan. Upload it, then set plan_ready. Source edits require approval.''
         else ''Planning: first read source, inspect repository state and runtime capabilities to ground the plan. Then write the plan at the current chat-specific path, upload that exact file with plan write, and set plan_ready. Read-only inspection is allowed now; source edits require approval.'')
      else if phase = ''plan_ready'' then
        ''Plan is ready for SENTINEL review. Wait for approval, then set building; do not edit source or the submitted plan.''
      else if phase = ''plan_rejected'' then
        ''Read rejection feedback in status get. Return to planning, revise/upload the plan, and set plan_ready.''
      else if phase = ''building'' then
        (if \<not> plan_exists
         then ''Building has no approved plan. Return to planning and run /plan, upload it, then obtain review before implementing.''
         else ''Building: implement the approved plan, commit all changes, then set testing with a clean checkout.'')
      else if phase = ''testing'' then
        ''Testing freezes source. Run verify serve for SENTINEL A2A tests. Wait for successful A2A verification and SENTINEL testing approval, then set submit. Human testing review is TODO and does not block submit. For fixes return to building.''
      else if phase = ''submit'' then
        ''Submit: push the assigned branch. If no PR is recorded, use `openflows-harness pr create --repo OWNER/REPO --base BASE --head BRANCH --title TITLE --body DESCRIPTION`; choose BASE from the task or repository default and write a descriptive Markdown body. This creates/finds the GitHub PR and records it. If a PR is already recorded, update its branch rather than creating another. Wait for SENTINEL review, human approval and CI. Source fixes require returning to building and repeating testing.''
      else if phase = ''done'' then ''Ticket is done and terminal.''
      else if phase = ''blocked'' then ''Blocked: record a blocker and wait for help. Recovery returns to planning.''
      else ''Read status get; start with planning and an uploaded plan. Unknown state cannot authorize source edits.'')"

definition forge_guidance :: "string \<Rightarrow> bool \<Rightarrow> string \<Rightarrow> string \<Rightarrow> string" where
  "forge_guidance phase plan_exists role plan_path =
     phase_guidance phase plan_exists role @ '' Current chat plan: `'' @ plan_path @
     ''`. During planning write the plan there, then upload that exact file with `openflows-harness plan write --file ''
     @ plan_path @ ''`. Do not write /home/coder/PLAN.md.''"

section \<open>The guard\<close>

text \<open>The decision of the phase for a gated tool; one branch per phase, in the order of the code.\<close>

definition decide_planning :: "string \<Rightarrow> string \<Rightarrow> string \<Rightarrow> json \<Rightarrow> string \<Rightarrow> HookDecision" where
  "decide_planning phase plan_path lower input chat_id =
     (if is_write_attempt lower input \<and> \<not> (phase \<noteq> ''plan_ready'' \<and> is_plan_write lower input chat_id)
      then deny (''openflows policy: source modifications require an approved plan and the building phase. During planning, read source files and inspect repository/runtime state, then write `''
        @ plan_path @ ''` and submit it with `openflows-harness plan write --file '' @ plan_path @
        ''` and `status set plan_ready`. During plan_ready the plan is frozen; wait for review.'')
      else observe)"

definition decide_building :: "bool \<Rightarrow> string \<Rightarrow> json \<Rightarrow> string \<Rightarrow> HookDecision" where
  "decide_building plan_exists lower input chat_id =
     (if \<not> plan_exists \<and> \<not> (is_plan_write lower input chat_id \<or> is_plan_recovery_command lower input)
      then deny ''openflows policy: FORGE is in the building phase but no plan exists in the shared store. Write and upload a plan first: run `/plan`, then `openflows-harness plan write --file <absolute-plan-path>`.''
      else observe)"

definition decide_testing :: "bool \<Rightarrow> string \<Rightarrow> json \<Rightarrow> string \<Rightarrow> string \<Rightarrow> HookDecision" where
  "decide_testing plan_exists lower input chat_id guidance =
     (if is_write_attempt lower input
      then deny ''Testing freezes source. Return to building before making changes''
      else if \<not> plan_exists \<and> \<not> (is_plan_write lower input chat_id \<or> is_plan_recovery_command lower input)
      then with_model_context (deny ''openflows policy: FORGE is in the testing phase but no plan exists. Leave testing: run `/plan` and get the plan approved before building.'') guidance
      else with_model_context observe guidance)"

definition decide_submit :: "string \<Rightarrow> json \<Rightarrow> HookDecision" where
  "decide_submit lower input =
     (if is_write_attempt lower input
      then deny ''openflows policy: FORGE is in submit (PR under review). Do not modify source; for rework run `openflows-harness status set planning` (or `building`) first.''
      else observe)"

definition decide_blocked :: "string \<Rightarrow> json \<Rightarrow> HookDecision" where
  "decide_blocked lower input =
     (let command = to_lowercase (command_text input);
          is_readonly_probe = (is_shell lower \<and> is_probe_command command \<and> \<not> shell_writes_source command);
          is_replan = ((is_harness lower \<or> is_shell lower) \<and> is_exact_replan command);
          is_blocker = (is_write_tool lower \<and> is_blocker_write input) in
      if \<not> is_readonly_probe \<and> \<not> is_replan \<and> \<not> is_blocker
      then deny ''openflows policy: FORGE is blocked. Only record a blocker (STATUS.json), probe state, or return to `status set planning`; do not write source or build.''
      else observe)"

definition phase_decision ::
  "string \<Rightarrow> bool \<Rightarrow> string \<Rightarrow> string \<Rightarrow> json \<Rightarrow> string \<Rightarrow> string \<Rightarrow> HookDecision" where
  "phase_decision phase plan_exists plan_path lower input chat_id guidance =
     (if phase = ''testing'' \<and> is_shell lower \<and> is_verification_request (command_text input)
      then with_model_context observe guidance
      else if phase \<in> {''planning'', ''plan_ready'', ''plan_rejected'', ''unset''}
      then with_model_context (decide_planning phase plan_path lower input chat_id) guidance
      else if phase = ''building''
      then with_model_context (decide_building plan_exists lower input chat_id) guidance
      else if phase = ''done'' then deny ''Ticket is done; no further worker actions are allowed''
      else if phase = ''testing'' then decide_testing plan_exists lower input chat_id guidance
      else if phase = ''submit'' then with_model_context (decide_submit lower input) guidance
      else if phase = ''blocked'' then with_model_context (decide_blocked lower input) guidance
      else if \<not> is_valid_phase phase \<and> is_write_attempt lower input
      then deny ''Unknown lifecycle state; recover to planning before editing source''
      else with_model_context observe guidance)"

definition phase_guard ::
  "SharedStore \<Rightarrow> string \<Rightarrow> string \<Rightarrow> string \<Rightarrow> json \<Rightarrow> HookDecision \<Rightarrow> HookDecision" where
  "phase_guard s chat_id role tool_name input base =
     (if hd_deny base \<or> hd_rewrite base \<noteq> None then base
      else (let lower = to_lowercase tool_name in
        if eq_ignore_ascii_case role ''sentinel'' \<and> is_write_attempt lower input
        then with_model_context
          (deny (''openflows policy: SENTINEL is a readonly reviewer '' @ em_dash @ '' writes are blocked''))
          (phase_guidance [] False role)
        else if \<not> eq_ignore_ascii_case role ''forge'' then base
        else (case hc_ticket_id (resolve_chat s chat_id) of
          None \<Rightarrow> base
        | Some ticket \<Rightarrow>
            let st = read_ticket_state s ticket;
                phase = (case ts_phase st of Some p \<Rightarrow> p | None \<Rightarrow> ''unset'');
                plan_path = chat_plan_path chat_id;
                guidance = forge_guidance phase (ts_plan_exists st) role plan_path in
            if has_nonstandard_plan_upload lower input chat_id
            then with_model_context (deny (''Use the standard current-chat plan path: `openflows-harness plan write --file ''
              @ plan_path @ ''`. Legacy PLAN.md paths and other chats'' @ [squote] @ '' plans are not accepted.'')) guidance
            else if \<not> is_write_tool lower \<and> \<not> is_harness lower \<and> \<not> is_shell lower then base
            else phase_decision phase (ts_plan_exists st) plan_path lower input chat_id guidance)))"

section \<open>Lemmas\<close>

lemma decision_simps [simp]:
  "\<not> hd_deny observe" "hd_deny (deny m)" "hd_rewrite observe = None" "hd_rewrite (deny m) = None"
  "hd_deny (with_model_context d c) = hd_deny d" "hd_rewrite (with_model_context d c) = hd_rewrite d"
  by (simp_all add: observe_def deny_def with_model_context_def)

lemma shell_not_write_tool: "is_shell lower \<Longrightarrow> to_lowercase lower = lower \<Longrightarrow> \<not> is_write_tool lower"
  by (auto simp: is_shell_def is_write_tool_def)

end
