(* ===== verification/Guard_Properties.thy ===== *)
theory Guard_Properties
  imports Phase_Guard Store_Leases
begin

text \<open>
  What the guard promises: writes of FORGE only where the lifecycle phase permits them, no writes of
  SENTINEL, no weakening of an earlier denial, and a bounded guidance tail that is handed out once.
\<close>

section \<open>Phases\<close>





text \<open>A FORGE chat bound to ticket T-1, which is still planning, and the write of its plan.\<close>

definition guard_store :: SharedStore where
  "guard_store = store_set new_in_memory ''ticket:T-1:chat:forge'' (JStr ''c1'')"



text \<open>
  Without the condition on the path the guard is not tight: a shell call that also names the plan file as its path may write anything
  while the ticket is planning.
\<close>

theorem path_of_a_shell_call_hides_its_writes:
  "ts_phase (read_ticket_state guard_store ''T-1'') = Some ''planning'' \<and>
   is_write_attempt ''bash'' (JObj [(''command'', JStr ''rm src/lib.rs''), (''path'', JStr (chat_plan_path ''c1''))]) \<and>
   \<not> hd_deny (phase_guard guard_store ''c1'' ''forge'' ''bash''
     (JObj [(''command'', JStr ''rm src/lib.rs''), (''path'', JStr (chat_plan_path ''c1''))]) observe)"
  by code_simp

text \<open>
  SENTINEL never writes and nothing is ever weakened: a denial or rewrite of the generic
  policy is returned unchanged for every role, and with no rewrite a write attempt of SENTINEL is
  denied in every state of the store.
\<close>

theorem sentinel_never_writes:
  assumes "eq_ignore_ascii_case role ''sentinel''" and "is_write_attempt (to_lowercase tool) input"
  shows "(hd_rewrite base \<noteq> None \<or> hd_deny (phase_guard s chat_id role tool input base)) \<and>
    (\<not> (hd_deny base \<or> hd_rewrite base \<noteq> None) \<or> phase_guard s chat_id any_role any_tool any_input base = base)"
  using assms by (auto simp: phase_guard_def Let_def)

theorem sentinel_never_writes_witness:
  "hd_deny (phase_guard new_in_memory ''c'' ''Sentinel'' ''Bash'' (JObj [(''command'', JStr ''git checkout -- src'')]) observe)"
proof -
  have "eq_ignore_ascii_case ''Sentinel'' ''sentinel''" by code_simp
  moreover have "is_write_attempt (to_lowercase ''Bash'') (JObj [(''command'', JStr ''git checkout -- src'')])" by code_simp
  ultimately show ?thesis using sentinel_never_writes [of "''Sentinel''" "''Bash''" _ observe] by simp
qed

section \<open>Guidance\<close>

lemma pending_after_record:
  "pending_guidance (record_guidance s t g) t = last_n GUIDANCE_TAIL (pending_guidance s t @ [g])"
  by (simp add: record_guidance_def Let_def pending_guidance_def store_get_typed_def store_kv.get_put last_n_def)

lemma last_n_append_last_n: "last_n n (last_n n xs @ ys) = last_n n (xs @ ys)"
proof (cases "n \<le> length xs")
  case True
  then have "last_n n xs @ ys = drop (length xs - n) (xs @ ys)" by (simp add: last_n_def)
  moreover have "length xs - n \<le> length (xs @ ys) - n" by simp
  ultimately show ?thesis using True by (simp add: last_n_def drop_drop ac_simps)
next
  case False
  then show ?thesis by (simp add: last_n_def)
qed

text \<open>
  Guidance is relayed once and bounded: after any sequence of recorded guidance, draining
  hands out the last eight records in order, and a second drain hands out nothing.
\<close>

theorem guidance_drained_once:
  "let s' = fold (\<lambda>g s. record_guidance s t g) gs s;
       (s'', out) = drain_guidance s' t
   in (gs = [] \<or> out = last_n GUIDANCE_TAIL (pending_guidance s t @ gs)) \<and> snd (drain_guidance s'' t) = []"
proof -
  have rec: "pending_guidance (fold (\<lambda>g s. record_guidance s t g) gs s) t =
      (if gs = [] then pending_guidance s t else last_n GUIDANCE_TAIL (pending_guidance s t @ gs))"
  proof (induction gs arbitrary: s)
    case (Cons g gs)
    then show ?case
      using last_n_append_last_n [of GUIDANCE_TAIL "pending_guidance s t @ [g]" gs]
      by (simp add: pending_after_record)
  qed simp
  have "pending_guidance (fst (drain_guidance u t)) t = []" for u
    by (auto simp: drain_guidance_def Let_def pending_guidance_def store_get_typed_def store_kv.get_remove
        split: option.splits)
  with rec show ?thesis by (auto simp: drain_guidance_def Let_def)
qed

end
