(* ===== verification/Manager_Base.thy ===== *)
theory Manager_Base
  imports Json
begin

text \<open>
  What the services of \<open>src/crates/openflows-manager/src\<close> share: the error type of \<open>error.rs\<close> with
  its translation to HTTP, and the tables of the PostgreSQL schema that the modelled services read
  and write. A table is a list of row records; a query is a function over the list, with the SQL
  rules for \<open>NULL\<close> (a comparison with \<open>NULL\<close> selects nothing) written out. An instant is a number of
  microseconds. A statement that uses \<open>now()\<close> takes the start of its transaction, one that uses
  \<open>clock_timestamp()\<close> the current time; they are separate arguments. Identifiers are texts.
\<close>

section \<open>Errors\<close>

record ApiError =
  ae_code :: string
  ae_message :: string
  ae_retryable :: bool

datatype ManagerError =
    Config string
  | Io string
  | Service string
  | Api ApiError
  | Database string
  | Migration string
  | NotFound
  | Conflict string
  | InvalidInput string

type_synonym 'a managed = "ManagerError + 'a"

definition api :: "string \<Rightarrow> string \<Rightarrow> ManagerError" where
  "api code message = Api \<lparr>ae_code = code, ae_message = message, ae_retryable = False\<rparr>"

definition not_found :: "string \<Rightarrow> ManagerError" where
  "not_found resource = api ''RESOURCE_NOT_FOUND'' (resource @ '' not found or outside your organization'')"

fun retryable :: "ManagerError \<Rightarrow> bool \<Rightarrow> ManagerError" where
  "retryable (Api e) b = Api (e\<lparr>ae_retryable := b\<rparr>)"
| "retryable other b = other"

definition api_status :: "string \<Rightarrow> nat" where
  "api_status code =
     (if code \<in> {''NOT_FOUND'', ''RESOURCE_NOT_FOUND''} then 404
      else if code \<in> {''CONFLICT'', ''INSTALLATION_ALREADY_BOUND'', ''CODER_SCOPE_MISMATCH''} then 409
      else if code \<in> {''INVALID_INPUT'', ''DEVICE_CODE_INVALID''} then 422
      else if code \<in> {''UNAUTHORIZED'', ''MISSING_AUTH'', ''AUTH_FAILED'', ''CSRF_FAILED'',
                     ''GITHUB_REAUTH_REQUIRED''} then 401
      else if code \<in> {''FORBIDDEN'', ''ORG_ADMIN_REQUIRED'', ''GITHUB_OWNER_REQUIRED'', ''MEMBER_SUSPENDED'',
                     ''OWNER_REQUIRED'', ''INVITATION_WRONG_USER'', ''REAUTH_REQUIRED'', ''ORG_UNAVAILABLE'',
                     ''PLATFORM_OPERATOR_REQUIRED'', ''TENANT_UNAVAILABLE'', ''WORKSPACE_UNAVAILABLE'',
                     ''CONNECTION_UNAVAILABLE'', ''REPOSITORY_UNAVAILABLE'', ''AUTH_CHANGED''} then 403
      else if code \<in> {''CODER_REAUTH_REQUIRED'', ''CODER_CHAT_FORBIDDEN''} then 403
      else if code \<in> {''RATE_LIMITED'', ''TOO_MANY_REQUESTS'', ''TENANT_LIMIT_REACHED'',
                     ''WORKER_LIMIT_REACHED''} then 429
      else if code \<in> {''GITHUB_LIST_TOO_LARGE'', ''SERVICE_UNAVAILABLE'', ''GITHUB_UNAVAILABLE'',
                     ''CODER_UNAVAILABLE'', ''CODER_CHAT_UNAVAILABLE'', ''TEMPLATE_PROMOTION_DB_FAILED''} then 503
      else if code \<in> {''CODER_TEMPLATE_ACCESS_DENIED'', ''CODER_TEMPLATE_API_NOT_FOUND'',
                     ''CODER_TEMPLATE_REJECTED'', ''CODER_INVALID_RESPONSE''} then 502
      else if code = ''GITHUB_OAUTH_ERROR'' then 401
      else 500)"

text \<open>Status, code, message and retryability of the envelope; the request id comes from the server.\<close>

fun http_error :: "ManagerError \<Rightarrow> nat \<times> string \<times> string \<times> bool" where
  "http_error (Api e) = (api_status (ae_code e), ae_code e, ae_message e, ae_retryable e)"
| "http_error NotFound =
     (404, ''RESOURCE_NOT_FOUND'', ''resource not found or outside your organization'', False)"
| "http_error (Conflict msg) = (409, ''CONFLICT'', msg, False)"
| "http_error (InvalidInput msg) = (422, ''INVALID_INPUT'', msg, False)"
| "http_error (Config _) = (503, ''INTERNAL'', ''internal service error'', False)"
| "http_error (Io _) = (503, ''INTERNAL'', ''internal service error'', False)"
| "http_error (Migration _) = (503, ''INTERNAL'', ''internal service error'', False)"
| "http_error (Service _) = (503, ''INTERNAL'', ''internal service error'', False)"
| "http_error (Database _) = (503, ''INTERNAL'', ''internal service error'', False)"

definition to_http_response :: "string \<Rightarrow> ManagerError \<Rightarrow> nat \<times> json" where
  "to_http_response request_id e =
     (case http_error e of (status, code, message, again) \<Rightarrow>
        (status, JObj [(''error'', JObj [(''code'', JStr code), (''message'', JStr message),
           (''request_id'', JStr request_id), (''retryable'', JBool again)])]))"

text \<open>The \<open>?\<close> operator, and a transaction: an error rolls every write back.\<close>

definition and_then :: "'a managed \<Rightarrow> ('a \<Rightarrow> 'b managed) \<Rightarrow> 'b managed" where
  "and_then r f = (case r of Inl e \<Rightarrow> Inl e | Inr v \<Rightarrow> f v)"

definition transact :: "'s \<Rightarrow> ('a \<times> 's) managed \<Rightarrow> 'a managed \<times> 's" where
  "transact s r = (case r of Inl e \<Rightarrow> (Inl e, s) | Inr (v, s') \<Rightarrow> (Inr v, s'))"

lemma and_then_simps [simp]: "and_then (Inr v) f = f v" "and_then (Inl e) f = Inl e"
  by (simp_all add: and_then_def)

lemma and_then_Inr: "and_then r f = Inr v \<longleftrightarrow> (\<exists>u. r = Inr u \<and> f u = Inr v)"
  by (cases r) auto

lemma transact_simps [simp]: "transact s (Inl e) = (Inl e, s)" "transact s (Inr (v, s')) = (Inr v, s')"
  by (simp_all add: transact_def)

lemma transact_commits: "transact s r = (x, s') \<Longrightarrow> s' \<noteq> s \<Longrightarrow> \<exists>v. x = Inr v \<and> r = Inr (v, s')"
  by (cases r) auto

lemma transact_cases:
  assumes "transact s r = (x, s')"
  obtains (rollback) e where "r = Inl e" and "x = Inl e" and "s' = s"
    | (commit) v where "r = Inr (v, s')" and "x = Inr v"
  using assms by (cases r) auto

section \<open>Tables and statements\<close>

type_synonym instant = nat

abbreviation seconds :: "nat \<Rightarrow> instant" where
  "seconds n \<equiv> n * 1000000"

text \<open>\<open>UPDATE t SET f WHERE p\<close> and \<open>rows_affected\<close>.\<close>

definition update_where :: "('r \<Rightarrow> bool) \<Rightarrow> ('r \<Rightarrow> 'r) \<Rightarrow> 'r list \<Rightarrow> 'r list" where
  "update_where p f rows = map (\<lambda>r. if p r then f r else r) rows"

definition rows_affected :: "('r \<Rightarrow> bool) \<Rightarrow> 'r list \<Rightarrow> nat" where
  "rows_affected p rows = length (filter p rows)"

text \<open>\<open>SELECT DISTINCT ON (f)\<close>: of an ordered list, the first row of each group.\<close>

fun distinct_on :: "('r \<Rightarrow> 'k) \<Rightarrow> 'r list \<Rightarrow> 'r list" where
  "distinct_on f [] = []"
| "distinct_on f (r # rs) = r # filter (\<lambda>q. f q \<noteq> f r) (distinct_on f rs)"

lemma set_distinct_on: "set (distinct_on f rs) \<subseteq> set rs"
  by (induction rs) auto

lemma update_where_none [simp]: "(\<And>r. r \<in> set rows \<Longrightarrow> \<not> p r) \<Longrightarrow> update_where p f rows = rows"
  by (simp add: update_where_def map_idI)

lemma rows_affected_0: "rows_affected p rows = 0 \<longleftrightarrow> (\<forall>r \<in> set rows. \<not> p r)"
  by (simp add: rows_affected_def filter_empty_conv)

lemma rows_affected_one: "rows_affected p rows = Suc 0 \<Longrightarrow> \<exists>r \<in> set rows. p r"
  using rows_affected_0 [of p rows] by auto

lemma set_update_where:
  "r' \<in> set (update_where p f rows) \<longleftrightarrow> (\<exists>r \<in> set rows. r' = (if p r then f r else r))"
  by (auto simp: update_where_def)

lemma map_update_where: "(\<And>r. k (f r) = k r) \<Longrightarrow> map k (update_where p f rows) = map k rows"
  by (auto simp: update_where_def)

text \<open>With a unique key, a predicate that fixes the key selects at most one row.\<close>

lemma distinct_key: "distinct (map k rows) \<Longrightarrow> r \<in> set rows \<Longrightarrow> s \<in> set rows \<Longrightarrow> k r = k s \<Longrightarrow> r = s"
  by (auto simp: distinct_map inj_on_def)

lemma find_SomeD: "List.find p rows = Some r \<Longrightarrow> r \<in> set rows \<and> p r"
  by (auto simp: find_Some_iff)

lemma find_append:
  "List.find p (xs @ ys) = (case List.find p xs of None \<Rightarrow> List.find p ys | Some x \<Rightarrow> Some x)"
  by (induction xs) auto

lemma find_unique:
  assumes "r \<in> set rows" and "p r" and "\<And>q. q \<in> set rows \<Longrightarrow> p q \<Longrightarrow> q = r"
  shows "List.find p rows = Some r"
proof (cases "List.find p rows")
  case None
  then show ?thesis using assms(1,2) by (simp add: find_None_iff)
next
  case (Some q)
  then show ?thesis using assms(3) [of q] find_SomeD [OF Some] by blast
qed

lemma rows_affected_key:
  assumes "distinct (map k rows)" and "\<And>r. p r \<Longrightarrow> k r = i"
  shows "rows_affected p rows \<le> 1"
  using assms(1)
proof (induction rows)
  case (Cons r rs)
  have "filter p rs = []" if "p r"
    using that Cons.prems assms(2) by (force simp: filter_empty_conv)
  with Cons show ?case by (auto simp: rows_affected_def)
qed (simp add: rows_affected_def)

section \<open>The schema\<close>

datatype OperationState = Queued | Running | Succeeded | Failed | Cancelled | RetryableFailed

record OperationRow =
  op_id :: string
  op_organization_id :: string
  op_resource_type :: string
  op_resource_id :: "string option"
  op_kind :: string
  op_idempotency_ref :: "string option"
  op_state :: OperationState
  op_current_step :: "string option"
  op_attempt_count :: int
  op_retry_at :: "instant option"
  op_lease_owner :: "string option"
  op_lease_token :: "string option"
  op_lease_expires_at :: "instant option"
  op_error_code :: "string option"
  op_sanitized_result :: "json option"
  op_created_at :: instant
  op_updated_at :: instant

record OutboxRow =
  ox_id :: string
  ox_organization_id :: "string option"
  ox_event_type :: string
  ox_payload :: "json option"
  ox_attempts :: int
  ox_lease_owner :: "string option"
  ox_lease_token :: "string option"
  ox_lease_expires_at :: "instant option"
  ox_delivered_at :: "instant option"
  ox_retry_at :: "instant option"
  ox_failed_at :: "instant option"
  ox_created_at :: instant

record TenantRow =
  tn_id :: string
  tn_organization_id :: string
  tn_slug :: string
  tn_connection_id :: string
  tn_github_repository_id :: int
  tn_fleet_size :: int
  tn_desired_state :: string
  tn_observed_state :: string
  tn_owner_user_id :: "string option"
  tn_error_code :: "string option"
  tn_reserved_worker_capacity :: int

record WorkspaceRow =
  wk_id :: string
  wk_organization_id :: string
  wk_tenant_id :: string
  wk_role :: string
  wk_slot :: "int option"
  wk_ticket_id :: "string option"
  wk_branch :: "string option"
  wk_a2a_pair_token :: "string option"
  wk_desired_state :: string
  wk_observed_state :: string
  wk_registered_at :: "instant option"
  wk_last_heartbeat_at :: "instant option"
  wk_credential_generation :: int

record QuotaRow =
  qt_organization_id :: string
  qt_max_tenants :: int
  qt_max_workers_per_tenant :: int
  qt_max_concurrent_provisioning_ops :: int

record Db =
  db_organizations :: "string list"
  db_operations :: "OperationRow list"
  db_outbox :: "OutboxRow list"
  db_tenants :: "TenantRow list"
  db_workspaces :: "WorkspaceRow list"
  db_quotas :: "QuotaRow list"

end
