(* ===== verification/Manager_Operations.thy ===== *)
theory Manager_Operations
  imports Manager_Base
begin

text \<open>
  \<open>src/crates/openflows-manager/src/operations.rs\<close>: durable operations with exclusive worker leases.
  Workers claim an operation for thirty seconds under a fresh token, extend the lease by heartbeats,
  and finish under it; an expired lease can be claimed again. Each function is one statement, or
  one transaction, over the table. \<open>tnow\<close> is the start of the transaction (\<open>now()\<close>), \<open>clk\<close> the
  time of the statement (\<open>clock_timestamp()\<close>); \<open>skip\<close> are the rows that other transactions hold
  locked (\<open>SKIP LOCKED\<close>), \<open>token\<close> and \<open>new_id\<close> are fresh UUIDs.
\<close>

fun operation_state_as_str :: "OperationState \<Rightarrow> string" where
  "operation_state_as_str Queued = ''queued''"
| "operation_state_as_str Running = ''running''"
| "operation_state_as_str Succeeded = ''succeeded''"
| "operation_state_as_str Failed = ''failed''"
| "operation_state_as_str Cancelled = ''cancelled''"
| "operation_state_as_str RetryableFailed = ''retryable_failed''"

definition LEASE_DURATION :: instant where
  "LEASE_DURATION = seconds 30"

definition MAX_AUTOMATIC_ATTEMPTS :: int where
  "MAX_AUTOMATIC_ATTEMPTS = 8"

record LeaseGuard =
  lg_operation_id :: string
  lg_organization_id :: string
  lg_owner :: string
  lg_token :: string

record NewOperation =
  no_organization_id :: string
  no_resource_type :: string
  no_resource_id :: "string option"
  no_kind :: string
  no_idempotency_ref :: "string option"

section \<open>Creating and claiming\<close>

definition op_create :: "string \<Rightarrow> instant \<Rightarrow> Db \<Rightarrow> NewOperation \<Rightarrow> Db" where
  "op_create new_id tnow db op =
     db\<lparr>db_operations := db_operations db @
       [\<lparr>op_id = new_id, op_organization_id = no_organization_id op,
         op_resource_type = no_resource_type op, op_resource_id = no_resource_id op,
         op_kind = no_kind op, op_idempotency_ref = no_idempotency_ref op, op_state = Queued,
         op_current_step = None, op_attempt_count = 0, op_retry_at = None, op_lease_owner = None,
         op_lease_token = None, op_lease_expires_at = None, op_error_code = None,
         op_sanitized_result = None, op_created_at = tnow, op_updated_at = tnow\<rparr>]\<rparr>"

text \<open>The two conditions that every claim shares: the lease is free and the retry time has come.\<close>

definition lease_free :: "instant \<Rightarrow> OperationRow \<Rightarrow> bool" where
  "lease_free tnow r \<longleftrightarrow> is_none_or (op_lease_expires_at r) (\<lambda>e. e < tnow) \<and>
     is_none_or (op_retry_at r) (\<lambda>t. t \<le> tnow)"

definition claimable :: "instant \<Rightarrow> OperationRow \<Rightarrow> bool" where
  "claimable tnow r \<longleftrightarrow>
     (op_state r = Queued \<or> op_state r = Running \<or> (op_state r = RetryableFailed \<and> op_retry_at r \<noteq> None)) \<and>
     lease_free tnow r"

definition take_lease :: "string \<Rightarrow> string \<Rightarrow> instant \<Rightarrow> instant \<Rightarrow> OperationRow \<Rightarrow> OperationRow" where
  "take_lease owner token tnow clk r =
     r\<lparr>op_lease_owner := Some owner, op_lease_expires_at := Some (clk + LEASE_DURATION),
       op_lease_token := Some token, op_attempt_count := op_attempt_count r + 1,
       op_state := Running, op_updated_at := tnow\<rparr>"

definition lease_row ::
  "string \<Rightarrow> string \<Rightarrow> instant \<Rightarrow> instant \<Rightarrow> Db \<Rightarrow> OperationRow \<Rightarrow> Db \<times> LeaseGuard option" where
  "lease_row owner token tnow clk db r =
     (db\<lparr>db_operations := update_where (\<lambda>q. op_id q = op_id r) (take_lease owner token tnow clk) (db_operations db)\<rparr>,
      Some \<lparr>lg_operation_id = op_id r, lg_organization_id = op_organization_id r,
            lg_owner = owner, lg_token = token\<rparr>)"

definition claim_oldest ::
  "(OperationRow \<Rightarrow> bool) \<Rightarrow> string \<Rightarrow> instant \<Rightarrow> instant \<Rightarrow> string list \<Rightarrow> Db \<Rightarrow> string \<Rightarrow> Db \<times> LeaseGuard option" where
  "claim_oldest wanted token tnow clk skip db owner =
     (case List.find (\<lambda>r. wanted r \<and> claimable tnow r \<and> op_id r \<notin> set skip)
             (sort_key op_created_at (db_operations db)) of
        None \<Rightarrow> (db, None)
      | Some r \<Rightarrow> lease_row owner token tnow clk db r)"

definition claim_kind ::
  "string \<Rightarrow> instant \<Rightarrow> instant \<Rightarrow> string list \<Rightarrow> Db \<Rightarrow> string \<Rightarrow> string option \<Rightarrow> Db \<times> LeaseGuard option" where
  "claim_kind token tnow clk skip db owner kind =
     claim_oldest (\<lambda>r. is_none_or kind (\<lambda>k. op_kind r = k)) token tnow clk skip db owner"

definition op_claim :: "string \<Rightarrow> instant \<Rightarrow> instant \<Rightarrow> string list \<Rightarrow> Db \<Rightarrow> string \<Rightarrow> Db \<times> LeaseGuard option" where
  "op_claim token tnow clk skip db owner = claim_kind token tnow clk skip db owner None"

definition claim_promote ::
  "string \<Rightarrow> instant \<Rightarrow> instant \<Rightarrow> string list \<Rightarrow> Db \<Rightarrow> string \<Rightarrow> string \<Rightarrow> Db \<times> LeaseGuard option" where
  "claim_promote token tnow clk skip db owner release_id =
     claim_oldest (\<lambda>r. op_kind r = ''template.promote'' \<and> op_resource_id r = Some release_id)
       token tnow clk skip db owner"

subsection \<open>Claiming with an organization slot\<close>

text \<open>A tenant deletion that ran out of attempts is eligible again after five minutes.\<close>

definition finalizer_due :: "instant \<Rightarrow> Db \<Rightarrow> OperationRow \<Rightarrow> bool" where
  "finalizer_due tnow db r \<longleftrightarrow>
     op_kind r = ''tenant.delete'' \<and> op_state r = RetryableFailed \<and> op_retry_at r = None \<and>
     op_updated_at r + seconds 300 < tnow \<and>
     list_ex (\<lambda>t. Some (tn_id t) = op_resource_id r \<and> tn_organization_id t = op_organization_id r \<and>
        tn_desired_state t = ''deleting'') (db_tenants db)"

definition slot_claimable :: "instant \<Rightarrow> Db \<Rightarrow> string list \<Rightarrow> OperationRow \<Rightarrow> bool" where
  "slot_claimable tnow db kinds r \<longleftrightarrow>
     (op_state r = Queued \<or> op_state r = Running \<or> (op_state r = RetryableFailed \<and> op_retry_at r \<noteq> None) \<or>
      finalizer_due tnow db r) \<and>
     lease_free tnow r \<and> op_kind r \<in> set kinds"

definition delete_first :: "OperationRow \<Rightarrow> nat" where
  "delete_first r = (if op_kind r = ''tenant.delete'' then 0 else 1)"

text \<open>
  \<open>ORDER BY organization_id, delete first, created_at\<close> with \<open>DISTINCT ON (organization_id)\<close>: the order
  of the organizations does not matter for the result, which is ordered by \<open>created_at\<close> again.
\<close>

definition slot_candidates :: "instant \<Rightarrow> Db \<Rightarrow> string list \<Rightarrow> OperationRow list" where
  "slot_candidates tnow db kinds =
     sort_key op_created_at (distinct_on op_organization_id
       (sort_key delete_first (sort_key op_created_at
         (filter (slot_claimable tnow db kinds) (db_operations db)))))"

definition quota_of :: "Db \<Rightarrow> string \<Rightarrow> QuotaRow option" where
  "quota_of db org = List.find (\<lambda>q. qt_organization_id q = org) (db_quotas db)"

definition max_provisioning_ops :: "Db \<Rightarrow> string \<Rightarrow> int" where
  "max_provisioning_ops db org =
     (case quota_of db org of None \<Rightarrow> 1 | Some q \<Rightarrow> qt_max_concurrent_provisioning_ops q)"

definition live :: "instant \<Rightarrow> OperationRow \<Rightarrow> bool" where
  "live clk r \<longleftrightarrow> op_state r = Running \<and> is_some_and (op_lease_expires_at r) (\<lambda>e. clk < e)"

definition active_others :: "instant \<Rightarrow> Db \<Rightarrow> string list \<Rightarrow> OperationRow \<Rightarrow> nat" where
  "active_others clk db kinds r =
     rows_affected (\<lambda>q. op_organization_id q = op_organization_id r \<and> op_id q \<noteq> op_id r \<and>
       live clk q \<and> op_kind q \<in> set kinds) (db_operations db)"

text \<open>
  One round of the loop: a transaction that holds the organization's advisory lock, selects the
  candidate again, compares the live operations with the quota and takes the lease.
\<close>

definition slot_attempt ::
  "string \<Rightarrow> instant \<Rightarrow> instant \<Rightarrow> Db \<Rightarrow> string \<Rightarrow> string list \<Rightarrow> string \<Rightarrow> Db \<times> LeaseGuard option" where
  "slot_attempt token tnow clk db owner kinds operation_id =
     (case List.find (\<lambda>r. op_id r = operation_id \<and> slot_claimable tnow db kinds r) (db_operations db) of
        None \<Rightarrow> (db, None)
      | Some r \<Rightarrow>
          if max_provisioning_ops db (op_organization_id r) \<le> int (active_others clk db kinds r)
          then (db, None)
          else lease_row owner token tnow clk db r)"

text \<open>
  The loop over the candidates. Between two transactions the rest of the system may change the
  database (\<open>env\<close>); each round has its own token and times.
\<close>

fun slot_loop ::
  "(nat \<Rightarrow> string) \<Rightarrow> (nat \<Rightarrow> instant) \<Rightarrow> (nat \<Rightarrow> instant) \<Rightarrow> (nat \<Rightarrow> Db \<Rightarrow> Db) \<Rightarrow> nat \<Rightarrow> Db \<Rightarrow> string \<Rightarrow>
   string list \<Rightarrow> OperationRow list \<Rightarrow> Db \<times> LeaseGuard option" where
  "slot_loop token tnow clk env i db owner kinds [] = (db, None)"
| "slot_loop token tnow clk env i db owner kinds (r # rs) =
     (case slot_attempt (token i) (tnow i) (clk i) (env i db) owner kinds (op_id r) of
        (db', Some g) \<Rightarrow> (db', Some g)
      | (db', None) \<Rightarrow> slot_loop token tnow clk env (i + 1) db' owner kinds rs)"

definition claim_kinds_with_org_slot ::
  "(nat \<Rightarrow> string) \<Rightarrow> (nat \<Rightarrow> instant) \<Rightarrow> (nat \<Rightarrow> instant) \<Rightarrow> (nat \<Rightarrow> Db \<Rightarrow> Db) \<Rightarrow> instant \<Rightarrow> Db \<Rightarrow> string \<Rightarrow>
   string list \<Rightarrow> Db \<times> LeaseGuard option" where
  "claim_kinds_with_org_slot token tnow clk env now0 db owner kinds =
     (if kinds = [] then (db, None)
      else slot_loop token tnow clk env 0 db owner kinds (slot_candidates now0 db kinds))"

section \<open>Working under a lease\<close>

text \<open>The condition of the statements that check id, owner, token and a live lease.\<close>

definition guard_holds :: "LeaseGuard \<Rightarrow> instant \<Rightarrow> OperationRow \<Rightarrow> bool" where
  "guard_holds g clk r \<longleftrightarrow> op_id r = lg_operation_id g \<and> op_lease_owner r = Some (lg_owner g) \<and>
     op_lease_token r = Some (lg_token g) \<and> is_some_and (op_lease_expires_at r) (\<lambda>e. clk < e)"

definition update_operations :: "(OperationRow \<Rightarrow> bool) \<Rightarrow> (OperationRow \<Rightarrow> OperationRow) \<Rightarrow> Db \<Rightarrow> Db \<times> bool" where
  "update_operations p f db =
     (db\<lparr>db_operations := update_where p f (db_operations db)\<rparr>, rows_affected p (db_operations db) = 1)"

definition clear_lease :: "OperationRow \<Rightarrow> OperationRow" where
  "clear_lease r = r\<lparr>op_lease_owner := None, op_lease_token := None, op_lease_expires_at := None\<rparr>"

definition lock_in_tx :: "LeaseGuard \<Rightarrow> instant \<Rightarrow> Db \<Rightarrow> bool" where
  "lock_in_tx g clk db \<longleftrightarrow>
     list_ex (\<lambda>r. guard_holds g clk r \<and> op_organization_id r = lg_organization_id g \<and> op_state r = Running)
       (db_operations db)"

definition complete_in_tx :: "LeaseGuard \<Rightarrow> instant \<Rightarrow> instant \<Rightarrow> Db \<Rightarrow> json \<Rightarrow> Db \<times> bool" where
  "complete_in_tx g tnow clk db result =
     update_operations (\<lambda>r. guard_holds g clk r \<and> op_state r = Running)
       (\<lambda>r. (clear_lease r)\<lparr>op_state := Succeeded, op_sanitized_result := Some result,
          op_error_code := None, op_retry_at := None, op_updated_at := tnow\<rparr>) db"

definition op_heartbeat :: "LeaseGuard \<Rightarrow> instant \<Rightarrow> instant \<Rightarrow> Db \<Rightarrow> Db \<times> bool" where
  "op_heartbeat g tnow clk db =
     update_operations (guard_holds g clk)
       (\<lambda>r. r\<lparr>op_lease_expires_at := Some (clk + LEASE_DURATION), op_updated_at := tnow\<rparr>) db"

definition requeue_after :: "LeaseGuard \<Rightarrow> instant \<Rightarrow> instant \<Rightarrow> Db \<Rightarrow> string \<Rightarrow> int \<Rightarrow> Db \<times> bool" where
  "requeue_after g tnow clk db waiting_step delay_secs =
     update_operations (\<lambda>r. guard_holds g clk r \<and> op_state r = Running)
       (\<lambda>r. (clear_lease r)\<lparr>op_state := Queued, op_current_step := Some waiting_step,
          op_attempt_count := max (op_attempt_count r - 1) 0,
          op_retry_at := Some (clk + seconds (nat (max delay_secs 0))), op_updated_at := tnow\<rparr>) db"

definition requeue :: "LeaseGuard \<Rightarrow> instant \<Rightarrow> instant \<Rightarrow> Db \<Rightarrow> string \<Rightarrow> Db \<times> bool" where
  "requeue g tnow clk db waiting_step = requeue_after g tnow clk db waiting_step 0"

definition op_complete :: "LeaseGuard \<Rightarrow> instant \<Rightarrow> instant \<Rightarrow> Db \<Rightarrow> json option \<Rightarrow> Db \<times> bool" where
  "op_complete g tnow clk db result =
     update_operations (guard_holds g clk)
       (\<lambda>r. (clear_lease r)\<lparr>op_state := Succeeded, op_sanitized_result := result,
          op_error_code := None, op_updated_at := tnow\<rparr>) db"

definition retry_delay :: "int \<Rightarrow> instant" where
  "retry_delay attempt = seconds (min (2 ^ nat (min (max attempt 1) 6)) 60)"

text \<open>\<open>fail\<close> reads the attempts in one statement and writes in a second one.\<close>

definition fail_attempts :: "LeaseGuard \<Rightarrow> Db \<Rightarrow> int" where
  "fail_attempts g db =
     (case List.find (\<lambda>r. op_id r = lg_operation_id g \<and> op_lease_owner r = Some (lg_owner g) \<and>
             op_lease_token r = Some (lg_token g)) (db_operations db) of
        Some r \<Rightarrow> op_attempt_count r | None \<Rightarrow> MAX_AUTOMATIC_ATTEMPTS)"

definition fail_write ::
  "LeaseGuard \<Rightarrow> instant \<Rightarrow> instant \<Rightarrow> instant \<Rightarrow> Db \<Rightarrow> int \<Rightarrow> bool \<Rightarrow> string option \<Rightarrow> Db \<times> bool" where
  "fail_write g tnow clk unow db attempts again error_code =
     (let state = (if again then RetryableFailed else Failed);
          retry_at = (if again \<and> attempts < MAX_AUTOMATIC_ATTEMPTS
                      then Some (unow + retry_delay attempts) else None)
      in update_operations (guard_holds g clk)
           (\<lambda>r. (clear_lease r)\<lparr>op_state := state, op_retry_at := retry_at,
              op_error_code := error_code, op_updated_at := tnow\<rparr>) db)"

definition op_fail ::
  "(Db \<Rightarrow> Db) \<Rightarrow> LeaseGuard \<Rightarrow> instant \<Rightarrow> instant \<Rightarrow> instant \<Rightarrow> Db \<Rightarrow> bool \<Rightarrow> string option \<Rightarrow> Db \<times> bool" where
  "op_fail env g tnow clk unow db again error_code =
     fail_write g tnow clk unow (env db) (fail_attempts g db) again error_code"

definition set_step :: "LeaseGuard \<Rightarrow> instant \<Rightarrow> instant \<Rightarrow> Db \<Rightarrow> string \<Rightarrow> Db \<times> bool" where
  "set_step g tnow clk db step =
     update_operations (guard_holds g clk) (\<lambda>r. r\<lparr>op_current_step := Some step, op_updated_at := tnow\<rparr>) db"

section \<open>Manual retry, supersession and reads\<close>

definition retry_allowed :: "instant \<Rightarrow> string \<Rightarrow> string \<Rightarrow> OperationRow \<Rightarrow> bool" where
  "retry_allowed clk i org r \<longleftrightarrow> op_id r = i \<and> op_organization_id r = org \<and>
     (op_state r = RetryableFailed \<or>
      (op_state r = Failed \<and> op_kind r = ''org.provision'' \<and> op_error_code r = Some ''IMPORT_FAILED'') \<or>
      (op_state r = Failed \<and> op_kind r = ''template.promote'')) \<and>
     is_none_or (op_lease_expires_at r) (\<lambda>e. e < clk)"

definition retry_in_tx :: "instant \<Rightarrow> instant \<Rightarrow> Db \<Rightarrow> string \<Rightarrow> string \<Rightarrow> Db managed" where
  "retry_in_tx tnow clk db i org =
     (case update_operations (retry_allowed clk i org)
             (\<lambda>r. (clear_lease r)\<lparr>op_state := Queued, op_retry_at := None, op_error_code := None,
                op_attempt_count := 0, op_updated_at := tnow\<rparr>) db of
        (db', True) \<Rightarrow> Inr db'
      | (_, False) \<Rightarrow> Inl (Conflict ''operation is not available for retry''))"

text \<open>Tenant deletion cancels the workspace creations of the tenant that ran out of attempts.\<close>

definition cancel_abandoned :: "instant \<Rightarrow> Db \<Rightarrow> string \<Rightarrow> string \<Rightarrow> Db" where
  "cancel_abandoned tnow db tenant org =
     fst (update_operations
       (\<lambda>r. list_ex (\<lambda>w. Some (wk_id w) = op_resource_id r \<and> wk_tenant_id w = tenant \<and>
              wk_organization_id w = org) (db_workspaces db) \<and>
            op_kind r = ''tenant.workspace'' \<and> op_state r = RetryableFailed \<and> op_retry_at r = None)
       (\<lambda>r. (clear_lease r)\<lparr>op_state := Cancelled, op_retry_at := None,
          op_sanitized_result := Some (JObj [(''status'', JStr ''superseded_by_tenant_delete'')]),
          op_error_code := None, op_updated_at := tnow\<rparr>) db)"

definition get_scoped :: "Db \<Rightarrow> string \<Rightarrow> string \<Rightarrow> OperationRow option" where
  "get_scoped db org i = List.find (\<lambda>r. op_id r = i \<and> op_organization_id r = org) (db_operations db)"

definition op_is_leased_to :: "instant \<Rightarrow> Db \<Rightarrow> string \<Rightarrow> string \<Rightarrow> bool managed" where
  "op_is_leased_to unow db i owner =
     (case List.find (\<lambda>r. op_id r = i) (db_operations db) of
        None \<Rightarrow> Inl (Database ''no rows returned by a query that expected to return at least one row'')
      | Some r \<Rightarrow> Inr (op_lease_owner r = Some owner \<and> is_some_and (op_lease_expires_at r) (\<lambda>e. unow < e)))"

end
