(* ===== verification/Manager_Outbox.thy ===== *)
theory Manager_Outbox
  imports Manager_Operations
begin

text \<open>
  \<open>src/crates/openflows-manager/src/outbox.rs\<close>: side effects are rows written with the state change
  that causes them, delivered by leased workers. Arguments are as for the operations; \<open>parse_uuid\<close>
  is the UUID parser of the \<open>uuid\<close> crate, which gives the canonical text or fails.
\<close>

record OutboxClaim =
  oc_id :: string
  oc_organization_id :: "string option"
  oc_event_type :: string
  oc_payload :: "json option"
  oc_attempts :: int
  oc_owner :: string
  oc_token :: string

definition insert_in_tx ::
  "string \<Rightarrow> instant \<Rightarrow> Db \<Rightarrow> string option \<Rightarrow> string \<Rightarrow> json option \<Rightarrow> Db" where
  "insert_in_tx new_id tnow db org event_type payload =
     db\<lparr>db_outbox := db_outbox db @
       [\<lparr>ox_id = new_id, ox_organization_id = org, ox_event_type = event_type, ox_payload = payload,
         ox_attempts = 0, ox_lease_owner = None, ox_lease_token = None, ox_lease_expires_at = None,
         ox_delivered_at = None, ox_retry_at = None, ox_failed_at = None, ox_created_at = tnow\<rparr>]\<rparr>"

section \<open>Claiming\<close>

definition deliverable :: "instant \<Rightarrow> instant \<Rightarrow> string list option \<Rightarrow> OutboxRow \<Rightarrow> bool" where
  "deliverable tnow clk event_types r \<longleftrightarrow>
     ox_delivered_at r = None \<and> ox_failed_at r = None \<and>
     is_none_or (ox_retry_at r) (\<lambda>t. t \<le> clk) \<and>
     is_none_or event_types (\<lambda>ts. ox_event_type r \<in> set ts) \<and>
     is_none_or (ox_lease_expires_at r) (\<lambda>e. e < tnow)"

definition lease_event :: "string \<Rightarrow> string \<Rightarrow> instant \<Rightarrow> OutboxRow \<Rightarrow> OutboxRow" where
  "lease_event owner token clk r =
     r\<lparr>ox_lease_owner := Some owner, ox_lease_expires_at := Some (clk + LEASE_DURATION),
       ox_lease_token := Some token, ox_attempts := ox_attempts r + 1\<rparr>"

definition claim_of :: "string \<Rightarrow> string \<Rightarrow> OutboxRow \<Rightarrow> OutboxClaim" where
  "claim_of owner token r =
     \<lparr>oc_id = ox_id r, oc_organization_id = ox_organization_id r, oc_event_type = ox_event_type r,
      oc_payload = ox_payload r, oc_attempts = ox_attempts r, oc_owner = owner, oc_token = token\<rparr>"

text \<open>A negative limit is an error of the statement; the callers pass positive constants.\<close>

definition claim_filtered ::
  "string \<Rightarrow> instant \<Rightarrow> instant \<Rightarrow> string list \<Rightarrow> Db \<Rightarrow> string \<Rightarrow> nat \<Rightarrow> string list option \<Rightarrow> Db \<times> OutboxClaim list" where
  "claim_filtered token tnow clk skip db owner limit event_types =
     (let chosen = take limit (filter (\<lambda>r. deliverable tnow clk event_types r \<and> ox_id r \<notin> set skip)
                     (sort_key ox_created_at (db_outbox db)));
          ids = map ox_id chosen;
          rows = update_where (\<lambda>r. ox_id r \<in> set ids) (lease_event owner token clk) (db_outbox db)
      in (db\<lparr>db_outbox := rows\<rparr>,
          map (claim_of owner token) (filter (\<lambda>r. ox_id r \<in> set ids) rows)))"

definition outbox_claim ::
  "string \<Rightarrow> instant \<Rightarrow> instant \<Rightarrow> string list \<Rightarrow> Db \<Rightarrow> string \<Rightarrow> nat \<Rightarrow> Db \<times> OutboxClaim list" where
  "outbox_claim token tnow clk skip db owner limit = claim_filtered token tnow clk skip db owner limit None"

section \<open>Delivering\<close>

definition claim_holds :: "OutboxClaim \<Rightarrow> instant \<Rightarrow> OutboxRow \<Rightarrow> bool" where
  "claim_holds c clk r \<longleftrightarrow> ox_id r = oc_id c \<and> ox_lease_owner r = Some (oc_owner c) \<and>
     ox_lease_token r = Some (oc_token c) \<and> is_some_and (ox_lease_expires_at r) (\<lambda>e. clk < e) \<and>
     ox_delivered_at r = None"

definition update_outbox :: "(OutboxRow \<Rightarrow> bool) \<Rightarrow> (OutboxRow \<Rightarrow> OutboxRow) \<Rightarrow> Db \<Rightarrow> Db \<times> bool" where
  "update_outbox p f db =
     (db\<lparr>db_outbox := update_where p f (db_outbox db)\<rparr>, rows_affected p (db_outbox db) = 1)"

definition clear_event_lease :: "OutboxRow \<Rightarrow> OutboxRow" where
  "clear_event_lease r = r\<lparr>ox_lease_owner := None, ox_lease_expires_at := None, ox_lease_token := None\<rparr>"

definition outbox_heartbeat :: "OutboxClaim \<Rightarrow> instant \<Rightarrow> Db \<Rightarrow> Db \<times> bool" where
  "outbox_heartbeat c clk db =
     update_outbox (claim_holds c clk) (\<lambda>r. r\<lparr>ox_lease_expires_at := Some (clk + LEASE_DURATION)\<rparr>) db"

definition mark_delivered :: "OutboxClaim \<Rightarrow> instant \<Rightarrow> instant \<Rightarrow> Db \<Rightarrow> Db \<times> bool" where
  "mark_delivered c tnow clk db =
     update_outbox (claim_holds c clk) (\<lambda>r. (clear_event_lease r)\<lparr>ox_delivered_at := Some tnow\<rparr>) db"

definition release_lease :: "OutboxClaim \<Rightarrow> instant \<Rightarrow> Db \<Rightarrow> Db \<times> bool" where
  "release_lease c clk db = update_outbox (claim_holds c clk) clear_event_lease db"

text \<open>The operation an event belongs to: queued, never leased, of the event's organization and type.\<close>

definition owned_operation :: "OutboxClaim \<Rightarrow> string \<Rightarrow> OperationRow \<Rightarrow> bool" where
  "owned_operation c i r \<longleftrightarrow> op_id r = i \<and> Some (op_organization_id r) = oc_organization_id c \<and>
     op_kind r = oc_event_type c \<and> op_state r = Queued \<and> op_lease_owner r = None"

definition payload_operation :: "OutboxClaim \<Rightarrow> string option" where
  "payload_operation c =
     Option.bind (Option.bind (oc_payload c) (\<lambda>p. json_get p ''operation_id'')) as_str"

definition complete_operation_delivery ::
  "(string \<Rightarrow> string option) \<Rightarrow> OutboxClaim \<Rightarrow> instant \<Rightarrow> instant \<Rightarrow> Db \<Rightarrow> (Db \<times> bool) managed" where
  "complete_operation_delivery parse_uuid c tnow clk db =
     (case (case payload_operation c of
              None \<Rightarrow> Inr None
            | Some raw \<Rightarrow> (case parse_uuid raw of
                 None \<Rightarrow> Inl (InvalidInput ''invalid operation id in outbox'')
               | Some i \<Rightarrow> Inr (Some i))) of
        Inl e \<Rightarrow> Inl e
      | Inr operation_id \<Rightarrow>
          (case mark_delivered c tnow clk db of
             (_, False) \<Rightarrow> Inr (db, False)
           | (db', True) \<Rightarrow>
               (case operation_id of
                  None \<Rightarrow> Inr (db', True)
                | Some i \<Rightarrow>
                    (case update_operations (owned_operation c i)
                            (\<lambda>r. r\<lparr>op_state := Succeeded, op_updated_at := tnow\<rparr>) db' of
                       (db'', True) \<Rightarrow> Inr (db'', True)
                     | (_, False) \<Rightarrow> Inl (Service ''outbox operation is not queued or scope mismatched'')))))"

definition delivery_delay :: "int \<Rightarrow> nat" where
  "delivery_delay attempts = 2 ^ nat (min (max attempts 1) 8)"

definition fail_delivery ::
  "(string \<Rightarrow> string option) \<Rightarrow> OutboxClaim \<Rightarrow> instant \<Rightarrow> instant \<Rightarrow> Db \<Rightarrow> bool \<Rightarrow> Db \<times> bool" where
  "fail_delivery parse_uuid c tnow clk db permanent =
     (case update_outbox (\<lambda>r. claim_holds c clk r \<and> ox_failed_at r = None)
             (\<lambda>r. (clear_event_lease r)\<lparr>
                ox_retry_at := if permanent then None else Some (clk + seconds (delivery_delay (oc_attempts c))),
                ox_failed_at := if permanent then Some clk else None\<rparr>) db of
        (db', changed) \<Rightarrow>
          (case (if changed \<and> permanent then Option.bind (payload_operation c) parse_uuid else None) of
             None \<Rightarrow> (db', changed)
           | Some i \<Rightarrow>
               (fst (update_operations (owned_operation c i)
                  (\<lambda>r. r\<lparr>op_state := Failed, op_error_code := Some ''CONNECTION_JOB_FAILED'', op_updated_at := tnow\<rparr>) db'),
                changed)))"

section \<open>Reads\<close>

definition pending_count :: "instant \<Rightarrow> Db \<Rightarrow> string \<Rightarrow> nat" where
  "pending_count tnow db owner =
     rows_affected (\<lambda>r. ox_delivered_at r = None \<and> ox_failed_at r = None \<and>
       (is_none_or (ox_lease_expires_at r) (\<lambda>e. e < tnow) \<or> ox_lease_owner r = Some owner)) (db_outbox db)"

definition outbox_is_leased_to :: "instant \<Rightarrow> Db \<Rightarrow> string \<Rightarrow> string \<Rightarrow> bool managed" where
  "outbox_is_leased_to unow db i owner =
     (case List.find (\<lambda>r. ox_id r = i) (db_outbox db) of
        None \<Rightarrow> Inl (Database ''no rows returned by a query that expected to return at least one row'')
      | Some r \<Rightarrow> Inr (ox_lease_owner r = Some owner \<and> is_some_and (ox_lease_expires_at r) (\<lambda>e. unow < e)))"

end
