(* ===== verification/Manager_Queue.thy ===== *)
theory Manager_Queue
  imports Manager_Outbox Reachability
begin

text \<open>
  The two work queues of the Manager as one transition system: every statement and transaction of
  any number of Manager instances, in any order, with the database clock moving forward. A step has
  the start of its transaction, the time of its statement and the operation; a claim has a token
  never used before, a new row a new id. Other parts of the Manager may change the other tables.
\<close>

record QueueSys =
  qs_db :: Db
  qs_clock :: instant
  qs_tokens :: "string set"

datatype QueueOp =
    Create string NewOperation
  | Claim string "string list" string "string option"
  | Promote string "string list" string string
  | Slot string string "string list" string
  | CompleteTx LeaseGuard json
  | Heartbeat LeaseGuard
  | RequeueAfter LeaseGuard string int
  | Complete LeaseGuard "json option"
  | FailWrite LeaseGuard instant int bool "string option"
  | SetStep LeaseGuard string
  | Retry string string
  | CancelAbandoned string string
  | Insert string "string option" string "json option"
  | ClaimEvents string "string list" string nat "string list option"
  | EventHeartbeat OutboxClaim
  | MarkDelivered OutboxClaim
  | ReleaseLease OutboxClaim
  | CompleteDelivery OutboxClaim
  | FailDelivery OutboxClaim bool
  | Elsewhere Db

fun queue_effect :: "(string \<Rightarrow> string option) \<Rightarrow> instant \<Rightarrow> instant \<Rightarrow> Db \<Rightarrow> QueueOp \<Rightarrow> Db" where
  "queue_effect pu tnow clk db (Create i op) = op_create i tnow db op"
| "queue_effect pu tnow clk db (Claim token skip owner kind) = fst (claim_kind token tnow clk skip db owner kind)"
| "queue_effect pu tnow clk db (Promote token skip owner rel) = fst (claim_promote token tnow clk skip db owner rel)"
| "queue_effect pu tnow clk db (Slot token owner kinds i) = fst (slot_attempt token tnow clk db owner kinds i)"
| "queue_effect pu tnow clk db (CompleteTx g res) = fst (complete_in_tx g tnow clk db res)"
| "queue_effect pu tnow clk db (Heartbeat g) = fst (op_heartbeat g tnow clk db)"
| "queue_effect pu tnow clk db (RequeueAfter g st d) = fst (requeue_after g tnow clk db st d)"
| "queue_effect pu tnow clk db (Complete g res) = fst (op_complete g tnow clk db res)"
| "queue_effect pu tnow clk db (FailWrite g unow n again code) = fst (fail_write g tnow clk unow db n again code)"
| "queue_effect pu tnow clk db (SetStep g st) = fst (set_step g tnow clk db st)"
| "queue_effect pu tnow clk db (Retry i org) = (case retry_in_tx tnow clk db i org of Inl _ \<Rightarrow> db | Inr db' \<Rightarrow> db')"
| "queue_effect pu tnow clk db (CancelAbandoned tenant org) = cancel_abandoned tnow db tenant org"
| "queue_effect pu tnow clk db (Insert i org et payload) = insert_in_tx i tnow db org et payload"
| "queue_effect pu tnow clk db (ClaimEvents token skip owner n ets) =
     fst (claim_filtered token tnow clk skip db owner n ets)"
| "queue_effect pu tnow clk db (EventHeartbeat c) = fst (outbox_heartbeat c clk db)"
| "queue_effect pu tnow clk db (MarkDelivered c) = fst (mark_delivered c tnow clk db)"
| "queue_effect pu tnow clk db (ReleaseLease c) = fst (release_lease c clk db)"
| "queue_effect pu tnow clk db (CompleteDelivery c) =
     (case complete_operation_delivery pu c tnow clk db of Inl _ \<Rightarrow> db | Inr (db', _) \<Rightarrow> db')"
| "queue_effect pu tnow clk db (FailDelivery c perm) = fst (fail_delivery pu c tnow clk db perm)"
| "queue_effect pu tnow clk db (Elsewhere db') = db'"

fun token_of :: "QueueOp \<Rightarrow> string set" where
  "token_of (Claim token _ _ _) = {token}"
| "token_of (Promote token _ _ _) = {token}"
| "token_of (Slot token _ _ _) = {token}"
| "token_of (ClaimEvents token _ _ _ _) = {token}"
| "token_of _ = {}"

fun admissible :: "Db \<Rightarrow> QueueOp \<Rightarrow> bool" where
  "admissible db (Create i _) = (i \<notin> op_id ` set (db_operations db))"
| "admissible db (Insert i _ _ _) = (i \<notin> ox_id ` set (db_outbox db))"
| "admissible db (Elsewhere db') = (db_operations db' = db_operations db \<and> db_outbox db' = db_outbox db)"
| "admissible db _ = True"

inductive queue_step :: "(string \<Rightarrow> string option) \<Rightarrow> QueueSys \<Rightarrow> instant \<times> instant \<times> QueueOp \<Rightarrow> QueueSys \<Rightarrow> bool"
  for pu :: "string \<Rightarrow> string option" where
  queue_stepI: "qs_clock c \<le> clk \<Longrightarrow> tnow \<le> clk \<Longrightarrow> token_of x \<inter> qs_tokens c = {} \<Longrightarrow> admissible (qs_db c) x \<Longrightarrow>
    queue_step pu c (tnow, clk, x)
      \<lparr>qs_db = queue_effect pu tnow clk (qs_db c) x, qs_clock = clk, qs_tokens = qs_tokens c \<union> token_of x\<rparr>"

inductive_cases queue_stepE: "queue_step pu c l c'"

definition queue_start :: "QueueSys \<Rightarrow> bool" where
  "queue_start c \<longleftrightarrow> db_operations (qs_db c) = [] \<and> db_outbox (qs_db c) = []"

section \<open>What a step does to an operation\<close>

text \<open>The columns no statement changes.\<close>

definition same_identity :: "OperationRow \<Rightarrow> OperationRow \<Rightarrow> bool" where
  "same_identity r r' \<longleftrightarrow> op_id r' = op_id r \<and> op_organization_id r' = op_organization_id r \<and>
     op_kind r' = op_kind r \<and> op_created_at r' = op_created_at r \<and> op_resource_id r' = op_resource_id r"

definition unleased :: "OperationRow \<Rightarrow> bool" where
  "unleased r \<longleftrightarrow> op_lease_owner r = None \<and> op_lease_token r = None \<and> op_lease_expires_at r = None"

text \<open>
  A row stays, or is leased under the token of the step when its lease is free, or is written by the holder of a live
  lease (keeping the lease and the state, or giving the lease up), or changes while nobody holds it.
\<close>

inductive row_change :: "instant \<Rightarrow> string set \<Rightarrow> OperationRow \<Rightarrow> OperationRow \<Rightarrow> bool"
  for clk :: instant and tokens :: "string set" where
  row_same: "row_change clk tokens r r"
| row_lease: "row_change clk tokens r (take_lease owner token tnow clk r)"
    if "token \<in> tokens" "tnow \<le> clk" "lease_free tnow r" "op_state r \<in> {Queued, Running, RetryableFailed}"
| row_kept: "row_change clk tokens r r'"
    if "guard_holds g clk r" "same_identity r r'" "op_state r' = op_state r"
      "op_lease_owner r' = op_lease_owner r" "op_lease_token r' = op_lease_token r" "op_lease_expires_at r' \<noteq> None"
| row_given_up: "row_change clk tokens r r'"
    if "guard_holds g clk r" "same_identity r r'" "unleased r'" "op_state r' \<noteq> Running"
| row_unheld: "row_change clk tokens r r'"
    if "op_state r \<in> {Queued, RetryableFailed, Failed}" "same_identity r r'" "unleased r'" "op_state r' \<noteq> Running"

lemmas row_change_intros = row_same row_lease row_kept row_given_up row_unheld

definition evolves :: "instant \<Rightarrow> string set \<Rightarrow> OperationRow list \<Rightarrow> OperationRow list \<Rightarrow> bool" where
  "evolves clk tokens rows rows' \<longleftrightarrow>
     (\<exists>f new. rows' = map f rows @ new \<and> (\<forall>r \<in> set rows. row_change clk tokens r (f r)) \<and>
        (\<forall>r \<in> set new. op_state r = Queued \<and> unleased r \<and> op_id r \<notin> op_id ` set rows) \<and> distinct (map op_id new))"

lemma evolves_refl: "evolves clk tokens rows rows"
  unfolding evolves_def by (intro exI [of _ id] exI [of _ "[]"]) (simp add: row_same)

lemma evolves_update:
  "(\<And>r. r \<in> set rows \<Longrightarrow> p r \<Longrightarrow> row_change clk tokens r (f r)) \<Longrightarrow> evolves clk tokens rows (update_where p f rows)"
  unfolding evolves_def update_where_def
  by (intro exI [of _ "\<lambda>r. if p r then f r else r"] exI [of _ "[]"]) (auto simp: row_same)

section \<open>The invariant of the operations table\<close>

definition row_ok :: "string set \<Rightarrow> OperationRow \<Rightarrow> bool" where
  "row_ok tokens r \<longleftrightarrow>
     (op_state r = Running \<longleftrightarrow> op_lease_token r \<noteq> None) \<and>
     (op_lease_owner r = None \<longleftrightarrow> op_lease_token r = None) \<and>
     (op_lease_expires_at r = None \<longleftrightarrow> op_lease_token r = None) \<and>
     is_none_or (op_lease_token r) (\<lambda>t. t \<in> tokens)"

definition operations_ok :: "QueueSys \<Rightarrow> bool" where
  "operations_ok c \<longleftrightarrow> (\<forall>r \<in> set (db_operations (qs_db c)). row_ok (qs_tokens c) r) \<and>
     distinct (map op_id (db_operations (qs_db c)))"

lemma row_change_ok:
  assumes "row_change clk new r r'" and "row_ok tokens r"
  shows "row_ok (tokens \<union> new) r' \<and> same_identity r r'"
  using assms
proof (cases rule: row_change.cases)
  case (row_kept g)
  then show ?thesis using assms(2) by (auto simp: row_ok_def guard_holds_def is_none_or_iff)
next
  case (row_given_up g)
  then show ?thesis by (auto simp: row_ok_def unleased_def)
qed (use assms(2) in \<open>auto simp: row_ok_def unleased_def take_lease_def same_identity_def is_none_or_iff\<close>)

lemma evolves_ok:
  assumes ev: "evolves clk new rows rows'" and ok: "\<forall>r \<in> set rows. row_ok tokens r" and d: "distinct (map op_id rows)"
  shows "(\<forall>r \<in> set rows'. row_ok (tokens \<union> new) r) \<and> distinct (map op_id rows')"
proof -
  from ev obtain f add where rows': "rows' = map f rows @ add" and ch: "\<forall>r \<in> set rows. row_change clk new r (f r)"
    and add: "\<forall>r \<in> set add. op_state r = Queued \<and> unleased r \<and> op_id r \<notin> op_id ` set rows" "distinct (map op_id add)"
    unfolding evolves_def by auto
  have f: "row_ok (tokens \<union> new) (f r) \<and> op_id (f r) = op_id r" if "r \<in> set rows" for r
    using row_change_ok [of clk new r "f r"] ch ok that by (auto simp: same_identity_def)
  then have ids: "map op_id rows' = map op_id rows @ map op_id add" by (simp add: rows')
  have "distinct (map op_id rows')" unfolding ids using d add by (auto simp: image_iff) (metis image_eqI)
  moreover have "row_ok (tokens \<union> new) r" if "r \<in> set add" for r
    using add that by (auto simp: row_ok_def unleased_def)
  ultimately show ?thesis using f by (auto simp: rows')
qed

text \<open>A statement under a guard: the lease and the state are kept, or the lease is given up.\<close>

lemma guarded_kept:
  assumes "guard_holds g clk r"
  shows "row_change clk tokens r (r\<lparr>op_current_step := st, op_updated_at := t\<rparr>)"
    and "row_change clk tokens r (r\<lparr>op_lease_expires_at := Some e, op_updated_at := t\<rparr>)"
  using assms by (auto intro!: row_kept [OF assms] simp: same_identity_def guard_holds_def is_some_and_iff)

lemma clear_lease_unleased [simp]:
  "unleased (clear_lease r)" "op_id (clear_lease r) = op_id r"
  "op_organization_id (clear_lease r) = op_organization_id r" "op_kind (clear_lease r) = op_kind r"
  "op_created_at (clear_lease r) = op_created_at r" "op_resource_id (clear_lease r) = op_resource_id r"
  by (simp_all add: clear_lease_def unleased_def)

lemma lease_row_evolves:
  assumes "r \<in> set (db_operations db)" and "distinct (map op_id (db_operations db))"
    and "tnow \<le> clk" and "lease_free tnow r" and "op_state r \<in> {Queued, Running, RetryableFailed}"
  shows "evolves clk {token} (db_operations db) (db_operations (fst (lease_row owner token tnow clk db r)))"
  unfolding lease_row_def fst_conv Db.select_convs Db.update_convs
proof -
  have "evolves clk {token} (db_operations db)
      (update_where (\<lambda>q. op_id q = op_id r) (take_lease owner token tnow clk) (db_operations db))"
  proof (rule evolves_update)
    fix q assume "q \<in> set (db_operations db)" "op_id q = op_id r"
    then have "q = r" using assms(1,2) distinct_key by metis
    then show "row_change clk {token} q (take_lease owner token tnow clk q)"
      using assms(3-5) by (auto intro: row_lease)
  qed
  then show "evolves clk {token} (db_operations db) (db_operations (db\<lparr>db_operations :=
      update_where (\<lambda>q. op_id q = op_id r) (take_lease owner token tnow clk) (db_operations db)\<rparr>))" by simp
qed

lemma find_in_set: "List.find p xs = Some x \<Longrightarrow> x \<in> set xs \<and> p x"
  by (auto simp: find_Some_iff)

lemma claim_oldest_evolves:
  assumes "distinct (map op_id (db_operations db))" and "tnow \<le> clk"
  shows "evolves clk {token} (db_operations db) (db_operations (fst (claim_oldest w token tnow clk skip db owner)))"
proof (cases "List.find (\<lambda>r. w r \<and> claimable tnow r \<and> op_id r \<notin> set skip) (sort_key op_created_at (db_operations db))")
  case None
  then show ?thesis by (simp add: claim_oldest_def evolves_refl)
next
  case (Some r)
  with find_in_set [OF this] lease_row_evolves [OF _ assms, of r token owner] show ?thesis
    by (auto simp: claim_oldest_def claimable_def)
qed

lemma slot_attempt_evolves:
  assumes "distinct (map op_id (db_operations db))" and "tnow \<le> clk"
  shows "evolves clk {token} (db_operations db) (db_operations (fst (slot_attempt token tnow clk db owner kinds i)))"
proof (cases "List.find (\<lambda>r. op_id r = i \<and> slot_claimable tnow db kinds r) (db_operations db)")
  case None
  then show ?thesis by (simp add: slot_attempt_def evolves_refl)
next
  case (Some r)
  with find_in_set [OF this] lease_row_evolves [OF _ assms, of r token owner] show ?thesis
    by (auto simp: slot_attempt_def slot_claimable_def finalizer_due_def evolves_refl)
qed

lemma update_operations_fst:
  "db_operations (fst (update_operations p f db)) = update_where p f (db_operations db)"
  by (simp add: update_operations_def)

lemma update_outbox_operations [simp]: "db_operations (fst (update_outbox p f db)) = db_operations db"
  by (simp add: update_outbox_def)

text \<open>Rows without a lease owner are unleased under the invariant.\<close>

lemma row_ok_unleased: "row_ok tokens r \<Longrightarrow> op_state r \<noteq> Running \<Longrightarrow> unleased r"
  by (auto simp: row_ok_def unleased_def)

lemma owned_operation_evolves:
  assumes "\<forall>r \<in> set rows. row_ok tokens r" and "st \<noteq> Running"
  shows "evolves clk new rows (update_where (owned_operation c i) (\<lambda>r. r\<lparr>op_state := st, op_updated_at := t\<rparr>) rows)"
    and "evolves clk new rows (update_where (owned_operation c i)
      (\<lambda>r. r\<lparr>op_state := st, op_error_code := code, op_updated_at := t\<rparr>) rows)"
proof -
  have "row_change clk new r r'"
    if "r \<in> set rows" "owned_operation c i r" "same_identity r r'" "op_state r' = st"
      "op_lease_owner r' = op_lease_owner r" "op_lease_token r' = op_lease_token r"
      "op_lease_expires_at r' = op_lease_expires_at r" for r r'
    using that assms row_ok_unleased [of tokens r]
    by (intro row_unheld) (auto simp: owned_operation_def unleased_def)
  then show "evolves clk new rows (update_where (owned_operation c i) (\<lambda>r. r\<lparr>op_state := st, op_updated_at := t\<rparr>) rows)"
    and "evolves clk new rows (update_where (owned_operation c i)
      (\<lambda>r. r\<lparr>op_state := st, op_error_code := code, op_updated_at := t\<rparr>) rows)"
    by (auto intro!: evolves_update simp: same_identity_def)
qed

lemma complete_delivery_evolves:
  assumes "\<forall>r \<in> set (db_operations db). row_ok tokens r"
    and "complete_operation_delivery pu c tnow clk db = Inr (db', b)"
  shows "evolves clk new (db_operations db) (db_operations db')"
proof -
  let ?d = "fst (mark_delivered c tnow clk db)"
  have ops: "db_operations ?d = db_operations db" by (simp add: mark_delivered_def)
  have "db' = db \<or> db' = ?d \<or>
      (\<exists>i. db' = fst (update_operations (owned_operation c i) (\<lambda>r. r\<lparr>op_state := Succeeded, op_updated_at := tnow\<rparr>) ?d))"
    using assms(2) unfolding complete_operation_delivery_def
    by (auto split: option.splits sum.splits prod.splits bool.splits) (metis fst_conv)
  then show ?thesis
    using owned_operation_evolves(1) [OF assms(1), of Succeeded clk new c] ops
    by (auto simp: evolves_refl update_operations_fst)
qed

lemma fail_delivery_evolves:
  assumes "\<forall>r \<in> set (db_operations db). row_ok tokens r"
  shows "evolves clk new (db_operations db) (db_operations (fst (fail_delivery pu c tnow clk db perm)))"
  using owned_operation_evolves(2) [OF assms, of Failed clk new c]
  by (auto simp: fail_delivery_def evolves_refl update_operations_fst update_outbox_def split: prod.splits option.splits)

lemma retry_evolves:
  "evolves clk new (db_operations db)
    (db_operations (case retry_in_tx tnow clk' db i org of Inl _ \<Rightarrow> db | Inr db' \<Rightarrow> db'))"
proof -
  let ?u = "update_operations (retry_allowed clk' i org)
      (\<lambda>r. (clear_lease r)\<lparr>op_state := Queued, op_retry_at := None, op_error_code := None,
         op_attempt_count := 0, op_updated_at := tnow\<rparr>) db"
  have "evolves clk new (db_operations db) (db_operations (fst ?u))"
    unfolding update_operations_fst
    by (intro evolves_update row_unheld) (auto simp: retry_allowed_def same_identity_def unleased_def clear_lease_def)
  then show ?thesis
    by (cases ?u) (auto simp: retry_in_tx_def evolves_refl split: bool.splits)
qed

lemma cancel_evolves: "evolves clk new (db_operations db) (db_operations (cancel_abandoned tnow db tenant org))"
  unfolding cancel_abandoned_def update_operations_fst
  by (intro evolves_update row_unheld) (auto simp: same_identity_def unleased_def clear_lease_def)

lemma create_evolves:
  "i \<notin> op_id ` set (db_operations db) \<Longrightarrow>
   evolves clk new (db_operations db) (db_operations (op_create i tnow db op))"
  unfolding evolves_def
  by (intro exI [of _ id] exI [of _ "[last (db_operations (op_create i tnow db op))]"])
    (simp add: op_create_def row_same unleased_def)

text \<open>The statements under a guard.\<close>

lemma guarded_evolves:
  "evolves clk new (db_operations db) (db_operations (fst (complete_in_tx g tnow clk db res)))"
  "evolves clk new (db_operations db) (db_operations (fst (op_heartbeat g tnow clk db)))"
  "evolves clk new (db_operations db) (db_operations (fst (requeue_after g tnow clk db st d)))"
  "evolves clk new (db_operations db) (db_operations (fst (op_complete g tnow clk db ores)))"
  "evolves clk new (db_operations db) (db_operations (fst (fail_write g tnow clk unow db n again code)))"
  "evolves clk new (db_operations db) (db_operations (fst (set_step g tnow clk db st)))"
  unfolding complete_in_tx_def op_heartbeat_def requeue_after_def op_complete_def fail_write_def set_step_def
    update_operations_fst Let_def
  by (rule evolves_update; auto intro!: row_given_up guarded_kept
      simp: same_identity_def unleased_def clear_lease_def)+

lemma effect_evolves:
  assumes "\<forall>r \<in> set (db_operations db). row_ok tokens r" and "distinct (map op_id (db_operations db))"
    and "tnow \<le> clk" and "admissible db x"
  shows "evolves clk (token_of x) (db_operations db) (db_operations (queue_effect pu tnow clk db x))"
proof (cases x)
  case (CompleteDelivery c)
  then show ?thesis
    using complete_delivery_evolves [OF assms(1), of pu c tnow clk]
    by (auto simp: evolves_refl split: sum.splits)
qed (use assms in \<open>auto simp: claim_kind_def claim_promote_def claim_oldest_evolves slot_attempt_evolves guarded_evolves
  retry_evolves cancel_evolves create_evolves fail_delivery_evolves insert_in_tx_def claim_filtered_def Let_def
  outbox_heartbeat_def mark_delivered_def release_lease_def evolves_refl\<close>)

lemma operations_ok_step:
  assumes "queue_step pu c l c'" and "operations_ok c"
  shows "operations_ok c'"
  using assms(1)
proof cases
  case (queue_stepI clk tnow x)
  have ok: "\<forall>r \<in> set (db_operations (qs_db c)). row_ok (qs_tokens c) r" "distinct (map op_id (db_operations (qs_db c)))"
    using assms(2) by (auto simp: operations_ok_def)
  from evolves_ok [OF effect_evolves [OF ok, of tnow clk x pu] ok] queue_stepI show ?thesis
    by (simp add: operations_ok_def)
qed

interpretation queuesys: invariant_system queue_start "queue_step pu" operations_ok for pu
  by unfold_locales (simp add: queue_start_def operations_ok_def, rule operations_ok_step)

end
