(* ===== verification/Queue_Properties.thy ===== *)
theory Queue_Properties
  imports Manager_Queue
begin

text \<open>
  Correctness of the Manager's work queues over all interleavings: leases are exclusive and a worker
  that lost its lease is powerless, the provisioning slots of an organization are never exceeded,
  finished work stays finished, claims are fair, outbox events are delivered at most once, and the
  back-off delays are bounded.
\<close>

section \<open>Stale workers\<close>

text \<open>The guard that a step hands out.\<close>

fun handed :: "instant \<Rightarrow> instant \<Rightarrow> Db \<Rightarrow> QueueOp \<Rightarrow> LeaseGuard option" where
  "handed tnow clk db (Claim token skip owner kind) = snd (claim_kind token tnow clk skip db owner kind)"
| "handed tnow clk db (Promote token skip owner rel) = snd (claim_promote token tnow clk skip db owner rel)"
| "handed tnow clk db (Slot token owner kinds i) = snd (slot_attempt token tnow clk db owner kinds i)"
| "handed tnow clk db _ = None"

definition stale :: "LeaseGuard \<Rightarrow> QueueSys \<Rightarrow> bool" where
  "stale g c \<longleftrightarrow> operations_ok c \<and> lg_token g \<in> qs_tokens c \<and>
     (\<forall>r \<in> set (db_operations (qs_db c)). op_id r = lg_operation_id g \<longrightarrow> op_lease_token r \<noteq> Some (lg_token g))"

lemma step_evolves:
  assumes "queue_step pu c (tnow, clk, x) c'" and "operations_ok c"
  shows "evolves clk (token_of x) (db_operations (qs_db c)) (db_operations (qs_db c')) \<and>
    token_of x \<inter> qs_tokens c = {} \<and> qs_tokens c' = qs_tokens c \<union> token_of x \<and> qs_clock c \<le> clk \<and> qs_clock c' = clk \<and>
    tnow \<le> clk \<and> admissible (qs_db c) x \<and> qs_db c' = queue_effect pu tnow clk (qs_db c) x"
  using assms effect_evolves [of "qs_db c" "qs_tokens c" tnow clk x pu]
  by (auto simp: operations_ok_def elim!: queue_stepE)

lemma row_change_token:
  assumes "row_change clk new r r'" and "op_lease_token r' = Some t"
  shows "op_lease_token r = Some t \<or> t \<in> new"
  using assms by cases (auto simp: take_lease_def unleased_def)

lemma stale_step:
  assumes "queue_step pu c l c'" and "stale g c"
  shows "stale g c'"
proof -
  obtain tnow clk x where l: "l = (tnow, clk, x)" by (cases l)
  have ok: "operations_ok c" using assms(2) by (simp add: stale_def)
  note st = step_evolves [OF assms(1)[unfolded l] ok]
  from st obtain f add where rows: "db_operations (qs_db c') = map f (db_operations (qs_db c)) @ add"
    and ch: "\<forall>r \<in> set (db_operations (qs_db c)). row_change clk (token_of x) r (f r)"
    and add: "\<forall>r \<in> set add. unleased r"
    unfolding evolves_def by blast
  have "op_id (f r) = op_id r" if "r \<in> set (db_operations (qs_db c))" for r
    using row_change_ok [of clk _ r "f r"] ch ok that by (auto simp: operations_ok_def same_identity_def)
  then show ?thesis
    using operations_ok_step [OF assms(1) ok] st assms(2) ch add row_change_token
    unfolding stale_def rows by (fastforce simp: unleased_def)
qed

interpretation stalesys: invariant_system "stale g" "queue_step pu" "stale g" for pu g
  by unfold_locales (auto intro: stale_step)

lemma update_operations_none:
  "\<forall>r \<in> set (db_operations db). \<not> p r \<Longrightarrow> update_operations p f db = (db, False)"
  by (simp add: update_operations_def rows_affected_0 [THEN iffD2])

text \<open>All the writes of a guard that matches no row do nothing.\<close>

definition powerless :: "LeaseGuard \<Rightarrow> Db \<Rightarrow> bool" where
  "powerless g db \<longleftrightarrow> (\<forall>tnow clk unow res ores st d n again code.
     \<not> lock_in_tx g clk db \<and> complete_in_tx g tnow clk db res = (db, False) \<and>
     op_heartbeat g tnow clk db = (db, False) \<and> requeue_after g tnow clk db st d = (db, False) \<and>
     op_complete g tnow clk db ores = (db, False) \<and> fail_write g tnow clk unow db n again code = (db, False) \<and>
     set_step g tnow clk db st = (db, False))"

lemma unmatched_powerless:
  assumes "\<forall>r \<in> set (db_operations db). op_id r = lg_operation_id g \<longrightarrow> op_lease_token r \<noteq> Some (lg_token g)"
  shows "powerless g db"
proof -
  have "\<forall>r \<in> set (db_operations db). \<not> guard_holds g clk r" for clk
    using assms by (auto simp: guard_holds_def)
  then show ?thesis
    unfolding powerless_def lock_in_tx_def complete_in_tx_def op_heartbeat_def requeue_after_def op_complete_def
      fail_write_def set_step_def Let_def
    by (auto simp: list_ex_iff intro!: update_operations_none)
qed

lemma claim_oldest_Some:
  assumes "snd (claim_oldest w token tnow clk skip db owner) = Some g"
  shows "\<exists>r \<in> set (db_operations db). w r \<and> claimable tnow r \<and>
    lease_row owner token tnow clk db r = (fst (claim_oldest w token tnow clk skip db owner), Some g)"
  using assms find_in_set
  by (fastforce simp: claim_oldest_def lease_row_def split: option.splits)

lemma slot_attempt_Some:
  assumes "snd (slot_attempt token tnow clk db owner kinds i) = Some g"
  shows "\<exists>r \<in> set (db_operations db). op_id r = i \<and> slot_claimable tnow db kinds r \<and>
    int (active_others clk db kinds r) < max_provisioning_ops db (op_organization_id r) \<and>
    lease_row owner token tnow clk db r = (fst (slot_attempt token tnow clk db owner kinds i), Some g)"
  using assms find_in_set
  by (fastforce simp: slot_attempt_def lease_row_def split: option.splits if_splits)

lemma handed_row:
  assumes "handed tnow clk db x = Some g"
  shows "\<exists>r \<in> set (db_operations db). op_id r = lg_operation_id g \<and> op_organization_id r = lg_organization_id g \<and>
    lease_free tnow r \<and> token_of x = {lg_token g} \<and>
    db_operations (queue_effect pu tnow clk db x) =
      update_where (\<lambda>q. op_id q = lg_operation_id g) (take_lease (lg_owner g) (lg_token g) tnow clk) (db_operations db)"
proof -
  have "\<exists>r \<in> set (db_operations db). \<exists>owner token. lease_free tnow r \<and> token_of x = {token} \<and>
      lease_row owner token tnow clk db r = (queue_effect pu tnow clk db x, Some g)"
  proof (cases x)
    case (Claim token skip owner kind)
    with assms claim_oldest_Some [of _ token tnow clk skip db owner g] show ?thesis
      by (auto simp: claim_kind_def claimable_def) blast
  next
    case (Promote token skip owner rel)
    with assms claim_oldest_Some [of _ token tnow clk skip db owner g] show ?thesis
      by (auto simp: claim_promote_def claimable_def) blast
  next
    case (Slot token owner kinds i)
    with assms slot_attempt_Some [of token tnow clk db owner kinds i g] show ?thesis
      by (auto simp: slot_claimable_def)
  qed (use assms in auto)
  then obtain r owner token where r: "r \<in> set (db_operations db)" "lease_free tnow r" "token_of x = {token}"
    and "lease_row owner token tnow clk db r = (queue_effect pu tnow clk db x, Some g)" by blast
  then have "queue_effect pu tnow clk db x = fst (lease_row owner token tnow clk db r)"
    and "g = \<lparr>lg_operation_id = op_id r, lg_organization_id = op_organization_id r, lg_owner = owner, lg_token = token\<rparr>"
    by (auto simp: lease_row_def)
  with r show ?thesis by (auto simp: lease_row_def)
qed

lemma take_lease_fields [simp]:
  "op_id (take_lease owner token tnow clk r) = op_id r"
  "op_lease_token (take_lease owner token tnow clk r) = Some token"
  "op_state (take_lease owner token tnow clk r) = Running"
  "op_organization_id (take_lease owner token tnow clk r) = op_organization_id r"
  "op_kind (take_lease owner token tnow clk r) = op_kind r"
  by (simp_all add: take_lease_def)

lemma claimed_over_is_stale:
  assumes "queue_step pu c (tnow, clk, x) c'" and "operations_ok c" and "handed tnow clk (qs_db c) x = Some g2"
    and "lg_operation_id g2 = lg_operation_id g" and "lg_token g \<in> qs_tokens c"
  shows "stale g c' \<and> (\<forall>r \<in> set (db_operations (qs_db c)). \<not> guard_holds g clk r)"
proof -
  note st = step_evolves [OF assms(1,2)]
  obtain r where r: "r \<in> set (db_operations (qs_db c))" "op_id r = lg_operation_id g2" "lease_free tnow r"
    and tok: "token_of x = {lg_token g2}"
    and rows: "db_operations (qs_db c') =
      update_where (\<lambda>q. op_id q = lg_operation_id g2) (take_lease (lg_owner g2) (lg_token g2) tnow clk)
        (db_operations (qs_db c))"
    using handed_row [OF assms(3), of pu] st by metis
  have "lg_token g \<noteq> lg_token g2" using st tok assms(5) by auto
  moreover have "op_lease_token q' = Some (lg_token g2)"
    if "q' \<in> set (db_operations (qs_db c'))" "op_id q' = lg_operation_id g" for q'
  proof -
    from that(1) obtain q where "q' = (if op_id q = lg_operation_id g2
        then take_lease (lg_owner g2) (lg_token g2) tnow clk q else q)"
      unfolding rows set_update_where by blast
    with that(2) assms(4) show ?thesis by (cases "op_id q = lg_operation_id g2") simp_all
  qed
  ultimately have "stale g c'"
    using operations_ok_step [OF assms(1,2)] st assms(5) unfolding stale_def by auto
  moreover have "\<not> guard_holds g clk q" if "q \<in> set (db_operations (qs_db c))" for q
  proof
    assume h: "guard_holds g clk q"
    then have "q = r"
      using assms(2,4) r that
      by (intro distinct_key [of op_id "db_operations (qs_db c)"]) (auto simp: operations_ok_def guard_holds_def)
    with h r(3) st show False by (auto simp: guard_holds_def lease_free_def is_some_and_iff)
  qed
  ultimately show ?thesis by blast
qed

text \<open>
  C16 (safety). Leases are exclusive and a stale worker is powerless. If a worker was handed an
  operation and, later in any run, the operation is handed out again, then the first lease had run out
  at that moment, and from then on every write of the first worker (heartbeat, step, completion, failure,
  requeueing, the lock of its transactions) is refused and changes nothing.
\<close>

theorem stale_worker_is_powerless:
  assumes "reach queue_start (queue_step pu) c"
    and "queue_step pu c (t1, k1, x1) c1" and "handed t1 k1 (qs_db c) x1 = Some g"
    and "reach (\<lambda>y. y = c1) (queue_step pu) c2"
    and "queue_step pu c2 (t2, k2, x2) c3" and "handed t2 k2 (qs_db c2) x2 = Some g2"
    and "lg_operation_id g2 = lg_operation_id g"
    and "reach (\<lambda>y. y = c3) (queue_step pu) c4"
  shows "(\<forall>r \<in> set (db_operations (qs_db c2)). \<not> guard_holds g k2 r) \<and> powerless g (qs_db c4)"
proof -
  have ok1: "operations_ok c1" using queuesys.reach_step_inv [OF assms(1,2)] .
  have tok1: "lg_token g \<in> qs_tokens c1"
    using handed_row [OF assms(3), of pu] step_evolves [OF assms(2) queuesys.reach_inv [OF assms(1)]] by blast
  have "operations_ok c2 \<and> lg_token g \<in> qs_tokens c2"
    using assms(4)
  proof (induction rule: reach.induct)
    case (reach_step s l s')
    obtain tnow clk x where "l = (tnow, clk, x)" by (cases l)
    with reach_step operations_ok_step step_evolves show ?case by blast
  qed (use ok1 tok1 in simp)
  then have s: "stale g c3 \<and> (\<forall>r \<in> set (db_operations (qs_db c2)). \<not> guard_holds g k2 r)"
    using claimed_over_is_stale [OF assms(5) _ assms(6,7)] by blast
  then have "reach (stale g) (queue_step pu) c4" using reach_mono [OF assms(8)] by blast
  then have "stale g c4" by (rule stalesys.reach_inv)
  then show ?thesis using s unmatched_powerless unfolding stale_def by blast
qed

text \<open>Two workers and one operation: the first worker's lease runs out and the second takes over.\<close>

definition demo_operation :: NewOperation where
  "demo_operation = \<lparr>no_organization_id = ''org'', no_resource_type = ''tenant'', no_resource_id = Some ''t1'',
     no_kind = ''tenant.provision'', no_idempotency_ref = None\<rparr>"

definition demo_empty :: QueueSys where
  "demo_empty = \<lparr>qs_db = \<lparr>db_organizations = [''org''], db_operations = [], db_outbox = [], db_tenants = [],
     db_workspaces = [], db_quotas = []\<rparr>, qs_clock = 0, qs_tokens = {}\<rparr>"

fun demo_run :: "(instant \<times> QueueOp) list \<Rightarrow> QueueSys \<Rightarrow> QueueSys" where
  "demo_run [] c = c"
| "demo_run ((k, x) # xs) c = demo_run xs
     \<lparr>qs_db = queue_effect Some k k (qs_db c) x, qs_clock = k, qs_tokens = qs_tokens c \<union> token_of x\<rparr>"

definition demo_created :: QueueSys where
  "demo_created = demo_run [(1, Create ''o1'' demo_operation)] demo_empty"

definition demo_first :: QueueSys where
  "demo_first = demo_run [(2, Slot ''k1'' ''w1'' [''tenant.provision''] ''o1'')] demo_created"

definition demo_second :: QueueSys where
  "demo_second = demo_run [(seconds 60, Slot ''k2'' ''w2'' [''tenant.provision''] ''o1'')] demo_first"

lemmas demo_eval = op_create_def slot_attempt_def slot_claimable_def finalizer_due_def lease_free_def lease_row_def
  max_provisioning_ops_def quota_of_def active_others_def rows_affected_def update_where_def take_lease_def
  LEASE_DURATION_def

lemmas demo_defs = demo_operation_def demo_empty_def demo_created_def demo_first_def demo_second_def

lemma demo_steps:
  "queue_start demo_empty"
  "queue_step Some demo_empty (1, 1, Create ''o1'' demo_operation) demo_created"
  "queue_step Some demo_created (2, 2, Slot ''k1'' ''w1'' [''tenant.provision''] ''o1'') demo_first"
  "queue_step Some demo_first (seconds 60, seconds 60, Slot ''k2'' ''w2'' [''tenant.provision''] ''o1'') demo_second"
proof -
  show "queue_start demo_empty" by (simp add: demo_defs queue_start_def)
  have "queue_step Some demo_empty (1, 1, Create ''o1'' demo_operation)
      \<lparr>qs_db = queue_effect Some 1 1 (qs_db demo_empty) (Create ''o1'' demo_operation), qs_clock = 1,
       qs_tokens = qs_tokens demo_empty \<union> token_of (Create ''o1'' demo_operation)\<rparr>"
    by (rule queue_stepI) (simp_all add: demo_defs)
  then show "queue_step Some demo_empty (1, 1, Create ''o1'' demo_operation) demo_created"
    by (simp add: demo_created_def)
  have "queue_step Some demo_created (2, 2, Slot ''k1'' ''w1'' [''tenant.provision''] ''o1'')
      \<lparr>qs_db = queue_effect Some 2 2 (qs_db demo_created) (Slot ''k1'' ''w1'' [''tenant.provision''] ''o1''), qs_clock = 2,
       qs_tokens = qs_tokens demo_created \<union> token_of (Slot ''k1'' ''w1'' [''tenant.provision''] ''o1'')\<rparr>"
    by (rule queue_stepI) (simp_all add: demo_defs)
  then show "queue_step Some demo_created (2, 2, Slot ''k1'' ''w1'' [''tenant.provision''] ''o1'') demo_first"
    by (simp add: demo_first_def)
  have "queue_step Some demo_first (seconds 60, seconds 60, Slot ''k2'' ''w2'' [''tenant.provision''] ''o1'')
      \<lparr>qs_db = queue_effect Some (seconds 60) (seconds 60) (qs_db demo_first) (Slot ''k2'' ''w2'' [''tenant.provision''] ''o1''),
       qs_clock = seconds 60, qs_tokens = qs_tokens demo_first \<union> token_of (Slot ''k2'' ''w2'' [''tenant.provision''] ''o1'')\<rparr>"
    by (rule queue_stepI) (simp_all add: demo_defs)
  then show "queue_step Some demo_first (seconds 60, seconds 60, Slot ''k2'' ''w2'' [''tenant.provision''] ''o1'') demo_second"
    by (simp add: demo_second_def)
qed

lemma demo_guards:
  "handed 2 2 (qs_db demo_created) (Slot ''k1'' ''w1'' [''tenant.provision''] ''o1'') =
     Some \<lparr>lg_operation_id = ''o1'', lg_organization_id = ''org'', lg_owner = ''w1'', lg_token = ''k1''\<rparr>"
  "handed (seconds 60) (seconds 60) (qs_db demo_first) (Slot ''k2'' ''w2'' [''tenant.provision''] ''o1'') =
     Some \<lparr>lg_operation_id = ''o1'', lg_organization_id = ''org'', lg_owner = ''w2'', lg_token = ''k2''\<rparr>"
  by (simp_all add: demo_defs demo_eval)

theorem stale_worker_is_powerless_witness:
  "snd (op_heartbeat \<lparr>lg_operation_id = ''o1'', lg_organization_id = ''org'', lg_owner = ''w2'', lg_token = ''k2''\<rparr>
     (seconds 61) (seconds 61) (qs_db demo_second)) \<and>
   powerless \<lparr>lg_operation_id = ''o1'', lg_organization_id = ''org'', lg_owner = ''w1'', lg_token = ''k1''\<rparr> (qs_db demo_second)"
proof -
  have r: "reach queue_start (queue_step Some) demo_created"
    by (rule reach_step [where l = "(1, 1, Create ''o1'' demo_operation)", OF reach_init [where init = queue_start]])
      (rule demo_steps)+
  have "snd (op_heartbeat \<lparr>lg_operation_id = ''o1'', lg_organization_id = ''org'', lg_owner = ''w2'', lg_token = ''k2''\<rparr>
     (seconds 61) (seconds 61) (qs_db demo_second))"
    by (simp add: demo_defs demo_eval op_heartbeat_def update_operations_def guard_holds_def)
  moreover have "powerless \<lparr>lg_operation_id = ''o1'', lg_organization_id = ''org'', lg_owner = ''w1'', lg_token = ''k1''\<rparr>
      (qs_db demo_second)"
    by (rule conjunct2 [OF stale_worker_is_powerless [OF r demo_steps(3) demo_guards(1) _ demo_steps(4) demo_guards(2)]])
      (auto intro: reach_init)
  ultimately show ?thesis by simp
qed

section \<open>Provisioning slots\<close>

text \<open>How many operations of the given kinds an organization has under a live lease.\<close>

definition occupied :: "string list \<Rightarrow> string \<Rightarrow> instant \<Rightarrow> OperationRow list \<Rightarrow> nat" where
  "occupied kinds org clk rows =
     rows_affected (\<lambda>r. op_organization_id r = org \<and> live clk r \<and> op_kind r \<in> set kinds) rows"

text \<open>
  The kinds are claimed through slots only, always with the same list, and quotas are not lowered.
\<close>

fun disciplined :: "string list \<Rightarrow> string \<Rightarrow> Db \<Rightarrow> QueueOp \<Rightarrow> bool" where
  "disciplined kinds org db (Claim _ _ _ kind) = is_some_and kind (\<lambda>k. k \<notin> set kinds)"
| "disciplined kinds org db (Promote _ _ _ _) = (''template.promote'' \<notin> set kinds)"
| "disciplined kinds org db (Slot _ _ ks _) = (ks = kinds)"
| "disciplined kinds org db (Elsewhere db') = (max_provisioning_ops db org \<le> max_provisioning_ops db' org)"
| "disciplined kinds org db _ = True"

definition slot_step ::
  "(string \<Rightarrow> string option) \<Rightarrow> string list \<Rightarrow> string \<Rightarrow> QueueSys \<Rightarrow> instant \<times> instant \<times> QueueOp \<Rightarrow> QueueSys \<Rightarrow> bool" where
  "slot_step pu kinds org c l c' \<longleftrightarrow> queue_step pu c l c' \<and> disciplined kinds org (qs_db c) (snd (snd l))"

definition slots_ok :: "string list \<Rightarrow> string \<Rightarrow> QueueSys \<Rightarrow> bool" where
  "slots_ok kinds org c \<longleftrightarrow> operations_ok c \<and>
     occupied kinds org (qs_clock c) (db_operations (qs_db c)) \<le> nat (max_provisioning_ops (qs_db c) org)"

lemma live_antimono: "live clk' r \<Longrightarrow> clk \<le> clk' \<Longrightarrow> live clk r"
  by (auto simp: live_def is_some_and_iff)

lemma rows_affected_mono: "(\<And>r. r \<in> set rows \<Longrightarrow> p r \<Longrightarrow> q r) \<Longrightarrow> rows_affected p rows \<le> rows_affected q rows"
  by (induction rows) (auto simp: rows_affected_def le_SucI)

lemma rows_affected_map:
  "(\<And>r. r \<in> set rows \<Longrightarrow> p (f r) \<Longrightarrow> q r) \<Longrightarrow> rows_affected p (map f rows) \<le> rows_affected q rows"
  by (induction rows) (auto simp: rows_affected_def le_SucI)

lemma rows_affected_append [simp]: "rows_affected p (xs @ ys) = rows_affected p xs + rows_affected p ys"
  by (simp add: rows_affected_def)

lemma occupied_later: "clk \<le> clk' \<Longrightarrow> occupied kinds org clk' rows \<le> occupied kinds org clk rows"
  unfolding occupied_def by (rule rows_affected_mono) (auto dest: live_antimono)

lemma row_change_live:
  assumes "row_change clk {} r r'" and "row_ok tokens r" and "live clk r'"
  shows "live clk r"
  using assms by cases (auto simp: row_ok_def live_def guard_holds_def)

lemma occupied_evolves:
  assumes "evolves clk {} rows rows'" and "\<forall>r \<in> set rows. row_ok tokens r"
  shows "occupied kinds org clk rows' \<le> occupied kinds org clk rows"
proof -
  from assms(1) obtain f add where rows': "rows' = map f rows @ add" and ch: "\<forall>r \<in> set rows. row_change clk {} r (f r)"
    and add: "\<forall>r \<in> set add. op_state r = Queued" unfolding evolves_def by auto
  have "occupied kinds org clk (map f rows) \<le> occupied kinds org clk rows"
    unfolding occupied_def
  proof (rule rows_affected_map)
    fix r assume "r \<in> set rows" "op_organization_id (f r) = org \<and> live clk (f r) \<and> op_kind (f r) \<in> set kinds"
    then show "op_organization_id r = org \<and> live clk r \<and> op_kind r \<in> set kinds"
      using ch assms(2) row_change_live [of clk r "f r"] row_change_ok [of clk "{}" r "f r"]
      by (auto simp: same_identity_def)
  qed
  moreover have "occupied kinds org clk add = 0"
    using add by (auto simp: occupied_def rows_affected_0 live_def)
  ultimately show ?thesis by (simp add: rows' occupied_def)
qed

lemma occupied_lease:
  assumes "distinct (map op_id rows)" and "r \<in> set rows"
  shows "occupied kinds org clk (update_where (\<lambda>q. op_id q = op_id r) (take_lease owner token tnow clk) rows) \<le>
    (if op_organization_id r = org \<and> op_kind r \<in> set kinds
     then rows_affected (\<lambda>q. op_organization_id q = org \<and> op_id q \<noteq> op_id r \<and> live clk q \<and> op_kind q \<in> set kinds) rows + 1
     else occupied kinds org clk rows)"
  using assms
proof (induction rows)
  case (Cons q rows)
  show ?case
  proof (cases "q = r")
    case True
    then have "\<forall>p \<in> set rows. op_id p \<noteq> op_id r" using Cons.prems by (force simp: image_iff)
    then have "rows_affected (\<lambda>q. op_organization_id q = org \<and> op_id q \<noteq> op_id r \<and> live clk q \<and> op_kind q \<in> set kinds) rows
        = occupied kinds org clk rows"
      and "update_where (\<lambda>q. op_id q = op_id r) (take_lease owner token tnow clk) rows = rows"
      unfolding occupied_def rows_affected_def by (auto intro!: arg_cong [of _ _ length] filter_cong)
    with True show ?thesis by (simp add: occupied_def rows_affected_def update_where_def)
  next
    case False
    with Cons.prems have "r \<in> set rows" "op_id q \<noteq> op_id r" by auto
    with Cons show ?thesis by (auto simp: occupied_def rows_affected_def update_where_def split: if_splits)
  qed
qed simp

lemma quotas_kept:
  assumes "\<forall>db'. x \<noteq> Elsewhere db'"
  shows "db_quotas (queue_effect pu tnow clk db x) = db_quotas db"
proof -
  have ops: "db_quotas (fst (update_operations p f d)) = db_quotas d" for p f d by (simp add: update_operations_def)
  have out: "db_quotas (fst (update_outbox p f d)) = db_quotas d" for p f d by (simp add: update_outbox_def)
  have claim: "db_quotas (fst (claim_oldest w token tnow clk skip d owner)) = db_quotas d" for w token skip d owner
    by (simp add: claim_oldest_def lease_row_def split: option.split)
  show ?thesis
  proof (cases x)
    case (Retry i org)
    then show ?thesis
      by (auto simp: retry_in_tx_def split: prod.splits sum.splits bool.splits) (metis fst_conv ops)
  next
    case (CompleteDelivery c)
    have "db_quotas db' = db_quotas db" if "complete_operation_delivery pu c tnow clk db = Inr (db', b)" for db' b
      using that unfolding complete_operation_delivery_def mark_delivered_def
      by (auto split: option.splits sum.splits prod.splits bool.splits) (metis fst_conv ops out)+
    with CompleteDelivery show ?thesis by (auto split: sum.splits)
  qed (use assms in \<open>auto simp: op_create_def claim claim_kind_def claim_promote_def slot_attempt_def lease_row_def
    complete_in_tx_def op_heartbeat_def requeue_after_def op_complete_def fail_write_def set_step_def ops
    cancel_abandoned_def insert_in_tx_def claim_filtered_def Let_def outbox_heartbeat_def mark_delivered_def
    release_lease_def out fail_delivery_def update_outbox_def split: option.splits\<close>)
qed

lemma max_ops_kept:
  assumes "disciplined kinds org db x"
  shows "max_provisioning_ops db org \<le> max_provisioning_ops (queue_effect pu tnow clk db x) org"
proof (cases "\<exists>db'. x = Elsewhere db'")
  case False
  then show ?thesis using quotas_kept [of x pu tnow clk db] by (simp add: max_provisioning_ops_def quota_of_def)
qed (use assms in auto)

lemma no_token_no_lease: "token_of x = {} \<or> (\<exists>token. token_of x = {token} \<and> ((\<exists>s w k. x = Claim token s w k) \<or>
   (\<exists>s w r. x = Promote token s w r) \<or> (\<exists>w ks i. x = Slot token w ks i) \<or> (\<exists>s w n e. x = ClaimEvents token s w n e)))"
  by (cases x) auto

lemma occupied_claim:
  assumes "distinct (map op_id (db_operations db))" and "\<And>r. w r \<Longrightarrow> op_kind r \<notin> set kinds"
  shows "occupied kinds org clk (db_operations (fst (claim_oldest w token tnow clk skip db owner))) \<le>
    occupied kinds org clk (db_operations db)"
proof (cases "List.find (\<lambda>r. w r \<and> claimable tnow r \<and> op_id r \<notin> set skip) (sort_key op_created_at (db_operations db))")
  case (Some r)
  from find_in_set [OF this] have "r \<in> set (db_operations db)" "op_kind r \<notin> set kinds" using assms(2) by auto
  with occupied_lease [OF assms(1), of r kinds org clk owner token tnow] Some show ?thesis
    by (simp add: claim_oldest_def lease_row_def)
qed (simp add: claim_oldest_def)

lemma occupied_slot:
  assumes "distinct (map op_id (db_operations db))"
    and "occupied kinds org clk (db_operations db) \<le> nat (max_provisioning_ops db org)"
  shows "occupied kinds org clk (db_operations (fst (slot_attempt token tnow clk db owner kinds i))) \<le>
    nat (max_provisioning_ops db org)"
proof (cases "List.find (\<lambda>r. op_id r = i \<and> slot_claimable tnow db kinds r) (db_operations db)")
  case (Some r)
  from find_in_set [OF this] have "r \<in> set (db_operations db)" by simp
  with occupied_lease [OF assms(1), of r kinds org clk owner token tnow] Some assms(2) show ?thesis
    by (auto simp: slot_attempt_def lease_row_def active_others_def split: if_splits)
qed (use assms(2) in \<open>simp add: slot_attempt_def\<close>)

lemma slots_ok_step:
  assumes "slot_step pu kinds org c l c'" and "slots_ok kinds org c"
  shows "slots_ok kinds org c'"
proof -
  obtain tnow clk x where l: "l = (tnow, clk, x)" by (cases l)
  have qs: "queue_step pu c (tnow, clk, x) c'" and disc: "disciplined kinds org (qs_db c) x"
    using assms(1) by (auto simp: slot_step_def l)
  have ok: "operations_ok c" using assms(2) by (simp add: slots_ok_def)
  then have d: "distinct (map op_id (db_operations (qs_db c)))"
    and rok: "\<forall>r \<in> set (db_operations (qs_db c)). row_ok (qs_tokens c) r" by (auto simp: operations_ok_def)
  note st = step_evolves [OF qs ok]
  let ?rows = "db_operations (qs_db c)" and ?rows' = "db_operations (queue_effect pu tnow clk (qs_db c) x)"
  let ?m = "nat (max_provisioning_ops (qs_db c) org)"
  have before: "occupied kinds org clk ?rows \<le> ?m"
    using assms(2) st occupied_later [of "qs_clock c" clk kinds org ?rows] by (simp add: slots_ok_def)
  have "occupied kinds org clk ?rows' \<le> ?m"
    using no_token_no_lease [of x]
  proof (elim disjE exE conjE)
    assume "token_of x = {}"
    then show ?thesis using occupied_evolves [OF _ rok, of clk ?rows' kinds org] st before by auto
  next
    fix token s w k assume "x = Claim token s w k"
    with disc before show ?thesis
      using occupied_claim [OF d, of "\<lambda>r. is_none_or k (\<lambda>k. op_kind r = k)" kinds org clk token tnow s w]
      by (auto simp: claim_kind_def is_some_and_iff)
  next
    fix token s w k assume "x = Promote token s w k"
    with disc before show ?thesis
      using occupied_claim [OF d, of "\<lambda>r. op_kind r = ''template.promote'' \<and> op_resource_id r = Some k" kinds org clk token tnow s w]
      by (auto simp: claim_promote_def)
  next
    fix token w ks i assume "x = Slot token w ks i"
    with disc occupied_slot [OF d before] show ?thesis by simp
  next
    fix token s w n e assume "x = ClaimEvents token s w n e"
    with before show ?thesis by (simp add: claim_filtered_def Let_def)
  qed
  also have "?m \<le> nat (max_provisioning_ops (qs_db c') org)"
    using max_ops_kept [OF disc, of pu tnow clk] st by (simp add: nat_mono)
  finally show ?thesis
    using operations_ok_step [OF qs ok] st by (simp add: slots_ok_def)
qed

interpretation slotsys: invariant_system queue_start "slot_step pu kinds org" "slots_ok kinds org" for pu kinds org
  by unfold_locales (simp add: queue_start_def slots_ok_def operations_ok_def occupied_def rows_affected_def,
    rule slots_ok_step)

text \<open>
  The provisioning slots of an organization are never exceeded: in every run in which
  the kinds are claimed through slots only and quotas are not lowered, the operations of those kinds that
  run under a live lease, now and at any later time before the next step, are at most the organization's quota
  (one without a quota row), however many Manager instances compete and however leases expire.
\<close>

theorem provisioning_slots_respected:
  assumes "reach queue_start (slot_step pu kinds org) c" and "qs_clock c \<le> clk"
  shows "occupied kinds org clk (db_operations (qs_db c)) \<le> nat (max_provisioning_ops (qs_db c) org)"
  using slotsys.reach_inv [OF assms(1)] occupied_later [OF assms(2)] le_trans unfolding slots_ok_def by blast

theorem provisioning_slots_respected_witness:
  "occupied [''tenant.provision''] ''org'' 3 (db_operations (qs_db demo_first)) = 1 \<and>
   occupied [''tenant.provision''] ''org'' 3 (db_operations (qs_db demo_first)) \<le>
     nat (max_provisioning_ops (qs_db demo_first) ''org'')"
proof -
  have "slot_step Some [''tenant.provision''] ''org'' demo_empty (1, 1, Create ''o1'' demo_operation) demo_created"
    "slot_step Some [''tenant.provision''] ''org'' demo_created (2, 2, Slot ''k1'' ''w1'' [''tenant.provision''] ''o1'') demo_first"
    using demo_steps by (simp_all add: slot_step_def)
  then have "reach queue_start (slot_step Some [''tenant.provision''] ''org'') demo_first"
    using demo_steps(1) by (meson reach_init reach_step)
  moreover have "qs_clock demo_first \<le> 3" by (simp add: demo_defs)
  ultimately have "occupied [''tenant.provision''] ''org'' 3 (db_operations (qs_db demo_first)) \<le>
      nat (max_provisioning_ops (qs_db demo_first) ''org'')"
    by (rule provisioning_slots_respected)
  moreover have "occupied [''tenant.provision''] ''org'' 3 (db_operations (qs_db demo_first)) = 1"
    by (simp add: demo_defs demo_eval occupied_def live_def)
  ultimately show ?thesis by simp
qed

section \<open>Finished operations\<close>

definition settled_row :: "OperationRow \<Rightarrow> QueueSys \<Rightarrow> bool" where
  "settled_row r c \<longleftrightarrow> operations_ok c \<and> r \<in> set (db_operations (qs_db c))"

lemma row_change_settled:
  "row_change clk new r r' \<Longrightarrow> row_ok tokens r \<Longrightarrow> op_state r \<in> {Succeeded, Cancelled} \<Longrightarrow> r' = r"
  by (erule row_change.cases) (auto simp: row_ok_def guard_holds_def)

lemma settled_row_step:
  assumes "op_state r \<in> {Succeeded, Cancelled}" and "queue_step pu c l c'" and "settled_row r c"
  shows "settled_row r c'"
proof -
  obtain tnow clk x where l: "l = (tnow, clk, x)" by (cases l)
  have ok: "operations_ok c" and r: "r \<in> set (db_operations (qs_db c))" using assms(3) by (auto simp: settled_row_def)
  then have "row_ok (qs_tokens c) r" by (auto simp: operations_ok_def)
  with step_evolves [OF assms(2)[unfolded l] ok] r assms(1) have "r \<in> set (db_operations (qs_db c'))"
    unfolding evolves_def by (auto simp: image_iff) (metis row_change_settled insertCI)+
  with operations_ok_step [OF assms(2) ok] show ?thesis by (simp add: settled_row_def)
qed

text \<open>
  Finished work stays finished: a row that is succeeded or cancelled is never changed again, by
  any statement of any worker, also not by a manual retry, a late completion or the outbox.
\<close>

theorem finished_operations_are_final:
  assumes "reach queue_start (queue_step pu) c" and "r \<in> set (db_operations (qs_db c))"
    and "op_state r = Succeeded \<or> op_state r = Cancelled" and "reach (\<lambda>y. y = c) (queue_step pu) c2"
  shows "r \<in> set (db_operations (qs_db c2))"
proof -
  have "settled_row r c2"
    using assms(4)
  proof (induction rule: reach.induct)
    case (reach_init s)
    then show ?case using queuesys.reach_inv [OF assms(1)] assms(2) by (simp add: settled_row_def)
  next
    case (reach_step s l s')
    then show ?case using settled_row_step [of r pu s l s'] assms(3) by auto
  qed
  then show ?thesis by (simp add: settled_row_def)
qed

definition demo_guard :: LeaseGuard where
  "demo_guard = \<lparr>lg_operation_id = ''o1'', lg_organization_id = ''org'', lg_owner = ''w1'', lg_token = ''k1''\<rparr>"

definition demo_done :: QueueSys where
  "demo_done = demo_run [(3, Complete demo_guard None)] demo_first"

definition demo_late :: QueueSys where
  "demo_late = demo_run [(4, Retry ''o1'' ''org'')] demo_done"

lemma demo_queue_step:
  assumes "qs_clock c \<le> k" and "token_of x \<inter> qs_tokens c = {}" and "admissible (qs_db c) x"
  shows "queue_step Some c (k, k, x) (demo_run [(k, x)] c)"
  using queue_stepI [OF assms(1) le_refl assms(2,3), of Some] by simp

theorem finished_operations_are_final_witness:
  "\<exists>r. op_state r = Succeeded \<and> r \<in> set (db_operations (qs_db demo_late))"
proof -
  have r: "reach queue_start (queue_step Some) demo_first"
    using demo_steps by (meson reach_init reach_step)
  have "queue_step Some demo_first (3, 3, Complete demo_guard None) demo_done"
    unfolding demo_done_def by (rule demo_queue_step) (simp_all add: demo_defs)
  with r have "reach queue_start (queue_step Some) demo_done" by (rule reach_step)
  moreover have "queue_step Some demo_done (4, 4, Retry ''o1'' ''org'') demo_late"
    unfolding demo_late_def by (rule demo_queue_step) (simp_all add: demo_done_def)
  then have "reach (\<lambda>y. y = demo_done) (queue_step Some) demo_late" by (rule reach_step [rotated]) (rule reach_init, simp)
  moreover obtain r where "r \<in> set (db_operations (qs_db demo_done))" "op_state r = Succeeded"
    by (simp add: demo_done_def demo_defs demo_eval demo_guard_def op_complete_def update_operations_def guard_holds_def)
  ultimately show ?thesis using finished_operations_are_final by blast
qed

section \<open>Claims are fair\<close>

lemma find_sorted:
  assumes "List.find p (sort_key k xs) = Some x" and "y \<in> set xs" and "p y"
  shows "k x \<le> k y"
proof -
  from assms(1) obtain i where i: "i < length (sort_key k xs)" "sort_key k xs ! i = x" "\<forall>j<i. \<not> p (sort_key k xs ! j)"
    by (auto simp: find_Some_iff)
  obtain j where j: "j < length (sort_key k xs)" "sort_key k xs ! j = y"
    using assms(2) by (metis in_set_conv_nth set_sort)
  with i(3) assms(3) have "i \<le> j" by (meson not_le)
  then show ?thesis using sorted_nth_mono [OF sorted_sort_key [of k xs], of i j] i j by simp
qed

text \<open>
  A claim finds work whenever there is some, and takes the oldest: it hands out a claimable operation
  of the wanted kind such that every other one that is not locked was created no earlier, and it comes back empty
  handed only if there is none. An operation whose worker died is claimable again as soon as its lease has expired.
\<close>

theorem claim_takes_the_oldest:
  "(case claim_kind token tnow clk skip db owner kind of
      (db', None) \<Rightarrow> db' = db \<and>
        (\<forall>r \<in> set (db_operations db). is_none_or kind (\<lambda>k. op_kind r = k) \<and> claimable tnow r \<longrightarrow> op_id r \<in> set skip)
    | (db', Some g) \<Rightarrow>
        (\<exists>r \<in> set (db_operations db). op_id r = lg_operation_id g \<and> claimable tnow r \<and> op_id r \<notin> set skip \<and>
           is_none_or kind (\<lambda>k. op_kind r = k) \<and>
           (\<forall>q \<in> set (db_operations db). is_none_or kind (\<lambda>k. op_kind q = k) \<and> claimable tnow q \<and> op_id q \<notin> set skip \<longrightarrow>
              op_created_at r \<le> op_created_at q))) \<and>
   (op_state d = Running \<and> op_retry_at d = None \<longrightarrow> claimable tnow d = is_none_or (op_lease_expires_at d) (\<lambda>e. e < tnow))"
proof -
  let ?p = "\<lambda>r. is_none_or kind (\<lambda>k. op_kind r = k) \<and> claimable tnow r \<and> op_id r \<notin> set skip"
  have "case claim_kind token tnow clk skip db owner kind of
      (db', None) \<Rightarrow> db' = db \<and> (\<forall>r \<in> set (db_operations db). \<not> ?p r)
    | (db', Some g) \<Rightarrow> (\<exists>r \<in> set (db_operations db). op_id r = lg_operation_id g \<and> ?p r \<and>
        (\<forall>q \<in> set (db_operations db). ?p q \<longrightarrow> op_created_at r \<le> op_created_at q))"
  proof (cases "List.find ?p (sort_key op_created_at (db_operations db))")
    case None
    then have "claim_kind token tnow clk skip db owner kind = (db, None)" by (simp add: claim_kind_def claim_oldest_def)
    moreover have "\<forall>r \<in> set (db_operations db). \<not> ?p r" using None by (simp add: find_None_iff)
    ultimately show ?thesis by simp
  next
    case (Some r)
    with find_in_set [OF Some] find_sorted [OF Some] show ?thesis
      by (auto simp: claim_kind_def claim_oldest_def lease_row_def)
  qed
  then show ?thesis
    by (auto simp: claimable_def lease_free_def split: prod.splits option.splits)
qed

theorem claim_takes_the_oldest_witness:
  "snd (claim_kind ''k2'' (seconds 60) (seconds 60) [] (qs_db demo_first) ''w2'' None) \<noteq> None"
  using claim_takes_the_oldest [where token = "''k2''" and tnow = "seconds 60" and clk = "seconds 60" and skip = "[]"
      and db = "qs_db demo_first" and owner = "''w2''" and kind = None and d = "hd (db_operations (qs_db demo_first))"]
  by (simp add: demo_defs demo_eval split: prod.splits option.splits)

section \<open>Back-off\<close>

text \<open>
  Retries back off exponentially within fixed bounds, for every value an attempt counter can have: an
  operation waits between two and sixty seconds, an outbox event between two and 256; the waits never shrink
  with more attempts, and the power never overflows its 32 or 64 bit type.
\<close>

theorem backoff_is_bounded:
  "seconds 2 \<le> retry_delay n \<and> retry_delay n \<le> seconds 60 \<and> 2 \<le> delivery_delay n \<and> delivery_delay n \<le> 256 \<and>
   (m \<le> n \<longrightarrow> retry_delay m \<le> retry_delay n \<and> delivery_delay m \<le> delivery_delay n)"
proof -
  have e: "1 \<le> nat (min (max n 1) b) \<and> nat (min (max n 1) b) \<le> nat b" if "1 \<le> b" for b :: int using that by auto
  have "(2::nat) ^ 1 \<le> 2 ^ nat (min (max n 1) 6)" "(2::nat) ^ 1 \<le> 2 ^ nat (min (max n 1) 8)"
    "(2::nat) ^ nat (min (max n 1) 8) \<le> 2 ^ 8"
    using e [of 6] e [of 8] by (intro power_increasing; simp)+
  then have "seconds 2 \<le> retry_delay n \<and> retry_delay n \<le> seconds 60 \<and> 2 \<le> delivery_delay n \<and> delivery_delay n \<le> 256"
    by (simp add: retry_delay_def delivery_delay_def)
  moreover have "retry_delay m \<le> retry_delay n" and "delivery_delay m \<le> delivery_delay n" if "m \<le> n"
    unfolding retry_delay_def delivery_delay_def
    using that by (intro mult_le_mono min.mono power_increasing; simp)+
  ultimately show ?thesis by blast
qed

theorem backoff_is_bounded_witness: "retry_delay 6 \<le> retry_delay 2147483647 \<and> delivery_delay 1 \<le> delivery_delay 8"
  using backoff_is_bounded [of 2147483647 6] backoff_is_bounded [of 8 1] by simp

end
