(* ===== verification/Outbox_Properties.thy ===== *)
theory Outbox_Properties
  imports Queue_Properties
begin

text \<open>
  Correctness of the outbox over all interleavings of the Manager's queues: an event is delivered at most
  once, and the operation that belongs to an event finishes in the same transaction.
\<close>

section \<open>Outbox deliveries\<close>

definition outbox_ok :: "QueueSys \<Rightarrow> bool" where
  "outbox_ok c \<longleftrightarrow> distinct (map ox_id (db_outbox (qs_db c)))"

text \<open>A step updates undelivered events and appends new ones.\<close>

definition outbox_evolves :: "OutboxRow list \<Rightarrow> OutboxRow list \<Rightarrow> bool" where
  "outbox_evolves rows rows' \<longleftrightarrow> (\<exists>p f new. rows' = update_where p f rows @ new \<and>
     (\<forall>r \<in> set rows. p r \<longrightarrow> ox_delivered_at r = None) \<and> (\<forall>r. ox_id (f r) = ox_id r) \<and>
     (\<forall>r \<in> set new. ox_id r \<notin> ox_id ` set rows) \<and> distinct (map ox_id new))"

lemma outbox_update:
  "(\<And>r. r \<in> set rows \<Longrightarrow> p r \<Longrightarrow> ox_delivered_at r = None) \<Longrightarrow> (\<And>r. ox_id (f r) = ox_id r) \<Longrightarrow>
   outbox_evolves rows (update_where p f rows)"
  unfolding outbox_evolves_def by (intro exI [of _ p] exI [of _ f] exI [of _ "[]"]) simp

lemma outbox_evolves_refl: "outbox_evolves rows rows"
  using outbox_update [of rows "\<lambda>_. False" id] by (simp add: update_where_def)

lemma outbox_statements:
  "outbox_evolves (db_outbox db) (db_outbox (fst (outbox_heartbeat c clk db)))"
  "outbox_evolves (db_outbox db) (db_outbox (fst (mark_delivered c tnow clk db)))"
  "outbox_evolves (db_outbox db) (db_outbox (fst (release_lease c clk db)))"
  "outbox_evolves (db_outbox db) (db_outbox (fst (fail_delivery pu c tnow clk db perm)))"
  unfolding outbox_heartbeat_def mark_delivered_def release_lease_def fail_delivery_def
  by (auto intro!: outbox_update simp: update_outbox_def update_operations_def claim_holds_def clear_event_lease_def
      split: option.splits)

lemma outbox_claims:
  assumes "distinct (map ox_id (db_outbox db))"
  shows "outbox_evolves (db_outbox db) (db_outbox (fst (claim_filtered token tnow clk skip db owner n ets)))"
proof -
  let ?chosen = "take n (filter (\<lambda>r. deliverable tnow clk ets r \<and> ox_id r \<notin> set skip) (sort_key ox_created_at (db_outbox db)))"
  have "ox_delivered_at r = None" if r: "r \<in> set (db_outbox db)" "ox_id r \<in> set (map ox_id ?chosen)" for r
  proof -
    from r(2) obtain q where q: "q \<in> set ?chosen" "ox_id q = ox_id r" by auto
    then have "q \<in> set (db_outbox db)" "deliverable tnow clk ets q" by (auto dest: in_set_takeD)
    with q r distinct_key [OF assms] show ?thesis by (metis deliverable_def)
  qed
  then show ?thesis
    unfolding claim_filtered_def Let_def by (auto intro!: outbox_update simp: lease_event_def)
qed

lemma complete_delivery_outbox:
  "outbox_evolves (db_outbox db) (db_outbox (case complete_operation_delivery pu c tnow clk db of Inl _ \<Rightarrow> db | Inr (db', _) \<Rightarrow> db'))"
proof -
  have upd: "db_outbox (fst (update_operations p f d)) = db_outbox d" for p f d by (simp add: update_operations_def)
  have "db_outbox db' = db_outbox db \<or> db_outbox db' = db_outbox (fst (mark_delivered c tnow clk db))"
    if "complete_operation_delivery pu c tnow clk db = Inr (db', b)" for db' b
    using that unfolding complete_operation_delivery_def
    by (auto split: option.splits sum.splits prod.splits bool.splits) (metis fst_conv upd)+
  then show ?thesis using outbox_statements(2) [of db c tnow clk] outbox_evolves_refl
    by (auto split: sum.splits)
qed

lemma effect_outbox:
  assumes "distinct (map ox_id (db_outbox db))" and "admissible db x"
  shows "outbox_evolves (db_outbox db) (db_outbox (queue_effect pu tnow clk db x))"
proof (cases x)
  case (Insert i org et payload)
  with assms show ?thesis unfolding outbox_evolves_def
    by (intro exI [of _ "\<lambda>_. False"] exI [of _ id] exI [of _ "[last (db_outbox (insert_in_tx i tnow db org et payload))]"])
      (simp add: insert_in_tx_def update_where_def)
next
  case (Retry i org)
  then show ?thesis
    by (auto simp: retry_in_tx_def update_operations_def outbox_evolves_refl split: bool.splits)
qed (use assms in \<open>simp_all add: outbox_statements outbox_claims complete_delivery_outbox op_create_def claim_kind_def
  claim_promote_def claim_oldest_def slot_attempt_def lease_row_def complete_in_tx_def op_heartbeat_def requeue_after_def
  op_complete_def fail_write_def set_step_def update_operations_def cancel_abandoned_def Let_def outbox_evolves_refl
  split: option.split\<close>)

lemma outbox_step:
  assumes "queue_step pu c l c'" and "outbox_ok c"
  shows "outbox_ok c' \<and> (\<forall>r \<in> set (db_outbox (qs_db c)). ox_delivered_at r \<noteq> None \<longrightarrow> r \<in> set (db_outbox (qs_db c')))"
  using assms(1)
proof cases
  case (queue_stepI clk tnow x)
  with effect_outbox [of "qs_db c" x pu tnow clk] assms(2)
  have "outbox_evolves (db_outbox (qs_db c)) (db_outbox (qs_db c'))" by (simp add: outbox_ok_def)
  then obtain p f add where rows: "db_outbox (qs_db c') = update_where p f (db_outbox (qs_db c)) @ add"
    and p: "\<forall>r \<in> set (db_outbox (qs_db c)). p r \<longrightarrow> ox_delivered_at r = None" and f: "\<forall>r. ox_id (f r) = ox_id r"
    and add: "\<forall>r \<in> set add. ox_id r \<notin> ox_id ` set (db_outbox (qs_db c))" "distinct (map ox_id add)"
    unfolding outbox_evolves_def by blast
  have ids: "map ox_id (db_outbox (qs_db c')) = map ox_id (db_outbox (qs_db c)) @ map ox_id add"
    using f by (simp add: rows map_update_where)
  have "distinct (map ox_id (db_outbox (qs_db c')))"
    unfolding ids using assms(2) add by (auto simp: outbox_ok_def image_iff) (metis image_eqI)
  moreover have "r \<in> set (db_outbox (qs_db c'))" if "r \<in> set (db_outbox (qs_db c))" "ox_delivered_at r \<noteq> None" for r
    using that p by (auto simp: rows set_update_where intro!: bexI [of _ r])
  ultimately show ?thesis by (simp add: outbox_ok_def)
qed

interpretation outboxsys: invariant_system queue_start "queue_step pu" outbox_ok for pu
  by unfold_locales (simp add: queue_start_def outbox_ok_def, simp add: outbox_step)

lemma update_outbox_none: "\<forall>r \<in> set (db_outbox db). \<not> p r \<Longrightarrow> update_outbox p f db = (db, False)"
  by (simp add: update_outbox_def rows_affected_0 [THEN iffD2])

text \<open>
  An event is delivered at most once: once an event is marked delivered it is never changed again,
  in any run, and every later attempt to mark it delivered, alone or together with its operation, by whatever
  claim, is refused without an effect.
\<close>

theorem event_delivered_at_most_once:
  assumes "reach queue_start (queue_step pu) c" and "r \<in> set (db_outbox (qs_db c))" and "ox_delivered_at r \<noteq> None"
    and "reach (\<lambda>y. y = c) (queue_step pu) later" and "oc_id cl = ox_id r"
  shows "r \<in> set (db_outbox (qs_db later)) \<and> mark_delivered cl tnow clk (qs_db later) = (qs_db later, False) \<and>
    complete_operation_delivery pu2 cl tnow clk (qs_db later) \<noteq> Inr (db', True)"
proof -
  have kept: "outbox_ok later \<and> r \<in> set (db_outbox (qs_db later))"
    using assms(4)
  proof (induction rule: reach.induct)
    case (reach_init s)
    then show ?case using outboxsys.reach_inv [OF assms(1)] assms(2) by simp
  next
    case (reach_step s l s')
    then show ?case using outbox_step [of pu s l s'] assms(3) by blast
  qed
  then have "\<not> claim_holds cl clk q" if "q \<in> set (db_outbox (qs_db later))" for q
    using that assms(3,5) distinct_key [of ox_id "db_outbox (qs_db later)" q r] by (auto simp: claim_holds_def outbox_ok_def)
  then have "mark_delivered cl tnow clk (qs_db later) = (qs_db later, False)"
    unfolding mark_delivered_def by (intro update_outbox_none) blast
  with kept show ?thesis by (auto simp: complete_operation_delivery_def split: option.splits)
qed

text \<open>One event, claimed and delivered.\<close>

definition demo_claim :: OutboxClaim where
  "demo_claim = \<lparr>oc_id = ''e1'', oc_organization_id = None, oc_event_type = ''github.sync'', oc_payload = None,
     oc_attempts = 1, oc_owner = ''w1'', oc_token = ''k1''\<rparr>"

definition demo_inserted :: QueueSys where
  "demo_inserted = demo_run [(1, Insert ''e1'' None ''github.sync'' None)] demo_empty"

definition demo_claimed :: QueueSys where
  "demo_claimed = demo_run [(2, ClaimEvents ''k1'' [] ''w1'' 10 None)] demo_inserted"

definition demo_delivered :: QueueSys where
  "demo_delivered = demo_run [(3, MarkDelivered demo_claim)] demo_claimed"

lemmas demo_outbox_defs = demo_claim_def demo_inserted_def demo_claimed_def demo_delivered_def demo_empty_def
  insert_in_tx_def claim_filtered_def deliverable_def lease_event_def update_where_def mark_delivered_def
  update_outbox_def claim_holds_def clear_event_lease_def LEASE_DURATION_def

theorem event_delivered_at_most_once_witness:
  "\<exists>r \<in> set (db_outbox (qs_db demo_delivered)). ox_delivered_at r = Some 3 \<and>
     mark_delivered demo_claim 4 4 (qs_db demo_delivered) = (qs_db demo_delivered, False)"
proof -
  have "queue_step Some demo_empty (1, 1, Insert ''e1'' None ''github.sync'' None) demo_inserted"
    "queue_step Some demo_inserted (2, 2, ClaimEvents ''k1'' [] ''w1'' 10 None) demo_claimed"
    "queue_step Some demo_claimed (3, 3, MarkDelivered demo_claim) demo_delivered"
    unfolding demo_inserted_def demo_claimed_def demo_delivered_def
    by (rule demo_queue_step; simp add: demo_empty_def)+
  then have r: "reach queue_start (queue_step Some) demo_delivered"
    using demo_steps(1) by (meson reach_init reach_step)
  have e: "db_outbox (qs_db demo_delivered) = [\<lparr>ox_id = ''e1'', ox_organization_id = None, ox_event_type = ''github.sync'',
      ox_payload = None, ox_attempts = 1, ox_lease_owner = None, ox_lease_token = None, ox_lease_expires_at = None,
      ox_delivered_at = Some 3, ox_retry_at = None, ox_failed_at = None, ox_created_at = 1\<rparr>]"
    by (simp add: demo_outbox_defs)
  show ?thesis
    using event_delivered_at_most_once [OF r, where r = "hd (db_outbox (qs_db demo_delivered))" and cl = demo_claim
        and later = demo_delivered and tnow = 4 and clk = 4]
    by (simp add: e demo_claim_def reach_init)
qed

text \<open>
  An event and its operation finish together: when the joint completion reports success, the event
  was held under the caller's live lease and is marked delivered, and the operation its payload names, if any, was queued,
  never leased, of the event's organization and kind, and is now succeeded; nothing else in the operations changed.
  In every other outcome nothing changes at all.
\<close>

theorem delivery_and_operation_are_atomic:
  assumes "complete_operation_delivery pu c tnow clk db = Inr (db', b)"
    and "distinct (map ox_id (db_outbox db))" and "distinct (map op_id (db_operations db))"
  shows "if b then
      (\<exists>e \<in> set (db_outbox db). claim_holds c clk e \<and> (\<exists>e' \<in> set (db_outbox db'). ox_id e' = ox_id e \<and> ox_delivered_at e' = Some tnow)) \<and>
      (case payload_operation c of
         None \<Rightarrow> db_operations db' = db_operations db
       | Some raw \<Rightarrow> (\<exists>i r. pu raw = Some i \<and> r \<in> set (db_operations db) \<and> owned_operation c i r \<and>
           db_operations db' = update_where (\<lambda>q. q = r) (\<lambda>r. r\<lparr>op_state := Succeeded, op_updated_at := tnow\<rparr>) (db_operations db)))
    else db' = db"
proof (cases b)
  case True
  let ?m = "fst (mark_delivered c tnow clk db)"
  from assms(1) True have m: "snd (mark_delivered c tnow clk db)"
    unfolding complete_operation_delivery_def by (auto split: option.splits sum.splits prod.splits bool.splits)
  then obtain e where e: "e \<in> set (db_outbox db)" "claim_holds c clk e"
    by (auto simp: mark_delivered_def update_outbox_def dest!: rows_affected_one)
  have mo: "db_outbox ?m = update_where (claim_holds c clk) (\<lambda>r. (clear_event_lease r)\<lparr>ox_delivered_at := Some tnow\<rparr>) (db_outbox db)"
    "db_operations ?m = db_operations db" by (simp_all add: mark_delivered_def update_outbox_def)
  have e': "\<exists>e' \<in> set (db_outbox ?m). ox_id e' = ox_id e \<and> ox_delivered_at e' = Some tnow"
    using e unfolding mo
    by (intro bexI [of _ "(clear_event_lease e)\<lparr>ox_delivered_at := Some tnow\<rparr>"])
      (auto simp: clear_event_lease_def set_update_where intro!: bexI [of _ e])
  show ?thesis
  proof (cases "payload_operation c")
    case None
    with assms(1) True m have "db' = ?m"
      unfolding complete_operation_delivery_def by (auto split: prod.splits bool.splits)
    with True None e e' mo show ?thesis by auto
  next
    case (Some raw)
    let ?f = "\<lambda>r. r\<lparr>op_state := Succeeded, op_updated_at := tnow\<rparr>"
    from assms(1) True m Some obtain i where i: "pu raw = Some i" "update_operations (owned_operation c i) ?f ?m = (db', True)"
      unfolding complete_operation_delivery_def by (auto split: option.splits prod.splits bool.splits)
    then obtain r where r: "r \<in> set (db_operations db)" "owned_operation c i r"
      using mo(2) by (auto simp: update_operations_def dest!: rows_affected_one)
    have "owned_operation c i q = (q = r)" if "q \<in> set (db_operations db)" for q
      using that r distinct_key [OF assms(3), of q r] by (auto simp: owned_operation_def)
    then have "update_where (owned_operation c i) ?f (db_operations db) = update_where (\<lambda>q. q = r) ?f (db_operations db)"
      by (simp add: update_where_def)
    moreover have "db_operations db' = update_where (owned_operation c i) ?f (db_operations db)" "db_outbox db' = db_outbox ?m"
      using i(2) mo(2) by (auto simp: update_operations_def)
    ultimately show ?thesis using True Some e e' i(1) r by auto
  qed
qed (use assms(1) in \<open>auto simp: complete_operation_delivery_def split: option.splits sum.splits prod.splits bool.splits\<close>)

definition demo_owned :: Db where
  "demo_owned = (qs_db demo_empty)\<lparr>
     db_operations := db_operations (op_create ''o9'' 0 (qs_db demo_empty)
       \<lparr>no_organization_id = ''org'', no_resource_type = ''connection'', no_resource_id = None, no_kind = ''github.sync'',
        no_idempotency_ref = None\<rparr>),
     db_outbox := db_outbox (fst (claim_filtered ''k1'' 2 2 [] (insert_in_tx ''e1'' 1 (qs_db demo_empty) (Some ''org'')
       ''github.sync'' (Some (JObj [(''operation_id'', JStr ''o9'')]))) ''w1'' 10 None))\<rparr>"

definition demo_owned_claim :: OutboxClaim where
  "demo_owned_claim = \<lparr>oc_id = ''e1'', oc_organization_id = Some ''org'', oc_event_type = ''github.sync'',
     oc_payload = Some (JObj [(''operation_id'', JStr ''o9'')]), oc_attempts = 1, oc_owner = ''w1'', oc_token = ''k1''\<rparr>"

theorem delivery_and_operation_are_atomic_witness:
  "\<exists>db' r. complete_operation_delivery Some demo_owned_claim 3 3 demo_owned = Inr (db', True) \<and>
     owned_operation demo_owned_claim ''o9'' r \<and> r\<lparr>op_state := Succeeded, op_updated_at := 3\<rparr> \<in> set (db_operations db')"
proof -
  have d: "distinct (map ox_id (db_outbox demo_owned))" "distinct (map op_id (db_operations demo_owned))"
    by (simp_all add: demo_owned_def demo_outbox_defs op_create_def)
  have p: "payload_operation demo_owned_claim = Some ''o9''" by (simp add: payload_operation_def demo_owned_claim_def)
  obtain db' where c: "complete_operation_delivery Some demo_owned_claim 3 3 demo_owned = Inr (db', True)"
    by (simp add: complete_operation_delivery_def payload_operation_def demo_owned_def demo_owned_claim_def demo_outbox_defs op_create_def
        rows_affected_def update_operations_def owned_operation_def)
  from delivery_and_operation_are_atomic [OF c d] p obtain r where "owned_operation demo_owned_claim ''o9'' r"
      "r \<in> set (db_operations demo_owned)" "db_operations db' =
        update_where (\<lambda>q. q = r) (\<lambda>r. r\<lparr>op_state := Succeeded, op_updated_at := 3\<rparr>) (db_operations demo_owned)"
    by auto
  then have "r\<lparr>op_state := Succeeded, op_updated_at := 3\<rparr> \<in> set (db_operations db')"
    by (auto simp: set_update_where intro!: bexI [of _ r])
  with c \<open>owned_operation demo_owned_claim ''o9'' r\<close> show ?thesis by blast
qed

end
