(* ===== verification/Manager_Idempotency.thy ===== *)
theory Manager_Idempotency
  imports Manager_Base
begin

text \<open>
  \<open>src/crates/openflows-manager/src/idempotency.rs\<close>: a mutation and the record of its result commit
  in one transaction, keyed by actor, organization (or none), route and key. The rest of the
  database is a type variable: the mutation is a function on it that gives a result reference or an
  error. \<open>clk\<close> is the database clock during the statement that inserts the key; the request hash
  (SHA-256 of the request body) is computed by the caller. The column \<open>organization_id\<close> is compared
  with \<open>IS NOT DISTINCT FROM\<close>, and the two unique indexes of the table (with an organization and
  without) together make the four columns a key.
\<close>

record IdempotencyRow =
  ik_id :: string
  ik_actor_id :: string
  ik_organization_id :: "string option"
  ik_route :: string
  ik_key :: string
  ik_request_hash :: string
  ik_response_reference :: "string option"
  ik_expires_at :: instant

datatype IdempotencyOutcome = New string | Replay string

record IdempotencyRequest =
  ir_actor_id :: string
  ir_organization_id :: "string option"
  ir_route :: string
  ir_key :: string
  ir_request_hash :: string

definition KEY_LIFETIME :: instant where
  "KEY_LIFETIME = seconds (7 * 24 * 60 * 60)"

definition same_key :: "IdempotencyRequest \<Rightarrow> IdempotencyRow \<Rightarrow> bool" where
  "same_key req r \<longleftrightarrow> ik_actor_id r = ir_actor_id req \<and> ik_organization_id r = ir_organization_id req \<and>
     ik_route r = ir_route req \<and> ik_key r = ir_key req"

text \<open>A stored reference counts as completed when it is not blank.\<close>

definition completed :: "string option \<Rightarrow> string option" where
  "completed reference = (case reference of None \<Rightarrow> None | Some r \<Rightarrow> if blank r then None else Some r)"

definition idempotency_replay ::
  "instant \<Rightarrow> IdempotencyRow list \<Rightarrow> IdempotencyRequest \<Rightarrow> string option managed" where
  "idempotency_replay clk rows req =
     (case List.find (\<lambda>r. same_key req r \<and> clk < ik_expires_at r) rows of
        None \<Rightarrow> Inr None
      | Some r \<Rightarrow>
          if ik_request_hash r \<noteq> ir_request_hash req
          then Inl (Conflict ''idempotency key reused with a different request body'')
          else Inr (completed (ik_response_reference r)))"

text \<open>The upsert: insert, or replace the row of an expired key; otherwise no row is affected.\<close>

definition fresh_row :: "string \<Rightarrow> instant \<Rightarrow> IdempotencyRequest \<Rightarrow> IdempotencyRow" where
  "fresh_row new_id clk req =
     \<lparr>ik_id = new_id, ik_actor_id = ir_actor_id req, ik_organization_id = ir_organization_id req,
      ik_route = ir_route req, ik_key = ir_key req, ik_request_hash = ir_request_hash req,
      ik_response_reference = None, ik_expires_at = clk + KEY_LIFETIME\<rparr>"

definition upsert_key ::
  "string \<Rightarrow> instant \<Rightarrow> IdempotencyRow list \<Rightarrow> IdempotencyRequest \<Rightarrow> IdempotencyRow list option" where
  "upsert_key new_id clk rows req =
     (if \<not> list_ex (same_key req) rows then Some (rows @ [fresh_row new_id clk req])
      else if list_ex (\<lambda>r. same_key req r \<and> ik_expires_at r \<le> clk) rows
      then Some (update_where (\<lambda>r. same_key req r \<and> ik_expires_at r \<le> clk) (\<lambda>_. fresh_row new_id clk req) rows)
      else None)"

definition replay_stored ::
  "IdempotencyRow list \<Rightarrow> IdempotencyRequest \<Rightarrow> IdempotencyOutcome managed" where
  "replay_stored rows req =
     (case List.find (same_key req) rows of
        None \<Rightarrow> Inl (Database ''no row returned'')
      | Some r \<Rightarrow>
          if ik_request_hash r \<noteq> ir_request_hash req
          then Inl (Conflict ''idempotency key reused with a different request body'')
          else (case completed (ik_response_reference r) of
             None \<Rightarrow> Inl (Conflict ''legacy idempotency request has no completed result'')
           | Some reference \<Rightarrow> Inr (Replay reference)))"

definition execute_inner ::
  "string \<Rightarrow> instant \<Rightarrow> IdempotencyRow list \<times> 's \<Rightarrow> IdempotencyRequest \<Rightarrow> ('s \<Rightarrow> (string \<times> 's) managed) \<Rightarrow>
   IdempotencyOutcome managed \<times> IdempotencyRow list \<times> 's" where
  "execute_inner new_id clk st req mutation =
     (if blank (ir_key req) \<or> 255 < length (ir_key req)
      then (Inl (InvalidInput ''invalid idempotency key''), st)
      else (case upsert_key new_id clk (fst st) req of
          None \<Rightarrow> (replay_stored (fst st) req, st)
        | Some rows \<Rightarrow>
            transact st (and_then (mutation (snd st)) (\<lambda>(reference, s').
              if blank reference then Inl (InvalidInput ''empty idempotency result reference'')
              else Inr (New reference,
                update_where (\<lambda>r. ik_id r = new_id) (\<lambda>r. r\<lparr>ik_response_reference := Some reference\<rparr>) rows,
                s')))))"

section \<open>A committed result is replayed until it expires\<close>

text \<open>The row that answers for a request: a completed result under its key that has not expired.\<close>

definition answers :: "instant \<Rightarrow> IdempotencyRequest \<Rightarrow> string \<Rightarrow> string \<Rightarrow> instant \<Rightarrow> IdempotencyRow \<Rightarrow> bool" where
  "answers clk req hash reference expiry r \<longleftrightarrow> same_key req r \<and> ik_request_hash r = hash \<and>
     ik_response_reference r = Some reference \<and> ik_expires_at r = expiry \<and> clk < expiry"

definition keys_ok :: "IdempotencyRow list \<Rightarrow> bool" where
  "keys_ok rows \<longleftrightarrow>
     distinct (map (\<lambda>r. (ik_actor_id r, ik_organization_id r, ik_route r, ik_key r)) rows)"

lemma same_key_unique:
  assumes "keys_ok rows" and "r \<in> set rows" and "q \<in> set rows" and "same_key req r" and "same_key req q"
  shows "r = q"
  using distinct_key [of "\<lambda>r. (ik_actor_id r, ik_organization_id r, ik_route r, ik_key r)" rows r q] assms
  by (simp add: keys_ok_def same_key_def)

lemma same_key_fresh [simp]: "same_key req (fresh_row new_id clk req)"
  by (simp add: same_key_def fresh_row_def)

lemma fresh_row_sel [simp]:
  "ik_id (fresh_row new_id clk req) = new_id"
  "ik_actor_id (fresh_row new_id clk req) = ir_actor_id req"
  "ik_organization_id (fresh_row new_id clk req) = ir_organization_id req"
  "ik_route (fresh_row new_id clk req) = ir_route req"
  "ik_key (fresh_row new_id clk req) = ir_key req"
  "ik_request_hash (fresh_row new_id clk req) = ir_request_hash req"
  "ik_expires_at (fresh_row new_id clk req) = clk + KEY_LIFETIME"
  by (simp_all add: fresh_row_def)

lemma key_lifetime_pos [simp]: "0 < KEY_LIFETIME"
  by (simp add: KEY_LIFETIME_def)

text \<open>A live row of any request survives the upsert of any request, which must be another one.\<close>

lemma upsert_keeps:
  assumes "upsert_key new_id clk rows req = Some rows'" and "r \<in> set rows" and "clk < ik_expires_at r"
  shows "r \<in> set rows'"
  using assms by (auto simp: upsert_key_def set_update_where split: if_splits intro!: bexI [of _ r])

lemma upsert_other:
  assumes "upsert_key new_id clk rows req = Some rows'" and "keys_ok rows" and "r \<in> set rows"
    and "clk < ik_expires_at r"
  shows "\<not> same_key req r"
proof
  assume same: "same_key req r"
  then obtain q where "q \<in> set rows" "same_key req q" "ik_expires_at q \<le> clk"
    using assms(1,3) by (auto simp: upsert_key_def list_ex_iff split: if_splits)
  with same_key_unique [OF assms(2,3), of q req] same assms(4) show False by simp
qed

lemma upsert_fresh:
  assumes "upsert_key new_id clk rows req = Some rows'"
  shows "fresh_row new_id clk req \<in> set rows'"
  using assms by (auto simp: upsert_key_def set_update_where list_ex_iff split: if_splits)

lemma upsert_members:
  assumes "upsert_key new_id clk rows req = Some rows'" and "r \<in> set rows'"
  shows "r = fresh_row new_id clk req \<or> r \<in> set rows"
  using assms by (auto simp: upsert_key_def set_update_where split: if_splits)

lemma upsert_keys_ok:
  assumes "upsert_key new_id clk rows req = Some rows'" and "keys_ok rows"
  shows "keys_ok rows'"
proof (cases "list_ex (same_key req) rows")
  case False
  then show ?thesis
    using assms by (auto simp: upsert_key_def keys_ok_def list_ex_iff same_key_def) blast
next
  case True
  then have "rows' = update_where (\<lambda>r. same_key req r \<and> ik_expires_at r \<le> clk) (\<lambda>_. fresh_row new_id clk req) rows"
    using assms(1) by (auto simp: upsert_key_def split: if_splits)
  then have "map (\<lambda>r. (ik_actor_id r, ik_organization_id r, ik_route r, ik_key r)) rows' =
      map (\<lambda>r. (ik_actor_id r, ik_organization_id r, ik_route r, ik_key r)) rows"
    by (auto simp: update_where_def same_key_def)
  then show ?thesis using assms(2) by (simp add: keys_ok_def)
qed

lemma keys_ok_reference:
  "keys_ok (update_where p (\<lambda>r. r\<lparr>ik_response_reference := x\<rparr>) rows) = keys_ok rows"
  by (simp add: keys_ok_def map_update_where)

text \<open>What one call does to the state: nothing, or a committed mutation with its recorded result.\<close>

lemma execute_inner_cases:
  assumes "execute_inner new_id clk st req m = (x, st')"
  obtains (unchanged) "st' = st" and "\<And>reference. x \<noteq> Inr (New reference)"
    | (fresh) rows s reference where "upsert_key new_id clk (fst st) req = Some rows"
        and "\<not> blank (ir_key req)" and "length (ir_key req) \<le> 255"
        and "m (snd st) = Inr (reference, s)" and "\<not> blank reference" and "x = Inr (New reference)"
        and "st' = (update_where (\<lambda>r. ik_id r = new_id) (\<lambda>r. r\<lparr>ik_response_reference := Some reference\<rparr>) rows, s)"
proof (cases "blank (ir_key req) \<or> 255 < length (ir_key req) \<or> upsert_key new_id clk (fst st) req = None")
  case True
  then have "st' = st \<and> (x = Inl (InvalidInput ''invalid idempotency key'') \<or> x = replay_stored (fst st) req)"
    using assms by (auto simp: execute_inner_def split: if_splits)
  moreover have "replay_stored (fst st) req \<noteq> Inr (New reference)" for reference
    by (simp add: replay_stored_def split: option.splits)
  ultimately show ?thesis using unchanged by auto
next
  case False
  then obtain rows where rows: "upsert_key new_id clk (fst st) req = Some rows" by auto
  have key: "\<not> blank (ir_key req)" "length (ir_key req) \<le> 255" using False by auto
  show ?thesis
  proof (cases "m (snd st)")
    case (Inl e)
    then show ?thesis using assms False rows unchanged by (auto simp: execute_inner_def)
  next
    case (Inr p)
    then obtain reference s where p: "p = (reference, s)" by (cases p)
    show ?thesis
      using assms False rows Inr p unchanged fresh [OF rows key, of reference s]
      by (cases "blank reference") (auto simp: execute_inner_def)
  qed
qed

text \<open>The calls served before an instant, each with a fresh row identifier and any mutation.\<close>

inductive serves :: "instant \<Rightarrow> IdempotencyRow list \<times> 's \<Rightarrow> IdempotencyRow list \<times> 's \<Rightarrow> bool"
  for bound :: instant and st :: "IdempotencyRow list \<times> 's" where
  serves_none: "serves bound st st"
| serves_call: "serves bound st st1 \<Longrightarrow> clk < bound \<Longrightarrow> new_id \<notin> ik_id ` set (fst st1) \<Longrightarrow>
    execute_inner new_id clk st1 req m = (x, st2) \<Longrightarrow> serves bound st st2"

lemma execute_inner_keys_ok:
  assumes "execute_inner new_id clk st req m = (x, st')" and "keys_ok (fst st)"
  shows "keys_ok (fst st')"
  using assms(1) by (cases rule: execute_inner_cases) (auto simp: assms(2) keys_ok_reference upsert_keys_ok)

lemma execute_inner_keeps:
  assumes "execute_inner new_id clk st req m = (x, st')" and "r \<in> set (fst st)" and "clk < ik_expires_at r"
    and "new_id \<notin> ik_id ` set (fst st)"
  shows "r \<in> set (fst st')"
  using assms(1)
proof (cases rule: execute_inner_cases)
  case unchanged
  then show ?thesis using assms(2) by simp
next
  case (fresh rows s reference)
  have "r \<in> set rows" using upsert_keeps [OF fresh(1) assms(2,3)] .
  moreover have "ik_id r \<noteq> new_id" using assms(2,4) by auto
  ultimately show ?thesis using fresh(7) by (auto simp: set_update_where)
qed

lemma serves_keeps:
  assumes "serves bound st st'" and "keys_ok (fst st)" and "r \<in> set (fst st)" and "bound \<le> ik_expires_at r"
  shows "keys_ok (fst st') \<and> r \<in> set (fst st')"
  using assms(1)
proof (induction rule: serves.induct)
  case serves_none
  then show ?case using assms(2-) by simp
qed (use assms(2-) in \<open>auto intro: execute_inner_keys_ok execute_inner_keeps\<close>)

lemma live_row_answers:
  assumes "keys_ok (fst st)" and "r \<in> set (fst st)" and "same_key req r" and "clk < ik_expires_at r"
    and "\<not> blank (ir_key req)" and "length (ir_key req) \<le> 255"
    and "ik_response_reference r = Some reference" and "\<not> blank reference"
  shows "execute_inner new_id clk st req m =
    (if ir_request_hash req = ik_request_hash r then Inr (Replay reference)
     else Inl (Conflict ''idempotency key reused with a different request body''), st)"
proof -
  have only: "\<And>q. q \<in> set (fst st) \<Longrightarrow> same_key req q \<Longrightarrow> q = r"
    using same_key_unique [OF assms(1) _ assms(2) _ assms(3)] by blast
  have "upsert_key new_id clk (fst st) req = None"
  proof -
    have "list_ex (same_key req) (fst st)" using assms(2,3) by (auto simp: list_ex_iff)
    moreover have "\<not> list_ex (\<lambda>q. same_key req q \<and> ik_expires_at q \<le> clk) (fst st)"
    proof
      assume "list_ex (\<lambda>q. same_key req q \<and> ik_expires_at q \<le> clk) (fst st)"
      then obtain q where "q \<in> set (fst st)" "same_key req q" "ik_expires_at q \<le> clk"
        by (auto simp: list_ex_iff)
      with only [of q] assms(4) show False by simp
    qed
    ultimately show ?thesis by (simp add: upsert_key_def)
  qed
  moreover have "List.find (same_key req) (fst st) = Some r"
    using assms(2,3) only by (rule find_unique)
  ultimately show ?thesis
    using assms(5-8) by (simp add: execute_inner_def replay_stored_def completed_def)
qed

text \<open>
  C32 (safety). After a mutation has committed under an idempotency key, and whatever other calls
  are served in the next seven days, a call with the same actor, organization, route and key never
  runs its mutation: it changes nothing and answers with the first call's reference when the
  request hash is the same, and with a conflict when it is not.
\<close>

theorem mutation_runs_once_per_key:
  assumes "keys_ok (fst st)" and "execute_inner new_id clk st req m = (Inr (New reference), st1)"
    and "serves (clk + KEY_LIFETIME) st1 st2" and "later < clk + KEY_LIFETIME"
  shows "execute_inner other_id later st2 (req\<lparr>ir_request_hash := hash\<rparr>) again =
    (if hash = ir_request_hash req then Inr (Replay reference)
     else Inl (Conflict ''idempotency key reused with a different request body''), st2)"
  using assms(2)
proof (cases rule: execute_inner_cases)
  case (fresh rows s stored)
  define r where "r = (fresh_row new_id clk req)\<lparr>ik_response_reference := Some reference\<rparr>"
  have "r \<in> set (fst st1)"
    using fresh(6,7) upsert_fresh [OF fresh(1)] unfolding r_def
    by (auto simp: set_update_where intro!: bexI [of _ "fresh_row new_id clk req"])
  moreover have "keys_ok (fst st1)" using execute_inner_keys_ok [OF assms(2,1)] .
  ultimately have "keys_ok (fst st2) \<and> r \<in> set (fst st2)"
    by (intro serves_keeps [OF assms(3)]) (simp_all add: r_def)
  then show ?thesis
    using live_row_answers [of st2 r "req\<lparr>ir_request_hash := hash\<rparr>" later reference other_id again] fresh assms(4)
    by (simp add: r_def same_key_def)
qed auto

definition demo_request :: IdempotencyRequest where
  "demo_request = \<lparr>ir_actor_id = ''u'', ir_organization_id = Some ''o'', ir_route = ''POST /t'',
     ir_key = ''k'', ir_request_hash = ''h''\<rparr>"

theorem mutation_runs_once_per_key_witness:
  "execute_inner ''2'' (seconds 60)
     ([(fresh_row ''1'' 0 demo_request)\<lparr>ik_response_reference := Some ''ref''\<rparr>], 1) demo_request
     (\<lambda>n. Inr (''other'', n + 1 :: nat)) =
   (Inr (Replay ''ref''), [(fresh_row ''1'' 0 demo_request)\<lparr>ik_response_reference := Some ''ref''\<rparr>], 1)"
proof -
  have first: "execute_inner ''1'' 0 ([], 0) demo_request (\<lambda>n. Inr (''ref'', n + 1 :: nat)) =
      (Inr (New ''ref''), [(fresh_row ''1'' 0 demo_request)\<lparr>ik_response_reference := Some ''ref''\<rparr>], 1)"
    by (simp add: execute_inner_def demo_request_def upsert_key_def update_where_def blank_iff is_whitespace_def)
  have "keys_ok (fst ([], 0 :: nat))" by (simp add: keys_ok_def)
  from mutation_runs_once_per_key [OF this first serves_none, of "seconds 60" "''2''" "''h''"]
  show ?thesis by (simp add: KEY_LIFETIME_def demo_request_def)
qed

end
