(* ===== verification/Pagination.thy ===== *)
theory Pagination
  imports Manager_Base "HOL-Library.Multiset" "HOL-Library.Product_Lexorder" "HOL-Library.List_Lexorder" "HOL-Library.Char_ord"
begin

text \<open>
  \<open>src/crates/openflows-manager/src/pagination.rs\<close> and the keyset queries that use it: a page is
  read with \<open>limit + 1\<close> rows, newest first by \<open>(created_at, id)\<close>, and hands out the position of
  its last row as an opaque cursor. The text of a cursor is base64 over JSON: \<open>enc\<close> and \<open>dec\<close> stand
  for the \<open>base64\<close> and \<open>serde_json\<close> crates together, and \<open>from_micros\<close> for the range check of
  \<open>chrono\<close>. Identifiers are ordered as texts, which for the lower-case text of a UUID is the order
  of its bytes.
\<close>

definition DEFAULT_LIMIT :: u32 where
  "DEFAULT_LIMIT = 50"

definition MAX_LIMIT :: u32 where
  "MAX_LIMIT = 100"

datatype PageLimit = PageLimit u32

definition page_limit :: "u32 option \<Rightarrow> PageLimit" where
  "page_limit limit =
     (case limit of None \<Rightarrow> PageLimit DEFAULT_LIMIT | Some n \<Rightarrow> PageLimit (min (max n 1) MAX_LIMIT))"

primrec limit_get :: "PageLimit \<Rightarrow> u32" where
  "limit_get (PageLimit n) = n"

record Cursor =
  cu_created_at :: instant
  cu_tiebreaker :: string

record 'a Page =
  pg_items :: "'a list"
  pg_next_cursor :: "string option"

definition cursor_encode :: "(json \<Rightarrow> string) \<Rightarrow> Cursor \<Rightarrow> string" where
  "cursor_encode enc c =
     enc (JObj [(''t'', JNum (PosInt (of_nat (cu_created_at c)))), (''i'', JStr (cu_tiebreaker c))])"

text \<open>\<open>Value::as_i64\<close>: an unsigned number must fit.\<close>

fun as_i64 :: "json \<Rightarrow> int option" where
  "as_i64 (JNum (PosInt n)) = (if unat n < 2 ^ 63 then Some (int (unat n)) else None)"
| "as_i64 (JNum (NegInt i)) = Some i"
| "as_i64 _ = None"

definition cursor_decode ::
  "(string \<Rightarrow> json option) \<Rightarrow> (int \<Rightarrow> instant option) \<Rightarrow> string \<Rightarrow> Cursor managed" where
  "cursor_decode dec from_micros raw =
     (case dec raw of None \<Rightarrow> Inl (InvalidInput ''malformed cursor'')
      | Some v \<Rightarrow>
         (case Option.bind (json_get v ''t'') as_i64 of None \<Rightarrow> Inl (InvalidInput ''malformed cursor'')
          | Some ts \<Rightarrow>
             (case Option.bind (json_get v ''i'') as_str of None \<Rightarrow> Inl (InvalidInput ''malformed cursor'')
              | Some tiebreaker \<Rightarrow>
                 (case from_micros ts of None \<Rightarrow> Inl (InvalidInput ''malformed cursor'')
                  | Some created_at \<Rightarrow> Inr \<lparr>cu_created_at = created_at, cu_tiebreaker = tiebreaker\<rparr>))))"

definition cursor_for :: "instant \<Rightarrow> string \<Rightarrow> Cursor" where
  "cursor_for created_at i = \<lparr>cu_created_at = created_at, cu_tiebreaker = i\<rparr>"

definition from_fetch :: "(json \<Rightarrow> string) \<Rightarrow> 'a list \<Rightarrow> PageLimit \<Rightarrow> ('a \<Rightarrow> Cursor) \<Rightarrow> 'a Page" where
  "from_fetch enc items limit cursor_of =
     (let n = unat (limit_get limit); has_more = n < length items; kept = take n items in
      \<lparr>pg_items = kept,
       pg_next_cursor =
         (if has_more then (if kept = [] then None else Some (cursor_encode enc (cursor_of (last kept))))
          else None)\<rparr>)"

definition map_items :: "('a \<Rightarrow> 'b) \<Rightarrow> 'a Page \<Rightarrow> 'b Page" where
  "map_items f p = \<lparr>pg_items = map f (pg_items p), pg_next_cursor = pg_next_cursor p\<rparr>"

section \<open>The keyset query\<close>

text \<open>
  \<open>WHERE after IS NULL OR (created_at, id) < after ORDER BY created_at DESC, id DESC LIMIT n\<close>.
\<close>

definition row_key :: "('a \<Rightarrow> Cursor) \<Rightarrow> 'a \<Rightarrow> instant \<times> string" where
  "row_key cursor_of r = (cu_created_at (cursor_of r), cu_tiebreaker (cursor_of r))"

definition newest_first :: "('a \<Rightarrow> Cursor) \<Rightarrow> 'a list \<Rightarrow> 'a list" where
  "newest_first cursor_of rows = rev (sort_key (row_key cursor_of) rows)"

definition below :: "Cursor option \<Rightarrow> instant \<times> string \<Rightarrow> bool" where
  "below after k \<longleftrightarrow> is_none_or after (\<lambda>c. k < (cu_created_at c, cu_tiebreaker c))"

definition keyset_page ::
  "(json \<Rightarrow> string) \<Rightarrow> ('a \<Rightarrow> Cursor) \<Rightarrow> 'a list \<Rightarrow> PageLimit \<Rightarrow> Cursor option \<Rightarrow> 'a Page" where
  "keyset_page enc cursor_of rows limit after =
     from_fetch enc
       (take (unat (limit_get limit) + 1)
         (filter (\<lambda>r. below after (row_key cursor_of r)) (newest_first cursor_of rows)))
       limit cursor_of"

text \<open>A client that follows \<open>next_cursor\<close> until it is null, decoding it on the server each time.\<close>

fun page_walk ::
  "nat \<Rightarrow> (json \<Rightarrow> string) \<Rightarrow> (string \<Rightarrow> Cursor managed) \<Rightarrow> ('a \<Rightarrow> Cursor) \<Rightarrow> 'a list \<Rightarrow> PageLimit \<Rightarrow>
   Cursor option \<Rightarrow> 'a list list option" where
  "page_walk 0 enc decode cursor_of rows limit after = None"
| "page_walk (Suc fuel) enc decode cursor_of rows limit after =
     (let p = keyset_page enc cursor_of rows limit after in
      case pg_next_cursor p of
        None \<Rightarrow> Some [pg_items p]
      | Some raw \<Rightarrow>
          (case decode raw of
             Inl _ \<Rightarrow> None
           | Inr c \<Rightarrow> map_option ((#) (pg_items p)) (page_walk fuel enc decode cursor_of rows limit (Some c))))"

section \<open>Limits and cursors\<close>

lemma page_limit_bounds: "1 \<le> unat (limit_get (page_limit limit)) \<and> unat (limit_get (page_limit limit)) \<le> 100"
proof (cases limit)
  case None
  then show ?thesis by (simp add: page_limit_def DEFAULT_LIMIT_def)
next
  case (Some n)
  have "1 \<le> min (max n 1) (100 :: u32)" "min (max n 1) (100 :: u32) \<le> 100" by simp_all
  then have "unat (1 :: u32) \<le> unat (min (max n 1) (100 :: u32))" "unat (min (max n 1) (100 :: u32)) \<le> unat (100 :: u32)"
    by (simp_all only: word_le_nat_alt)
  then show ?thesis using Some by (simp add: page_limit_def MAX_LIMIT_def)
qed

abbreviation cursor_json :: "u64 \<Rightarrow> string \<Rightarrow> json" where
  "cursor_json t i \<equiv> JObj [(''t'', JNum (PosInt t)), (''i'', JStr i)]"

lemma cursor_decode_encode:
  assumes "\<And>t i. dec (enc (cursor_json t i)) = Some (cursor_json t i)" and "from_micros (int (cu_created_at c)) = Some (cu_created_at c)"
    and "cu_created_at c < 2 ^ 63"
  shows "cursor_decode dec from_micros (cursor_encode enc c) = Inr c"
  using assms by (simp add: cursor_decode_def cursor_encode_def unat_of_nat)

section \<open>Following the cursors\<close>

text \<open>On a strictly descending list, the rows below the last one of a prefix are the rest.\<close>

lemma below_split:
  assumes "sorted_wrt (\<lambda>a b. (k :: 'a \<Rightarrow> 'k :: linorder) b < k a) (ys @ z # zs)"
  shows "filter (\<lambda>r. k r < k z) (ys @ z # zs) = zs"
proof -
  have "filter (\<lambda>r. k r < k z) ys = []"
    using assms by (auto simp: sorted_wrt_append filter_empty_conv dest!: less_not_sym)
  moreover have "filter (\<lambda>r. k r < k z) zs = zs"
    using assms by (auto simp: sorted_wrt_append filter_id_conv)
  ultimately show ?thesis by simp
qed

lemma below_prefix:
  assumes "sorted_wrt (\<lambda>a b. (k :: 'a \<Rightarrow> 'k :: linorder) b < k a) xs" and "0 < n" and "n \<le> length xs"
  shows "filter (\<lambda>r. k r < k (last (take n xs))) xs = drop n xs"
proof -
  have "take n xs \<noteq> []" using assms(2,3) by auto
  then have "xs = butlast (take n xs) @ last (take n xs) # drop n xs"
    by (metis append_butlast_last_id append.assoc append_Cons append_Nil append_take_drop_id)
  then show ?thesis using below_split [of k "butlast (take n xs)" "last (take n xs)" "drop n xs"] assms(1)
    by metis
qed

lemma newest_first_sorted:
  assumes "distinct (map (row_key cursor_of) rows)"
  shows "sorted_wrt (\<lambda>a b. row_key cursor_of b < row_key cursor_of a) (newest_first cursor_of rows)"
proof -
  have "sorted (map (row_key cursor_of) (sort_key (row_key cursor_of) rows))" by simp
  moreover have "distinct (map (row_key cursor_of) (sort_key (row_key cursor_of) rows))"
    using assms by (simp add: distinct_map)
  ultimately have "sorted_wrt (<) (map (row_key cursor_of) (sort_key (row_key cursor_of) rows))"
    by (simp add: strict_sorted_iff)
  then show ?thesis by (simp add: newest_first_def sorted_wrt_rev sorted_wrt_map)
qed

text \<open>One page from a position: its items, and the cursor that continues behind them.\<close>

lemma keyset_page_at:
  assumes "filter (\<lambda>r. below after (row_key cursor_of r)) (newest_first cursor_of rows) = rest"
    and "n = unat (limit_get limit)" and "0 < n"
  shows "keyset_page enc cursor_of rows limit after =
    \<lparr>pg_items = take n rest,
     pg_next_cursor = (if n < length rest then Some (cursor_encode enc (cursor_of (last (take n rest)))) else None)\<rparr>"
  using assms by (auto simp: keyset_page_def from_fetch_def Let_def min_def take_all_iff)

lemma below_cursor:
  "(\<lambda>r. below (Some (cursor_of z)) (row_key cursor_of r)) = (\<lambda>r. row_key cursor_of r < row_key cursor_of z)"
  by (simp add: below_def row_key_def)

lemma below_drop:
  assumes "sorted_wrt (\<lambda>a b. row_key cursor_of b < row_key cursor_of a) xs"
    and "m + n \<le> length xs" and "0 < n"
  shows "filter (\<lambda>r. below (Some (cursor_of (last (take n (drop m xs))))) (row_key cursor_of r)) xs = drop (m + n) xs"
proof -
  have "last (take n (drop m xs)) = last (take (m + n) xs)"
    using assms(2,3) by (simp add: take_add last_append)
  then show ?thesis
    using below_prefix [OF assms(1), of "m + n"] assms(2,3) by (simp add: below_cursor)
qed

lemma page_walk_from:
  assumes sorted: "sorted_wrt (\<lambda>a b. row_key cursor_of b < row_key cursor_of a) (newest_first cursor_of rows)"
    and decode: "\<And>r. r \<in> set rows \<Longrightarrow> decode (cursor_encode enc (cursor_of r)) = Inr (cursor_of r)"
    and limit: "n = unat (limit_get limit)" "0 < n"
  shows "filter (\<lambda>r. below after (row_key cursor_of r)) (newest_first cursor_of rows) = drop m (newest_first cursor_of rows) \<Longrightarrow>
    length (drop m (newest_first cursor_of rows)) < fuel \<Longrightarrow>
    \<exists>pages. page_walk fuel enc decode cursor_of rows limit after = Some pages \<and>
      concat pages = drop m (newest_first cursor_of rows) \<and> (\<forall>p \<in> set pages. length p \<le> n)"
proof (induction fuel arbitrary: after m)
  case 0
  then show ?case by simp
next
  case (Suc fuel)
  define xs where "xs = newest_first cursor_of rows"
  note page = keyset_page_at [OF Suc.prems(1) limit, of enc, folded xs_def]
  show ?case
  proof (cases "n < length (drop m xs)")
    case False
    then show ?thesis using page by (simp add: xs_def [symmetric] Let_def)
  next
    case True
    define z where "z = last (take n (drop m xs))"
    have "z \<in> set xs" unfolding z_def using True limit(2)
      by (metis in_set_dropD in_set_takeD last_in_set length_greater_0_conv less_trans take_eq_Nil2 less_irrefl)
    then have "decode (cursor_encode enc (cursor_of z)) = Inr (cursor_of z)"
      by (intro decode) (simp add: xs_def newest_first_def)
    moreover have "filter (\<lambda>r. below (Some (cursor_of z)) (row_key cursor_of r)) xs = drop (m + n) xs"
      unfolding z_def using True limit(2) by (intro below_drop) (use sorted in \<open>auto simp: xs_def\<close>)
    moreover have "length (drop (m + n) xs) < fuel"
      using Suc.prems(2) True limit(2) by (simp add: xs_def)
    ultimately obtain pages where "page_walk fuel enc decode cursor_of rows limit (Some (cursor_of z)) = Some pages"
        "concat pages = drop (m + n) xs" "\<forall>p \<in> set pages. length p \<le> n"
        "decode (cursor_encode enc (cursor_of z)) = Inr (cursor_of z)"
      using Suc.IH [of "Some (cursor_of z)" "m + n"] by (auto simp: xs_def)
    moreover have "take n (drop m xs) @ drop (m + n) xs = drop m xs"
      by (metis add.commute append_take_drop_id drop_drop)
    ultimately show ?thesis
      using page True by (simp add: xs_def [symmetric] z_def [symmetric] Let_def)
  qed
qed

text \<open>
  Following the cursors of a listing until there is none returns every row exactly
  once, newest first, in pages of at most the requested size (between 1 and 100, whatever the client
  asks for); one request more than there are rows is always enough. The rows must have distinct
  \<open>(created_at, id)\<close> positions with representable times, and the text of a cursor must decode to
  the JSON it was made from.
\<close>

theorem pages_enumerate_every_row:
  assumes "distinct (map (row_key cursor_of) rows)"
    and "\<And>t i. dec (enc (cursor_json t i)) = Some (cursor_json t i)"
    and "\<And>r. r \<in> set rows \<Longrightarrow> cu_created_at (cursor_of r) < 2 ^ 63"
    and "\<And>r. r \<in> set rows \<Longrightarrow> from_micros (int (cu_created_at (cursor_of r))) = Some (cu_created_at (cursor_of r))"
  shows "\<exists>pages. page_walk (Suc (length rows)) enc (cursor_decode dec from_micros) cursor_of rows (page_limit wanted) None = Some pages \<and>
    concat pages = newest_first cursor_of rows \<and> mset (concat pages) = mset rows \<and>
    (\<forall>p \<in> set pages. length p \<le> unat (limit_get (page_limit wanted)) \<and> length p \<le> 100)"
proof -
  have "\<exists>pages. page_walk (Suc (length rows)) enc (cursor_decode dec from_micros) cursor_of rows (page_limit wanted) None = Some pages \<and>
      concat pages = drop 0 (newest_first cursor_of rows) \<and>
      (\<forall>p \<in> set pages. length p \<le> unat (limit_get (page_limit wanted)))"
    using page_limit_bounds [of wanted] assms
    by (intro page_walk_from newest_first_sorted cursor_decode_encode) (simp_all add: below_def newest_first_def)
  then obtain pages where "page_walk (Suc (length rows)) enc (cursor_decode dec from_micros) cursor_of rows (page_limit wanted) None = Some pages"
      and all: "concat pages = newest_first cursor_of rows"
      and size: "\<forall>p \<in> set pages. length p \<le> unat (limit_get (page_limit wanted))" by auto
  moreover have "mset (concat pages) = mset rows" unfolding all newest_first_def by simp
  moreover have "\<forall>p \<in> set pages. length p \<le> 100" using size page_limit_bounds [of wanted] le_trans by blast
  ultimately show ?thesis by blast
qed

text \<open>A concrete text form of cursors: identifier, a separator, the time in unary.\<close>

fun demo_enc :: "json \<Rightarrow> string" where
  "demo_enc (JObj [(_, JNum (PosInt n)), (_, JStr s)]) = s @ CHR '';'' # replicate (unat n) CHR ''i''"
| "demo_enc _ = []"

definition demo_dec :: "string \<Rightarrow> json option" where
  "demo_dec raw = Some (cursor_json (of_nat (length (takeWhile ((=) CHR ''i'') (rev raw))))
     (rev (tl (dropWhile ((=) CHR ''i'') (rev raw)))))"

lemma demo_dec_enc: "demo_dec (demo_enc (cursor_json t i)) = Some (cursor_json t i)"
proof -
  have "takeWhile ((=) CHR ''i'') (replicate n CHR ''i'' @ CHR '';'' # s) = replicate n CHR ''i''"
    "dropWhile ((=) CHR ''i'') (replicate n CHR ''i'' @ CHR '';'' # s) = CHR '';'' # s" for n s
    by (induction n) simp_all
  then show ?thesis by (simp add: demo_dec_def)
qed

definition demo_listing :: "Cursor list" where
  "demo_listing = [cursor_for 3 ''x'', cursor_for 1 ''x'', cursor_for 2 ''x'']"

theorem pages_enumerate_every_row_witness:
  "\<exists>pages. page_walk 4 demo_enc (cursor_decode demo_dec (\<lambda>t. Some (nat t))) id demo_listing (page_limit (Some 0)) None = Some pages \<and>
     map cu_created_at (concat pages) = [3, 2, 1] \<and> (\<forall>p \<in> set pages. length p \<le> 1)"
proof -
  have "distinct (map (row_key id) demo_listing)"
    by (simp add: demo_listing_def row_key_def cursor_for_def)
  then have "\<exists>pages. page_walk (Suc (length demo_listing)) demo_enc (cursor_decode demo_dec (\<lambda>t. Some (nat t))) id demo_listing
      (page_limit (Some 0)) None = Some pages \<and> concat pages = newest_first id demo_listing \<and>
      mset (concat pages) = mset demo_listing \<and>
      (\<forall>p \<in> set pages. length p \<le> unat (limit_get (page_limit (Some 0))) \<and> length p \<le> 100)"
    by (rule pages_enumerate_every_row [OF _ demo_dec_enc]) (auto simp: demo_listing_def cursor_for_def)
  moreover have "map cu_created_at (newest_first id demo_listing) = [3, 2, 1]"
    by (simp add: newest_first_def demo_listing_def row_key_def cursor_for_def insort_key_def sort_key_def)
  moreover have "unat (limit_get (page_limit (Some 0))) = 1" by (simp add: page_limit_def MAX_LIMIT_def)
  moreover have "Suc (length demo_listing) = 4" by (simp add: demo_listing_def)
  ultimately show ?thesis by metis
qed

end
