(* ===== verification/Organization_Policy.thy ===== *)
theory Organization_Policy
  imports Manager_Base
begin

text \<open>
  \<open>src/crates/openflows-manager/src/organizations/policy.rs\<close> and the membership enumerations of
  \<open>dto.rs\<close>: the decision of the central policy layer from the caller's current membership and the
  organization's current state. \<open>None\<close> stands for a row that the query did not find.
\<close>

datatype MembershipRole = Admin | Developer | Viewer

datatype MembershipStatus = Active | Suspended | Removed

definition role_as_str :: "MembershipRole \<Rightarrow> string" where
  "role_as_str r = (case r of Admin \<Rightarrow> ''admin'' | Developer \<Rightarrow> ''developer'' | Viewer \<Rightarrow> ''viewer'')"

definition status_as_str :: "MembershipStatus \<Rightarrow> string" where
  "status_as_str s = (case s of Active \<Rightarrow> ''active'' | Suspended \<Rightarrow> ''suspended'' | Removed \<Rightarrow> ''removed'')"

definition role_from_str :: "string \<Rightarrow> MembershipRole result" where
  "role_from_str v =
     (if v = ''admin'' then Ok Admin else if v = ''developer'' then Ok Developer
      else if v = ''viewer'' then Ok Viewer else Err (''invalid MembershipRole: '' @ v))"

definition status_from_str :: "string \<Rightarrow> MembershipStatus result" where
  "status_from_str v =
     (if v = ''active'' then Ok Active else if v = ''suspended'' then Ok Suspended
      else if v = ''removed'' then Ok Removed else Err (''invalid MembershipStatus: '' @ v))"

lemma role_roundtrip: "role_from_str v = Ok r \<longleftrightarrow> v = role_as_str r"
  by (cases r) (auto simp: role_from_str_def role_as_str_def)

lemma status_roundtrip: "status_from_str v = Ok s \<longleftrightarrow> v = status_as_str s"
  by (cases s) (auto simp: status_from_str_def status_as_str_def)

record Membership =
  ms_organization_id :: string
  ms_user_id :: string
  ms_role :: MembershipRole
  ms_status :: MembershipStatus

record OrganizationState =
  os_organization_id :: string
  os_status :: string
  os_owner_user_id :: string

datatype MemberResolution = ActiveMember | SuspendedMember

definition require_mutable :: "OrganizationState option \<Rightarrow> unit managed" where
  "require_mutable org =
     (if is_some_and org (\<lambda>o'. os_status o' = ''ready'' \<or> os_status o' = ''provisioning'') then Inr ()
      else Inl (api ''ORG_UNAVAILABLE'' ''organization does not accept mutations''))"

definition require_member ::
  "Membership option \<Rightarrow> OrganizationState option \<Rightarrow> MemberResolution managed" where
  "require_member membership org =
     (if org = None then Inl (not_found ''organization'')
      else (case membership of
          None \<Rightarrow> Inl (not_found ''organization'')
        | Some m \<Rightarrow>
            if is_some_and org (\<lambda>o'. os_organization_id o' \<noteq> ms_organization_id m \<or> os_status o' = ''deleted'')
            then Inl (not_found ''organization'')
            else if is_some_and org (\<lambda>o'. os_status o' = ''suspended'')
            then Inl (api ''ORG_UNAVAILABLE'' ''organization is suspended'')
            else (case ms_status m of
                Active \<Rightarrow> Inr ActiveMember
              | Suspended \<Rightarrow> Inl (api ''MEMBER_SUSPENDED'' ''your membership in this organization is suspended'')
              | Removed \<Rightarrow> Inl (not_found ''organization''))))"

abbreviation admin_required :: ManagerError where
  "admin_required \<equiv> api ''ORG_ADMIN_REQUIRED'' ''an organization admin is required for this action''"

definition require_admin :: "Membership option \<Rightarrow> OrganizationState option \<Rightarrow> unit managed" where
  "require_admin membership org =
     and_then (require_member membership org) (\<lambda>_.
       and_then (require_mutable org) (\<lambda>_.
         case (ms_status (the membership), ms_role (the membership)) of
           (Active, Admin) \<Rightarrow> Inr ()
         | _ \<Rightarrow> Inl admin_required))"

definition require_admin_view :: "Membership option \<Rightarrow> OrganizationState option \<Rightarrow> unit managed" where
  "require_admin_view membership org =
     and_then (require_member membership org) (\<lambda>_.
       case (ms_status (the membership), ms_role (the membership)) of
         (Active, Admin) \<Rightarrow> Inr ()
       | _ \<Rightarrow> Inl admin_required)"

definition require_developer :: "Membership option \<Rightarrow> OrganizationState option \<Rightarrow> unit managed" where
  "require_developer membership org =
     and_then (require_member membership org) (\<lambda>_.
       and_then (require_mutable org) (\<lambda>_.
         if ms_status (the membership) \<noteq> Active
         then Inl (api ''FORBIDDEN'' ''an active developer or admin is required for this action'')
         else (case ms_role (the membership) of
             Viewer \<Rightarrow> Inl (api ''FORBIDDEN'' ''a developer or admin is required for this action'')
           | _ \<Rightarrow> Inr ())))"

definition require_owner :: "Membership option \<Rightarrow> OrganizationState option \<Rightarrow> unit managed" where
  "require_owner membership org =
     and_then (require_member membership org) (\<lambda>_.
       case org of
         None \<Rightarrow> Inl (not_found ''organization'')
       | Some state \<Rightarrow>
           if ms_status (the membership) \<noteq> Active
           then Inl (api ''OWNER_REQUIRED'' ''an active owner is required for this action'')
           else if ms_user_id (the membership) \<noteq> os_owner_user_id state
           then Inl (api ''OWNER_REQUIRED'' ''only the organization owner can perform this action'')
           else Inr ())"

section \<open>What each decision means\<close>

definition open_to :: "Membership option \<Rightarrow> OrganizationState option \<Rightarrow> Membership \<Rightarrow> OrganizationState \<Rightarrow> bool" where
  "open_to membership org m o' \<longleftrightarrow> membership = Some m \<and> org = Some o' \<and>
     os_organization_id o' = ms_organization_id m \<and> os_status o' \<noteq> ''deleted'' \<and> os_status o' \<noteq> ''suspended'' \<and>
     ms_status m = Active"

lemma require_member_iff: "require_member ms org = Inr x \<longleftrightarrow> x = ActiveMember \<and> (\<exists>m o'. open_to ms org m o')"
  by (cases ms; cases org)
    (auto simp: require_member_def open_to_def is_some_and_iff split: MembershipStatus.splits)

lemma require_mutable_iff:
  "require_mutable org = Inr x \<longleftrightarrow> (\<exists>o'. org = Some o' \<and> (os_status o' = ''ready'' \<or> os_status o' = ''provisioning''))"
  by (cases org) (auto simp: require_mutable_def)

lemma require_admin_iff:
  "require_admin ms org = Inr x \<longleftrightarrow> (\<exists>m o'. open_to ms org m o' \<and>
     (os_status o' = ''ready'' \<or> os_status o' = ''provisioning'') \<and> ms_role m = Admin)"
  by (auto simp: require_admin_def and_then_Inr require_member_iff require_mutable_iff open_to_def
      split: MembershipStatus.splits MembershipRole.splits)

lemma require_admin_view_iff:
  "require_admin_view ms org = Inr x \<longleftrightarrow> (\<exists>m o'. open_to ms org m o' \<and> ms_role m = Admin)"
  by (auto simp: require_admin_view_def and_then_Inr require_member_iff open_to_def
      split: MembershipStatus.splits MembershipRole.splits)

lemma require_developer_iff:
  "require_developer ms org = Inr x \<longleftrightarrow> (\<exists>m o'. open_to ms org m o' \<and>
     (os_status o' = ''ready'' \<or> os_status o' = ''provisioning'') \<and> ms_role m \<noteq> Viewer)"
  by (auto simp: require_developer_def and_then_Inr require_member_iff require_mutable_iff open_to_def
      split: MembershipStatus.splits MembershipRole.splits if_splits)

lemma require_owner_iff:
  "require_owner ms org = Inr x \<longleftrightarrow> (\<exists>m o'. open_to ms org m o' \<and> ms_user_id m = os_owner_user_id o')"
  by (auto simp: require_owner_def and_then_Inr require_member_iff open_to_def split: if_splits)

text \<open>A caller without a membership row, or with a removed one, is told the organization does not exist.\<close>

definition outsider :: "Membership option \<Rightarrow> bool" where
  "outsider membership \<longleftrightarrow> is_none_or membership (\<lambda>m. ms_status m = Removed)"

lemma outsider_not_found:
  assumes "outsider ms" and "is_some_and org (\<lambda>o'. os_status o' = ''suspended'') \<Longrightarrow> ms = None"
  shows "require_member ms org = Inl (not_found ''organization'')"
  using assms by (cases ms; cases org) (auto simp: outsider_def require_member_def split: MembershipStatus.splits)

end
