(* ===== verification/Organizations.thy ===== *)
theory Organizations
  imports Organization_Policy Manager_Idempotency Manager_Outbox Pagination
begin

text \<open>
  \<open>src/crates/openflows-manager/src/organizations/repository.rs\<close> and \<open>service.rs\<close>, with the audit
  log of \<open>audit.rs\<close>: organizations, memberships and invitations. Each service call is a transaction
  that locks the organization row first, so calls on one organization are serialised: a call is a
  function from the database to its answer and the new database, and an error rolls back. What a
  call reads before its transaction (a policy check, the invitation of a token, a stored result) is
  read from a separate argument, the database at that earlier moment. \<open>tnow\<close> is the start of the
  transaction (\<open>now()\<close>) and \<open>clk\<close> the current time (\<open>clock_timestamp()\<close>, \<open>Utc::now()\<close>).

  The columns with a \<open>CHECK\<close> constraint on the role and status words are kept in the enumerations;
  new identifiers, the GitHub lookup of a login, the hash of a token, the request hashes and the
  UUID parser are arguments. A violated unique constraint is an error of the insert.
\<close>

record UserRow =
  us_id :: string
  us_display_name :: string
  us_status :: string

record IdentityRow =
  id_user_id :: string
  id_provider :: string
  id_subject :: string
  id_login_snapshot :: "string option"

record OrganizationRow =
  og_id :: string
  og_slug :: string
  og_display_name :: string
  og_owner_user_id :: string
  og_status :: string
  og_updated_at :: instant

record MembershipRow =
  mb_organization_id :: string
  mb_user_id :: string
  mb_role :: MembershipRole
  mb_status :: MembershipStatus
  mb_updated_at :: instant

record InvitationRow =
  iv_id :: string
  iv_organization_id :: string
  iv_invitee_github_user_id :: int
  iv_role :: MembershipRole
  iv_token_hash :: string
  iv_invited_by :: string
  iv_expires_at :: instant
  iv_accepted_at :: "instant option"
  iv_revoked_at :: "instant option"
  iv_created_at :: instant
  iv_invitee_login :: "string option"

datatype AuditResult = AuditSuccess | AuditDenied | AuditFailure

record AuditRow =
  au_organization_id :: "string option"
  au_actor_type :: string
  au_actor_id :: "string option"
  au_action :: string
  au_resource_type :: "string option"
  au_resource_id :: "string option"
  au_result :: AuditResult
  au_request_id :: "string option"
  au_occurred_at :: instant

record OrgDb =
  od_users :: "UserRow list"
  od_identities :: "IdentityRow list"
  od_organizations :: "OrganizationRow list"
  od_memberships :: "MembershipRow list"
  od_invitations :: "InvitationRow list"
  od_audit :: "AuditRow list"
  od_queue :: Db

section \<open>Validation and the audit log\<close>

definition is_ascii_lowercase :: "char \<Rightarrow> bool" where
  "is_ascii_lowercase c \<longleftrightarrow> (97 :: nat) \<le> of_char c \<and> (of_char c :: nat) \<le> 122"

definition slug_edge :: "char \<Rightarrow> bool" where
  "slug_edge c \<longleftrightarrow> is_ascii_lowercase c \<or> is_ascii_digit c"

definition validate_slug :: "string \<Rightarrow> unit managed" where
  "validate_slug slug =
     (if 3 \<le> length slug \<and> length slug \<le> 63 \<and> slug_edge (hd slug) \<and> slug_edge (last slug) \<and>
         list_all (\<lambda>c. slug_edge c \<or> c = CHR ''-'') slug
      then Inr ()
      else Inl (InvalidInput ''slug must be 3-63 chars of lowercase letters, digits, or hyphens, and start/end alphanumeric''))"

text \<open>\<open>chars().count()\<close>: the bytes of a UTF-8 text that do not continue a character.\<close>

definition char_count :: "string \<Rightarrow> nat" where
  "char_count s = length (filter (\<lambda>c. \<not> ((128 :: nat) \<le> of_char c \<and> of_char c < (192 :: nat))) s)"

definition validate_display_name :: "string \<Rightarrow> unit managed" where
  "validate_display_name name =
     (if blank name \<or> 100 < char_count name then Inl (InvalidInput ''display name must be 1-100 characters'') else Inr ())"

definition audit_insert :: "instant \<Rightarrow> string \<Rightarrow> string \<Rightarrow> string \<Rightarrow> string \<Rightarrow> string \<Rightarrow> string \<Rightarrow> OrgDb \<Rightarrow> OrgDb" where
  "audit_insert tnow action org actor resource_type resource_id request_id db =
     db\<lparr>od_audit := od_audit db @
       [\<lparr>au_organization_id = Some org, au_actor_type = ''user'', au_actor_id = Some actor, au_action = action,
         au_resource_type = Some resource_type, au_resource_id = Some resource_id, au_result = AuditSuccess,
         au_request_id = Some request_id, au_occurred_at = tnow\<rparr>]\<rparr>"

lemma audit_insert_sel [simp]:
  "od_users (audit_insert t a b c d e f db) = od_users db"
  "od_identities (audit_insert t a b c d e f db) = od_identities db"
  "od_organizations (audit_insert t a b c d e f db) = od_organizations db"
  "od_memberships (audit_insert t a b c d e f db) = od_memberships db"
  "od_invitations (audit_insert t a b c d e f db) = od_invitations db"
  "od_queue (audit_insert t a b c d e f db) = od_queue db"
  by (simp_all add: audit_insert_def)

section \<open>The repository\<close>

definition user_active :: "OrgDb \<Rightarrow> string \<Rightarrow> bool" where
  "user_active db user \<longleftrightarrow> list_ex (\<lambda>u. us_id u = user \<and> us_status u = ''active'') (od_users db)"

definition find_org :: "OrgDb \<Rightarrow> string \<Rightarrow> OrganizationRow option" where
  "find_org db org = List.find (\<lambda>r. og_id r = org) (od_organizations db)"

definition find_member :: "OrgDb \<Rightarrow> string \<Rightarrow> string \<Rightarrow> MembershipRow option" where
  "find_member db org user =
     List.find (\<lambda>m. mb_organization_id m = org \<and> mb_user_id m = user) (od_memberships db)"

definition org_state :: "OrganizationRow \<Rightarrow> OrganizationState" where
  "org_state r = \<lparr>os_organization_id = og_id r, os_status = og_status r, os_owner_user_id = og_owner_user_id r\<rparr>"

definition membership_of :: "MembershipRow \<Rightarrow> Membership" where
  "membership_of m = \<lparr>ms_organization_id = mb_organization_id m, ms_user_id = mb_user_id m,
     ms_role = mb_role m, ms_status = mb_status m\<rparr>"

definition membership_and_org :: "OrgDb \<Rightarrow> string \<Rightarrow> string \<Rightarrow> Membership option \<times> OrganizationState option" where
  "membership_and_org db org user =
     (case (find_org db org, find_member db org user) of
        (Some o', Some m) \<Rightarrow>
          if user_active db user then (Some (membership_of m), Some (org_state o')) else (None, None)
      | _ \<Rightarrow> (None, None))"

definition lock_policy :: "OrgDb \<Rightarrow> string \<Rightarrow> string \<Rightarrow> Membership option \<times> OrganizationState option" where
  "lock_policy db org caller =
     (if user_active db caller then map_option membership_of (find_member db org caller) else None,
      map_option org_state (find_org db org))"

definition is_member_row :: "string \<Rightarrow> string \<Rightarrow> MembershipRow \<Rightarrow> bool" where
  "is_member_row org user m \<longleftrightarrow> mb_organization_id m = org \<and> mb_user_id m = user"

definition other_admins :: "OrgDb \<Rightarrow> string \<Rightarrow> string \<Rightarrow> nat" where
  "other_admins db org user =
     length (filter (\<lambda>m. mb_organization_id m = org \<and> mb_role m = Admin \<and> mb_status m = Active \<and>
       mb_user_id m \<noteq> user \<and> user_active db (mb_user_id m)) (od_memberships db))"

definition update_member_in_tx ::
  "instant \<Rightarrow> OrgDb \<Rightarrow> string \<Rightarrow> string \<Rightarrow> MembershipRole \<Rightarrow> MembershipStatus \<Rightarrow> (unit \<times> OrgDb) managed" where
  "update_member_in_tx tnow db org target new_role new_status =
     (case find_org db org of None \<Rightarrow> Inl (not_found ''organization'')
      | Some o' \<Rightarrow>
         (case find_member db org target of None \<Rightarrow> Inl (not_found ''member'')
          | Some m \<Rightarrow>
              if og_owner_user_id o' = target \<and> new_status \<noteq> Active
              then Inl (Conflict ''transfer ownership before removing or suspending the owner'')
              else if (mb_role m = Admin \<and> mb_status m = Active) \<and> \<not> (new_role = Admin \<and> new_status = Active) \<and>
                other_admins db org target = 0
              then Inl (Conflict ''cannot demote, suspend, or remove the last active admin'')
              else Inr ((), db\<lparr>od_memberships :=
                update_where (is_member_row org target)
                  (\<lambda>m. m\<lparr>mb_role := new_role, mb_status := new_status, mb_updated_at := tnow\<rparr>) (od_memberships db)\<rparr>)))"

definition transfer_ownership_in_tx :: "instant \<Rightarrow> OrgDb \<Rightarrow> string \<Rightarrow> string \<Rightarrow> (unit \<times> OrgDb) managed" where
  "transfer_ownership_in_tx tnow db org new_owner =
     (case find_org db org of None \<Rightarrow> Inl (not_found ''organization'')
      | Some _ \<Rightarrow>
         (case if user_active db new_owner then find_member db org new_owner else None of
            None \<Rightarrow> Inl (not_found ''member'')
          | Some m \<Rightarrow>
              if mb_status m \<noteq> Active then Inl (Conflict ''the new owner must be an active member'')
              else Inr ((), db\<lparr>od_organizations :=
                update_where (\<lambda>r. og_id r = org) (\<lambda>r. r\<lparr>og_owner_user_id := new_owner, og_updated_at := tnow\<rparr>)
                  (od_organizations db)\<rparr>)))"

subsection \<open>Invitations\<close>

definition INVITATION_LIFETIME :: instant where
  "INVITATION_LIFETIME = seconds (7 * 24 * 60 * 60)"

definition outstanding :: "InvitationRow \<Rightarrow> bool" where
  "outstanding i \<longleftrightarrow> iv_accepted_at i = None \<and> iv_revoked_at i = None"

definition create_invitation_in_tx ::
  "string \<Rightarrow> instant \<Rightarrow> instant \<Rightarrow> OrgDb \<Rightarrow> string \<Rightarrow> int \<Rightarrow> MembershipRole \<Rightarrow> string \<Rightarrow> string \<Rightarrow>
   (string \<times> OrgDb) managed" where
  "create_invitation_in_tx new_id tnow clk db org invitee role token_hash invited_by =
     (let rows = update_where (\<lambda>i. iv_organization_id i = org \<and> iv_invitee_github_user_id i = invitee \<and>
              outstanding i \<and> iv_expires_at i \<le> clk)
            (\<lambda>i. i\<lparr>iv_revoked_at := Some tnow\<rparr>) (od_invitations db) in
      if list_ex (\<lambda>i. iv_id i = new_id \<or> iv_token_hash i = token_hash) rows
      then Inl (Database ''duplicate key value violates unique constraint'')
      else if list_ex (\<lambda>i. iv_organization_id i = org \<and> iv_invitee_github_user_id i = invitee \<and> outstanding i) rows
      then Inl (Conflict ''an active invitation already exists for this person'')
      else Inr (new_id, db\<lparr>od_invitations := rows @
        [\<lparr>iv_id = new_id, iv_organization_id = org, iv_invitee_github_user_id = invitee, iv_role = role,
          iv_token_hash = token_hash, iv_invited_by = invited_by, iv_expires_at = clk + INVITATION_LIFETIME,
          iv_accepted_at = None, iv_revoked_at = None, iv_created_at = tnow, iv_invitee_login = None\<rparr>]\<rparr>))"

definition set_invitee_login_in_tx :: "OrgDb \<Rightarrow> string \<Rightarrow> string \<Rightarrow> OrgDb" where
  "set_invitee_login_in_tx db i login =
     db\<lparr>od_invitations := update_where (\<lambda>r. iv_id r = i) (\<lambda>r. r\<lparr>iv_invitee_login := Some login\<rparr>) (od_invitations db)\<rparr>"

definition revoke_invitation_in_tx :: "instant \<Rightarrow> OrgDb \<Rightarrow> string \<Rightarrow> string \<Rightarrow> bool \<times> OrgDb" where
  "revoke_invitation_in_tx tnow db org i =
     (let p = (\<lambda>r. iv_id r = i \<and> iv_organization_id r = org \<and> outstanding r) in
      (rows_affected p (od_invitations db) = 1,
       db\<lparr>od_invitations := update_where p (\<lambda>r. r\<lparr>iv_revoked_at := Some tnow\<rparr>) (od_invitations db)\<rparr>))"

definition invitation_by_token :: "OrgDb \<Rightarrow> string \<Rightarrow> InvitationRow option" where
  "invitation_by_token db token_hash = List.find (\<lambda>i. iv_token_hash i = token_hash) (od_invitations db)"

definition show_int :: "int \<Rightarrow> string" where
  "show_int i = (if i < 0 then CHR ''-'' # show_nat (nat (- i)) else show_nat (nat i))"

definition identity_ok :: "OrgDb \<Rightarrow> string \<Rightarrow> int \<Rightarrow> bool" where
  "identity_ok db user github_user_id \<longleftrightarrow>
     list_ex (\<lambda>i. id_user_id i = user \<and> id_provider i = ''github'' \<and> id_subject i = show_int github_user_id)
       (od_identities db) \<and> user_active db user"

text \<open>\<open>INSERT ... ON CONFLICT DO UPDATE ... WHERE\<close>: a new row, or a removed one brought back.\<close>

definition restorable :: "string \<Rightarrow> string \<Rightarrow> instant \<Rightarrow> MembershipRow \<Rightarrow> bool" where
  "restorable org user invited_at m \<longleftrightarrow>
     is_member_row org user m \<and> mb_status m = Removed \<and> mb_updated_at m \<le> invited_at"

definition join_organization ::
  "instant \<Rightarrow> OrgDb \<Rightarrow> string \<Rightarrow> string \<Rightarrow> MembershipRole \<Rightarrow> instant \<Rightarrow> (unit \<times> OrgDb) managed" where
  "join_organization tnow db org user role invited_at =
     (if \<not> list_ex (is_member_row org user) (od_memberships db)
      then Inr ((), db\<lparr>od_memberships := od_memberships db @
        [\<lparr>mb_organization_id = org, mb_user_id = user, mb_role = role, mb_status = Active, mb_updated_at = tnow\<rparr>]\<rparr>)
      else if rows_affected (restorable org user invited_at) (od_memberships db) \<noteq> 1
      then Inl (Conflict ''membership already exists; an admin must change its role or status'')
      else Inr ((), db\<lparr>od_memberships :=
        update_where (restorable org user invited_at)
          (\<lambda>m. m\<lparr>mb_role := role, mb_status := Active, mb_updated_at := tnow\<rparr>) (od_memberships db)\<rparr>))"

definition consumable :: "instant \<Rightarrow> string \<Rightarrow> InvitationRow \<Rightarrow> bool" where
  "consumable tnow i r \<longleftrightarrow> iv_id r = i \<and> outstanding r \<and> tnow < iv_expires_at r"

definition accept_invitation_in_tx ::
  "instant \<Rightarrow> instant \<Rightarrow> OrgDb \<Rightarrow> string \<Rightarrow> int \<Rightarrow> string \<Rightarrow> (unit \<times> OrgDb) managed" where
  "accept_invitation_in_tx tnow clk db i github_user_id user =
     (case List.find (\<lambda>r. iv_id r = i) (od_invitations db) of
        None \<Rightarrow> Inl (not_found ''invitation'')
      | Some row \<Rightarrow>
          if \<not> identity_ok db user github_user_id then Inl (api ''UNAUTHORIZED'' ''active GitHub identity required'')
          else if iv_invitee_github_user_id row \<noteq> github_user_id
          then Inl (api ''INVITATION_WRONG_USER'' ''this invitation is not for your GitHub identity'')
          else if iv_expires_at row \<le> clk then Inl (Conflict ''invitation expired'')
          else if rows_affected (consumable tnow i) (od_invitations db) = 0
          then Inl (Conflict ''invitation already used'')
          else join_organization tnow
            (db\<lparr>od_invitations :=
               update_where (consumable tnow i) (\<lambda>r. r\<lparr>iv_accepted_at := Some tnow\<rparr>) (od_invitations db)\<rparr>)
            (iv_organization_id row) user (iv_role row) (iv_created_at row))"

section \<open>The service\<close>

text \<open>\<open>split_ref\<close>: the two identifiers of a stored \<open>org:operation\<close> reference.\<close>

definition split_ref :: "(string \<Rightarrow> string option) \<Rightarrow> string \<Rightarrow> (string \<times> string) managed" where
  "split_ref parse_uuid reference =
     (let org = takeWhile (\<lambda>c. c \<noteq> CHR '':'') reference; rest = drop (length org) reference in
      case parse_uuid org of
        None \<Rightarrow> Inl (Service ''invalid org id in reference'')
      | Some o' \<Rightarrow>
          if rest = [] then Inl (Service ''invalid operation reference'')
          else (case parse_uuid (tl rest) of
              None \<Rightarrow> Inl (Service ''invalid operation id in reference'')
            | Some p \<Rightarrow> Inr (o', p)))"

definition payload_of_org :: "string \<Rightarrow> json option" where
  "payload_of_org org = Some (JObj [(''organization_id'', JStr org)])"

definition create_org_mutation ::
  "string \<Rightarrow> string \<Rightarrow> string \<Rightarrow> instant \<Rightarrow> string \<Rightarrow> string \<Rightarrow> string \<Rightarrow> string \<Rightarrow> string \<Rightarrow> OrgDb \<Rightarrow> (string \<times> OrgDb) managed" where
  "create_org_mutation org op ox tnow actor slug display_name idempotency_key request_id db =
     (if \<not> user_active db actor then Inl (api ''UNAUTHORIZED'' ''active user required'')
      else if list_ex (\<lambda>r. og_id r = org) (od_organizations db)
      then Inl (Database ''duplicate key value violates unique constraint'')
      else if list_ex (\<lambda>r. og_slug r = slug) (od_organizations db)
      then Inl (Conflict (''organization slug already exists: '' @ slug))
      else if list_ex (is_member_row org actor) (od_memberships db)
      then Inl (Database ''duplicate key value violates unique constraint'')
      else
        (let db1 = db\<lparr>od_organizations := od_organizations db @
               [\<lparr>og_id = org, og_slug = slug, og_display_name = display_name, og_owner_user_id = actor,
                 og_status = ''provisioning'', og_updated_at = tnow\<rparr>],
               od_memberships := od_memberships db @
               [\<lparr>mb_organization_id = org, mb_user_id = actor, mb_role = Admin, mb_status = Active,
                 mb_updated_at = tnow\<rparr>]\<rparr>;
             q1 = op_create op tnow
               ((od_queue db)\<lparr>db_organizations := db_organizations (od_queue db) @ [org]\<rparr>)
               \<lparr>no_organization_id = org, no_resource_type = ''organization'', no_resource_id = Some org,
                no_kind = ''org.provision'', no_idempotency_ref = Some idempotency_key\<rparr>;
             q2 = insert_in_tx ox tnow q1 (Some org) ''org.provision_requested'' (payload_of_org org) in
         Inr (org @ '':'' @ op,
           audit_insert tnow ''org.create'' org actor ''organization'' org request_id (db1\<lparr>od_queue := q2\<rparr>))))"

definition create_org ::
  "(string \<Rightarrow> string option) \<Rightarrow> string \<Rightarrow> string \<Rightarrow> string \<Rightarrow> string \<Rightarrow> instant \<Rightarrow> instant \<Rightarrow>
   IdempotencyRow list \<times> OrgDb \<Rightarrow> string \<Rightarrow> string \<Rightarrow> string \<Rightarrow> string \<Rightarrow> string \<Rightarrow> string \<Rightarrow>
   (string \<times> string) managed \<times> IdempotencyRow list \<times> OrgDb" where
  "create_org parse_uuid key_id org op ox tnow clk st actor slug display_name idempotency_key request_hash request_id =
     (case and_then (validate_slug slug) (\<lambda>_. validate_display_name display_name) of
        Inl e \<Rightarrow> (Inl e, st)
      | Inr _ \<Rightarrow>
         (case execute_inner key_id clk st
            \<lparr>ir_actor_id = actor, ir_organization_id = None, ir_route = ''/api/v1/organizations'',
             ir_key = idempotency_key, ir_request_hash = request_hash\<rparr>
            (create_org_mutation org op ox tnow actor slug display_name idempotency_key request_id) of
            (Inl e, st') \<Rightarrow> (Inl e, st')
          | (Inr (New reference), st') \<Rightarrow> (split_ref parse_uuid reference, st')
          | (Inr (Replay reference), st') \<Rightarrow> (split_ref parse_uuid reference, st')))"

definition get_org :: "OrgDb \<Rightarrow> string \<Rightarrow> string \<Rightarrow> OrganizationRow managed" where
  "get_org db caller org =
     (case membership_and_org db org caller of (membership, state) \<Rightarrow>
        and_then (require_member membership state) (\<lambda>_.
          case find_org db org of None \<Rightarrow> Inl (not_found ''organization'') | Some r \<Rightarrow> Inr r))"

definition update_org ::
  "instant \<Rightarrow> OrgDb \<Rightarrow> string \<Rightarrow> string \<Rightarrow> string option \<Rightarrow> string \<Rightarrow> OrganizationRow managed \<times> OrgDb" where
  "update_org tnow db caller org display_name request_id =
     (case (case display_name of None \<Rightarrow> Inr () | Some name \<Rightarrow> validate_display_name name) of
        Inl e \<Rightarrow> (Inl e, db)
      | Inr _ \<Rightarrow>
         (case lock_policy db org caller of (membership, state) \<Rightarrow>
            (case require_admin membership state of
               Inl e \<Rightarrow> (Inl e, db)
             | Inr _ \<Rightarrow>
                (let db1 = (case display_name of None \<Rightarrow> db
                    | Some name \<Rightarrow> db\<lparr>od_organizations :=
                        update_where (\<lambda>r. og_id r = org) (\<lambda>r. r\<lparr>og_display_name := name, og_updated_at := tnow\<rparr>)
                          (od_organizations db)\<rparr>);
                     db2 = audit_insert tnow ''org.update'' org caller ''organization'' org request_id db1 in
                 (get_org db2 caller org, db2)))))"

definition update_member_tx ::
  "instant \<Rightarrow> OrgDb \<Rightarrow> string \<Rightarrow> string \<Rightarrow> string \<Rightarrow> MembershipRole option \<Rightarrow> MembershipStatus option \<Rightarrow> string \<Rightarrow>
   ((MembershipRole \<times> MembershipStatus) \<times> OrgDb) managed" where
  "update_member_tx tnow db caller org target role status request_id =
     (case lock_policy db org caller of (membership, state) \<Rightarrow>
        and_then (require_admin membership state) (\<lambda>_.
          case find_member db org target of
            None \<Rightarrow> Inl (not_found ''member'')
          | Some current \<Rightarrow>
             (let new_role = (case role of None \<Rightarrow> mb_role current | Some r \<Rightarrow> r);
                  new_status = (case status of None \<Rightarrow> mb_status current | Some s \<Rightarrow> s) in
              and_then (update_member_in_tx tnow db org target new_role new_status) (\<lambda>(_, db1).
                Inr ((new_role, new_status),
                  audit_insert tnow ''member.update'' org caller ''membership'' target request_id db1)))))"

definition update_member where
  "update_member tnow db caller org target role status request_id =
     transact db (update_member_tx tnow db caller org target role status request_id)"

definition remove_member :: "instant \<Rightarrow> OrgDb \<Rightarrow> string \<Rightarrow> string \<Rightarrow> string \<Rightarrow> string \<Rightarrow> unit managed \<times> OrgDb" where
  "remove_member tnow db caller org target request_id =
     (case update_member tnow db caller org target (Some Viewer) (Some Removed) request_id of
        (r, db') \<Rightarrow> (map_sum id (\<lambda>_. ()) r, db'))"

definition invite_tx ::
  "string \<Rightarrow> instant \<Rightarrow> instant \<Rightarrow> string \<Rightarrow> string \<Rightarrow> int \<times> string \<Rightarrow> MembershipRole \<Rightarrow> string \<Rightarrow> string \<Rightarrow> OrgDb \<Rightarrow>
   (string \<times> OrgDb) managed" where
  "invite_tx new_id tnow clk caller org lookup role token_hash request_id db =
     (case lock_policy db org caller of (membership, state) \<Rightarrow>
        and_then (require_admin membership state) (\<lambda>_.
          and_then (create_invitation_in_tx new_id tnow clk db org (fst lookup) role token_hash caller) (\<lambda>(i, db1).
            Inr (i, audit_insert tnow ''invitation.create'' org caller ''invitation'' i request_id
              (set_invitee_login_in_tx db1 i (snd lookup))))))"

text \<open>\<open>resolve_login\<close> is the GitHub lookup; \<open>before\<close> is the database when it was decided to ask.\<close>

definition create_invitation ::
  "(string \<Rightarrow> (int \<times> string) managed) \<Rightarrow> string \<Rightarrow> instant \<Rightarrow> instant \<Rightarrow> OrgDb \<Rightarrow> OrgDb \<Rightarrow> string \<Rightarrow> string \<Rightarrow> string \<Rightarrow>
   MembershipRole \<Rightarrow> string \<Rightarrow> string \<Rightarrow> string managed \<times> OrgDb" where
  "create_invitation resolve_login new_id tnow clk before db caller org login role token_hash request_id =
     transact db
       (case membership_and_org before org caller of (membership, state) \<Rightarrow>
          and_then (require_admin membership state) (\<lambda>_.
            and_then (resolve_login login) (\<lambda>lookup.
              invite_tx new_id tnow clk caller org lookup role token_hash request_id db)))"

definition create_invitation_idempotent ::
  "(string \<Rightarrow> string option) \<Rightarrow> (string \<Rightarrow> (int \<times> string) managed) \<Rightarrow> string \<Rightarrow> string \<Rightarrow> instant \<Rightarrow> instant \<Rightarrow> instant \<Rightarrow>
   IdempotencyRow list \<times> OrgDb \<Rightarrow> IdempotencyRow list \<times> OrgDb \<Rightarrow> string \<Rightarrow> string \<Rightarrow> string \<Rightarrow>
   MembershipRole \<Rightarrow> string \<Rightarrow> string \<Rightarrow> string \<Rightarrow> string \<Rightarrow>
   (string \<times> bool) managed \<times> IdempotencyRow list \<times> OrgDb" where
  "create_invitation_idempotent parse_uuid resolve_login key_id new_id clk0 tnow clk before st caller org login role
       key request_hash token_hash request_id =
     (let req = \<lparr>ir_actor_id = caller, ir_organization_id = Some org, ir_route = ''POST /organizations/invitations'',
                ir_key = key, ir_request_hash = request_hash\<rparr>;
          parsed = (\<lambda>reference raw. case parse_uuid reference of
             None \<Rightarrow> Inl (Service ''invalid invitation reference'') | Some i \<Rightarrow> Inr (i, raw)) in
      case membership_and_org (snd before) org caller of (membership, state) \<Rightarrow>
        (case require_admin membership state of Inl e \<Rightarrow> (Inl e, st)
         | Inr _ \<Rightarrow>
           (case idempotency_replay clk0 (fst before) req of Inl e \<Rightarrow> (Inl e, st)
            | Inr (Some reference) \<Rightarrow> (parsed reference False, st)
            | Inr None \<Rightarrow>
              (case resolve_login login of Inl e \<Rightarrow> (Inl e, st)
               | Inr lookup \<Rightarrow>
                 (case execute_inner key_id clk st req
                    (invite_tx new_id tnow clk caller org lookup role token_hash request_id) of
                    (Inl e, st') \<Rightarrow> (Inl e, st')
                  | (Inr (New reference), st') \<Rightarrow> (parsed reference True, st')
                  | (Inr (Replay reference), st') \<Rightarrow> (parsed reference False, st'))))))"

definition revoke_invitation ::
  "instant \<Rightarrow> OrgDb \<Rightarrow> string \<Rightarrow> string \<Rightarrow> string \<Rightarrow> string \<Rightarrow> unit managed \<times> OrgDb" where
  "revoke_invitation tnow db caller org i request_id =
     transact db
       (case lock_policy db org caller of (membership, state) \<Rightarrow>
          and_then (require_admin membership state) (\<lambda>_.
            case revoke_invitation_in_tx tnow db org i of (revoked, db1) \<Rightarrow>
              if \<not> revoked then Inl (not_found ''invitation'')
              else Inr ((), audit_insert tnow ''invitation.revoke'' org caller ''invitation'' i request_id db1)))"

definition accept_invitation ::
  "instant \<Rightarrow> instant \<Rightarrow> OrgDb \<Rightarrow> OrgDb \<Rightarrow> string \<Rightarrow> int \<Rightarrow> string \<Rightarrow> string \<Rightarrow> string managed \<times> OrgDb" where
  "accept_invitation tnow clk before db caller github_user_id token_hash request_id =
     transact db
       (case invitation_by_token before token_hash of
          None \<Rightarrow> Inl (not_found ''invitation'')
        | Some row \<Rightarrow>
            and_then (require_mutable (snd (lock_policy db (iv_organization_id row) caller))) (\<lambda>_.
              and_then (accept_invitation_in_tx tnow clk db (iv_id row) github_user_id caller) (\<lambda>(_, db1).
                Inr (iv_organization_id row,
                  audit_insert tnow ''invitation.accept'' (iv_organization_id row) caller ''invitation'' (iv_id row)
                    request_id db1))))"

definition transfer_ownership ::
  "instant \<Rightarrow> OrgDb \<Rightarrow> string \<Rightarrow> string \<Rightarrow> string \<Rightarrow> bool \<Rightarrow> string \<Rightarrow> unit managed \<times> OrgDb" where
  "transfer_ownership tnow db caller org new_owner has_recent_auth request_id =
     transact db
       (if \<not> has_recent_auth
        then Inl (api ''REAUTH_REQUIRED'' ''recent authentication (within 10 minutes) is required to transfer ownership'')
        else (case lock_policy db org caller of (membership, state) \<Rightarrow>
          and_then (require_owner membership state) (\<lambda>_.
            and_then (require_mutable state) (\<lambda>_.
              and_then (transfer_ownership_in_tx tnow db org new_owner) (\<lambda>(_, db1).
                Inr ((), audit_insert tnow ''org.transfer_ownership'' org caller ''organization'' org request_id db1))))))"

definition request_deletion_in_tx ::
  "string \<Rightarrow> string \<Rightarrow> instant \<Rightarrow> string \<Rightarrow> string \<Rightarrow> string \<Rightarrow> OrgDb \<Rightarrow> (string \<times> OrgDb) managed" where
  "request_deletion_in_tx op ox tnow caller org request_id db =
     (case lock_policy db org caller of (membership, state) \<Rightarrow>
        and_then (require_owner membership state) (\<lambda>_.
          if is_some_and state (\<lambda>o'. os_status o' = ''deleting'')
          then (case List.find (\<lambda>r. op_organization_id r = org \<and> op_kind r = ''org.delete'')
                  (sort_key op_created_at (db_operations (od_queue db))) of
                None \<Rightarrow> Inl (Database ''no row returned'')
              | Some r \<Rightarrow> Inr (op_id r, db))
          else and_then (require_mutable state) (\<lambda>_.
            let db1 = db\<lparr>od_organizations :=
                  update_where (\<lambda>r. og_id r = org) (\<lambda>r. r\<lparr>og_status := ''deleting'', og_updated_at := tnow\<rparr>)
                    (od_organizations db)\<rparr>;
                q1 = op_create op tnow (od_queue db)
                  \<lparr>no_organization_id = org, no_resource_type = ''organization'', no_resource_id = Some org,
                   no_kind = ''org.delete'', no_idempotency_ref = None\<rparr>;
                q2 = insert_in_tx ox tnow q1 (Some org) ''org.deletion_requested'' (payload_of_org org) in
            Inr (op, audit_insert tnow ''org.delete_request'' org caller ''organization'' org request_id
              (db1\<lparr>od_queue := q2\<rparr>)))))"

definition request_deletion ::
  "string \<Rightarrow> string \<Rightarrow> instant \<Rightarrow> OrgDb \<Rightarrow> string \<Rightarrow> string \<Rightarrow> bool \<Rightarrow> string \<Rightarrow> string managed \<times> OrgDb" where
  "request_deletion op ox tnow db caller org has_recent_auth request_id =
     transact db
       (if \<not> has_recent_auth
        then Inl (api ''REAUTH_REQUIRED'' ''recent authentication (within 10 minutes) is required to delete the organization'')
        else request_deletion_in_tx op ox tnow caller org request_id db)"

definition request_deletion_idempotent ::
  "(string \<Rightarrow> string option) \<Rightarrow> string \<Rightarrow> string \<Rightarrow> string \<Rightarrow> instant \<Rightarrow> instant \<Rightarrow> OrgDb \<Rightarrow> IdempotencyRow list \<times> OrgDb \<Rightarrow>
   string \<Rightarrow> string \<Rightarrow> bool \<Rightarrow> string \<Rightarrow> string \<Rightarrow> string \<Rightarrow> string managed \<times> IdempotencyRow list \<times> OrgDb" where
  "request_deletion_idempotent parse_uuid key_id op ox tnow clk before st caller org recent key request_hash request_id =
     (case membership_and_org before org caller of (membership, state) \<Rightarrow>
        (case require_owner membership state of Inl e \<Rightarrow> (Inl e, st)
         | Inr _ \<Rightarrow>
           if \<not> recent then (Inl (api ''REAUTH_REQUIRED'' ''sign in again before deleting the organization''), st)
           else (case execute_inner key_id clk st
               \<lparr>ir_actor_id = caller, ir_organization_id = Some org, ir_route = ''DELETE /organizations'',
                ir_key = key, ir_request_hash = request_hash\<rparr>
               (request_deletion_in_tx op ox tnow caller org request_id) of
               (Inl e, st') \<Rightarrow> (Inl e, st')
             | (Inr outcome, st') \<Rightarrow>
                 (case parse_uuid (case outcome of New r \<Rightarrow> r | Replay r \<Rightarrow> r) of
                    None \<Rightarrow> (Inl (Service ''invalid operation reference''), st')
                  | Some i \<Rightarrow> (Inr i, st')))))"

end
