(* ===== verification/Organization_System.thy ===== *)
theory Organization_System
  imports Organizations Reachability
begin

text \<open>
  The organization service as a transition system, and its access rules as an abstract
  specification: \<open>governed\<close> says which changes of organizations, memberships and invitations a caller
  may cause, and every call of the service refines it. The environment may change users,
  identities, the status of organizations, the queue and the audit log at any time.
\<close>

section \<open>The specification\<close>

definition owners :: "OrgDb \<Rightarrow> (string \<times> string) list" where
  "owners db = map (\<lambda>r. (og_id r, og_owner_user_id r)) (od_organizations db)"

definition accepts_changes :: "OrgDb \<Rightarrow> string \<Rightarrow> bool" where
  "accepts_changes db org \<longleftrightarrow>
     is_some_and (find_org db org) (\<lambda>r. og_status r = ''ready'' \<or> og_status r = ''provisioning'')"

definition acts_as_admin :: "OrgDb \<Rightarrow> string \<Rightarrow> string \<Rightarrow> bool" where
  "acts_as_admin db caller org \<longleftrightarrow> user_active db caller \<and> accepts_changes db org \<and>
     is_some_and (find_member db org caller) (\<lambda>m. mb_role m = Admin \<and> mb_status m = Active)"

definition owned_by :: "OrgDb \<Rightarrow> string \<Rightarrow> string \<Rightarrow> bool" where
  "owned_by db org user \<longleftrightarrow> is_some_and (find_org db org) (\<lambda>r. og_owner_user_id r = user)"

definition acts_as_owner :: "OrgDb \<Rightarrow> string \<Rightarrow> string \<Rightarrow> bool" where
  "acts_as_owner db caller org \<longleftrightarrow> user_active db caller \<and> owned_by db org caller \<and>
     is_some_and (find_member db org caller) (\<lambda>m. mb_status m = Active)"

definition set_member ::
  "string \<Rightarrow> string \<Rightarrow> MembershipRole \<Rightarrow> MembershipStatus \<Rightarrow> instant \<Rightarrow> MembershipRow list \<Rightarrow> MembershipRow list" where
  "set_member org user role status tnow =
     update_where (is_member_row org user) (\<lambda>m. m\<lparr>mb_role := role, mb_status := status, mb_updated_at := tnow\<rparr>)"

definition active_admin :: "string \<Rightarrow> MembershipRow \<Rightarrow> bool" where
  "active_admin org m \<longleftrightarrow> mb_organization_id m = org \<and> mb_role m = Admin \<and> mb_status m = Active"

abbreviation new_member :: "string \<Rightarrow> string \<Rightarrow> MembershipRole \<Rightarrow> instant \<Rightarrow> MembershipRow" where
  "new_member org user role tnow \<equiv>
     \<lparr>mb_organization_id = org, mb_user_id = user, mb_role = role, mb_status = Active, mb_updated_at = tnow\<rparr>"

text \<open>Who may join by an invitation at a time: the invited GitHub identity, while it is neither accepted nor revoked nor expired.\<close>

definition may_join :: "instant \<Rightarrow> OrgDb \<Rightarrow> InvitationRow \<Rightarrow> string \<Rightarrow> bool" where
  "may_join at db row user \<longleftrightarrow> row \<in> set (od_invitations db) \<and>
     iv_accepted_at row = None \<and> iv_revoked_at row = None \<and> at < iv_expires_at row \<and>
     identity_ok db user (iv_invitee_github_user_id row) \<and> accepts_changes db (iv_organization_id row)"

definition joined :: "instant \<Rightarrow> InvitationRow \<Rightarrow> string \<Rightarrow> MembershipRow list \<Rightarrow> MembershipRow list \<Rightarrow> bool" where
  "joined tnow row user ms ms' \<longleftrightarrow>
     (let org = iv_organization_id row in
      (\<not> list_ex (is_member_row org user) ms \<and> ms' = ms @ [new_member org user (iv_role row) tnow]) \<or>
      ms' = update_where (restorable org user (iv_created_at row))
        (\<lambda>m. m\<lparr>mb_role := iv_role row, mb_status := Active, mb_updated_at := tnow\<rparr>) ms)"

inductive governed :: "OrgDb \<Rightarrow> string \<Rightarrow> OrgDb \<Rightarrow> bool" where
  g_none: "owners db' = owners db \<Longrightarrow> od_memberships db' = od_memberships db \<Longrightarrow>
    od_invitations db' = od_invitations db \<Longrightarrow> governed db caller db'"
| g_found: "user_active db caller \<Longrightarrow> org \<notin> fst ` set (owners db) \<Longrightarrow>
    \<not> list_ex (is_member_row org caller) (od_memberships db) \<Longrightarrow>
    owners db' = owners db @ [(org, caller)] \<Longrightarrow>
    od_memberships db' = od_memberships db @ [new_member org caller Admin tnow] \<Longrightarrow>
    od_invitations db' = od_invitations db \<Longrightarrow> governed db caller db'"
| g_change: "acts_as_admin db caller org \<Longrightarrow> find_member db org target = Some m \<Longrightarrow>
    owned_by db org target \<longrightarrow> status = Active \<Longrightarrow>
    active_admin org m \<longrightarrow> (role = Admin \<and> status = Active) \<or> other_admins db org target \<noteq> 0 \<Longrightarrow>
    owners db' = owners db \<Longrightarrow> od_memberships db' = set_member org target role status tnow (od_memberships db) \<Longrightarrow>
    od_invitations db' = od_invitations db \<Longrightarrow> governed db caller db'"
| g_invite: "acts_as_admin db caller (iv_organization_id row) \<Longrightarrow> iv_invited_by row = caller \<Longrightarrow> outstanding row \<Longrightarrow>
    iv_id row \<notin> iv_id ` set (od_invitations db) \<Longrightarrow> owners db' = owners db \<Longrightarrow>
    od_memberships db' = od_memberships db \<Longrightarrow>
    od_invitations db' = update_where (\<lambda>i. iv_organization_id i = iv_organization_id row \<and>
        iv_invitee_github_user_id i = iv_invitee_github_user_id row \<and> outstanding i \<and> iv_expires_at i \<le> clk)
      (\<lambda>i. i\<lparr>iv_revoked_at := Some tnow\<rparr>) (od_invitations db) @ [row] \<Longrightarrow> governed db caller db'"
| g_revoke: "acts_as_admin db caller org \<Longrightarrow> owners db' = owners db \<Longrightarrow> od_memberships db' = od_memberships db \<Longrightarrow>
    od_invitations db' = update_where (\<lambda>r. iv_id r = i \<and> iv_organization_id r = org \<and> outstanding r)
      (\<lambda>r. r\<lparr>iv_revoked_at := Some tnow\<rparr>) (od_invitations db) \<Longrightarrow> governed db caller db'"
| g_join: "may_join tnow db row caller \<Longrightarrow> consumable tnow (iv_id row) row \<Longrightarrow> owners db' = owners db \<Longrightarrow>
    joined tnow row caller (od_memberships db) (od_memberships db') \<Longrightarrow>
    od_invitations db' = update_where (consumable tnow (iv_id row))
      (\<lambda>r. r\<lparr>iv_accepted_at := Some tnow\<rparr>) (od_invitations db) \<Longrightarrow> governed db caller db'"
| g_transfer: "acts_as_owner db caller org \<Longrightarrow> accepts_changes db org \<Longrightarrow> user_active db heir \<Longrightarrow>
    find_member db org heir = Some m \<Longrightarrow> mb_status m = Active \<Longrightarrow>
    owners db' = map (\<lambda>(i, u). (i, if i = org then heir else u)) (owners db) \<Longrightarrow>
    od_memberships db' = od_memberships db \<Longrightarrow> od_invitations db' = od_invitations db \<Longrightarrow> governed db caller db'"

section \<open>The system\<close>

text \<open>An earlier database: its invitations are still there, in the same organizations.\<close>

definition past :: "OrgDb \<Rightarrow> OrgDb \<Rightarrow> bool" where
  "past before db \<longleftrightarrow> (\<forall>r \<in> set (od_invitations before). \<exists>q \<in> set (od_invitations db).
     iv_id q = iv_id r \<and> iv_organization_id q = iv_organization_id r)"

type_synonym OrgStore = "IdempotencyRow list \<times> OrgDb"

datatype OrgEvent = Call string | Environment

inductive org_step :: "OrgStore \<Rightarrow> OrgEvent \<Rightarrow> OrgStore \<Rightarrow> bool" where
  s_create: "create_org parse_uuid key_id org op ox tnow clk st actor slug display_name key hash request_id = (r, st') \<Longrightarrow>
    org_step st (Call actor) st'"
| s_update: "update_org tnow db caller org display_name request_id = (ru, db') \<Longrightarrow>
    org_step (keys, db) (Call caller) (keys, db')"
| s_member: "update_member tnow db caller org target role status request_id = (rm, db') \<Longrightarrow>
    org_step (keys, db) (Call caller) (keys, db')"
| s_remove: "remove_member tnow db caller org target request_id = (rr, db') \<Longrightarrow>
    org_step (keys, db) (Call caller) (keys, db')"
| s_invite: "create_invitation resolve_login new_id tnow clk before db caller org login role' token request_id = (ri, db') \<Longrightarrow>
    org_step (keys, db) (Call caller) (keys, db')"
| s_invite_once: "create_invitation_idempotent parse_uuid resolve_login key_id new_id clk0 tnow clk earlier st caller org login
      role' key hash token request_id = (rn, st') \<Longrightarrow> org_step st (Call caller) st'"
| s_revoke: "revoke_invitation tnow db caller org i request_id = (rv, db') \<Longrightarrow>
    org_step (keys, db) (Call caller) (keys, db')"
| s_accept: "past before db \<Longrightarrow> accept_invitation tnow clk before db caller github token request_id = (ra, db') \<Longrightarrow>
    org_step (keys, db) (Call caller) (keys, db')"
| s_transfer: "transfer_ownership tnow db caller org heir recent request_id = (rt, db') \<Longrightarrow>
    org_step (keys, db) (Call caller) (keys, db')"
| s_delete: "request_deletion op ox tnow db caller org recent request_id = (rd, db') \<Longrightarrow>
    org_step (keys, db) (Call caller) (keys, db')"
| s_delete_once: "request_deletion_idempotent parse_uuid key_id op ox tnow clk before st caller org recent key hash request_id = (re, st') \<Longrightarrow>
    org_step st (Call caller) st'"
| s_environment: "owners db' = owners db \<Longrightarrow> od_memberships db' = od_memberships db \<Longrightarrow>
    od_invitations db' = od_invitations db \<Longrightarrow> org_step (keys, db) Environment (keys', db')"

definition org_start :: "OrgStore \<Rightarrow> bool" where
  "org_start st \<longleftrightarrow> od_organizations (snd st) = [] \<and> od_memberships (snd st) = [] \<and> od_invitations (snd st) = []"

section \<open>Refinement\<close>

lemma owners_cong: "od_organizations db' = od_organizations db \<Longrightarrow> owners db' = owners db"
  by (simp add: owners_def)

lemma owners_audit [simp]: "owners (audit_insert t a b c d e f db) = owners db"
  by (simp add: owners_def)

lemma owners_update:
  "(\<And>r. og_id (f r) = og_id r \<and> og_owner_user_id (f r) = og_owner_user_id r) \<Longrightarrow>
   owners (db\<lparr>od_organizations := update_where p f (od_organizations db)\<rparr>) = owners db"
  by (simp add: owners_def map_update_where)

lemma find_member_row: "find_member db org user = Some m \<Longrightarrow> m \<in> set (od_memberships db) \<and> is_member_row org user m"
  by (auto simp: find_member_def is_member_row_def dest: find_SomeD)

lemma find_org_row: "find_org db org = Some r \<Longrightarrow> r \<in> set (od_organizations db) \<and> og_id r = org"
  by (auto simp: find_org_def dest: find_SomeD)

lemma admin_policy:
  "require_admin (fst (lock_policy db org caller)) (snd (lock_policy db org caller)) = Inr x \<longleftrightarrow> acts_as_admin db caller org"
proof (cases "find_member db org caller"; cases "find_org db org")
  fix m r assume some: "find_member db org caller = Some m" "find_org db org = Some r"
  then have "mb_organization_id m = org" "og_id r = org"
    using find_member_row find_org_row by (fastforce simp: is_member_row_def)+
  with some show ?thesis
    by (auto simp: require_admin_iff open_to_def lock_policy_def acts_as_admin_def accepts_changes_def
        membership_of_def org_state_def)
qed (auto simp: require_admin_iff open_to_def lock_policy_def acts_as_admin_def accepts_changes_def)

lemma owner_policy:
  assumes "require_owner (fst (lock_policy db org caller)) (snd (lock_policy db org caller)) = Inr x"
  shows "acts_as_owner db caller org"
proof -
  obtain m r where "user_active db caller" "find_member db org caller = Some m" "find_org db org = Some r"
      "mb_status m = Active" "mb_user_id m = og_owner_user_id r"
    using assms by (auto simp: require_owner_iff open_to_def lock_policy_def membership_of_def org_state_def split: if_splits)
  then show ?thesis
    using find_member_row [of db org caller m] by (simp add: acts_as_owner_def owned_by_def is_member_row_def)
qed

lemmas admin_policyD = admin_policy [THEN iffD1]

lemma mutable_policy: "require_mutable (snd (lock_policy db org caller)) = Inr x \<longleftrightarrow> accepts_changes db org"
  by (auto simp: require_mutable_iff lock_policy_def accepts_changes_def is_some_and_iff org_state_def)

lemma create_org_governed:
  assumes "create_org_mutation org op ox tnow actor slug display_name key request_id db = Inr (r, db')"
  shows "governed db actor db'"
proof (rule g_found [where org = org and tnow = tnow])
  note parts = create_org_mutation_def Let_def
  show "user_active db actor" using assms by (auto simp: parts split: if_splits)
  show "org \<notin> fst ` set (owners db)" using assms by (auto simp: parts owners_def list_ex_iff split: if_splits)
  show "\<not> list_ex (is_member_row org actor) (od_memberships db)" using assms by (auto simp: parts split: if_splits)
  show "owners db' = owners db @ [(org, actor)]" using assms by (auto simp: parts owners_def split: if_splits)
  show "od_memberships db' = od_memberships db @ [new_member org actor Admin tnow]"
    using assms by (auto simp: parts split: if_splits)
  show "od_invitations db' = od_invitations db" using assms by (auto simp: parts split: if_splits)
qed

lemma update_org_governed:
  assumes "update_org tnow db caller org display_name request_id = (r, db')"
  shows "governed db caller db'"
proof (rule g_none)
  note parts = update_org_def Let_def
  show "owners db' = owners db"
    using assms by (auto simp: parts owners_update split: sum.splits prod.splits option.splits)
  show "od_memberships db' = od_memberships db" "od_invitations db' = od_invitations db"
    using assms by (auto simp: parts split: sum.splits prod.splits option.splits)
qed

lemma update_member_in_tx_Inr:
  assumes "update_member_in_tx tnow db org target role status = Inr (u, db')"
  obtains m where "find_member db org target = Some m" and "owned_by db org target \<longrightarrow> status = Active"
    and "active_admin org m \<longrightarrow> (role = Admin \<and> status = Active) \<or> other_admins db org target \<noteq> 0"
    and "db' = db\<lparr>od_memberships := set_member org target role status tnow (od_memberships db)\<rparr>"
  using assms that
  by (auto simp: update_member_in_tx_def owned_by_def active_admin_def set_member_def split: option.splits if_splits)

lemma update_member_governed:
  assumes "update_member tnow db caller org target role status request_id = (r, db')"
  shows "governed db caller db'"
  using assms unfolding update_member_def
proof (cases rule: transact_cases)
  case rollback
  then show ?thesis by (simp add: g_none)
next
  case (commit v)
  then obtain role' status' db1 where admin: "acts_as_admin db caller org"
      and tx: "update_member_in_tx tnow db org target role' status' = Inr ((), db1)"
      and db': "db' = audit_insert tnow ''member.update'' org caller ''membership'' target request_id db1"
    using admin_policyD [of db org caller]
    by (auto simp: update_member_tx_def and_then_Inr Let_def case_prod_beta split: option.splits)
  from tx obtain m where "find_member db org target = Some m" "owned_by db org target \<longrightarrow> status' = Active"
      "active_admin org m \<longrightarrow> (role' = Admin \<and> status' = Active) \<or> other_admins db org target \<noteq> 0"
      "db1 = db\<lparr>od_memberships := set_member org target role' status' tnow (od_memberships db)\<rparr>"
    by (rule update_member_in_tx_Inr)
  with admin db' show ?thesis
    by (intro g_change [where org = org and target = target and role = role' and status = status' and tnow = tnow])
      (simp_all add: owners_def)
qed

lemma remove_member_governed:
  assumes "remove_member tnow db caller org target request_id = (r, db')"
  shows "governed db caller db'"
  using assms update_member_governed by (fastforce simp: remove_member_def split: prod.splits)

lemma create_invitation_in_tx_Inr:
  assumes "create_invitation_in_tx new_id tnow clk db org invitee role token caller = Inr (i, db1)"
  obtains row where "iv_organization_id row = org" and "iv_invitee_github_user_id row = invitee" and "iv_invited_by row = caller"
    and "outstanding row" and "iv_id row = new_id" and "i = new_id" and "new_id \<notin> iv_id ` set (od_invitations db)"
    and "db1 = db\<lparr>od_invitations := update_where (\<lambda>i. iv_organization_id i = org \<and>
        iv_invitee_github_user_id i = invitee \<and> outstanding i \<and> iv_expires_at i \<le> clk)
      (\<lambda>i. i\<lparr>iv_revoked_at := Some tnow\<rparr>) (od_invitations db) @ [row]\<rparr>"
proof -
  let ?rows = "update_where (\<lambda>i. iv_organization_id i = org \<and>
        iv_invitee_github_user_id i = invitee \<and> outstanding i \<and> iv_expires_at i \<le> clk)
      (\<lambda>i. i\<lparr>iv_revoked_at := Some tnow\<rparr>) (od_invitations db)"
  have "\<not> list_ex (\<lambda>i. iv_id i = new_id \<or> iv_token_hash i = token) ?rows"
    using assms by (simp only: create_invitation_in_tx_def Let_def) (metis sum.distinct(1))
  then have "new_id \<notin> set (map iv_id ?rows)" by (auto simp only: list_ex_iff set_map)
  moreover have "map iv_id ?rows = map iv_id (od_invitations db)" by (rule map_update_where) simp
  ultimately have "new_id \<notin> iv_id ` set (od_invitations db)" by simp
  moreover have "i = new_id \<and> db1 = db\<lparr>od_invitations := ?rows @
      [\<lparr>iv_id = new_id, iv_organization_id = org, iv_invitee_github_user_id = invitee, iv_role = role,
        iv_token_hash = token, iv_invited_by = caller, iv_expires_at = clk + INVITATION_LIFETIME,
        iv_accepted_at = None, iv_revoked_at = None, iv_created_at = tnow, iv_invitee_login = None\<rparr>]\<rparr>"
    using assms by (simp add: create_invitation_in_tx_def Let_def split: if_splits) blast
  ultimately show ?thesis
    by (intro that [of "\<lparr>iv_id = new_id, iv_organization_id = org, iv_invitee_github_user_id = invitee, iv_role = role,
        iv_token_hash = token, iv_invited_by = caller, iv_expires_at = clk + INVITATION_LIFETIME,
        iv_accepted_at = None, iv_revoked_at = None, iv_created_at = tnow, iv_invitee_login = None\<rparr>"])
      (simp_all add: outstanding_def)
qed

lemma invite_tx_governed:
  assumes "invite_tx new_id tnow clk caller org lookup role token request_id db = Inr (i, db')"
  shows "governed db caller db'"
proof -
  obtain db1 where admin: "acts_as_admin db caller org"
      and tx: "create_invitation_in_tx new_id tnow clk db org (fst lookup) role token caller = Inr (i, db1)"
      and db': "db' = audit_insert tnow ''invitation.create'' org caller ''invitation'' i request_id
        (set_invitee_login_in_tx db1 i (snd lookup))"
    using assms admin_policyD [of db org caller] by (auto simp: invite_tx_def and_then_Inr case_prod_beta)
  from tx obtain row where row: "iv_organization_id row = org" "iv_invitee_github_user_id row = fst lookup"
      "iv_invited_by row = caller" "outstanding row" "iv_id row = new_id" "i = new_id" "new_id \<notin> iv_id ` set (od_invitations db)"
      and db1: "db1 = db\<lparr>od_invitations := update_where (\<lambda>i. iv_organization_id i = org \<and>
        iv_invitee_github_user_id i = fst lookup \<and> outstanding i \<and> iv_expires_at i \<le> clk)
      (\<lambda>i. i\<lparr>iv_revoked_at := Some tnow\<rparr>) (od_invitations db) @ [row]\<rparr>"
    by (rule create_invitation_in_tx_Inr)
  have keep: "update_where (\<lambda>r. iv_id r = new_id) f (update_where p (\<lambda>i. i\<lparr>iv_revoked_at := Some tnow\<rparr>) (od_invitations db) @ [row]) =
      update_where p (\<lambda>i. i\<lparr>iv_revoked_at := Some tnow\<rparr>) (od_invitations db) @ [f row]" for f p
  proof -
    have "\<forall>x \<in> set (od_invitations db). iv_id x \<noteq> new_id" using row(7) by auto
    then show ?thesis using row(5) by (auto simp: update_where_def)
  qed
  show ?thesis
    by (rule g_invite [where row = "row\<lparr>iv_invitee_login := Some (snd lookup)\<rparr>" and clk = clk and tnow = tnow])
      (use admin row in \<open>simp_all add: db' db1 set_invitee_login_in_tx_def keep owners_def outstanding_def\<close>)
qed

text \<open>A mutation that refines the specification still does when it runs under an idempotency key.\<close>

lemma execute_inner_governed:
  assumes "execute_inner key_id clk st req m = (x, st')"
    and "\<And>r db'. m (snd st) = Inr (r, db') \<Longrightarrow> governed (snd st) caller db'"
  shows "governed (snd st) caller (snd st')"
  using assms(1) by (cases rule: execute_inner_cases) (auto intro: g_none assms(2))

lemma create_org_step:
  assumes "create_org parse_uuid key_id org op ox tnow clk st actor slug display_name key hash request_id = (r, st')"
  shows "governed (snd st) actor (snd st')"
  using assms execute_inner_governed [OF _ create_org_governed]
  by (auto simp: create_org_def intro: g_none split: sum.splits prod.splits IdempotencyOutcome.splits)

lemma create_invitation_governed:
  assumes "create_invitation resolve_login new_id tnow clk before db caller org login role token request_id = (r, db')"
  shows "governed db caller db'"
  using assms unfolding create_invitation_def
  by (cases rule: transact_cases) (auto simp: and_then_Inr case_prod_beta intro: g_none invite_tx_governed)

lemma create_invitation_idempotent_governed:
  assumes "create_invitation_idempotent parse_uuid resolve_login key_id new_id clk0 tnow clk earlier st caller org login
      role key hash token request_id = (r, st')"
  shows "governed (snd st) caller (snd st')"
  using assms execute_inner_governed [OF _ invite_tx_governed]
  by (auto simp: create_invitation_idempotent_def Let_def intro: g_none
      split: sum.splits prod.splits IdempotencyOutcome.splits option.splits)

lemma revoke_governed:
  assumes "revoke_invitation tnow db caller org i request_id = (r, db')"
  shows "governed db caller db'"
  using assms unfolding revoke_invitation_def
proof (cases rule: transact_cases)
  case rollback
  then show ?thesis by (simp add: g_none)
next
  case (commit v)
  then have "acts_as_admin db caller org"
    using admin_policyD [of db org caller] by (auto simp: and_then_Inr case_prod_beta)
  with commit show ?thesis
    by (intro g_revoke [where org = org and i = i and tnow = tnow])
      (auto simp: and_then_Inr case_prod_beta revoke_invitation_in_tx_def Let_def owners_def split: if_splits)
qed

lemma transfer_governed:
  assumes "transfer_ownership tnow db caller org heir recent request_id = (r, db')"
  shows "governed db caller db'"
  using assms unfolding transfer_ownership_def
proof (cases rule: transact_cases)
  case rollback
  then show ?thesis by (simp add: g_none)
next
  case (commit v)
  then obtain db1 where owner: "acts_as_owner db caller org" and mut: "accepts_changes db org"
      and tx: "transfer_ownership_in_tx tnow db org heir = Inr ((), db1)"
      and db': "db' = audit_insert tnow ''org.transfer_ownership'' org caller ''organization'' org request_id db1"
    using owner_policy [of db org caller] mutable_policy [of db org caller]
    by (auto simp: and_then_Inr case_prod_beta split: if_splits)
  from tx obtain m where "user_active db heir" "find_member db org heir = Some m" "mb_status m = Active"
      and db1: "db1 = db\<lparr>od_organizations := update_where (\<lambda>r. og_id r = org)
        (\<lambda>r. r\<lparr>og_owner_user_id := heir, og_updated_at := tnow\<rparr>) (od_organizations db)\<rparr>"
    by (auto simp: transfer_ownership_in_tx_def split: option.splits if_splits)
  then show ?thesis
    by (intro g_transfer [OF owner mut, where heir = heir and m = m]) (auto simp: db' owners_def update_where_def)
qed

lemma deletion_tx_governed:
  assumes "request_deletion_in_tx op ox tnow caller org request_id db = Inr (r, db')"
  shows "governed db caller db'"
  using assms by (intro g_none)
    (auto simp: request_deletion_in_tx_def and_then_Inr case_prod_beta Let_def owners_def map_update_where
      split: if_splits option.splits)

lemma request_deletion_governed:
  assumes "request_deletion op ox tnow db caller org recent request_id = (r, db')"
  shows "governed db caller db'"
  using assms unfolding request_deletion_def
  by (cases rule: transact_cases) (auto intro: g_none deletion_tx_governed split: if_splits)

lemma request_deletion_idempotent_governed:
  assumes "request_deletion_idempotent parse_uuid key_id op ox tnow clk before st caller org recent key hash request_id = (r, st')"
  shows "governed (snd st) caller (snd st')"
  using assms execute_inner_governed [OF _ deletion_tx_governed]
  by (auto simp: request_deletion_idempotent_def intro: g_none
      split: sum.splits prod.splits if_splits option.splits)

subsection \<open>Acceptance\<close>

lemma distinct_find:
  assumes "distinct (map k rows)" and "r \<in> set rows"
  shows "List.find (\<lambda>q. k q = k r) rows = Some r"
  by (rule find_unique) (use assms in \<open>auto dest: distinct_key\<close>)

lemma accept_governed:
  assumes "accept_invitation tnow clk before db caller github token request_id = (r, db')"
    and "past before db" and ids: "distinct (map iv_id (od_invitations db))"
  shows "governed db caller db'"
  using assms(1) unfolding accept_invitation_def
proof (cases rule: transact_cases)
  case rollback
  then show ?thesis by (simp add: g_none)
next
  case (commit v)
  then obtain old db1 where old: "invitation_by_token before token = Some old"
      and mut: "accepts_changes db (iv_organization_id old)"
      and tx: "accept_invitation_in_tx tnow clk db (iv_id old) github caller = Inr ((), db1)"
      and db': "db' = audit_insert tnow ''invitation.accept'' (iv_organization_id old) caller ''invitation'' (iv_id old) request_id db1"
    using mutable_policy by (auto simp: and_then_Inr split: option.splits)
  have "old \<in> set (od_invitations before)" using old by (auto simp: invitation_by_token_def dest: find_SomeD)
  then obtain row where row: "row \<in> set (od_invitations db)" "iv_id row = iv_id old" "iv_organization_id row = iv_organization_id old"
    using assms(2) unfolding past_def by blast
  have find: "List.find (\<lambda>r. iv_id r = iv_id old) (od_invitations db) = Some row"
    using distinct_find [OF ids row(1)] row(2) by simp
  let ?db = "db\<lparr>od_invitations := update_where (consumable tnow (iv_id row)) (\<lambda>r. r\<lparr>iv_accepted_at := Some tnow\<rparr>) (od_invitations db)\<rparr>"
  from tx find have ok: "identity_ok db caller (iv_invitee_github_user_id row)"
      and used: "rows_affected (consumable tnow (iv_id row)) (od_invitations db) \<noteq> 0"
      and join: "join_organization tnow ?db (iv_organization_id row) caller (iv_role row) (iv_created_at row) = Inr ((), db1)"
    by (auto simp: accept_invitation_in_tx_def row(2) split: if_splits)
  from used obtain q where "q \<in> set (od_invitations db)" "consumable tnow (iv_id row) q"
    by (auto simp: rows_affected_0)
  moreover have "q = row" if "q \<in> set (od_invitations db)" "iv_id q = iv_id row" for q
    using distinct_key [OF ids that(1) row(1) that(2)] .
  ultimately have live: "consumable tnow (iv_id row) row" by (auto simp: consumable_def)
  show ?thesis
  proof (rule g_join [of tnow db row caller])
    show "may_join tnow db row caller" using row(1,3) ok mut live by (simp add: may_join_def consumable_def outstanding_def)
    show "owners db' = owners db" "od_invitations db' = update_where (consumable tnow (iv_id row))
        (\<lambda>r. r\<lparr>iv_accepted_at := Some tnow\<rparr>) (od_invitations db)"
      using join db' by (auto simp: join_organization_def owners_def split: if_splits)
    show "joined tnow row caller (od_memberships db) (od_memberships db')"
      using join db' by (auto simp: join_organization_def joined_def Let_def split: if_splits)
  qed (rule live)
qed

end
