(* ===== verification/Organization_Properties.thy ===== *)
theory Organization_Properties
  imports Organization_System
begin

text \<open>
  What the organization service guarantees in every reachable state, whatever the callers and the
  environment do: each organization keeps its owner as an active member and an active admin;
  membership changes only by right; an invitation is used once; outsiders learn nothing.
\<close>

section \<open>The invariant\<close>

abbreviation member_key :: "MembershipRow \<Rightarrow> string \<times> string" where
  "member_key m \<equiv> (mb_organization_id m, mb_user_id m)"

definition keyed :: "OrgDb \<Rightarrow> bool" where
  "keyed db \<longleftrightarrow> distinct (map fst (owners db)) \<and> distinct (map member_key (od_memberships db)) \<and>
     distinct (map iv_id (od_invitations db))"

definition staffed :: "OrgDb \<Rightarrow> string \<Rightarrow> string \<Rightarrow> bool" where
  "staffed db org owner \<longleftrightarrow>
     (\<exists>m \<in> set (od_memberships db). is_member_row org owner m \<and> mb_status m = Active) \<and>
     (\<exists>m \<in> set (od_memberships db). active_admin org m)"

definition org_ok :: "OrgStore \<Rightarrow> bool" where
  "org_ok st \<longleftrightarrow> keyed (snd st) \<and> (\<forall>(org, owner) \<in> set (owners (snd st)). staffed (snd st) org owner)"

lemma keyed_cong:
  "owners db' = owners db \<Longrightarrow> od_memberships db' = od_memberships db \<Longrightarrow> od_invitations db' = od_invitations db \<Longrightarrow>
   keyed db' = keyed db"
  by (simp add: keyed_def)

lemma member_keys_set_member: "map member_key (set_member org user role status t ms) = map member_key ms"
  by (simp add: set_member_def map_update_where)

lemma joined_keys:
  assumes "joined t row user ms ms'" and "distinct (map member_key ms)"
  shows "distinct (map member_key ms')"
  using assms by (auto simp: joined_def Let_def map_update_where list_ex_iff is_member_row_def) blast

lemma fst_handover: "fst \<circ> (\<lambda>(i, u). (i, f i u)) = fst"
  by auto

lemma governed_keyed:
  assumes "governed db caller db'" and "keyed db"
  shows "keyed db'"
  using assms(1)
proof cases
  case (g_invite row clk tnow)
  then show ?thesis using assms(2) by (auto simp: keyed_def map_update_where set_update_where)
qed (use assms(2) in \<open>auto simp: keyed_def map_update_where member_keys_set_member joined_keys fst_handover
      list_ex_iff is_member_row_def\<close>)

text \<open>An active member or admin that a change does not touch is still there.\<close>

lemma staffed_mono:
  assumes "staffed db org owner"
    and "\<And>m. m \<in> set (od_memberships db) \<Longrightarrow> mb_status m = Active \<Longrightarrow> mb_organization_id m = org \<Longrightarrow>
      m \<in> set (od_memberships db')"
  shows "staffed db' org owner"
  using assms unfolding staffed_def is_member_row_def active_admin_def by blast

lemma joined_keeps:
  assumes "joined t row user ms ms'" and "m \<in> set ms" and "mb_status m = Active"
  shows "m \<in> set ms'"
  using assms by (auto simp: joined_def Let_def set_update_where restorable_def intro!: bexI [of _ m])

lemma set_member_other:
  assumes "m \<in> set ms" and "\<not> is_member_row org user m"
  shows "m \<in> set (set_member org user role status t ms)"
  using assms by (auto simp: set_member_def set_update_where intro!: bexI [of _ m])

lemma set_member_target:
  assumes "m \<in> set ms" and "is_member_row org user m"
  shows "m\<lparr>mb_role := role, mb_status := status, mb_updated_at := t\<rparr> \<in> set (set_member org user role status t ms)"
  using assms by (auto simp: set_member_def set_update_where intro!: bexI [of _ m])

lemma owned_by_owners:
  assumes "distinct (map fst (owners db))"
  shows "owned_by db org user \<longleftrightarrow> (org, user) \<in> set (owners db)"
proof
  assume "owned_by db org user"
  then show "(org, user) \<in> set (owners db)"
    using find_org_row by (fastforce simp: owned_by_def owners_def is_some_and_iff)
next
  assume "(org, user) \<in> set (owners db)"
  then obtain r where r: "r \<in> set (od_organizations db)" "og_id r = org" "og_owner_user_id r = user"
    by (auto simp: owners_def)
  have "distinct (map og_id (od_organizations db))" using assms by (simp add: owners_def comp_def)
  then show "owned_by db org user"
    using distinct_find [of og_id "od_organizations db" r] r by (simp add: owned_by_def find_org_def)
qed

lemma change_staffed:
  assumes "keyed db" and "staffed db org' owner" and "(org', owner) \<in> set (owners db)"
    and "find_member db org target = Some m" and "owned_by db org target \<longrightarrow> status = Active"
    and "active_admin org m \<longrightarrow> (role = Admin \<and> status = Active) \<or> other_admins db org target \<noteq> 0"
    and "od_memberships db' = set_member org target role status t (od_memberships db)"
  shows "staffed db' org' owner"
proof (cases "org' = org")
  case False
  then show ?thesis
    by (intro staffed_mono [OF assms(2)]) (auto simp: assms(7) is_member_row_def intro!: set_member_other)
next
  case True
  have m: "m \<in> set (od_memberships db)" "is_member_row org target m" using find_member_row [OF assms(4)] by simp_all
  let ?new = "m\<lparr>mb_role := role, mb_status := status, mb_updated_at := t\<rparr>"
  have new: "?new \<in> set (od_memberships db')" using set_member_target [OF m] by (simp add: assms(7))
  have keep: "q \<in> set (od_memberships db')" if "q \<in> set (od_memberships db)" "\<not> is_member_row org target q" for q
    using set_member_other [OF that] by (simp add: assms(7))
  have same: "q = m" if "q \<in> set (od_memberships db)" "is_member_row org target q" for q
    using distinct_key [of member_key "od_memberships db" q m] that m assms(1) by (simp add: keyed_def is_member_row_def)
  have "\<exists>q \<in> set (od_memberships db'). is_member_row org owner q \<and> mb_status q = Active"
  proof (cases "owner = target")
    case True
    then have "status = Active" using assms(1,3,5) \<open>org' = org\<close> owned_by_owners [of db] by (simp add: keyed_def)
    then show ?thesis using new m(2) True by (intro bexI [OF _ new]) (simp add: is_member_row_def)
  next
    case False
    then show ?thesis using assms(2) keep True by (fastforce simp: staffed_def is_member_row_def)
  qed
  moreover have "\<exists>q \<in> set (od_memberships db'). active_admin org q"
  proof (cases "other_admins db org target = 0")
    case False
    then obtain q where "q \<in> set (od_memberships db)" "active_admin org q" "mb_user_id q \<noteq> target"
      by (auto simp: other_admins_def active_admin_def filter_empty_conv)
    then show ?thesis using keep [of q] by (auto simp: is_member_row_def)
  next
    case none: True
    obtain q where q: "q \<in> set (od_memberships db)" "active_admin org q" using assms(2) True by (auto simp: staffed_def)
    show ?thesis
    proof (cases "is_member_row org target q")
      case True
      then have "role = Admin \<and> status = Active" using same [OF q(1) True] q(2) assms(6) none by blast
      then show ?thesis using new m(2) by (intro bexI [OF _ new]) (simp add: active_admin_def is_member_row_def)
    next
      case False
      then show ?thesis using keep [OF q(1)] q(2) by blast
    qed
  qed
  ultimately show ?thesis using True by (simp add: staffed_def)
qed

lemma governed_ok:
  assumes "governed db caller db'" and "org_ok (keys, db)"
  shows "org_ok (keys', db')"
proof -
  have keyed: "keyed db" and staffed: "\<And>org owner. (org, owner) \<in> set (owners db) \<Longrightarrow> staffed db org owner"
    using assms(2) by (auto simp: org_ok_def)
  have "staffed db' org' owner'" if listed: "(org', owner') \<in> set (owners db')" for org' owner'
    using assms(1)
  proof cases
    case (g_found org tnow)
    show ?thesis
    proof (cases "(org', owner') = (org, caller)")
      case True
      then show ?thesis using g_found(5) by (auto simp: staffed_def is_member_row_def active_admin_def)
    next
      case False
      then have "(org', owner') \<in> set (owners db)" using listed g_found(4) by auto
      then show ?thesis using staffed_mono [OF staffed] g_found(5) by auto
    qed
  next
    case (g_change org target m status role tnow)
    then show ?thesis using change_staffed [OF keyed staffed] listed by metis
  next
    case (g_join tnow row)
    then show ?thesis using listed by (intro staffed_mono [OF staffed]) (auto intro: joined_keeps)
  next
    case (g_transfer org heir m)
    obtain owner where old: "(org', owner) \<in> set (owners db)" and heir: "owner' = (if org' = org then heir else owner)"
      using listed g_transfer(6) by (auto split: if_splits)
    have row: "m \<in> set (od_memberships db)" "is_member_row org heir m" using find_member_row [OF g_transfer(4)] by simp_all
    show ?thesis
      using staffed [OF old] row g_transfer(5,7) heir by (auto simp: staffed_def)
  qed (use listed staffed in \<open>auto simp: staffed_def\<close>)
  then show ?thesis using governed_keyed [OF assms(1) keyed] by (auto simp: org_ok_def)
qed

lemma org_step_governed:
  assumes "org_step st (Call caller) st'" and "keyed (snd st)"
  shows "governed (snd st) caller (snd st')"
  using assms(1)
proof cases
  case s_accept
  then show ?thesis using accept_governed assms(2) by (fastforce simp: keyed_def)
qed (auto intro: create_org_step update_org_governed update_member_governed remove_member_governed
      create_invitation_governed create_invitation_idempotent_governed revoke_governed transfer_governed
      request_deletion_governed request_deletion_idempotent_governed)

lemma call_governed: "org_step st (Call caller) st' \<Longrightarrow> org_ok st \<Longrightarrow> governed (snd st) caller (snd st')"
  by (rule org_step_governed) (simp_all add: org_ok_def)

lemma org_ok_start: "org_start st \<Longrightarrow> org_ok st"
  by (simp add: org_start_def org_ok_def keyed_def owners_def)

lemma org_ok_step:
  assumes "org_step st e st'" and "org_ok st"
  shows "org_ok st'"
proof (cases e)
  case (Call caller)
  then show ?thesis
    using governed_ok [of "snd st" caller "snd st'" "fst st" "fst st'"] org_step_governed [of st caller st'] assms
    by (simp add: org_ok_def)
next
  case Environment
  with assms(1) show ?thesis
    by cases (use assms(2) in \<open>auto simp: org_ok_def keyed_def staffed_def\<close>)
qed

interpretation orgsys: invariant_system org_start org_step org_ok
  by unfold_locales (use org_ok_start org_ok_step in blast)+

section \<open>Invitations are never lost or reused\<close>

lemma past_refl: "past db db"
  by (auto simp: past_def)

lemma past_trans: "past a b \<Longrightarrow> past b c \<Longrightarrow> past a c"
  unfolding past_def by (metis (no_types, lifting))

lemma past_update:
  assumes "set (update_where p f (od_invitations db)) \<subseteq> set (od_invitations db')"
    and "\<And>r. iv_id (f r) = iv_id r \<and> iv_organization_id (f r) = iv_organization_id r"
  shows "past db db'"
  unfolding past_def
proof
  fix r assume "r \<in> set (od_invitations db)"
  then have "(if p r then f r else r) \<in> set (od_invitations db')"
    using assms(1) by (auto simp: subset_iff set_update_where)
  then show "\<exists>q \<in> set (od_invitations db'). iv_id q = iv_id r \<and> iv_organization_id q = iv_organization_id r"
    using assms(2) [of r] by (auto split: if_splits)
qed

lemma governed_past: "governed db caller db' \<Longrightarrow> past db db'"
proof (induction rule: governed.induct)
  case (g_invite db caller row db' clk tnow)
  then show ?case by (intro past_update [of "\<lambda>i. iv_organization_id i = iv_organization_id row \<and>
        iv_invitee_github_user_id i = iv_invitee_github_user_id row \<and> outstanding i \<and> iv_expires_at i \<le> clk"
        "\<lambda>i. i\<lparr>iv_revoked_at := Some tnow\<rparr>"]) auto
next
  case (g_revoke db caller org db' i tnow)
  then show ?case by (intro past_update [of "\<lambda>r. iv_id r = i \<and> iv_organization_id r = org \<and> outstanding r"
        "\<lambda>r. r\<lparr>iv_revoked_at := Some tnow\<rparr>"]) simp_all
next
  case (g_join tnow db row caller db')
  then show ?case by (intro past_update [of "consumable tnow (iv_id row)" "\<lambda>r. r\<lparr>iv_accepted_at := Some tnow\<rparr>"]) simp_all
qed (auto simp: past_def)

text \<open>The premise of the acceptance step holds of every earlier state of the same run.\<close>

lemma earlier_is_past:
  assumes "reach (\<lambda>s. s = st) org_step st'" and "org_ok st"
  shows "past (snd st) (snd st') \<and> org_ok st'"
  using assms(1)
proof (induction rule: reach.induct)
  case (reach_init s)
  then show ?case using assms(2) by (simp add: past_refl)
next
  case (reach_step s e s')
  have "past (snd s) (snd s')"
  proof (cases e)
    case (Call caller)
    then show ?thesis using reach_step governed_past call_governed by blast
  next
    case Environment
    with reach_step(2) show ?thesis by cases (auto simp: past_def)
  qed
  then show ?case using reach_step org_ok_step past_trans by blast
qed

definition spent :: "string \<Rightarrow> OrgDb \<Rightarrow> bool" where
  "spent i db \<longleftrightarrow> (\<exists>r \<in> set (od_invitations db). iv_id r = i) \<and>
     (\<forall>r \<in> set (od_invitations db). iv_id r = i \<longrightarrow> iv_accepted_at r \<noteq> None)"

lemma spent_update:
  assumes "spent i db" and "od_invitations db' = update_where p f (od_invitations db)"
    and "\<And>r. iv_id (f r) = iv_id r" and "\<And>r. iv_accepted_at r \<noteq> None \<Longrightarrow> iv_accepted_at (f r) \<noteq> None"
  shows "spent i db'"
proof -
  obtain r where r: "r \<in> set (od_invitations db)" "iv_id r = i" using assms(1) by (auto simp: spent_def)
  then have "(if p r then f r else r) \<in> set (od_invitations db')"
    unfolding assms(2) set_update_where by blast
  moreover have "iv_id (if p r then f r else r) = i" using r(2) assms(3) by simp
  moreover have "iv_accepted_at q \<noteq> None" if q: "q \<in> set (od_invitations db')" "iv_id q = i" for q
  proof -
    obtain c where c: "c \<in> set (od_invitations db)" "q = (if p c then f c else c)"
      using q(1) unfolding assms(2) set_update_where by blast
    then have "iv_id c = i" using q(2) assms(3) by (simp split: if_splits)
    then have "iv_accepted_at c \<noteq> None" using assms(1) c(1) by (simp add: spent_def)
    then show ?thesis using c(2) assms(4) by simp
  qed
  ultimately show ?thesis unfolding spent_def by blast
qed

lemma spent_append:
  assumes "spent i db" and "iv_id row \<noteq> i" and "spent i (db\<lparr>od_invitations := rows\<rparr>)"
  shows "od_invitations db' = rows @ [row] \<Longrightarrow> spent i db'"
  using assms(2,3) by (auto simp: spent_def)

lemma governed_spent: "governed db caller db' \<Longrightarrow> spent i db \<Longrightarrow> spent i db'"
proof (induction rule: governed.induct)
  case (g_invite db caller row db' clk tnow)
  then have "iv_id row \<noteq> i" by (auto simp: spent_def)
  moreover have "spent i (db\<lparr>od_invitations := update_where (\<lambda>i. iv_organization_id i = iv_organization_id row \<and>
        iv_invitee_github_user_id i = iv_invitee_github_user_id row \<and> outstanding i \<and> iv_expires_at i \<le> clk)
      (\<lambda>i. i\<lparr>iv_revoked_at := Some tnow\<rparr>) (od_invitations db)\<rparr>)"
    by (rule spent_update [OF g_invite(8), where f = "\<lambda>i. i\<lparr>iv_revoked_at := Some tnow\<rparr>"]) simp_all
  ultimately show ?case using spent_append [OF g_invite(8)] g_invite(7) by blast
next
  case (g_revoke db caller org db' i' tnow)
  then show ?case by (intro spent_update [OF g_revoke(5) g_revoke(4)]) auto
next
  case (g_join tnow db row caller db')
  then show ?case by (intro spent_update [OF g_join(6) g_join(5)]) auto
qed (simp_all add: spent_def)

lemma org_step_spent:
  assumes "org_step st e st'" and "org_ok st" and "spent i (snd st)"
  shows "spent i (snd st')"
proof (cases e)
  case (Call caller)
  then show ?thesis using assms governed_spent call_governed by blast
next
  case Environment
  with assms(1) show ?thesis by cases (use assms(3) in \<open>auto simp: spent_def\<close>)
qed

lemma run_spent:
  assumes "reach (\<lambda>s. s = st) org_step st'" and "org_ok st" and "spent i (snd st)"
  shows "org_ok st' \<and> spent i (snd st')"
  using assms(1) by (induction rule: reach.induct) (use assms(2,3) org_step_spent org_ok_step in blast)+

lemma accept_spends:
  assumes "accept_invitation tnow clk before db caller github token request_id = (Inr org, db')"
    and "invitation_by_token before token = Some row" and "distinct (map iv_id (od_invitations db))"
  shows "spent (iv_id row) db'"
proof -
  obtain db1 where tx: "accept_invitation_in_tx tnow clk db (iv_id row) github caller = Inr ((), db1)"
      and "od_invitations db' = od_invitations db1"
    using assms(1,2) unfolding accept_invitation_def by (cases rule: transact_cases) (auto simp: and_then_Inr)
  then have used: "rows_affected (consumable tnow (iv_id row)) (od_invitations db) \<noteq> 0"
      and db': "od_invitations db' = update_where (consumable tnow (iv_id row)) (\<lambda>r. r\<lparr>iv_accepted_at := Some tnow\<rparr>) (od_invitations db)"
    by (simp_all add: accept_invitation_in_tx_def join_organization_def split: option.splits if_splits) auto
  from used obtain q where q: "q \<in> set (od_invitations db)" "consumable tnow (iv_id row) q" by (auto simp: rows_affected_0)
  have only: "c = q" if "c \<in> set (od_invitations db)" "iv_id c = iv_id row" for c
    using distinct_key [OF assms(3) that(1) q(1)] that(2) q(2) by (simp add: consumable_def)
  have "q\<lparr>iv_accepted_at := Some tnow\<rparr> \<in> set (od_invitations db')" "iv_id (q\<lparr>iv_accepted_at := Some tnow\<rparr>) = iv_id row"
    using q unfolding db' set_update_where by (force, simp add: consumable_def)
  moreover have "iv_accepted_at r \<noteq> None" if r: "r \<in> set (od_invitations db')" "iv_id r = iv_id row" for r
  proof -
    obtain c where c: "c \<in> set (od_invitations db)"
        "r = (if consumable tnow (iv_id row) c then c\<lparr>iv_accepted_at := Some tnow\<rparr> else c)"
      using r(1) unfolding db' set_update_where by blast
    then have "c = q" using only r(2) by (simp split: if_splits)
    then show ?thesis using c(2) q(2) by simp
  qed
  ultimately show ?thesis unfolding spent_def by blast
qed

lemma spent_refused:
  assumes "spent (iv_id row) db" and "invitation_by_token before token = Some row"
  shows "\<exists>e. accept_invitation tnow clk before db caller github token request_id = (Inl e, db)"
proof -
  have "rows_affected (consumable tnow (iv_id row)) (od_invitations db) = 0"
    using assms(1) by (auto simp: rows_affected_0 spent_def consumable_def outstanding_def)
  then have "\<exists>e. accept_invitation_in_tx tnow clk db (iv_id row) github caller = Inl e"
    by (auto simp: accept_invitation_in_tx_def split: option.splits)
  then obtain e where "accept_invitation_in_tx tnow clk db (iv_id row) github caller = Inl e" ..
  then show ?thesis
    using assms(2) by (cases "require_mutable (snd (lock_policy db (iv_organization_id row) caller))")
      (auto simp: accept_invitation_def)
qed

end
