(* ===== verification/Organization_Guarantees.thy ===== *)
theory Organization_Guarantees
  imports Organization_Properties
begin

text \<open>
  The guarantees of the organization service as theorems over its reachable states, each with a run
  in which they apply: a user \<open>u\<close> founds an organization \<open>oak\<close>, invites the GitHub identity 7 of \<open>v\<close>,
  and \<open>v\<close> joins.
\<close>

section \<open>A run\<close>

definition demo_queue :: Db where
  "demo_queue = \<lparr>db_organizations = [], db_operations = [], db_outbox = [], db_tenants = [], db_workspaces = [], db_quotas = []\<rparr>"

definition demo_org0 :: OrgDb where
  "demo_org0 = \<lparr>od_users = [\<lparr>us_id = ''u'', us_display_name = ''U'', us_status = ''active''\<rparr>,
                           \<lparr>us_id = ''v'', us_display_name = ''V'', us_status = ''active''\<rparr>],
     od_identities = [\<lparr>id_user_id = ''v'', id_provider = ''github'', id_subject = ''7'', id_login_snapshot = None\<rparr>],
     od_organizations = [], od_memberships = [], od_invitations = [], od_audit = [], od_queue = demo_queue\<rparr>"

definition demo_found :: "(string \<times> string) managed \<times> OrgStore" where
  "demo_found = create_org Some ''k1'' ''o1'' ''p1'' ''e1'' 10 10 ([], demo_org0) ''u'' ''oak'' ''Oak'' ''key'' ''h'' ''r''"

definition demo_org1 :: OrgDb where
  "demo_org1 = snd (snd demo_found)"

definition demo_org2 :: OrgDb where
  "demo_org2 = snd (create_invitation (\<lambda>_. Inr (7, ''vee'')) ''i1'' 20 20 demo_org1 demo_org1 ''u'' ''o1'' ''vee'' Developer ''t'' ''r'')"

definition demo_accept :: "string managed \<times> OrgDb" where
  "demo_accept = accept_invitation 30 30 demo_org2 demo_org2 ''v'' 7 ''t'' ''r''"

lemmas demo_policy = lock_policy_def membership_and_org_def find_org_def find_member_def user_active_def
  require_admin_def require_member_def require_mutable_def membership_of_def org_state_def audit_insert_def

lemma demo_org1_rows:
  "od_organizations demo_org1 = [\<lparr>og_id = ''o1'', og_slug = ''oak'', og_display_name = ''Oak'', og_owner_user_id = ''u'',
     og_status = ''provisioning'', og_updated_at = 10\<rparr>]"
  "od_memberships demo_org1 = [new_member ''o1'' ''u'' Admin 10]"
  "od_invitations demo_org1 = []"
  "od_users demo_org1 = od_users demo_org0" "od_identities demo_org1 = od_identities demo_org0"
  by (simp_all add: demo_org1_def demo_found_def create_org_def validate_slug_def validate_display_name_def char_count_def slug_edge_def
      is_ascii_lowercase_def blank_iff is_whitespace_def execute_inner_def upsert_key_def create_org_mutation_def
      demo_org0_def user_active_def Let_def audit_insert_def)

lemma demo_org2_rows:
  "od_organizations demo_org2 = od_organizations demo_org1" "od_memberships demo_org2 = od_memberships demo_org1"
  "od_users demo_org2 = od_users demo_org0" "od_identities demo_org2 = od_identities demo_org0"
  "od_invitations demo_org2 = [\<lparr>iv_id = ''i1'', iv_organization_id = ''o1'', iv_invitee_github_user_id = 7, iv_role = Developer,
     iv_token_hash = ''t'', iv_invited_by = ''u'', iv_expires_at = 20 + INVITATION_LIFETIME, iv_accepted_at = None,
     iv_revoked_at = None, iv_created_at = 20, iv_invitee_login = Some ''vee''\<rparr>]"
  by (simp_all add: demo_org2_def create_invitation_def invite_tx_def demo_policy demo_org1_rows demo_org0_def
      create_invitation_in_tx_def set_invitee_login_in_tx_def update_where_def)

lemma show_int_7: "show_int 7 = ''7''"
  by code_simp

lemma demo_accept_rows:
  "fst demo_accept = Inr ''o1''"
  "od_memberships (snd demo_accept) = [new_member ''o1'' ''u'' Admin 10, new_member ''o1'' ''v'' Developer 30]"
  by (simp_all add: demo_accept_def accept_invitation_def invitation_by_token_def demo_org2_rows demo_org1_rows demo_policy
      accept_invitation_in_tx_def identity_ok_def demo_org0_def show_int_7
      INVITATION_LIFETIME_def rows_affected_def consumable_def outstanding_def join_organization_def is_member_row_def)

lemma demo_reach1: "reach org_start org_step (snd demo_found)"
proof -
  have "org_step ([], demo_org0) (Call ''u'') (snd demo_found)"
    by (rule s_create [where r = "fst demo_found"]) (simp add: demo_found_def)
  then show ?thesis by (rule reach_step [rotated]) (rule reach_init, simp add: org_start_def demo_org0_def)
qed

lemma demo_reach2: "reach org_start org_step (fst (snd demo_found), demo_org2)"
proof -
  have "org_step (fst (snd demo_found), demo_org1) (Call ''u'') (fst (snd demo_found), demo_org2)"
    by (rule s_invite [where ri = "fst (create_invitation (\<lambda>_. Inr (7, ''vee'')) ''i1'' 20 20 demo_org1 demo_org1 ''u'' ''o1'' ''vee'' Developer ''t'' ''r'')"])
      (simp add: demo_org2_def)
  then show ?thesis using demo_reach1 by (metis demo_org1_def prod.collapse reach_step)
qed

lemma reach_self: "reach (\<lambda>s. s = st) org_step st"
  by (rule reach_init) simp

lemma demo_step3: "org_step (keys, demo_org2) (Call ''v'') (keys, snd demo_accept)"
  by (rule s_accept [OF past_refl, where ra = "fst demo_accept"]) (simp add: demo_accept_def)

section \<open>Guarantees\<close>

text \<open>
  C17 (invariant). In every reachable state, each organization's owner is an active member of it and
  the organization has at least one active admin, whatever members are changed, suspended, removed or
  invited, ownership is transferred, or users and organization states change outside the service.
\<close>

theorem owner_and_admin_remain:
  assumes "reach org_start org_step st" and "r \<in> set (od_organizations (snd st))"
  shows "(\<exists>m \<in> set (od_memberships (snd st)). mb_organization_id m = og_id r \<and>
      mb_user_id m = og_owner_user_id r \<and> mb_status m = Active) \<and>
    (\<exists>m \<in> set (od_memberships (snd st)). mb_organization_id m = og_id r \<and> mb_role m = Admin \<and> mb_status m = Active)"
proof -
  have "(og_id r, og_owner_user_id r) \<in> set (owners (snd st))" using assms(2) by (auto simp: owners_def)
  then show ?thesis using orgsys.reach_inv [OF assms(1)] by (auto simp: org_ok_def staffed_def is_member_row_def active_admin_def)
qed

theorem owner_and_admin_remain_witness:
  "(\<exists>m \<in> set (od_memberships demo_org2). mb_organization_id m = ''o1'' \<and> mb_user_id m = ''u'' \<and> mb_status m = Active) \<and>
   (\<exists>m \<in> set (od_memberships demo_org2). mb_organization_id m = ''o1'' \<and> mb_role m = Admin \<and> mb_status m = Active)"
  using owner_and_admin_remain [OF demo_reach2, of "hd (od_organizations demo_org2)"]
  by (simp add: demo_org2_rows demo_org1_rows)

text \<open>
  C18 (safety). A membership row changes or appears only by right: the caller founds the organization;
  or the caller is an active admin of it, with an active account, while the organization accepts
  changes; or the caller is the active user with the exact GitHub identity that an invitation was
  issued to which is neither accepted nor revoked nor expired at the time the membership is stamped with, joins as themselves, and gets exactly the role of the
  invitation.
\<close>

theorem membership_changes_only_by_right:
  assumes "reach org_start org_step st" and "org_step st (Call caller) st'"
    and "m \<in> set (od_memberships (snd st'))" and "m \<notin> set (od_memberships (snd st))"
  shows "(mb_user_id m = caller \<and> user_active (snd st) caller \<and>
      (\<forall>r \<in> set (od_organizations (snd st)). og_id r \<noteq> mb_organization_id m)) \<or>
    acts_as_admin (snd st) caller (mb_organization_id m) \<or>
    (mb_user_id m = caller \<and> mb_status m = Active \<and>
     (\<exists>row. may_join (mb_updated_at m) (snd st) row caller \<and> iv_organization_id row = mb_organization_id m \<and> iv_role row = mb_role m))"
  using call_governed [OF assms(2) orgsys.reach_inv [OF assms(1)]]
proof cases
  case (g_found org tnow)
  then have "m = new_member org caller Admin tnow" using assms(3,4) by auto
  moreover have "\<forall>r \<in> set (od_organizations (snd st)). og_id r \<noteq> org" using g_found(2) by (auto simp: owners_def image_iff)
  ultimately show ?thesis using g_found(1) by auto
next
  case (g_change org target old status role tnow)
  then obtain q where "q \<in> set (od_memberships (snd st))" "is_member_row org target q"
      "m = q\<lparr>mb_role := role, mb_status := status, mb_updated_at := tnow\<rparr>"
    using assms(3,4) by (auto simp: set_member_def set_update_where split: if_splits)
  then show ?thesis using g_change(1) by (simp add: is_member_row_def)
next
  case (g_join tnow row)
  consider "m = new_member (iv_organization_id row) caller (iv_role row) tnow"
    | q where "restorable (iv_organization_id row) caller (iv_created_at row) q"
        "m = q\<lparr>mb_role := iv_role row, mb_status := Active, mb_updated_at := tnow\<rparr>"
    using g_join(4) assms(3,4) by (auto simp: joined_def Let_def set_update_where split: if_splits)
  then show ?thesis using g_join(1) by cases (auto simp: restorable_def is_member_row_def)
qed (use assms(3,4) in auto)

theorem membership_changes_only_by_right_witness:
  "\<exists>row. may_join 30 demo_org2 row ''v'' \<and> iv_organization_id row = ''o1'' \<and> iv_role row = Developer"
proof -
  have "new_member ''o1'' ''v'' Developer 30 \<in> set (od_memberships (snd demo_accept))"
    "new_member ''o1'' ''v'' Developer 30 \<notin> set (od_memberships demo_org2)"
    by (simp_all add: demo_accept_rows demo_org2_rows demo_org1_rows)
  from membership_changes_only_by_right [OF demo_reach2 demo_step3, unfolded snd_conv, OF this]
  show ?thesis by (auto simp: demo_org2_rows demo_org1_rows acts_as_admin_def find_member_def)
qed

text \<open>
  An invitation is consumed once: after one acceptance has succeeded, and whatever else
  the service does, every later acceptance of the same invitation, by anyone, is refused and changes
  nothing.
\<close>

theorem invitation_used_once:
  assumes "reach org_start org_step (keys, db)" and "past before db"
    and "accept_invitation tnow clk before db caller github token request_id = (Inr org, db')"
    and "invitation_by_token before token = Some row"
    and "reach (\<lambda>s. s = (keys, db')) org_step later"
    and "invitation_by_token seen token' = Some row'" and "iv_id row' = iv_id row"
  shows "\<exists>e. accept_invitation tnow' clk' seen (snd later) caller' github' token' request_id' = (Inl e, snd later)"
proof -
  have ok: "org_ok (keys, db)" using orgsys.reach_inv [OF assms(1)] .
  have "org_step (keys, db) (Call caller) (keys, db')" using s_accept [OF assms(2,3)] .
  then have "org_ok (keys, db')" using org_ok_step ok by blast
  moreover have "spent (iv_id row) (snd (keys, db'))"
    using accept_spends [OF assms(3,4)] ok by (simp add: org_ok_def keyed_def)
  ultimately have "spent (iv_id row') (snd later)" using run_spent [OF assms(5)] assms(7) by simp
  then show ?thesis using spent_refused assms(6) by blast
qed

theorem invitation_used_once_witness:
  "\<exists>e. accept_invitation 40 40 demo_org2 (snd demo_accept) ''v'' 7 ''t'' ''r2'' = (Inl e, snd demo_accept)"
proof -
  have "accept_invitation 30 30 demo_org2 demo_org2 ''v'' 7 ''t'' ''r'' = (Inr ''o1'', snd demo_accept)"
    using demo_accept_rows(1) by (metis demo_accept_def prod.collapse)
  moreover obtain row where "invitation_by_token demo_org2 ''t'' = Some row"
    by (simp add: invitation_by_token_def demo_org2_rows)
  ultimately show ?thesis
    using invitation_used_once [OF demo_reach2 past_refl _ _ reach_self, of 30 30 "''v''" 7 "''t''" "''r''" "''o1''" "snd demo_accept" row demo_org2 "''t''" row 40 40 "''v''" 7 "''r2''"]
    by auto
qed

text \<open>
  A removed member comes back only by a new decision: the call that changes a removed
  membership is made by an active admin of the organization, or it is the removed user accepting a
  live invitation that was created no earlier than the removal.
\<close>

theorem removed_member_needs_new_decision:
  assumes "reach org_start org_step st" and "org_step st (Call caller) st'"
    and "m \<in> set (od_memberships (snd st))" and "mb_status m = Removed" and "m \<notin> set (od_memberships (snd st'))"
  shows "acts_as_admin (snd st) caller (mb_organization_id m) \<or>
    (mb_user_id m = caller \<and> (\<exists>at row. may_join at (snd st) row caller \<and>
      iv_organization_id row = mb_organization_id m \<and> mb_updated_at m \<le> iv_created_at row))"
  using call_governed [OF assms(2) orgsys.reach_inv [OF assms(1)]]
proof cases
  case (g_change org target old status role tnow)
  then have "is_member_row org target m" using assms(3,5) set_member_other by metis
  then show ?thesis using g_change(1) by (simp add: is_member_row_def)
next
  case (g_join tnow row)
  have "restorable (iv_organization_id row) caller (iv_created_at row) m"
    using g_join(4) assms(3,5) by (auto simp: joined_def Let_def set_update_where dest!: bspec [of _ _ m] split: if_splits)
  then show ?thesis using g_join(1) by (auto simp: restorable_def is_member_row_def)
qed (use assms(3,5) in auto)

definition demo_org4 :: OrgDb where
  "demo_org4 = snd (remove_member 50 (snd demo_accept) ''u'' ''o1'' ''v'' ''r'')"

definition demo_org5 :: OrgDb where
  "demo_org5 = snd (update_member 60 demo_org4 ''u'' ''o1'' ''v'' (Some Viewer) (Some Active) ''r'')"

lemma demo_accept_same: "od_organizations (snd demo_accept) = od_organizations demo_org1" "od_users (snd demo_accept) = od_users demo_org0"
  by (simp_all add: demo_accept_def accept_invitation_def invitation_by_token_def demo_org2_rows demo_org1_rows demo_policy
      accept_invitation_in_tx_def identity_ok_def demo_org0_def show_int_7
      INVITATION_LIFETIME_def rows_affected_def consumable_def outstanding_def join_organization_def is_member_row_def)

lemma demo_org4_rows:
  "od_organizations demo_org4 = od_organizations demo_org1" "od_users demo_org4 = od_users demo_org0"
  "od_memberships demo_org4 = [new_member ''o1'' ''u'' Admin 10,
     \<lparr>mb_organization_id = ''o1'', mb_user_id = ''v'', mb_role = Viewer, mb_status = Removed, mb_updated_at = 50\<rparr>]"
  by (simp_all add: demo_org4_def remove_member_def update_member_def update_member_tx_def demo_policy demo_accept_same
      demo_accept_rows demo_org1_rows demo_org0_def update_member_in_tx_def update_where_def is_member_row_def)

lemma demo_org5_rows:
  "od_memberships demo_org5 = [new_member ''o1'' ''u'' Admin 10, new_member ''o1'' ''v'' Viewer 60]"
  by (simp add: demo_org5_def update_member_def update_member_tx_def demo_policy demo_org4_rows
      demo_org1_rows demo_org0_def update_member_in_tx_def update_where_def is_member_row_def)

lemma demo_reach4: "reach org_start org_step (fst (snd demo_found), demo_org4)"
proof -
  have "org_step (fst (snd demo_found), snd demo_accept) (Call ''u'') (fst (snd demo_found), demo_org4)"
    by (rule s_remove [where rr = "fst (remove_member 50 (snd demo_accept) ''u'' ''o1'' ''v'' ''r'')"]) (simp add: demo_org4_def)
  then show ?thesis using reach_step [OF reach_step [OF demo_reach2 demo_step3]] by blast
qed

theorem removed_member_needs_new_decision_witness: "acts_as_admin demo_org4 ''u'' ''o1''"
proof -
  have "org_step (fst (snd demo_found), demo_org4) (Call ''u'') (fst (snd demo_found), demo_org5)"
    by (rule s_member [where rm = "fst (update_member 60 demo_org4 ''u'' ''o1'' ''v'' (Some Viewer) (Some Active) ''r'')"])
      (simp add: demo_org5_def)
  from removed_member_needs_new_decision [OF demo_reach4 this, of "last (od_memberships demo_org4)"]
  show ?thesis by (simp add: demo_org4_rows demo_org5_rows)
qed

text \<open>
  C40 (error). Organization identifiers cannot be enumerated. A caller without a membership row gets
  the same 404 answer, whether or not the organization exists, from reading and updating the organization, changing and removing members,
  creating and revoking invitations, handing it over and deleting it, and nothing changes. Only what can be refused without
  looking at the organization is refused first: a display name that is not valid, and a hand-over without a recent login.
\<close>

theorem outsider_gets_not_found:
  assumes "find_member db org caller = None" and "find_member (snd before) org caller = None"
  shows "get_org db caller org = Inl (not_found ''organization'') \<and>
    update_org tnow db caller org display_name request_id =
      (Inl (case (case display_name of None \<Rightarrow> Inr () | Some name \<Rightarrow> validate_display_name name) of
         Inl invalid \<Rightarrow> invalid | Inr _ \<Rightarrow> not_found ''organization''), db) \<and>
    update_member tnow db caller org target role status request_id = (Inl (not_found ''organization''), db) \<and>
    remove_member tnow db caller org target request_id = (Inl (not_found ''organization''), db) \<and>
    create_invitation_idempotent parse_uuid resolve_login key_id new_id clk0 tnow clk before (keys, db) caller org login role' key
      request_hash token request_id = (Inl (not_found ''organization''), keys, db) \<and>
    revoke_invitation tnow db caller org i request_id = (Inl (not_found ''organization''), db) \<and>
    transfer_ownership tnow db caller org heir recent request_id =
      (Inl (if recent then not_found ''organization''
        else api ''REAUTH_REQUIRED'' ''recent authentication (within 10 minutes) is required to transfer ownership''), db) \<and>
    request_deletion_idempotent parse_uuid key_id op ox tnow clk (snd before) (keys, db) caller org recent key request_hash request_id =
      (Inl (not_found ''organization''), keys, db) \<and>
    fst (to_http_response request_id (not_found ''organization'')) = 404"
proof -
  have lock: "lock_policy db org caller = (None, map_option org_state (find_org db org))"
    using assms by (simp add: lock_policy_def)
  have look: "membership_and_org db org caller = (None, None)" "membership_and_org (snd before) org caller = (None, None)"
    using assms by (simp_all add: membership_and_org_def split: option.splits)
  have refused: "require_member None state = Inl (not_found ''organization'')" "require_admin None state = Inl (not_found ''organization'')"
      "require_owner None state = Inl (not_found ''organization'')" for state
    by (simp_all add: require_member_def require_admin_def require_owner_def)
  have "update_org tnow db caller org display_name request_id =
      (Inl (case (case display_name of None \<Rightarrow> Inr () | Some name \<Rightarrow> validate_display_name name) of
         Inl invalid \<Rightarrow> invalid | Inr _ \<Rightarrow> not_found ''organization''), db)"
    by (simp add: update_org_def lock refused split: sum.split)
  then show ?thesis
    by (simp add: lock look refused get_org_def update_member_def update_member_tx_def remove_member_def create_invitation_idempotent_def
        revoke_invitation_def transfer_ownership_def request_deletion_idempotent_def to_http_response_def not_found_def api_def api_status_def Let_def)
qed

theorem outsider_gets_not_found_witness:
  "get_org demo_org2 ''v'' ''o1'' = Inl (not_found ''organization'') \<and> find_org demo_org2 ''o1'' \<noteq> None \<and>
   get_org demo_org2 ''v'' ''o9'' = Inl (not_found ''organization'') \<and> find_org demo_org2 ''o9'' = None"
  using outsider_gets_not_found [of demo_org2 "''o1''" "''v''" "([], demo_org2)"] outsider_gets_not_found [of demo_org2 "''o9''" "''v''" "([], demo_org2)"]
  by (simp add: find_member_def find_org_def demo_org2_rows demo_org1_rows)

end
