(* ===== verification/Auth_Sessions.thy ===== *)
theory Auth_Sessions
  imports Organizations
begin

text \<open>
  Sessions of human users: \<open>src/crates/openflows-manager/src/auth/repository.rs\<close>, with \<open>auth/sessions.rs\<close>, \<open>auth/csrf.rs\<close>
  and the header readers of \<open>routes/auth.rs\<close>. A user has sessions of two kinds: a browser session
  is a cookie that lasts twelve hours, a CLI session is an access token of fifteen minutes and a
  refresh token that is replaced at every use, for at most thirty days. The database has hashes only;
  \<open>hash_token\<close> is SHA-256 and a generated secret is its encoded text, given with the fresh identifiers as
  \<open>SessionSeeds\<close>. \<open>tnow\<close> is the start of the transaction (\<open>now()\<close>), \<open>clk\<close> the time of the statement
  (\<open>clock_timestamp()\<close>), \<open>app\<close> the clock of the application (\<open>Utc::now()\<close>).
\<close>

record SessionRow =
  ss_id :: string
  ss_user_id :: string
  ss_kind :: string
  ss_access_hash :: string
  ss_access_expires_at :: instant
  ss_refresh_hash :: string
  ss_refresh_expires_at :: instant
  ss_family_id :: string
  ss_revoked_at :: "instant option"
  ss_last_used_at :: "instant option"
  ss_created_at :: instant
  ss_last_authenticated_at :: "instant option"

record RefreshRow =
  rf_refresh_hash :: string
  rf_family_id :: string
  rf_consumed_at :: instant
  rf_expires_at :: instant

record LoginRow =
  lg_id :: string
  lg_purpose :: string
  lg_state_hash :: string
  lg_encrypted_pkce_verifier :: "string option"
  lg_pkce_key_version :: "int option"
  lg_expires_at :: instant
  lg_consumed_at :: "instant option"

record DeviceRow =
  dv_id :: string
  dv_device_secret_hash :: string
  dv_user_code_hash :: string
  dv_status :: string
  dv_approved_user_id :: "string option"
  dv_expires_at :: instant
  dv_last_poll_at :: "instant option"
  dv_approved_authenticated_at :: "instant option"

record LedgerRow =
  lr_bucket_key :: string
  lr_scope :: string
  lr_window_start :: instant
  lr_count :: int

record AuthDb =
  ad_orgs :: OrgDb
  ad_sessions :: "SessionRow list"
  ad_refresh_history :: "RefreshRow list"
  ad_transactions :: "LoginRow list"
  ad_devices :: "DeviceRow list"
  ad_ledger :: "LedgerRow list"

section \<open>Users and the audit log\<close>

definition active_user :: "AuthDb \<Rightarrow> string \<Rightarrow> bool" where
  "active_user db user \<longleftrightarrow> user_active (ad_orgs db) user"

definition auth_audit :: "instant \<Rightarrow> string \<Rightarrow> string option \<Rightarrow> (string \<times> string) option \<Rightarrow> AuditResult \<Rightarrow> string option \<Rightarrow> AuthDb \<Rightarrow> AuthDb" where
  "auth_audit tnow action actor resource outcome request db =
     db\<lparr>ad_orgs := (ad_orgs db)\<lparr>od_audit := od_audit (ad_orgs db) @
       [\<lparr>au_organization_id = None, au_actor_type = ''user'', au_actor_id = actor, au_action = action,
         au_resource_type = map_option fst resource, au_resource_id = map_option snd resource, au_result = outcome,
         au_request_id = request, au_occurred_at = tnow\<rparr>]\<rparr>\<rparr>"

lemma auth_audit_sel [simp]:
  "ad_sessions (auth_audit t a b c d e db) = ad_sessions db" "ad_refresh_history (auth_audit t a b c d e db) = ad_refresh_history db"
  "ad_transactions (auth_audit t a b c d e db) = ad_transactions db" "ad_devices (auth_audit t a b c d e db) = ad_devices db"
  "ad_ledger (auth_audit t a b c d e db) = ad_ledger db" "od_users (ad_orgs (auth_audit t a b c d e db)) = od_users (ad_orgs db)"
  "od_identities (ad_orgs (auth_audit t a b c d e db)) = od_identities (ad_orgs db)"
  by (simp_all add: auth_audit_def)

definition find_by_provider_subject :: "AuthDb \<Rightarrow> string \<Rightarrow> string \<Rightarrow> (string \<times> string) option" where
  "find_by_provider_subject db provider subject =
     Option.bind (List.find (\<lambda>i. id_provider i = provider \<and> id_subject i = subject) (od_identities (ad_orgs db)))
       (\<lambda>i. map_option (\<lambda>u. (us_id u, us_status u)) (List.find (\<lambda>u. us_id u = id_user_id i) (od_users (ad_orgs db))))"

definition find_or_create_user :: "string \<Rightarrow> AuthDb \<Rightarrow> string \<Rightarrow> string \<Rightarrow> string \<Rightarrow> string \<Rightarrow> (string \<times> bool) managed \<times> AuthDb" where
  "find_or_create_user user_id db provider subject login_snapshot display_name =
     (let orgs = ad_orgs db; known = (\<lambda>i. id_provider i = provider \<and> id_subject i = subject) in
      case List.find known (od_identities orgs) of
        Some i \<Rightarrow>
          (Inr (id_user_id i, False), db\<lparr>ad_orgs := orgs\<lparr>od_identities :=
            update_where known (\<lambda>i. i\<lparr>id_login_snapshot := Some login_snapshot\<rparr>) (od_identities orgs)\<rparr>\<rparr>)
      | None \<Rightarrow>
          if list_ex (\<lambda>u. us_id u = user_id) (od_users orgs)
          then (Inl (Service ''failed to create user: duplicate key''), db)
          else (Inr (user_id, True), db\<lparr>ad_orgs := orgs
            \<lparr>od_users := od_users orgs @ [\<lparr>us_id = user_id, us_display_name = display_name, us_status = ''active''\<rparr>],
             od_identities := od_identities orgs @ [\<lparr>id_user_id = user_id, id_provider = provider, id_subject = subject,
               id_login_snapshot = Some login_snapshot\<rparr>]\<rparr>\<rparr>))"

definition user_status :: "AuthDb \<Rightarrow> string \<Rightarrow> string option" where
  "user_status db user = map_option us_status (List.find (\<lambda>u. us_id u = user) (od_users (ad_orgs db)))"

definition user_dto :: "AuthDb \<Rightarrow> string \<Rightarrow> (string \<times> string \<times> string) option" where
  "user_dto db user = map_option (\<lambda>u. (user, us_display_name u, us_status u)) (List.find (\<lambda>u. us_id u = user) (od_users (ad_orgs db)))"

section \<open>Creating sessions\<close>

record SessionSeeds =
  sd_session_id :: string
  sd_family_id :: string
  sd_access :: string
  sd_refresh :: string

record SessionCredentials =
  cr_session_id :: string
  cr_family_id :: string
  cr_access_token :: string
  cr_refresh_token :: string
  cr_access_expires_at :: instant
  cr_refresh_expires_at :: instant

record SessionPrincipal =
  pr_session_id :: string
  pr_user_id :: string
  pr_kind :: string
  pr_access_expires_at :: instant

definition ACCESS_LIFETIME :: instant where
  "ACCESS_LIFETIME = seconds (15 * 60)"

definition BROWSER_LIFETIME :: instant where
  "BROWSER_LIFETIME = seconds (12 * 60 * 60)"

definition REFRESH_LIFETIME :: instant where
  "REFRESH_LIFETIME = seconds (30 * 24 * 60 * 60)"

definition RECENT_AUTH_WINDOW :: instant where
  "RECENT_AUTH_WINDOW = seconds (10 * 60)"

definition credentials_of :: "SessionSeeds \<Rightarrow> instant \<Rightarrow> instant \<Rightarrow> SessionCredentials" where
  "credentials_of seeds access_expires refresh_expires =
     \<lparr>cr_session_id = sd_session_id seeds, cr_family_id = sd_family_id seeds, cr_access_token = sd_access seeds,
      cr_refresh_token = sd_refresh seeds, cr_access_expires_at = access_expires, cr_refresh_expires_at = refresh_expires\<rparr>"

text \<open>\<open>INSERT INTO sessions \<dots> SELECT \<dots> FROM users WHERE status = 'active'\<close>, with the unique columns of the table.\<close>

definition insert_session_row :: "SessionRow \<Rightarrow> AuthDb \<Rightarrow> (unit \<times> AuthDb) managed" where
  "insert_session_row row db =
     (if \<not> active_user db (ss_user_id row) then Inl (api ''UNAUTHORIZED'' ''user is not active'')
      else if list_ex (\<lambda>s. ss_id s = ss_id row \<or> ss_access_hash s = ss_access_hash row \<or> ss_refresh_hash s = ss_refresh_hash row) (ad_sessions db)
      then Inl (Database ''insert violates a constraint of sessions'')
      else Inr ((), db\<lparr>ad_sessions := ad_sessions db @ [row]\<rparr>))"

definition insert_user_session ::
  "string \<Rightarrow> string \<Rightarrow> string \<Rightarrow> string \<Rightarrow> string \<Rightarrow> instant \<Rightarrow> string \<Rightarrow> instant \<Rightarrow> instant \<Rightarrow> instant \<Rightarrow> AuthDb \<Rightarrow> (unit \<times> AuthDb) managed" where
  "insert_user_session session user kind family access_hash access_expires refresh_hash refresh_expires app tnow db =
     and_then (insert_session_row \<lparr>ss_id = session, ss_user_id = user, ss_kind = kind, ss_access_hash = access_hash,
         ss_access_expires_at = access_expires, ss_refresh_hash = refresh_hash, ss_refresh_expires_at = refresh_expires,
         ss_family_id = family, ss_revoked_at = None, ss_last_used_at = Some app, ss_created_at = tnow,
         ss_last_authenticated_at = Some app\<rparr> db) (\<lambda>(_, db1).
     Inr ((), auth_audit tnow ''auth.session_created'' (Some user) (Some (''session'', session)) AuditSuccess None db1))"

definition create_session ::
  "string \<Rightarrow> instant \<Rightarrow> instant \<Rightarrow> (string \<Rightarrow> string) \<Rightarrow> SessionSeeds \<Rightarrow> instant \<Rightarrow> instant \<Rightarrow> AuthDb \<Rightarrow> string \<Rightarrow> SessionCredentials managed \<times> AuthDb" where
  "create_session kind access_life refresh_life hash_token seeds app tnow db user =
     transact db (and_then (insert_user_session (sd_session_id seeds) user kind (sd_family_id seeds) (hash_token (sd_access seeds)) (app + access_life)
         (hash_token (sd_refresh seeds)) (app + refresh_life) app tnow db) (\<lambda>(_, db1).
       Inr (credentials_of seeds (app + access_life) (app + refresh_life), db1)))"

definition create_cli_session ::
  "(string \<Rightarrow> string) \<Rightarrow> SessionSeeds \<Rightarrow> instant \<Rightarrow> instant \<Rightarrow> AuthDb \<Rightarrow> string \<Rightarrow> SessionCredentials managed \<times> AuthDb" where
  "create_cli_session = create_session ''cli'' ACCESS_LIFETIME REFRESH_LIFETIME"

definition create_browser_session ::
  "(string \<Rightarrow> string) \<Rightarrow> SessionSeeds \<Rightarrow> instant \<Rightarrow> instant \<Rightarrow> AuthDb \<Rightarrow> string \<Rightarrow> SessionCredentials managed \<times> AuthDb" where
  "create_browser_session = create_session ''browser'' BROWSER_LIFETIME BROWSER_LIFETIME"

definition create_cli_session_in_tx ::
  "(string \<Rightarrow> string) \<Rightarrow> SessionSeeds \<Rightarrow> instant \<Rightarrow> instant \<Rightarrow> instant \<Rightarrow> AuthDb \<Rightarrow> string \<Rightarrow> (SessionCredentials \<times> AuthDb) managed" where
  "create_cli_session_in_tx hash_token seeds app tnow clk db user =
     and_then (insert_session_row \<lparr>ss_id = sd_session_id seeds, ss_user_id = user, ss_kind = ''cli'', ss_access_hash = hash_token (sd_access seeds),
         ss_access_expires_at = app + ACCESS_LIFETIME, ss_refresh_hash = hash_token (sd_refresh seeds),
         ss_refresh_expires_at = app + REFRESH_LIFETIME, ss_family_id = sd_family_id seeds, ss_revoked_at = None,
         ss_last_used_at = None, ss_created_at = tnow, ss_last_authenticated_at = Some clk\<rparr> db) (\<lambda>(_, db1).
     Inr (credentials_of seeds (app + ACCESS_LIFETIME) (app + REFRESH_LIFETIME),
       auth_audit tnow ''auth.cli_session_created'' (Some user) (Some (''session'', sd_session_id seeds)) AuditSuccess None db1))"

section \<open>Validating sessions\<close>

definition principal_of :: "SessionRow \<Rightarrow> SessionPrincipal" where
  "principal_of s = \<lparr>pr_session_id = ss_id s, pr_user_id = ss_user_id s, pr_kind = ss_kind s, pr_access_expires_at = ss_access_expires_at s\<rparr>"

definition session_valid :: "string \<Rightarrow> instant \<Rightarrow> instant \<Rightarrow> instant \<Rightarrow> AuthDb \<Rightarrow> string \<Rightarrow> SessionRow \<Rightarrow> bool" where
  "session_valid kind life tnow clk db access_hash s \<longleftrightarrow>
     ss_access_hash s = access_hash \<and> ss_kind s = kind \<and> clk < ss_created_at s + life \<and> ss_revoked_at s = None \<and>
     tnow < ss_access_expires_at s \<and> active_user db (ss_user_id s)"

definition validate_browser_session :: "instant \<Rightarrow> instant \<Rightarrow> AuthDb \<Rightarrow> string \<Rightarrow> SessionPrincipal option" where
  "validate_browser_session tnow clk db access_hash =
     map_option principal_of (List.find (session_valid ''browser'' (seconds (12 * 60 * 60)) tnow clk db access_hash) (ad_sessions db))"

definition validate_cli_session :: "instant \<Rightarrow> instant \<Rightarrow> AuthDb \<Rightarrow> string \<Rightarrow> SessionPrincipal option" where
  "validate_cli_session tnow clk db access_hash =
     map_option principal_of (List.find (session_valid ''cli'' (seconds (30 * 24 * 60 * 60)) tnow clk db access_hash) (ad_sessions db))"

definition has_recent_auth :: "instant \<Rightarrow> AuthDb \<Rightarrow> string \<Rightarrow> bool option" where
  "has_recent_auth app db session =
     map_option (\<lambda>s. is_some_and (ss_last_authenticated_at s) (\<lambda>t. app < t + RECENT_AUTH_WINDOW))
       (List.find (\<lambda>s. ss_id s = session) (ad_sessions db))"

section \<open>Refreshing and ending sessions\<close>

definition revoke_family_in_tx :: "instant \<Rightarrow> string \<Rightarrow> AuthDb \<Rightarrow> AuthDb" where
  "revoke_family_in_tx tnow family db = db\<lparr>ad_sessions :=
     update_where (\<lambda>s. ss_family_id s = family \<and> ss_revoked_at s = None) (\<lambda>s. s\<lparr>ss_revoked_at := Some tnow\<rparr>) (ad_sessions db)\<rparr>"

definition rotate_session ::
  "string \<Rightarrow> string \<Rightarrow> instant \<Rightarrow> string \<Rightarrow> instant \<Rightarrow> instant \<Rightarrow> AuthDb \<Rightarrow> (unit \<times> AuthDb) managed" where
  "rotate_session session access_hash access_expires refresh_hash refresh_expires tnow db =
     (if list_ex (\<lambda>s. ss_id s \<noteq> session \<and> (ss_access_hash s = access_hash \<or> ss_refresh_hash s = refresh_hash)) (ad_sessions db)
      then Inl (Database ''update violates a constraint of sessions'')
      else Inr ((), db\<lparr>ad_sessions := update_where (\<lambda>s. ss_id s = session)
        (\<lambda>s. s\<lparr>ss_access_hash := access_hash, ss_access_expires_at := access_expires, ss_refresh_hash := refresh_hash,
               ss_refresh_expires_at := refresh_expires, ss_last_used_at := Some tnow\<rparr>) (ad_sessions db)\<rparr>))"

definition refreshable :: "AuthDb \<Rightarrow> string \<Rightarrow> SessionRow \<Rightarrow> bool" where
  "refreshable db refresh_hash s \<longleftrightarrow>
     ss_refresh_hash s = refresh_hash \<and> ss_kind s = ''cli'' \<and> ss_revoked_at s = None \<and> active_user db (ss_user_id s)"

definition refresh_cli_session ::
  "(string \<Rightarrow> string) \<Rightarrow> SessionSeeds \<Rightarrow> instant \<Rightarrow> instant \<Rightarrow> AuthDb \<Rightarrow> string \<Rightarrow> SessionCredentials option managed \<times> AuthDb" where
  "refresh_cli_session hash_token seeds app tnow db refresh_hash =
     transact db
       (case List.find (\<lambda>r. rf_refresh_hash r = refresh_hash) (ad_refresh_history db) of
          Some used \<Rightarrow>
            Inr (None, auth_audit tnow ''auth.refresh_reuse'' None (Some (''session_family'', rf_family_id used)) AuditDenied None
              (revoke_family_in_tx tnow (rf_family_id used) db))
        | None \<Rightarrow>
           (case List.find (refreshable db refresh_hash) (ad_sessions db) of
              None \<Rightarrow> Inr (None, db)
            | Some s \<Rightarrow>
                let family_max = ss_created_at s + REFRESH_LIFETIME in
                if ss_refresh_expires_at s \<le> app \<or> family_max \<le> app then Inr (None, db)
                else
                  let db1 = db\<lparr>ad_refresh_history := ad_refresh_history db @ [\<lparr>rf_refresh_hash = refresh_hash,
                        rf_family_id = ss_family_id s, rf_consumed_at = tnow, rf_expires_at = family_max\<rparr>]\<rparr>;
                      access_expires = min (app + ACCESS_LIFETIME) family_max;
                      refresh_expires = min (app + REFRESH_LIFETIME) family_max in
                  and_then (rotate_session (ss_id s) (hash_token (sd_access seeds)) access_expires
                      (hash_token (sd_refresh seeds)) refresh_expires tnow db1) (\<lambda>(_, db2).
                  Inr (Some \<lparr>cr_session_id = ss_id s, cr_family_id = ss_family_id s, cr_access_token = sd_access seeds,
                      cr_refresh_token = sd_refresh seeds, cr_access_expires_at = access_expires, cr_refresh_expires_at = refresh_expires\<rparr>,
                    auth_audit tnow ''auth.refresh_rotated'' (Some (ss_user_id s)) (Some (''session'', ss_id s)) AuditSuccess None db2))))"

definition revoke_session :: "instant \<Rightarrow> AuthDb \<Rightarrow> string \<Rightarrow> bool \<times> AuthDb" where
  "revoke_session tnow db session =
     (let open = (\<lambda>s. ss_id s = session \<and> ss_revoked_at s = None);
          db1 = db\<lparr>ad_sessions := update_where open (\<lambda>s. s\<lparr>ss_revoked_at := Some tnow\<rparr>) (ad_sessions db)\<rparr> in
      case List.find open (ad_sessions db) of
        None \<Rightarrow> (False, db1)
      | Some s \<Rightarrow> (True, auth_audit tnow ''auth.logout'' (Some (ss_user_id s)) (Some (''session'', session)) AuditSuccess None db1))"

definition revoke_all_for_user :: "instant \<Rightarrow> AuthDb \<Rightarrow> string \<Rightarrow> AuthDb" where
  "revoke_all_for_user tnow db user = db\<lparr>ad_sessions :=
     update_where (\<lambda>s. ss_user_id s = user \<and> ss_revoked_at s = None) (\<lambda>s. s\<lparr>ss_revoked_at := Some tnow\<rparr>) (ad_sessions db)\<rparr>"

definition record_recent_auth :: "instant \<Rightarrow> AuthDb \<Rightarrow> string \<Rightarrow> AuthDb" where
  "record_recent_auth tnow db session = db\<lparr>ad_sessions :=
     update_where (\<lambda>s. ss_id s = session) (\<lambda>s. s\<lparr>ss_last_authenticated_at := Some tnow\<rparr>) (ad_sessions db)\<rparr>"

section \<open>Headers, cookies and CSRF tokens\<close>

type_synonym headers = "(string \<times> string) list"

text \<open>\<open>HeaderValue::to_str\<close>: visible ASCII, space and tab.\<close>

definition header_to_str :: "string \<Rightarrow> string option" where
  "header_to_str v = (if list_all (\<lambda>c. c = CHR 0x09 \<or> (32 :: nat) \<le> of_char c \<and> (of_char c :: nat) < 127) v then Some v else None)"

definition header_get :: "headers \<Rightarrow> string \<Rightarrow> string option" where
  "header_get headers name = Option.bind (map_of headers name) header_to_str"

definition SESSION_COOKIE :: string where
  "SESSION_COOKIE = ''of_session''"

definition TX_COOKIE :: string where
  "TX_COOKIE = ''of_login_tx''"

definition CSRF_HEADER :: string where
  "CSRF_HEADER = ''x-csrf-token''"

definition CSRF_COOKIE :: string where
  "CSRF_COOKIE = ''of_csrf''"

text \<open>\<open>splitn(2, '=')\<close> with both parts present.\<close>

definition cookie_pair :: "string \<Rightarrow> (string \<times> string) option" where
  "cookie_pair cookie =
     (let c = trim cookie; k = takeWhile (\<lambda>x. x \<noteq> CHR ''='') c in
      if length k = length c then None else Some (trim k, trim (drop (Suc (length k)) c)))"

definition insert_cookie :: "(string \<rightharpoonup> string) \<Rightarrow> string \<Rightarrow> (string \<rightharpoonup> string)" where
  "insert_cookie m cookie = (case cookie_pair cookie of None \<Rightarrow> m | Some (k, v) \<Rightarrow> m(k \<mapsto> v))"

definition parse_cookies :: "headers \<Rightarrow> (string \<rightharpoonup> string)" where
  "parse_cookies headers =
     foldl (\<lambda>m v. case header_to_str v of None \<Rightarrow> m | Some s \<Rightarrow> foldl insert_cookie m (split_on (\<lambda>c. c = CHR '';'') s))
       Map.empty (map snd (filter (\<lambda>h. fst h = ''cookie'') headers))"

definition session_cookie_header :: "string \<Rightarrow> string \<Rightarrow> bool \<Rightarrow> nat \<Rightarrow> string" where
  "session_cookie_header name value secure max_age =
     join ''; '' ([name @ ''='' @ value, ''Path=/'', ''HttpOnly'', ''SameSite=Lax''] @ (if secure then [''Secure''] else []) @
       [''Max-Age='' @ show_nat max_age])"

definition bearer_token :: "headers \<Rightarrow> string option" where
  "bearer_token headers =
     Option.bind (header_get headers ''authorization'') (\<lambda>auth.
       map_option trim (case strip_prefix ''Bearer '' auth of Some t \<Rightarrow> Some t | None \<Rightarrow> strip_prefix ''bearer '' auth))"

definition csrf_validate :: "string \<Rightarrow> string \<Rightarrow> unit managed" where
  "csrf_validate presented cookie =
     (if blank presented \<or> blank cookie then Inl (api ''CSRF_FAILED'' ''missing CSRF token'')
      else if presented \<noteq> cookie then Inl (api ''CSRF_FAILED'' ''CSRF token mismatch'')
      else Inr ())"

definition csrf_for_session :: "(string \<Rightarrow> string) \<Rightarrow> string \<Rightarrow> string" where
  "csrf_for_session hash_token session = hash_token (''openflows-csrf:'' @ session)"

definition csrf_validate_session :: "(string \<Rightarrow> string) \<Rightarrow> headers \<Rightarrow> string \<Rightarrow> unit managed" where
  "csrf_validate_session hash_token headers presented =
     (case parse_cookies headers SESSION_COOKIE of
        None \<Rightarrow> Inl (api ''CSRF_FAILED'' ''missing session'')
      | Some session \<Rightarrow> csrf_validate presented (csrf_for_session hash_token session))"

section \<open>The principal of a request\<close>

record AuthPrincipal =
  ap_user_id :: string
  ap_session_id :: string
  ap_is_browser :: bool

definition authenticated_user :: "(string \<Rightarrow> string) \<Rightarrow> instant \<Rightarrow> instant \<Rightarrow> AuthDb \<Rightarrow> headers \<Rightarrow> AuthPrincipal managed" where
  "authenticated_user hash_token tnow clk db headers =
     (case parse_cookies headers SESSION_COOKIE of
        Some cookie \<Rightarrow>
          (case validate_browser_session tnow clk db (hash_token cookie) of
             None \<Rightarrow> Inl (api ''UNAUTHORIZED'' ''session is invalid or expired'')
           | Some p \<Rightarrow> Inr \<lparr>ap_user_id = pr_user_id p, ap_session_id = pr_session_id p, ap_is_browser = True\<rparr>)
      | None \<Rightarrow>
          (case bearer_token headers of
             Some bearer \<Rightarrow>
               (case validate_cli_session tnow clk db (hash_token bearer) of
                  None \<Rightarrow> Inl (api ''UNAUTHORIZED'' ''access token is invalid or expired'')
                | Some p \<Rightarrow> Inr \<lparr>ap_user_id = pr_user_id p, ap_session_id = pr_session_id p, ap_is_browser = False\<rparr>)
           | None \<Rightarrow> Inl (api ''UNAUTHORIZED'' ''authentication required'')))"

definition require_csrf_for_browser :: "(string \<Rightarrow> string) \<Rightarrow> AuthPrincipal \<Rightarrow> headers \<Rightarrow> unit managed" where
  "require_csrf_for_browser hash_token who headers =
     (if \<not> ap_is_browser who then Inr ()
      else
        let cookie = case parse_cookies headers CSRF_COOKIE of None \<Rightarrow> '''' | Some c \<Rightarrow> c;
            presented = case header_get headers CSRF_HEADER of None \<Rightarrow> '''' | Some v \<Rightarrow> v in
        and_then (csrf_validate presented cookie) (\<lambda>_. csrf_validate_session hash_token headers presented))"

end
