(* ===== verification/Auth_Flows.thy ===== *)
theory Auth_Flows
  imports Auth_Sessions
begin

text \<open>
  The ways to a session: GitHub login (\<open>auth/oauth.rs\<close>), approval of a command line client (\<open>auth/device.rs\<close>), the
  rate limiter in front of them (\<open>rate_limit.rs\<close>) and their routes (\<open>routes/auth.rs\<close>, \<open>routes/device.rs\<close>). A handler
  that runs several transactions gets \<open>others\<close>, what the rest of the system does to the database before each of them,
  and \<open>moment\<close>, the clocks at each of them. GitHub, the URL parser, the cipher of the envelope and the JSON printer
  and reader are parameters; pages and redirects are left to the server.
\<close>

record Moment =
  mo_app :: instant
  mo_now :: instant
  mo_clk :: instant

text \<open>A call inside a handler: its error ends the handler, what it wrote stays.\<close>

definition proceed :: "'a managed \<times> 'd \<Rightarrow> ('a \<Rightarrow> 'd \<Rightarrow> 'b managed \<times> 'd) \<Rightarrow> 'b managed \<times> 'd" where
  "proceed r f = (case r of (Inl e, db) \<Rightarrow> (Inl e, db) | (Inr v, db) \<Rightarrow> f v db)"

lemma proceed_simps [simp]: "proceed (Inl e, db) f = (Inl e, db)" "proceed (Inr v, db) f = f v db"
  by (simp_all add: proceed_def)

lemma proceed_Inr:
  "proceed r f = (Inr v, db') \<longleftrightarrow> (\<exists>u db1. r = (Inr u, db1) \<and> f u db1 = (Inr v, db'))"
  by (cases r; cases "fst r") (auto simp: proceed_def)

section \<open>The rate limiter\<close>

datatype LimitScope = GithubStart | DeviceStart | Verify | Poll | Invitation | Refresh | RuntimeBroker

primrec limit_scope_str :: "LimitScope \<Rightarrow> string" where
  "limit_scope_str GithubStart = ''start''"
| "limit_scope_str DeviceStart = ''device_start''"
| "limit_scope_str Verify = ''verify''"
| "limit_scope_str Poll = ''poll''"
| "limit_scope_str Invitation = ''invitation''"
| "limit_scope_str Refresh = ''refresh''"
| "limit_scope_str RuntimeBroker = ''runtime_broker''"

definition I32_MAX :: int where
  "I32_MAX = 2147483647"

text \<open>\<open>i32::try_from(limit).unwrap_or(i32::MAX - 1).saturating_add(1)\<close>.\<close>

definition counted_up_to :: "u32 \<Rightarrow> int" where
  "counted_up_to limit = min I32_MAX ((if int (unat limit) \<le> I32_MAX then int (unat limit) else I32_MAX - 1) + 1)"

definition minute_of :: "instant \<Rightarrow> instant" where
  "minute_of clk = clk - clk mod seconds 60"

definition ledger_key :: "string \<Rightarrow> string \<Rightarrow> instant \<Rightarrow> LedgerRow \<Rightarrow> bool" where
  "ledger_key key scope window r \<longleftrightarrow> lr_bucket_key r = key \<and> lr_scope r = scope \<and> lr_window_start r = window"

definition count_attempt :: "int \<Rightarrow> string \<Rightarrow> string \<Rightarrow> instant \<Rightarrow> LedgerRow list \<Rightarrow> int \<times> LedgerRow list" where
  "count_attempt cap key scope window rows =
     (case List.find (ledger_key key scope window) rows of
        None \<Rightarrow> (1, rows @ [\<lparr>lr_bucket_key = key, lr_scope = scope, lr_window_start = window, lr_count = 1\<rparr>])
      | Some r \<Rightarrow>
          let n = max (lr_count r) (min (lr_count r + 1) cap) in
          (n, update_where (ledger_key key scope window) (\<lambda>r. r\<lparr>lr_count := n\<rparr>) rows))"

text \<open>The clean-up of one call in sixty-four; rows of the same minute are removed in table order.\<close>

definition sweep_ledger :: "instant \<Rightarrow> LedgerRow list \<Rightarrow> LedgerRow list" where
  "sweep_ledger clk rows =
     (let old = take 1000 (sort_key lr_window_start (filter (\<lambda>r. lr_window_start r + seconds 3600 < clk) rows)) in
      filter (\<lambda>r. r \<notin> set old) rows)"

definition allow ::
  "(string \<Rightarrow> string) \<Rightarrow> instant \<Rightarrow> instant option \<Rightarrow> AuthDb \<Rightarrow> string \<Rightarrow> LimitScope \<Rightarrow> u32 \<Rightarrow> bool \<times> AuthDb" where
  "allow hash_token clk sweep db bucket scope limit =
     (case count_attempt (counted_up_to limit) (hash_token bucket) (limit_scope_str scope) (minute_of clk) (ad_ledger db) of (n, rows) \<Rightarrow>
        (n \<le> int (unat limit),
         db\<lparr>ad_ledger := (case sweep of None \<Rightarrow> rows | Some later \<Rightarrow> sweep_ledger later rows)\<rparr>))"

definition peer_bucket :: "headers \<Rightarrow> string" where
  "peer_bucket headers = (case header_get headers ''x-openflows-peer'' of None \<Rightarrow> ''unknown-peer'' | Some peer \<Rightarrow> peer)"

definition limited ::
  "(string \<Rightarrow> string) \<Rightarrow> Moment \<Rightarrow> instant option \<Rightarrow> AuthDb \<Rightarrow> headers \<Rightarrow> LimitScope \<Rightarrow> u32 \<Rightarrow> string \<Rightarrow> unit managed \<times> AuthDb" where
  "limited hash_token at sweep db headers scope limit message =
     (case allow hash_token (mo_clk at) sweep db (peer_bucket headers) scope limit of (ok, db1) \<Rightarrow>
        (if ok then Inr () else Inl (retryable (api ''RATE_LIMITED'' message) True), db1))"

section \<open>Approval of a command line client\<close>

definition USER_CODE_ALPHABET :: string where
  "USER_CODE_ALPHABET = ''ABCDEFGHJKLMNPQRSTUVWXYZ23456789''"

definition generate_human_code :: "nat list \<Rightarrow> string" where
  "generate_human_code picks = map (\<lambda>i. USER_CODE_ALPHABET ! i) picks"

definition format_user_code :: "string \<Rightarrow> string" where
  "format_user_code code = concat (map (\<lambda>(i, c). (if i = 4 then ''-'' else '''') @ [c]) (enumerate 0 code))"

record DeviceRequest =
  dr_device_secret :: string
  dr_user_code :: string
  dr_verification_url :: string
  dr_expires_in_seconds :: int
  dr_polling_interval_seconds :: int

definition device_start_request ::
  "(string \<Rightarrow> string) \<Rightarrow> string \<Rightarrow> string \<Rightarrow> string \<Rightarrow> nat list \<Rightarrow> instant \<Rightarrow> AuthDb \<Rightarrow> DeviceRequest managed \<times> AuthDb" where
  "device_start_request hash_token public_url i secret picks clk db =
     (let code = generate_human_code picks in
      if list_ex (\<lambda>d. dv_id d = i \<or> dv_device_secret_hash d = hash_token secret \<or> dv_user_code_hash d = hash_token code) (ad_devices db)
      then (Inl (Database ''insert violates a constraint of cli_login_requests''), db)
      else (Inr \<lparr>dr_device_secret = secret, dr_user_code = format_user_code code,
              dr_verification_url = public_url @ ''/auth/cli/verify'', dr_expires_in_seconds = 600, dr_polling_interval_seconds = 5\<rparr>,
            db\<lparr>ad_devices := ad_devices db @ [\<lparr>dv_id = i, dv_device_secret_hash = hash_token secret, dv_user_code_hash = hash_token code,
              dv_status = ''pending'', dv_approved_user_id = None, dv_expires_at = clk + seconds 600, dv_last_poll_at = None,
              dv_approved_authenticated_at = None\<rparr>]\<rparr>))"

definition to_ascii_upper_char :: "char \<Rightarrow> char" where
  "to_ascii_upper_char c = (if (97 :: nat) \<le> of_char c \<and> (of_char c :: nat) \<le> 122 then char_of ((of_char c :: nat) - 32) else c)"

definition without_hyphens :: "string \<Rightarrow> string" where
  "without_hyphens s = filter (\<lambda>c. c \<noteq> CHR ''-'') s"

definition normalize_user_code :: "string \<Rightarrow> string" where
  "normalize_user_code user_code = without_hyphens (map to_ascii_upper_char (trim user_code))"

definition approvable :: "instant \<Rightarrow> string \<Rightarrow> DeviceRow \<Rightarrow> bool" where
  "approvable tnow code_hash d \<longleftrightarrow> dv_user_code_hash d = code_hash \<and> dv_status d = ''pending'' \<and> tnow < dv_expires_at d"

definition approve_authenticated ::
  "(string \<Rightarrow> string) \<Rightarrow> instant \<Rightarrow> AuthDb \<Rightarrow> string \<Rightarrow> string \<Rightarrow> instant \<Rightarrow> unit managed \<times> AuthDb" where
  "approve_authenticated hash_token tnow db user_code approver authenticated_at =
     (let p = approvable tnow (hash_token (normalize_user_code user_code)) in
      if rows_affected p (ad_devices db) = 0
      then (Inl (api ''DEVICE_CODE_INVALID'' ''verification code is invalid or expired''), db)
      else if \<not> list_ex (\<lambda>u. us_id u = approver) (od_users (ad_orgs db))
      then (Inl (Database ''update violates a constraint of cli_login_requests''), db)
      else (Inr (), db\<lparr>ad_devices := update_where p (\<lambda>d. d\<lparr>dv_status := ''approved'', dv_approved_user_id := Some approver,
        dv_approved_authenticated_at := Some authenticated_at\<rparr>) (ad_devices db)\<rparr>))"

datatype Poll = PollPending | PollExpired | PollDenied | PollCredentials SessionCredentials

definition set_device :: "(DeviceRow \<Rightarrow> bool) \<Rightarrow> (DeviceRow \<Rightarrow> DeviceRow) \<Rightarrow> AuthDb \<Rightarrow> AuthDb" where
  "set_device p f db = db\<lparr>ad_devices := update_where p f (ad_devices db)\<rparr>"

definition deliver ::
  "(string \<Rightarrow> string) \<Rightarrow> SessionSeeds \<Rightarrow> Moment \<Rightarrow> AuthDb \<Rightarrow> string \<Rightarrow> string \<Rightarrow> instant \<Rightarrow> (Poll \<times> AuthDb) managed" where
  "deliver hash_token seeds at db hash approver authenticated_at =
     (let p = (\<lambda>d. dv_device_secret_hash d = hash \<and> dv_status d = ''approved'') in
      if rows_affected p (ad_devices db) = 0 then Inr (PollExpired, db)
      else and_then (create_cli_session_in_tx hash_token seeds (mo_app at) (mo_now at) (mo_clk at)
             (set_device p (\<lambda>d. d\<lparr>dv_status := ''consumed''\<rparr>) db) approver) (\<lambda>(creds, db1).
        Inr (PollCredentials creds, db1\<lparr>ad_sessions := update_where (\<lambda>s. ss_id s = cr_session_id creds)
          (\<lambda>s. s\<lparr>ss_last_authenticated_at := Some authenticated_at\<rparr>) (ad_sessions db1)\<rparr>)))"

definition poll_device ::
  "(string \<Rightarrow> string) \<Rightarrow> SessionSeeds \<Rightarrow> Moment \<Rightarrow> AuthDb \<Rightarrow> string \<Rightarrow> Poll managed \<times> AuthDb" where
  "poll_device hash_token seeds at db device_secret =
     (let hash = hash_token device_secret; mine = (\<lambda>d. dv_device_secret_hash d = hash) in
      transact db
       (case List.find mine (ad_devices db) of
          None \<Rightarrow> Inr (PollExpired, db)
        | Some d \<Rightarrow>
            if dv_expires_at d \<le> mo_clk at
            then Inr (PollExpired, set_device (\<lambda>d. mine d \<and> dv_status d \<noteq> ''consumed'') (\<lambda>d. d\<lparr>dv_status := ''expired''\<rparr>) db)
            else if dv_status d = ''consumed'' \<or> dv_status d = ''expired'' then Inr (PollExpired, db)
            else if is_some_and (dv_last_poll_at d) (\<lambda>t. mo_clk at < t + seconds 5)
            then Inl (retryable (api ''RATE_LIMITED'' ''wait five seconds before polling again'') True)
            else if dv_status d = ''pending''
            then Inr (PollPending, set_device mine (\<lambda>d. d\<lparr>dv_last_poll_at := Some (mo_now at)\<rparr>) db)
            else if dv_status d = ''approved''
            then (case (dv_approved_user_id d, dv_approved_authenticated_at d) of
                    (Some approver, Some authenticated_at) \<Rightarrow> deliver hash_token seeds at db hash approver authenticated_at
                  | _ \<Rightarrow> Inr (PollExpired, db))
            else Inr (PollExpired, db)))"

definition is_pending_code :: "(string \<Rightarrow> string) \<Rightarrow> instant \<Rightarrow> AuthDb \<Rightarrow> string \<Rightarrow> bool" where
  "is_pending_code hash_token tnow db user_code =
     (0 < rows_affected (approvable tnow (hash_token (without_hyphens user_code))) (ad_devices db))"

section \<open>Login with GitHub\<close>

definition create_login ::
  "string \<Rightarrow> instant \<Rightarrow> AuthDb \<Rightarrow> string \<Rightarrow> string \<Rightarrow> int \<Rightarrow> string managed \<times> AuthDb" where
  "create_login i clk db state_hash encrypted version =
     (if list_ex (\<lambda>l. lg_state_hash l = state_hash) (ad_transactions db) then (Inl (Conflict ''OAuth transaction already exists''), db)
      else if list_ex (\<lambda>l. lg_id l = i) (ad_transactions db)
      then (Inl (Database ''insert violates a constraint of auth_transactions''), db)
      else (Inr i, db\<lparr>ad_transactions := ad_transactions db @ [\<lparr>lg_id = i, lg_purpose = ''login'', lg_state_hash = state_hash,
        lg_encrypted_pkce_verifier = Some encrypted, lg_pkce_key_version = Some version, lg_expires_at = clk + seconds 600,
        lg_consumed_at = None\<rparr>]\<rparr>))"

definition live_login :: "instant \<Rightarrow> string \<Rightarrow> LoginRow \<Rightarrow> bool" where
  "live_login clk state_hash l \<longleftrightarrow>
     lg_state_hash l = state_hash \<and> lg_purpose l = ''login'' \<and> lg_consumed_at l = None \<and> clk < lg_expires_at l"

definition consume_login :: "Moment \<Rightarrow> AuthDb \<Rightarrow> string \<Rightarrow> (string \<times> string \<times> int) option \<times> AuthDb" where
  "consume_login at db state_hash =
     (let p = live_login (mo_clk at) state_hash in
      (map_option (\<lambda>l. (lg_id l, case lg_encrypted_pkce_verifier l of None \<Rightarrow> '''' | Some v \<Rightarrow> v,
          case lg_pkce_key_version l of None \<Rightarrow> 1 | Some v \<Rightarrow> v)) (List.find p (ad_transactions db)),
       db\<lparr>ad_transactions := update_where p (\<lambda>l. l\<lparr>lg_consumed_at := Some (mo_now at)\<rparr>) (ad_transactions db)\<rparr>))"

definition state_exists :: "AuthDb \<Rightarrow> string \<Rightarrow> bool" where
  "state_exists db state_hash = (0 < rows_affected (\<lambda>l. lg_state_hash l = state_hash) (ad_transactions db))"

definition is_control :: "char \<Rightarrow> bool" where
  "is_control c \<longleftrightarrow> (of_char c :: nat) < 32 \<or> 127 \<le> (of_char c :: nat) \<and> (of_char c :: nat) < 160"

definition redirect_paths :: "string list" where
  "redirect_paths = [''/'', ''/api/v1/me'', ''/auth/cli/verify'', ''/invitations/accept'']"

definition safe_redirect_target :: "string \<Rightarrow> string managed" where
  "safe_redirect_target raw =
     (if 2048 < length raw \<or> list_ex is_control raw \<or> CHR 0x5C \<in> set raw then Inl (InvalidInput ''unsafe redirect target'')
      else if takeWhile (\<lambda>c. c \<noteq> CHR ''?'') raw \<notin> set redirect_paths then Inl (InvalidInput ''unsafe redirect target'')
      else Inr raw)"

record Url =
  ur_scheme :: string
  ur_username :: string
  ur_password :: "string option"
  ur_host :: "string option"
  ur_path :: string
  ur_query :: "string option"
  ur_fragment :: "string option"

record Envelope =
  en_version :: int
  en_seal :: "string \<Rightarrow> string managed"
  en_open :: "string \<Rightarrow> string managed"

record AuthConfig =
  ac_client_id :: string
  ac_public_url :: string
  ac_cookie_secure :: bool
  ac_allow_loopback :: bool
  ac_master_key :: "string option"

definition validate_origin :: "(string \<Rightarrow> Url option) \<Rightarrow> AuthConfig \<Rightarrow> string + unit" where
  "validate_origin parse_url cfg =
     (case parse_url (ac_public_url cfg) of
        None \<Rightarrow> Inl ''invalid OPENFLOWS_PUBLIC_URL''
      | Some url \<Rightarrow>
          let loopback = is_some_and (ur_host url) (\<lambda>h. h = ''localhost'' \<or> h = ''127.0.0.1'' \<or> h = ''[::1]'') in
          if ur_username url \<noteq> '''' \<or> ur_password url \<noteq> None \<or> ur_query url \<noteq> None \<or> ur_fragment url \<noteq> None \<or>
             ur_path url \<noteq> ''/'' \<or> ur_host url = None
          then Inl ''OPENFLOWS_PUBLIC_URL must be an origin without credentials, path, query, or fragment''
          else if ur_scheme url \<noteq> ''https'' \<and> \<not> (ur_scheme url = ''http'' \<and> loopback \<and> ac_allow_loopback cfg)
          then Inl ''public origin requires HTTPS; HTTP requires explicit loopback development''
          else if \<not> ac_cookie_secure cfg \<and> \<not> (loopback \<and> ac_allow_loopback cfg)
          then Inl ''insecure cookies are permitted only for explicit loopback development''
          else Inr ())"

definition envelope_cipher :: "(string \<Rightarrow> string \<Rightarrow> int \<Rightarrow> Envelope) \<Rightarrow> AuthConfig \<Rightarrow> string \<Rightarrow> Envelope managed" where
  "envelope_cipher derive cfg purpose =
     (case ac_master_key cfg of
        None \<Rightarrow> Inl (Config ''envelope master key not resolved'')
      | Some key \<Rightarrow> Inr (derive key purpose 1))"

definition envelope_cipher_for_version :: "(string \<Rightarrow> string \<Rightarrow> int \<Rightarrow> Envelope) \<Rightarrow> AuthConfig \<Rightarrow> string \<Rightarrow> int \<Rightarrow> Envelope managed" where
  "envelope_cipher_for_version derive cfg purpose version =
     (if version \<noteq> 1 then Inl (api ''AUTH_FAILED'' ''unsupported key version for OAuth material'')
      else case ac_master_key cfg of
        None \<Rightarrow> Inl (Config ''envelope master key not resolved'')
      | Some key \<Rightarrow> Inr (derive key purpose version))"

record AuthorizeRequest =
  az_client_id :: string
  az_redirect_uri :: string
  az_state :: string
  az_code_challenge :: string

record GithubUser =
  gu_id :: int
  gu_login :: string
  gu_display_name :: "string option"

text \<open>GitHub, the cipher and the texts of JSON values: what the login service is built on.\<close>

record LoginWorld =
  lw_authorize_url :: "AuthorizeRequest \<Rightarrow> string"
  lw_exchange_code :: "string \<Rightarrow> string \<Rightarrow> string managed"
  lw_fetch_user :: "string \<Rightarrow> GithubUser managed"
  lw_derive :: "string \<Rightarrow> string \<Rightarrow> int \<Rightarrow> Envelope"
  lw_parse_url :: "string \<Rightarrow> Url option"
  lw_to_vec :: "json \<Rightarrow> string"
  lw_from_slice :: "string \<Rightarrow> json option"
  lw_challenge :: "string \<Rightarrow> string"

definition login_payload :: "string \<Rightarrow> string \<Rightarrow> json" where
  "login_payload verifier target = JObj [(''verifier'', JStr verifier), (''target'', JStr target)]"

definition login_start ::
  "(string \<Rightarrow> string) \<Rightarrow> LoginWorld \<Rightarrow> AuthConfig \<Rightarrow> string \<Rightarrow> string \<Rightarrow> string \<Rightarrow> instant \<Rightarrow> AuthDb \<Rightarrow> string \<Rightarrow> (string \<times> string) managed \<times> AuthDb" where
  "login_start hash_token w cfg i state verifier clk db next =
     (if blank (ac_client_id cfg) then (Inl (Config ''GitHub authentication is not configured''), db)
      else case validate_origin (lw_parse_url w) cfg of Inl e \<Rightarrow> (Inl (Config e), db) | Inr _ \<Rightarrow>
       (case and_then (safe_redirect_target next) (\<lambda>target.
              and_then (envelope_cipher (lw_derive w) cfg ''oauth_pkce'') (\<lambda>env.
              and_then (en_seal env (lw_to_vec w (login_payload verifier target))) (\<lambda>sealed. Inr (sealed, en_version env)))) of
          Inl e \<Rightarrow> (Inl e, db)
        | Inr (sealed, version) \<Rightarrow>
            proceed (create_login i clk db (hash_token state) sealed version) (\<lambda>_ db1.
              (Inr (lw_authorize_url w \<lparr>az_client_id = ac_client_id cfg, az_redirect_uri = ac_public_url cfg @ ''/auth/github/callback'',
                  az_state = state, az_code_challenge = lw_challenge w verifier\<rparr>, state), db1))))"

definition open_login :: "LoginWorld \<Rightarrow> AuthConfig \<Rightarrow> string \<Rightarrow> int \<Rightarrow> (string \<times> string) managed" where
  "open_login w cfg sealed version =
     and_then (envelope_cipher_for_version (lw_derive w) cfg ''oauth_pkce'' version) (\<lambda>env.
       case en_open env sealed of
         Inl _ \<Rightarrow> Inl (api ''AUTH_FAILED'' ''login verifier could not be decrypted'')
       | Inr bytes \<Rightarrow>
          (case lw_from_slice w bytes of
             None \<Rightarrow> Inl (api ''AUTH_FAILED'' ''login verifier invalid'')
           | Some payload \<Rightarrow>
              (case Option.bind (json_get payload ''verifier'') as_str of
                 None \<Rightarrow> Inl (api ''AUTH_FAILED'' ''login verifier invalid'')
               | Some verifier \<Rightarrow>
                  (case Option.bind (json_get payload ''target'') as_str of
                     None \<Rightarrow> Inl (api ''AUTH_FAILED'' ''login return path invalid'')
                   | Some target \<Rightarrow> Inr (verifier, target)))))"

text \<open>The callback after its transaction is consumed: exchange, user, session, recent authentication.\<close>

definition login_user ::
  "(string \<Rightarrow> string) \<Rightarrow> LoginWorld \<Rightarrow> SessionSeeds \<Rightarrow> string \<Rightarrow> (nat \<Rightarrow> AuthDb \<Rightarrow> AuthDb) \<Rightarrow> (nat \<Rightarrow> Moment) \<Rightarrow> AuthDb \<Rightarrow>
   string \<Rightarrow> string \<Rightarrow> string \<Rightarrow> (string \<times> string) managed \<times> AuthDb" where
  "login_user hash_token w seeds new_user others moment db code verifier target =
     (case and_then (lw_exchange_code w code verifier) (lw_fetch_user w) of
        Inl e \<Rightarrow> (Inl e, db)
      | Inr u \<Rightarrow>
          proceed (find_or_create_user new_user (others 1 db) ''github'' (show_int (gu_id u)) (gu_login u)
              (case gu_display_name u of None \<Rightarrow> gu_login u | Some n \<Rightarrow> n)) (\<lambda>(user, _) db1.
          proceed (create_browser_session hash_token seeds (mo_app (moment 2)) (mo_now (moment 2)) (others 2 db1) user) (\<lambda>creds db2.
            (and_then (safe_redirect_target target) (\<lambda>t. Inr (t, cr_access_token creds)),
             record_recent_auth (mo_now (moment 3)) (others 3 db2) (cr_session_id creds)))))"

definition login_callback ::
  "(string \<Rightarrow> string) \<Rightarrow> LoginWorld \<Rightarrow> AuthConfig \<Rightarrow> SessionSeeds \<Rightarrow> string \<Rightarrow> (nat \<Rightarrow> AuthDb \<Rightarrow> AuthDb) \<Rightarrow> (nat \<Rightarrow> Moment) \<Rightarrow> AuthDb \<Rightarrow>
   string \<Rightarrow> string \<Rightarrow> string \<Rightarrow> string \<Rightarrow> (string \<times> string) managed \<times> AuthDb" where
  "login_callback hash_token w cfg seeds new_user others moment db raw_state cookie_state code next =
     (case (if next = '''' then Inr '''' else safe_redirect_target next) of
        Inl e \<Rightarrow> (Inl e, db)
      | Inr _ \<Rightarrow>
          if raw_state \<noteq> cookie_state then (Inl (api ''AUTH_FAILED'' ''login state mismatch''), db)
          else (case consume_login (moment 0) (others 0 db) (hash_token raw_state) of
              (None, db1) \<Rightarrow> (Inl (api ''AUTH_FAILED'' ''login transaction invalid, expired, or already used''), db1)
            | (Some (_, sealed, version), db1) \<Rightarrow>
               (case open_login w cfg sealed version of
                  Inl e \<Rightarrow> (Inl e, db1)
                | Inr (verifier, target) \<Rightarrow> login_user hash_token w seeds new_user others moment db1 code verifier target)))"

end
