(* ===== verification/Auth_Routes.thy ===== *)
theory Auth_Routes
  imports Auth_Flows
begin

text \<open>
  The handlers of \<open>src/crates/openflows-manager/src/routes/auth.rs\<close> and \<open>routes/device.rs\<close>. \<open>up\<close> says whether the services are
  configured. What a handler answers is reduced to what it decides: the tokens, the cookies to set and the target of a
  redirect; statement \<open>n\<close> of a handler runs at \<open>moment n\<close> on what \<open>others n\<close> leaves.
\<close>

type_synonym others = "nat \<Rightarrow> AuthDb \<Rightarrow> AuthDb"

definition with_services :: "bool \<Rightarrow> 'd \<Rightarrow> 'a managed \<times> 'd \<Rightarrow> 'a managed \<times> 'd" where
  "with_services up db handled = (if up then handled else (Inl (api ''SERVICE_UNAVAILABLE'' ''service unavailable''), db))"

section \<open>GitHub login\<close>

definition START_LIMIT :: u32 where
  "START_LIMIT = 30"

definition REFRESH_LIMIT :: u32 where
  "REFRESH_LIMIT = 60"

datatype LoginRedirect = LocalRedirect string | GithubRedirect string string

definition github_start ::
  "(string \<Rightarrow> string) \<Rightarrow> (string \<Rightarrow> string) \<Rightarrow> LoginWorld \<Rightarrow> AuthConfig \<Rightarrow> string \<Rightarrow> string \<Rightarrow> string \<Rightarrow> instant option \<Rightarrow> others \<Rightarrow> (nat \<Rightarrow> Moment) \<Rightarrow>
   bool \<Rightarrow> bool \<Rightarrow> AuthDb \<Rightarrow> headers \<Rightarrow> string option \<Rightarrow> LoginRedirect managed \<times> AuthDb" where
  "github_start hash_token encode_next w cfg i state verifier sweep others moment connected_local up db headers next =
     (let target = case next of None \<Rightarrow> ''/api/v1/me'' | Some n \<Rightarrow> n in
      if connected_local
      then (and_then (safe_redirect_target target) (\<lambda>n. Inr (LocalRedirect (''/?'' @ encode_next n))), db)
      else with_services up db
        (proceed (limited hash_token (moment 0) sweep (others 0 db) headers GithubStart START_LIMIT ''too many login attempts'') (\<lambda>_ db1.
         proceed (login_start hash_token w cfg i state verifier (mo_clk (moment 1)) (others 1 db1) target) (\<lambda>(url, tx) db2.
           (Inr (GithubRedirect url (session_cookie_header TX_COOKIE tx (ac_cookie_secure cfg) 600)), db2)))))"

record LoginAnswer =
  la_location :: string
  la_set_cookies :: "string list"

definition github_callback ::
  "(string \<Rightarrow> string) \<Rightarrow> LoginWorld \<Rightarrow> AuthConfig \<Rightarrow> SessionSeeds \<Rightarrow> string \<Rightarrow> others \<Rightarrow> (nat \<Rightarrow> Moment) \<Rightarrow> bool \<Rightarrow> AuthDb \<Rightarrow> headers \<Rightarrow>
   string \<Rightarrow> string option \<Rightarrow> string option \<Rightarrow> string option \<Rightarrow> LoginAnswer managed \<times> AuthDb" where
  "github_callback hash_token w cfg seeds new_user others moment up db headers request_id code state next =
     with_services up db
       (case (code, state) of
          (Some c, Some s) \<Rightarrow>
            (case login_callback hash_token w cfg seeds new_user others moment db s
                (case parse_cookies headers TX_COOKIE of None \<Rightarrow> '''' | Some v \<Rightarrow> v) c (case next of None \<Rightarrow> '''' | Some n \<Rightarrow> n) of
               (Inl e, db1) \<Rightarrow>
                 (Inl e, auth_audit (mo_now (moment 4)) ''auth.login_failed'' None None AuditDenied (Some request_id) (others 4 db1))
             | (Inr (target, access_token), db1) \<Rightarrow>
                 (Inr \<lparr>la_location = target,
                    la_set_cookies = [session_cookie_header SESSION_COOKIE access_token (ac_cookie_secure cfg) (12 * 3600),
                      TX_COOKIE @ ''=; Path=/; HttpOnly; Max-Age=0'']\<rparr>, db1))
        | _ \<Rightarrow> (Inl (api ''AUTH_FAILED'' ''missing OAuth parameters''), db))"

section \<open>Sessions\<close>

record RefreshResponse =
  rr_access_token :: string
  rr_refresh_token :: string
  rr_expires_in :: int
  rr_refresh_expires_in :: int

text \<open>\<open>(until - now).num_seconds()\<close>, which truncates toward zero.\<close>

definition seconds_until :: "instant \<Rightarrow> instant \<Rightarrow> int" where
  "seconds_until app until = (if app \<le> until then int ((until - app) div 1000000) else - int ((app - until) div 1000000))"

definition refresh_route ::
  "(string \<Rightarrow> string) \<Rightarrow> SessionSeeds \<Rightarrow> instant option \<Rightarrow> others \<Rightarrow> (nat \<Rightarrow> Moment) \<Rightarrow> bool \<Rightarrow> AuthDb \<Rightarrow> headers \<Rightarrow> string \<Rightarrow> RefreshResponse managed \<times> AuthDb" where
  "refresh_route hash_token seeds sweep others moment up db headers refresh_token =
     with_services up db
       (proceed (limited hash_token (moment 0) sweep (others 0 db) headers Refresh REFRESH_LIMIT ''too many refresh attempts'') (\<lambda>_ db1.
        proceed (refresh_cli_session hash_token seeds (mo_app (moment 1)) (mo_now (moment 1)) (others 1 db1) (hash_token refresh_token)) (\<lambda>creds db2.
          (case creds of
             None \<Rightarrow> (Inl (retryable (api ''UNAUTHORIZED'' ''refresh credential is invalid, expired, or was reused'') False), db2)
           | Some c \<Rightarrow>
               (Inr \<lparr>rr_access_token = cr_access_token c, rr_refresh_token = cr_refresh_token c,
                  rr_expires_in = max 0 (seconds_until (mo_app (moment 2)) (cr_access_expires_at c)),
                  rr_refresh_expires_in = seconds_until (mo_app (moment 2)) (cr_refresh_expires_at c)\<rparr>, db2)))))"

definition revoke_if_valid :: "SessionPrincipal option \<Rightarrow> instant \<Rightarrow> AuthDb \<Rightarrow> AuthDb" where
  "revoke_if_valid who tnow db = (case who of None \<Rightarrow> db | Some p \<Rightarrow> snd (revoke_session tnow db (pr_session_id p)))"

definition logout_cookie ::
  "(string \<Rightarrow> string) \<Rightarrow> others \<Rightarrow> (nat \<Rightarrow> Moment) \<Rightarrow> AuthDb \<Rightarrow> headers \<Rightarrow> AuthDb" where
  "logout_cookie hash_token others moment db headers =
     (case parse_cookies headers SESSION_COOKIE of
        None \<Rightarrow> db
      | Some cookie \<Rightarrow>
          let db1 = others 1 db in
          revoke_if_valid (validate_browser_session (mo_now (moment 1)) (mo_clk (moment 1)) db1 (hash_token cookie)) (mo_now (moment 2)) (others 2 db1))"

definition logout_bearer ::
  "(string \<Rightarrow> string) \<Rightarrow> others \<Rightarrow> (nat \<Rightarrow> Moment) \<Rightarrow> AuthDb \<Rightarrow> headers \<Rightarrow> AuthDb" where
  "logout_bearer hash_token others moment db headers =
     (case bearer_token headers of
        None \<Rightarrow> db
      | Some bearer \<Rightarrow>
          let db1 = others 3 db in
          revoke_if_valid (validate_cli_session (mo_now (moment 3)) (mo_clk (moment 3)) db1 (hash_token bearer)) (mo_now (moment 4)) (others 4 db1))"

definition logout ::
  "(string \<Rightarrow> string) \<Rightarrow> others \<Rightarrow> (nat \<Rightarrow> Moment) \<Rightarrow> bool \<Rightarrow> AuthDb \<Rightarrow> headers \<Rightarrow> string managed \<times> AuthDb" where
  "logout hash_token others moment up db headers =
     with_services up db
       (let db0 = others 0 db in
        case and_then (authenticated_user hash_token (mo_now (moment 0)) (mo_clk (moment 0)) db0 headers)
               (\<lambda>who. require_csrf_for_browser hash_token who headers) of
          Inl e \<Rightarrow> (Inl e, db0)
        | Inr _ \<Rightarrow>
            (Inr (SESSION_COOKIE @ ''=; Path=/; HttpOnly; Max-Age=0''),
             logout_bearer hash_token others moment (logout_cookie hash_token others moment db0 headers) headers))"

definition me_user :: "(string \<Rightarrow> string) \<Rightarrow> Moment \<Rightarrow> bool \<Rightarrow> AuthDb \<Rightarrow> headers \<Rightarrow> string managed" where
  "me_user hash_token at up db headers =
     (if \<not> up then Inl (api ''SERVICE_UNAVAILABLE'' ''service unavailable'')
      else case parse_cookies headers SESSION_COOKIE of
        Some cookie \<Rightarrow>
          (case validate_browser_session (mo_now at) (mo_clk at) db (hash_token cookie) of
             None \<Rightarrow> Inl (api ''UNAUTHORIZED'' ''session is invalid or expired'')
           | Some p \<Rightarrow> Inr (pr_user_id p))
      | None \<Rightarrow>
          (case bearer_token headers of
             Some bearer \<Rightarrow>
               (case validate_cli_session (mo_now at) (mo_clk at) db (hash_token bearer) of
                  None \<Rightarrow> Inl (api ''UNAUTHORIZED'' ''access token is invalid or expired'')
                | Some p \<Rightarrow> Inr (pr_user_id p))
           | None \<Rightarrow> Inl (api ''UNAUTHORIZED'' ''authentication required'')))"

definition csrf_token ::
  "(string \<Rightarrow> string) \<Rightarrow> Moment \<Rightarrow> AuthConfig \<Rightarrow> bool \<Rightarrow> AuthDb \<Rightarrow> headers \<Rightarrow> (string \<times> string) managed" where
  "csrf_token hash_token at cfg up db headers =
     (if \<not> up then Inl (api ''SERVICE_UNAVAILABLE'' ''service unavailable'')
      else and_then (authenticated_user hash_token (mo_now at) (mo_clk at) db headers) (\<lambda>who.
        if \<not> ap_is_browser who then Inl (api ''UNAUTHORIZED'' ''browser session required'')
        else let token = csrf_for_session hash_token (the (parse_cookies headers SESSION_COOKIE)) in
          Inr (token, session_cookie_header CSRF_COOKIE token (ac_cookie_secure cfg) (12 * 3600))))"

section \<open>Approval of a command line client\<close>

definition DEVICE_START_LIMIT :: u32 where
  "DEVICE_START_LIMIT = 20"

definition VERIFY_LIMIT :: u32 where
  "VERIFY_LIMIT = 20"

definition POLL_LIMIT :: u32 where
  "POLL_LIMIT = 120"

definition device_start ::
  "(string \<Rightarrow> string) \<Rightarrow> string \<Rightarrow> string \<Rightarrow> string \<Rightarrow> nat list \<Rightarrow> instant option \<Rightarrow> others \<Rightarrow> (nat \<Rightarrow> Moment) \<Rightarrow> bool \<Rightarrow> AuthDb \<Rightarrow> headers \<Rightarrow>
   DeviceRequest managed \<times> AuthDb" where
  "device_start hash_token public_url i secret picks sweep others moment up db headers =
     with_services up db
       (proceed (limited hash_token (moment 0) sweep (others 0 db) headers DeviceStart DEVICE_START_LIMIT ''too many device start requests'') (\<lambda>_ db1.
          device_start_request hash_token public_url i secret picks (mo_clk (moment 1)) (others 1 db1)))"

text \<open>Which page \<open>GET /auth/cli/verify\<close> shows (the approval form or the sign-in link) and the CSRF token it carries.\<close>

definition device_verify_page ::
  "(string \<Rightarrow> string) \<Rightarrow> (nat \<Rightarrow> Moment) \<Rightarrow> bool \<Rightarrow> AuthDb \<Rightarrow> AuthDb \<Rightarrow> headers \<Rightarrow> (bool \<times> string) managed" where
  "device_verify_page hash_token moment up db later headers =
     (if \<not> up then Inl (api ''SERVICE_UNAVAILABLE'' ''service unavailable'')
      else case parse_cookies headers SESSION_COOKIE of
        None \<Rightarrow> Inr (False, '''')
      | Some cookie \<Rightarrow>
          Inr (case validate_browser_session (mo_now (moment 0)) (mo_clk (moment 0)) db (hash_token cookie) of
                 None \<Rightarrow> False
               | Some p \<Rightarrow> (case has_recent_auth (mo_app (moment 1)) later (pr_session_id p) of None \<Rightarrow> False | Some b \<Rightarrow> b),
               csrf_for_session hash_token cookie))"

text \<open>The time of a fresh authentication of an open session.\<close>

definition recent_authentication :: "instant \<Rightarrow> AuthDb \<Rightarrow> string \<Rightarrow> instant option" where
  "recent_authentication clk db session =
     Option.bind (List.find (\<lambda>s. ss_id s = session \<and> ss_revoked_at s = None \<and>
         is_some_and (ss_last_authenticated_at s) (\<lambda>t. clk < t + seconds 600)) (ad_sessions db)) ss_last_authenticated_at"

definition presented_csrf :: "headers \<Rightarrow> string \<Rightarrow> string" where
  "presented_csrf headers form_csrf =
     (let header_csrf = case header_get headers CSRF_HEADER of None \<Rightarrow> '''' | Some v \<Rightarrow> v in
      if header_csrf \<noteq> '''' then header_csrf else form_csrf)"

definition device_approve ::
  "(string \<Rightarrow> string) \<Rightarrow> instant option \<Rightarrow> others \<Rightarrow> (nat \<Rightarrow> Moment) \<Rightarrow> bool \<Rightarrow> AuthDb \<Rightarrow> headers \<Rightarrow> string \<Rightarrow> string \<Rightarrow> unit managed \<times> AuthDb" where
  "device_approve hash_token sweep others moment up db headers code form_csrf =
     with_services up db
       (let cookie_csrf = case parse_cookies headers CSRF_COOKIE of None \<Rightarrow> '''' | Some c \<Rightarrow> c;
            presented = presented_csrf headers form_csrf in
        case and_then (csrf_validate presented cookie_csrf) (\<lambda>_. csrf_validate_session hash_token headers presented) of
          Inl e \<Rightarrow> (Inl e, db)
        | Inr _ \<Rightarrow>
            proceed (limited hash_token (moment 0) sweep (others 0 db) headers Verify VERIFY_LIMIT ''too many verification attempts'') (\<lambda>_ db1.
              case parse_cookies headers SESSION_COOKIE of
                None \<Rightarrow> (Inl (api ''UNAUTHORIZED'' ''sign in required to approve''), db1)
              | Some cookie \<Rightarrow>
                  let db2 = others 1 db1 in
                  (case validate_browser_session (mo_now (moment 1)) (mo_clk (moment 1)) db2 (hash_token cookie) of
                     None \<Rightarrow> (Inl (api ''UNAUTHORIZED'' ''session invalid or expired''), db2)
                   | Some p \<Rightarrow>
                       let db3 = others 2 db2 in
                       (case recent_authentication (mo_clk (moment 2)) db3 (pr_session_id p) of
                          None \<Rightarrow> (Inl (api ''REAUTH_REQUIRED'' ''sign in again at /auth/github/start before approving the CLI''), db3)
                        | Some authenticated_at \<Rightarrow>
                            approve_authenticated hash_token (mo_now (moment 3)) (others 3 db3) code (pr_user_id p) authenticated_at))))"

record TokenResponse =
  tr_status :: string
  tr_access_token :: "string option"
  tr_refresh_token :: "string option"
  tr_expires_in :: "int option"

definition no_token :: "string \<Rightarrow> TokenResponse" where
  "no_token status = \<lparr>tr_status = status, tr_access_token = None, tr_refresh_token = None, tr_expires_in = None\<rparr>"

primrec token_response :: "Poll \<Rightarrow> TokenResponse" where
  "token_response PollPending = no_token ''authorization_pending''"
| "token_response PollExpired = no_token ''expired_token''"
| "token_response PollDenied = no_token ''access_denied''"
| "token_response (PollCredentials creds) =
     \<lparr>tr_status = ''authorized'', tr_access_token = Some (cr_access_token creds), tr_refresh_token = Some (cr_refresh_token creds),
      tr_expires_in = Some (15 * 60)\<rparr>"

definition device_token ::
  "(string \<Rightarrow> string) \<Rightarrow> SessionSeeds \<Rightarrow> instant option \<Rightarrow> others \<Rightarrow> (nat \<Rightarrow> Moment) \<Rightarrow> bool \<Rightarrow> AuthDb \<Rightarrow> headers \<Rightarrow> string \<Rightarrow> TokenResponse managed \<times> AuthDb" where
  "device_token hash_token seeds sweep others moment up db headers device_code =
     with_services up db
       (proceed (limited hash_token (moment 0) sweep (others 0 db) headers Poll POLL_LIMIT ''too many polling requests'') (\<lambda>_ db1.
        proceed (poll_device hash_token seeds (moment 1) (others 1 db1) device_code) (\<lambda>polled db2. (Inr (token_response polled), db2))))"

end
