(* ===== verification/Table_Growth.thy ===== *)
theory Table_Growth
  imports Manager_Base
begin

text \<open>
  How a table without deletions evolves in a run, for the transition systems over the Manager's tables.
\<close>

text \<open>Rows stay in place and keep what identifies them; new rows are appended.\<close>

definition grows :: "('r \<Rightarrow> 'r \<Rightarrow> bool) \<Rightarrow> ('r \<Rightarrow> bool) \<Rightarrow> 'r list \<Rightarrow> 'r list \<Rightarrow> bool" where
  "grows kept fresh rows rows' \<longleftrightarrow> (\<exists>old new. rows' = old @ new \<and> list_all2 kept rows old \<and> list_all fresh new)"

lemma grows_refl: "(\<And>r. kept r r) \<Longrightarrow> grows kept fresh rows rows"
  unfolding grows_def by (rule exI [of _ rows], rule exI [of _ "[]"]) (simp add: list_all2_refl)

lemma grows_trans:
  assumes ab: "grows kept fresh a b" and bc: "grows kept fresh b c"
    and t: "\<And>x y z. kept x y \<Longrightarrow> kept y z \<Longrightarrow> kept x z" and n: "\<And>x y. fresh x \<Longrightarrow> kept x y \<Longrightarrow> fresh y"
  shows "grows kept fresh a c"
proof -
  obtain o1 n1 where b: "b = o1 @ n1" "list_all2 kept a o1" "list_all fresh n1" using ab by (auto simp: grows_def)
  obtain o2 n2 where c: "c = o2 @ n2" "list_all2 kept (o1 @ n1) o2" "list_all fresh n2" using bc b(1) by (auto simp: grows_def)
  then obtain p q where pq: "o2 = p @ q" "list_all2 kept o1 p" "list_all2 kept n1 q"
    by (auto simp: list_all2_append1)
  have "list_all fresh q" using pq(3) b(3) n by (force simp: list_all2_conv_all_nth list_all_length)
  moreover have "list_all2 kept a p" using t by (rule list_all2_trans [OF _ b(2) pq(2)])
  ultimately show ?thesis unfolding grows_def using c(1,3) pq(1) by (intro exI [of _ p] exI [of _ "q @ n2"]) simp
qed

lemma grows_update: "(\<And>r. kept r r) \<Longrightarrow> (\<And>r. r \<in> set rows \<Longrightarrow> p r \<Longrightarrow> kept r (f r)) \<Longrightarrow> grows kept fresh rows (update_where p f rows)"
  unfolding grows_def update_where_def
  by (rule exI [of _ "map (\<lambda>r. if p r then f r else r) rows"], rule exI [of _ "[]"]) (simp add: list_all2_map2 list.rel_refl_strong)

lemma grows_append: "(\<And>r. kept r r) \<Longrightarrow> fresh r \<Longrightarrow> grows kept fresh rows (rows @ [r])"
  unfolding grows_def by (rule exI [of _ rows], rule exI [of _ "[r]"]) (simp add: list_all2_refl)

lemma list_all2_related:
  "list_all2 q xs ys \<Longrightarrow> y \<in> set ys \<Longrightarrow> \<exists>x \<in> set xs. q x y" "list_all2 q xs ys \<Longrightarrow> x \<in> set xs \<Longrightarrow> \<exists>y \<in> set ys. q x y"
  by (induction rule: list_all2_induct) auto

lemma grows_source: "grows kept fresh rows rows' \<Longrightarrow> r' \<in> set rows' \<Longrightarrow> fresh r' \<or> (\<exists>r \<in> set rows. kept r r')"
  using list_all2_related(1) by (fastforce simp: grows_def list_all_iff)

lemma grows_image: "grows kept fresh rows rows' \<Longrightarrow> r \<in> set rows \<Longrightarrow> \<exists>r' \<in> set rows'. kept r r'"
  using list_all2_related(2) by (fastforce simp: grows_def)

end
