(* ===== verification/Auth_System.thy ===== *)
theory Auth_System
  imports Auth_Routes Reachability Table_Growth
begin

text \<open>
  Users' sessions as a transition system: one step is one transaction of the session, login or device service or
  of the rate limiter, by any instance of the Manager; the tables of the organizations, with the status of the users,
  may change in any way between them. \<open>taken\<close> is a set of identifiers: no session created in the run has its own or its
  family's identifier in it.
\<close>

section \<open>Steps\<close>

definition new_seeds :: "string set \<Rightarrow> SessionSeeds \<Rightarrow> bool" where
  "new_seeds taken seeds \<longleftrightarrow> sd_session_id seeds \<notin> taken \<and> sd_family_id seeds \<notin> taken"

inductive auth_step :: "(string \<Rightarrow> string) \<Rightarrow> string set \<Rightarrow> AuthDb \<Rightarrow> unit \<Rightarrow> AuthDb \<Rightarrow> bool"
  for hash_token taken where
  s_user: "find_or_create_user u db provider subject login name = (ru, db') \<Longrightarrow> auth_step hash_token taken db () db'"
| s_browser: "create_browser_session hash_token seeds app tnow db user = (rc, db') \<Longrightarrow> new_seeds taken seeds \<Longrightarrow> auth_step hash_token taken db () db'"
| s_cli: "create_cli_session hash_token seeds app tnow db user = (rc, db') \<Longrightarrow> new_seeds taken seeds \<Longrightarrow> auth_step hash_token taken db () db'"
| s_refresh: "refresh_cli_session hash_token seeds app tnow db h = (rr, db') \<Longrightarrow> auth_step hash_token taken db () db'"
| s_revoke: "revoke_session tnow db i = (b, db') \<Longrightarrow> auth_step hash_token taken db () db'"
| s_revoke_all: "auth_step hash_token taken db () (revoke_all_for_user tnow db user)"
| s_recent: "auth_step hash_token taken db () (record_recent_auth tnow db i)"
| s_start_device: "device_start_request hash_token url i secret picks clk db = (rd, db') \<Longrightarrow> auth_step hash_token taken db () db'"
| s_approve: "approve_authenticated hash_token tnow db code user t = (ra, db') \<Longrightarrow> auth_step hash_token taken db () db'"
| s_poll: "poll_device hash_token seeds at db secret = (rp, db') \<Longrightarrow> new_seeds taken seeds \<Longrightarrow> auth_step hash_token taken db () db'"
| s_create_login: "create_login i clk db h sealed v = (rl, db') \<Longrightarrow> auth_step hash_token taken db () db'"
| s_consume_login: "consume_login at db h = (rl, db') \<Longrightarrow> auth_step hash_token taken db () db'"
| s_environment: "ad_sessions db' = ad_sessions db \<Longrightarrow> ad_refresh_history db' = ad_refresh_history db \<Longrightarrow>
    ad_transactions db' = ad_transactions db \<Longrightarrow> ad_devices db' = ad_devices db \<Longrightarrow> auth_step hash_token taken db () db'"

definition auth_start :: "AuthDb \<Rightarrow> bool" where
  "auth_start db \<longleftrightarrow> ad_sessions db = [] \<and> ad_refresh_history db = [] \<and> ad_transactions db = [] \<and> ad_devices db = []"

abbreviation auth_reach :: "(string \<Rightarrow> string) \<Rightarrow> AuthDb \<Rightarrow> bool" where
  "auth_reach hash_token \<equiv> reach auth_start (auth_step hash_token {})"

abbreviation auth_run :: "(string \<Rightarrow> string) \<Rightarrow> string set \<Rightarrow> AuthDb \<Rightarrow> AuthDb \<Rightarrow> bool" where
  "auth_run hash_token taken db \<equiv> reach (\<lambda>x. x = db) (auth_step hash_token taken)"

section \<open>How the tables evolve\<close>

text \<open>What a session, a login transaction and a device request keep.\<close>

definition session_kept :: "SessionRow \<Rightarrow> SessionRow \<Rightarrow> bool" where
  "session_kept s s' \<longleftrightarrow> ss_id s' = ss_id s \<and> ss_user_id s' = ss_user_id s \<and> ss_kind s' = ss_kind s \<and> ss_family_id s' = ss_family_id s \<and>
     ss_created_at s' = ss_created_at s \<and> (ss_revoked_at s \<noteq> None \<longrightarrow> ss_revoked_at s' \<noteq> None)"

definition session_fresh :: "string set \<Rightarrow> SessionRow \<Rightarrow> bool" where
  "session_fresh taken s \<longleftrightarrow> ss_id s \<notin> taken \<and> ss_family_id s \<notin> taken"

definition login_kept :: "LoginRow \<Rightarrow> LoginRow \<Rightarrow> bool" where
  "login_kept l l' \<longleftrightarrow> (\<exists>c. l' = l\<lparr>lg_consumed_at := c\<rparr> \<and> (lg_consumed_at l \<noteq> None \<longrightarrow> c \<noteq> None))"

definition device_kept :: "DeviceRow \<Rightarrow> DeviceRow \<Rightarrow> bool" where
  "device_kept d d' \<longleftrightarrow> dv_id d' = dv_id d \<and> dv_device_secret_hash d' = dv_device_secret_hash d \<and> dv_user_code_hash d' = dv_user_code_hash d \<and>
     dv_expires_at d' = dv_expires_at d \<and>
     (dv_status d \<noteq> ''pending'' \<longrightarrow> dv_status d' \<noteq> ''pending'' \<and> dv_approved_user_id d' = dv_approved_user_id d \<and>
        dv_approved_authenticated_at d' = dv_approved_authenticated_at d) \<and>
     (dv_status d = ''consumed'' \<longrightarrow> dv_status d' = ''consumed'')"

definition auth_evolves :: "string set \<Rightarrow> AuthDb \<Rightarrow> AuthDb \<Rightarrow> bool" where
  "auth_evolves taken db db' \<longleftrightarrow> grows session_kept (session_fresh taken) (ad_sessions db) (ad_sessions db') \<and>
     grows login_kept (\<lambda>_. True) (ad_transactions db) (ad_transactions db') \<and>
     grows device_kept (\<lambda>_. True) (ad_devices db) (ad_devices db') \<and> prefix (ad_refresh_history db) (ad_refresh_history db')"

text \<open>The unique columns.\<close>

definition auth_keys :: "AuthDb \<Rightarrow> bool" where
  "auth_keys db \<longleftrightarrow> distinct (map ss_id (ad_sessions db)) \<and> distinct (map ss_access_hash (ad_sessions db)) \<and>
     distinct (map ss_refresh_hash (ad_sessions db)) \<and> distinct (map lg_state_hash (ad_transactions db)) \<and>
     distinct (map dv_device_secret_hash (ad_devices db)) \<and> distinct (map dv_user_code_hash (ad_devices db))"

lemma kept_refl [simp]: "session_kept s s" "login_kept l l" "device_kept d d"
  by (auto simp: session_kept_def login_kept_def device_kept_def intro: exI [of _ "lg_consumed_at l"])

lemma kept_trans:
  "session_kept a b \<Longrightarrow> session_kept b c \<Longrightarrow> session_kept a c" "login_kept l m \<Longrightarrow> login_kept m n \<Longrightarrow> login_kept l n"
  "device_kept d e \<Longrightarrow> device_kept e f \<Longrightarrow> device_kept d f"
  by (auto simp: session_kept_def login_kept_def device_kept_def)

lemma kept_fresh: "session_fresh taken s \<Longrightarrow> session_kept s s' \<Longrightarrow> session_fresh taken s'"
  by (simp add: session_fresh_def session_kept_def)

lemma auth_evolves_refl [simp]: "auth_evolves taken db db"
  by (simp add: auth_evolves_def grows_refl)

lemma auth_evolves_trans: "auth_evolves taken a b \<Longrightarrow> auth_evolves taken b c \<Longrightarrow> auth_evolves taken a c"
  unfolding auth_evolves_def
  by (blast intro: grows_trans kept_trans kept_fresh prefix_order.trans)


section \<open>Every step\<close>

text \<open>\<open>good\<close> is what a step has to keep: the evolution of the rows and the unique columns.\<close>

definition good :: "string set \<Rightarrow> AuthDb \<Rightarrow> AuthDb \<Rightarrow> bool" where
  "good taken db db' \<longleftrightarrow> auth_evolves taken db db' \<and> (auth_keys db \<longrightarrow> auth_keys db')"

lemma good_refl [simp]: "good taken db db"
  by (simp add: good_def)

lemma good_trans: "good taken a b \<Longrightarrow> good taken b c \<Longrightarrow> good taken a c"
  using auth_evolves_trans by (auto simp: good_def)

lemma same_tables_good:
  assumes "ad_sessions db' = ad_sessions db" "ad_refresh_history db' = ad_refresh_history db"
    "ad_transactions db' = ad_transactions db" "ad_devices db' = ad_devices db"
  shows "good taken db db'"
  using assms by (simp add: good_def auth_evolves_def auth_keys_def grows_refl)

lemma good_audit [simp]: "good taken db (auth_audit t a b c d e db') \<longleftrightarrow> good taken db db'"
  by (simp add: good_def auth_evolves_def auth_keys_def)

text \<open>Updates that keep the unique columns.\<close>

lemma sessions_update_good:
  assumes "\<And>s. session_kept s (f s)" "\<And>s. ss_access_hash (f s) = ss_access_hash s" "\<And>s. ss_refresh_hash (f s) = ss_refresh_hash s"
  shows "good taken db (db\<lparr>ad_sessions := update_where p f (ad_sessions db)\<rparr>)"
proof -
  have "ss_id (f s) = ss_id s" for s using assms(1) by (simp add: session_kept_def)
  with assms show ?thesis
    by (simp add: good_def auth_evolves_def auth_keys_def grows_refl grows_update map_update_where)
qed

lemma sessions_revoke_good: "good taken db (db\<lparr>ad_sessions := update_where p (\<lambda>s. s\<lparr>ss_revoked_at := Some t\<rparr>) (ad_sessions db)\<rparr>)"
  by (rule sessions_update_good) (simp_all add: session_kept_def)

lemma devices_update_good:
  assumes "\<And>d. d \<in> set (ad_devices db) \<Longrightarrow> p d \<Longrightarrow> device_kept d (f d)" and "\<And>d. dv_device_secret_hash (f d) = dv_device_secret_hash d"
    and "\<And>d. dv_user_code_hash (f d) = dv_user_code_hash d"
  shows "good taken db (db\<lparr>ad_devices := update_where p f (ad_devices db)\<rparr>)"
  using assms by (simp add: good_def auth_evolves_def auth_keys_def grows_refl grows_update map_update_where)

lemma insert_session_row_good:
  assumes "insert_session_row row db = Inr (u, db')" and "session_fresh taken row"
  shows "good taken db db'"
  using assms by (auto simp: insert_session_row_def good_def auth_evolves_def auth_keys_def grows_refl grows_append list_ex_iff
      split: if_splits; metis)

text \<open>The two ways a session is inserted, as rows.\<close>

lemma insert_user_session_Inr:
  assumes "insert_user_session i user kind family ah ae rh re app tnow db = Inr (u, db')"
  obtains row db1 where "insert_session_row row db = Inr ((), db1)" and "db' = auth_audit tnow ''auth.session_created'' (Some user)
      (Some (''session'', i)) AuditSuccess None db1" and "ss_id row = i" and "ss_family_id row = family" and "ss_user_id row = user"
    and "ss_kind row = kind" and "ss_created_at row = tnow" and "ss_access_hash row = ah" and "ss_refresh_hash row = rh"
    and "ss_access_expires_at row = ae" and "ss_revoked_at row = None"
  using assms by (auto simp: insert_user_session_def and_then_Inr)

lemma create_cli_session_in_tx_Inr:
  assumes "create_cli_session_in_tx hash_token seeds app tnow clk db user = Inr (c, db')"
  obtains row db1 where "insert_session_row row db = Inr ((), db1)" and "db' = auth_audit tnow ''auth.cli_session_created'' (Some user)
      (Some (''session'', sd_session_id seeds)) AuditSuccess None db1" and "ss_id row = sd_session_id seeds" and "ss_family_id row = sd_family_id seeds"
    and "ss_user_id row = user" and "ss_kind row = ''cli''" and "c = credentials_of seeds (app + ACCESS_LIFETIME) (app + REFRESH_LIFETIME)"
    and "ss_created_at row = tnow" and "ss_revoked_at row = None"
  using assms by (auto simp: create_cli_session_in_tx_def and_then_Inr)

lemma create_session_good:
  assumes "create_session kind life refresh_life hash_token seeds app tnow db user = (r, db')" and "new_seeds taken seeds"
  shows "good taken db db'"
  using assms(1) unfolding create_session_def
proof (cases rule: transact_cases)
  case (commit v)
  then show ?thesis using assms(2) insert_session_row_good
    by (auto simp: and_then_Inr new_seeds_def session_fresh_def elim!: insert_user_session_Inr)
qed simp

lemma create_cli_session_in_tx_good:
  assumes "create_cli_session_in_tx hash_token seeds app tnow clk db user = Inr (c, db')" and "new_seeds taken seeds"
  shows "good taken db db'"
  using assms insert_session_row_good
  by (auto simp: new_seeds_def session_fresh_def elim!: create_cli_session_in_tx_Inr)

lemma rotate_session_good:
  assumes "rotate_session i ah ae rh re tnow db = Inr (u, db')"
  shows "good taken db db'"
proof -
  let ?f = "\<lambda>s. s\<lparr>ss_access_hash := ah, ss_access_expires_at := ae, ss_refresh_hash := rh, ss_refresh_expires_at := re, ss_last_used_at := Some tnow\<rparr>"
  have db': "db' = db\<lparr>ad_sessions := update_where (\<lambda>s. ss_id s = i) ?f (ad_sessions db)\<rparr>"
    and other: "\<And>s. s \<in> set (ad_sessions db) \<Longrightarrow> ss_id s \<noteq> i \<Longrightarrow> ss_access_hash s \<noteq> ah \<and> ss_refresh_hash s \<noteq> rh"
    using assms by (auto simp: rotate_session_def list_ex_iff split: if_splits)
  have "auth_keys db'" if "auth_keys db"
    using that other by (auto simp: db' auth_keys_def update_where_def distinct_map inj_on_def)
  moreover have "auth_evolves taken db db'"
    by (simp add: db' auth_evolves_def grows_refl grows_update session_kept_def)
  ultimately show ?thesis by (simp add: good_def)
qed


definition history_with :: "string \<Rightarrow> instant \<Rightarrow> SessionRow \<Rightarrow> AuthDb \<Rightarrow> AuthDb" where
  "history_with h tnow s db = db\<lparr>ad_refresh_history := ad_refresh_history db @ [\<lparr>rf_refresh_hash = h, rf_family_id = ss_family_id s,
     rf_consumed_at = tnow, rf_expires_at = ss_created_at s + REFRESH_LIFETIME\<rparr>]\<rparr>"

lemma refresh_cases:
  assumes "refresh_cli_session hash_token seeds app tnow db h = (r, db')"
  obtains (failed) e where "r = Inl e" and "db' = db"
    | (reused) used where "List.find (\<lambda>x. rf_refresh_hash x = h) (ad_refresh_history db) = Some used" and "r = Inr None"
        and "db' = auth_audit tnow ''auth.refresh_reuse'' None (Some (''session_family'', rf_family_id used)) AuditDenied None
          (revoke_family_in_tx tnow (rf_family_id used) db)"
    | (refused) "List.find (\<lambda>x. rf_refresh_hash x = h) (ad_refresh_history db) = None" and "r = Inr None" and "db' = db"
    | (rotated) s db2 where "List.find (\<lambda>x. rf_refresh_hash x = h) (ad_refresh_history db) = None"
        and "List.find (refreshable db h) (ad_sessions db) = Some s" and "app < ss_refresh_expires_at s" and "app < ss_created_at s + REFRESH_LIFETIME"
        and "rotate_session (ss_id s) (hash_token (sd_access seeds)) (min (app + ACCESS_LIFETIME) (ss_created_at s + REFRESH_LIFETIME))
          (hash_token (sd_refresh seeds)) (min (app + REFRESH_LIFETIME) (ss_created_at s + REFRESH_LIFETIME)) tnow (history_with h tnow s db) = Inr ((), db2)"
        and "r = Inr (Some \<lparr>cr_session_id = ss_id s, cr_family_id = ss_family_id s, cr_access_token = sd_access seeds, cr_refresh_token = sd_refresh seeds,
          cr_access_expires_at = min (app + ACCESS_LIFETIME) (ss_created_at s + REFRESH_LIFETIME),
          cr_refresh_expires_at = min (app + REFRESH_LIFETIME) (ss_created_at s + REFRESH_LIFETIME)\<rparr>)"
        and "db' = auth_audit tnow ''auth.refresh_rotated'' (Some (ss_user_id s)) (Some (''session'', ss_id s)) AuditSuccess None db2"
proof (cases "List.find (\<lambda>x. rf_refresh_hash x = h) (ad_refresh_history db)")
  case (Some used)
  show ?thesis by (rule reused [OF Some]) (use assms in \<open>simp_all add: refresh_cli_session_def Some\<close>)
next
  case None
  note unused = None
  show ?thesis
  proof (cases "List.find (refreshable db h) (ad_sessions db)")
    case None
    show ?thesis by (rule refused [OF unused]) (use assms in \<open>simp_all add: refresh_cli_session_def unused None\<close>)
  next
    case (Some s)
    let ?rotate = "rotate_session (ss_id s) (hash_token (sd_access seeds)) (min (app + ACCESS_LIFETIME) (ss_created_at s + REFRESH_LIFETIME))
          (hash_token (sd_refresh seeds)) (min (app + REFRESH_LIFETIME) (ss_created_at s + REFRESH_LIFETIME)) tnow (history_with h tnow s db)"
    show ?thesis
    proof (cases "ss_refresh_expires_at s \<le> app \<or> ss_created_at s + REFRESH_LIFETIME \<le> app")
      case True
      show ?thesis by (rule refused [OF unused]) (use assms in \<open>simp_all add: refresh_cli_session_def Let_def unused Some True\<close>)
    next
      case False
      show ?thesis
      proof (cases ?rotate)
        case (Inl e)
        have "r = Inl e \<and> db' = db"
          using assms by (simp add: refresh_cli_session_def Let_def unused Some False Inl [unfolded history_with_def])
        then show ?thesis using failed by blast
      next
        case (Inr x)
        then obtain db2 where db2: "?rotate = Inr ((), db2)" by (cases x) simp
        show ?thesis
          by (rule rotated [OF unused Some _ _ db2])
            (use assms False in \<open>simp_all add: refresh_cli_session_def Let_def unused Some db2 [unfolded history_with_def]\<close>)
      qed
    qed
  qed
qed

lemma refresh_good:
  assumes "refresh_cli_session hash_token seeds app tnow db h = (r, db')"
  shows "good taken db db'"
  using assms
proof (cases rule: refresh_cases)
  case (reused used)
  then show ?thesis by (simp add: revoke_family_in_tx_def sessions_revoke_good)
next
  case (rotated s db2)
  have "good taken db (history_with h tnow s db)"
    by (simp add: history_with_def good_def auth_evolves_def auth_keys_def grows_refl)
  then show ?thesis using rotated(7) rotate_session_good [OF rotated(5)] good_trans by auto
qed simp_all

lemma revoke_good: "revoke_session tnow db i = (b, db') \<Longrightarrow> good taken db db'"
  using sessions_revoke_good by (auto simp: revoke_session_def Let_def split: option.splits)

lemma device_start_good: "device_start_request hash_token url i secret picks clk db = (r, db') \<Longrightarrow> good taken db db'"
  by (auto simp: device_start_request_def Let_def good_def auth_evolves_def auth_keys_def grows_refl grows_append list_ex_iff
      split: if_splits; metis)

lemma approve_good: "approve_authenticated hash_token tnow db code user t = (r, db') \<Longrightarrow> good taken db db'"
  by (auto simp: approve_authenticated_def Let_def approvable_def device_kept_def split: if_splits intro!: devices_update_good)

lemma login_consumed [simp]: "login_kept l (l\<lparr>lg_consumed_at := Some t\<rparr>)"
  unfolding login_kept_def by (rule exI [of _ "Some t"]) simp

lemma login_good:
  "create_login i clk db h sealed v = (rl, db') \<Longrightarrow> good taken db db'" "consume_login at db h = (rc, db') \<Longrightarrow> good taken db db'"
  by (auto simp: create_login_def consume_login_def Let_def good_def auth_evolves_def auth_keys_def grows_refl grows_append list_ex_iff
      map_update_where split: if_splits intro!: grows_update)


lemma deliver_good:
  assumes "deliver hash_token seeds at db h user t = Inr (p, db')" and "new_seeds taken seeds"
  shows "good taken db db'"
proof (cases p)
  case (PollCredentials c)
  let ?p = "\<lambda>d. dv_device_secret_hash d = h \<and> dv_status d = ''approved''"
  obtain db1 where db1: "create_cli_session_in_tx hash_token seeds (mo_app at) (mo_now at) (mo_clk at)
        (set_device ?p (\<lambda>d. d\<lparr>dv_status := ''consumed''\<rparr>) db) user = Inr (c, db1)"
      "db' = db1\<lparr>ad_sessions := update_where (\<lambda>s. ss_id s = cr_session_id c) (\<lambda>s. s\<lparr>ss_last_authenticated_at := Some t\<rparr>) (ad_sessions db1)\<rparr>"
    using assms(1) PollCredentials by (auto simp: deliver_def Let_def and_then_Inr split: if_splits)
  have "good taken db (set_device ?p (\<lambda>d. d\<lparr>dv_status := ''consumed''\<rparr>) db)"
    unfolding set_device_def by (rule devices_update_good) (simp_all add: device_kept_def)
  moreover have "good taken db1 db'"
    unfolding db1(2) by (rule sessions_update_good) (simp_all add: session_kept_def)
  ultimately show ?thesis using create_cli_session_in_tx_good [OF db1(1) assms(2)] good_trans by blast
qed (use assms(1) in \<open>auto simp: deliver_def Let_def and_then_Inr split: if_splits\<close>)

lemma poll_good:
  assumes "poll_device hash_token seeds at db secret = (r, db')" and "new_seeds taken seeds"
  shows "good taken db db'"
proof -
  have expire: "good taken db (set_device (\<lambda>d. q d \<and> dv_status d \<noteq> ''consumed'') (\<lambda>d. d\<lparr>dv_status := ''expired''\<rparr>) db)" for q
    unfolding set_device_def by (rule devices_update_good) (simp_all add: device_kept_def)
  have waiting: "good taken db (set_device q (\<lambda>d. d\<lparr>dv_last_poll_at := Some t\<rparr>) db)" for q t
    unfolding set_device_def by (rule devices_update_good) (simp_all add: device_kept_def)
  show ?thesis using assms(1) unfolding poll_device_def Let_def
    by (cases rule: transact_cases) (auto split: option.splits if_splits intro: expire waiting deliver_good assms(2))
qed

lemma auth_step_good:
  assumes "auth_step hash_token taken db l db'"
  shows "good taken db db'"
  using assms
proof cases
  case (s_user u provider subject login name ru)
  then show ?thesis by (auto simp: find_or_create_user_def Let_def split: option.splits if_splits intro!: same_tables_good)
next
  case (s_browser seeds app tnow user rc)
  then show ?thesis by (auto simp: create_browser_session_def intro: create_session_good)
next
  case (s_cli seeds app tnow user rc)
  then show ?thesis by (auto simp: create_cli_session_def intro: create_session_good)
next
  case (s_revoke_all tnow user)
  then show ?thesis by (simp add: revoke_all_for_user_def sessions_revoke_good)
next
  case (s_recent tnow i)
  then show ?thesis by (auto simp: record_recent_auth_def session_kept_def intro!: sessions_update_good)
qed (auto intro: refresh_good revoke_good device_start_good approve_good poll_good login_good same_tables_good)

interpretation auth_tables: invariant_system auth_start "auth_step hash_token {}" auth_keys
  by unfold_locales (auto simp: auth_start_def auth_keys_def dest: auth_step_good [unfolded good_def])

interpretation auth_history: invariant_system "\<lambda>x. x = db" "auth_step hash_token taken" "good taken db"
  by unfold_locales (use auth_step_good good_trans in \<open>auto simp: good_def intro: auth_evolves_trans\<close>)

lemmas auth_reach_keys = auth_tables.reach_inv
lemmas auth_run_good = auth_history.reach_inv

lemma auth_run_refl: "auth_run hash_token taken db db"
  by (simp add: reach_init)

lemma auth_run_trans: "auth_run hash_token taken a b \<Longrightarrow> auth_run hash_token taken b c \<Longrightarrow> auth_run hash_token taken a c"
  by (rotate_tac, induction rule: reach.induct) (auto intro: reach_step)

lemma auth_reach_run: "auth_run hash_token taken a b \<Longrightarrow> auth_reach hash_token a \<Longrightarrow> auth_reach hash_token b"
proof (induction rule: reach.induct)
  case (reach_step s l s')
  have "auth_step hash_token {} s l s'" using reach_step.hyps(2)
    by cases (auto intro: auth_step.intros simp: new_seeds_def)
  then show ?case using reach_step reach.reach_step by metis
qed simp

end
