(* ===== verification/Auth_Guarantees.thy ===== *)
theory Auth_Guarantees
  imports Auth_System
begin

text \<open>
  What the session service promises in every run of the system: a reused refresh token ends its session, a logout is final,
  no session outlives its absolute lifetime.
\<close>

section \<open>Ended sessions\<close>

definition ended :: "AuthDb \<Rightarrow> string \<Rightarrow> bool" where
  "ended db i \<longleftrightarrow> (\<forall>s \<in> set (ad_sessions db). ss_id s = i \<longrightarrow> ss_revoked_at s \<noteq> None)"

lemma session_past:
  assumes "auth_run hash_token taken db db'" and "s' \<in> set (ad_sessions db')" and "ss_id s' \<in> taken"
  obtains s where "s \<in> set (ad_sessions db)" and "session_kept s s'"
  using grows_source [of session_kept "session_fresh taken" "ad_sessions db" "ad_sessions db'" s'] auth_run_good [OF assms(1)] assms(2,3)
  by (auto simp: good_def auth_evolves_def session_fresh_def)

lemma ended_stays:
  assumes "ended db i" and "auth_run hash_token taken db db'" and "i \<in> taken"
  shows "ended db' i"
  unfolding ended_def
proof (intro ballI impI)
  fix s' assume "s' \<in> set (ad_sessions db')" "ss_id s' = i"
  then obtain s where "s \<in> set (ad_sessions db)" "session_kept s s'"
    using session_past [OF assms(2)] assms(3) by metis
  then show "ss_revoked_at s' \<noteq> None" using assms(1) \<open>ss_id s' = i\<close> by (auto simp: ended_def session_kept_def)
qed

lemma ended_is_refused:
  assumes "ended db i"
  shows "validate_cli_session tnow clk db a = Some p \<Longrightarrow> pr_session_id p \<noteq> i"
    and "validate_browser_session tnow clk db a = Some p \<Longrightarrow> pr_session_id p \<noteq> i"
    and "refresh_cli_session hash_token seeds app tnow db h = (Inr (Some c), db') \<Longrightarrow> cr_session_id c \<noteq> i"
proof -
  show "refresh_cli_session hash_token seeds app tnow db h = (Inr (Some c), db') \<Longrightarrow> cr_session_id c \<noteq> i"
    using assms by (elim refresh_cases) (auto simp: ended_def refreshable_def dest!: find_SomeD)
qed (use assms in \<open>auto simp: ended_def validate_cli_session_def validate_browser_session_def principal_of_def session_valid_def dest!: find_SomeD\<close>)

lemma revoked_family_ended:
  assumes "\<And>s. s \<in> set (ad_sessions db) \<Longrightarrow> ss_id s = i \<Longrightarrow> ss_family_id s = f"
  shows "ended (auth_audit t a b c d e (revoke_family_in_tx tnow f db)) i"
  using assms by (auto simp: ended_def revoke_family_in_tx_def set_update_where)

lemma revoke_session_ended: "revoke_session tnow db i = (b, db') \<Longrightarrow> ended db' i"
proof -
  assume "revoke_session tnow db i = (b, db')"
  then have "ad_sessions db' = update_where (\<lambda>s. ss_id s = i \<and> ss_revoked_at s = None) (\<lambda>s. s\<lparr>ss_revoked_at := Some tnow\<rparr>) (ad_sessions db)"
    by (auto simp: revoke_session_def Let_def split: option.splits)
  note rows = this
  have "ss_revoked_at s \<noteq> None" if listed: "s \<in> set (ad_sessions db')" and i: "ss_id s = i" for s
  proof -
    obtain r where r: "s = (if ss_id r = i \<and> ss_revoked_at r = None then r\<lparr>ss_revoked_at := Some tnow\<rparr> else r)"
      using listed by (auto simp: rows set_update_where)
    then show ?thesis using i by (cases "ss_id r = i \<and> ss_revoked_at r = None") auto
  qed
  then show ?thesis by (simp add: ended_def)
qed

section \<open>A small run\<close>

definition demo_token_hash :: "string \<Rightarrow> string" where
  "demo_token_hash s = CHR ''#'' # s"

definition demo_seeds :: "string \<Rightarrow> SessionSeeds" where
  "demo_seeds x = \<lparr>sd_session_id = CHR ''s'' # x, sd_family_id = CHR ''f'' # x, sd_access = CHR ''a'' # x, sd_refresh = CHR ''r'' # x\<rparr>"

definition demo_auth0 :: AuthDb where
  "demo_auth0 = \<lparr>ad_orgs = \<lparr>od_users = [\<lparr>us_id = ''u1'', us_display_name = ''Ann'', us_status = ''active''\<rparr>], od_identities = [],
     od_organizations = [], od_memberships = [], od_invitations = [], od_audit = [],
     od_queue = \<lparr>db_organizations = [], db_operations = [], db_outbox = [], db_tenants = [], db_workspaces = [], db_quotas = []\<rparr>\<rparr>,
     ad_sessions = [], ad_refresh_history = [], ad_transactions = [], ad_devices = [], ad_ledger = []\<rparr>"

definition demo_auth1 :: AuthDb where
  "demo_auth1 = snd (create_cli_session demo_token_hash (demo_seeds ''0'') 5 5 demo_auth0 ''u1'')"

definition demo_auth2 :: AuthDb where
  "demo_auth2 = snd (refresh_cli_session demo_token_hash (demo_seeds ''1'') 10 10 demo_auth1 ''#r0'')"

definition demo_auth3 :: AuthDb where
  "demo_auth3 = snd (refresh_cli_session demo_token_hash (demo_seeds ''2'') 20 20 demo_auth2 ''#r0'')"

lemmas demo_auth = demo_token_hash_def demo_seeds_def demo_auth0_def active_user_def user_active_def auth_audit_def and_then_def transact_def
  insert_session_row_def insert_user_session_def create_session_def create_cli_session_def create_browser_session_def credentials_of_def

lemma demo_session_created: "fst (create_cli_session demo_token_hash (demo_seeds ''0'') 5 5 demo_auth0 ''u1'') =
    Inr (credentials_of (demo_seeds ''0'') (5 + ACCESS_LIFETIME) (5 + REFRESH_LIFETIME))"
  by (simp add: demo_auth)

lemma demo_auth1_run: "auth_reach demo_token_hash demo_auth1"
proof (rule reach_step)
  show "auth_reach demo_token_hash demo_auth0" by (rule reach_init) (simp add: auth_start_def demo_auth0_def)
  show "auth_step demo_token_hash {} demo_auth0 () demo_auth1"
    by (rule s_cli [of _ "demo_seeds ''0''" 5 5 _ "''u1''" "fst (create_cli_session demo_token_hash (demo_seeds ''0'') 5 5 demo_auth0 ''u1'')"])
      (simp_all add: demo_auth1_def new_seeds_def)
qed

lemma demo_refreshed: "\<exists>c. refresh_cli_session demo_token_hash (demo_seeds ''1'') 10 10 demo_auth1 ''#r0'' = (Inr (Some c), demo_auth2) \<and>
    cr_session_id c = ''s0''"
  unfolding demo_auth2_def demo_auth1_def
  by (simp add: demo_auth refresh_cli_session_def rotate_session_def refreshable_def update_where_def REFRESH_LIFETIME_def ACCESS_LIFETIME_def)

section \<open>Refresh tokens\<close>

lemma rotate_session_row:
  assumes "rotate_session i ah ae rh re tnow db = Inr (u, db')" and "s' \<in> set (ad_sessions db')"
  obtains s where "s \<in> set (ad_sessions db)" and "ss_id s' = ss_id s" and "ss_family_id s' = ss_family_id s"
  using assms by (auto simp: rotate_session_def set_update_where split: if_splits)

lemma rotate_session_history: "rotate_session i ah ae rh re tnow db = Inr (u, db') \<Longrightarrow> ad_refresh_history db' = ad_refresh_history db"
  by (auto simp: rotate_session_def split: if_splits)

lemma rotated_once:
  assumes "auth_keys db" and "refresh_cli_session hash_token seeds app tnow db h = (Inr (Some c), db1)"
  obtains used where "List.find (\<lambda>x. rf_refresh_hash x = h) (ad_refresh_history db1) = Some used" and "rf_family_id used = cr_family_id c"
    and "\<And>s. s \<in> set (ad_sessions db1) \<Longrightarrow> ss_id s = cr_session_id c \<Longrightarrow> ss_family_id s = cr_family_id c"
  using assms(2)
proof (cases rule: refresh_cases)
  case (rotated s db2)
  have "s \<in> set (ad_sessions db)" using find_SomeD [OF rotated(2)] by simp
  then have "ss_family_id r = ss_family_id s" if "r \<in> set (ad_sessions db)" "ss_id r = ss_id s" for r
    using that assms(1) distinct_key [of ss_id "ad_sessions db" r s] by (simp add: auth_keys_def)
  then have "ss_family_id r = cr_family_id c" if "r \<in> set (ad_sessions db1)" "ss_id r = cr_session_id c" for r
    using that rotated(6,7) rotate_session_row [OF rotated(5), of r] by (auto simp: history_with_def)
  then show ?thesis using rotated that rotate_session_history [OF rotated(5)] by (auto simp: history_with_def find_append)
qed simp_all

lemma history_run: "auth_run hash_token taken db db' \<Longrightarrow> \<exists>xs. ad_refresh_history db' = ad_refresh_history db @ xs"
  using auth_run_good by (force simp: good_def auth_evolves_def prefix_def)

text \<open>
  C28 (safety). A refresh token works once. When it is presented again after a successful refresh, whatever happened in
  between, the answer is no credential, and from then on the session it belonged to is dead: no access token
  validates for it and no refresh token renews it, in any run.
\<close>

theorem reused_refresh_token_ends_session:
  assumes "auth_reach hash_token db" and "refresh_cli_session hash_token seeds app tnow db h = (Inr (Some c), db1)"
    and "auth_run hash_token taken db1 db2" and "cr_session_id c \<in> taken"
    and "refresh_cli_session hash_token seeds' app' tnow' db2 h = (r, db3)" and "auth_run hash_token taken db3 db4"
  shows "r = Inr None \<and> (\<forall>tn ck a p. validate_cli_session tn ck db4 a = Some p \<longrightarrow> pr_session_id p \<noteq> cr_session_id c) \<and>
    (\<forall>sd ap tn h' c' db5. refresh_cli_session hash_token sd ap tn db4 h' = (Inr (Some c'), db5) \<longrightarrow> cr_session_id c' \<noteq> cr_session_id c)"
proof -
  obtain used where used: "List.find (\<lambda>x. rf_refresh_hash x = h) (ad_refresh_history db1) = Some used" "rf_family_id used = cr_family_id c"
      "\<And>s. s \<in> set (ad_sessions db1) \<Longrightarrow> ss_id s = cr_session_id c \<Longrightarrow> ss_family_id s = cr_family_id c"
    using rotated_once [OF auth_reach_keys [OF assms(1)] assms(2)] by metis
  have found: "List.find (\<lambda>x. rf_refresh_hash x = h) (ad_refresh_history db2) = Some used"
    using history_run [OF assms(3)] used(1) by (auto simp: find_append)
  have family: "ss_family_id s = cr_family_id c" if "s \<in> set (ad_sessions db2)" "ss_id s = cr_session_id c" for s
    using session_past [OF assms(3) that(1)] that(2) assms(4) used(3) by (metis session_kept_def)
  have db3: "r = Inr None" "ended db3 (cr_session_id c)"
    using assms(5) found used(2) revoked_family_ended [of db2 "cr_session_id c" "cr_family_id c", OF family]
    by (auto simp: refresh_cli_session_def)
  have "ended db4 (cr_session_id c)" using ended_stays [OF db3(2) assms(6,4)] .
  then show ?thesis using db3(1) by (auto dest: ended_is_refused)
qed


theorem reused_refresh_token_ends_session_witness:
  "fst (refresh_cli_session demo_token_hash (demo_seeds ''2'') 20 20 demo_auth2 ''#r0'') = Inr None \<and>
   (\<forall>tn ck a. \<not> is_some_and (validate_cli_session tn ck demo_auth3 a) (\<lambda>p. pr_session_id p = ''s0''))"
proof -
  obtain c where c: "refresh_cli_session demo_token_hash (demo_seeds ''1'') 10 10 demo_auth1 ''#r0'' = (Inr (Some c), demo_auth2)" "cr_session_id c = ''s0''"
    using demo_refreshed by blast
  have "refresh_cli_session demo_token_hash (demo_seeds ''2'') 20 20 demo_auth2 ''#r0'' =
      (fst (refresh_cli_session demo_token_hash (demo_seeds ''2'') 20 20 demo_auth2 ''#r0''), demo_auth3)"
    by (simp add: demo_auth3_def)
  from reused_refresh_token_ends_session [OF demo_auth1_run c(1) auth_run_refl _ this auth_run_refl, of "{''s0''}"] show ?thesis
    by (simp add: c(2) is_some_and_iff)
qed

text \<open>Handlers of others between the statements of a route are runs of the system.\<close>

definition quiet_others :: "(string \<Rightarrow> string) \<Rightarrow> string set \<Rightarrow> others \<Rightarrow> bool" where
  "quiet_others hash_token taken others \<longleftrightarrow> (\<forall>n db. auth_run hash_token taken db (others n db))"

lemma revoke_if_valid_ended: "ended (revoke_if_valid (Some p) tnow db) (pr_session_id p)"
  unfolding revoke_if_valid_def using revoke_session_ended by (metis option.simps(5) prod.collapse)

lemma revoke_if_valid_run: "auth_run hash_token taken db (revoke_if_valid who tnow db)"
proof (cases who)
  case (Some p)
  have "auth_step hash_token taken db () (snd (revoke_session tnow db (pr_session_id p)))"
    by (rule s_revoke) (rule prod.collapse [symmetric])
  then show ?thesis using Some auth_run_refl reach_step by (fastforce simp: revoke_if_valid_def)
qed (simp add: revoke_if_valid_def auth_run_refl)

lemma logout_bearer_run: "quiet_others hash_token taken others \<Longrightarrow> auth_run hash_token taken db (logout_bearer hash_token others moment db headers)"
  unfolding logout_bearer_def Let_def quiet_others_def
  by (cases "bearer_token headers") (simp_all add: auth_run_refl, metis auth_run_trans revoke_if_valid_run)

text \<open>
  A logout is final. If the session cookie of the request still validates when the handler comes to revoke
  it, the session it belongs to is over: neither its cookie nor anything else validates as this session in any later state.
\<close>

theorem logout_is_final:
  assumes "logout hash_token others moment True db headers = (Inr answer, db')" and "quiet_others hash_token taken others"
    and "parse_cookies headers SESSION_COOKIE = Some cookie"
    and "validate_browser_session (mo_now (moment 1)) (mo_clk (moment 1)) (others 1 (others 0 db)) (hash_token cookie) = Some p"
    and "pr_session_id p \<in> taken" and "auth_run hash_token taken db' db''"
  shows "\<forall>tn ck a q. validate_browser_session tn ck db'' a = Some q \<or> validate_cli_session tn ck db'' a = Some q \<longrightarrow> pr_session_id q \<noteq> pr_session_id p"
proof -
  define db1 where "db1 = logout_cookie hash_token others moment (others 0 db) headers"
  have "ended db1 (pr_session_id p)"
    unfolding db1_def logout_cookie_def Let_def using assms(3,4) revoke_if_valid_ended by simp
  moreover have "db' = logout_bearer hash_token others moment db1 headers"
    using assms(1) by (auto simp: logout_def with_services_def Let_def db1_def split: sum.splits)
  ultimately have "ended db'' (pr_session_id p)"
    using logout_bearer_run [OF assms(2)] auth_run_trans assms(5,6) ended_stays by metis
  then show ?thesis by (auto dest: ended_is_refused)
qed

definition demo_browser :: AuthDb where
  "demo_browser = snd (create_browser_session demo_token_hash (demo_seeds ''b'') 5 5 demo_auth0 ''u1'')"

definition demo_cookies :: headers where
  "demo_cookies = [(''cookie'', ''of_session=ab; of_csrf=#openflows-csrf:ab''), (CSRF_HEADER, ''#openflows-csrf:ab'')]"

definition demo_moment :: "nat \<Rightarrow> Moment" where
  "demo_moment n = \<lparr>mo_app = 100 + n, mo_now = 100 + n, mo_clk = 100 + n\<rparr>"

lemma demo_cookies_parsed:
  "parse_cookies demo_cookies SESSION_COOKIE = Some ''ab''" "parse_cookies demo_cookies CSRF_COOKIE = Some ''#openflows-csrf:ab''"
  "header_get demo_cookies CSRF_HEADER = Some ''#openflows-csrf:ab''" "bearer_token demo_cookies = None"
  by code_simp+

lemma demo_cookie_valid: "validate_browser_session (100 + n) (100 + n) demo_browser ''#ab'' =
    Some \<lparr>pr_session_id = ''sb'', pr_user_id = ''u1'', pr_kind = ''browser'', pr_access_expires_at = 5 + BROWSER_LIFETIME\<rparr>" if "n < 10"
  using that by (simp add: demo_browser_def demo_auth validate_browser_session_def session_valid_def principal_of_def BROWSER_LIFETIME_def)

lemma demo_csrf_ok: "require_csrf_for_browser demo_token_hash who demo_cookies = Inr ()"
proof -
  have "\<not> blank ''#openflows-csrf:ab''" by code_simp
  then show ?thesis
    by (simp add: require_csrf_for_browser_def demo_cookies_parsed csrf_validate_session_def csrf_for_session_def demo_token_hash_def
        csrf_validate_def Let_def)
qed

lemma quiet_id: "quiet_others hash_token taken (\<lambda>n db. db)"
  by (simp add: quiet_others_def auth_run_refl)

theorem logout_is_final_witness:
  "\<forall>tn ck a. \<not> is_some_and (validate_browser_session tn ck (snd (logout demo_token_hash (\<lambda>n db. db) demo_moment True demo_browser demo_cookies)) a)
     (\<lambda>q. pr_session_id q = ''sb'')"
proof -
  have "logout demo_token_hash (\<lambda>n db. db) demo_moment True demo_browser demo_cookies =
      (Inr (SESSION_COOKIE @ ''=; Path=/; HttpOnly; Max-Age=0''), snd (logout demo_token_hash (\<lambda>n db. db) demo_moment True demo_browser demo_cookies))"
    by (simp add: logout_def with_services_def authenticated_user_def demo_cookies_parsed demo_token_hash_def demo_moment_def
        demo_cookie_valid [of 0, simplified] demo_csrf_ok)
  moreover have "validate_browser_session (mo_now (demo_moment 1)) (mo_clk (demo_moment 1)) demo_browser (demo_token_hash ''ab'') =
      Some \<lparr>pr_session_id = ''sb'', pr_user_id = ''u1'', pr_kind = ''browser'', pr_access_expires_at = 5 + BROWSER_LIFETIME\<rparr>"
    using demo_cookie_valid [of 1] by (simp add: demo_moment_def demo_token_hash_def)
  ultimately show ?thesis
    using logout_is_final [OF _ quiet_id demo_cookies_parsed(1), where taken = "{''sb''}"] auth_run_refl by (fastforce simp: is_some_and_iff)
qed

section \<open>Lifetimes\<close>

lemma session_valid_created:
  assumes "validate_cli_session tnow clk db a = Some p"
  obtains s where "s \<in> set (ad_sessions db)" and "ss_id s = pr_session_id p" and "clk < ss_created_at s + REFRESH_LIFETIME"
  using assms by (auto simp: validate_cli_session_def principal_of_def session_valid_def REFRESH_LIFETIME_def dest!: find_SomeD)

lemma refresh_created:
  assumes "refresh_cli_session hash_token seeds app tnow db h = (Inr (Some c), db')"
  obtains s where "s \<in> set (ad_sessions db)" and "ss_id s = cr_session_id c" and "app < ss_created_at s + REFRESH_LIFETIME"
    and "cr_access_expires_at c \<le> ss_created_at s + REFRESH_LIFETIME" and "cr_refresh_expires_at c \<le> ss_created_at s + REFRESH_LIFETIME"
  using assms by (elim refresh_cases) (auto intro!: that dest!: find_SomeD)

end
