(* ===== verification/Auth_Devices.thy ===== *)
theory Auth_Devices
  imports Auth_Guarantees
begin

text \<open>
  What the two ways to a session promise: a command line session belongs to the user whose recently authenticated browser
  approved it, and is handed out once; a login ends where it began, with a transaction that is used once.
\<close>

section \<open>The approval\<close>

lemma csrf_validate_iff: "csrf_validate presented cookie = Inr u \<longleftrightarrow> \<not> blank presented \<and> presented = cookie"
  by (auto simp: csrf_validate_def)

lemma csrf_validate_session_Inr:
  "csrf_validate_session hash_token headers presented = Inr u \<Longrightarrow>
     \<exists>session. parse_cookies headers SESSION_COOKIE = Some session \<and> presented = csrf_for_session hash_token session"
  by (auto simp: csrf_validate_session_def csrf_validate_iff split: option.splits)

lemma limited_run: "limited hash_token at sweep db headers scope limit message = (r, db') \<Longrightarrow> auth_run hash_token taken db db'"
  using s_environment [of db' db hash_token taken] auth_run_refl reach_step
  by (fastforce simp: limited_def allow_def split: prod.splits)

lemma recent_authentication_fresh:
  "recent_authentication clk db i = Some t \<Longrightarrow>
     clk < t + seconds 600 \<and> (\<exists>b. b \<in> set (ad_sessions db) \<and> ss_id b = i \<and> ss_revoked_at b = None \<and> ss_last_authenticated_at b = Some t)"
  by (auto simp: recent_authentication_def is_some_and_iff bind_eq_Some_conv dest!: find_SomeD)

lemma device_approve_Inr:
  assumes "device_approve hash_token sweep others moment True db headers code form = (Inr u, db')" and "quiet_others hash_token taken others"
  obtains cookie p t d1 d2 b d3 where "parse_cookies headers SESSION_COOKIE = Some cookie"
    and "presented_csrf headers form = csrf_for_session hash_token cookie" and "auth_run hash_token taken db d1" and "auth_run hash_token taken d1 d2"
    and "b \<in> set (ad_sessions d2)" and "ss_id b = pr_session_id p" and "ss_revoked_at b = None" and "ss_last_authenticated_at b = Some t"
    and "auth_run hash_token taken d2 d3"
    and "validate_browser_session (mo_now (moment 1)) (mo_clk (moment 1)) d1 (hash_token cookie) = Some p"
    and "mo_clk (moment 2) < t + seconds 600"
    and "approve_authenticated hash_token (mo_now (moment 3)) d3 code (pr_user_id p) t = (Inr u, db')"
proof -
  obtain cookie where c: "parse_cookies headers SESSION_COOKIE = Some cookie" "presented_csrf headers form = csrf_for_session hash_token cookie"
    using assms(1) by (auto simp: device_approve_def with_services_def Let_def and_then_Inr split: sum.splits dest: csrf_validate_session_Inr)
  obtain db1 where db1: "limited hash_token (moment 0) sweep (others 0 db) headers Verify VERIFY_LIMIT ''too many verification attempts'' = (Inr (), db1)"
    using assms(1) by (auto simp: device_approve_def with_services_def Let_def proceed_Inr split: sum.splits)
  define d1 where "d1 = others 1 db1"
  obtain p t where pt: "validate_browser_session (mo_now (moment 1)) (mo_clk (moment 1)) d1 (hash_token cookie) = Some p"
      "recent_authentication (mo_clk (moment 2)) (others 2 d1) (pr_session_id p) = Some t"
      "approve_authenticated hash_token (mo_now (moment 3)) (others 3 (others 2 d1)) code (pr_user_id p) t = (Inr u, db')"
    using assms(1) c(1) db1
    by (auto simp: device_approve_def with_services_def Let_def proceed_Inr d1_def split: sum.splits option.splits)
  have run: "auth_run hash_token taken db d1" "auth_run hash_token taken d1 (others 2 d1)" "auth_run hash_token taken (others 2 d1) (others 3 (others 2 d1))"
    using assms(2) limited_run [OF db1] auth_run_trans unfolding quiet_others_def d1_def by metis+
  obtain b where b: "b \<in> set (ad_sessions (others 2 d1))" "ss_id b = pr_session_id p" "ss_revoked_at b = None" "ss_last_authenticated_at b = Some t"
      "mo_clk (moment 2) < t + seconds 600"
    using recent_authentication_fresh [OF pt(2)] by blast
  show ?thesis by (rule that [OF c run(1,2) b(1-4) run(3) pt(1) b(5) pt(3)])
qed

section \<open>The delivery\<close>

lemma poll_credentials:
  assumes "poll_device hash_token seeds at db secret = (Inr (PollCredentials c), db')"
  obtains d u t where "List.find (\<lambda>d. dv_device_secret_hash d = hash_token secret) (ad_devices db) = Some d" and "dv_status d = ''approved''"
    and "dv_approved_user_id d = Some u" and "dv_approved_authenticated_at d = Some t"
    and "deliver hash_token seeds at db (hash_token secret) u t = Inr (PollCredentials c, db')"
  using assms unfolding poll_device_def Let_def
  by (cases rule: transact_cases) (auto split: option.splits if_splits)

lemma consumed_is_not_delivered:
  assumes "\<And>d. d \<in> set (ad_devices db) \<Longrightarrow> dv_device_secret_hash d = hash_token secret \<Longrightarrow> dv_status d = ''consumed''"
  shows "poll_device hash_token seeds at db secret \<noteq> (Inr (PollCredentials c), db')"
  using assms by (auto elim!: poll_credentials dest!: find_SomeD)

lemma deliver_Inr:
  assumes "deliver hash_token seeds at db h u t = Inr (PollCredentials c, db')"
  shows "\<exists>s \<in> set (ad_sessions db'). ss_id s = cr_session_id c \<and> ss_user_id s = u \<and> ss_kind s = ''cli'' \<and> ss_revoked_at s = None \<and>
      ss_last_authenticated_at s = Some t"
    and "ad_devices db' = update_where (\<lambda>d. dv_device_secret_hash d = h \<and> dv_status d = ''approved'') (\<lambda>d. d\<lparr>dv_status := ''consumed''\<rparr>) (ad_devices db)"
proof -
  let ?p = "\<lambda>d. dv_device_secret_hash d = h \<and> dv_status d = ''approved''"
  obtain db1 where db1: "create_cli_session_in_tx hash_token seeds (mo_app at) (mo_now at) (mo_clk at)
        (set_device ?p (\<lambda>d. d\<lparr>dv_status := ''consumed''\<rparr>) db) u = Inr (c, db1)"
      and db': "db' = db1\<lparr>ad_sessions := update_where (\<lambda>s. ss_id s = cr_session_id c) (\<lambda>s. s\<lparr>ss_last_authenticated_at := Some t\<rparr>) (ad_sessions db1)\<rparr>"
    using assms by (auto simp: deliver_def Let_def and_then_Inr split: if_splits)
  obtain row db0 where row: "insert_session_row row (set_device ?p (\<lambda>d. d\<lparr>dv_status := ''consumed''\<rparr>) db) = Inr ((), db0)"
      "ad_sessions db1 = ad_sessions db0" "ad_devices db1 = ad_devices db0" "ss_id row = cr_session_id c" "ss_user_id row = u"
      "ss_kind row = ''cli''" "ss_revoked_at row = None"
    using db1 by (auto elim!: create_cli_session_in_tx_Inr simp: credentials_of_def)
  then have "row \<in> set (ad_sessions db1)" by (auto simp: insert_session_row_def split: if_splits)
  then have "row\<lparr>ss_last_authenticated_at := Some t\<rparr> \<in> set (ad_sessions db')" using row(4) by (auto simp: db' set_update_where)
  then show "\<exists>s \<in> set (ad_sessions db'). ss_id s = cr_session_id c \<and> ss_user_id s = u \<and> ss_kind s = ''cli'' \<and> ss_revoked_at s = None \<and>
      ss_last_authenticated_at s = Some t"
    using row(4-7) by (intro bexI [of _ "row\<lparr>ss_last_authenticated_at := Some t\<rparr>"]) simp_all
  show "ad_devices db' = update_where ?p (\<lambda>d. d\<lparr>dv_status := ''consumed''\<rparr>) (ad_devices db)"
    using row(1,3) by (auto simp: db' insert_session_row_def set_device_def split: if_splits)
qed

lemma device_future:
  assumes "auth_run hash_token taken db db'" and "d \<in> set (ad_devices db)"
  obtains d' where "d' \<in> set (ad_devices db')" and "device_kept d d'"
  using grows_image [of device_kept "\<lambda>_. True" "ad_devices db" "ad_devices db'" d] auth_run_good [OF assms(1)] assms(2)
  by (auto simp: good_def auth_evolves_def)

lemma approved_row:
  assumes "approve_authenticated hash_token tnow db code user t = (Inr u, db')"
  obtains d where "d \<in> set (ad_devices db')" and "dv_user_code_hash d = hash_token (normalize_user_code code)" and "dv_status d = ''approved''"
    and "dv_approved_user_id d = Some user" and "dv_approved_authenticated_at d = Some t"
proof -
  let ?p = "approvable tnow (hash_token (normalize_user_code code))"
  obtain d where d: "d \<in> set (ad_devices db)" "?p d"
    using assms by (auto simp: approve_authenticated_def Let_def rows_affected_0 split: if_splits)
  have "d\<lparr>dv_status := ''approved'', dv_approved_user_id := Some user, dv_approved_authenticated_at := Some t\<rparr> \<in> set (ad_devices db')"
    using assms d by (auto simp: approve_authenticated_def Let_def set_update_where split: if_splits intro!: bexI [of _ d])
  then show ?thesis using d(2) that by (force simp: approvable_def)
qed

lemma once_delivered:
  assumes "auth_keys db" and "poll_device hash_token seeds at db secret = (Inr (PollCredentials c), db')" and "auth_run hash_token taken db' db''"
  shows "poll_device hash_token sd a db'' secret \<noteq> (Inr (PollCredentials c'), db5)"
proof (rule consumed_is_not_delivered)
  fix d'' assume d'': "d'' \<in> set (ad_devices db'')" "dv_device_secret_hash d'' = hash_token secret"
  obtain d u t where d: "List.find (\<lambda>d. dv_device_secret_hash d = hash_token secret) (ad_devices db) = Some d" "dv_status d = ''approved''"
      "deliver hash_token seeds at db (hash_token secret) u t = Inr (PollCredentials c, db')"
    using assms(2) by (rule poll_credentials)
  then have "d\<lparr>dv_status := ''consumed''\<rparr> \<in> set (ad_devices db')"
    using find_SomeD [OF d(1)] by (auto simp: deliver_Inr(2) [OF d(3)] set_update_where intro!: bexI [of _ d])
  then obtain e where e: "e \<in> set (ad_devices db'')" "device_kept (d\<lparr>dv_status := ''consumed''\<rparr>) e"
    using device_future [OF assms(3)] by blast
  have "auth_keys db'" using assms(1) poll_good [OF assms(2), of "- {sd_session_id seeds, sd_family_id seeds}"] by (simp add: good_def new_seeds_def)
  then have "auth_keys db''" using auth_run_good [OF assms(3)] by (simp add: good_def)
  then have "d'' = e" using d'' e find_SomeD [OF d(1)] distinct_key [of dv_device_secret_hash "ad_devices db''" d'' e]
    by (simp add: auth_keys_def device_kept_def)
  then show "dv_status d'' = ''consumed''" using e(2) by (simp add: device_kept_def)
qed

text \<open>
  C27 (safety). The session that a command line client gets belongs to whoever approved its code: the approving request
  carried the CSRF token of its own session cookie, that cookie was a valid browser session, and this browser session, still open, had been
  authenticated less than ten minutes before. The command line session is of the same user and carries exactly the time at which the browser session
  was authenticated, so approving does not make an old login fresh; and the device secret never delivers again.
\<close>

theorem cli_session_belongs_to_approver:
  assumes "auth_reach hash_token db" and "quiet_others hash_token taken others"
    and "device_approve hash_token sweep others moment True db headers code form = (Inr (), db1)" and "auth_run hash_token taken db1 db2"
    and "List.find (\<lambda>d. dv_device_secret_hash d = hash_token secret) (ad_devices db2) = Some d"
    and "dv_user_code_hash d = hash_token (normalize_user_code code)"
    and "poll_device hash_token seeds at db2 secret = (Inr (PollCredentials c), db3)" and "auth_run hash_token taken db3 db4"
  shows "(\<exists>cookie p t d1 d2 b s. parse_cookies headers SESSION_COOKIE = Some cookie \<and> presented_csrf headers form = csrf_for_session hash_token cookie \<and>
      auth_run hash_token taken db d1 \<and> validate_browser_session (mo_now (moment 1)) (mo_clk (moment 1)) d1 (hash_token cookie) = Some p \<and>
      auth_run hash_token taken d1 d2 \<and> b \<in> set (ad_sessions d2) \<and> ss_id b = pr_session_id p \<and> ss_revoked_at b = None \<and>
      ss_last_authenticated_at b = Some t \<and> mo_clk (moment 2) < t + seconds 600 \<and> s \<in> set (ad_sessions db3) \<and> ss_id s = cr_session_id c \<and> ss_user_id s = pr_user_id p \<and>
      ss_kind s = ''cli'' \<and> ss_last_authenticated_at s = Some t) \<and>
    (\<forall>sd a c' db5. poll_device hash_token sd a db4 secret \<noteq> (Inr (PollCredentials c'), db5))"
proof
  obtain cookie p t d1 d2 b d3 where a: "parse_cookies headers SESSION_COOKIE = Some cookie" "presented_csrf headers form = csrf_for_session hash_token cookie"
      "auth_run hash_token taken db d1" "auth_run hash_token taken d1 d2"
      "b \<in> set (ad_sessions d2)" "ss_id b = pr_session_id p" "ss_revoked_at b = None" "ss_last_authenticated_at b = Some t" "auth_run hash_token taken d2 d3"
      "validate_browser_session (mo_now (moment 1)) (mo_clk (moment 1)) d1 (hash_token cookie) = Some p" "mo_clk (moment 2) < t + seconds 600"
      "approve_authenticated hash_token (mo_now (moment 3)) d3 code (pr_user_id p) t = (Inr (), db1)"
    using assms(3,2) by (rule device_approve_Inr)
  have "auth_reach hash_token d3" using assms(1) a(3,4,9) auth_reach_run by blast
  then have "auth_reach hash_token db1" using s_approve [OF a(12)] reach_step by metis
  then have keys: "auth_keys db2" using assms(4) auth_reach_run auth_reach_keys by blast
  obtain e where e: "e \<in> set (ad_devices db1)" "dv_user_code_hash e = hash_token (normalize_user_code code)" "dv_status e = ''approved''"
      "dv_approved_user_id e = Some (pr_user_id p)" "dv_approved_authenticated_at e = Some t"
    using a(12) by (rule approved_row)
  obtain e' where e': "e' \<in> set (ad_devices db2)" "device_kept e e'" using device_future [OF assms(4) e(1)] by blast
  have "d = e'" using find_SomeD [OF assms(5)] assms(6) e(2) e' keys distinct_key [of dv_user_code_hash "ad_devices db2" d e']
    by (simp add: auth_keys_def device_kept_def)
  then have "deliver hash_token seeds at db2 (hash_token secret) (pr_user_id p) t = Inr (PollCredentials c, db3)"
    using poll_credentials [OF assms(7)] assms(5) e(3-5) e'(2) by (force simp: device_kept_def)
  from deliver_Inr(1) [OF this] show "\<exists>cookie p t d1 d2 b s. parse_cookies headers SESSION_COOKIE = Some cookie \<and>
      presented_csrf headers form = csrf_for_session hash_token cookie \<and>
      auth_run hash_token taken db d1 \<and> validate_browser_session (mo_now (moment 1)) (mo_clk (moment 1)) d1 (hash_token cookie) = Some p \<and>
      auth_run hash_token taken d1 d2 \<and> b \<in> set (ad_sessions d2) \<and> ss_id b = pr_session_id p \<and> ss_revoked_at b = None \<and>
      ss_last_authenticated_at b = Some t \<and> mo_clk (moment 2) < t + seconds 600 \<and> s \<in> set (ad_sessions db3) \<and> ss_id s = cr_session_id c \<and> ss_user_id s = pr_user_id p \<and>
      ss_kind s = ''cli'' \<and> ss_last_authenticated_at s = Some t" using a(1-8,10,11) by blast
  show "\<forall>sd a c' db5. poll_device hash_token sd a db4 secret \<noteq> (Inr (PollCredentials c'), db5)"
    using once_delivered [OF keys assms(7,8)] by blast
qed

section \<open>The lifetime\<close>

lemma poll_created:
  assumes "poll_device hash_token seeds at db secret = (Inr (PollCredentials c), db1)"
  shows "\<And>s. s \<in> set (ad_sessions db1) \<Longrightarrow> ss_id s = cr_session_id c \<Longrightarrow> ss_created_at s = mo_now at"
    and "cr_access_expires_at c = mo_app at + ACCESS_LIFETIME" and "cr_refresh_expires_at c = mo_app at + REFRESH_LIFETIME"
proof -
  obtain u t where "deliver hash_token seeds at db (hash_token secret) u t = Inr (PollCredentials c, db1)"
    using assms by (rule poll_credentials)
  then obtain db2 db0 where d: "create_cli_session_in_tx hash_token seeds (mo_app at) (mo_now at) (mo_clk at) db0 u = Inr (c, db2)"
      "db1 = db2\<lparr>ad_sessions := update_where (\<lambda>s. ss_id s = cr_session_id c) (\<lambda>s. s\<lparr>ss_last_authenticated_at := Some t\<rparr>) (ad_sessions db2)\<rparr>"
    by (auto simp: deliver_def Let_def and_then_Inr split: if_splits)
  show "cr_access_expires_at c = mo_app at + ACCESS_LIFETIME" "cr_refresh_expires_at c = mo_app at + REFRESH_LIFETIME"
    using d(1) by (auto elim!: create_cli_session_in_tx_Inr simp: credentials_of_def)
  have "ss_created_at s = mo_now at" if "s \<in> set (ad_sessions db2)" "ss_id s = cr_session_id c" for s
    using d(1) that by (auto simp: credentials_of_def insert_session_row_def list_ex_iff split: if_splits elim!: create_cli_session_in_tx_Inr)
  then show "\<And>s. s \<in> set (ad_sessions db1) \<Longrightarrow> ss_id s = cr_session_id c \<Longrightarrow> ss_created_at s = mo_now at"
    unfolding d(2) by (auto simp: set_update_where split: if_splits)
qed

text \<open>
  C30 (bounds). Thirty days after it was handed out a command line session is over, however often and whenever it was refreshed:
  the first credentials expire fifteen minutes and thirty days after the poll that delivered them; from thirty days after the delivery on no access token validates for the
  session and no refresh token renews it; and no credential of a later refresh carries an expiry beyond these thirty days.
\<close>

theorem cli_session_ends_after_thirty_days:
  assumes "poll_device hash_token seeds at db secret = (Inr (PollCredentials c), db1)" and "cr_session_id c \<in> taken"
    and "auth_run hash_token taken db1 db2"
  shows "cr_access_expires_at c = mo_app at + seconds (15 * 60) \<and> cr_refresh_expires_at c = mo_app at + seconds (30 * 24 * 60 * 60) \<and>
    (\<forall>tn ck a p. validate_cli_session tn ck db2 a = Some p \<and> pr_session_id p = cr_session_id c \<longrightarrow> ck < mo_now at + seconds (30 * 24 * 60 * 60)) \<and>
    (\<forall>sd ap tn h c' db3. refresh_cli_session hash_token sd ap tn db2 h = (Inr (Some c'), db3) \<and> cr_session_id c' = cr_session_id c \<longrightarrow>
       ap < mo_now at + seconds (30 * 24 * 60 * 60) \<and> cr_access_expires_at c' \<le> mo_now at + seconds (30 * 24 * 60 * 60) \<and>
       cr_refresh_expires_at c' \<le> mo_now at + seconds (30 * 24 * 60 * 60))"
proof -
  have created: "ss_created_at s = mo_now at" if "s \<in> set (ad_sessions db2)" "ss_id s = cr_session_id c" for s
    using session_past [OF assms(3) that(1)] that(2) assms(2) poll_created(1) [OF assms(1)] by (metis session_kept_def)
  have life: "REFRESH_LIFETIME = seconds (30 * 24 * 60 * 60)" "ACCESS_LIFETIME = seconds (15 * 60)"
    by (simp_all add: REFRESH_LIFETIME_def ACCESS_LIFETIME_def)
  have later: "(\<forall>tn ck a p. validate_cli_session tn ck db2 a = Some p \<and> pr_session_id p = cr_session_id c \<longrightarrow> ck < mo_now at + seconds (30 * 24 * 60 * 60)) \<and>
    (\<forall>sd ap tn h c' db3. refresh_cli_session hash_token sd ap tn db2 h = (Inr (Some c'), db3) \<and> cr_session_id c' = cr_session_id c \<longrightarrow>
       ap < mo_now at + seconds (30 * 24 * 60 * 60) \<and> cr_access_expires_at c' \<le> mo_now at + seconds (30 * 24 * 60 * 60) \<and>
       cr_refresh_expires_at c' \<le> mo_now at + seconds (30 * 24 * 60 * 60))"
    by (intro conjI allI impI; elim conjE session_valid_created refresh_created) (use created in \<open>auto simp: life\<close>)
  show ?thesis using later poll_created(2,3) [OF assms(1)] by (simp only: life simp_thms)
qed

definition demo_device1 :: AuthDb where
  "demo_device1 = snd (device_start_request demo_token_hash ''https://m'' ''d1'' ''dev'' (replicate 8 0) 90 demo_browser)"

definition demo_device2 :: AuthDb where
  "demo_device2 = snd (device_approve demo_token_hash None (\<lambda>n db. db) demo_moment True demo_device1 demo_cookies '' aaaa-aaaa'' '''')"

definition demo_device3 :: AuthDb where
  "demo_device3 = snd (poll_device demo_token_hash (demo_seeds ''9'') (demo_moment 5) demo_device2 ''dev'')"

lemma demo_codes: "generate_human_code (replicate 8 0) = ''AAAAAAAA''" "normalize_user_code '' aaaa-aaaa'' = ''AAAAAAAA''"
    "presented_csrf demo_cookies '''' = ''#openflows-csrf:ab''" "\<not> blank ''#openflows-csrf:ab''" "peer_bucket demo_cookies = ''unknown-peer''"
  by code_simp+

lemma demo_browser_run: "auth_reach demo_token_hash demo_browser"
proof (rule reach_step)
  show "auth_reach demo_token_hash demo_auth0" by (rule reach_init) (simp add: auth_start_def demo_auth0_def)
  show "auth_step demo_token_hash {} demo_auth0 () demo_browser"
    by (rule s_browser [of _ "demo_seeds ''b''" 5 5 _ "''u1''" "fst (create_browser_session demo_token_hash (demo_seeds ''b'') 5 5 demo_auth0 ''u1'')"])
      (simp_all add: demo_browser_def new_seeds_def)
qed

lemma demo_device1_run: "auth_reach demo_token_hash demo_device1"
proof (rule reach_step [OF demo_browser_run])
  show "auth_step demo_token_hash {} demo_browser () demo_device1"
    by (rule s_start_device [of _ "''https://m''" "''d1''" "''dev''" "replicate 8 0" 90 _
          "fst (device_start_request demo_token_hash ''https://m'' ''d1'' ''dev'' (replicate 8 0) 90 demo_browser)"]) (simp add: demo_device1_def)
qed

lemma demo_session_row: "ad_sessions demo_browser = [\<lparr>ss_id = ''sb'', ss_user_id = ''u1'', ss_kind = ''browser'', ss_access_hash = ''#ab'',
    ss_access_expires_at = 5 + BROWSER_LIFETIME, ss_refresh_hash = ''#rb'', ss_refresh_expires_at = 5 + BROWSER_LIFETIME, ss_family_id = ''fb'',
    ss_revoked_at = None, ss_last_used_at = Some 5, ss_created_at = 5, ss_last_authenticated_at = Some 5\<rparr>]"
  "od_users (ad_orgs demo_browser) = [\<lparr>us_id = ''u1'', us_display_name = ''Ann'', us_status = ''active''\<rparr>]"
  "ad_devices demo_browser = []" "ad_ledger demo_browser = []"
  by (simp_all add: demo_browser_def demo_auth)

lemma demo_device1_eq: "demo_device1 = demo_browser\<lparr>ad_devices := [\<lparr>dv_id = ''d1'', dv_device_secret_hash = ''#dev'', dv_user_code_hash = ''#AAAAAAAA'',
    dv_status = ''pending'', dv_approved_user_id = None, dv_expires_at = 90 + seconds 600, dv_last_poll_at = None, dv_approved_authenticated_at = None\<rparr>]\<rparr>"
  unfolding demo_device1_def device_start_request_def demo_codes Let_def by (simp add: demo_session_row demo_token_hash_def)

lemmas demo_device = demo_device1_eq demo_session_row demo_cookies_parsed demo_codes demo_moment_def demo_token_hash_def

lemma demo_device2_rows:
  "ad_devices demo_device2 = [\<lparr>dv_id = ''d1'', dv_device_secret_hash = ''#dev'', dv_user_code_hash = ''#AAAAAAAA'', dv_status = ''approved'',
     dv_approved_user_id = Some ''u1'', dv_expires_at = 90 + seconds 600, dv_last_poll_at = None, dv_approved_authenticated_at = Some 5\<rparr>]"
  "ad_sessions demo_device2 = ad_sessions demo_browser" "od_users (ad_orgs demo_device2) = od_users (ad_orgs demo_browser)"
  "fst (device_approve demo_token_hash None (\<lambda>n db. db) demo_moment True demo_device1 demo_cookies '' aaaa-aaaa'' '''') = Inr ()"
  unfolding demo_device2_def
  by (simp_all add: device_approve_def with_services_def csrf_validate_session_def csrf_for_session_def csrf_validate_def limited_def allow_def
      count_attempt_def counted_up_to_def I32_MAX_def VERIFY_LIMIT_def validate_browser_session_def session_valid_def active_user_def user_active_def
      BROWSER_LIFETIME_def principal_of_def recent_authentication_def approve_authenticated_def approvable_def rows_affected_def demo_device
      update_where_def Let_def)

lemma demo_approved: "device_approve demo_token_hash None (\<lambda>n db. db) demo_moment True demo_device1 demo_cookies '' aaaa-aaaa'' '''' = (Inr (), demo_device2)"
  using demo_device2_rows(4) by (simp add: demo_device2_def prod_eq_iff)

lemma demo_polled: "\<exists>c. poll_device demo_token_hash (demo_seeds ''9'') (demo_moment 5) demo_device2 ''dev'' = (Inr (PollCredentials c), demo_device3) \<and> cr_session_id c = ''s9''"
  unfolding demo_device3_def
  by (simp add: poll_device_def deliver_def demo_device2_rows demo_device set_device_def update_where_def rows_affected_def create_cli_session_in_tx_def
      insert_session_row_def active_user_def user_active_def demo_seeds_def credentials_of_def and_then_def transact_def Let_def)

theorem cli_session_belongs_to_approver_witness:
  "(\<exists>t s. 102 < t + seconds 600 \<and> s \<in> set (ad_sessions demo_device3) \<and> ss_id s = ''s9'' \<and> ss_kind s = ''cli'' \<and> ss_last_authenticated_at s = Some t) \<and>
   (\<forall>sd a c' db5. poll_device demo_token_hash sd a demo_device3 ''dev'' \<noteq> (Inr (PollCredentials c'), db5))"
proof -
  obtain c where c: "poll_device demo_token_hash (demo_seeds ''9'') (demo_moment 5) demo_device2 ''dev'' = (Inr (PollCredentials c), demo_device3)" "cr_session_id c = ''s9''"
    using demo_polled by blast
  have d: "List.find (\<lambda>d. dv_device_secret_hash d = demo_token_hash ''dev'') (ad_devices demo_device2) = Some (hd (ad_devices demo_device2))"
      "dv_user_code_hash (hd (ad_devices demo_device2)) = demo_token_hash (normalize_user_code '' aaaa-aaaa'')"
    by (simp_all add: demo_device2_rows demo_device)
  show ?thesis
    using cli_session_belongs_to_approver [OF demo_device1_run quiet_id demo_approved auth_run_refl d c(1) auth_run_refl, of "{}"] c(2)
    by (force simp: demo_moment_def)
qed

theorem cli_session_ends_after_thirty_days_witness:
  "\<forall>tn a. \<not> is_some_and (validate_cli_session tn (mo_now (demo_moment 5) + seconds (30 * 24 * 60 * 60)) demo_device3 a) (\<lambda>p. pr_session_id p = ''s9'')"
proof -
  obtain c where c: "poll_device demo_token_hash (demo_seeds ''9'') (demo_moment 5) demo_device2 ''dev'' = (Inr (PollCredentials c), demo_device3)" "cr_session_id c = ''s9''"
    using demo_polled by blast
  from cli_session_ends_after_thirty_days [OF c(1) _ auth_run_refl, of "{''s9''}"] c(2) show ?thesis
    by (auto simp: is_some_and_iff)
qed

end
