(* ===== verification/Auth_Logins.thy ===== *)
theory Auth_Logins
  imports Auth_Devices
begin

text \<open>
  Login with GitHub from its start to its callback, and the rate limiter in front of every public entry point.
\<close>

section \<open>Login transactions\<close>

lemma login_future:
  assumes "auth_run hash_token taken db db'" and "l \<in> set (ad_transactions db)"
  obtains l' where "l' \<in> set (ad_transactions db')" and "login_kept l l'"
  using grows_image [of login_kept "\<lambda>_. True" "ad_transactions db" "ad_transactions db'" l] auth_run_good [OF assms(1)] assms(2)
  by (auto simp: good_def auth_evolves_def)

lemma same_state:
  assumes "auth_keys db" and "l \<in> set (ad_transactions db)" and "m \<in> set (ad_transactions db)" and "lg_state_hash l = lg_state_hash m"
  shows "l = m"
  using assms distinct_key [of lg_state_hash "ad_transactions db" l m] by (simp add: auth_keys_def)

text \<open>What the row of a consumed transaction gives, and that it is consumed.\<close>

lemma consume_login_Some:
  assumes "consume_login at db h = (Some (i, sealed, version), db')" and "auth_keys db" and "l \<in> set (ad_transactions db)" and "lg_state_hash l = h"
  shows "sealed = (case lg_encrypted_pkce_verifier l of None \<Rightarrow> '''' | Some v \<Rightarrow> v)" and "version = (case lg_pkce_key_version l of None \<Rightarrow> 1 | Some v \<Rightarrow> v)"
    and "mo_clk at < lg_expires_at l" and "l\<lparr>lg_consumed_at := Some (mo_now at)\<rparr> \<in> set (ad_transactions db')"
proof -
  obtain m where m: "List.find (live_login (mo_clk at) h) (ad_transactions db) = Some m"
      "sealed = (case lg_encrypted_pkce_verifier m of None \<Rightarrow> '''' | Some v \<Rightarrow> v)" "version = (case lg_pkce_key_version m of None \<Rightarrow> 1 | Some v \<Rightarrow> v)"
    using assms(1) by (auto simp: consume_login_def Let_def)
  have "m = l" using same_state [OF assms(2), of m l] find_SomeD [OF m(1)] assms(3,4) by (simp add: live_login_def)
  then show "sealed = (case lg_encrypted_pkce_verifier l of None \<Rightarrow> '''' | Some v \<Rightarrow> v)" "version = (case lg_pkce_key_version l of None \<Rightarrow> 1 | Some v \<Rightarrow> v)"
      "mo_clk at < lg_expires_at l"
    using m(2,3) find_SomeD [OF m(1)] by (simp_all add: live_login_def)
  have "live_login (mo_clk at) h l" using find_SomeD [OF m(1)] \<open>m = l\<close> by simp
  then show "l\<lparr>lg_consumed_at := Some (mo_now at)\<rparr> \<in> set (ad_transactions db')"
    using assms(1,3) by (auto simp: consume_login_def Let_def set_update_where intro!: bexI [of _ l])
qed

lemma consumed_login_refused:
  assumes "auth_keys db" and "l \<in> set (ad_transactions db)" and "lg_state_hash l = h" and "lg_consumed_at l \<noteq> None"
  shows "fst (consume_login at db h) = None"
proof -
  have "\<not> live_login (mo_clk at) h m" if "m \<in> set (ad_transactions db)" for m
    using same_state [OF assms(1,2) that] assms(3,4) by (metis live_login_def)
  then show ?thesis by (simp add: consume_login_def Let_def find_None_iff)
qed

lemma login_start_Inr:
  assumes "login_start hash_token w cfg i state verifier clk db next = (Inr (url, tx), db1)"
  obtains key sealed l where "ac_master_key cfg = Some key" and "safe_redirect_target next = Inr next"
    and "en_seal (lw_derive w key ''oauth_pkce'' 1) (lw_to_vec w (login_payload verifier next)) = Inr sealed"
    and "l \<in> set (ad_transactions db1)" and "lg_state_hash l = hash_token state" and "lg_encrypted_pkce_verifier l = Some sealed"
    and "lg_pkce_key_version l = Some (en_version (lw_derive w key ''oauth_pkce'' 1))" and "tx = state" and "lg_expires_at l = clk + seconds 600"
    and "create_login i clk db (hash_token state) sealed (en_version (lw_derive w key ''oauth_pkce'' 1)) = (Inr i, db1)"
proof -
  obtain target env sealed where s: "safe_redirect_target next = Inr target" "envelope_cipher (lw_derive w) cfg ''oauth_pkce'' = Inr env"
      "en_seal env (lw_to_vec w (login_payload verifier target)) = Inr sealed"
      "proceed (create_login i clk db (hash_token state) sealed (en_version env)) (\<lambda>_ db1.
          (Inr (lw_authorize_url w \<lparr>az_client_id = ac_client_id cfg, az_redirect_uri = ac_public_url cfg @ ''/auth/github/callback'',
                  az_state = state, az_code_challenge = lw_challenge w verifier\<rparr>, state), db1)) = (Inr (url, tx), db1)"
    using assms by (auto simp: login_start_def and_then_Inr split: if_splits sum.splits)
  then have "target = next" by (simp add: safe_redirect_target_def split: if_splits)
  moreover obtain key where "ac_master_key cfg = Some key" "env = lw_derive w key ''oauth_pkce'' 1"
    using s(2) by (auto simp: envelope_cipher_def split: option.splits)
  moreover have "create_login i clk db (hash_token state) sealed (en_version env) = (Inr i, db1)" "tx = state"
    using s(4) by (auto simp: proceed_Inr create_login_def split: if_splits)
  moreover from this obtain l where "l \<in> set (ad_transactions db1)" "lg_state_hash l = hash_token state" "lg_encrypted_pkce_verifier l = Some sealed"
      "lg_pkce_key_version l = Some (en_version env)" "lg_expires_at l = clk + seconds 600"
    by (force simp: create_login_def split: if_splits)
  ultimately show ?thesis using s(1,3) by (intro that [of key sealed l]) simp_all
qed

section \<open>The callback\<close>

lemma create_browser_session_row:
  assumes "create_browser_session hash_token seeds app tnow db user = (Inr c, db1)"
  shows "\<exists>row \<in> set (ad_sessions db1). ss_id row = cr_session_id c \<and> ss_user_id row = user \<and> ss_kind row = ''browser''"
  using assms by (auto simp: create_browser_session_def create_session_def and_then_Inr transact_def credentials_of_def insert_session_row_def
      split: sum.splits if_splits elim!: insert_user_session_Inr)

lemma session_future:
  assumes "auth_run hash_token taken db db'" and "s \<in> set (ad_sessions db)"
  obtains s' where "s' \<in> set (ad_sessions db')" and "session_kept s s'"
  using grows_image [of session_kept "session_fresh taken" "ad_sessions db" "ad_sessions db'" s] auth_run_good [OF assms(1)] assms(2)
  by (auto simp: good_def auth_evolves_def)

lemma login_user_Inr:
  assumes "login_user hash_token w seeds new_user others moment db code verifier target = (Inr (t, token), db')"
    and "quiet_others hash_token taken others" and "new_seeds taken seeds"
  obtains github gu user s created where "lw_exchange_code w code verifier = Inr github" and "lw_fetch_user w github = Inr gu"
    and "fst (find_or_create_user new_user (others 1 db) ''github'' (show_int (gu_id gu)) (gu_login gu)
          (case gu_display_name gu of None \<Rightarrow> gu_login gu | Some n \<Rightarrow> n)) = Inr (user, created)"
    and "safe_redirect_target target = Inr t" and "token = sd_access seeds" and "auth_run hash_token taken db db'"
    and "s \<in> set (ad_sessions db')" and "ss_id s = sd_session_id seeds" and "ss_user_id s = user" and "ss_kind s = ''browser''"
proof -
  obtain github gu where g: "lw_exchange_code w code verifier = Inr github" "lw_fetch_user w github = Inr gu"
    using assms(1) by (auto simp: login_user_def and_then_Inr split: sum.splits)
  obtain user created db1 where u: "find_or_create_user new_user (others 1 db) ''github'' (show_int (gu_id gu)) (gu_login gu)
          (case gu_display_name gu of None \<Rightarrow> gu_login gu | Some n \<Rightarrow> n) = (Inr (user, created), db1)"
    using assms(1) g by (auto simp: login_user_def proceed_Inr)
  obtain c db2 where c: "create_browser_session hash_token seeds (mo_app (moment 2)) (mo_now (moment 2)) (others 2 db1) user = (Inr c, db2)"
      "and_then (safe_redirect_target target) (\<lambda>t. Inr (t, cr_access_token c)) = Inr (t, token)"
      "db' = record_recent_auth (mo_now (moment 3)) (others 3 db2) (cr_session_id c)"
    using assms(1) g u by (auto simp: login_user_def proceed_Inr)
  have seeds: "cr_access_token c = sd_access seeds" "cr_session_id c = sd_session_id seeds"
    using c(1) by (auto simp: create_browser_session_def create_session_def and_then_Inr transact_def credentials_of_def split: sum.splits)
  obtain row where row: "row \<in> set (ad_sessions db2)" "ss_id row = cr_session_id c" "ss_user_id row = user" "ss_kind row = ''browser''"
    using create_browser_session_row [OF c(1)] by blast
  have quiet: "auth_run hash_token taken x (others n x)" for n x using assms(2) by (simp add: quiet_others_def)
  have steps: "auth_run hash_token taken (others 1 db) db1" "auth_run hash_token taken (others 2 db1) db2" "auth_run hash_token taken (others 3 db2) db'"
    using s_user [OF u] s_browser [OF c(1) assms(3)] s_recent auth_run_refl reach_step unfolding c(3) by metis+
  have "auth_run hash_token taken db2 db'" using steps(3) quiet auth_run_trans by blast
  then obtain s where "s \<in> set (ad_sessions db')" "session_kept row s" using session_future row(1) by metis
  moreover have "auth_run hash_token taken db db'" using steps quiet auth_run_trans by metis
  ultimately show ?thesis using that g u c(2) seeds row(2-4) by (auto simp: and_then_Inr session_kept_def)
qed

lemma login_callback_Inr:
  assumes "login_callback hash_token w cfg seeds new_user others moment db raw_state cookie_state code next = (Inr (t, token), db')"
  obtains i sealed version db1 verifier target where "cookie_state = raw_state"
    and "consume_login (moment 0) (others 0 db) (hash_token raw_state) = (Some (i, sealed, version), db1)"
    and "open_login w cfg sealed version = Inr (verifier, target)"
    and "login_user hash_token w seeds new_user others moment db1 code verifier target = (Inr (t, token), db')"
  using assms by (auto simp: login_callback_def split: if_splits sum.splits prod.splits option.splits intro!: that)


lemma registered_user:
  assumes "fst (find_or_create_user new_user db provider subject login name) = Inr (user, created)"
  shows "let orgs = ad_orgs db in case List.find (\<lambda>i. id_provider i = provider \<and> id_subject i = subject) (od_identities orgs) of
      Some i \<Rightarrow> user = id_user_id i | None \<Rightarrow> user = new_user \<and> new_user \<notin> us_id ` set (od_users orgs)"
  using assms by (auto simp: find_or_create_user_def Let_def list_ex_iff split: option.splits if_splits)

text \<open>The callback opens exactly what the start has sealed.\<close>

lemma open_login_sealed:
  assumes "\<And>k x y. en_seal (lw_derive w k ''oauth_pkce'' 1) x = Inr y \<Longrightarrow> en_open (lw_derive w k ''oauth_pkce'' 1) y = Inr x"
    and "\<And>v t. lw_from_slice w (lw_to_vec w (login_payload v t)) = Some (login_payload v t)" and "ac_master_key cfg = Some key"
    and "en_seal (lw_derive w key ''oauth_pkce'' 1) (lw_to_vec w (login_payload verifier target)) = Inr sealed"
  shows "open_login w cfg sealed 1 = Inr (verifier, target)"
  using assms(2) by (simp add: open_login_def envelope_cipher_for_version_def assms(3) assms(1) [OF assms(4)]) (simp add: login_payload_def)

lemma login_callback_refused:
  assumes "auth_keys (others 0 db)" and "l \<in> set (ad_transactions (others 0 db))" and "lg_state_hash l = hash_token state" and "lg_consumed_at l \<noteq> None"
  shows "login_callback hash_token w cfg seeds new_user others moment db state cookie code next \<noteq> (Inr r, db')"
proof
  assume a: "login_callback hash_token w cfg seeds new_user others moment db state cookie code next = (Inr r, db')"
  obtain t token where "r = (t, token)" by (cases r)
  with a show False using consumed_login_refused [OF assms, of "moment 0"] by (auto elim!: login_callback_Inr)
qed

lemma used_state_refused:
  assumes "auth_reach hash_token db" and "l \<in> set (ad_transactions db)" and "lg_state_hash l = hash_token state" and "lg_consumed_at l \<noteq> None"
    and "auth_run hash_token taken db db'" and "quiet_others hash_token taken others"
  shows "login_callback hash_token w cfg seeds new_user others moment db' state cookie code next \<noteq> (Inr r, db'')"
proof -
  have later: "auth_run hash_token taken db (others 0 db')" using assms(5,6) auth_run_trans unfolding quiet_others_def by metis
  obtain e where e: "e \<in> set (ad_transactions (others 0 db'))" "login_kept l e" using login_future [OF later assms(2)] by blast
  have "auth_keys (others 0 db')" using auth_reach_keys auth_reach_run assms(1) later by metis
  moreover have "lg_state_hash e = hash_token state" "lg_consumed_at e \<noteq> None" using e(2) assms(3,4) by (auto simp: login_kept_def)
  ultimately show ?thesis using login_callback_refused e(1) by blast
qed

text \<open>
  C29 (roundtrip). A login ends where it began. If the callback succeeds for the state that a start handed out, whatever the others did,
  its cookie carried the same state, the redirect goes to exactly the target the login was started with, the code was
  exchanged with the verifier of that start, and the new browser session is the one of the user registered for the GitHub identity
  that came back: the user of the identity row with this GitHub id, as the table is right after the state was used and before the next statement, or, if there is none, the
  new user, who had no account. The state never succeeds again. Of the cipher and the JSON reader only that they undo sealing and printing is used.
\<close>

theorem login_returns_where_it_started:
  assumes "auth_reach hash_token db" and "login_start hash_token w cfg i state verifier clk db next = (Inr (url, tx), db1)"
    and "auth_run hash_token taken db1 db2" and "quiet_others hash_token taken others" and "new_seeds taken seeds"
    and "login_callback hash_token w cfg seeds new_user others moment db2 tx cookie code nx = (Inr (target, token), db3)"
    and sealing: "\<And>k x y. en_seal (lw_derive w k ''oauth_pkce'' 1) x = Inr y \<Longrightarrow> en_open (lw_derive w k ''oauth_pkce'' 1) y = Inr x"
    and version: "\<And>k. en_version (lw_derive w k ''oauth_pkce'' 1) = 1" and reading: "\<And>v t. lw_from_slice w (lw_to_vec w (login_payload v t)) = Some (login_payload v t)"
    and "auth_run hash_token taken db3 db4" and "quiet_others hash_token taken others'"
  shows "cookie = tx \<and> target = next \<and>
    (\<exists>github gu s. lw_exchange_code w code verifier = Inr github \<and> lw_fetch_user w github = Inr gu \<and>
       s \<in> set (ad_sessions db3) \<and> ss_id s = sd_session_id seeds \<and> ss_kind s = ''browser'' \<and> token = sd_access seeds \<and>
       (let orgs = ad_orgs (others 1 (snd (consume_login (moment 0) (others 0 db2) (hash_token tx)))) in
        case List.find (\<lambda>i. id_provider i = ''github'' \<and> id_subject i = show_int (gu_id gu)) (od_identities orgs) of
          Some i \<Rightarrow> ss_user_id s = id_user_id i
        | None \<Rightarrow> ss_user_id s = new_user \<and> new_user \<notin> us_id ` set (od_users orgs))) \<and>
    (\<forall>sd u m ck cd n r db5. login_callback hash_token w cfg sd u others' m db4 tx ck cd n \<noteq> (Inr r, db5))"
proof -
  have reach: "auth_reach hash_token x" if "auth_run hash_token taken db1 x" for x
  proof -
    obtain key sealed where "create_login i clk db (hash_token state) sealed (en_version (lw_derive w key ''oauth_pkce'' 1)) = (Inr i, db1)"
      using assms(2) by (rule login_start_Inr)
    then show ?thesis using assms(1) s_create_login reach_step that auth_reach_run by metis
  qed
  obtain key sealed l where l: "ac_master_key cfg = Some key" "safe_redirect_target next = Inr next"
      "en_seal (lw_derive w key ''oauth_pkce'' 1) (lw_to_vec w (login_payload verifier next)) = Inr sealed" "l \<in> set (ad_transactions db1)"
      "lg_state_hash l = hash_token state" "lg_encrypted_pkce_verifier l = Some sealed" "lg_pkce_key_version l = Some 1" "tx = state"
    using login_start_Inr [OF assms(2)] version by metis
  obtain j opened v d1 verifier' target' where c: "cookie = tx" "consume_login (moment 0) (others 0 db2) (hash_token tx) = (Some (j, opened, v), d1)"
      "open_login w cfg opened v = Inr (verifier', target')"
      "login_user hash_token w seeds new_user others moment d1 code verifier' target' = (Inr (target, token), db3)"
    using assms(6) by (rule login_callback_Inr)
  have run: "auth_run hash_token taken db1 (others 0 db2)" using assms(3,4) auth_run_trans unfolding quiet_others_def by blast
  obtain l' where l': "l' \<in> set (ad_transactions (others 0 db2))" "login_kept l l'" using login_future [OF run l(4)] by blast
  note row = consume_login_Some [OF c(2) auth_reach_keys [OF reach [OF run]] l'(1)]
  have same: "lg_state_hash l' = hash_token tx" "lg_encrypted_pkce_verifier l' = Some sealed" "lg_pkce_key_version l' = Some 1"
    using l l'(2) by (auto simp: login_kept_def)
  then have "opened = sealed" "v = 1" using row(1,2) by simp_all
  then have opened: "verifier' = verifier" "target' = next"
    using c(3) open_login_sealed [OF sealing reading l(1,3)] by simp_all
  obtain github gu user s created where u: "lw_exchange_code w code verifier' = Inr github" "lw_fetch_user w github = Inr gu"
      "fst (find_or_create_user new_user (others 1 d1) ''github'' (show_int (gu_id gu)) (gu_login gu)
          (case gu_display_name gu of None \<Rightarrow> gu_login gu | Some n \<Rightarrow> n)) = Inr (user, created)"
      "safe_redirect_target target' = Inr target" "token = sd_access seeds" "auth_run hash_token taken d1 db3"
      "s \<in> set (ad_sessions db3)" "ss_id s = sd_session_id seeds" "ss_user_id s = user" "ss_kind s = ''browser''"
    using c(4) assms(4,5) by (rule login_user_Inr)
  have d1: "auth_run hash_token taken (others 0 db2) d1" using s_consume_login [OF c(2)] auth_run_refl reach_step by metis
  have "l'\<lparr>lg_consumed_at := Some (mo_now (moment 0))\<rparr> \<in> set (ad_transactions d1)" using row(4) same(1) by blast
  moreover have "auth_reach hash_token d1" "auth_run hash_token taken d1 db4"
    using reach run d1 u(6) assms(10) auth_run_trans by metis+
  ultimately have "login_callback hash_token w cfg sd nu others' m db4 tx ck cd n \<noteq> (Inr r, db5)" for sd nu m ck cd n r db5
    using used_state_refused [OF _ _ _ _ _ assms(11), of d1 "l'\<lparr>lg_consumed_at := Some (mo_now (moment 0))\<rparr>" tx db4] same(1) by simp
  moreover have "target = next" using u(4) opened(2) l(2) by simp
  moreover have "let orgs = ad_orgs (others 1 (snd (consume_login (moment 0) (others 0 db2) (hash_token tx)))) in
        case List.find (\<lambda>i. id_provider i = ''github'' \<and> id_subject i = show_int (gu_id gu)) (od_identities orgs) of
          Some i \<Rightarrow> ss_user_id s = id_user_id i
        | None \<Rightarrow> ss_user_id s = new_user \<and> new_user \<notin> us_id ` set (od_users orgs)"
    using registered_user [OF u(3)] unfolding u(9) c(2) snd_conv .
  ultimately show ?thesis using c(1) u(1,2,5,7,8,10) opened(1) by blast
qed

text \<open>A world in which sealing does nothing and a payload is printed with the length of its verifier in unary.\<close>

fun demo_to_vec :: "json \<Rightarrow> string" where
  "demo_to_vec (JObj [(_, JStr v), (_, JStr t)]) = replicate (length v) (CHR ''x'') @ CHR ''.'' # v @ t"
| "demo_to_vec _ = ''''"

definition demo_from_slice :: "string \<Rightarrow> json option" where
  "demo_from_slice s = (let n = length (takeWhile (\<lambda>c. c = CHR ''x'') s) in
     Some (login_payload (take n (drop (Suc n) s)) (drop n (drop (Suc n) s))))"

lemma demo_reading: "demo_from_slice (demo_to_vec (login_payload v t)) = Some (login_payload v t)"
proof -
  have "takeWhile (\<lambda>c. c = CHR ''x'') (replicate n (CHR ''x'') @ CHR ''.'' # r) = replicate n (CHR ''x'')" for n r
    by (induction n) auto
  then show ?thesis by (simp add: demo_from_slice_def login_payload_def)
qed

definition demo_world :: LoginWorld where
  "demo_world = \<lparr>lw_authorize_url = az_redirect_uri, lw_exchange_code = (\<lambda>c v. Inr (c @ v)),
     lw_fetch_user = (\<lambda>_. Inr \<lparr>gu_id = 7, gu_login = ''ann'', gu_display_name = None\<rparr>),
     lw_derive = (\<lambda>k p v. \<lparr>en_version = v, en_seal = Inr, en_open = Inr\<rparr>),
     lw_parse_url = (\<lambda>_. Some \<lparr>ur_scheme = ''https'', ur_username = '''', ur_password = None, ur_host = Some ''m'', ur_path = ''/'', ur_query = None, ur_fragment = None\<rparr>),
     lw_to_vec = demo_to_vec, lw_from_slice = demo_from_slice, lw_challenge = id\<rparr>"

lemma demo_world_login: "lw_exchange_code demo_world c v = Inr (c @ v)" "lw_fetch_user demo_world t = Inr \<lparr>gu_id = 7, gu_login = ''ann'', gu_display_name = None\<rparr>"
  by (simp_all add: demo_world_def)

definition demo_config :: AuthConfig where
  "demo_config = \<lparr>ac_client_id = ''id'', ac_public_url = ''https://m'', ac_cookie_secure = True, ac_allow_loopback = False, ac_master_key = Some ''k''\<rparr>"

definition demo_login1 :: AuthDb where
  "demo_login1 = snd (login_start demo_token_hash demo_world demo_config ''l1'' ''st'' ''ver'' 50 demo_auth0 ''/api/v1/me'')"

definition demo_login2 :: AuthDb where
  "demo_login2 = snd (login_callback demo_token_hash demo_world demo_config (demo_seeds ''5'') ''u2'' (\<lambda>n db. db) demo_moment demo_login1 ''st'' ''st'' ''code'' '''')"

lemma demo_texts: "\<not> blank ''id''" "safe_redirect_target ''/api/v1/me'' = Inr ''/api/v1/me''" "show_int 7 = ''7''"
  by code_simp+

lemma demo_login_started:
  "login_start demo_token_hash demo_world demo_config ''l1'' ''st'' ''ver'' 50 demo_auth0 ''/api/v1/me'' = (Inr (''https://m/auth/github/callback'', ''st''), demo_login1)"
  by (simp add: demo_login1_def login_start_def demo_config_def demo_world_def demo_texts validate_origin_def envelope_cipher_def
      create_login_def demo_auth0_def)

lemma demo_login1_row: "demo_login1 = demo_auth0\<lparr>ad_transactions := [\<lparr>lg_id = ''l1'', lg_purpose = ''login'', lg_state_hash = ''#st'',
    lg_encrypted_pkce_verifier = Some (demo_to_vec (login_payload ''ver'' ''/api/v1/me'')), lg_pkce_key_version = Some 1,
    lg_expires_at = 50 + seconds 600, lg_consumed_at = None\<rparr>]\<rparr>"
  by (simp add: demo_login1_def login_start_def demo_config_def demo_world_def demo_texts validate_origin_def envelope_cipher_def
      create_login_def demo_auth0_def demo_token_hash_def)

lemma demo_logged_in:
  "login_callback demo_token_hash demo_world demo_config (demo_seeds ''5'') ''u2'' (\<lambda>n db. db) demo_moment demo_login1 ''st'' ''st'' ''code'' '''' =
    (Inr (''/api/v1/me'', ''a5''), demo_login2)"
proof -
  have opened: "open_login demo_world demo_config (demo_to_vec (login_payload ''ver'' ''/api/v1/me'')) 1 = Inr (''ver'', ''/api/v1/me'')"
    by (rule open_login_sealed [where key = "''k''"]) (simp_all add: demo_world_def demo_config_def demo_reading)
  have consumed: "\<exists>db1. consume_login (demo_moment 0) demo_login1 (demo_token_hash ''st'') =
      (Some (''l1'', demo_to_vec (login_payload ''ver'' ''/api/v1/me''), 1), db1) \<and> ad_orgs db1 = ad_orgs demo_auth0 \<and> ad_sessions db1 = []"
    by (simp add: consume_login_def live_login_def demo_login1_row demo_moment_def demo_token_hash_def demo_auth0_def)
  have "fst (login_callback demo_token_hash demo_world demo_config (demo_seeds ''5'') ''u2'' (\<lambda>n db. db) demo_moment demo_login1 ''st'' ''st'' ''code'' '''') =
      Inr (''/api/v1/me'', ''a5'')"
    using consumed by (auto simp: login_callback_def opened login_user_def demo_world_login find_or_create_user_def demo_texts demo_auth demo_moment_def)
  then show ?thesis by (simp add: demo_login2_def prod_eq_iff)
qed

theorem login_returns_where_it_started_witness:
  "(\<exists>s. s \<in> set (ad_sessions demo_login2) \<and> ss_id s = ''s5'' \<and> ss_kind s = ''browser'') \<and>
   (\<forall>sd u m ck cd n r db5. login_callback demo_token_hash demo_world demo_config sd u (\<lambda>n db. db) m demo_login2 ''st'' ck cd n \<noteq> (Inr r, db5))"
proof -
  have start: "auth_reach demo_token_hash demo_auth0" by (rule reach_init) (simp add: auth_start_def demo_auth0_def)
  have seeds: "new_seeds {} (demo_seeds ''5'')" by (simp add: new_seeds_def)
  show ?thesis
    using login_returns_where_it_started [OF start demo_login_started auth_run_refl quiet_id seeds demo_logged_in _ _ _ auth_run_refl quiet_id]
    by (force simp: demo_world_def demo_reading demo_seeds_def)
qed

end
