(* ===== verification/Organization_Routes.thy ===== *)
theory Organization_Routes
  imports Auth_Logins
begin

text \<open>
  The routes that change organizations: \<open>src/crates/openflows-manager/src/routes/organizations.rs\<close> and \<open>routes/invitations.rs\<close>, on top of the
  session service and the organization service. A request is authenticated first, then checked for its CSRF token, then
  handed to the service. The store is the idempotency keys and the database; identifiers, hashes of
  requests, the GitHub lookup and the UUID reader are the \<open>OrgWorld\<close>. Statement \<open>n\<close> of a handler runs at \<open>moment n\<close> on what
  \<open>others n\<close> leaves.
\<close>

type_synonym OrgStore = "IdempotencyRow list \<times> AuthDb"

record OrgWorld =
  ow_hash_token :: "string \<Rightarrow> string"
  ow_parse_uuid :: "string \<Rightarrow> string option"
  ow_resolve_login :: "string \<Rightarrow> (int \<times> string) managed"
  ow_request_hash :: "string list \<Rightarrow> string"
  ow_key_id :: string
  ow_new_id :: string
  ow_op_id :: string
  ow_event_id :: string
  ow_secret :: string
  ow_parse_i64 :: "string \<Rightarrow> int option"
  ow_platform_operator :: "string \<Rightarrow> bool"

section \<open>What every handler does first\<close>

definition request_id :: "headers \<Rightarrow> string" where
  "request_id headers = (case header_get headers ''x-request-id'' of None \<Rightarrow> '''' | Some r \<Rightarrow> r)"

definition idempotency_key :: "headers \<Rightarrow> string managed" where
  "idempotency_key headers =
     (case header_get headers ''idempotency-key'' of
        Some k \<Rightarrow> if \<not> blank k \<and> length k \<le> 255 then Inr k else Inl (InvalidInput ''Idempotency-Key header is required (1-255 bytes)'')
      | None \<Rightarrow> Inl (InvalidInput ''Idempotency-Key header is required (1-255 bytes)''))"

definition parse_org :: "OrgWorld \<Rightarrow> string \<Rightarrow> string managed" where
  "parse_org w s = (case ow_parse_uuid w s of None \<Rightarrow> Inl (not_found ''organization'') | Some i \<Rightarrow> Inr i)"

definition parse_user :: "OrgWorld \<Rightarrow> string \<Rightarrow> string managed" where
  "parse_user w s = (case ow_parse_uuid w s of None \<Rightarrow> Inl (InvalidInput ''invalid user id'') | Some i \<Rightarrow> Inr i)"

text \<open>\<open>authenticated_user\<close> and \<open>require_csrf_for_browser\<close>, the first two calls of every mutation.\<close>

definition mutation_caller :: "OrgWorld \<Rightarrow> Moment \<Rightarrow> AuthDb \<Rightarrow> headers \<Rightarrow> AuthPrincipal managed" where
  "mutation_caller w at db headers =
     and_then (authenticated_user (ow_hash_token w) (mo_now at) (mo_clk at) db headers) (\<lambda>who.
       and_then (require_csrf_for_browser (ow_hash_token w) who headers) (\<lambda>_. Inr who))"

text \<open>A service call on the organizations of the database.\<close>

definition on_orgs :: "OrgStore \<Rightarrow> 'a managed \<times> OrgDb \<Rightarrow> 'a managed \<times> OrgStore" where
  "on_orgs st r = (fst r, fst st, (snd st)\<lparr>ad_orgs := snd r\<rparr>)"

definition on_keyed :: "OrgStore \<Rightarrow> 'a managed \<times> IdempotencyRow list \<times> OrgDb \<Rightarrow> 'a managed \<times> OrgStore" where
  "on_keyed st r = (case r of (v, keys, orgs) \<Rightarrow> (v, keys, (snd st)\<lparr>ad_orgs := orgs\<rparr>))"

text \<open>An answer without an identifier.\<close>

definition answered :: "'a managed \<times> OrgStore \<Rightarrow> string managed \<times> OrgStore" where
  "answered r = (map_sum id (\<lambda>_. '''') (fst r), snd r)"

definition orgs_of :: "OrgStore \<Rightarrow> IdempotencyRow list \<times> OrgDb" where
  "orgs_of st = (fst st, ad_orgs (snd st))"

definition parsed_role :: "string option \<Rightarrow> MembershipRole option managed" where
  "parsed_role r = (case r of None \<Rightarrow> Inr None | Some s \<Rightarrow>
     (case role_from_str s of Inl _ \<Rightarrow> Inl (InvalidInput ''invalid role'') | Inr x \<Rightarrow> Inr (Some x)))"

definition parsed_status :: "string option \<Rightarrow> MembershipStatus option managed" where
  "parsed_status r = (case r of None \<Rightarrow> Inr None | Some s \<Rightarrow>
     (case status_from_str s of Inl _ \<Rightarrow> Inl (InvalidInput ''invalid status'') | Inr x \<Rightarrow> Inr (Some x)))"

definition github_subject :: "OrgWorld \<Rightarrow> AuthDb \<Rightarrow> string \<Rightarrow> int option" where
  "github_subject w db user =
     Option.bind (List.find (\<lambda>i. id_user_id i = user \<and> id_provider i = ''github'') (od_identities (ad_orgs db))) (\<lambda>i. ow_parse_i64 w (id_subject i))"

section \<open>The mutations\<close>

datatype OrgRequest =
    CreateOrg string string
  | UpdateOrg string "string option"
  | UpdateMember string string "string option" "string option"
  | RemoveMember string string
  | CreateInvitation string string string
  | RevokeInvitation string string
  | TransferOwnership string string
  | DeleteOrg string
  | AcceptInvitation string
  | RetryOperation string

definition accept_route ::
  "OrgWorld \<Rightarrow> instant option \<Rightarrow> (nat \<Rightarrow> OrgStore \<Rightarrow> OrgStore) \<Rightarrow> (nat \<Rightarrow> Moment) \<Rightarrow> OrgStore \<Rightarrow> AuthPrincipal \<Rightarrow> headers \<Rightarrow> string \<Rightarrow> string \<Rightarrow> string managed \<times> OrgStore" where
  "accept_route w sweep others moment st who headers token missing =
     (let st1 = others 1 st in
      case allow (ow_hash_token w) (mo_clk (moment 1)) sweep (snd st1) (ap_user_id who) Invitation 30 of (ok, db2) \<Rightarrow>
        if \<not> ok then (Inl (retryable (api ''RATE_LIMITED'' ''too many attempts'') True), fst st1, db2)
        else
          let st2 = others 2 (fst st1, db2) in
          (case github_subject w (snd st2) (ap_user_id who) of
             None \<Rightarrow> (Inl (api ''UNAUTHORIZED'' missing), st2)
           | Some subject \<Rightarrow>
               let st3 = others 3 st2 in
               on_orgs st3 (accept_invitation (mo_now (moment 3)) (mo_clk (moment 3)) (ad_orgs (snd st2)) (ad_orgs (snd st3)) (ap_user_id who) subject
                 (ow_hash_token w token) (request_id headers))))"

text \<open>Who may see an operation, and who may retry it.\<close>

definition get_for_user :: "OrgDb \<Rightarrow> string \<Rightarrow> string \<Rightarrow> OperationRow option" where
  "get_for_user db i caller =
     List.find (\<lambda>r. op_id r = i \<and>
       list_ex (\<lambda>m. mb_organization_id m = op_organization_id r \<and> mb_user_id m = caller \<and> mb_status m = Active \<and>
         list_ex (\<lambda>u. us_id u = mb_user_id m \<and> us_status u = ''active'') (od_users db) \<and>
         list_ex (\<lambda>g. og_id g = mb_organization_id m \<and> og_status g \<noteq> ''deleted'') (od_organizations db)) (od_memberships db))
       (db_operations (od_queue db))"

definition operation_for_caller :: "OrgWorld \<Rightarrow> OrgDb \<Rightarrow> string \<Rightarrow> string \<Rightarrow> OperationRow managed" where
  "operation_for_caller w db i caller =
     (case get_for_user db i caller of
        Some r \<Rightarrow> Inr r
      | None \<Rightarrow>
          if \<not> ow_platform_operator w caller then Inl (not_found ''operation'')
          else (case List.find (\<lambda>r. op_id r = i \<and> op_kind r = ''template.promote'') (db_operations (od_queue db)) of
              None \<Rightarrow> Inl (not_found ''operation'')
            | Some r \<Rightarrow>
               (case get_scoped (od_queue db) (op_organization_id r) i of None \<Rightarrow> Inl (not_found ''operation'') | Some r \<Rightarrow> Inr r)))"

definition admin_retry_kinds :: "string list" where
  "admin_retry_kinds = [''tenant.delete'', ''tenant.clean'', ''tenant.clean_all'', ''organization.provision'']"

definition may_retry :: "OrgWorld \<Rightarrow> OrgDb \<Rightarrow> string \<Rightarrow> OperationRow \<Rightarrow> unit managed" where
  "may_retry w db caller operation =
     (case membership_and_org db (op_organization_id operation) caller of (membership, state) \<Rightarrow>
        if op_kind operation = ''template.promote''
        then if ow_platform_operator w caller then Inr ()
             else Inl (api ''PLATFORM_OPERATOR_REQUIRED'' ''only a platform operator may retry template promotion'')
        else if op_kind operation \<in> set admin_retry_kinds then require_admin membership state
        else require_developer membership state)"

definition retry_mutation :: "instant \<Rightarrow> instant \<Rightarrow> string \<Rightarrow> string \<Rightarrow> OrgDb \<Rightarrow> (string \<times> OrgDb) managed" where
  "retry_mutation tnow clk i org db =
     and_then (retry_in_tx tnow clk (od_queue db) i org) (\<lambda>q. Inr (i, db\<lparr>od_queue := q\<rparr>))"

definition retry_route ::
  "OrgWorld \<Rightarrow> (nat \<Rightarrow> OrgStore \<Rightarrow> OrgStore) \<Rightarrow> (nat \<Rightarrow> Moment) \<Rightarrow> OrgStore \<Rightarrow> AuthPrincipal \<Rightarrow> headers \<Rightarrow> string \<Rightarrow> string managed \<times> OrgStore" where
  "retry_route w others moment st who headers op =
     (let st1 = others 1 st; st2 = others 2 st1 in
      case and_then (idempotency_key headers) (\<lambda>key.
             and_then (case ow_parse_uuid w op of None \<Rightarrow> Inl (not_found ''operation'') | Some i \<Rightarrow> Inr i) (\<lambda>i.
             and_then (operation_for_caller w (ad_orgs (snd st1)) i (ap_user_id who)) (\<lambda>operation.
             and_then (may_retry w (ad_orgs (snd st2)) (ap_user_id who) operation) (\<lambda>_. Inr (key, i, op_organization_id operation))))) of
        Inl e \<Rightarrow> (Inl e, st2)
      | Inr (key, i, org) \<Rightarrow>
          let st3 = others 3 st2 in
          on_keyed st3 (case execute_inner (ow_key_id w) (mo_clk (moment 3)) (orgs_of st3)
              \<lparr>ir_actor_id = ap_user_id who, ir_organization_id = Some org, ir_route = ''POST /operations/{id}/retry'', ir_key = key,
               ir_request_hash = ow_request_hash w [i]\<rparr> (retry_mutation (mo_now (moment 3)) (mo_clk (moment 3)) i org) of
            (r, st') \<Rightarrow> (map_sum id (\<lambda>outcome. case outcome of New v \<Rightarrow> v | Replay v \<Rightarrow> v) r, st')))"

text \<open>\<open>has_recent_auth(\<dots>).unwrap_or(false)\<close>.\<close>

definition fresh_login :: "Moment \<Rightarrow> AuthDb \<Rightarrow> AuthPrincipal \<Rightarrow> bool" where
  "fresh_login at db who = (case has_recent_auth (mo_app at) db (ap_session_id who) of None \<Rightarrow> False | Some b \<Rightarrow> b)"

definition transfer_route ::
  "OrgWorld \<Rightarrow> (nat \<Rightarrow> OrgStore \<Rightarrow> OrgStore) \<Rightarrow> (nat \<Rightarrow> Moment) \<Rightarrow> OrgStore \<Rightarrow> AuthPrincipal \<Rightarrow> headers \<Rightarrow> string \<Rightarrow> string \<Rightarrow> string managed \<times> OrgStore" where
  "transfer_route w others moment st1 who headers org user =
     (case and_then (parse_org w org) (\<lambda>o'. and_then (parse_user w user) (\<lambda>u. Inr (o', u))) of
        Inl e \<Rightarrow> (Inl e, st1)
      | Inr (o', u) \<Rightarrow>
          let st2 = others 2 st1 in
          answered (on_orgs st2 (transfer_ownership (mo_now (moment 2)) (ad_orgs (snd st2)) (ap_user_id who) o' u (fresh_login (moment 1) (snd st1) who)
            (request_id headers))))"

definition delete_route ::
  "OrgWorld \<Rightarrow> (nat \<Rightarrow> OrgStore \<Rightarrow> OrgStore) \<Rightarrow> (nat \<Rightarrow> Moment) \<Rightarrow> OrgStore \<Rightarrow> AuthPrincipal \<Rightarrow> headers \<Rightarrow> string \<Rightarrow> string managed \<times> OrgStore" where
  "delete_route w others moment st1 who headers org =
     (case and_then (parse_org w org) (\<lambda>o'. and_then (idempotency_key headers) (\<lambda>k. Inr (o', k))) of
        Inl e \<Rightarrow> (Inl e, st1)
      | Inr (o', key) \<Rightarrow>
          let st2 = others 2 st1; st3 = others 3 st2 in
          on_keyed st3 (request_deletion_idempotent (ow_parse_uuid w) (ow_key_id w) (ow_op_id w) (ow_event_id w) (mo_now (moment 3)) (mo_clk (moment 3))
            (ad_orgs (snd st2)) (orgs_of st3) (ap_user_id who) o' (fresh_login (moment 1) (snd st1) who) key (ow_request_hash w [o']) (request_id headers)))"

text \<open>The handlers after authentication; a value answered is the identifier the response names, if any.\<close>

definition create_org_route :: "OrgWorld \<Rightarrow> Moment \<Rightarrow> OrgStore \<Rightarrow> AuthPrincipal \<Rightarrow> headers \<Rightarrow> string \<Rightarrow> string \<Rightarrow> string managed \<times> OrgStore" where
  "create_org_route w at st who headers slug name =
     (case idempotency_key headers of Inl e \<Rightarrow> (Inl e, st) | Inr key \<Rightarrow>
        on_keyed st (case create_org (ow_parse_uuid w) (ow_key_id w) (ow_new_id w) (ow_op_id w) (ow_event_id w) (mo_now at) (mo_clk at)
            (orgs_of st) (ap_user_id who) slug name key (ow_request_hash w [slug, name]) (request_id headers) of (r, st') \<Rightarrow> (map_sum id fst r, st')))"

definition update_org_route :: "OrgWorld \<Rightarrow> Moment \<Rightarrow> OrgStore \<Rightarrow> AuthPrincipal \<Rightarrow> headers \<Rightarrow> string \<Rightarrow> string option \<Rightarrow> string managed \<times> OrgStore" where
  "update_org_route w at st who headers org name =
     (case parse_org w org of Inl e \<Rightarrow> (Inl e, st) | Inr o' \<Rightarrow>
        answered (on_orgs st (update_org (mo_now at) (ad_orgs (snd st)) (ap_user_id who) o' name (request_id headers))))"

definition update_member_route ::
  "OrgWorld \<Rightarrow> Moment \<Rightarrow> OrgStore \<Rightarrow> AuthPrincipal \<Rightarrow> headers \<Rightarrow> string \<Rightarrow> string \<Rightarrow> string option \<Rightarrow> string option \<Rightarrow> string managed \<times> OrgStore" where
  "update_member_route w at st who headers org user role status =
     (case and_then (parse_org w org) (\<lambda>o'. and_then (parse_user w user) (\<lambda>u. and_then (parsed_role role) (\<lambda>r.
            and_then (parsed_status status) (\<lambda>s. Inr (o', u, r, s))))) of
        Inl e \<Rightarrow> (Inl e, st)
      | Inr (o', u, r, s) \<Rightarrow>
          answered (on_orgs st (update_member (mo_now at) (ad_orgs (snd st)) (ap_user_id who) o' u r s (request_id headers))))"

definition remove_member_route :: "OrgWorld \<Rightarrow> Moment \<Rightarrow> OrgStore \<Rightarrow> AuthPrincipal \<Rightarrow> headers \<Rightarrow> string \<Rightarrow> string \<Rightarrow> string managed \<times> OrgStore" where
  "remove_member_route w at st who headers org user =
     (case and_then (parse_org w org) (\<lambda>o'. and_then (parse_user w user) (\<lambda>u. Inr (o', u))) of
        Inl e \<Rightarrow> (Inl e, st)
      | Inr (o', u) \<Rightarrow> answered (on_orgs st (remove_member (mo_now at) (ad_orgs (snd st)) (ap_user_id who) o' u (request_id headers))))"

definition create_invitation_route ::
  "OrgWorld \<Rightarrow> (nat \<Rightarrow> OrgStore \<Rightarrow> OrgStore) \<Rightarrow> (nat \<Rightarrow> Moment) \<Rightarrow> OrgStore \<Rightarrow> AuthPrincipal \<Rightarrow> headers \<Rightarrow> string \<Rightarrow> string \<Rightarrow> string \<Rightarrow> string managed \<times> OrgStore" where
  "create_invitation_route w others moment st1 who headers org login role =
     (case and_then (parse_org w org) (\<lambda>o'. and_then (parsed_role (Some role)) (\<lambda>r. and_then (idempotency_key headers) (\<lambda>k. Inr (o', the r, k)))) of
        Inl e \<Rightarrow> (Inl e, st1)
      | Inr (o', r, key) \<Rightarrow>
          let st2 = others 2 st1 in
          on_keyed st2 (case create_invitation_idempotent (ow_parse_uuid w) (ow_resolve_login w) (ow_key_id w) (ow_new_id w) (mo_clk (moment 1))
              (mo_now (moment 2)) (mo_clk (moment 2)) (orgs_of st1) (orgs_of st2) (ap_user_id who) o' login r key (ow_request_hash w [o', login, role])
              (ow_hash_token w (ow_secret w)) (request_id headers) of (v, st') \<Rightarrow> (map_sum id fst v, st')))"

definition revoke_invitation_route :: "OrgWorld \<Rightarrow> Moment \<Rightarrow> OrgStore \<Rightarrow> AuthPrincipal \<Rightarrow> headers \<Rightarrow> string \<Rightarrow> string \<Rightarrow> string managed \<times> OrgStore" where
  "revoke_invitation_route w at st who headers org i =
     (case and_then (parse_org w org) (\<lambda>o'. case ow_parse_uuid w i of None \<Rightarrow> Inl (not_found ''invitation'') | Some j \<Rightarrow> Inr (o', j)) of
        Inl e \<Rightarrow> (Inl e, st)
      | Inr (o', j) \<Rightarrow> answered (on_orgs st (revoke_invitation (mo_now at) (ad_orgs (snd st)) (ap_user_id who) o' j (request_id headers))))"

definition handle_org ::
  "OrgWorld \<Rightarrow> instant option \<Rightarrow> (nat \<Rightarrow> OrgStore \<Rightarrow> OrgStore) \<Rightarrow> (nat \<Rightarrow> Moment) \<Rightarrow> OrgStore \<Rightarrow> AuthPrincipal \<Rightarrow> headers \<Rightarrow> OrgRequest \<Rightarrow> string managed \<times> OrgStore" where
  "handle_org w sweep others moment st who headers req =
     (let st1 = others 1 st; at = moment 1 in
      case req of
        CreateOrg slug name \<Rightarrow> create_org_route w at st1 who headers slug name
      | UpdateOrg org name \<Rightarrow> update_org_route w at st1 who headers org name
      | UpdateMember org user role status \<Rightarrow> update_member_route w at st1 who headers org user role status
      | RemoveMember org user \<Rightarrow> remove_member_route w at st1 who headers org user
      | CreateInvitation org login role \<Rightarrow> create_invitation_route w others moment st1 who headers org login role
      | RevokeInvitation org i \<Rightarrow> revoke_invitation_route w at st1 who headers org i
      | TransferOwnership org user \<Rightarrow> transfer_route w others moment st1 who headers org user
      | DeleteOrg org \<Rightarrow> delete_route w others moment st1 who headers org
      | AcceptInvitation token \<Rightarrow> accept_route w sweep others moment st who headers token ''no GitHub identity''
      | RetryOperation op \<Rightarrow> retry_route w others moment st who headers op)"

definition serve_org ::
  "OrgWorld \<Rightarrow> instant option \<Rightarrow> (nat \<Rightarrow> OrgStore \<Rightarrow> OrgStore) \<Rightarrow> (nat \<Rightarrow> Moment) \<Rightarrow> bool \<Rightarrow> OrgStore \<Rightarrow> headers \<Rightarrow> OrgRequest \<Rightarrow> string managed \<times> OrgStore" where
  "serve_org w sweep others moment up st headers req =
     with_services up st
       (let st0 = others 0 st in
        case mutation_caller w (moment 0) (snd st0) headers of
          Inl e \<Rightarrow> (Inl e, st0)
        | Inr who \<Rightarrow> handle_org w sweep others moment st0 who headers req)"

text \<open>The acceptance form of the browser, which checks the CSRF field of the form.\<close>

definition accept_form ::
  "OrgWorld \<Rightarrow> instant option \<Rightarrow> (nat \<Rightarrow> OrgStore \<Rightarrow> OrgStore) \<Rightarrow> (nat \<Rightarrow> Moment) \<Rightarrow> bool \<Rightarrow> OrgStore \<Rightarrow> headers \<Rightarrow> string option \<Rightarrow> string \<Rightarrow> string managed \<times> OrgStore" where
  "accept_form w sweep others moment up st headers token form_csrf =
     with_services up st
       (let st0 = others 0 st in
        case and_then (authenticated_user (ow_hash_token w) (mo_now (moment 0)) (mo_clk (moment 0)) (snd st0) headers) (\<lambda>who.
               if \<not> ap_is_browser who then Inl (api ''UNAUTHORIZED'' ''accept the invitation in your browser while signed in'')
               else and_then (csrf_validate_session (ow_hash_token w) headers form_csrf) (\<lambda>_.
                 case token of None \<Rightarrow> Inl (not_found ''invitation'') | Some t \<Rightarrow> Inr (who, t))) of
          Inl e \<Rightarrow> (Inl e, st0)
        | Inr (who, t) \<Rightarrow> accept_route w sweep others moment st0 who headers t ''no GitHub identity on this account'')"

section \<open>What the routes require\<close>

lemma mutation_caller_Inr:
  assumes "mutation_caller w at db headers = Inr who"
  obtains s where "s \<in> set (ad_sessions db)" and "ss_id s = ap_session_id who" and "ss_user_id s = ap_user_id who" and "ss_revoked_at s = None"
    and "active_user db (ap_user_id who)"
    and "ap_is_browser who \<Longrightarrow> \<exists>cookie. parse_cookies headers SESSION_COOKIE = Some cookie \<and>
      header_get headers CSRF_HEADER = Some (csrf_for_session (ow_hash_token w) cookie)"
proof -
  have a: "authenticated_user (ow_hash_token w) (mo_now at) (mo_clk at) db headers = Inr who"
      "require_csrf_for_browser (ow_hash_token w) who headers = Inr ()"
    using assms by (auto simp: mutation_caller_def and_then_Inr)
  obtain s where "s \<in> set (ad_sessions db)" "ss_id s = ap_session_id who" "ss_user_id s = ap_user_id who" "ss_revoked_at s = None"
      "active_user db (ss_user_id s)"
    using a(1) by (auto simp: authenticated_user_def validate_browser_session_def validate_cli_session_def principal_of_def session_valid_def
        split: option.splits dest!: find_SomeD)
  moreover have "\<exists>cookie. parse_cookies headers SESSION_COOKIE = Some cookie \<and> header_get headers CSRF_HEADER = Some (csrf_for_session (ow_hash_token w) cookie)"
    if "ap_is_browser who"
    using a(2) that csrf_validate_session_Inr [of "ow_hash_token w" headers]
    by (auto simp: require_csrf_for_browser_def Let_def and_then_Inr csrf_validate_iff blank_iff split: option.splits)
  ultimately show ?thesis using that by metis
qed

lemma mutation_caller_Inl: "mutation_caller w at db headers = Inl e \<Longrightarrow> fst (http_error e) = 401"
  by (auto simp: mutation_caller_def authenticated_user_def require_csrf_for_browser_def csrf_validate_def csrf_validate_session_def
      and_then_def api_def api_status_def Let_def split: sum.splits option.splits if_splits)

text \<open>
  A request for a mutation without a valid session, or from a browser without the CSRF token of its own session, is
  answered 401 on every route, and the handler writes nothing.
\<close>

theorem unauthenticated_requests_change_nothing:
  assumes "mutation_caller w (moment 0) (snd (others 0 st)) headers = Inl e"
  shows "serve_org w sweep others moment True st headers req = (Inl e, others 0 st) \<and> fst (http_error e) = 401"
  using assms mutation_caller_Inl by (auto simp: serve_org_def with_services_def Let_def)

lemma fresh_loginD:
  assumes "fresh_login at db who"
  shows "\<exists>s t. s \<in> set (ad_sessions db) \<and> ss_id s = ap_session_id who \<and> ss_last_authenticated_at s = Some t \<and> mo_app at < t + seconds 600"
  using assms by (auto simp: fresh_login_def has_recent_auth_def is_some_and_iff RECENT_AUTH_WINDOW_def split: option.splits dest!: find_SomeD)

lemma owner_of_policy:
  assumes "require_owner m o' = Inr u" and "membership_and_org db org caller = (m, o') \<or> lock_policy db org caller = (m, o')"
  shows "\<exists>row. find_org db org = Some row \<and> og_owner_user_id row = caller"
  using assms by (auto simp: require_owner_def and_then_Inr membership_and_org_def lock_policy_def membership_of_def org_state_def find_member_def
      is_some_and_iff require_member_def split: option.splits if_splits dest!: find_SomeD)

lemma transfer_route_Inr:
  assumes "transfer_route w others moment st1 who headers org user = (Inr v, st')"
  shows "\<exists>o'. ow_parse_uuid w org = Some o' \<and> fresh_login (moment 1) (snd st1) who \<and>
    (\<exists>row. find_org (ad_orgs (snd (others 2 st1))) o' = Some row \<and> og_owner_user_id row = ap_user_id who)"
proof -
  obtain o' u x where o': "ow_parse_uuid w org = Some o'" "fst (transfer_ownership (mo_now (moment 2)) (ad_orgs (snd (others 2 st1))) (ap_user_id who) o' u
      (fresh_login (moment 1) (snd st1) who) (request_id headers)) = Inr x"
    using assms by (auto simp: transfer_route_def Let_def and_then_def parse_org_def parse_user_def answered_def on_orgs_def map_sum_def
        split: sum.splits option.splits)
  then have "fresh_login (moment 1) (snd st1) who \<and>
      (\<exists>m o1. lock_policy (ad_orgs (snd (others 2 st1))) o' (ap_user_id who) = (m, o1) \<and> require_owner m o1 = Inr ())"
    by (auto simp: transfer_ownership_def transact_def and_then_Inr split: if_splits sum.splits prod.splits)
  then show ?thesis using o'(1) owner_of_policy by metis
qed

lemma delete_route_Inr:
  assumes "delete_route w others moment st1 who headers org = (Inr v, st')"
  shows "\<exists>o'. ow_parse_uuid w org = Some o' \<and> fresh_login (moment 1) (snd st1) who \<and>
    (\<exists>row. find_org (ad_orgs (snd (others 2 st1))) o' = Some row \<and> og_owner_user_id row = ap_user_id who)"
proof -
  let ?st2 = "others 2 st1" and ?st3 = "others 3 (others 2 st1)"
  obtain o' key where o': "ow_parse_uuid w org = Some o'" "fst (request_deletion_idempotent (ow_parse_uuid w) (ow_key_id w) (ow_op_id w) (ow_event_id w)
      (mo_now (moment 3)) (mo_clk (moment 3)) (ad_orgs (snd ?st2)) (orgs_of ?st3) (ap_user_id who) o' (fresh_login (moment 1) (snd st1) who) key
      (ow_request_hash w [o']) (request_id headers)) = Inr v"
    using assms by (auto simp: delete_route_def Let_def and_then_def parse_org_def on_keyed_def split: sum.splits option.splits prod.splits; metis fst_conv)
  then have "fresh_login (moment 1) (snd st1) who \<and>
      (\<exists>m o1. membership_and_org (ad_orgs (snd ?st2)) o' (ap_user_id who) = (m, o1) \<and> require_owner m o1 = Inr ())"
    by (auto simp: request_deletion_idempotent_def split: if_splits sum.splits prod.splits)
  then show ?thesis using o'(1) owner_of_policy by metis
qed

text \<open>
  C19 (safety). Handing over or deleting an organization takes a fresh login of its owner: the caller has an open session, a browser
  sends the CSRF token of that session, the session was authenticated within the last ten minutes, and the caller owns the
  organization when the service checks it.
\<close>

theorem ownership_change_needs_fresh_login:
  assumes "serve_org w sweep others moment True st headers req = (Inr v, st')" and "req = TransferOwnership org user \<or> req = DeleteOrg org"
  shows "\<exists>who o' s t row. mutation_caller w (moment 0) (snd (others 0 st)) headers = Inr who \<and> ow_parse_uuid w org = Some o' \<and>
    (ap_is_browser who \<longrightarrow> (\<exists>cookie. parse_cookies headers SESSION_COOKIE = Some cookie \<and>
       header_get headers CSRF_HEADER = Some (csrf_for_session (ow_hash_token w) cookie))) \<and>
    s \<in> set (ad_sessions (snd (others 1 (others 0 st)))) \<and> ss_id s = ap_session_id who \<and> ss_last_authenticated_at s = Some t \<and>
    mo_app (moment 1) < t + seconds 600 \<and>
    find_org (ad_orgs (snd (others 2 (others 1 (others 0 st))))) o' = Some row \<and> og_owner_user_id row = ap_user_id who"
proof -
  obtain who where who: "mutation_caller w (moment 0) (snd (others 0 st)) headers = Inr who"
      "handle_org w sweep others moment (others 0 st) who headers req = (Inr v, st')"
    using assms(1) by (auto simp: serve_org_def with_services_def Let_def split: sum.splits)
  let ?st1 = "others 1 (others 0 st)"
  have "\<exists>o'. ow_parse_uuid w org = Some o' \<and> fresh_login (moment 1) (snd ?st1) who \<and>
      (\<exists>row. find_org (ad_orgs (snd (others 2 ?st1))) o' = Some row \<and> og_owner_user_id row = ap_user_id who)"
    using assms(2) who(2) transfer_route_Inr [of w others moment ?st1 who headers org user v st'] delete_route_Inr [of w others moment ?st1 who headers org v st']
    by (elim disjE) (simp_all add: handle_org_def Let_def)
  then show ?thesis using who(1) fresh_loginD mutation_caller_Inr [OF who(1)] by metis
qed

section \<open>A small organization\<close>

definition demo_org_world :: OrgWorld where
  "demo_org_world = \<lparr>ow_hash_token = demo_token_hash, ow_parse_uuid = Some, ow_resolve_login = (\<lambda>l. Inr (1, l)), ow_request_hash = concat, ow_key_id = ''k'',
     ow_new_id = ''n'', ow_op_id = ''op'', ow_event_id = ''ev'', ow_secret = ''sec'', ow_parse_i64 = (\<lambda>_. None), ow_platform_operator = (\<lambda>_. False)\<rparr>"

definition demo_route_db :: AuthDb where
  "demo_route_db = demo_auth1\<lparr>ad_orgs := (ad_orgs demo_auth1)\<lparr>
     od_organizations := [\<lparr>og_id = ''o1'', og_slug = ''acme'', og_display_name = ''Acme'', og_owner_user_id = ''u1'', og_status = ''ready'', og_updated_at = 0\<rparr>],
     od_memberships := [\<lparr>mb_organization_id = ''o1'', mb_user_id = ''u1'', mb_role = Admin, mb_status = Active, mb_updated_at = 0\<rparr>,
       \<lparr>mb_organization_id = ''o1'', mb_user_id = ''u2'', mb_role = Admin, mb_status = Active, mb_updated_at = 0\<rparr>],
     od_users := [\<lparr>us_id = ''u1'', us_display_name = ''Ann'', us_status = ''active''\<rparr>, \<lparr>us_id = ''u2'', us_display_name = ''Bob'', us_status = ''active''\<rparr>]\<rparr>\<rparr>"

definition demo_bearer :: headers where
  "demo_bearer = [(''authorization'', ''Bearer a0'')]"

lemma demo_bearer_parsed: "parse_cookies demo_bearer SESSION_COOKIE = None" "bearer_token demo_bearer = Some ''a0''"
    "parse_cookies [] SESSION_COOKIE = None" "bearer_token [] = None"
  by code_simp+

lemma demo_route_caller: "mutation_caller demo_org_world (demo_moment 0) demo_route_db demo_bearer = Inr \<lparr>ap_user_id = ''u1'', ap_session_id = ''s0'', ap_is_browser = False\<rparr>"
  by (simp add: mutation_caller_def authenticated_user_def demo_bearer_parsed validate_cli_session_def session_valid_def principal_of_def demo_org_world_def
      demo_route_db_def demo_auth1_def demo_auth demo_moment_def require_csrf_for_browser_def ACCESS_LIFETIME_def)

theorem unauthenticated_requests_change_nothing_witness:
  "serve_org demo_org_world None (\<lambda>n st. st) demo_moment True ([], demo_route_db) [] (DeleteOrg ''o1'') =
     (Inl (api ''UNAUTHORIZED'' ''authentication required''), [], demo_route_db)"
proof -
  have "mutation_caller demo_org_world (demo_moment 0) (snd ((\<lambda>n st. st) (0 :: nat) ([] :: IdempotencyRow list, demo_route_db))) [] =
      Inl (api ''UNAUTHORIZED'' ''authentication required'')"
    by (simp add: mutation_caller_def authenticated_user_def demo_bearer_parsed)
  then show ?thesis
    using unauthenticated_requests_change_nothing [where others = "\<lambda>n st. st" and moment = demo_moment and w = demo_org_world and headers = "[]"] by simp
qed

lemma demo_route_rows:
  "ow_parse_uuid demo_org_world i = Some i"
  "od_users (ad_orgs demo_route_db) = [\<lparr>us_id = ''u1'', us_display_name = ''Ann'', us_status = ''active''\<rparr>, \<lparr>us_id = ''u2'', us_display_name = ''Bob'', us_status = ''active''\<rparr>]"
  "od_organizations (ad_orgs demo_route_db) = [\<lparr>og_id = ''o1'', og_slug = ''acme'', og_display_name = ''Acme'', og_owner_user_id = ''u1'', og_status = ''ready'', og_updated_at = 0\<rparr>]"
  "od_memberships (ad_orgs demo_route_db) = [\<lparr>mb_organization_id = ''o1'', mb_user_id = ''u1'', mb_role = Admin, mb_status = Active, mb_updated_at = 0\<rparr>,
       \<lparr>mb_organization_id = ''o1'', mb_user_id = ''u2'', mb_role = Admin, mb_status = Active, mb_updated_at = 0\<rparr>]"
  by (simp_all add: demo_route_db_def demo_org_world_def)

lemma demo_transfer:
  "fst (serve_org demo_org_world None (\<lambda>n st. st) demo_moment True ([], demo_route_db) demo_bearer (TransferOwnership ''o1'' ''u2'')) = Inr ''''"
proof -
  have "fresh_login (demo_moment 1) demo_route_db \<lparr>ap_user_id = ''u1'', ap_session_id = ''s0'', ap_is_browser = False\<rparr>"
    by (simp add: fresh_login_def has_recent_auth_def demo_route_db_def demo_auth1_def demo_auth demo_moment_def RECENT_AUTH_WINDOW_def)
  then show ?thesis
    by (simp add: serve_org_def with_services_def demo_route_caller handle_org_def transfer_route_def parse_org_def parse_user_def demo_route_rows
        answered_def on_orgs_def transfer_ownership_def lock_policy_def user_active_def find_member_def find_org_def membership_of_def
        org_state_def require_owner_def require_member_def require_mutable_def transfer_ownership_in_tx_def rows_affected_def and_then_def Let_def)
qed

theorem ownership_change_needs_fresh_login_witness:
  "\<exists>s t. s \<in> set (ad_sessions demo_route_db) \<and> ss_id s = ''s0'' \<and> ss_last_authenticated_at s = Some t \<and> mo_app (demo_moment 1) < t + seconds 600"
proof -
  obtain st' where "serve_org demo_org_world None (\<lambda>n st. st) demo_moment True ([], demo_route_db) demo_bearer (TransferOwnership ''o1'' ''u2'') = (Inr '''', st')"
    using demo_transfer by (metis prod.collapse)
  from ownership_change_needs_fresh_login [OF this, of "''o1''" "''u2''"] show ?thesis
    by (auto simp: demo_route_caller)
qed

text \<open>
  A retry is meant to need the permission of the original action, but the list of kinds for administrators names \<open>organization.provision\<close> where
  the service enqueues \<open>org.provision\<close>: every active developer of the organization may retry its provisioning.
\<close>

theorem developer_may_retry_provisioning:
  assumes "op_kind operation = ''org.provision''" and "membership_and_org db (op_organization_id operation) caller = (Some m, Some o')"
    and "open_to (Some m) (Some o') m o'" and "os_status o' = ''ready'' \<or> os_status o' = ''provisioning''" and "ms_role m = Developer"
  shows "may_retry w db caller operation = Inr () \<and> require_admin (Some m) (Some o') = Inl admin_required"
  using assms
  by (auto simp: may_retry_def admin_retry_kinds_def require_developer_def require_admin_def require_member_def require_mutable_def open_to_def)

end
