(* ===== verification/Rate_Limits.thy ===== *)
theory Rate_Limits
  imports Auth_Flows
begin

text \<open>
  The rate limiter of \<open>src/crates/openflows-manager/src/rate_limit.rs\<close> counts exactly: in every minute each bucket has its limit of attempts
  in each scope, whatever else is counted or cleaned up at the same time.
\<close>

record Attempt =
  at_clk :: instant
  at_sweep :: "instant option"
  at_bucket :: string
  at_scope :: LimitScope
  at_limit :: u32

text \<open>The answers of the limiter to a sequence of attempts, served one after the other.\<close>

primrec attempts :: "(string \<Rightarrow> string) \<Rightarrow> AuthDb \<Rightarrow> Attempt list \<Rightarrow> bool list" where
  "attempts hash_token db [] = []"
| "attempts hash_token db (a # as) =
     (case allow hash_token (at_clk a) (at_sweep a) db (at_bucket a) (at_scope a) (at_limit a) of (ok, db') \<Rightarrow> ok # attempts hash_token db' as)"

definition counts_for :: "(string \<Rightarrow> string) \<Rightarrow> string \<Rightarrow> LimitScope \<Rightarrow> instant \<Rightarrow> Attempt \<Rightarrow> bool" where
  "counts_for hash_token key scope minute a \<longleftrightarrow>
     ledger_key key (limit_scope_str scope) minute \<lparr>lr_bucket_key = hash_token (at_bucket a), lr_scope = limit_scope_str (at_scope a),
       lr_window_start = minute_of (at_clk a), lr_count = 0\<rparr>"

definition counted :: "string \<Rightarrow> LimitScope \<Rightarrow> instant \<Rightarrow> AuthDb \<Rightarrow> int" where
  "counted key scope minute db =
     (case List.find (ledger_key key (limit_scope_str scope) minute) (ad_ledger db) of None \<Rightarrow> 0 | Some r \<Rightarrow> lr_count r)"

lemma limit_scope_str_inj [simp]: "limit_scope_str a = limit_scope_str b \<longleftrightarrow> a = b"
  by (cases a; cases b) simp_all

lemma find_filter: "(\<And>x. x \<in> set xs \<Longrightarrow> p x \<Longrightarrow> q x) \<Longrightarrow> List.find p (filter q xs) = List.find p xs"
  by (induction xs) auto

lemma find_update_other:
  "(\<And>r. r \<in> set rows \<Longrightarrow> q r \<Longrightarrow> \<not> p r \<and> \<not> p (f r)) \<Longrightarrow> List.find p (update_where q f rows) = List.find p rows"
  by (induction rows) (auto simp: update_where_def)

lemma find_update_same:
  "(\<And>r. p (f r) = p r) \<Longrightarrow> List.find p (update_where p f rows) = map_option f (List.find p rows)"
  by (induction rows) (auto simp: update_where_def)

text \<open>The clean-up leaves every row that is not an hour old.\<close>

lemma sweep_keeps: "later \<le> minute + seconds 3600 \<Longrightarrow> List.find (ledger_key key scope minute) (sweep_ledger later rows) = List.find (ledger_key key scope minute) rows"
  unfolding sweep_ledger_def Let_def by (rule find_filter) (auto simp: ledger_key_def dest!: in_set_takeD)

lemma counted_sweep:
  assumes "\<And>later. at_sweep a = Some later \<Longrightarrow> later \<le> minute + seconds 3600"
  shows "counted key scope minute (snd (allow hash_token (at_clk a) (at_sweep a) db (at_bucket a) (at_scope a) (at_limit a))) =
    counted key scope minute (db\<lparr>ad_ledger := snd (count_attempt (counted_up_to (at_limit a)) (hash_token (at_bucket a))
      (limit_scope_str (at_scope a)) (minute_of (at_clk a)) (ad_ledger db))\<rparr>)"
  using assms by (auto simp: counted_def allow_def sweep_keeps split: prod.splits option.splits)

lemma counted_other:
  assumes "\<not> counts_for hash_token key scope minute a"
  shows "counted key scope minute (db\<lparr>ad_ledger := snd (count_attempt cap (hash_token (at_bucket a))
      (limit_scope_str (at_scope a)) (minute_of (at_clk a)) (ad_ledger db))\<rparr>) = counted key scope minute db"
proof -
  let ?other = "ledger_key (hash_token (at_bucket a)) (limit_scope_str (at_scope a)) (minute_of (at_clk a))"
  have "List.find (ledger_key key (limit_scope_str scope) minute) (update_where ?other (\<lambda>r. r\<lparr>lr_count := n\<rparr>) (ad_ledger db)) =
      List.find (ledger_key key (limit_scope_str scope) minute) (ad_ledger db)" for n
    using assms by (intro find_update_other) (auto simp: counts_for_def ledger_key_def)
  then show ?thesis using assms
    by (auto simp: counted_def count_attempt_def Let_def find_append counts_for_def ledger_key_def split: option.splits)
qed

lemma counted_mine:
  assumes "counts_for hash_token key scope minute a" and "counted key scope minute db = min n cap" and "0 \<le> n" and "1 \<le> cap"
  shows "fst (count_attempt cap (hash_token (at_bucket a)) (limit_scope_str (at_scope a)) (minute_of (at_clk a)) (ad_ledger db)) = min (n + 1) cap"
    and "counted key scope minute (db\<lparr>ad_ledger := snd (count_attempt cap (hash_token (at_bucket a))
      (limit_scope_str (at_scope a)) (minute_of (at_clk a)) (ad_ledger db))\<rparr>) = min (n + 1) cap"
proof -
  have key: "hash_token (at_bucket a) = key" "at_scope a = scope" "minute_of (at_clk a) = minute"
    using assms(1) by (simp_all add: counts_for_def ledger_key_def)
  show "fst (count_attempt cap (hash_token (at_bucket a)) (limit_scope_str (at_scope a)) (minute_of (at_clk a)) (ad_ledger db)) = min (n + 1) cap"
    using assms(2-4) unfolding key by (auto simp: count_attempt_def counted_def Let_def split: option.splits)
  show "counted key scope minute (db\<lparr>ad_ledger := snd (count_attempt cap (hash_token (at_bucket a))
      (limit_scope_str (at_scope a)) (minute_of (at_clk a)) (ad_ledger db))\<rparr>) = min (n + 1) cap"
    using assms(2-4) unfolding key
    by (auto simp: count_attempt_def counted_def Let_def find_append find_update_same ledger_key_def split: option.splits)
qed

lemma attempts_from:
  assumes "\<And>a. a \<in> set as \<Longrightarrow> counts_for hash_token key scope minute a \<Longrightarrow> at_limit a = limit"
    and "\<And>a later. a \<in> set as \<Longrightarrow> at_sweep a = Some later \<Longrightarrow> later \<le> minute + seconds 3600"
    and "int (unat limit) < I32_MAX" and "counted key scope minute db = min (int n) (int (unat limit) + 1)"
  shows "map snd (filter (\<lambda>(a, ok). counts_for hash_token key scope minute a) (zip as (attempts hash_token db as))) =
    map (\<lambda>k. k < unat limit) [n ..< n + length (filter (counts_for hash_token key scope minute) as)]"
  using assms(1,2,4)
proof (induction as arbitrary: db n)
  case (Cons a as)
  obtain ok db' where served: "allow hash_token (at_clk a) (at_sweep a) db (at_bucket a) (at_scope a) (at_limit a) = (ok, db')"
    by (cases "allow hash_token (at_clk a) (at_sweep a) db (at_bucket a) (at_scope a) (at_limit a)")
  have rest: "map snd (filter (\<lambda>(a, ok). counts_for hash_token key scope minute a) (zip as (attempts hash_token d as))) =
      map (\<lambda>k. k < unat limit) [m ..< m + length (filter (counts_for hash_token key scope minute) as)]"
    if "counted key scope minute d = min (int m) (int (unat limit) + 1)" for d m
    by (rule Cons.IH [OF _ _ that]) (use Cons.prems(1,2) in auto)
  have sweep: "later \<le> minute + seconds 3600" if "at_sweep a = Some later" for later using Cons.prems(2) [of a later] that by simp
  have swept: "counted key scope minute db' = counted key scope minute (db\<lparr>ad_ledger := snd (count_attempt (counted_up_to (at_limit a)) (hash_token (at_bucket a))
      (limit_scope_str (at_scope a)) (minute_of (at_clk a)) (ad_ledger db))\<rparr>)"
    using counted_sweep [of a minute key scope hash_token db, OF sweep] served by simp
  show ?case
  proof (cases "counts_for hash_token key scope minute a")
    case True
    have limit: "at_limit a = limit" using Cons.prems(1) True by simp
    have cap: "counted_up_to limit = int (unat limit) + 1"
      using assms(3) by (simp add: counted_up_to_def)
    note step = counted_mine [OF True, of db "int n" "int (unat limit) + 1", OF Cons.prems(3)]
    have "ok = (min (int n + 1) (int (unat limit) + 1) \<le> int (unat limit))"
      using served step(1) unfolding allow_def limit cap by (simp split: prod.splits)
    then have "ok = (n < unat limit)" by linarith
    moreover have "counted key scope minute db' = min (int (Suc n)) (int (unat limit) + 1)"
      using swept step(2) unfolding limit cap by (simp add: add.commute)
    ultimately show ?thesis using True served rest [of db' "Suc n"] by (simp add: upt_conv_Cons del: upt_Suc)
  next
    case False
    then have "counted key scope minute db' = min (int n) (int (unat limit) + 1)"
      using swept counted_other Cons.prems(3) by simp
    then show ?thesis using False served rest [of db' n] by simp
  qed
qed simp

text \<open>
  C31 (bounds). Of the attempts of one bucket in one scope and minute exactly the first \<open>limit\<close> are let through, for any
  sequence of attempts of this and other buckets, scopes and minutes in between, and with any clean-up within the hour.
\<close>

theorem rate_limit_is_exact:
  assumes "\<And>a. a \<in> set as \<Longrightarrow> counts_for hash_token key scope minute a \<Longrightarrow> at_limit a = limit"
    and "\<And>a later. a \<in> set as \<Longrightarrow> at_sweep a = Some later \<Longrightarrow> later \<le> minute + seconds 3600"
    and "int (unat limit) < I32_MAX" and "List.find (ledger_key key (limit_scope_str scope) minute) (ad_ledger db) = None"
  shows "map snd (filter (\<lambda>(a, ok). counts_for hash_token key scope minute a) (zip as (attempts hash_token db as))) =
    map (\<lambda>k. k < unat limit) [0 ..< length (filter (counts_for hash_token key scope minute) as)]"
proof -
  have "counted key scope minute db = min (int 0) (int (unat limit) + 1)" using assms(4) by (simp add: counted_def)
  from attempts_from [OF assms(1-3) this] show ?thesis by simp
qed

definition demo_attempt :: "string \<Rightarrow> nat \<Rightarrow> Attempt" where
  "demo_attempt bucket clk = \<lparr>at_clk = clk, at_sweep = Some 0, at_bucket = bucket, at_scope = Verify, at_limit = 2\<rparr>"

definition demo_attempts :: "Attempt list" where
  "demo_attempts = [demo_attempt ''a'' 1, demo_attempt ''b'' 2, demo_attempt ''a'' 3, demo_attempt ''a'' 4]"

definition demo_ledger :: "AuthDb \<Rightarrow> AuthDb" where
  "demo_ledger db = db\<lparr>ad_ledger := []\<rparr>"

theorem rate_limit_is_exact_witness:
  "\<forall>db. map snd (filter (\<lambda>(a, ok). counts_for (\<lambda>s. s) ''a'' Verify 0 a) (zip demo_attempts (attempts (\<lambda>s. s) (demo_ledger db) demo_attempts))) =
    [True, True, False]"
proof
  fix db
  have mine: "counts_for (\<lambda>s. s) ''a'' Verify 0 (demo_attempt b n) \<longleftrightarrow> b = ''a''" if "n < 10" for b n
    using that by (auto simp: counts_for_def ledger_key_def demo_attempt_def minute_of_def)
  have "map snd (filter (\<lambda>(a, ok). counts_for (\<lambda>s. s) ''a'' Verify 0 a) (zip demo_attempts (attempts (\<lambda>s. s) (demo_ledger db) demo_attempts))) =
    map (\<lambda>k. k < unat (2 :: u32)) [0 ..< length (filter (counts_for (\<lambda>s. s) ''a'' Verify 0) demo_attempts)]"
    by (rule rate_limit_is_exact) (auto simp: demo_attempts_def demo_attempt_def demo_ledger_def I32_MAX_def)
  also have "\<dots> = [True, True, False]" by (simp add: demo_attempts_def mine upt_rec)
  finally show "map snd (filter (\<lambda>(a, ok). counts_for (\<lambda>s. s) ''a'' Verify 0 a) (zip demo_attempts (attempts (\<lambda>s. s) (demo_ledger db) demo_attempts))) =
    [True, True, False]" .
qed

end
