(* ===== verification/Tenants.thy ===== *)
theory Tenants
  imports Organizations
begin

text \<open>
  Tenants and their workspaces: \<open>src/crates/openflows-manager/src/quotas.rs\<close>, the mutations of
  \<open>tenants/service.rs\<close>, \<open>runtime/workspaces.rs\<close>, and the transactions with which the worker of
  \<open>provisioning/tenant_worker.rs\<close> ends an attempt. What the worker does between its lease checks (calls
  to Coder, secrets, Redis) is not modelled: it decides only whether a final transaction runs.
  Counts and capacities are \<open>INTEGER\<close> columns bounded by the quotas, here unbounded integers; the
  \<open>updated_at\<close> columns of tenants and workspaces are read by nothing and left out. The tables of
  issued secrets have an identifier, the workspace or tenant they belong to and the revocation time;
  those that the runtime authenticates with have all their columns.
\<close>

record TenantLimits =
  tl_max_tenants_per_org :: int
  tl_max_workers_per_tenant :: int
  tl_max_concurrent_provisioning_ops :: int

record RepositoryRow =
  gr_organization_id :: string
  gr_connection_id :: string
  gr_github_repository_id :: int
  gr_accessible :: bool

record ConnectionRow =
  gc_id :: string
  gc_organization_id :: string
  gc_status :: string
  gc_installation_id :: int
  gc_access_generation :: int

record SecretRow =
  sc_id :: string
  sc_owner :: string
  sc_revoked_at :: "instant option"

record CredentialRow = SecretRow +
  rc_hash :: string
  rc_audience :: string
  rc_expires_at :: instant
  rc_generation :: int
  rc_family_id :: string
  rc_family_expires_at :: instant

record LeaseRow = SecretRow +
  cl_organization_id :: string
  cl_connection_id :: string
  cl_workspace_id :: string
  cl_installation_id :: int
  cl_repository_id :: int
  cl_permission_profile_hash :: string
  cl_connection_generation :: int
  cl_workspace_generation :: int
  cl_purpose :: string
  cl_token_fingerprint :: string
  cl_encrypted_ref :: "string option"
  cl_expires_at :: instant

record BootstrapRow = SecretRow +
  bs_hash :: string
  bs_secret_ref :: string
  bs_expires_at :: instant
  bs_consumed_at :: "instant option"

record TenantDb =
  tb_orgs :: OrgDb
  tb_repositories :: "RepositoryRow list"
  tb_connections :: "ConnectionRow list"
  tb_coder_user_links :: "string list"
  tb_runtime_credentials :: "CredentialRow list"
  tb_bootstraps :: "BootstrapRow list"
  tb_credential_leases :: "LeaseRow list"
  tb_redis_credentials :: "SecretRow list"
  tb_hook_keys :: "SecretRow list"

abbreviation queue :: "TenantDb \<Rightarrow> Db" where
  "queue t \<equiv> od_queue (tb_orgs t)"

definition set_queue :: "Db \<Rightarrow> TenantDb \<Rightarrow> TenantDb" where
  "set_queue q t = t\<lparr>tb_orgs := (tb_orgs t)\<lparr>od_queue := q\<rparr>\<rparr>"

section \<open>Quotas\<close>

definition ensure_org_row_in_tx :: "TenantLimits \<Rightarrow> OrgDb \<Rightarrow> string \<Rightarrow> (unit \<times> OrgDb) managed" where
  "ensure_org_row_in_tx limits db org =
     (if find_org db org = None then Inl (not_found ''organization'')
      else if list_ex (\<lambda>r. qt_organization_id r = org) (db_quotas (od_queue db)) then Inr ((), db)
      else if tl_max_tenants_per_org limits < 1 \<or> tl_max_workers_per_tenant limits < 1 \<or>
        tl_max_concurrent_provisioning_ops limits < 1
      then Inl (Database ''new row violates check constraint'')
      else Inr ((), db\<lparr>od_queue := (od_queue db)\<lparr>db_quotas := db_quotas (od_queue db) @
        [\<lparr>qt_organization_id = org, qt_max_tenants = tl_max_tenants_per_org limits,
          qt_max_workers_per_tenant = tl_max_workers_per_tenant limits,
          qt_max_concurrent_provisioning_ops = tl_max_concurrent_provisioning_ops limits\<rparr>]\<rparr>\<rparr>))"

definition quota_row :: "Db \<Rightarrow> string \<Rightarrow> QuotaRow option" where
  "quota_row q org = List.find (\<lambda>r. qt_organization_id r = org) (db_quotas q)"

definition tenant_active :: "string \<Rightarrow> TenantRow \<Rightarrow> bool" where
  "tenant_active org t \<longleftrightarrow> tn_organization_id t = org \<and>
     (tn_desired_state t = ''provisioning'' \<or> tn_desired_state t = ''running'' \<or> tn_desired_state t = ''paused'')"

definition active_tenants :: "Db \<Rightarrow> string \<Rightarrow> nat" where
  "active_tenants q org = length (filter (tenant_active org) (db_tenants q))"

definition check_and_reserve_tenant_in_tx :: "Db \<Rightarrow> string \<Rightarrow> unit managed" where
  "check_and_reserve_tenant_in_tx q org =
     (case quota_row q org of
        None \<Rightarrow> Inl (not_found ''organization'')
      | Some r \<Rightarrow>
          if qt_max_tenants r \<le> int (active_tenants q org)
          then Inl (api ''TENANT_LIMIT_REACHED''
            (''this organization has reached its limit of '' @ show_int (qt_max_tenants r) @ '' active tenants''))
          else Inr ())"

definition worker_row :: "string \<Rightarrow> WorkspaceRow \<Rightarrow> bool" where
  "worker_row tenant w \<longleftrightarrow> wk_tenant_id w = tenant \<and> wk_role w \<noteq> ''nexus'' \<and> wk_desired_state w \<noteq> ''deleted''"

definition live_workers :: "Db \<Rightarrow> string \<Rightarrow> nat" where
  "live_workers q tenant = length (filter (worker_row tenant) (db_workspaces q))"

definition scoped_tenant :: "Db \<Rightarrow> string \<Rightarrow> string \<Rightarrow> TenantRow option" where
  "scoped_tenant q org tenant = List.find (\<lambda>t. tn_id t = tenant \<and> tn_organization_id t = org) (db_tenants q)"

definition reserve_worker_capacity_in_tx :: "Db \<Rightarrow> string \<Rightarrow> string \<Rightarrow> int \<Rightarrow> (unit \<times> Db) managed" where
  "reserve_worker_capacity_in_tx q org tenant additional =
     (case quota_row q org of
        None \<Rightarrow> Inl (not_found ''organization'')
      | Some r \<Rightarrow>
         (case scoped_tenant q org tenant of
            None \<Rightarrow> Inl (Database ''no row returned'')
          | Some t \<Rightarrow>
              if qt_max_workers_per_tenant r < max (int (live_workers q tenant)) (tn_reserved_worker_capacity t) + additional
              then Inl (api ''WORKER_LIMIT_REACHED''
                (''this tenant has reached its limit of '' @ show_int (qt_max_workers_per_tenant r) @ '' workers''))
              else Inr ((), q\<lparr>db_tenants := update_where (\<lambda>t. tn_id t = tenant \<and> tn_organization_id t = org)
                (\<lambda>t. t\<lparr>tn_reserved_worker_capacity := tn_reserved_worker_capacity t + additional\<rparr>) (db_tenants q)\<rparr>)))"

definition release_worker_capacity_in_tx :: "Db \<Rightarrow> string \<Rightarrow> string \<Rightarrow> int \<Rightarrow> Db" where
  "release_worker_capacity_in_tx q org tenant amount =
     q\<lparr>db_tenants := update_where (\<lambda>t. tn_id t = tenant \<and> tn_organization_id t = org)
        (\<lambda>t. t\<lparr>tn_reserved_worker_capacity := max (tn_reserved_worker_capacity t - amount) 0\<rparr>) (db_tenants q)\<rparr>"

definition provisioning_slot_available_for :: "instant \<Rightarrow> Db \<Rightarrow> string \<Rightarrow> string option \<Rightarrow> bool managed" where
  "provisioning_slot_available_for clk q org current_operation =
     (case quota_row q org of
        None \<Rightarrow> Inl (Database ''no row returned'')
      | Some r \<Rightarrow> Inr (int (length (filter (\<lambda>p. op_organization_id p = org \<and>
            is_none_or current_operation (\<lambda>i. op_id p \<noteq> i) \<and> op_state p = Running \<and>
            is_some_and (op_lease_expires_at p) (\<lambda>e. clk < e) \<and>
            op_kind p \<in> {''tenant.provision'', ''tenant.delete'', ''tenant.clean''}) (db_operations q)))
          < qt_max_concurrent_provisioning_ops r))"

section \<open>The tenant service\<close>

definition validate_tenant_slug :: "string \<Rightarrow> unit managed" where
  "validate_tenant_slug slug =
     (if slug \<noteq> [] \<and> length slug \<le> 63 \<and> slug_edge (hd slug) \<and> slug_edge (last slug) \<and>
         list_all (\<lambda>c. slug_edge c \<or> c = CHR ''-'') slug
      then Inr ()
      else Inl (InvalidInput ''tenant name must be 1-63 chars of lowercase letters, digits, or hyphens, and start/end alphanumeric''))"

definition repository_connection :: "TenantDb \<Rightarrow> string \<Rightarrow> int \<Rightarrow> string option" where
  "repository_connection t org repository =
     map_option gr_connection_id (List.find (\<lambda>r. gr_organization_id r = org \<and> gr_github_repository_id r = repository \<and>
       gr_accessible r \<and> list_ex (\<lambda>c. gc_id c = gr_connection_id r \<and> gc_organization_id c = org \<and> gc_status c = ''active'')
         (tb_connections t)) (tb_repositories t))"

text \<open>A name or repository stays taken until both states confirm the deletion.\<close>

definition holds_name :: "string \<Rightarrow> TenantRow \<Rightarrow> bool" where
  "holds_name org t \<longleftrightarrow> tn_organization_id t = org \<and> (tn_desired_state t \<noteq> ''deleted'' \<or> tn_observed_state t \<noteq> ''deleted'')"

definition create_with_id_in_tx ::
  "TenantDb \<Rightarrow> string \<Rightarrow> string \<Rightarrow> string \<Rightarrow> string \<Rightarrow> int \<Rightarrow> int \<Rightarrow> (unit \<times> Db) managed" where
  "create_with_id_in_tx t tenant org slug connection repository fleet =
     (if \<not> list_ex (\<lambda>r. gr_connection_id r = connection \<and> gr_organization_id r = org \<and>
            gr_github_repository_id r = repository) (tb_repositories t)
      then Inl (not_found ''repository'')
      else if list_ex (\<lambda>r. tn_id r = tenant) (db_tenants (queue t))
      then Inl (Database ''duplicate key value violates unique constraint'')
      else if list_ex (\<lambda>r. holds_name org r \<and> tn_github_repository_id r = repository) (db_tenants (queue t))
      then Inl (Conflict ''one live tenant already exists for this repository'')
      else if list_ex (\<lambda>r. holds_name org r \<and> tn_slug r = slug) (db_tenants (queue t))
      then Inl (Conflict (''a tenant with slug '' @ CHR 0x27 # slug @ CHR 0x27 # '' already exists in this organization''))
      else Inr ((), (queue t)\<lparr>db_tenants := db_tenants (queue t) @
        [\<lparr>tn_id = tenant, tn_organization_id = org, tn_slug = slug, tn_connection_id = connection,
          tn_github_repository_id = repository, tn_fleet_size = fleet, tn_desired_state = ''provisioning'',
          tn_observed_state = ''provisioning'', tn_owner_user_id = None, tn_error_code = None,
          tn_reserved_worker_capacity = 0\<rparr>]\<rparr>))"

definition create_tenant_mutation ::
  "TenantLimits \<Rightarrow> string \<Rightarrow> string \<Rightarrow> instant \<Rightarrow> string \<Rightarrow> string \<Rightarrow> int \<Rightarrow> string \<Rightarrow> int \<Rightarrow> string \<Rightarrow> string \<Rightarrow>
   TenantDb \<Rightarrow> (string \<times> TenantDb) managed" where
  "create_tenant_mutation limits tenant op tnow actor org repository slug fleet key request_id t =
     (case find_org (tb_orgs t) org of
        None \<Rightarrow> Inl (Database ''no row returned'')
      | Some r \<Rightarrow>
          if og_status r \<noteq> ''ready''
          then Inl (api ''ORG_UNAVAILABLE'' ''organization is not ready for tenant creation'')
          else (case repository_connection t org repository of
              None \<Rightarrow> Inl (not_found ''repository'')
            | Some connection \<Rightarrow>
                and_then (ensure_org_row_in_tx limits (tb_orgs t) org) (\<lambda>(_, orgs).
                  let t1 = t\<lparr>tb_orgs := orgs\<rparr> in
                  and_then (check_and_reserve_tenant_in_tx (queue t1) org) (\<lambda>_.
                    and_then (create_with_id_in_tx t1 tenant org slug connection repository fleet) (\<lambda>(_, q1).
                      if actor \<notin> set (tb_coder_user_links t)
                      then Inl (api ''CODER_ACCOUNT_LINK_REQUIRED''
                        ''Connect your GitHub-backed Coder account before creating a tenant'')
                      else
                        (let q2 = q1\<lparr>db_tenants := update_where (\<lambda>r. tn_id r = tenant)
                                (\<lambda>r. r\<lparr>tn_owner_user_id := Some actor\<rparr>) (db_tenants q1)\<rparr>;
                             q3 = op_create op tnow q2 \<lparr>no_organization_id = org, no_resource_type = ''tenant'',
                                no_resource_id = Some tenant, no_kind = ''tenant.provision'',
                                no_idempotency_ref = Some key\<rparr> in
                         Inr (tenant @ '':'' @ op @ '':queued'',
                           t1\<lparr>tb_orgs := audit_insert tnow ''tenant.create'' org actor ''tenant'' tenant request_id
                              ((tb_orgs t1)\<lparr>od_queue := q3\<rparr>)\<rparr>)))))))"

text \<open>\<open>UPDATE ... SET revoked_at = clock_timestamp() WHERE ... AND revoked_at IS NULL\<close>.\<close>

definition revoke_secrets :: "instant \<Rightarrow> (string \<Rightarrow> bool) \<Rightarrow> 'a SecretRow_scheme list \<Rightarrow> 'a SecretRow_scheme list" where
  "revoke_secrets clk owned =
     update_where (\<lambda>r. owned (sc_owner r) \<and> sc_revoked_at r = None) (\<lambda>r. r\<lparr>sc_revoked_at := Some clk\<rparr>)"

definition revoke_leases :: "instant \<Rightarrow> (LeaseRow \<Rightarrow> bool) \<Rightarrow> LeaseRow list \<Rightarrow> LeaseRow list" where
  "revoke_leases clk scoped =
     update_where (\<lambda>r. scoped r \<and> sc_revoked_at r = None) (\<lambda>r. r\<lparr>sc_revoked_at := Some clk, cl_encrypted_ref := None\<rparr>)"

definition workspace_of :: "Db \<Rightarrow> string \<Rightarrow> string \<Rightarrow> bool" where
  "workspace_of q tenant w \<longleftrightarrow> list_ex (\<lambda>r. wk_id r = w \<and> wk_tenant_id r = tenant) (db_workspaces q)"

definition set_tenants :: "(TenantRow \<Rightarrow> bool) \<Rightarrow> (TenantRow \<Rightarrow> TenantRow) \<Rightarrow> Db \<Rightarrow> Db" where
  "set_tenants p f q = q\<lparr>db_tenants := update_where p f (db_tenants q)\<rparr>"

definition set_workspaces :: "(WorkspaceRow \<Rightarrow> bool) \<Rightarrow> (WorkspaceRow \<Rightarrow> WorkspaceRow) \<Rightarrow> Db \<Rightarrow> Db" where
  "set_workspaces p f q = q\<lparr>db_workspaces := update_where p f (db_workspaces q)\<rparr>"

abbreviation scoped :: "string \<Rightarrow> string \<Rightarrow> TenantRow \<Rightarrow> bool" where
  "scoped org tenant r \<equiv> tn_id r = tenant \<and> tn_organization_id r = org"

text \<open>The enqueued operation and its audit record, which end every tenant mutation.\<close>

definition enqueue :: "string \<Rightarrow> instant \<Rightarrow> string \<Rightarrow> string \<Rightarrow> string \<Rightarrow> string \<Rightarrow> string \<Rightarrow> string \<Rightarrow> Db \<Rightarrow> TenantDb \<Rightarrow> string \<times> TenantDb" where
  "enqueue op tnow actor org tenant kind key request_id q t =
     (op, t\<lparr>tb_orgs := audit_insert tnow kind org actor ''tenant'' tenant request_id
        ((tb_orgs t)\<lparr>od_queue := op_create op tnow q \<lparr>no_organization_id = org, no_resource_type = ''tenant'',
           no_resource_id = Some tenant, no_kind = kind, no_idempotency_ref = Some key\<rparr>\<rparr>)\<rparr>)"

definition pending_delete :: "Db \<Rightarrow> string \<Rightarrow> string \<Rightarrow> OperationRow option" where
  "pending_delete q org tenant =
     List.find (\<lambda>r. op_organization_id r = org \<and> op_resource_id r = Some tenant \<and> op_kind r = ''tenant.delete'' \<and>
        (op_state r = Queued \<or> op_state r = Running \<or> op_state r = RetryableFailed))
       (rev (sort_key op_created_at (db_operations q)))"

definition delete_tenant_mutation ::
  "string \<Rightarrow> instant \<Rightarrow> instant \<Rightarrow> string \<Rightarrow> string \<Rightarrow> string \<Rightarrow> string \<Rightarrow> string \<Rightarrow> TenantDb \<Rightarrow> (string \<times> TenantDb) managed" where
  "delete_tenant_mutation op tnow clk actor org tenant key request_id t =
     (case scoped_tenant (queue t) org tenant of
        None \<Rightarrow> Inl (not_found ''tenant'')
      | Some r \<Rightarrow>
          if tn_desired_state r = ''deleted'' then Inl (Conflict ''tenant is already deleted'')
          else (case if tn_desired_state r = ''deleting'' then pending_delete (queue t) org tenant else None of
              Some p \<Rightarrow> Inr (op_id p, t)
            | None \<Rightarrow>
               (let q1 = set_tenants (scoped org tenant) (\<lambda>r. r\<lparr>tn_desired_state := ''deleting''\<rparr>) (queue t);
                    t1 = t\<lparr>tb_runtime_credentials :=
                            revoke_secrets clk (workspace_of (queue t) tenant) (tb_runtime_credentials t),
                          tb_credential_leases := revoke_leases clk (\<lambda>r. sc_owner r = tenant) (tb_credential_leases t),
                          tb_redis_credentials := revoke_secrets clk ((=) tenant) (tb_redis_credentials t),
                          tb_hook_keys := revoke_secrets clk ((=) tenant) (tb_hook_keys t)\<rparr> in
                Inr (enqueue op tnow actor org tenant ''tenant.delete'' key request_id q1 t1))))"

definition repository_accessible :: "TenantDb \<Rightarrow> string \<Rightarrow> string \<Rightarrow> bool" where
  "repository_accessible t org tenant \<longleftrightarrow>
     list_ex (\<lambda>r. scoped org tenant r \<and>
       list_ex (\<lambda>c. gc_id c = tn_connection_id r \<and> gc_status c = ''active'' \<and>
         list_ex (\<lambda>g. gr_connection_id g = gc_id c \<and> gr_organization_id g = tn_organization_id r \<and>
           gr_github_repository_id g = tn_github_repository_id r \<and> gr_accessible g) (tb_repositories t))
       (tb_connections t)) (db_tenants (queue t))"

definition start_mutation :: "string \<Rightarrow> Db \<Rightarrow> Db" where
  "start_mutation tenant q =
     set_workspaces (\<lambda>w. wk_tenant_id w = tenant \<and> wk_desired_state w = ''stopped'') (\<lambda>w. w\<lparr>wk_desired_state := ''running''\<rparr>)
       (set_tenants (\<lambda>r. tn_id r = tenant) (\<lambda>r. r\<lparr>tn_desired_state := ''running''\<rparr>) q)"

definition stop_mutation :: "string \<Rightarrow> Db \<Rightarrow> Db" where
  "stop_mutation tenant q =
     set_workspaces (\<lambda>w. wk_tenant_id w = tenant \<and> wk_desired_state w \<noteq> ''deleted'') (\<lambda>w. w\<lparr>wk_desired_state := ''stopped''\<rparr>)
       (set_tenants (\<lambda>r. tn_id r = tenant) (\<lambda>r. r\<lparr>tn_desired_state := ''paused''\<rparr>) q)"

definition enqueue_action_mutation ::
  "string \<Rightarrow> instant \<Rightarrow> instant \<Rightarrow> string \<Rightarrow> string \<Rightarrow> string \<Rightarrow> string \<Rightarrow> string \<Rightarrow> string \<Rightarrow> TenantDb \<Rightarrow> (string \<times> TenantDb) managed" where
  "enqueue_action_mutation op tnow clk actor org tenant action key request_id t =
     (case scoped_tenant (queue t) org tenant of
        None \<Rightarrow> Inl (not_found ''tenant'')
      | Some r \<Rightarrow>
          if tn_desired_state r = ''deleting'' \<or> tn_desired_state r = ''deleted''
          then Inl (Conflict ''tenant is being deleted'')
          else if action = ''start'' then
            (if tn_desired_state r = ''provisioning'' \<or> tn_observed_state r = ''provisioning''
             then Inl (Conflict ''tenant provisioning is still in progress'')
             else if \<not> repository_accessible t org tenant
             then Inl (api ''REPOSITORY_UNAVAILABLE'' ''repository access must be restored before starting'')
             else Inr (enqueue op tnow actor org tenant ''tenant.start'' key request_id (start_mutation tenant (queue t)) t))
          else if action = ''stop'' then
            Inr (enqueue op tnow actor org tenant ''tenant.stop'' key request_id (stop_mutation tenant (queue t))
              (t\<lparr>tb_runtime_credentials := revoke_secrets clk (workspace_of (queue t) tenant) (tb_runtime_credentials t)\<rparr>))
          else if action = ''clean'' then
            Inr (enqueue op tnow actor org tenant ''tenant.clean'' key request_id (queue t) t)
          else if action = ''clean-all'' then
            Inr (enqueue op tnow actor org tenant ''tenant.clean_all'' key request_id (queue t) t)
          else Inl (InvalidInput ''invalid action''))"

text \<open>\<open>parse_reference\<close>: a part that is missing or not an identifier becomes the nil UUID.\<close>

definition NIL_UUID :: string where
  "NIL_UUID = ''00000000-0000-0000-0000-000000000000''"

definition parse_reference :: "(string \<Rightarrow> string option) \<Rightarrow> string \<Rightarrow> string \<times> string" where
  "parse_reference parse_uuid reference =
     (let parts = split_on (\<lambda>c. c = CHR '':'') reference;
          part = (\<lambda>n. if n < length parts then parts ! n else []);
          parsed = (\<lambda>s. case parse_uuid s of None \<Rightarrow> NIL_UUID | Some i \<Rightarrow> i) in
      (parsed (part 1), parsed (part 0)))"

type_synonym TenantStore = "IdempotencyRow list \<times> TenantDb"

definition create_tenant ::
  "(string \<Rightarrow> string option) \<Rightarrow> TenantLimits \<Rightarrow> string \<Rightarrow> string \<Rightarrow> string \<Rightarrow> instant \<Rightarrow> instant \<Rightarrow> TenantDb \<Rightarrow> TenantStore \<Rightarrow>
   string \<Rightarrow> string \<Rightarrow> int \<Rightarrow> string \<Rightarrow> int \<Rightarrow> string \<Rightarrow> string \<Rightarrow> string \<Rightarrow> (string \<times> string) managed \<times> TenantStore" where
  "create_tenant parse_uuid limits key_id tenant op tnow clk before st actor org repository slug fleet key request_hash request_id =
     (case and_then (validate_tenant_slug slug) (\<lambda>_.
             if fleet < 1 then Inl (InvalidInput ''fleet must be at least 1 worker'')
             else (case membership_and_org (tb_orgs before) org actor of (m, s) \<Rightarrow> require_developer m s)) of
        Inl e \<Rightarrow> (Inl e, st)
      | Inr _ \<Rightarrow>
         (case execute_inner key_id clk st
            \<lparr>ir_actor_id = actor, ir_organization_id = Some org, ir_route = ''/api/v1/organizations/{org}/tenants'',
             ir_key = key, ir_request_hash = request_hash\<rparr>
            (create_tenant_mutation limits tenant op tnow actor org repository slug fleet key request_id) of
            (Inl e, st') \<Rightarrow> (Inl e, st')
          | (Inr (New reference), st') \<Rightarrow> (Inr (parse_reference parse_uuid reference), st')
          | (Inr (Replay reference), st') \<Rightarrow> (Inr (parse_reference parse_uuid reference), st')))"

text \<open>What the deletion and the actions do with the outcome: the reference is an operation identifier.\<close>

definition operation_reference ::
  "(string \<Rightarrow> string option) \<Rightarrow> IdempotencyOutcome managed \<times> TenantStore \<Rightarrow> string managed \<times> TenantStore" where
  "operation_reference parse_uuid r =
     (case r of
        (Inl e, st') \<Rightarrow> (Inl e, st')
      | (Inr outcome, st') \<Rightarrow>
         (case parse_uuid (case outcome of New x \<Rightarrow> x | Replay x \<Rightarrow> x) of
            None \<Rightarrow> (Inl (Conflict ''stored operation reference is invalid''), st')
          | Some i \<Rightarrow> (Inr i, st')))"

definition delete_tenant ::
  "(string \<Rightarrow> string option) \<Rightarrow> string \<Rightarrow> string \<Rightarrow> instant \<Rightarrow> instant \<Rightarrow> TenantDb \<Rightarrow> TenantStore \<Rightarrow>
   string \<Rightarrow> string \<Rightarrow> string \<Rightarrow> string \<Rightarrow> string \<Rightarrow> string \<Rightarrow> string managed \<times> TenantStore" where
  "delete_tenant parse_uuid key_id op tnow clk before st actor org tenant key request_hash request_id =
     (case membership_and_org (tb_orgs before) org actor of (m, s) \<Rightarrow>
        (case require_admin m s of
           Inl e \<Rightarrow> (Inl e, st)
         | Inr _ \<Rightarrow>
             if scoped_tenant (queue before) org tenant = None then (Inl (not_found ''tenant''), st)
             else operation_reference parse_uuid (execute_inner key_id clk st
               \<lparr>ir_actor_id = actor, ir_organization_id = Some org,
                ir_route = ''/api/v1/organizations/{org}/tenants/{tenant}'', ir_key = key, ir_request_hash = request_hash\<rparr>
               (delete_tenant_mutation op tnow clk actor org tenant key request_id))))"

definition enqueue_action ::
  "(string \<Rightarrow> string option) \<Rightarrow> string \<Rightarrow> string \<Rightarrow> instant \<Rightarrow> instant \<Rightarrow> TenantDb \<Rightarrow> TenantStore \<Rightarrow>
   string \<Rightarrow> string \<Rightarrow> string \<Rightarrow> string \<Rightarrow> bool \<Rightarrow> string \<Rightarrow> string \<Rightarrow> string \<Rightarrow> string managed \<times> TenantStore" where
  "enqueue_action parse_uuid key_id op tnow clk before st actor org tenant action admin_only key request_hash request_id =
     (case membership_and_org (tb_orgs before) org actor of (m, s) \<Rightarrow>
        (case if admin_only then require_admin m s else require_developer m s of
           Inl e \<Rightarrow> (Inl e, st)
         | Inr _ \<Rightarrow> operation_reference parse_uuid (execute_inner key_id clk st
             \<lparr>ir_actor_id = actor, ir_organization_id = Some org,
              ir_route = ''/api/v1/organizations/{org}/tenants/{tenant}/'' @ action, ir_key = key,
              ir_request_hash = request_hash\<rparr>
             (enqueue_action_mutation op tnow clk actor org tenant action key request_id))))"

section \<open>Workspaces of a runtime\<close>

record RuntimeScope =
  rs_credential_id :: string
  rs_workspace_id :: string
  rs_workspace_role :: string
  rs_workspace_generation :: int
  rs_workspace_observed_state :: string
  rs_workspace_desired_state :: string
  rs_workspace_registered_at :: "instant option"
  rs_tenant_id :: string
  rs_tenant_desired_state :: string
  rs_tenant_observed_state :: string
  rs_organization_id :: string
  rs_organization_status :: string
  rs_connection_id :: string
  rs_connection_status :: string
  rs_connection_generation :: int
  rs_installation_id :: int
  rs_repository_id :: int
  rs_repository_accessible :: bool
  rs_credential_generation :: int
  rs_credential_expires_at :: instant
  rs_credential_revoked_at :: "instant option"
  rs_credential_audience :: string
  rs_credential_family_id :: string
  rs_credential_family_expires_at :: instant

definition WORKER_ROLES :: "string list" where
  "WORKER_ROLES = [''forge'', ''sentinel'', ''vessel'', ''lore'']"

definition deletion_started :: "string \<Rightarrow> string \<Rightarrow> bool" where
  "deletion_started desired observed \<longleftrightarrow> desired = ''deleting'' \<or> desired = ''deleted'' \<or>
     observed = ''deleting'' \<or> observed = ''deleted''"

text \<open>The two unique indexes on live slots: one takes \<open>NULL\<close> as a value, one as \<open>-1\<close>.\<close>

definition slot_key :: "int option \<Rightarrow> int" where
  "slot_key slot = (case slot of None \<Rightarrow> - 1 | Some s \<Rightarrow> s)"

definition insert_workspace :: "string \<Rightarrow> Db \<Rightarrow> string \<Rightarrow> string \<Rightarrow> string \<Rightarrow> int option \<Rightarrow> (unit \<times> Db) managed" where
  "insert_workspace new_id q org tenant role slot =
     (if list_ex (\<lambda>w. wk_id w = new_id) (db_workspaces q) \<or>
         list_ex (\<lambda>w. wk_tenant_id w = tenant \<and> wk_role w = role \<and>
            ((wk_slot w = slot \<and> (wk_desired_state w \<noteq> ''deleted'' \<or> wk_observed_state w \<noteq> ''deleted'')) \<or>
             (slot_key (wk_slot w) = slot_key slot \<and> wk_desired_state w \<noteq> ''deleted''))) (db_workspaces q)
      then Inl (Database ''duplicate key value violates unique constraint'')
      else Inr ((), q\<lparr>db_workspaces := db_workspaces q @
        [\<lparr>wk_id = new_id, wk_organization_id = org, wk_tenant_id = tenant, wk_role = role, wk_slot = slot,
          wk_ticket_id = None, wk_branch = None, wk_a2a_pair_token = None, wk_desired_state = ''provisioning'',
          wk_observed_state = ''provisioning'', wk_registered_at = None, wk_last_heartbeat_at = None,
          wk_credential_generation = 0\<rparr>]\<rparr>))"

definition ensure_workspace :: "string \<Rightarrow> Db \<Rightarrow> string \<Rightarrow> string \<Rightarrow> string \<Rightarrow> int option \<Rightarrow> (string \<times> Db) managed" where
  "ensure_workspace new_id q org tenant role slot =
     (case List.find (\<lambda>w. wk_organization_id w = org \<and> wk_tenant_id w = tenant \<and> wk_role w = role \<and>
             wk_slot w = slot \<and> wk_desired_state w \<noteq> ''deleted'') (db_workspaces q) of
        Some w \<Rightarrow> Inr (wk_id w, q)
      | None \<Rightarrow> and_then (insert_workspace new_id q org tenant role slot) (\<lambda>(_, q'). Inr (new_id, q')))"

definition set_worker :: "(WorkspaceRow \<Rightarrow> WorkspaceRow) \<Rightarrow> string \<Rightarrow> Db \<Rightarrow> Db" where
  "set_worker f i = set_workspaces (\<lambda>w. wk_id w = i) f"

text \<open>The optional ticket, branch and pair token of a new workspace, one statement each.\<close>

definition describe_worker :: "string option \<Rightarrow> string option \<Rightarrow> string option \<Rightarrow> string \<Rightarrow> Db \<Rightarrow> Db" where
  "describe_worker ticket branch pair_token i q =
     (let q1 = (case ticket of None \<Rightarrow> q | Some x \<Rightarrow> set_worker (\<lambda>w. w\<lparr>wk_ticket_id := Some x\<rparr>) i q);
          q2 = (case branch of None \<Rightarrow> q1 | Some x \<Rightarrow> set_worker (\<lambda>w. w\<lparr>wk_branch := Some x\<rparr>) i q1) in
      case pair_token of None \<Rightarrow> q2 | Some x \<Rightarrow> set_worker (\<lambda>w. w\<lparr>wk_a2a_pair_token := Some x\<rparr>) i q2)"

definition hire_worker ::
  "string \<Rightarrow> string \<Rightarrow> instant \<Rightarrow> string \<Rightarrow> string \<Rightarrow> string \<Rightarrow> int option \<Rightarrow> string option \<Rightarrow> string option \<Rightarrow>
   string option \<Rightarrow> string \<Rightarrow> Db \<Rightarrow> ((string \<times> string) \<times> Db) managed" where
  "hire_worker new_id op tnow org tenant role slot ticket branch pair_token key q =
     and_then (reserve_worker_capacity_in_tx q org tenant 1) (\<lambda>(_, q1).
       and_then (insert_workspace new_id q1 org tenant role slot) (\<lambda>(_, q2).
         Inr ((new_id, op), describe_worker ticket branch pair_token new_id
           (op_create op tnow q2 \<lparr>no_organization_id = org, no_resource_type = ''workspace'',
              no_resource_id = Some new_id, no_kind = ''tenant.workspace'', no_idempotency_ref = Some key\<rparr>))))"

definition request_worker ::
  "string \<Rightarrow> string \<Rightarrow> instant \<Rightarrow> Db \<Rightarrow> RuntimeScope \<Rightarrow> string \<Rightarrow> int option \<Rightarrow> string option \<Rightarrow> string option \<Rightarrow>
   string option \<Rightarrow> string \<Rightarrow> (string \<times> string) managed \<times> Db" where
  "request_worker new_id op tnow q scope role slot ticket branch pair_token key =
     (if rs_workspace_role scope \<noteq> ''nexus''
      then (Inl (api ''WORKSPACE_UNAVAILABLE'' ''only the tenant's Nexus controller can request worker workspaces''), q)
      else if role \<notin> set WORKER_ROLES
      then (Inl (api ''INVALID_INPUT'' (''role '' @ CHR 0x27 # role @ CHR 0x27 # '' is not a requestable worker role'')), q)
      else (let org = rs_organization_id scope; tenant = rs_tenant_id scope in
        case List.find (\<lambda>p. op_organization_id p = org \<and> op_kind p = ''tenant.workspace'' \<and>
               op_idempotency_ref p = Some key \<and> is_some_and (op_resource_id p) (workspace_of q tenant))
             (db_operations q) of
          Some p \<Rightarrow> (Inr (the (op_resource_id p), op_id p), q)
        | None \<Rightarrow>
            if is_some_and slot (\<lambda>s. list_ex (\<lambda>w. wk_tenant_id w = tenant \<and> wk_role w = role \<and> wk_slot w = Some s \<and>
                 wk_desired_state w \<noteq> ''deleted'') (db_workspaces q))
            then (Inl (api ''CONFLICT'' (''slot '' @ show_int (the slot) @ '' for role '' @ CHR 0x27 # role @
              CHR 0x27 # '' is already in use'')), q)
            else transact q (hire_worker new_id op tnow org tenant role slot ticket branch pair_token key q)))"

definition runtime_heartbeat :: "instant \<Rightarrow> Db \<Rightarrow> RuntimeScope \<Rightarrow> string managed \<times> Db" where
  "runtime_heartbeat clk q scope =
     (let p = (\<lambda>w. wk_id w = rs_workspace_id scope \<and> wk_organization_id w = rs_organization_id scope \<and>
                wk_tenant_id w = rs_tenant_id scope \<and> \<not> deletion_started (wk_desired_state w) (wk_observed_state w));
          q1 = set_workspaces p (\<lambda>w. w\<lparr>wk_observed_state := ''running'',
                 wk_registered_at := Some (case wk_registered_at w of None \<Rightarrow> clk | Some x \<Rightarrow> x),
                 wk_last_heartbeat_at := Some clk\<rparr>) q in
      if rows_affected p (db_workspaces q) \<noteq> 1 then (Inl (not_found ''workspace''), q1)
      else (Inr (rs_workspace_id scope),
        if rs_workspace_role scope = ''nexus''
        then set_tenants (\<lambda>t. scoped (rs_organization_id scope) (rs_tenant_id scope) t \<and>
               (tn_desired_state t = ''provisioning'' \<or> tn_desired_state t = ''running''))
             (\<lambda>t. t\<lparr>tn_observed_state := ''running'', tn_error_code := None\<rparr>) q1
        else q1))"

definition mutate_worker_tx ::
  "string \<Rightarrow> instant \<Rightarrow> instant \<Rightarrow> TenantDb \<Rightarrow> RuntimeScope \<Rightarrow> string \<Rightarrow> bool \<Rightarrow> string \<Rightarrow> (string \<times> TenantDb) managed" where
  "mutate_worker_tx op tnow clk t scope workspace delete key =
     (case List.find (\<lambda>w. wk_id w = workspace \<and> wk_organization_id w = rs_organization_id scope \<and>
             wk_tenant_id w = rs_tenant_id scope) (db_workspaces (queue t)) of
        None \<Rightarrow> Inl (not_found ''workspace'')
      | Some w \<Rightarrow>
          if wk_role w = ''nexus''
          then Inl (api ''INVALID_INPUT'' ''Nexus cannot delete or stop itself through the worker API'')
          else if deletion_started (wk_desired_state w) (wk_observed_state w)
          then Inl (Conflict ''workspace is being deleted or has already been deleted'')
          else
            (let desired = (if delete then ''deleting'' else ''stopped'');
                 q1 = set_worker (\<lambda>w. w\<lparr>wk_desired_state := desired\<rparr>) workspace (queue t);
                 q2 = op_create op tnow q1 \<lparr>no_organization_id = rs_organization_id scope,
                    no_resource_type = ''workspace'', no_resource_id = Some workspace,
                    no_kind = (if delete then ''workspace.delete'' else ''workspace.stop''), no_idempotency_ref = Some key\<rparr> in
             Inr (op, set_queue q2 (t\<lparr>tb_runtime_credentials :=
               revoke_secrets clk ((=) workspace) (tb_runtime_credentials t)\<rparr>))))"

definition mutate_worker ::
  "string \<Rightarrow> instant \<Rightarrow> instant \<Rightarrow> Db \<Rightarrow> TenantDb \<Rightarrow> RuntimeScope \<Rightarrow> string \<Rightarrow> bool \<Rightarrow> string \<Rightarrow> string managed \<times> TenantDb" where
  "mutate_worker op tnow clk before t scope workspace delete key =
     (if rs_workspace_role scope \<noteq> ''nexus''
      then (Inl (api ''WORKSPACE_UNAVAILABLE'' ''only the tenant Nexus may manage worker workspaces''), t)
      else (case List.find (\<lambda>p. op_organization_id p = rs_organization_id scope \<and>
               op_kind p = (if delete then ''workspace.delete'' else ''workspace.stop'') \<and>
               op_idempotency_ref p = Some key \<and> op_resource_id p = Some workspace) (db_operations before) of
          Some p \<Rightarrow> (Inr (op_id p), t)
        | None \<Rightarrow> transact t (mutate_worker_tx op tnow clk t scope workspace delete key)))"

section \<open>The last transactions of the worker\<close>

datatype TenantProvisionOutcome =
    Provisioned string
  | Deleted string
  | QueuedAgain string
  | WaitingForController string
  | NotReady string string
  | ProvisionFailed string string bool
  | StaleLease

text \<open>Lock the lease, change the rows, complete the operation; a lost lease rolls back.\<close>

definition finish_under_lease ::
  "LeaseGuard \<Rightarrow> instant \<Rightarrow> instant \<Rightarrow> Db \<Rightarrow> (Db \<Rightarrow> (json \<times> TenantProvisionOutcome \<times> Db) option) \<Rightarrow> TenantProvisionOutcome \<times> Db" where
  "finish_under_lease g tnow clk q change =
     (if \<not> lock_in_tx g clk q then (StaleLease, q)
      else (case change q of
          None \<Rightarrow> (StaleLease, q)
        | Some (result, outcome, q1) \<Rightarrow>
           (case complete_in_tx g tnow clk q1 result of
              (q2, done') \<Rightarrow> if done' then (outcome, q2) else (StaleLease, q))))"

definition tenant_result :: "string \<Rightarrow> string \<Rightarrow> json" where
  "tenant_result tenant status = JObj [(''tenant_id'', JStr tenant), (''status'', JStr status)]"

definition workspace_result :: "string \<Rightarrow> string \<Rightarrow> json" where
  "workspace_result workspace status = JObj [(''workspace_id'', JStr workspace), (''status'', JStr status)]"

definition worker_stop :: "LeaseGuard \<Rightarrow> instant \<Rightarrow> instant \<Rightarrow> string \<Rightarrow> Db \<Rightarrow> TenantProvisionOutcome \<times> Db" where
  "worker_stop g tnow clk tenant q =
     finish_under_lease g tnow clk q (\<lambda>q.
       let p = (\<lambda>r. tn_id r = tenant \<and> tn_desired_state r \<noteq> ''deleted'') in
       if rows_affected p (db_tenants q) \<noteq> 1 then None
       else Some (tenant_result tenant ''paused'', Provisioned tenant,
         set_tenants p (\<lambda>r. r\<lparr>tn_desired_state := ''paused'', tn_observed_state := ''paused''\<rparr>)
          (set_workspaces (\<lambda>w. wk_tenant_id w = tenant \<and> wk_desired_state w \<noteq> ''deleted'')
            (\<lambda>w. w\<lparr>wk_desired_state := ''stopped'', wk_observed_state := ''stopped'', wk_registered_at := None,
               wk_last_heartbeat_at := None\<rparr>) q)))"

definition worker_start :: "LeaseGuard \<Rightarrow> instant \<Rightarrow> instant \<Rightarrow> string \<Rightarrow> Db \<Rightarrow> TenantProvisionOutcome \<times> Db" where
  "worker_start g tnow clk tenant q =
     finish_under_lease g tnow clk q (\<lambda>q.
       let p = (\<lambda>r. tn_id r = tenant \<and> tn_desired_state r \<noteq> ''deleted'' \<and> tn_desired_state r \<noteq> ''deleting'') in
       if rows_affected p (db_tenants q) \<noteq> 1 then None
       else Some (tenant_result tenant ''running'', Provisioned tenant,
         set_tenants p (\<lambda>r. r\<lparr>tn_desired_state := ''running'', tn_observed_state := ''running''\<rparr>) q))"

definition promote_tenant :: "string \<Rightarrow> string \<Rightarrow> Db \<Rightarrow> (json \<times> TenantProvisionOutcome \<times> Db) option" where
  "promote_tenant tenant nexus q =
     (let p = (\<lambda>w. wk_id w = nexus \<and> wk_desired_state w = ''provisioning'') in
      if rows_affected p (db_workspaces q) \<noteq> 1 then None
      else Some (tenant_result tenant ''running'', Provisioned tenant,
        set_workspaces p (\<lambda>w. w\<lparr>wk_desired_state := ''running'', wk_observed_state := ''running''\<rparr>)
         (set_tenants (\<lambda>r. tn_id r = tenant)
           (\<lambda>r. r\<lparr>tn_desired_state := ''running'', tn_observed_state := ''running'', tn_error_code := None\<rparr>) q)))"

definition mark_tenant_running ::
  "LeaseGuard \<Rightarrow> instant \<Rightarrow> instant \<Rightarrow> string \<Rightarrow> string \<Rightarrow> Db \<Rightarrow> TenantProvisionOutcome managed \<times> Db" where
  "mark_tenant_running g tnow clk tenant nexus q =
     (if \<not> lock_in_tx g clk q then (Inr StaleLease, q)
      else (case List.find (\<lambda>r. tn_id r = tenant) (db_tenants q) of
          None \<Rightarrow> (Inl (Database ''no row returned''), q)
        | Some t \<Rightarrow>
            if tn_desired_state t \<noteq> ''provisioning'' then (Inr (NotReady tenant ''TENANT_STATE_CHANGED''), q)
            else map_prod Inr id (finish_under_lease g tnow clk q (promote_tenant tenant nexus))))"

definition mark_worker_running :: "LeaseGuard \<Rightarrow> instant \<Rightarrow> instant \<Rightarrow> string \<Rightarrow> string \<Rightarrow> Db \<Rightarrow> TenantProvisionOutcome \<times> Db" where
  "mark_worker_running g tnow clk tenant workspace q =
     finish_under_lease g tnow clk q (\<lambda>q.
       let p = (\<lambda>w. wk_id w = workspace \<and> wk_desired_state w = ''provisioning'') in
       if rows_affected p (db_workspaces q) \<noteq> 1 then None
       else Some (workspace_result workspace ''running'', Provisioned tenant,
         set_workspaces p (\<lambda>w. w\<lparr>wk_desired_state := ''running'', wk_observed_state := ''running''\<rparr>) q))"

definition complete_worker_creation_superseded ::
  "LeaseGuard \<Rightarrow> instant \<Rightarrow> instant \<Rightarrow> string \<Rightarrow> string \<Rightarrow> Db \<Rightarrow> TenantProvisionOutcome \<times> Db" where
  "complete_worker_creation_superseded g tnow clk tenant workspace q =
     finish_under_lease g tnow clk q
       (\<lambda>q. Some (workspace_result workspace ''superseded_by_tenant_delete'', Provisioned tenant, q))"

text \<open>The end of a worker's stop or deletion; the row was read before the calls to Coder.\<close>

definition mutate_worker_workspace ::
  "LeaseGuard \<Rightarrow> instant \<Rightarrow> instant \<Rightarrow> bool \<Rightarrow> WorkspaceRow \<Rightarrow> Db \<Rightarrow> TenantProvisionOutcome \<times> Db" where
  "mutate_worker_workspace g tnow clk delete row q =
     (if \<not> delete \<and> deletion_started (wk_desired_state row) (wk_observed_state row)
      then finish_under_lease g tnow clk q
        (\<lambda>q. Some (workspace_result (wk_id row) ''superseded_by_delete'', Provisioned (wk_tenant_id row), q))
      else finish_under_lease g tnow clk q (\<lambda>q.
        let state = (if delete then ''deleted'' else ''stopped'');
            expected = (if delete then ''deleting'' else ''stopped'');
            p = (\<lambda>w. wk_id w = wk_id row \<and> wk_desired_state w = expected \<and>
                  wk_observed_state w \<noteq> ''deleting'' \<and> wk_observed_state w \<noteq> ''deleted'');
            changed = rows_affected p (db_workspaces q) = 1;
            q1 = set_workspaces p (\<lambda>w. w\<lparr>wk_desired_state := state, wk_observed_state := state\<rparr>) q;
            q2 = (if delete \<and> changed
                  then set_tenants (\<lambda>r. tn_id r = wk_tenant_id row)
                    (\<lambda>r. r\<lparr>tn_reserved_worker_capacity := max (tn_reserved_worker_capacity r - 1) 0\<rparr>) q1
                  else q1) in
        Some (workspace_result (wk_id row) (if changed then state else ''superseded''), Provisioned (wk_tenant_id row), q2)))"

definition unfinished_worker_creation :: "Db \<Rightarrow> string \<Rightarrow> string \<Rightarrow> bool" where
  "unfinished_worker_creation q org tenant \<longleftrightarrow>
     list_ex (\<lambda>p. op_kind p = ''tenant.workspace'' \<and>
       (op_state p = Queued \<or> op_state p = Running \<or> (op_state p = RetryableFailed \<and> op_retry_at p \<noteq> None)) \<and>
       list_ex (\<lambda>w. Some (wk_id w) = op_resource_id p \<and> wk_tenant_id w = tenant \<and> wk_organization_id w = org)
         (db_workspaces q)) (db_operations q)"

text \<open>
  The final transaction of a deletion, over the queue and the tables of secrets: the records of the
  runtime are removed, the reservation is released, tenant and workspaces become tombstones.
\<close>

definition worker_delete ::
  "LeaseGuard \<Rightarrow> instant \<Rightarrow> instant \<Rightarrow> string \<Rightarrow> TenantDb \<Rightarrow> TenantProvisionOutcome \<times> TenantDb" where
  "worker_delete g tnow clk tenant t =
     (let org = lg_organization_id g; q = queue t;
          owned = (\<lambda>w. list_ex (\<lambda>r. wk_id r = w \<and> wk_tenant_id r = tenant \<and> wk_organization_id r = org) (db_workspaces q)) in
      case finish_under_lease g tnow clk q (\<lambda>q.
        Some (tenant_result tenant ''deleted'', Deleted tenant,
          set_tenants (scoped org tenant) (\<lambda>r. r\<lparr>tn_desired_state := ''deleted'', tn_observed_state := ''deleted''\<rparr>)
           (set_workspaces (\<lambda>w. wk_tenant_id w = tenant \<and> wk_organization_id w = org)
             (\<lambda>w. w\<lparr>wk_desired_state := ''deleted'', wk_observed_state := ''deleted'', wk_a2a_pair_token := None,
                wk_registered_at := None, wk_last_heartbeat_at := None\<rparr>)
            (set_tenants (scoped org tenant) (\<lambda>r. r\<lparr>tn_reserved_worker_capacity := 0\<rparr>) q)))) of
        (Deleted i, q') \<Rightarrow> (Deleted i, set_queue q' (t\<lparr>
            tb_runtime_credentials := filter (\<lambda>r. \<not> owned (sc_owner r)) (tb_runtime_credentials t),
            tb_bootstraps := filter (\<lambda>r. \<not> owned (sc_owner r)) (tb_bootstraps t),
            tb_credential_leases := filter (\<lambda>r. \<not> (sc_owner r = tenant \<and> cl_organization_id r = org)) (tb_credential_leases t),
            tb_hook_keys := filter (\<lambda>r. sc_owner r \<noteq> tenant) (tb_hook_keys t),
            tb_redis_credentials := filter (\<lambda>r. sc_owner r \<noteq> tenant) (tb_redis_credentials t)\<rparr>))
      | (outcome, _) \<Rightarrow> (outcome, t))"

text \<open>\<open>finish\<close>: what an outcome does to the operation. The error code of a failed call is an argument.\<close>

definition finish_outcome ::
  "(Db \<Rightarrow> Db) \<Rightarrow> LeaseGuard \<Rightarrow> instant \<Rightarrow> instant \<Rightarrow> instant \<Rightarrow> Db \<Rightarrow> (string + TenantProvisionOutcome) \<Rightarrow> Db" where
  "finish_outcome env g tnow clk unow q outcome =
     (case outcome of
        Inl code \<Rightarrow> fst (op_fail env g tnow clk unow q True (Some code))
      | Inr (QueuedAgain _) \<Rightarrow> fst (requeue g tnow clk q ''waiting_for_provisioning_slot'')
      | Inr (WaitingForController _) \<Rightarrow> fst (requeue_after g tnow clk q ''waiting_for_nexus'' 5)
      | Inr (NotReady _ code) \<Rightarrow> fst (op_fail env g tnow clk unow q (code \<noteq> ''TENANT_STATE_CHANGED'') (Some code))
      | Inr (ProvisionFailed _ code again) \<Rightarrow> fst (op_fail env g tnow clk unow q again (Some code))
      | Inr _ \<Rightarrow> q)"

end
