(* ===== verification/Tenant_System.thy ===== *)
theory Tenant_System
  imports Tenants Reachability
begin

text \<open>
  Tenants, workspaces and quotas as a transition system. A step is one call of the tenant service or
  of a runtime, or one final transaction of a worker; the environment changes everything else
  (operations, leases, users, organizations, secrets, the credential columns of a workspace), nothing
  else of these three tables. A worker's stop
  that finishes on a tenant whose deletion has been requested is labelled \<open>LateStop\<close>.
\<close>

section \<open>Steps\<close>

datatype FleetEvent = FleetCall | LateStop | Outside

definition being_deleted :: "string \<Rightarrow> Db \<Rightarrow> bool" where
  "being_deleted tenant q \<longleftrightarrow> list_ex (\<lambda>t. tn_id t = tenant \<and> tn_desired_state t = ''deleting'') (db_tenants q)"

definition same_fleet :: "Db \<Rightarrow> Db \<Rightarrow> bool" where
  "same_fleet q q' \<longleftrightarrow> db_tenants q' = db_tenants q \<and> db_workspaces q' = db_workspaces q \<and> db_quotas q' = db_quotas q"

text \<open>What the sessions of a runtime write to its workspace, and nothing else.\<close>

definition session_written :: "WorkspaceRow \<Rightarrow> WorkspaceRow \<Rightarrow> bool" where
  "session_written w w' \<longleftrightarrow> w' = w\<lparr>wk_registered_at := wk_registered_at w', wk_last_heartbeat_at := wk_last_heartbeat_at w',
     wk_credential_generation := wk_credential_generation w'\<rparr> \<and> wk_credential_generation w \<le> wk_credential_generation w'"

definition outside_fleet :: "Db \<Rightarrow> Db \<Rightarrow> bool" where
  "outside_fleet q q' \<longleftrightarrow> db_tenants q' = db_tenants q \<and> list_all2 session_written (db_workspaces q) (db_workspaces q') \<and>
     db_quotas q' = db_quotas q"

inductive fleet_step :: "TenantStore \<Rightarrow> FleetEvent \<Rightarrow> TenantStore \<Rightarrow> bool" where
  f_create: "create_tenant parse_uuid limits key_id tenant op tnow clk before st actor org repository slug fleet key hash request_id = (r, st') \<Longrightarrow>
    fleet_step st FleetCall st'"
| f_delete: "delete_tenant parse_uuid key_id op tnow clk before st actor org tenant key hash request_id = (rd, st') \<Longrightarrow>
    fleet_step st FleetCall st'"
| f_action: "enqueue_action parse_uuid key_id op tnow clk before st actor org tenant action admin_only key hash request_id = (rd, st') \<Longrightarrow>
    fleet_step st FleetCall st'"
| f_request: "request_worker new_id op tnow (queue t) scope role slot ticket branch pair_token key = (rw, q') \<Longrightarrow>
    fleet_step (keys, t) FleetCall (keys, set_queue q' t)"
| f_heartbeat: "runtime_heartbeat clk (queue t) scope = (rh, q') \<Longrightarrow> fleet_step (keys, t) FleetCall (keys, set_queue q' t)"
| f_mutate: "mutate_worker op tnow clk earlier t scope workspace delete key = (rd, t') \<Longrightarrow> fleet_step (keys, t) FleetCall (keys, t')"
| f_nexus: "ensure_workspace new_id (queue t) org tenant ''nexus'' None = Inr (w, q') \<Longrightarrow>
    list_ex (\<lambda>r. tn_id r = tenant) (db_tenants (queue t)) \<Longrightarrow> fleet_step (keys, t) FleetCall (keys, set_queue q' t)"
| f_stop: "worker_stop g tnow clk tenant (queue t) = (outcome, q') \<Longrightarrow>
    fleet_step (keys, t) (if being_deleted tenant (queue t) then LateStop else FleetCall) (keys, set_queue q' t)"
| f_start: "worker_start g tnow clk tenant (queue t) = (outcome, q') \<Longrightarrow> fleet_step (keys, t) FleetCall (keys, set_queue q' t)"
| f_running: "mark_tenant_running g tnow clk tenant nexus (queue t) = (rm, q') \<Longrightarrow>
    fleet_step (keys, t) FleetCall (keys, set_queue q' t)"
| f_worker: "mark_worker_running g tnow clk tenant workspace (queue t) = (outcome, q') \<Longrightarrow>
    fleet_step (keys, t) FleetCall (keys, set_queue q' t)"
| f_superseded: "complete_worker_creation_superseded g tnow clk tenant workspace (queue t) = (outcome, q') \<Longrightarrow>
    fleet_step (keys, t) FleetCall (keys, set_queue q' t)"
| f_workspace: "mutate_worker_workspace g tnow clk delete row (queue t) = (outcome, q') \<Longrightarrow>
    fleet_step (keys, t) FleetCall (keys, set_queue q' t)"
| f_deleted: "worker_delete g tnow clk tenant t = (outcome, t') \<Longrightarrow> fleet_step (keys, t) FleetCall (keys, t')"
| f_environment: "outside_fleet (queue t) (queue t') \<Longrightarrow> fleet_step (keys, t) Outside (keys', t')"

definition fleet_start :: "TenantStore \<Rightarrow> bool" where
  "fleet_start st \<longleftrightarrow> db_tenants (queue (snd st)) = [] \<and> db_workspaces (queue (snd st)) = [] \<and> db_quotas (queue (snd st)) = []"

section \<open>What a step can do to the tables\<close>

text \<open>
  Row by row: identifiers stay, a deleted tenant or workspace stays deleted, and outside a late stop
  no tenant becomes active again.
\<close>

definition tenant_evolves :: "bool \<Rightarrow> TenantRow \<Rightarrow> TenantRow \<Rightarrow> bool" where
  "tenant_evolves late t t' \<longleftrightarrow> tn_id t' = tn_id t \<and> tn_organization_id t' = tn_organization_id t \<and>
     tn_desired_state t' \<in> {''provisioning'', ''running'', ''paused'', ''deleting'', ''deleted''} \<and>
     (tn_desired_state t = ''deleted'' \<longrightarrow> tn_desired_state t' = ''deleted'') \<and>
     (tn_desired_state t = ''deleting'' \<longrightarrow> tn_desired_state t' \<in> {''deleting'', ''deleted''} \<or>
        late \<and> tn_desired_state t' = ''paused'')"

definition workspace_evolves :: "WorkspaceRow \<Rightarrow> WorkspaceRow \<Rightarrow> bool" where
  "workspace_evolves w w' \<longleftrightarrow> wk_id w' = wk_id w \<and> wk_organization_id w' = wk_organization_id w \<and>
     wk_tenant_id w' = wk_tenant_id w \<and> wk_role w' = wk_role w \<and> wk_credential_generation w \<le> wk_credential_generation w' \<and>
     (wk_desired_state w = ''deleted'' \<longrightarrow> wk_desired_state w' = ''deleted'')"

definition fleet_evolves :: "bool \<Rightarrow> Db \<Rightarrow> Db \<Rightarrow> bool" where
  "fleet_evolves late q q' \<longleftrightarrow> list_all2 (tenant_evolves late) (db_tenants q) (db_tenants q') \<and>
     list_all2 workspace_evolves (db_workspaces q) (db_workspaces q') \<and> db_quotas q' = db_quotas q"

definition tenant_created :: "Db \<Rightarrow> Db \<Rightarrow> bool" where
  "tenant_created q q' \<longleftrightarrow>
     (\<exists>t r. db_workspaces q' = db_workspaces q \<and> db_tenants q' = db_tenants q @ [t] \<and> tn_id t \<notin> tn_id ` set (db_tenants q) \<and>
        tn_desired_state t = ''provisioning'' \<and> quota_row q' (tn_organization_id t) = Some r \<and>
        int (active_tenants q (tn_organization_id t)) < qt_max_tenants r \<and>
        (db_quotas q' = db_quotas q \<or>
         quota_row q (tn_organization_id t) = None \<and> qt_organization_id r = tn_organization_id t \<and>
         1 \<le> qt_max_tenants r \<and> 1 \<le> qt_max_workers_per_tenant r \<and> db_quotas q' = db_quotas q @ [r]))"

definition worker_hired :: "Db \<Rightarrow> Db \<Rightarrow> bool" where
  "worker_hired q q' \<longleftrightarrow>
     (\<exists>w t r ws. list_all2 (tenant_evolves False) (db_tenants q) (db_tenants q') \<and> db_quotas q' = db_quotas q \<and>
        list_all2 workspace_evolves (db_workspaces q @ [w]) ws \<and> db_workspaces q' = ws \<and>
        wk_id w \<notin> wk_id ` set (db_workspaces q) \<and> t \<in> set (db_tenants q) \<and> tn_id t = wk_tenant_id w \<and>
        (wk_role w = ''nexus'' \<or> quota_row q (tn_organization_id t) = Some r \<and>
         int (live_workers q (tn_id t)) < qt_max_workers_per_tenant r))"

section \<open>The invariant\<close>

definition fleet_keyed :: "Db \<Rightarrow> bool" where
  "fleet_keyed q \<longleftrightarrow> distinct (map tn_id (db_tenants q)) \<and> distinct (map wk_id (db_workspaces q)) \<and>
     (\<forall>t \<in> set (db_tenants q). tn_desired_state t \<in> {''provisioning'', ''running'', ''paused'', ''deleting'', ''deleted''} \<and>
        quota_row q (tn_organization_id t) \<noteq> None) \<and>
     (\<forall>w \<in> set (db_workspaces q). wk_tenant_id w \<in> tn_id ` set (db_tenants q)) \<and>
     (\<forall>r \<in> set (db_quotas q). 1 \<le> qt_max_workers_per_tenant r)"

definition workers_within :: "Db \<Rightarrow> bool" where
  "workers_within q \<longleftrightarrow> (\<forall>t \<in> set (db_tenants q). \<forall>r. quota_row q (tn_organization_id t) = Some r \<longrightarrow>
     int (live_workers q (tn_id t)) \<le> qt_max_workers_per_tenant r)"

definition tenants_within :: "Db \<Rightarrow> bool" where
  "tenants_within q \<longleftrightarrow> (\<forall>org r. quota_row q org = Some r \<longrightarrow> int (active_tenants q org) \<le> qt_max_tenants r)"

section \<open>Updates row by row\<close>

lemma list_all2_update:
  assumes "\<And>x. x \<in> set xs \<Longrightarrow> R x x" and "\<And>x. x \<in> set xs \<Longrightarrow> p x \<Longrightarrow> R x (f x)"
  shows "list_all2 R xs (update_where p f xs)"
  using assms by (simp add: update_where_def list_all2_map2 list.rel_refl_strong)

lemma count_evolves:
  assumes "list_all2 R xs ys" and "\<And>x y. R x y \<Longrightarrow> P y \<Longrightarrow> P x"
  shows "length (filter P ys) \<le> length (filter P xs)"
  using assms(1) by (induction rule: list_all2_induct) (use assms(2) in auto)

lemma evolves_map:
  assumes "list_all2 R xs ys" and "\<And>x y. R x y \<Longrightarrow> k y = k x"
  shows "map k ys = map k xs"
  using assms(1) by (induction rule: list_all2_induct) (use assms(2) in auto)

lemma evolves_source: "list_all2 R xs ys \<Longrightarrow> y \<in> set ys \<Longrightarrow> \<exists>x \<in> set xs. R x y"
  by (induction rule: list_all2_induct) auto

lemma evolves_target: "list_all2 R xs ys \<Longrightarrow> x \<in> set xs \<Longrightarrow> \<exists>y \<in> set ys. R x y"
  by (induction rule: list_all2_induct) auto

lemma update_where_twice:
  assumes "\<And>x. p (g x) = p x"
  shows "update_where p f (update_where p g xs) = update_where p (\<lambda>x. f (g x)) xs"
  using assms by (simp add: update_where_def)

lemma set_tables [simp]:
  "db_tenants (set_tenants p f q) = update_where p f (db_tenants q)"
  "db_workspaces (set_tenants p f q) = db_workspaces q" "db_quotas (set_tenants p f q) = db_quotas q"
  "db_workspaces (set_workspaces p' h q) = update_where p' h (db_workspaces q)"
  "db_tenants (set_workspaces p' h q) = db_tenants q" "db_quotas (set_workspaces p' h q) = db_quotas q"
  "db_tenants (op_create i n q o') = db_tenants q" "db_workspaces (op_create i n q o') = db_workspaces q"
  "db_quotas (op_create i n q o') = db_quotas q"
  "queue (set_queue q t) = q"
  by (simp_all add: set_tenants_def set_workspaces_def op_create_def set_queue_def)

lemma workspace_refl [simp]: "workspace_evolves w w"
  by (simp add: workspace_evolves_def)

lemma tenant_refl:
  "fleet_keyed q \<Longrightarrow> t \<in> set (db_tenants q) \<Longrightarrow> tenant_evolves late t t"
  by (simp add: tenant_evolves_def fleet_keyed_def)

lemma keyed_state:
  "fleet_keyed q \<Longrightarrow> t \<in> set (db_tenants q) \<Longrightarrow>
   tn_desired_state t \<in> {''provisioning'', ''running'', ''paused'', ''deleting'', ''deleted''}"
  by (simp add: fleet_keyed_def)

lemma workspaces_refl: "list_all2 workspace_evolves ws ws"
  by (simp add: list_all2_refl)

lemma workspaces_update:
  assumes "\<And>w. w \<in> set ws \<Longrightarrow> p w \<Longrightarrow> workspace_evolves w (f w)"
  shows "list_all2 workspace_evolves ws (update_where p f ws)"
  using assms by (intro list_all2_update) simp_all

lemma tenants_refl: "fleet_keyed q \<Longrightarrow> list_all2 (tenant_evolves late) (db_tenants q) (db_tenants q)"
  by (rule list.rel_refl_strong) (rule tenant_refl)

lemma tenants_update:
  assumes "fleet_keyed q" and "\<And>t. t \<in> set (db_tenants q) \<Longrightarrow> p t \<Longrightarrow> tenant_evolves late t (f t)"
  shows "list_all2 (tenant_evolves late) (db_tenants q) (update_where p f (db_tenants q))"
  using assms tenant_refl by (intro list_all2_update) blast+

lemma same_fleet_evolves: "same_fleet q q' \<Longrightarrow> fleet_keyed q \<Longrightarrow> fleet_evolves late q q'"
  by (simp add: same_fleet_def fleet_evolves_def tenants_refl workspaces_refl)

lemma session_written_refl [simp]: "session_written w w"
  by (simp add: session_written_def)

lemma same_fleet_outside: "same_fleet q q' \<Longrightarrow> outside_fleet q q'"
  by (simp add: same_fleet_def outside_fleet_def list_all2_refl)

lemma session_written_evolves: "session_written w w' \<Longrightarrow> workspace_evolves w w'"
proof -
  assume written: "session_written w w'"
  then have same: "w' = w\<lparr>wk_registered_at := wk_registered_at w', wk_last_heartbeat_at := wk_last_heartbeat_at w',
      wk_credential_generation := wk_credential_generation w'\<rparr>" unfolding session_written_def by (rule conjunct1)
  have "wk_id w' = wk_id w" "wk_organization_id w' = wk_organization_id w" "wk_tenant_id w' = wk_tenant_id w"
      "wk_role w' = wk_role w" "wk_desired_state w' = wk_desired_state w"
    by (subst same, simp)+
  then show ?thesis using written by (simp add: workspace_evolves_def session_written_def)
qed

lemma outside_fleet_evolves: "outside_fleet q q' \<Longrightarrow> fleet_keyed q \<Longrightarrow> fleet_evolves late q q'"
  by (auto simp: outside_fleet_def fleet_evolves_def tenants_refl intro: list_all2_mono session_written_evolves)

lemma fleet_evolves_same: "fleet_evolves late q q1 \<Longrightarrow> same_fleet q1 q' \<Longrightarrow> fleet_evolves late q q'"
  by (simp add: fleet_evolves_def same_fleet_def)

lemma fleet_evolvesI:
  assumes "fleet_keyed q" and "db_tenants q' = update_where p f (db_tenants q)"
    and "\<And>t. t \<in> set (db_tenants q) \<Longrightarrow> p t \<Longrightarrow> tenant_evolves late t (f t)"
    and "db_workspaces q' = update_where p' h (db_workspaces q)"
    and "\<And>w. w \<in> set (db_workspaces q) \<Longrightarrow> p' w \<Longrightarrow> workspace_evolves w (h w)"
    and "db_quotas q' = db_quotas q"
  shows "fleet_evolves late q q'"
  using assms by (simp add: fleet_evolves_def tenants_update workspaces_update)

lemma update_none: "update_where (\<lambda>_. False) f xs = xs"
  by (simp add: update_where_def)

lemma finish_under_lease_cases:
  assumes "finish_under_lease g tnow clk q change = (outcome, q')"
  obtains (stale) "q' = q"
    | (finished) result q1 where "change q = Some (result, outcome, q1)" and "same_fleet q1 q'"
  using assms
  by (auto simp: finish_under_lease_def complete_in_tx_def update_operations_def same_fleet_def
      split: if_splits option.splits)

lemma finish_under_lease_evolves:
  assumes "finish_under_lease g tnow clk q change = (outcome, q')" and "fleet_keyed q"
    and "\<And>result outcome q1. change q = Some (result, outcome, q1) \<Longrightarrow> fleet_evolves late q q1"
  shows "fleet_evolves late q q'"
  using assms(1)
proof (cases rule: finish_under_lease_cases)
  case stale
  then show ?thesis using same_fleet_evolves [OF _ assms(2)] by (simp add: same_fleet_def)
next
  case finished
  then show ?thesis using assms(3) fleet_evolves_same by blast
qed

section \<open>Revocation\<close>

lemma revoked_secret:
  assumes "c \<in> set (revoke_secrets clk owned cs)" and "owned (sc_owner c)"
  shows "sc_revoked_at c \<noteq> None"
proof -
  obtain d where d: "c = (if owned (sc_owner d) \<and> sc_revoked_at d = None then d\<lparr>sc_revoked_at := Some clk\<rparr> else d)"
    using assms(1) unfolding revoke_secrets_def set_update_where by blast
  then show ?thesis using assms(2) by (cases "owned (sc_owner d) \<and> sc_revoked_at d = None") simp_all
qed

lemma revoked_lease:
  assumes "c \<in> set (revoke_leases clk (\<lambda>r. sc_owner r = tenant) cs)" and "sc_owner c = tenant"
  shows "sc_revoked_at c \<noteq> None"
proof -
  obtain d where d: "c = (if sc_owner d = tenant \<and> sc_revoked_at d = None
      then d\<lparr>sc_revoked_at := Some clk, cl_encrypted_ref := None\<rparr> else d)"
    using assms(1) unfolding revoke_leases_def set_update_where by blast
  then show ?thesis using assms(2) by (cases "sc_owner d = tenant \<and> sc_revoked_at d = None") simp_all
qed

section \<open>The worker's transactions\<close>

lemma worker_stop_evolves:
  assumes "worker_stop g tnow clk tenant q = (outcome, q')" and "fleet_keyed q"
  shows "fleet_evolves (being_deleted tenant q) q q'"
  using assms(1) unfolding worker_stop_def
  by (rule finish_under_lease_evolves [OF _ assms(2)])
    (auto simp: Let_def fleet_evolves_def tenant_evolves_def workspace_evolves_def being_deleted_def list_ex_iff
      intro!: tenants_update [OF assms(2)] workspaces_update split: if_splits)

lemma worker_start_evolves:
  assumes "worker_start g tnow clk tenant q = (outcome, q')" and "fleet_keyed q"
  shows "fleet_evolves False q q'"
  using assms(1) unfolding worker_start_def
  by (rule finish_under_lease_evolves [OF _ assms(2)])
    (auto simp: Let_def fleet_evolves_def workspaces_refl tenant_evolves_def
      intro!: tenants_update [OF assms(2)] split: if_splits)

lemma mark_worker_running_evolves:
  assumes "mark_worker_running g tnow clk tenant workspace q = (outcome, q')" and "fleet_keyed q"
  shows "fleet_evolves False q q'"
  using assms(1) unfolding mark_worker_running_def
  by (rule finish_under_lease_evolves [OF _ assms(2)])
    (auto simp: Let_def fleet_evolves_def workspace_evolves_def intro!: tenants_refl [OF assms(2)] workspaces_update split: if_splits)

lemma superseded_evolves:
  assumes "complete_worker_creation_superseded g tnow clk tenant workspace q = (outcome, q')" and "fleet_keyed q"
  shows "fleet_evolves False q q'"
  using assms(1) unfolding complete_worker_creation_superseded_def
  by (rule finish_under_lease_evolves [OF _ assms(2)]) (auto simp: fleet_evolves_def workspaces_refl tenants_refl [OF assms(2)])

lemma mark_tenant_running_evolves:
  assumes "mark_tenant_running g tnow clk tenant nexus q = (r, q')" and "fleet_keyed q"
  shows "fleet_evolves False q q'"
proof -
  have refl: "fleet_evolves False q q" using same_fleet_evolves [OF _ assms(2)] by (simp add: same_fleet_def)
  have only: "tn_desired_state t = ''provisioning''"
    if "List.find (\<lambda>r. tn_id r = tenant) (db_tenants q) = Some u" "tn_desired_state u = ''provisioning''"
      "t \<in> set (db_tenants q)" "tn_id t = tenant" for t u
    using distinct_key [of tn_id "db_tenants q" t u] that assms(2) find_SomeD [OF that(1)] by (simp add: fleet_keyed_def)
  consider "q' = q"
    | t outcome where "List.find (\<lambda>r. tn_id r = tenant) (db_tenants q) = Some t" "tn_desired_state t = ''provisioning''"
        "finish_under_lease g tnow clk q (promote_tenant tenant nexus) = (outcome, q')"
    using assms(1)
    by (cases "finish_under_lease g tnow clk q (promote_tenant tenant nexus)")
      (auto simp: mark_tenant_running_def split: if_splits option.splits)
  then show ?thesis
  proof cases
    case 1
    then show ?thesis using refl by simp
  next
    case (2 t outcome)
    from 2(3) show ?thesis
      by (rule finish_under_lease_evolves [OF _ assms(2)])
        (auto simp: promote_tenant_def Let_def fleet_evolves_def tenant_evolves_def workspace_evolves_def
          intro!: tenants_update [OF assms(2)] workspaces_update split: if_splits dest: only [OF 2(1,2)])
  qed
qed

lemma mutate_workspace_evolves:
  assumes "mutate_worker_workspace g tnow clk delete row q = (outcome, q')" and "fleet_keyed q"
  shows "fleet_evolves False q q'"
proof (cases "\<not> delete \<and> deletion_started (wk_desired_state row) (wk_observed_state row)")
  case True
  then have "finish_under_lease g tnow clk q (\<lambda>q. Some (workspace_result (wk_id row) ''superseded_by_delete'',
      Provisioned (wk_tenant_id row), q)) = (outcome, q')"
    using assms(1) by (simp add: mutate_worker_workspace_def)
  then show ?thesis
    by (rule finish_under_lease_evolves [OF _ assms(2)]) (auto simp: fleet_evolves_def workspaces_refl tenants_refl [OF assms(2)])
next
  case False
  with assms(1) show ?thesis
    unfolding mutate_worker_workspace_def
    by (simp only: if_False) (erule finish_under_lease_evolves [OF _ assms(2)];
      auto simp: Let_def fleet_evolves_def tenant_evolves_def workspace_evolves_def tenants_refl [OF assms(2)]
        intro!: tenants_update [OF assms(2)] workspaces_update split: if_splits dest: keyed_state [OF assms(2)])
qed

lemma worker_delete_evolves:
  assumes "worker_delete g tnow clk tenant t = (outcome, t')" and "fleet_keyed (queue t)"
  shows "fleet_evolves False (queue t) (queue t')"
proof -
  let ?org = "lg_organization_id g"
  let ?change = "\<lambda>q. Some (tenant_result tenant ''deleted'', Deleted tenant,
      set_tenants (scoped ?org tenant) (\<lambda>r. r\<lparr>tn_desired_state := ''deleted'', tn_observed_state := ''deleted''\<rparr>)
       (set_workspaces (\<lambda>w. wk_tenant_id w = tenant \<and> wk_organization_id w = ?org)
         (\<lambda>w. w\<lparr>wk_desired_state := ''deleted'', wk_observed_state := ''deleted'', wk_a2a_pair_token := None,
            wk_registered_at := None, wk_last_heartbeat_at := None\<rparr>)
        (set_tenants (scoped ?org tenant) (\<lambda>r. r\<lparr>tn_reserved_worker_capacity := 0\<rparr>) q)))"
  obtain x q' where x: "finish_under_lease g tnow clk (queue t) ?change = (x, q')" by fastforce
  have evolves: "fleet_evolves False (queue t) q'"
    using x by (rule finish_under_lease_evolves [OF _ assms(2)])
      (auto simp: fleet_evolves_def update_where_twice tenant_evolves_def workspace_evolves_def
        intro!: tenants_update [OF assms(2)] workspaces_update)
  have "fleet_evolves False (queue t) (queue t)" using same_fleet_evolves [OF _ assms(2)] by (simp add: same_fleet_def)
  then show ?thesis using assms(1) x evolves
    by (auto simp: worker_delete_def Let_def split: TenantProvisionOutcome.splits)
qed

section \<open>The calls of runtimes\<close>

lemma heartbeat_evolves:
  assumes "runtime_heartbeat clk q scope = (r, q')" and "fleet_keyed q"
  shows "fleet_evolves False q q'"
  using assms(1)
  by (auto simp: runtime_heartbeat_def Let_def fleet_evolves_def tenant_evolves_def workspace_evolves_def tenants_refl [OF assms(2)]
      intro!: tenants_update [OF assms(2)] workspaces_update split: if_splits)

lemma mutate_worker_evolves:
  assumes "mutate_worker op tnow clk before t scope workspace delete key = (r, t')" and "fleet_keyed (queue t)"
  shows "fleet_evolves False (queue t) (queue t')"
proof -
  have refl: "fleet_evolves False (queue t) (queue t)" using same_fleet_evolves [OF _ assms(2)] by (simp add: same_fleet_def)
  consider "t' = t" | u where "mutate_worker_tx op tnow clk t scope workspace delete key = Inr (u, t')"
    using assms(1)
    by (cases "mutate_worker_tx op tnow clk t scope workspace delete key")
      (auto simp: mutate_worker_def split: if_splits option.splits)
  then show ?thesis
  proof cases
    case 1
    then show ?thesis using refl by simp
  next
    case (2 u)
    then obtain w state where w: "List.find (\<lambda>w. wk_id w = workspace \<and> wk_organization_id w = rs_organization_id scope \<and>
          wk_tenant_id w = rs_tenant_id scope) (db_workspaces (queue t)) = Some w" "wk_desired_state w \<noteq> ''deleted''"
        "same_fleet (set_worker (\<lambda>w. w\<lparr>wk_desired_state := state\<rparr>) workspace (queue t)) (queue t')"
      by (auto simp: mutate_worker_tx_def Let_def deletion_started_def same_fleet_def set_worker_def
          split: if_splits option.splits)
    have only: "wk_desired_state v \<noteq> ''deleted''" if "v \<in> set (db_workspaces (queue t))" "wk_id v = workspace" for v
      using distinct_key [of wk_id "db_workspaces (queue t)" v w] that assms(2) find_SomeD [OF w(1)] w(2)
      by (auto simp: fleet_keyed_def)
    have "fleet_evolves False (queue t) (set_worker (\<lambda>w. w\<lparr>wk_desired_state := state\<rparr>) workspace (queue t))"
      by (auto simp: fleet_evolves_def set_worker_def workspace_evolves_def tenants_refl [OF assms(2)]
          intro!: workspaces_update dest: only)
    then show ?thesis using fleet_evolves_same w(3) by blast
  qed
qed

lemma insert_workspace_Inr:
  assumes "insert_workspace new_id q org tenant role slot = Inr (u, q')"
  obtains w where "wk_id w = new_id" and "wk_tenant_id w = tenant" and "wk_role w = role"
    and "new_id \<notin> wk_id ` set (db_workspaces q)" and "q' = q\<lparr>db_workspaces := db_workspaces q @ [w]\<rparr>"
  using assms by (auto simp: insert_workspace_def list_ex_iff split: if_splits intro!: that)

lemma reserve_Inr:
  assumes "reserve_worker_capacity_in_tx q org tenant 1 = Inr (u, q')"
  obtains t r where "t \<in> set (db_tenants q)" and "tn_id t = tenant" and "tn_organization_id t = org"
    and "quota_row q org = Some r" and "int (live_workers q tenant) < qt_max_workers_per_tenant r"
    and "q' = set_tenants (scoped org tenant) (\<lambda>t. t\<lparr>tn_reserved_worker_capacity := tn_reserved_worker_capacity t + 1\<rparr>) q"
proof -
  obtain t r where t: "scoped_tenant q org tenant = Some t" "quota_row q org = Some r"
      "int (live_workers q tenant) < qt_max_workers_per_tenant r"
      "q' = set_tenants (scoped org tenant) (\<lambda>t. t\<lparr>tn_reserved_worker_capacity := tn_reserved_worker_capacity t + 1\<rparr>) q"
    using assms by (auto simp: reserve_worker_capacity_in_tx_def set_tenants_def split: option.splits if_splits)
  then show ?thesis using that find_SomeD [of _ "db_tenants q" t] by (auto simp: scoped_tenant_def)
qed

definition keeps_fleet :: "Db \<Rightarrow> Db \<Rightarrow> bool" where
  "keeps_fleet q q' \<longleftrightarrow> db_tenants q' = db_tenants q \<and> list_all2 workspace_evolves (db_workspaces q) (db_workspaces q') \<and>
     db_quotas q' = db_quotas q"

lemma workspace_trans: "workspace_evolves a b \<Longrightarrow> workspace_evolves b c \<Longrightarrow> workspace_evolves a c"
  by (simp add: workspace_evolves_def)

lemma keeps_fleet_trans: "keeps_fleet a b \<Longrightarrow> keeps_fleet b c \<Longrightarrow> keeps_fleet a c"
  using list_all2_trans [where ?P1.0 = workspace_evolves and ?P2.0 = workspace_evolves and ?P3.0 = workspace_evolves, OF workspace_trans]
  by (auto simp: keeps_fleet_def)

lemma set_worker_keeps:
  "(\<And>w. workspace_evolves w (f w)) \<Longrightarrow> keeps_fleet q (set_worker f i q)"
  by (simp add: keeps_fleet_def set_worker_def workspaces_update)

lemma describe_worker_keeps: "keeps_fleet q (describe_worker ticket branch pair_token i q)"
proof -
  have refl: "keeps_fleet q q" for q by (simp add: keeps_fleet_def workspaces_refl)
  have step: "keeps_fleet q (case x of None \<Rightarrow> q' | Some v \<Rightarrow> set_worker (f v) i q')"
    if "keeps_fleet q q'" "\<And>v w. workspace_evolves w (f v w)" for q q' x and f :: "string \<Rightarrow> WorkspaceRow \<Rightarrow> WorkspaceRow"
    using that set_worker_keeps keeps_fleet_trans by (cases x) (simp, metis option.simps(5))
  show ?thesis
    unfolding describe_worker_def Let_def
    by (intro step refl) (simp_all add: workspace_evolves_def)
qed

lemma request_worker_hires:
  assumes "request_worker new_id op tnow q scope role slot ticket branch pair_token key = (r, q')" and "fleet_keyed q"
  shows "q' = q \<or> worker_hired q q'"
proof -
  let ?org = "rs_organization_id scope" let ?tenant = "rs_tenant_id scope"
  consider "q' = q" | u where "hire_worker new_id op tnow ?org ?tenant role slot ticket branch pair_token key q = Inr (u, q')"
    using assms(1)
    by (cases "hire_worker new_id op tnow ?org ?tenant role slot ticket branch pair_token key q")
      (auto simp: request_worker_def Let_def split: if_splits option.splits)
  then show ?thesis
  proof cases
    case 1
    then show ?thesis by simp
  next
    case (2 u)
    then obtain q1 q2 where 1: "reserve_worker_capacity_in_tx q ?org ?tenant 1 = Inr ((), q1)"
        and 2: "insert_workspace new_id q1 ?org ?tenant role slot = Inr ((), q2)"
        and q': "q' = describe_worker ticket branch pair_token new_id
           (op_create op tnow q2 \<lparr>no_organization_id = ?org, no_resource_type = ''workspace'',
              no_resource_id = Some new_id, no_kind = ''tenant.workspace'', no_idempotency_ref = Some key\<rparr>)"
      by (auto simp: hire_worker_def and_then_Inr)
    have keep: "db_tenants q' = db_tenants q2" "list_all2 workspace_evolves (db_workspaces q2) (db_workspaces q')"
        "db_quotas q' = db_quotas q2"
      using describe_worker_keeps [of "op_create op tnow q2 \<lparr>no_organization_id = ?org, no_resource_type = ''workspace'',
              no_resource_id = Some new_id, no_kind = ''tenant.workspace'', no_idempotency_ref = Some key\<rparr>" ticket branch pair_token new_id]
      unfolding q' by (simp_all add: keeps_fleet_def)
    obtain t r where t: "t \<in> set (db_tenants q)" "tn_id t = ?tenant" "tn_organization_id t = ?org" "quota_row q ?org = Some r"
        "int (live_workers q ?tenant) < qt_max_workers_per_tenant r"
        and q1: "q1 = set_tenants (scoped ?org ?tenant) (\<lambda>t. t\<lparr>tn_reserved_worker_capacity := tn_reserved_worker_capacity t + 1\<rparr>) q"
      using 1 by (rule reserve_Inr)
    obtain w where w: "wk_id w = new_id" "wk_tenant_id w = ?tenant" "new_id \<notin> wk_id ` set (db_workspaces q1)"
        and q2: "q2 = q1\<lparr>db_workspaces := db_workspaces q1 @ [w]\<rparr>"
      using 2 by (rule insert_workspace_Inr)
    have "list_all2 (tenant_evolves False) (db_tenants q) (db_tenants q')"
      using keep by (auto simp: q1 q2 tenant_evolves_def intro!: tenants_update [OF assms(2)] dest: keyed_state [OF assms(2)])
    moreover have "list_all2 workspace_evolves (db_workspaces q @ [w]) (db_workspaces q')" "db_quotas q' = db_quotas q"
      using keep by (simp_all add: q1 q2)
    ultimately have "worker_hired q q'"
      unfolding worker_hired_def using t w by (intro exI [of _ w] exI [of _ t] exI [of _ r] exI [of _ "db_workspaces q'"]) (simp add: q1)
    then show ?thesis ..
  qed
qed

end
