(* ===== verification/Tenant_Properties.thy ===== *)
theory Tenant_Properties
  imports Tenant_System
begin

text \<open>
  The steps of the tenant system classified (rows evolve, a tenant is created under its ceiling, a
  worker is added under its ceiling), the invariants this keeps, and the guarantees: the fleet of a
  tenant never exceeds its quota, the active tenants of an organization do not either as long as no
  stop finishes after a deletion was requested, and a deleted tenant stays deleted.
\<close>

section \<open>The calls of the service\<close>

lemma execute_inner_moves:
  assumes "execute_inner key_id clk st req m = (x, st')"
    and "\<And>r t'. m (snd st) = Inr (r, t') \<Longrightarrow> P (snd st) t'" and "P (snd st) (snd st)"
  shows "P (snd st) (snd st')"
  using assms(1) by (cases rule: execute_inner_cases) (use assms(2,3) in auto)

lemma delete_mutation_evolves:
  assumes "delete_tenant_mutation op tnow clk actor org tenant key request_id t = Inr (r, t')" and "fleet_keyed (queue t)"
  shows "fleet_evolves False (queue t) (queue t')"
proof -
  have only: "tn_desired_state u \<noteq> ''deleted''"
    if "scoped_tenant (queue t) org tenant = Some v" "tn_desired_state v \<noteq> ''deleted''" "u \<in> set (db_tenants (queue t))"
      "tn_id u = tenant" for u v
    using distinct_key [of tn_id "db_tenants (queue t)" u v] that assms(2) find_SomeD [OF that(1) [unfolded scoped_tenant_def]]
    by (auto simp: fleet_keyed_def)
  consider "t' = t"
    | v where "scoped_tenant (queue t) org tenant = Some v" "tn_desired_state v \<noteq> ''deleted''"
        "same_fleet (set_tenants (scoped org tenant) (\<lambda>r. r\<lparr>tn_desired_state := ''deleting''\<rparr>) (queue t)) (queue t')"
    using assms(1)
    by (auto simp: delete_tenant_mutation_def enqueue_def Let_def same_fleet_def split: option.splits if_splits)
  then show ?thesis
  proof cases
    case 1
    then show ?thesis using same_fleet_evolves [OF _ assms(2)] by (simp add: same_fleet_def)
  next
    case (2 v)
    have "fleet_evolves False (queue t) (set_tenants (scoped org tenant) (\<lambda>r. r\<lparr>tn_desired_state := ''deleting''\<rparr>) (queue t))"
      by (auto simp: fleet_evolves_def tenant_evolves_def workspaces_refl intro!: tenants_update [OF assms(2)] dest: only [OF 2(1,2)])
    then show ?thesis using fleet_evolves_same 2(3) by blast
  qed
qed

lemma action_tables:
  assumes "enqueue_action_mutation op tnow clk actor org tenant action key request_id t = Inr (r, t')"
  obtains v where "scoped_tenant (queue t) org tenant = Some v"
    and "tn_desired_state v \<noteq> ''deleting''" and "tn_desired_state v \<noteq> ''deleted''"
    and "same_fleet (start_mutation tenant (queue t)) (queue t') \<or> same_fleet (stop_mutation tenant (queue t)) (queue t') \<or>
      same_fleet (queue t) (queue t')"
  using assms by (auto simp: enqueue_action_mutation_def enqueue_def same_fleet_def split: option.splits if_splits)

lemma action_mutation_evolves:
  assumes "enqueue_action_mutation op tnow clk actor org tenant action key request_id t = Inr (r, t')" and "fleet_keyed (queue t)"
  shows "fleet_evolves False (queue t) (queue t')"
proof -
  obtain v where v: "scoped_tenant (queue t) org tenant = Some v" "tn_desired_state v \<noteq> ''deleting''" "tn_desired_state v \<noteq> ''deleted''"
      and tables: "same_fleet (start_mutation tenant (queue t)) (queue t') \<or> same_fleet (stop_mutation tenant (queue t)) (queue t') \<or>
        same_fleet (queue t) (queue t')"
    using assms(1) by (rule action_tables)
  have only: "tn_desired_state u \<noteq> ''deleted'' \<and> tn_desired_state u \<noteq> ''deleting''"
    if "u \<in> set (db_tenants (queue t))" "tn_id u = tenant" for u
    using distinct_key [of tn_id "db_tenants (queue t)" u v] that v assms(2) find_SomeD [OF v(1) [unfolded scoped_tenant_def]]
    by (auto simp: fleet_keyed_def)
  have "fleet_evolves False (queue t) (start_mutation tenant (queue t))" "fleet_evolves False (queue t) (stop_mutation tenant (queue t))"
    by (auto simp: start_mutation_def stop_mutation_def fleet_evolves_def tenant_evolves_def workspace_evolves_def
        intro!: tenants_update [OF assms(2)] workspaces_update dest: only)
  then show ?thesis using tables fleet_evolves_same same_fleet_evolves [OF _ assms(2)] by blast
qed

lemma ensure_quota:
  assumes "ensure_org_row_in_tx limits db org = Inr (u, db')"
  shows "db_tenants (od_queue db') = db_tenants (od_queue db) \<and> db_workspaces (od_queue db') = db_workspaces (od_queue db) \<and>
    (db_quotas (od_queue db') = db_quotas (od_queue db) \<or>
     (\<exists>r. quota_row (od_queue db) org = None \<and> qt_organization_id r = org \<and> 1 \<le> qt_max_tenants r \<and>
       1 \<le> qt_max_workers_per_tenant r \<and> db_quotas (od_queue db') = db_quotas (od_queue db) @ [r]))"
proof (cases "list_ex (\<lambda>r. qt_organization_id r = org) (db_quotas (od_queue db))")
  case True
  then show ?thesis using assms by (auto simp: ensure_org_row_in_tx_def split: if_splits)
next
  case False
  let ?r = "\<lparr>qt_organization_id = org, qt_max_tenants = tl_max_tenants_per_org limits,
      qt_max_workers_per_tenant = tl_max_workers_per_tenant limits,
      qt_max_concurrent_provisioning_ops = tl_max_concurrent_provisioning_ops limits\<rparr>"
  have "quota_row (od_queue db) org = None" using False by (simp add: quota_row_def find_None_iff list_ex_iff)
  then show ?thesis using assms False by (auto simp: ensure_org_row_in_tx_def split: if_splits intro!: exI [of _ ?r])
qed

lemma create_with_id_Inr:
  assumes "create_with_id_in_tx t tenant org slug connection repository fleet = Inr (u, q1)"
  obtains r where "tn_id r = tenant" and "tn_organization_id r = org" and "tn_desired_state r = ''provisioning''"
    and "tenant \<notin> tn_id ` set (db_tenants (queue t))" and "q1 = (queue t)\<lparr>db_tenants := db_tenants (queue t) @ [r]\<rparr>"
  using assms by (auto simp: create_with_id_in_tx_def list_ex_iff split: if_splits intro!: that)

lemma create_mutation_creates:
  assumes "create_tenant_mutation limits tenant op tnow actor org repository slug fleet key request_id t = Inr (x, t')"
  shows "tenant_created (queue t) (queue t')"
proof -
  obtain connection orgs q1 where ensure: "ensure_org_row_in_tx limits (tb_orgs t) org = Inr ((), orgs)"
      and room: "check_and_reserve_tenant_in_tx (od_queue orgs) org = Inr ()"
      and create: "create_with_id_in_tx (t\<lparr>tb_orgs := orgs\<rparr>) tenant org slug connection repository fleet = Inr ((), q1)"
      and tables: "db_tenants (queue t') = update_where (\<lambda>r. tn_id r = tenant) (\<lambda>r. r\<lparr>tn_owner_user_id := Some actor\<rparr>) (db_tenants q1)"
        "db_workspaces (queue t') = db_workspaces q1" "db_quotas (queue t') = db_quotas q1"
    using assms by (auto simp: create_tenant_mutation_def and_then_Inr Let_def split: option.splits if_splits)
  obtain r where r: "quota_row (od_queue orgs) org = Some r" "int (active_tenants (od_queue orgs) org) < qt_max_tenants r"
    using room by (auto simp: check_and_reserve_tenant_in_tx_def split: option.splits if_splits)
  obtain n where n: "tn_id n = tenant" "tn_organization_id n = org" "tn_desired_state n = ''provisioning''"
      "tenant \<notin> tn_id ` set (db_tenants (od_queue orgs))"
      and q1: "q1 = (od_queue orgs)\<lparr>db_tenants := db_tenants (od_queue orgs) @ [n]\<rparr>"
    using create by (rule create_with_id_Inr) simp_all
  note quota = ensure_quota [OF ensure]
  have keep: "\<forall>u \<in> set (db_tenants (queue t)). tn_id u \<noteq> tenant" using n(4) quota by auto
  have new: "db_tenants (queue t') = db_tenants (queue t) @ [n\<lparr>tn_owner_user_id := Some actor\<rparr>]"
    using tables(1) n(1) quota keep by (auto simp: q1 update_where_def intro!: map_idI)
  have quotas: "quota_row (queue t') org = Some r" using r(1) tables(3) by (simp add: quota_row_def q1)
  have active: "active_tenants (queue t) org = active_tenants (od_queue orgs) org" using quota by (simp add: active_tenants_def)
  have "db_quotas (queue t') = db_quotas (queue t) \<or>
      quota_row (queue t) org = None \<and> qt_organization_id r = org \<and> 1 \<le> qt_max_tenants r \<and>
      1 \<le> qt_max_workers_per_tenant r \<and> db_quotas (queue t') = db_quotas (queue t) @ [r]"
    using quota r(1) tables(3) by (auto simp: q1 quota_row_def find_append split: option.splits)
  then show ?thesis
    unfolding tenant_created_def
    using new quotas active r(2) n keep tables(2) quota
    by (intro exI [of _ "n\<lparr>tn_owner_user_id := Some actor\<rparr>"] exI [of _ r]) (auto simp: q1)
qed

section \<open>Every step is one of the three kinds\<close>

definition fleet_moves :: "bool \<Rightarrow> Db \<Rightarrow> Db \<Rightarrow> bool" where
  "fleet_moves late q q' \<longleftrightarrow> fleet_evolves late q q' \<or> tenant_created q q' \<or> worker_hired q q'"

lemma fleet_moves_refl: "fleet_keyed q \<Longrightarrow> fleet_moves late q q"
  using same_fleet_evolves [of q q] by (simp add: fleet_moves_def same_fleet_def)

lemma operation_reference_state: "operation_reference parse_uuid (x, st) = (r, st') \<Longrightarrow> st' = st"
  by (auto simp: operation_reference_def split: sum.splits option.splits)

text \<open>What holds of a mutation, and of doing nothing, holds of the call that runs it under a key.\<close>

lemma create_tenant_call:
  assumes "create_tenant parse_uuid limits key_id tenant op tnow clk before st actor org repository slug fleet key hash request_id = (r, st')"
    and "\<And>r t'. create_tenant_mutation limits tenant op tnow actor org repository slug fleet key request_id (snd st) = Inr (r, t') \<Longrightarrow>
      P (snd st) t'" and "P (snd st) (snd st)"
  shows "P (snd st) (snd st')"
proof -
  define m where "m = create_tenant_mutation limits tenant op tnow actor org repository slug fleet key request_id"
  define req where "req = \<lparr>ir_actor_id = actor, ir_organization_id = Some org, ir_route = ''/api/v1/organizations/{org}/tenants'',
             ir_key = key, ir_request_hash = hash\<rparr>"
  obtain x st1 where x: "execute_inner key_id clk st req m = (x, st1)" by (metis surj_pair)
  have "P (snd st) (snd st1)" using x by (rule execute_inner_moves) (use assms(2,3) in \<open>auto simp: m_def\<close>)
  then show ?thesis using assms(1,3) x
    by (auto simp: create_tenant_def m_def req_def split: sum.splits prod.splits IdempotencyOutcome.splits)
qed

lemma delete_tenant_call:
  assumes "delete_tenant parse_uuid key_id op tnow clk before st actor org tenant key hash request_id = (r, st')"
    and "\<And>r t'. delete_tenant_mutation op tnow clk actor org tenant key request_id (snd st) = Inr (r, t') \<Longrightarrow> P (snd st) t'"
    and "P (snd st) (snd st)"
  shows "P (snd st) (snd st')"
proof -
  define req where "req = \<lparr>ir_actor_id = actor, ir_organization_id = Some org,
                ir_route = ''/api/v1/organizations/{org}/tenants/{tenant}'', ir_key = key, ir_request_hash = hash\<rparr>"
  obtain x st1 where x: "execute_inner key_id clk st req (delete_tenant_mutation op tnow clk actor org tenant key request_id) = (x, st1)"
    by (metis surj_pair)
  have "P (snd st) (snd st1)" using x by (rule execute_inner_moves) (use assms(2,3) in auto)
  then show ?thesis using assms(1,3) x operation_reference_state
    by (fastforce simp: delete_tenant_def req_def split: sum.splits prod.splits if_splits)
qed

lemma enqueue_action_call:
  assumes "enqueue_action parse_uuid key_id op tnow clk before st actor org tenant action admin_only key hash request_id = (r, st')"
    and "\<And>r t'. enqueue_action_mutation op tnow clk actor org tenant action key request_id (snd st) = Inr (r, t') \<Longrightarrow> P (snd st) t'"
    and "P (snd st) (snd st)"
  shows "P (snd st) (snd st')"
proof -
  define req where "req = \<lparr>ir_actor_id = actor, ir_organization_id = Some org,
              ir_route = ''/api/v1/organizations/{org}/tenants/{tenant}/'' @ action, ir_key = key, ir_request_hash = hash\<rparr>"
  obtain x st1 where x: "execute_inner key_id clk st req
      (enqueue_action_mutation op tnow clk actor org tenant action key request_id) = (x, st1)" by (metis surj_pair)
  have "P (snd st) (snd st1)" using x by (rule execute_inner_moves) (use assms(2,3) in auto)
  then show ?thesis using assms(1,3) x operation_reference_state
    by (fastforce simp: enqueue_action_def req_def split: sum.splits prod.splits)
qed

lemma service_call_moves:
  assumes "fleet_keyed (queue (snd st))"
  shows "create_tenant parse_uuid limits key_id tenant op tnow clk before st actor org repository slug fleet key hash request_id = (r, st') \<Longrightarrow>
      fleet_moves False (queue (snd st)) (queue (snd st'))"
    and "delete_tenant parse_uuid key_id op tnow clk before st actor org tenant key hash request_id = (rd, st') \<Longrightarrow>
      fleet_moves False (queue (snd st)) (queue (snd st'))"
    and "enqueue_action parse_uuid key_id op tnow clk before st actor org tenant action admin_only key hash request_id = (rd, st') \<Longrightarrow>
      fleet_moves False (queue (snd st)) (queue (snd st'))"
proof -
  let ?P = "\<lambda>t t'. fleet_moves False (queue t) (queue t')"
  note refl = fleet_moves_refl [OF assms, of False]
  show "?P (snd st) (snd st')"
    if "create_tenant parse_uuid limits key_id tenant op tnow clk before st actor org repository slug fleet key hash request_id = (r, st')"
    by (rule create_tenant_call [where P = ?P, OF that _ refl]) (use create_mutation_creates in \<open>auto simp: fleet_moves_def\<close>)
  show "?P (snd st) (snd st')"
    if "delete_tenant parse_uuid key_id op tnow clk before st actor org tenant key hash request_id = (rd, st')"
    by (rule delete_tenant_call [where P = ?P, OF that _ refl])
      (use delete_mutation_evolves [OF _ assms] in \<open>auto simp: fleet_moves_def\<close>)
  show "?P (snd st) (snd st')"
    if "enqueue_action parse_uuid key_id op tnow clk before st actor org tenant action admin_only key hash request_id = (rd, st')"
    by (rule enqueue_action_call [where P = ?P, OF that _ refl])
      (use action_mutation_evolves [OF _ assms] in \<open>auto simp: fleet_moves_def\<close>)
qed

lemma ensure_nexus_moves:
  assumes "ensure_workspace new_id q org tenant ''nexus'' None = Inr (w, q')"
    and "list_ex (\<lambda>r. tn_id r = tenant) (db_tenants q)" and "fleet_keyed q"
  shows "fleet_moves False q q'"
proof (cases "q' = q")
  case True
  then show ?thesis using fleet_moves_refl [OF assms(3)] by simp
next
  case False
  then have "insert_workspace new_id q org tenant ''nexus'' None = Inr ((), q')"
    using assms(1) by (auto simp: ensure_workspace_def and_then_Inr split: option.splits)
  then obtain v where v: "wk_id v = new_id" "wk_tenant_id v = tenant" "wk_role v = ''nexus''"
      "new_id \<notin> wk_id ` set (db_workspaces q)" "q' = q\<lparr>db_workspaces := db_workspaces q @ [v]\<rparr>"
    by (rule insert_workspace_Inr)
  obtain t where t: "t \<in> set (db_tenants q)" "tn_id t = tenant" using assms(2) by (auto simp: list_ex_iff)
  have "worker_hired q q'"
    unfolding worker_hired_def using v t tenants_refl [OF assms(3)]
    by (intro exI [of _ v] exI [of _ t] exI [of _ undefined] exI [of _ "db_workspaces q'"])
      (simp add: workspaces_refl list_all2_appendI)
  then show ?thesis by (simp add: fleet_moves_def)
qed

lemma fleet_step_moves:
  assumes "fleet_step st e st'" and "fleet_keyed (queue (snd st))"
  shows "fleet_moves (e = LateStop) (queue (snd st)) (queue (snd st'))"
  using assms(1)
proof cases
  case (f_stop g tnow clk tenant t outcome q' keys)
  then show ?thesis using worker_stop_evolves [of g tnow clk tenant "queue t" outcome q'] assms(2)
    by (cases "being_deleted tenant (queue t)") (simp_all add: fleet_moves_def)
next
  case (f_environment t t' keys keys')
  then show ?thesis using outside_fleet_evolves assms(2) by (simp add: fleet_moves_def)
qed (use assms(2) in \<open>auto simp: fleet_moves_def same_fleet_def
      dest: service_call_moves ensure_nexus_moves
        heartbeat_evolves mutate_worker_evolves worker_start_evolves mark_tenant_running_evolves mark_worker_running_evolves
        superseded_evolves mutate_workspace_evolves worker_delete_evolves request_worker_hires
      intro: same_fleet_evolves [unfolded same_fleet_def] fleet_moves_refl [unfolded fleet_moves_def]\<close>)

section \<open>The invariants\<close>

lemma quota_row_cong: "db_quotas q' = db_quotas q \<Longrightarrow> quota_row q' org = quota_row q org"
  by (simp add: quota_row_def)

lemma evolves_keyed:
  assumes "fleet_evolves late q q'" and "fleet_keyed q"
  shows "fleet_keyed q'"
proof -
  have t: "list_all2 (tenant_evolves late) (db_tenants q) (db_tenants q')" and w: "list_all2 workspace_evolves (db_workspaces q) (db_workspaces q')"
      and quotas: "db_quotas q' = db_quotas q" using assms(1) by (simp_all add: fleet_evolves_def)
  have ids: "map tn_id (db_tenants q') = map tn_id (db_tenants q)"
    "map tn_organization_id (db_tenants q') = map tn_organization_id (db_tenants q)"
    "map wk_id (db_workspaces q') = map wk_id (db_workspaces q)"
    "map wk_tenant_id (db_workspaces q') = map wk_tenant_id (db_workspaces q)"
    by (rule evolves_map [OF t], simp add: tenant_evolves_def, rule evolves_map [OF t], simp add: tenant_evolves_def,
        rule evolves_map [OF w], simp add: workspace_evolves_def, rule evolves_map [OF w], simp add: workspace_evolves_def)
  have sets: "tn_id ` set (db_tenants q') = tn_id ` set (db_tenants q)"
    "tn_organization_id ` set (db_tenants q') = tn_organization_id ` set (db_tenants q)"
    "wk_tenant_id ` set (db_workspaces q') = wk_tenant_id ` set (db_workspaces q)"
    using ids by (metis list.set_map)+
  have states: "tn_desired_state u \<in> {''provisioning'', ''running'', ''paused'', ''deleting'', ''deleted''}"
    if "u \<in> set (db_tenants q')" for u
    using evolves_source [OF t that] unfolding tenant_evolves_def by blast
  have "quota_row q' (tn_organization_id u) \<noteq> None" if "u \<in> set (db_tenants q')" for u
  proof -
    have "tn_organization_id u \<in> tn_organization_id ` set (db_tenants q)" using that sets(2) by blast
    then show ?thesis using assms(2) quota_row_cong [OF quotas] by (auto simp: fleet_keyed_def)
  qed
  moreover have "wk_tenant_id v \<in> tn_id ` set (db_tenants q')" if "v \<in> set (db_workspaces q')" for v
  proof -
    have "wk_tenant_id v \<in> wk_tenant_id ` set (db_workspaces q)" using that sets(3) by blast
    then show ?thesis using assms(2) sets(1) by (auto simp: fleet_keyed_def)
  qed
  ultimately show ?thesis using assms(2) ids(1,3) states quotas by (simp add: fleet_keyed_def)
qed

lemma live_workers_evolves:
  assumes "list_all2 workspace_evolves (db_workspaces q) (db_workspaces q')"
  shows "live_workers q' tenant \<le> live_workers q tenant"
  unfolding live_workers_def using assms
  by (rule count_evolves) (auto simp: workspace_evolves_def worker_row_def)

lemma active_tenants_evolves:
  assumes "list_all2 (tenant_evolves False) (db_tenants q) (db_tenants q')" and "fleet_keyed q"
  shows "active_tenants q' org \<le> active_tenants q org"
proof -
  have "list_all2 (\<lambda>t t'. tenant_evolves False t t' \<and> t \<in> set (db_tenants q)) (db_tenants q) (db_tenants q')"
    using assms(1) by (simp add: list_all2_conv_all_nth)
  then show ?thesis
    unfolding active_tenants_def
    by (rule count_evolves) (use assms(2) in \<open>auto simp: tenant_evolves_def tenant_active_def fleet_keyed_def\<close>)
qed

lemma workers_within_evolves:
  assumes "list_all2 (tenant_evolves late) (db_tenants q) (db_tenants q')" and "db_quotas q' = db_quotas q"
    and "\<And>t r. t \<in> set (db_tenants q) \<Longrightarrow> quota_row q (tn_organization_id t) = Some r \<Longrightarrow>
      int (live_workers q' (tn_id t)) \<le> qt_max_workers_per_tenant r"
  shows "workers_within q'"
  unfolding workers_within_def
proof (intro ballI allI impI)
  fix t' r assume "t' \<in> set (db_tenants q')" and r: "quota_row q' (tn_organization_id t') = Some r"
  then obtain t where "t \<in> set (db_tenants q)" "tenant_evolves late t t'"
    using evolves_source [OF assms(1)] by blast
  then show "int (live_workers q' (tn_id t')) \<le> qt_max_workers_per_tenant r"
    using assms(3) [of t r] r quota_row_cong [OF assms(2)] by (simp add: tenant_evolves_def)
qed

lemma no_workers:
  assumes "fleet_keyed q" and "tenant \<notin> tn_id ` set (db_tenants q)"
  shows "live_workers q tenant = 0"
  using assms by (force simp: live_workers_def worker_row_def fleet_keyed_def filter_empty_conv)

lemma no_tenants:
  assumes "fleet_keyed q" and "quota_row q org = None"
  shows "active_tenants q org = 0"
  using assms by (auto simp: active_tenants_def tenant_active_def fleet_keyed_def filter_empty_conv)

lemma created_ok:
  assumes "tenant_created q q'" and "fleet_keyed q" and "workers_within q"
  shows "fleet_keyed q' \<and> workers_within q' \<and> (tenants_within q \<longrightarrow> tenants_within q')"
proof -
  obtain t r where t: "db_workspaces q' = db_workspaces q" "db_tenants q' = db_tenants q @ [t]" "tn_id t \<notin> tn_id ` set (db_tenants q)"
      "tn_desired_state t = ''provisioning''" "quota_row q' (tn_organization_id t) = Some r"
      "int (active_tenants q (tn_organization_id t)) < qt_max_tenants r"
      and quota: "db_quotas q' = db_quotas q \<or>
         quota_row q (tn_organization_id t) = None \<and> qt_organization_id r = tn_organization_id t \<and>
         1 \<le> qt_max_tenants r \<and> 1 \<le> qt_max_workers_per_tenant r \<and> db_quotas q' = db_quotas q @ [r]"
    using assms(1) by (auto simp: tenant_created_def)
  have rows: "quota_row q' org = (case quota_row q org of None \<Rightarrow> (if org = tn_organization_id t then Some r else None) | Some x \<Rightarrow> Some x)" for org
    using quota t(5) by (auto simp: quota_row_def find_append split: option.splits)
  have quotas: "\<forall>x \<in> set (db_quotas q'). 1 \<le> qt_max_workers_per_tenant x" using quota assms(2) by (auto simp: fleet_keyed_def)
  have keyed: "fleet_keyed q'"
    using assms(2) t quotas by (auto simp: fleet_keyed_def rows split: option.splits)
  have live: "live_workers q' u = live_workers q u" for u using t(1) by (simp add: live_workers_def)
  have "r \<in> set (db_quotas q')" using t(5) by (auto simp: quota_row_def dest: find_SomeD)
  then have "workers_within q'"
    using assms(2,3) t no_workers [OF assms(2) t(3)] quotas
    by (auto simp: workers_within_def live rows fleet_keyed_def split: option.splits)
  moreover have "tenants_within q'" if "tenants_within q"
    unfolding tenants_within_def
  proof (intro allI impI)
    fix org x assume x: "quota_row q' org = Some x"
    have count: "active_tenants q' org = active_tenants q org + (if org = tn_organization_id t then 1 else 0)"
      using t(2,4) by (simp add: active_tenants_def tenant_active_def)
    show "int (active_tenants q' org) \<le> qt_max_tenants x"
    proof (cases "org = tn_organization_id t")
      case True
      then show ?thesis using x t(5,6) count by simp
    next
      case False
      then have "quota_row q org = Some x" using x rows [of org] by (simp split: option.splits)
      then show ?thesis using that count False by (simp add: tenants_within_def)
    qed
  qed
  ultimately show ?thesis using keyed by blast
qed

lemma hired_ok:
  assumes "worker_hired q q'" and "fleet_keyed q" and "workers_within q"
  shows "fleet_keyed q' \<and> workers_within q' \<and> (tenants_within q \<longrightarrow> tenants_within q')"
proof -
  obtain w t r where ts: "list_all2 (tenant_evolves False) (db_tenants q) (db_tenants q')" and quotas: "db_quotas q' = db_quotas q"
      and ws: "list_all2 workspace_evolves (db_workspaces q @ [w]) (db_workspaces q')"
      and w: "wk_id w \<notin> wk_id ` set (db_workspaces q)" "t \<in> set (db_tenants q)" "tn_id t = wk_tenant_id w"
        "wk_role w = ''nexus'' \<or> quota_row q (tn_organization_id t) = Some r \<and> int (live_workers q (tn_id t)) < qt_max_workers_per_tenant r"
    using assms(1) unfolding worker_hired_def by metis
  define p where "p = q\<lparr>db_workspaces := db_workspaces q @ [w]\<rparr>"
  have p: "fleet_evolves False p q'" using ts ws quotas by (simp add: fleet_evolves_def p_def)
  have "wk_tenant_id w \<in> tn_id ` set (db_tenants q)" using w(2,3) by (metis imageI)
  then have "fleet_keyed p" using assms(2) w by (auto simp: p_def fleet_keyed_def quota_row_def)
  then have keyed: "fleet_keyed q'" using evolves_keyed [OF p] by blast
  have count: "live_workers p u = live_workers q u + (if worker_row u w then 1 else 0)" for u
    by (simp add: p_def live_workers_def)
  have "int (live_workers q' (tn_id u)) \<le> qt_max_workers_per_tenant x"
    if u: "u \<in> set (db_tenants q)" "quota_row q (tn_organization_id u) = Some x" for u x
  proof -
    have "live_workers q' (tn_id u) \<le> live_workers p (tn_id u)"
      using live_workers_evolves [of p q'] p by (simp add: fleet_evolves_def)
    moreover have "int (live_workers p (tn_id u)) \<le> qt_max_workers_per_tenant x"
    proof (cases "worker_row (tn_id u) w")
      case True
      then have "tn_id u = tn_id t" using w(3) by (simp add: worker_row_def)
      then have "u = t" using distinct_key [of tn_id "db_tenants q" u t] u(1) w(2) assms(2) by (simp add: fleet_keyed_def)
      then show ?thesis using True w(4) u(2) by (simp add: count worker_row_def)
    next
      case False
      then show ?thesis using assms(3) u by (simp add: count workers_within_def)
    qed
    ultimately show ?thesis by linarith
  qed
  then have "workers_within q'" using workers_within_evolves [OF ts quotas] by blast
  moreover have "tenants_within q'" if "tenants_within q"
    using that active_tenants_evolves [OF ts assms(2)] quota_row_cong [OF quotas]
    by (auto simp: tenants_within_def) (meson of_nat_mono order_trans)
  ultimately show ?thesis using keyed by blast
qed

lemma fleet_evolves_ok:
  assumes "fleet_evolves late q q'" and "fleet_keyed q" and "workers_within q"
  shows "fleet_keyed q' \<and> workers_within q' \<and> (\<not> late \<and> tenants_within q \<longrightarrow> tenants_within q')"
proof -
  have ts: "list_all2 (tenant_evolves late) (db_tenants q) (db_tenants q')" and ws: "list_all2 workspace_evolves (db_workspaces q) (db_workspaces q')"
      and quotas: "db_quotas q' = db_quotas q" using assms(1) by (simp_all add: fleet_evolves_def)
  have "workers_within q'"
    using assms(3) live_workers_evolves [OF ws]
    by (intro workers_within_evolves [OF ts quotas]) (meson of_nat_mono order_trans workers_within_def)
  moreover have "tenants_within q'" if "\<not> late" "tenants_within q"
    using that active_tenants_evolves [of q q'] ts assms(2) quota_row_cong [OF quotas]
    by (auto simp: tenants_within_def) (meson of_nat_mono order_trans)
  ultimately show ?thesis using evolves_keyed [OF assms(1,2)] by blast
qed

definition fleet_ok :: "TenantStore \<Rightarrow> bool" where
  "fleet_ok st \<longleftrightarrow> fleet_keyed (queue (snd st)) \<and> workers_within (queue (snd st))"

definition fleet_ok_strict :: "TenantStore \<Rightarrow> bool" where
  "fleet_ok_strict st \<longleftrightarrow> fleet_ok st \<and> tenants_within (queue (snd st))"

lemma moves_ok:
  assumes "fleet_moves late q q'" and "fleet_keyed q" and "workers_within q"
  shows "fleet_keyed q' \<and> workers_within q' \<and> (\<not> late \<and> tenants_within q \<longrightarrow> tenants_within q')"
  using assms fleet_evolves_ok created_ok hired_ok unfolding fleet_moves_def by blast

interpretation fleetsys: invariant_system fleet_start fleet_step fleet_ok
proof unfold_locales
  fix st assume "fleet_start st"
  then show "fleet_ok st" by (simp add: fleet_start_def fleet_ok_def fleet_keyed_def workers_within_def)
next
  fix st e st' assume "fleet_step st e st'" and "fleet_ok st"
  then show "fleet_ok st'" using fleet_step_moves moves_ok unfolding fleet_ok_def by blast
qed

text \<open>The same system without late stops.\<close>

definition timely_step :: "TenantStore \<Rightarrow> FleetEvent \<Rightarrow> TenantStore \<Rightarrow> bool" where
  "timely_step st e st' \<longleftrightarrow> fleet_step st e st' \<and> e \<noteq> LateStop"

interpretation timelysys: invariant_system fleet_start timely_step fleet_ok_strict
proof unfold_locales
  fix st assume "fleet_start st"
  then show "fleet_ok_strict st"
    by (simp add: fleet_start_def fleet_ok_strict_def fleet_ok_def fleet_keyed_def workers_within_def tenants_within_def
        active_tenants_def quota_row_def)
next
  fix st e st' assume "timely_step st e st'" and "fleet_ok_strict st"
  then show "fleet_ok_strict st'"
    using fleet_step_moves moves_ok unfolding timely_step_def fleet_ok_strict_def fleet_ok_def by blast
qed

end
