(* ===== verification/Tenant_Guarantees.thy ===== *)
theory Tenant_Guarantees
  imports Tenant_Properties
begin

text \<open>
  The guarantees of the tenant system over its reachable states, with runs in which they apply and
  the run that breaks the tenant ceiling: a stop that ends after the deletion was requested.
\<close>

section \<open>States of the runs\<close>

definition demo_limits :: TenantLimits where
  "demo_limits = \<lparr>tl_max_tenants_per_org = 1, tl_max_workers_per_tenant = 2, tl_max_concurrent_provisioning_ops = 1\<rparr>"

definition demo_quota :: QuotaRow where
  "demo_quota = \<lparr>qt_organization_id = ''o1'', qt_max_tenants = 1, qt_max_workers_per_tenant = 2,
     qt_max_concurrent_provisioning_ops = 1\<rparr>"

definition demo_tenant :: "string \<Rightarrow> int \<Rightarrow> string \<Rightarrow> TenantRow" where
  "demo_tenant i repository state = \<lparr>tn_id = i, tn_organization_id = ''o1'', tn_slug = i, tn_connection_id = ''c1'',
     tn_github_repository_id = repository, tn_fleet_size = 1, tn_desired_state = state,
     tn_observed_state = ''provisioning'', tn_owner_user_id = Some ''u'', tn_error_code = None,
     tn_reserved_worker_capacity = 0\<rparr>"

definition demo_stop_operation :: OperationRow where
  "demo_stop_operation = \<lparr>op_id = ''p9'', op_organization_id = ''o1'', op_resource_type = ''tenant'', op_resource_id = Some ''a'',
     op_kind = ''tenant.stop'', op_idempotency_ref = None, op_state = Running, op_current_step = None, op_attempt_count = 1,
     op_retry_at = None, op_lease_owner = Some ''w'', op_lease_token = Some ''x'', op_lease_expires_at = Some 99,
     op_error_code = None, op_sanitized_result = None, op_created_at = 1, op_updated_at = 1\<rparr>"

definition demo_fleet :: "TenantRow list \<Rightarrow> WorkspaceRow list \<Rightarrow> QuotaRow list \<Rightarrow> TenantDb" where
  "demo_fleet ts ws quotas =
     \<lparr>tb_orgs = \<lparr>od_users = [\<lparr>us_id = ''u'', us_display_name = ''U'', us_status = ''active''\<rparr>], od_identities = [],
        od_organizations = [\<lparr>og_id = ''o1'', og_slug = ''oak'', og_display_name = ''Oak'', og_owner_user_id = ''u'',
          og_status = ''ready'', og_updated_at = 0\<rparr>],
        od_memberships = [\<lparr>mb_organization_id = ''o1'', mb_user_id = ''u'', mb_role = Admin, mb_status = Active, mb_updated_at = 0\<rparr>],
        od_invitations = [], od_audit = [],
        od_queue = \<lparr>db_organizations = [''o1''], db_operations = [demo_stop_operation], db_outbox = [], db_tenants = ts,
          db_workspaces = ws, db_quotas = quotas\<rparr>\<rparr>,
      tb_repositories = [\<lparr>gr_organization_id = ''o1'', gr_connection_id = ''c1'', gr_github_repository_id = 1, gr_accessible = True\<rparr>,
        \<lparr>gr_organization_id = ''o1'', gr_connection_id = ''c1'', gr_github_repository_id = 2, gr_accessible = True\<rparr>],
      tb_connections = [\<lparr>gc_id = ''c1'', gc_organization_id = ''o1'', gc_status = ''active'',
        gc_installation_id = 5, gc_access_generation = 0\<rparr>],
      tb_coder_user_links = [''u''],
      tb_runtime_credentials = [], tb_bootstraps = [], tb_credential_leases = [], tb_redis_credentials = [], tb_hook_keys = []\<rparr>"

lemma demo_fleet_queue [simp]:
  "db_tenants (queue (demo_fleet ts ws quotas)) = ts" "db_workspaces (queue (demo_fleet ts ws quotas)) = ws"
  "db_quotas (queue (demo_fleet ts ws quotas)) = quotas"
  by (simp_all add: demo_fleet_def)

text \<open>A step whose tables are those of a known state leads to it, by a step of the environment.\<close>

lemma demo_continue:
  assumes "reach fleet_start timely_step ([], t)" and "timely_step ([], t) e st" and "same_fleet (queue (snd st)) (queue t')"
  shows "reach fleet_start timely_step ([], t')"
proof -
  have "timely_step st Outside ([], t')"
    using f_environment [OF same_fleet_outside [OF assms(3)], of "fst st" "[]"] by (simp add: timely_step_def)
  then show ?thesis using reach_step [OF reach_step [OF assms(1,2)]] by blast
qed

lemmas demo_tenant_simps = demo_fleet_def membership_and_org_def find_org_def find_member_def user_active_def membership_of_def
  org_state_def require_developer_def require_admin_def require_member_def require_mutable_def execute_inner_def upsert_key_def
  blank_iff is_whitespace_def audit_insert_def op_create_def

lemma demo_create_a:
  "same_fleet (queue (snd (snd (create_tenant Some demo_limits ''k1'' ''a'' ''p1'' 10 10 (demo_fleet [] [] []) ([], demo_fleet [] [] [])
     ''u'' ''o1'' 1 ''a'' 1 ''key'' ''h'' ''r''))))
   (queue (demo_fleet [demo_tenant ''a'' 1 ''provisioning''] [] [demo_quota]))"
  by (simp add: create_tenant_def validate_tenant_slug_def slug_edge_def is_ascii_lowercase_def demo_tenant_simps
      create_tenant_mutation_def repository_connection_def ensure_org_row_in_tx_def check_and_reserve_tenant_in_tx_def
      quota_row_def demo_limits_def active_tenants_def create_with_id_in_tx_def same_fleet_def demo_tenant_def
      demo_quota_def update_where_def)

lemma demo_delete_a:
  "same_fleet (queue (snd (snd (delete_tenant Some ''k1'' ''p2'' 20 20 (demo_fleet [demo_tenant ''a'' 1 ''provisioning''] [] [demo_quota])
     ([], demo_fleet [demo_tenant ''a'' 1 ''provisioning''] [] [demo_quota]) ''u'' ''o1'' ''a'' ''key'' ''h'' ''r''))))
   (queue (demo_fleet [demo_tenant ''a'' 1 ''deleting''] [] [demo_quota]))"
  by (simp add: delete_tenant_def demo_tenant_simps scoped_tenant_def demo_tenant_def operation_reference_def
      delete_tenant_mutation_def enqueue_def set_tenants_def update_where_def same_fleet_def demo_quota_def)

lemma demo_create_b:
  "same_fleet (queue (snd (snd (create_tenant Some demo_limits ''k1'' ''b'' ''p3'' 30 30
     (demo_fleet [demo_tenant ''a'' 1 ''deleting''] [] [demo_quota]) ([], demo_fleet [demo_tenant ''a'' 1 ''deleting''] [] [demo_quota])
     ''u'' ''o1'' 2 ''b'' 1 ''key'' ''h'' ''r''))))
   (queue (demo_fleet [demo_tenant ''a'' 1 ''deleting'', demo_tenant ''b'' 2 ''provisioning''] [] [demo_quota]))"
  by (simp add: create_tenant_def validate_tenant_slug_def slug_edge_def is_ascii_lowercase_def demo_tenant_simps
      create_tenant_mutation_def repository_connection_def ensure_org_row_in_tx_def check_and_reserve_tenant_in_tx_def
      quota_row_def demo_limits_def active_tenants_def tenant_active_def create_with_id_in_tx_def holds_name_def same_fleet_def
      demo_tenant_def demo_quota_def update_where_def)

lemma demo_start: "reach fleet_start timely_step ([], demo_fleet [] [] [])"
  by (rule reach_init) (simp add: fleet_start_def)

lemma demo_has_a: "reach fleet_start timely_step ([], demo_fleet [demo_tenant ''a'' 1 ''provisioning''] [] [demo_quota])"
  by (rule demo_continue [OF demo_start _ demo_create_a, where e = FleetCall])
    (auto simp: timely_step_def intro: f_create [where r = "fst (create_tenant Some demo_limits ''k1'' ''a'' ''p1'' 10 10 (demo_fleet [] [] [])
      ([], demo_fleet [] [] []) ''u'' ''o1'' 1 ''a'' 1 ''key'' ''h'' ''r'')"])

lemma call_step:
  "fleet_step st FleetCall st' \<Longrightarrow> timely_step st FleetCall st'"
  by (simp add: timely_step_def)

lemma demo_deleting_a: "reach fleet_start timely_step ([], demo_fleet [demo_tenant ''a'' 1 ''deleting''] [] [demo_quota])"
  by (rule demo_continue [OF demo_has_a call_step [OF f_delete [OF prod.collapse [symmetric]]] demo_delete_a])

lemma demo_two_tenants:
  "reach fleet_start timely_step ([], demo_fleet [demo_tenant ''a'' 1 ''deleting'', demo_tenant ''b'' 2 ''provisioning''] [] [demo_quota])"
  by (rule demo_continue [OF demo_deleting_a call_step [OF f_create [OF prod.collapse [symmetric]]] demo_create_b])

definition demo_scope :: RuntimeScope where
  "demo_scope = \<lparr>rs_credential_id = ''k'', rs_workspace_id = ''n'', rs_workspace_role = ''nexus'', rs_workspace_generation = 0,
     rs_workspace_observed_state = ''running'', rs_workspace_desired_state = ''running'', rs_workspace_registered_at = Some 1,
     rs_tenant_id = ''a'', rs_tenant_desired_state = ''running'', rs_tenant_observed_state = ''running'',
     rs_organization_id = ''o1'', rs_organization_status = ''ready'', rs_connection_id = ''c1'', rs_connection_status = ''active'',
     rs_connection_generation = 0, rs_installation_id = 5, rs_repository_id = 1, rs_repository_accessible = True,
     rs_credential_generation = 0, rs_credential_expires_at = 99, rs_credential_revoked_at = None,
     rs_credential_audience = ''openflows-workspace'', rs_credential_family_id = ''f'', rs_credential_family_expires_at = 99\<rparr>"

definition demo_hired :: Db where
  "demo_hired = snd (request_worker ''w1'' ''p4'' 40 (queue (demo_fleet [demo_tenant ''a'' 1 ''provisioning''] [] [demo_quota]))
     demo_scope ''forge'' (Some 1) None None None ''key'')"

lemma demo_hired_tables:
  "map tn_id (db_tenants demo_hired) = [''a'']" "map tn_organization_id (db_tenants demo_hired) = [''o1'']"
  "quota_row demo_hired ''o1'' = Some demo_quota" "live_workers demo_hired ''a'' = 1"
  by (simp_all add: demo_hired_def request_worker_def demo_scope_def WORKER_ROLES_def hire_worker_def reserve_worker_capacity_in_tx_def
      demo_fleet_def demo_stop_operation_def quota_row_def demo_quota_def scoped_tenant_def demo_tenant_def live_workers_def worker_row_def
      insert_workspace_def update_where_def describe_worker_def op_create_def Let_def)

lemma demo_hired_reach:
  "reach fleet_start timely_step ([], set_queue demo_hired (demo_fleet [demo_tenant ''a'' 1 ''provisioning''] [] [demo_quota]))"
proof -
  have "fleet_step ([], demo_fleet [demo_tenant ''a'' 1 ''provisioning''] [] [demo_quota]) FleetCall
      ([], set_queue demo_hired (demo_fleet [demo_tenant ''a'' 1 ''provisioning''] [] [demo_quota]))"
    unfolding demo_hired_def by (rule f_request [OF prod.collapse [symmetric]])
  then show ?thesis using reach_step [OF demo_has_a call_step] by blast
qed

lemma timely_fleet: "reach fleet_start timely_step st \<Longrightarrow> reach fleet_start fleet_step st"
  by (induction rule: reach.induct) (auto simp: timely_step_def intro: reach_init reach_step)

section \<open>Guarantees\<close>

text \<open>
  C24 (bounds). The worker fleet of a tenant never exceeds the per-tenant worker quota of its
  organization: in every reachable state of the tenant service, the runtimes and the workers, the
  workspaces of a tenant that are not its Nexus controller and not deleted are at most
  \<open>max_workers_per_tenant\<close>.
\<close>

theorem worker_fleet_within_quota:
  assumes "reach fleet_start fleet_step st" and "t \<in> set (db_tenants (queue (snd st)))"
    and "quota_row (queue (snd st)) (tn_organization_id t) = Some r"
  shows "int (live_workers (queue (snd st)) (tn_id t)) \<le> qt_max_workers_per_tenant r"
  using fleetsys.reach_inv [OF assms(1)] assms(2,3) by (simp add: fleet_ok_def workers_within_def)

theorem worker_fleet_within_quota_witness:
  "int (live_workers demo_hired ''a'') \<le> qt_max_workers_per_tenant demo_quota \<and> live_workers demo_hired ''a'' = 1"
proof -
  obtain t where "db_tenants demo_hired = [t]" "tn_id t = ''a''" "tn_organization_id t = ''o1''"
    using demo_hired_tables(1,2) by (auto simp: map_eq_Cons_conv)
  then show ?thesis
    using worker_fleet_within_quota [OF timely_fleet [OF demo_hired_reach], of t demo_quota] demo_hired_tables(3,4) by simp
qed

text \<open>
  The active tenants of an organization (provisioning, running or paused) never
  exceed its \<open>max_tenants\<close> quota, however creations, deletions, actions and worker transactions
  interleave, as long as no worker finishes a stop of a tenant whose deletion was requested meanwhile.
\<close>

theorem tenant_ceiling_holds:
  assumes "reach fleet_start timely_step st" and "quota_row (queue (snd st)) org = Some r"
  shows "int (active_tenants (queue (snd st)) org) \<le> qt_max_tenants r"
  using timelysys.reach_inv [OF assms(1)] assms(2) by (simp add: fleet_ok_strict_def tenants_within_def)

theorem tenant_ceiling_holds_witness:
  "int (active_tenants (queue (demo_fleet [demo_tenant ''a'' 1 ''deleting'', demo_tenant ''b'' 2 ''provisioning''] [] [demo_quota])) ''o1'') \<le> 1"
  using tenant_ceiling_holds [OF demo_two_tenants, of "''o1''" demo_quota] by (simp add: quota_row_def demo_quota_def)

text \<open>
  The exception is real: a worker that finishes a stop after the deletion was requested
  writes \<open>paused\<close> over \<open>deleting\<close>, and when another tenant was created in between the organization has
  more active tenants than its quota allows.
\<close>

theorem late_stop_breaks_ceiling:
  "\<exists>st r. reach fleet_start fleet_step st \<and> quota_row (queue (snd st)) ''o1'' = Some r \<and>
     qt_max_tenants r < int (active_tenants (queue (snd st)) ''o1'')"
proof -
  define t where "t = demo_fleet [demo_tenant ''a'' 1 ''deleting'', demo_tenant ''b'' 2 ''provisioning''] [] [demo_quota]"
  define g where "g = \<lparr>lg_operation_id = ''p9'', lg_organization_id = ''o1'', lg_owner = ''w'', lg_token = ''x''\<rparr>"
  define q where "q = snd (worker_stop g 50 50 ''a'' (queue t))"
  have r: "reach fleet_start fleet_step ([], t)" unfolding t_def by (rule timely_fleet [OF demo_two_tenants])
  have "fleet_step ([], t) (if being_deleted ''a'' (queue t) then LateStop else FleetCall) ([], set_queue q t)"
    unfolding q_def by (rule f_stop [OF prod.collapse [symmetric]])
  with r have "reach fleet_start fleet_step ([], set_queue q t)" by (rule reach_step)
  moreover have "quota_row q ''o1'' = Some demo_quota" "active_tenants q ''o1'' = 2"
    by (simp_all add: q_def g_def t_def worker_stop_def finish_under_lease_def lock_in_tx_def guard_holds_def demo_fleet_def
        demo_stop_operation_def demo_tenant_def rows_affected_def complete_in_tx_def update_operations_def set_tenants_def
        set_workspaces_def update_where_def quota_row_def demo_quota_def active_tenants_def tenant_active_def)
  ultimately show ?thesis by (intro exI [of _ "([], set_queue q t)"] exI [of _ demo_quota]) (simp add: demo_quota_def)
qed

text \<open>
  The lifecycle of a tenant: every tenant row stays, with its identifier and organization;
  a deleted tenant stays deleted in every step; a tenant being deleted stays so until it is deleted,
  except for the late stop. So no start, stop, heartbeat or finishing worker revives a tombstone.
\<close>

theorem deleted_tenant_stays_deleted:
  assumes "reach fleet_start fleet_step st" and "fleet_step st e st'" and "t \<in> set (db_tenants (queue (snd st)))"
  shows "\<exists>t' \<in> set (db_tenants (queue (snd st'))). tn_id t' = tn_id t \<and> tn_organization_id t' = tn_organization_id t \<and>
    (tn_desired_state t = ''deleted'' \<longrightarrow> tn_desired_state t' = ''deleted'') \<and>
    (tn_desired_state t = ''deleting'' \<longrightarrow> tn_desired_state t' \<in> {''deleting'', ''deleted''} \<or> e = LateStop)"
proof -
  let ?q = "queue (snd st)" and ?q' = "queue (snd st')"
  have keyed: "fleet_keyed ?q" using fleetsys.reach_inv [OF assms(1)] by (simp add: fleet_ok_def)
  have "\<exists>t' \<in> set (db_tenants ?q'). tenant_evolves (e = LateStop) t t'"
    using fleet_step_moves [OF assms(2) keyed] unfolding fleet_moves_def
  proof (elim disjE)
    assume "tenant_created ?q ?q'"
    then have "t \<in> set (db_tenants ?q')" using assms(3) unfolding tenant_created_def by force
    then show ?thesis using tenant_refl [OF keyed assms(3)] by blast
  next
    assume "worker_hired ?q ?q'"
    then have "list_all2 (tenant_evolves False) (db_tenants ?q) (db_tenants ?q')" by (auto simp: worker_hired_def)
    then show ?thesis using evolves_target [OF _ assms(3)] by (fastforce simp: tenant_evolves_def)
  qed (auto simp: fleet_evolves_def dest: evolves_target [OF _ assms(3)])
  then show ?thesis by (auto simp: tenant_evolves_def)
qed

theorem deleted_tenant_stays_deleted_witness:
  "\<exists>t' \<in> set (db_tenants (queue (demo_fleet [demo_tenant ''a'' 1 ''deleting''] [] [demo_quota]))). tn_desired_state t' = ''deleting''"
proof -
  let ?t = "demo_fleet [demo_tenant ''a'' 1 ''deleting''] [] [demo_quota]"
  have "fleet_step ([], ?t) Outside ([], ?t)" by (rule f_environment) (simp add: outside_fleet_def)
  from deleted_tenant_stays_deleted [OF timely_fleet [OF demo_deleting_a] this, of "demo_tenant ''a'' 1 ''deleting''"]
  show ?thesis by (simp add: demo_tenant_def)
qed

text \<open>
  Requesting a deletion cuts the tenant off at once: a call that starts a deletion
  leaves every workspace credential, credential lease, Redis credential and hook key of the tenant
  revoked, the tenant \<open>deleting\<close>, and one new queued deletion that the caller is given; a further
  request while that deletion is unfinished is given the pending operation and changes nothing.
\<close>

theorem deletion_revokes_at_once:
  assumes "fleet_keyed (queue t)" and "scoped_tenant (queue t) org tenant = Some r"
    and "tn_desired_state r \<notin> {''deleting'', ''deleted''}"
  shows "\<exists>t'. delete_tenant_mutation op tnow clk actor org tenant key request_id t = Inr (op, t') \<and>
    (\<forall>c \<in> set (tb_runtime_credentials t'). workspace_of (queue t') tenant (sc_owner c) \<longrightarrow> sc_revoked_at c \<noteq> None) \<and>
    (\<forall>c \<in> set (tb_credential_leases t'). sc_owner c = tenant \<longrightarrow> sc_revoked_at c \<noteq> None) \<and>
    (\<forall>c \<in> set (tb_redis_credentials t') \<union> set (tb_hook_keys t'). sc_owner c = tenant \<longrightarrow> sc_revoked_at c \<noteq> None) \<and>
    (\<exists>r'. scoped_tenant (queue t') org tenant = Some r' \<and> tn_desired_state r' = ''deleting'') \<and>
    (\<exists>p. db_operations (queue t') = db_operations (queue t) @ [p] \<and> op_id p = op \<and> op_state p = Queued \<and>
       op_kind p = ''tenant.delete'' \<and> op_resource_id p = Some tenant) \<and>
    (\<forall>op' key' request_id'. \<exists>i. delete_tenant_mutation op' tnow clk actor org tenant key' request_id' t' = Inr (i, t'))"
proof -
  obtain t' where t': "delete_tenant_mutation op tnow clk actor org tenant key request_id t = Inr (op, t')"
      and secrets: "tb_runtime_credentials t' = revoke_secrets clk (workspace_of (queue t) tenant) (tb_runtime_credentials t)"
        "tb_credential_leases t' = revoke_leases clk (\<lambda>r. sc_owner r = tenant) (tb_credential_leases t)"
        "tb_redis_credentials t' = revoke_secrets clk ((=) tenant) (tb_redis_credentials t)"
        "tb_hook_keys t' = revoke_secrets clk ((=) tenant) (tb_hook_keys t)"
      and tables: "queue t' = op_create op tnow (set_tenants (scoped org tenant) (\<lambda>r. r\<lparr>tn_desired_state := ''deleting''\<rparr>) (queue t))
        \<lparr>no_organization_id = org, no_resource_type = ''tenant'', no_resource_id = Some tenant, no_kind = ''tenant.delete'',
         no_idempotency_ref = Some key\<rparr>"
    using assms(2,3) by (auto simp: delete_tenant_mutation_def enqueue_def Let_def)
  have workspaces: "workspace_of (queue t') = workspace_of (queue t)" by (simp add: tables workspace_of_def fun_eq_iff)
  have r: "r \<in> set (db_tenants (queue t))" "scoped org tenant r" using find_SomeD [OF assms(2) [unfolded scoped_tenant_def]] by simp_all
  have row: "scoped_tenant (queue t') org tenant = Some (r\<lparr>tn_desired_state := ''deleting''\<rparr>)"
  proof -
    have "distinct (map tn_id (db_tenants (queue t')))" using assms(1) by (simp add: tables fleet_keyed_def map_update_where)
    moreover have "r\<lparr>tn_desired_state := ''deleting''\<rparr> \<in> set (db_tenants (queue t'))"
      using r by (auto simp: tables set_update_where intro!: bexI [of _ r])
    ultimately show ?thesis
      unfolding scoped_tenant_def using r(2)
      by (intro find_unique) (auto dest: distinct_key)
  qed
  have pending: "\<exists>p. pending_delete (queue t') org tenant = Some p"
  proof -
    have "\<exists>p \<in> set (db_operations (queue t')). op_organization_id p = org \<and> op_resource_id p = Some tenant \<and>
        op_kind p = ''tenant.delete'' \<and> op_state p = Queued"
      by (simp add: tables op_create_def)
    then show ?thesis
      by (cases "pending_delete (queue t') org tenant") (auto simp: pending_delete_def find_None_iff)
  qed
  have again: "\<exists>i. delete_tenant_mutation op' tnow clk actor org tenant key' request_id' t' = Inr (i, t')" for op' key' request_id'
    using row pending by (auto simp: delete_tenant_mutation_def)
  show ?thesis
  proof (intro exI [of _ t'] conjI allI)
    show "\<exists>p. db_operations (queue t') = db_operations (queue t) @ [p] \<and> op_id p = op \<and> op_state p = Queued \<and>
       op_kind p = ''tenant.delete'' \<and> op_resource_id p = Some tenant"
      by (simp add: tables op_create_def set_tenants_def)
  qed (use t' secrets workspaces row again in \<open>auto dest: revoked_secret revoked_lease\<close>)
qed

theorem deletion_revokes_at_once_witness:
  "\<exists>t'. delete_tenant_mutation ''p2'' 20 20 ''u'' ''o1'' ''a'' ''key'' ''r''
     ((demo_fleet [demo_tenant ''a'' 1 ''running''] [] [demo_quota])\<lparr>tb_hook_keys := [\<lparr>sc_id = ''h'', sc_owner = ''a'', sc_revoked_at = None\<rparr>]\<rparr>)
     = Inr (''p2'', t') \<and> (\<forall>c \<in> set (tb_hook_keys t'). sc_owner c = ''a'' \<longrightarrow> sc_revoked_at c \<noteq> None)"
proof -
  let ?t = "(demo_fleet [demo_tenant ''a'' 1 ''running''] [] [demo_quota])\<lparr>tb_hook_keys := [\<lparr>sc_id = ''h'', sc_owner = ''a'', sc_revoked_at = None\<rparr>]\<rparr>"
  have "fleet_keyed (queue ?t)" "scoped_tenant (queue ?t) ''o1'' ''a'' = Some (demo_tenant ''a'' 1 ''running'')"
    by (simp_all add: fleet_keyed_def demo_fleet_def demo_tenant_def quota_row_def demo_quota_def scoped_tenant_def)
  from deletion_revokes_at_once [OF this, of "''p2''" 20 20 "''u''" "''key''" "''r''"] show ?thesis
    by (auto simp: demo_tenant_def)
qed

end
