(* ===== verification/Runtime_Credentials.thy ===== *)
theory Runtime_Credentials
  imports Tenants
begin

text \<open>
  Runtime sessions: \<open>src/crates/openflows-manager/src/runtime/credentials.rs\<close> and the statements of
  \<open>runtime/repository.rs\<close> it uses. A workspace registers with a single-use bootstrap secret, gets
  an access and a refresh credential, and rotates them with the refresh credential; the database has
  hashes only. \<open>hash_token\<close> is SHA-256; a generated secret is its encoded text, given as an argument
  with the fresh identifiers. A call that reads before its transaction takes the state it read as \<open>before\<close>.
  The secret-injection backend is the parameter of \<open>issue_bootstrap\<close> and \<open>ensure_bootstrap_ref\<close>;
  the best-effort clean-up of its entries after a registration writes nothing to the database and is left out.
\<close>

definition WORKSPACE_AUDIENCE :: string where
  "WORKSPACE_AUDIENCE = ''openflows-workspace''"

definition WORKSPACE_REFRESH_AUDIENCE :: string where
  "WORKSPACE_REFRESH_AUDIENCE = ''openflows-workspace-refresh''"

definition BOOTSTRAP_TTL :: instant where
  "BOOTSTRAP_TTL = seconds (60 * 60)"

definition ACCESS_TTL :: instant where
  "ACCESS_TTL = seconds (15 * 60)"

definition REFRESH_FAMILY_TTL :: instant where
  "REFRESH_FAMILY_TTL = seconds (24 * 60 * 60)"

record RuntimeCredentialIssue =
  ci_credential_id :: string
  ci_raw_secret :: string
  ci_expires_at :: instant
  ci_generation :: int

record RuntimeBootstrapIssue =
  bi_secret_ref :: string
  bi_raw_secret :: string
  bi_expires_at :: instant

record RuntimeSessionIssue =
  si_workspace_id :: string
  si_access_secret :: string
  si_access_expires_at :: instant
  si_refresh_secret :: string
  si_refresh_expires_at :: instant
  si_generation :: int

section \<open>Credentials of a workspace\<close>

definition find_workspace :: "TenantDb \<Rightarrow> string \<Rightarrow> WorkspaceRow option" where
  "find_workspace t w = List.find (\<lambda>r. wk_id r = w) (db_workspaces (queue t))"

definition workspace_generation :: "TenantDb \<Rightarrow> string \<Rightarrow> int option" where
  "workspace_generation t w = map_option wk_credential_generation (find_workspace t w)"

definition set_workspace :: "(WorkspaceRow \<Rightarrow> WorkspaceRow) \<Rightarrow> string \<Rightarrow> TenantDb \<Rightarrow> TenantDb" where
  "set_workspace f w t = set_queue (set_worker f w (queue t)) t"

definition insert_credential ::
  "string \<Rightarrow> string \<Rightarrow> string \<Rightarrow> string \<Rightarrow> instant \<Rightarrow> int \<Rightarrow> string \<Rightarrow> instant \<Rightarrow> TenantDb \<Rightarrow> (unit \<times> TenantDb) managed" where
  "insert_credential i workspace hash audience expires generation family family_expires t =
     (if list_ex (\<lambda>c. sc_id c = i \<or> rc_hash c = hash) (tb_runtime_credentials t) \<or> find_workspace t workspace = None
      then Inl (Database ''insert violates a constraint of runtime_credentials'')
      else Inr ((), t\<lparr>tb_runtime_credentials := tb_runtime_credentials t @
        [\<lparr>sc_id = i, sc_owner = workspace, sc_revoked_at = None, rc_hash = hash, rc_audience = audience,
          rc_expires_at = expires, rc_generation = generation, rc_family_id = family, rc_family_expires_at = family_expires\<rparr>]\<rparr>))"

definition issue_for_workspace ::
  "(string \<Rightarrow> string) \<Rightarrow> string \<Rightarrow> string \<Rightarrow> string \<Rightarrow> instant \<Rightarrow> TenantDb \<Rightarrow> TenantDb \<Rightarrow> string \<Rightarrow> RuntimeCredentialIssue managed \<times> TenantDb" where
  "issue_for_workspace hash_token i secret family now before t workspace =
     (case workspace_generation before workspace of
        None \<Rightarrow> (Inl (not_found ''workspace''), t)
      | Some generation \<Rightarrow>
          transact t (and_then (insert_credential i workspace (hash_token secret) WORKSPACE_AUDIENCE (now + ACCESS_TTL) generation
              family (now + REFRESH_FAMILY_TTL) t) (\<lambda>(_, t').
            Inr (\<lparr>ci_credential_id = i, ci_raw_secret = secret, ci_expires_at = now + ACCESS_TTL, ci_generation = generation\<rparr>, t'))))"

definition live_bootstrap :: "BootstrapRow \<Rightarrow> bool" where
  "live_bootstrap b \<longleftrightarrow> bs_consumed_at b = None \<and> sc_revoked_at b = None"

definition insert_bootstrap ::
  "string \<Rightarrow> string \<Rightarrow> string \<Rightarrow> string \<Rightarrow> instant \<Rightarrow> instant \<Rightarrow> TenantDb \<Rightarrow> (unit \<times> TenantDb) managed" where
  "insert_bootstrap i workspace hash secret_ref expires clk t =
     (if list_ex (\<lambda>b. sc_id b = i \<or> bs_hash b = hash \<or> bs_secret_ref b = secret_ref) (tb_bootstraps t) \<or>
         find_workspace t workspace = None
      then Inl (Database ''insert violates a constraint of workspace_bootstrap_credentials'')
      else Inr ((), t\<lparr>tb_bootstraps :=
        update_where (\<lambda>b. sc_owner b = workspace \<and> live_bootstrap b) (\<lambda>b. b\<lparr>sc_revoked_at := Some clk\<rparr>) (tb_bootstraps t) @
        [\<lparr>sc_id = i, sc_owner = workspace, sc_revoked_at = None, bs_hash = hash, bs_secret_ref = secret_ref,
          bs_expires_at = expires, bs_consumed_at = None\<rparr>]\<rparr>))"

definition live_bootstrap_ref :: "instant \<Rightarrow> TenantDb \<Rightarrow> string \<Rightarrow> (string \<times> instant) option" where
  "live_bootstrap_ref clk t workspace =
     map_option (\<lambda>b. (bs_secret_ref b, bs_expires_at b))
       (List.find (\<lambda>b. sc_owner b = workspace \<and> live_bootstrap b \<and> clk < bs_expires_at b) (tb_bootstraps t))"

datatype SecretError = SecretNotFound string | AlreadyExists string | Unavailable string | Rejected string

fun secret_error_text :: "SecretError \<Rightarrow> string" where
  "secret_error_text (SecretNotFound n) = ''secret '' @ n @ '' not found''"
| "secret_error_text (AlreadyExists n) = ''secret already exists: '' @ n"
| "secret_error_text (Unavailable m) = ''secret provider unavailable: '' @ m"
| "secret_error_text (Rejected m) = ''secret provider rejected operation: '' @ m"

definition issue_bootstrap ::
  "(string \<Rightarrow> string) \<Rightarrow> (string \<Rightarrow> string \<Rightarrow> SecretError + string) \<Rightarrow> string \<Rightarrow> string \<Rightarrow> instant \<Rightarrow> instant \<Rightarrow> TenantDb \<Rightarrow> TenantDb \<Rightarrow> string \<Rightarrow>
   RuntimeBootstrapIssue managed \<times> TenantDb" where
  "issue_bootstrap hash_token put i secret now clk before t workspace =
     (case workspace_generation before workspace of
        None \<Rightarrow> (Inl (not_found ''workspace''), t)
      | Some _ \<Rightarrow>
         (case put (''workspace-bootstrap-'' @ workspace @ ''-'' @ i) secret of
            Inl e \<Rightarrow> (Inl (Config (''cannot inject runtime bootstrap: '' @ secret_error_text e)), t)
          | Inr stored \<Rightarrow>
              transact t (and_then (insert_bootstrap i workspace (hash_token secret) stored (now + BOOTSTRAP_TTL) clk t) (\<lambda>(_, t').
                Inr (\<lparr>bi_secret_ref = stored, bi_raw_secret = secret, bi_expires_at = now + BOOTSTRAP_TTL\<rparr>, t')))))"

definition ensure_bootstrap_ref ::
  "(string \<Rightarrow> string) \<Rightarrow> (string \<Rightarrow> string \<Rightarrow> SecretError + string) \<Rightarrow> (string \<Rightarrow> SecretError + string) \<Rightarrow> string \<Rightarrow> string \<Rightarrow>
   instant \<Rightarrow> instant \<Rightarrow> instant \<Rightarrow> TenantDb \<Rightarrow> TenantDb \<Rightarrow> TenantDb \<Rightarrow> string \<Rightarrow> string managed \<times> TenantDb" where
  "ensure_bootstrap_ref hash_token put get i secret now clk clk2 before before2 t workspace =
     (let issue = (case issue_bootstrap hash_token put i secret now clk2 before2 t workspace of
            (Inl e, t') \<Rightarrow> (Inl e, t') | (Inr b, t') \<Rightarrow> (Inr (bi_secret_ref b), t')) in
      case live_bootstrap_ref clk before workspace of
        None \<Rightarrow> issue
      | Some (ref, _) \<Rightarrow>
         (case get ref of
            Inr _ \<Rightarrow> (Inr ref, t)
          | Inl (SecretNotFound _) \<Rightarrow> issue
          | Inl e \<Rightarrow> (Inl (Config (''cannot verify runtime bootstrap: '' @ secret_error_text e)), t)))"

definition validate_presented_secret :: "string \<Rightarrow> unit managed" where
  "validate_presented_secret raw =
     (if raw = [] \<or> 4096 < length raw then Inl (api ''AUTH_FAILED'' ''runtime credential is invalid'') else Inr ())"

text \<open>The two rows of a session: the access credential and the refresh credential of its family.\<close>

definition insert_session ::
  "string \<Rightarrow> string \<Rightarrow> string \<Rightarrow> instant \<Rightarrow> string \<Rightarrow> string \<Rightarrow> string \<Rightarrow> instant \<Rightarrow> int \<Rightarrow> TenantDb \<Rightarrow> (unit \<times> TenantDb) managed" where
  "insert_session workspace access_id access_hash access_expires refresh_id refresh_hash family family_expires generation t =
     and_then (insert_credential access_id workspace access_hash WORKSPACE_AUDIENCE access_expires generation family family_expires t)
       (\<lambda>(_, t1). insert_credential refresh_id workspace refresh_hash WORKSPACE_REFRESH_AUDIENCE family_expires generation
          family family_expires t1)"

definition joinable :: "TenantDb \<Rightarrow> BootstrapRow \<Rightarrow> WorkspaceRow \<Rightarrow> bool" where
  "joinable t b w \<longleftrightarrow> wk_id w = sc_owner b \<and> wk_desired_state w \<noteq> ''deleting'' \<and> wk_desired_state w \<noteq> ''deleted'' \<and>
     list_ex (\<lambda>r. tn_id r = wk_tenant_id w \<and> tn_organization_id r = wk_organization_id w \<and>
       tn_desired_state r \<noteq> ''deleting'' \<and> tn_desired_state r \<noteq> ''deleted'') (db_tenants (queue t))"

definition redeemable :: "instant \<Rightarrow> string \<Rightarrow> TenantDb \<Rightarrow> BootstrapRow \<Rightarrow> bool" where
  "redeemable clk hash t b \<longleftrightarrow> bs_hash b = hash \<and> live_bootstrap b \<and> clk < bs_expires_at b \<and>
     list_ex (joinable t b) (db_workspaces (queue t))"

definition consume_bootstrap_and_insert_session ::
  "instant \<Rightarrow> string \<Rightarrow> string \<Rightarrow> string \<Rightarrow> instant \<Rightarrow> string \<Rightarrow> string \<Rightarrow> string \<Rightarrow> instant \<Rightarrow> TenantDb \<Rightarrow>
   ((string \<times> int) option \<times> TenantDb) managed" where
  "consume_bootstrap_and_insert_session clk bootstrap_hash access_id access_hash access_expires refresh_id refresh_hash family family_expires t =
     (case List.find (redeemable clk bootstrap_hash t) (tb_bootstraps t) of
        None \<Rightarrow> Inr (None, t)
      | Some b \<Rightarrow>
         (case find_workspace t (sc_owner b) of
            None \<Rightarrow> Inr (None, t)
          | Some w \<Rightarrow>
             (let t1 = t\<lparr>tb_bootstraps := update_where (\<lambda>b. bs_hash b = bootstrap_hash \<and> bs_consumed_at b = None)
                    (\<lambda>b. b\<lparr>bs_consumed_at := Some clk\<rparr>) (tb_bootstraps t)\<rparr> in
              and_then (insert_session (wk_id w) access_id access_hash access_expires refresh_id refresh_hash family family_expires
                  (wk_credential_generation w) t1) (\<lambda>(_, t2).
                Inr (Some (wk_id w, wk_credential_generation w), set_workspace (\<lambda>w. w\<lparr>wk_registered_at := Some clk\<rparr>) (wk_id w) t2)))))"

record FreshSession =
  fs_access :: string
  fs_access_id :: string
  fs_refresh :: string
  fs_refresh_id :: string
  fs_family :: string

definition register ::
  "(string \<Rightarrow> string) \<Rightarrow> FreshSession \<Rightarrow> instant \<Rightarrow> instant \<Rightarrow> TenantDb \<Rightarrow> string \<Rightarrow> RuntimeSessionIssue managed \<times> TenantDb" where
  "register hash_token fresh now clk t raw_bootstrap =
     transact t (and_then (validate_presented_secret raw_bootstrap) (\<lambda>_.
       and_then (consume_bootstrap_and_insert_session clk (hash_token raw_bootstrap) (fs_access_id fresh) (hash_token (fs_access fresh))
           (now + ACCESS_TTL) (fs_refresh_id fresh) (hash_token (fs_refresh fresh)) (fs_family fresh) (now + REFRESH_FAMILY_TTL) t)
         (\<lambda>(consumed, t').
            case consumed of
              None \<Rightarrow> Inl (api ''AUTH_FAILED'' ''runtime bootstrap is invalid'')
            | Some (w, generation) \<Rightarrow>
                Inr (\<lparr>si_workspace_id = w, si_access_secret = fs_access fresh, si_access_expires_at = now + ACCESS_TTL,
                  si_refresh_secret = fs_refresh fresh, si_refresh_expires_at = now + REFRESH_FAMILY_TTL,
                  si_generation = generation\<rparr>, t'))))"

section \<open>Rotation and revocation\<close>

definition revoke_credential :: "instant \<Rightarrow> string \<Rightarrow> TenantDb \<Rightarrow> bool \<times> TenantDb" where
  "revoke_credential clk i t =
     (let p = (\<lambda>c. sc_id c = i \<and> sc_revoked_at c = None) in
      (rows_affected p (tb_runtime_credentials t) = 1,
       t\<lparr>tb_runtime_credentials := update_where p (\<lambda>c. c\<lparr>sc_revoked_at := Some clk\<rparr>) (tb_runtime_credentials t)\<rparr>))"

definition revoke_workspace_credentials :: "instant \<Rightarrow> string \<Rightarrow> TenantDb \<Rightarrow> TenantDb" where
  "revoke_workspace_credentials clk workspace t =
     t\<lparr>tb_runtime_credentials := revoke_secrets clk ((=) workspace) (tb_runtime_credentials t)\<rparr>"

definition revoke_leases_for_workspace :: "instant \<Rightarrow> string \<Rightarrow> TenantDb \<Rightarrow> TenantDb" where
  "revoke_leases_for_workspace clk workspace t =
     t\<lparr>tb_credential_leases := revoke_leases clk (\<lambda>l. cl_workspace_id l = workspace) (tb_credential_leases t)\<rparr>"

definition revoke_leases_for_connection :: "instant \<Rightarrow> string \<Rightarrow> string \<Rightarrow> TenantDb \<Rightarrow> TenantDb" where
  "revoke_leases_for_connection clk org connection t =
     t\<lparr>tb_credential_leases := revoke_leases clk (\<lambda>l. cl_organization_id l = org \<and> cl_connection_id l = connection)
       (tb_credential_leases t)\<rparr>"

definition bump_workspace_generation :: "string \<Rightarrow> TenantDb \<Rightarrow> int managed \<times> TenantDb" where
  "bump_workspace_generation workspace t =
     (case workspace_generation t workspace of
        None \<Rightarrow> (Inl (not_found ''workspace''), t)
      | Some g \<Rightarrow> (Inr (g + 1), set_workspace (\<lambda>w. w\<lparr>wk_credential_generation := wk_credential_generation w + 1\<rparr>) workspace t))"

definition presents_refresh :: "instant \<Rightarrow> TenantDb \<Rightarrow> WorkspaceRow \<Rightarrow> string \<Rightarrow> bool" where
  "presents_refresh clk t w hash \<longleftrightarrow>
     list_ex (\<lambda>c. sc_owner c = wk_id w \<and> rc_hash c = hash \<and> rc_audience c = WORKSPACE_REFRESH_AUDIENCE \<and>
       sc_revoked_at c = None \<and> clk < rc_expires_at c \<and> rc_generation c = wk_credential_generation w) (tb_runtime_credentials t)"

definition rotate_credential_pair ::
  "instant \<Rightarrow> string \<Rightarrow> string \<Rightarrow> string option \<Rightarrow> string \<Rightarrow> instant \<Rightarrow> string \<Rightarrow> string \<Rightarrow> string \<Rightarrow> instant \<Rightarrow> TenantDb \<Rightarrow>
   (int \<times> TenantDb) managed" where
  "rotate_credential_pair clk access_id workspace presented access_hash access_expires refresh_id refresh_hash family family_expires t =
     (case find_workspace t workspace of
        None \<Rightarrow> Inl (not_found ''workspace'')
      | Some w \<Rightarrow>
          if \<not> is_none_or presented (presents_refresh clk t w) then Inl (not_found ''workspace'')
          else
            (let g = wk_credential_generation w + 1;
                 t1 = set_workspace (\<lambda>w. w\<lparr>wk_credential_generation := wk_credential_generation w + 1\<rparr>) workspace t;
                 t2 = revoke_leases_for_workspace clk workspace (revoke_workspace_credentials clk workspace t1) in
             and_then (insert_session workspace access_id access_hash access_expires refresh_id refresh_hash family family_expires g t2)
               (\<lambda>(_, t3). Inr (g, t3))))"

definition rotate ::
  "(string \<Rightarrow> string) \<Rightarrow> FreshSession \<Rightarrow> instant \<Rightarrow> instant \<Rightarrow> TenantDb \<Rightarrow> string \<Rightarrow> RuntimeCredentialIssue managed \<times> TenantDb" where
  "rotate hash_token fresh now clk t workspace =
     transact t (and_then (rotate_credential_pair clk (fs_access_id fresh) workspace None (hash_token (fs_access fresh)) (now + ACCESS_TTL)
         (fs_refresh_id fresh) (hash_token (fs_refresh fresh)) (fs_family fresh) (now + REFRESH_FAMILY_TTL) t) (\<lambda>(g, t').
       Inr (\<lparr>ci_credential_id = fs_access_id fresh, ci_raw_secret = fs_access fresh, ci_expires_at = now + ACCESS_TTL,
         ci_generation = g\<rparr>, t')))"

text \<open>
  \<open>revoke\<close> is three statements; other calls may run in between, which is what \<open>env\<close> and \<open>env2\<close> do.
\<close>

definition revoke_sessions ::
  "(TenantDb \<Rightarrow> TenantDb) \<Rightarrow> (TenantDb \<Rightarrow> TenantDb) \<Rightarrow> instant \<Rightarrow> instant \<Rightarrow> TenantDb \<Rightarrow> string \<Rightarrow> unit managed \<times> TenantDb" where
  "revoke_sessions env env2 clk clk2 t workspace =
     (case bump_workspace_generation workspace t of
        (Inl e, t1) \<Rightarrow> (Inl e, t1)
      | (Inr _, t1) \<Rightarrow> (Inr (), revoke_leases_for_workspace clk2 workspace (env2 (revoke_workspace_credentials clk workspace (env t1)))))"

section \<open>Authentication\<close>

text \<open>\<open>resolve_runtime_scope\<close>: the join from the credential to its repository, in one read.\<close>

definition scope_of_workspace :: "TenantDb \<Rightarrow> CredentialRow \<Rightarrow> WorkspaceRow \<Rightarrow> RuntimeScope option" where
  "scope_of_workspace t c w =
     (case List.find (\<lambda>r. tn_id r = wk_tenant_id w \<and> tn_organization_id r = wk_organization_id w) (db_tenants (queue t)) of
        None \<Rightarrow> None
      | Some tn \<Rightarrow>
     (case find_org (tb_orgs t) (tn_organization_id tn) of
        None \<Rightarrow> None
      | Some o' \<Rightarrow>
     (case List.find (\<lambda>r. gc_id r = tn_connection_id tn \<and> gc_organization_id r = tn_organization_id tn) (tb_connections t) of
        None \<Rightarrow> None
      | Some gc \<Rightarrow>
     (case List.find (\<lambda>r. gr_connection_id r = gc_id gc \<and> gr_organization_id r = gc_organization_id gc \<and>
             gr_github_repository_id r = tn_github_repository_id tn) (tb_repositories t) of
        None \<Rightarrow> None
      | Some gr \<Rightarrow>
         Some \<lparr>rs_credential_id = sc_id c, rs_workspace_id = wk_id w, rs_workspace_role = wk_role w,
           rs_workspace_generation = wk_credential_generation w, rs_workspace_observed_state = wk_observed_state w,
           rs_workspace_desired_state = wk_desired_state w, rs_workspace_registered_at = wk_registered_at w,
           rs_tenant_id = tn_id tn, rs_tenant_desired_state = tn_desired_state tn, rs_tenant_observed_state = tn_observed_state tn,
           rs_organization_id = og_id o', rs_organization_status = og_status o', rs_connection_id = gc_id gc,
           rs_connection_status = gc_status gc, rs_connection_generation = gc_access_generation gc,
           rs_installation_id = gc_installation_id gc, rs_repository_id = tn_github_repository_id tn,
           rs_repository_accessible = gr_accessible gr, rs_credential_generation = rc_generation c,
           rs_credential_expires_at = rc_expires_at c, rs_credential_revoked_at = sc_revoked_at c,
           rs_credential_audience = rc_audience c, rs_credential_family_id = rc_family_id c,
           rs_credential_family_expires_at = rc_family_expires_at c\<rparr>))))"

definition resolve_runtime_scope :: "TenantDb \<Rightarrow> string \<Rightarrow> RuntimeScope option" where
  "resolve_runtime_scope t hash =
     (case List.find (\<lambda>c. rc_hash c = hash) (tb_runtime_credentials t) of
        None \<Rightarrow> None
      | Some c \<Rightarrow> Option.bind (find_workspace t (sc_owner c)) (scope_of_workspace t c))"

definition authenticate_for_audience ::
  "(string \<Rightarrow> string) \<Rightarrow> instant \<Rightarrow> TenantDb \<Rightarrow> string \<Rightarrow> string \<Rightarrow> RuntimeScope managed" where
  "authenticate_for_audience hash_token now t raw audience =
     and_then (validate_presented_secret raw) (\<lambda>_.
       case resolve_runtime_scope t (hash_token raw) of
         None \<Rightarrow> Inl (api ''AUTH_FAILED'' ''runtime credential is invalid'')
       | Some s \<Rightarrow>
           if rs_credential_audience s \<noteq> audience then Inl (api ''AUTH_FAILED'' ''runtime credential audience mismatch'')
           else if rs_credential_expires_at s \<le> now then Inl (api ''AUTH_FAILED'' ''runtime credential has expired'')
           else if rs_credential_revoked_at s \<noteq> None then Inl (api ''AUTH_FAILED'' ''runtime credential has been revoked'')
           else if rs_credential_generation s \<noteq> rs_workspace_generation s
           then Inl (api ''AUTH_FAILED'' ''runtime credential is stale (rotated)'')
           else if rs_organization_status s \<noteq> ''ready'' \<or> rs_connection_status s \<noteq> ''active'' \<or> \<not> rs_repository_accessible s \<or>
             rs_tenant_desired_state s = ''deleting'' \<or> rs_tenant_desired_state s = ''deleted'' \<or>
             rs_workspace_desired_state s = ''deleting'' \<or> rs_workspace_desired_state s = ''deleted''
           then Inl (api ''AUTH_FAILED'' ''runtime scope is no longer active'')
           else Inr s)"

definition authenticate :: "(string \<Rightarrow> string) \<Rightarrow> instant \<Rightarrow> TenantDb \<Rightarrow> string \<Rightarrow> RuntimeScope managed" where
  "authenticate hash_token now t raw = authenticate_for_audience hash_token now t raw WORKSPACE_AUDIENCE"

definition authenticate_refresh :: "(string \<Rightarrow> string) \<Rightarrow> instant \<Rightarrow> TenantDb \<Rightarrow> string \<Rightarrow> RuntimeScope managed" where
  "authenticate_refresh hash_token now t raw = authenticate_for_audience hash_token now t raw WORKSPACE_REFRESH_AUDIENCE"

definition refresh_session ::
  "(string \<Rightarrow> string) \<Rightarrow> FreshSession \<Rightarrow> instant \<Rightarrow> instant \<Rightarrow> TenantDb \<Rightarrow> TenantDb \<Rightarrow> string \<Rightarrow> RuntimeSessionIssue managed \<times> TenantDb" where
  "refresh_session hash_token fresh now clk before t raw_refresh =
     transact t (and_then (authenticate_refresh hash_token now before raw_refresh) (\<lambda>s.
       if rs_credential_family_expires_at s \<le> now then Inl (api ''AUTH_FAILED'' ''runtime refresh family has expired'')
       else
         (let family_expires = now + REFRESH_FAMILY_TTL; access_expires = min (now + ACCESS_TTL) family_expires in
          and_then (rotate_credential_pair clk (fs_access_id fresh) (rs_workspace_id s) (Some (hash_token raw_refresh))
              (hash_token (fs_access fresh)) access_expires (fs_refresh_id fresh) (hash_token (fs_refresh fresh))
              (rs_credential_family_id s) family_expires t) (\<lambda>(g, t').
            Inr (\<lparr>si_workspace_id = rs_workspace_id s, si_access_secret = fs_access fresh, si_access_expires_at = access_expires,
              si_refresh_secret = fs_refresh fresh, si_refresh_expires_at = family_expires, si_generation = g\<rparr>, t')))))"

end
