(* ===== verification/Runtime_System.thy ===== *)
theory Runtime_System
  imports Runtime_Credentials Tenant_Properties
begin

text \<open>
  Runtime sessions in the system of tenants. A step is a call of the tenant system or one statement or
  transaction of the session service; everything else may change between them, except the workspaces,
  tenants, quotas, credentials and bootstrap secrets. \<open>taken\<close> is a set of hashes and identifiers: in a run
  with \<open>taken\<close> no newly generated secret has its hash in it and no new credential its identifier.
\<close>

section \<open>Steps\<close>

text \<open>
  The workspace has reached the generation. It is how a generation that was read earlier relates to the state
  in which a credential is written with it, since generations only grow.
\<close>

definition holder :: "Db \<Rightarrow> string \<Rightarrow> int \<Rightarrow> bool" where
  "holder q w g \<longleftrightarrow> (\<exists>v \<in> set (db_workspaces q). wk_id v = w \<and> g \<le> wk_credential_generation v)"

inductive runtime_step :: "(string \<Rightarrow> string) \<Rightarrow> string set \<Rightarrow> TenantStore \<Rightarrow> FleetEvent option \<Rightarrow> TenantStore \<Rightarrow> bool"
  for hash_token taken where
  r_fleet: "fleet_step st e st' \<Longrightarrow> e \<noteq> Outside \<Longrightarrow> runtime_step hash_token taken st (Some e) st'"
| r_issue: "issue_for_workspace hash_token i secret family now before t w = (ri, t') \<Longrightarrow> hash_token secret \<notin> taken \<Longrightarrow> i \<notin> taken \<Longrightarrow>
    (\<And>g. workspace_generation before w = Some g \<Longrightarrow> holder (queue t) w g) \<Longrightarrow> runtime_step hash_token taken (keys, t) None (keys, t')"
| r_bootstrap: "issue_bootstrap hash_token put i secret now clk before t w = (rb, t') \<Longrightarrow> hash_token secret \<notin> taken \<Longrightarrow>
    runtime_step hash_token taken (keys, t) None (keys, t')"
| r_register: "register hash_token fresh now clk t raw = (rr, t') \<Longrightarrow> hash_token (fs_access fresh) \<notin> taken \<Longrightarrow>
    hash_token (fs_refresh fresh) \<notin> taken \<Longrightarrow> fs_access_id fresh \<notin> taken \<Longrightarrow> fs_refresh_id fresh \<notin> taken \<Longrightarrow> runtime_step hash_token taken (keys, t) None (keys, t')"
| r_rotate: "rotate hash_token fresh now clk t w = (ri, t') \<Longrightarrow> hash_token (fs_access fresh) \<notin> taken \<Longrightarrow>
    hash_token (fs_refresh fresh) \<notin> taken \<Longrightarrow> fs_access_id fresh \<notin> taken \<Longrightarrow> fs_refresh_id fresh \<notin> taken \<Longrightarrow> runtime_step hash_token taken (keys, t) None (keys, t')"
| r_refresh: "refresh_session hash_token fresh now clk before t raw = (rr, t') \<Longrightarrow> hash_token (fs_access fresh) \<notin> taken \<Longrightarrow>
    hash_token (fs_refresh fresh) \<notin> taken \<Longrightarrow> fs_access_id fresh \<notin> taken \<Longrightarrow> fs_refresh_id fresh \<notin> taken \<Longrightarrow> runtime_step hash_token taken (keys, t) None (keys, t')"
| r_revoke_one: "revoke_credential clk i t = (b, t') \<Longrightarrow> runtime_step hash_token taken (keys, t) None (keys, t')"
| r_bump: "bump_workspace_generation w t = (rg, t') \<Longrightarrow> runtime_step hash_token taken (keys, t) None (keys, t')"
| r_revoke_all: "runtime_step hash_token taken (keys, t) None (keys, revoke_workspace_credentials clk w t)"
| r_environment: "db_tenants (queue t') = db_tenants (queue t) \<Longrightarrow> db_workspaces (queue t') = db_workspaces (queue t) \<Longrightarrow>
    db_quotas (queue t') = db_quotas (queue t) \<Longrightarrow> tb_runtime_credentials t' = tb_runtime_credentials t \<Longrightarrow>
    tb_bootstraps t' = tb_bootstraps t \<Longrightarrow> runtime_step hash_token taken (keys, t) None (keys', t')"

definition runtime_start :: "TenantStore \<Rightarrow> bool" where
  "runtime_start st \<longleftrightarrow> fleet_start st \<and> tb_runtime_credentials (snd st) = [] \<and> tb_bootstraps (snd st) = []"

section \<open>How credentials and bootstrap secrets evolve\<close>

text \<open>
  A row stays as it is or is revoked, rows disappear, and new rows have new hashes and a generation
  that their workspace has reached.
\<close>

definition credential_kept :: "CredentialRow \<Rightarrow> CredentialRow \<Rightarrow> bool" where
  "credential_kept c c' \<longleftrightarrow> (\<exists>r. c' = c\<lparr>sc_revoked_at := r\<rparr> \<and> (r = None \<longrightarrow> sc_revoked_at c = None))"

definition minted :: "string set \<Rightarrow> Db \<Rightarrow> CredentialRow \<Rightarrow> bool" where
  "minted taken q c \<longleftrightarrow> rc_hash c \<notin> taken \<and> sc_id c \<notin> taken \<and> holder q (sc_owner c) (rc_generation c)"

definition credentials_evolve :: "string set \<Rightarrow> Db \<Rightarrow> CredentialRow list \<Rightarrow> CredentialRow list \<Rightarrow> bool" where
  "credentials_evolve taken q cs cs' \<longleftrightarrow>
     (\<forall>c' \<in> set cs'. (\<exists>c \<in> set cs. credential_kept c c') \<or> minted taken q c') \<and>
     (distinct (map rc_hash cs) \<longrightarrow> distinct (map rc_hash cs')) \<and> (distinct (map sc_id cs) \<longrightarrow> distinct (map sc_id cs'))"

definition bootstraps_evolve :: "string set \<Rightarrow> BootstrapRow list \<Rightarrow> BootstrapRow list \<Rightarrow> bool" where
  "bootstraps_evolve taken bs bs' \<longleftrightarrow>
     (\<forall>b' \<in> set bs'. (\<exists>b \<in> set bs. bs_hash b' = bs_hash b \<and> (live_bootstrap b' \<longrightarrow> live_bootstrap b)) \<or> bs_hash b' \<notin> taken)"

definition sessions_evolve :: "string set \<Rightarrow> TenantDb \<Rightarrow> TenantDb \<Rightarrow> bool" where
  "sessions_evolve taken t t' \<longleftrightarrow> credentials_evolve taken (queue t') (tb_runtime_credentials t) (tb_runtime_credentials t') \<and>
     bootstraps_evolve taken (tb_bootstraps t) (tb_bootstraps t')"

lemma credential_kept_refl [simp]: "credential_kept c c"
  unfolding credential_kept_def by (rule exI [of _ "sc_revoked_at c"]) simp

lemma credential_keptD:
  assumes "credential_kept c c'"
  shows "rc_hash c' = rc_hash c" "sc_owner c' = sc_owner c" "rc_generation c' = rc_generation c"
    "sc_revoked_at c \<noteq> None \<Longrightarrow> sc_revoked_at c' \<noteq> None" "sc_id c' = sc_id c"
  using assms by (auto simp: credential_kept_def)

lemma credential_kept_trans: "credential_kept a b \<Longrightarrow> credential_kept b c \<Longrightarrow> credential_kept a c"
  by (auto simp: credential_kept_def)

lemma credential_source: "c \<in> set cs \<Longrightarrow> \<exists>x \<in> set cs. credential_kept x c"
  using credential_kept_refl by blast

lemma credentials_evolve_refl [simp]: "credentials_evolve taken q cs cs"
  by (simp add: credentials_evolve_def credential_source)

lemma bootstraps_evolve_refl [simp]: "bootstraps_evolve taken bs bs"
  by (auto simp: bootstraps_evolve_def)

lemma credentials_evolve_trans:
  assumes "credentials_evolve taken q a b" and "credentials_evolve taken q b c"
  shows "credentials_evolve taken q a c"
proof -
  have "(\<exists>x \<in> set a. credential_kept x z) \<or> minted taken q z" if "z \<in> set c" for z
  proof (cases "minted taken q z")
    case False
    then obtain y where y: "y \<in> set b" "credential_kept y z" using assms(2) \<open>z \<in> set c\<close> by (auto simp: credentials_evolve_def)
    then have "\<not> minted taken q y" using False credential_keptD [OF y(2)] by (simp add: minted_def)
    then obtain x where "x \<in> set a" "credential_kept x y" using assms(1) y(1) by (auto simp: credentials_evolve_def)
    then show ?thesis using credential_kept_trans y(2) by blast
  qed simp
  then show ?thesis using assms by (simp add: credentials_evolve_def)
qed

lemma credentials_revoke:
  "credentials_evolve taken q cs (update_where p (\<lambda>c. c\<lparr>sc_revoked_at := Some clk\<rparr>) cs)"
proof -
  have "\<exists>c \<in> set cs. credential_kept c c'" if listed: "c' \<in> set (update_where p (\<lambda>c. c\<lparr>sc_revoked_at := Some clk\<rparr>) cs)" for c'
  proof -
    obtain c where "c \<in> set cs" "c' = (if p c then c\<lparr>sc_revoked_at := Some clk\<rparr> else c)"
      using listed unfolding set_update_where by blast
    then have "c \<in> set cs \<and> credential_kept c c'"
      by (cases "p c") (auto simp: credential_kept_def intro: exI [of _ "sc_revoked_at c"])
    then show ?thesis by blast
  qed
  then show ?thesis by (simp add: credentials_evolve_def map_update_where)
qed

lemma credentials_filter: "credentials_evolve taken q cs (filter p cs)"
  by (auto simp: credentials_evolve_def distinct_map_filter intro: credential_source)

lemma bootstraps_filter: "bootstraps_evolve taken bs (filter p bs)"
  by (auto simp: bootstraps_evolve_def)

lemma sessions_evolve_refl [simp]: "sessions_evolve taken t t"
  by (simp add: sessions_evolve_def)

section \<open>The transactions of the session service\<close>

lemma insert_credential_Inr:
  assumes "insert_credential i w hash audience expires g family family_expires t = Inr (u, t')"
  obtains c where "t' = t\<lparr>tb_runtime_credentials := tb_runtime_credentials t @ [c]\<rparr>" and "rc_hash c = hash" and "sc_owner c = w"
    and "sc_id c = i" and "rc_generation c = g" and "hash \<notin> rc_hash ` set (tb_runtime_credentials t)"
    and "i \<notin> sc_id ` set (tb_runtime_credentials t)"
  using assms by (auto simp: insert_credential_def list_ex_iff split: if_splits intro!: that)

lemma insert_credential_evolves:
  assumes "insert_credential i w hash audience expires g family family_expires t = Inr (u, t')" and "hash \<notin> taken" and "i \<notin> taken"
    and "holder q w g"
  shows "credentials_evolve taken q (tb_runtime_credentials t) (tb_runtime_credentials t')"
    and "tb_bootstraps t' = tb_bootstraps t" and "queue t' = queue t"
  using assms(1) by (rule insert_credential_Inr, use assms(2-4) in \<open>simp add: credentials_evolve_def credential_source minted_def\<close>)+

lemma insert_session_frame:
  assumes "insert_session w ai ah ae ri rh family fe g t = Inr (u, t')"
  shows "tb_bootstraps t' = tb_bootstraps t" and "queue t' = queue t"
  using assms by (auto simp: insert_session_def and_then_Inr insert_credential_def split: if_splits)

lemma insert_session_evolves:
  assumes "insert_session w ai ah ae ri rh family fe g t = Inr (u, t')" and "ah \<notin> taken" and "rh \<notin> taken"
    and "ai \<notin> taken" and "ri \<notin> taken" and "holder q w g"
  shows "credentials_evolve taken q (tb_runtime_credentials t) (tb_runtime_credentials t')"
    and "tb_bootstraps t' = tb_bootstraps t" and "queue t' = queue t"
proof -
  obtain t1 where t1: "insert_credential ai w ah WORKSPACE_AUDIENCE ae g family fe t = Inr ((), t1)"
      "insert_credential ri w rh WORKSPACE_REFRESH_AUDIENCE fe g family fe t1 = Inr ((), t')"
    using assms(1) by (auto simp: insert_session_def and_then_Inr)
  note first = insert_credential_evolves [OF t1(1) assms(2,4,6)] and second = insert_credential_evolves [OF t1(2) assms(3,5,6)]
  show "credentials_evolve taken q (tb_runtime_credentials t) (tb_runtime_credentials t')"
    using credentials_evolve_trans [OF first(1) second(1)] .
  show "tb_bootstraps t' = tb_bootstraps t" "queue t' = queue t" using first second by simp_all
qed

lemma set_workspace_tables [simp]:
  "tb_runtime_credentials (set_workspace f w t) = tb_runtime_credentials t" "tb_bootstraps (set_workspace f w t) = tb_bootstraps t"
  "tb_runtime_credentials (set_queue q t) = tb_runtime_credentials t" "tb_bootstraps (set_queue q t) = tb_bootstraps t"
  by (simp_all add: set_workspace_def set_queue_def)

lemma set_workspace_holder:
  assumes "v \<in> set (db_workspaces (queue t))" and "wk_id v = i" and "wk_id (f v) = i" and "g \<le> wk_credential_generation (f v)"
  shows "holder (queue (set_workspace f i t)) i g"
proof -
  have "f v \<in> set (db_workspaces (queue (set_workspace f i t)))"
    using assms(1,2) by (auto simp: set_workspace_def set_worker_def set_update_where intro!: bexI [of _ v])
  then show ?thesis using assms(3,4) by (auto simp: holder_def)
qed

lemma set_workspace_outside:
  assumes "\<And>w. session_written w (f w)"
  shows "outside_fleet (queue t) (queue (set_workspace f i t))"
  using assms by (simp add: outside_fleet_def set_workspace_def set_worker_def list_all2_update)

definition consumed :: "instant \<Rightarrow> string \<Rightarrow> BootstrapRow list \<Rightarrow> BootstrapRow list" where
  "consumed clk hash = update_where (\<lambda>b. bs_hash b = hash \<and> bs_consumed_at b = None) (\<lambda>b. b\<lparr>bs_consumed_at := Some clk\<rparr>)"

lemma register_cases:
  assumes "register hash_token fresh now clk t raw = (r, t')"
  obtains (refused) e where "r = Inl e" and "t' = t"
    | (registered) b w t2 where "List.find (redeemable clk (hash_token raw) t) (tb_bootstraps t) = Some b"
        and "find_workspace t (sc_owner b) = Some w"
        and "insert_session (wk_id w) (fs_access_id fresh) (hash_token (fs_access fresh)) (now + ACCESS_TTL) (fs_refresh_id fresh)
          (hash_token (fs_refresh fresh)) (fs_family fresh) (now + REFRESH_FAMILY_TTL) (wk_credential_generation w)
          (t\<lparr>tb_bootstraps := consumed clk (hash_token raw) (tb_bootstraps t)\<rparr>) = Inr ((), t2)"
        and "t' = set_workspace (\<lambda>w. w\<lparr>wk_registered_at := Some clk\<rparr>) (wk_id w) t2"
proof (cases r)
  case (Inl e)
  then show ?thesis using assms refused by (auto simp: register_def transact_def split: sum.splits)
next
  case (Inr s)
  then obtain v where v: "consume_bootstrap_and_insert_session clk (hash_token raw) (fs_access_id fresh) (hash_token (fs_access fresh))
      (now + ACCESS_TTL) (fs_refresh_id fresh) (hash_token (fs_refresh fresh)) (fs_family fresh) (now + REFRESH_FAMILY_TTL) t = Inr (Some v, t')"
    using assms by (auto simp: register_def transact_def and_then_Inr split: sum.splits option.splits)
  then obtain b w where b: "List.find (redeemable clk (hash_token raw) t) (tb_bootstraps t) = Some b"
      "find_workspace t (sc_owner b) = Some w"
    by (auto simp: consume_bootstrap_and_insert_session_def split: option.splits)
  with v obtain t2 where "insert_session (wk_id w) (fs_access_id fresh) (hash_token (fs_access fresh)) (now + ACCESS_TTL)
        (fs_refresh_id fresh) (hash_token (fs_refresh fresh)) (fs_family fresh) (now + REFRESH_FAMILY_TTL) (wk_credential_generation w)
        (t\<lparr>tb_bootstraps := consumed clk (hash_token raw) (tb_bootstraps t)\<rparr>) = Inr ((), t2)"
      "t' = set_workspace (\<lambda>w. w\<lparr>wk_registered_at := Some clk\<rparr>) (wk_id w) t2"
    by (auto simp: consume_bootstrap_and_insert_session_def consumed_def Let_def and_then_Inr)
  then show ?thesis using registered b by blast
qed

lemma bootstraps_consumed: "bootstraps_evolve taken bs (consumed clk hash bs)"
proof -
  have "\<exists>b \<in> set bs. bs_hash b' = bs_hash b \<and> (live_bootstrap b' \<longrightarrow> live_bootstrap b)"
    if listed: "b' \<in> set (consumed clk hash bs)" for b'
  proof -
    obtain b where b: "b \<in> set bs" "b' = (if bs_hash b = hash \<and> bs_consumed_at b = None then b\<lparr>bs_consumed_at := Some clk\<rparr> else b)"
      using listed unfolding consumed_def set_update_where by blast
    then show ?thesis
      by (cases "bs_hash b = hash \<and> bs_consumed_at b = None") (auto simp: live_bootstrap_def intro!: bexI [of _ b])
  qed
  then show ?thesis by (simp add: bootstraps_evolve_def)
qed

lemma register_evolves:
  assumes "register hash_token fresh now clk t raw = (r, t')" and "hash_token (fs_access fresh) \<notin> taken" and "hash_token (fs_refresh fresh) \<notin> taken"
    and "fs_access_id fresh \<notin> taken" and "fs_refresh_id fresh \<notin> taken"
  shows "sessions_evolve taken t t' \<and> outside_fleet (queue t) (queue t')"
  using assms(1)
proof (cases rule: register_cases)
  case (registered b w t2)
  have w: "w \<in> set (db_workspaces (queue t))" "wk_id w = sc_owner b"
    using find_SomeD [OF registered(2) [unfolded find_workspace_def]] by simp_all
  have "queue t2 = queue t" using insert_session_frame [OF registered(3)] by simp
  then have "holder (queue t') (wk_id w) (wk_credential_generation w)"
    unfolding registered(4) using w(1) by (intro set_workspace_holder) auto
  note step = insert_session_evolves [OF registered(3) assms(2-5) this]
  then have "sessions_evolve taken t t'" using bootstraps_consumed by (simp add: registered(4) sessions_evolve_def)
  moreover have "outside_fleet (queue t2) (queue t')"
    unfolding registered(4) by (rule set_workspace_outside) (simp add: session_written_def)
  ultimately show ?thesis using step(3) by simp
qed (simp add: outside_fleet_def list_all2_refl)

lemma rotate_pair_Inr:
  assumes "rotate_credential_pair clk ai w presented ah ae ri rh family fe t = Inr (g, t')"
  obtains v t1 t2 where "find_workspace t w = Some v" and "is_none_or presented (presents_refresh clk t v)"
    and "t1 = set_workspace (\<lambda>w. w\<lparr>wk_credential_generation := wk_credential_generation w + 1\<rparr>) w t"
    and "t2 = revoke_leases_for_workspace clk w (revoke_workspace_credentials clk w t1)"
    and "insert_session w ai ah ae ri rh family fe g t2 = Inr ((), t')" and "g = wk_credential_generation v + 1"
  using assms by (auto simp: rotate_credential_pair_def Let_def and_then_Inr split: option.splits if_splits)

lemma rotate_pair_evolves:
  assumes "rotate_credential_pair clk ai w presented ah ae ri rh family fe t = Inr (g, t')" and "ah \<notin> taken" and "rh \<notin> taken"
    and "ai \<notin> taken" and "ri \<notin> taken"
  shows "sessions_evolve taken t t' \<and> outside_fleet (queue t) (queue t')"
  using assms(1)
proof (rule rotate_pair_Inr)
  fix v t1 t2
  assume v: "find_workspace t w = Some v" and g: "g = wk_credential_generation v + 1" and t1: "t1 = set_workspace (\<lambda>w. w\<lparr>wk_credential_generation := wk_credential_generation w + 1\<rparr>) w t"
    and t2: "t2 = revoke_leases_for_workspace clk w (revoke_workspace_credentials clk w t1)"
    and session: "insert_session w ai ah ae ri rh family fe g t2 = Inr ((), t')"
  have "queue t' = queue t1"
    using insert_session_frame [OF session] by (simp add: t2 revoke_leases_for_workspace_def revoke_workspace_credentials_def)
  moreover have "holder (queue t1) w g"
    unfolding t1 g using find_SomeD [OF v [unfolded find_workspace_def]] by (intro set_workspace_holder) auto
  ultimately have "holder (queue t') w g" by simp
  note step = insert_session_evolves [OF session assms(2-5) this]
  have "credentials_evolve taken (queue t') (tb_runtime_credentials t) (tb_runtime_credentials t2)"
    by (simp add: t1 t2 revoke_leases_for_workspace_def revoke_workspace_credentials_def revoke_secrets_def credentials_revoke)
  moreover have "outside_fleet (queue t) (queue t1)"
    unfolding t1 by (rule set_workspace_outside) (simp add: session_written_def)
  ultimately show ?thesis
    using step credentials_evolve_trans
    by (auto simp: sessions_evolve_def t1 t2 revoke_leases_for_workspace_def revoke_workspace_credentials_def)
qed

lemma transact_rotation:
  assumes "transact t (and_then (rotate_credential_pair clk ai w presented ah ae ri rh family fe t) f) = (r, t')"
    and "\<And>g u. f (g, u) = Inr (h g, u)" and "ah \<notin> taken" and "rh \<notin> taken"
    and "ai \<notin> taken" and "ri \<notin> taken"
  shows "sessions_evolve taken t t' \<and> outside_fleet (queue t) (queue t')"
proof (cases "rotate_credential_pair clk ai w presented ah ae ri rh family fe t")
  case (Inl e)
  then show ?thesis using assms(1) by (simp add: transact_def outside_fleet_def list_all2_refl)
next
  case (Inr v)
  obtain g u where v: "v = (g, u)" by (cases v)
  then have "t' = u" using assms(1,2) Inr by (simp add: transact_def)
  then show ?thesis using rotate_pair_evolves [OF _ assms(3-6)] Inr v by metis
qed

end
