(* ===== verification/Runtime_Sessions.thy ===== *)
theory Runtime_Sessions
  imports Runtime_System
begin

text \<open>
  What holds of runtime sessions in every run: a session that was ended stays ended, a refresh
  credential and a bootstrap secret work once.
\<close>

section \<open>Every step\<close>

lemma revoke_secrets_evolves: "credentials_evolve taken q cs (revoke_secrets clk owned cs)"
  by (simp add: revoke_secrets_def credentials_revoke)

lemma create_mutation_sessions:
  assumes "create_tenant_mutation limits tenant op tnow actor org repository slug fleet key request_id t = Inr (r, t')"
  shows "sessions_evolve taken t t'"
  using assms
  by (auto simp: create_tenant_mutation_def and_then_Inr Let_def sessions_evolve_def split: if_splits option.splits)

lemma delete_mutation_sessions:
  assumes "delete_tenant_mutation op tnow clk actor org tenant key request_id t = Inr (r, t')"
  shows "sessions_evolve taken t t'"
  using assms
  by (auto simp: delete_tenant_mutation_def enqueue_def Let_def sessions_evolve_def revoke_secrets_evolves split: if_splits option.splits)

lemma action_mutation_sessions:
  assumes "enqueue_action_mutation op tnow clk actor org tenant action key request_id t = Inr (r, t')"
  shows "sessions_evolve taken t t'"
  using assms
  by (auto simp: enqueue_action_mutation_def enqueue_def Let_def sessions_evolve_def revoke_secrets_evolves split: if_splits option.splits)

lemma mutate_worker_sessions:
  assumes "mutate_worker op tnow clk before t scope workspace delete key = (r, t')"
  shows "sessions_evolve taken t t'"
  using assms
  by (auto simp: mutate_worker_def mutate_worker_tx_def transact_def Let_def sessions_evolve_def revoke_secrets_evolves
      split: if_splits option.splits sum.splits)

lemma worker_delete_sessions:
  assumes "worker_delete g tnow clk tenant t = (outcome, t')"
  shows "sessions_evolve taken t t'"
  using assms
  by (auto simp: worker_delete_def Let_def sessions_evolve_def credentials_filter bootstraps_filter
      split: prod.splits TenantProvisionOutcome.splits)

lemma fleet_call_sessions:
  assumes "fleet_step st e st'" and "e \<noteq> Outside"
  shows "sessions_evolve taken (snd st) (snd st')"
  using assms(1)
proof cases
  case f_create
  from f_create(2) show ?thesis
    by (rule create_tenant_call [where P = "sessions_evolve taken"]) (rule create_mutation_sessions, assumption, rule sessions_evolve_refl)
next
  case f_delete
  from f_delete(2) show ?thesis
    by (rule delete_tenant_call [where P = "sessions_evolve taken"]) (rule delete_mutation_sessions, assumption, rule sessions_evolve_refl)
next
  case f_action
  from f_action(2) show ?thesis
    by (rule enqueue_action_call [where P = "sessions_evolve taken"]) (rule action_mutation_sessions, assumption, rule sessions_evolve_refl)
next
  case f_mutate
  then show ?thesis using mutate_worker_sessions by simp
next
  case f_deleted
  then show ?thesis using worker_delete_sessions by simp
qed (use assms(2) in \<open>simp_all add: sessions_evolve_def\<close>)

lemma outside_refl [simp]: "outside_fleet q q"
  by (simp add: outside_fleet_def list_all2_refl)

lemma issue_evolves:
  assumes "issue_for_workspace hash_token i secret family now before t w = (r, t')" and "hash_token secret \<notin> taken" and "i \<notin> taken"
    and "\<And>g. workspace_generation before w = Some g \<Longrightarrow> holder (queue t) w g"
  shows "sessions_evolve taken t t' \<and> outside_fleet (queue t) (queue t')"
proof (cases "t' = t")
  case False
  then obtain g where g: "workspace_generation before w = Some g" and issued: "insert_credential i w (hash_token secret) WORKSPACE_AUDIENCE (now + ACCESS_TTL) g family (now + REFRESH_FAMILY_TTL) t =
      Inr ((), t')"
    using assms(1) by (auto simp: issue_for_workspace_def transact_def and_then_Inr split: option.splits sum.splits)
  then show ?thesis using insert_credential_evolves [OF issued assms(2,3) assms(4) [OF g]] by (simp add: sessions_evolve_def)
qed simp

lemma bootstrap_evolves:
  assumes "issue_bootstrap hash_token put i secret now clk before t w = (r, t')" and "hash_token secret \<notin> taken"
  shows "sessions_evolve taken t t' \<and> outside_fleet (queue t) (queue t')"
proof (cases "t' = t")
  case False
  define p where "p = (\<lambda>b :: BootstrapRow. sc_owner b = w \<and> live_bootstrap b)"
  obtain n where n: "t' = t\<lparr>tb_bootstraps := update_where p (\<lambda>b. b\<lparr>sc_revoked_at := Some clk\<rparr>) (tb_bootstraps t) @ [n]\<rparr>"
      "bs_hash n = hash_token secret"
    using assms(1) False
    by (auto simp: issue_bootstrap_def transact_def and_then_Inr insert_bootstrap_def p_def split: option.splits sum.splits if_splits)
  have "\<exists>b \<in> set (tb_bootstraps t). bs_hash b' = bs_hash b \<and> (live_bootstrap b' \<longrightarrow> live_bootstrap b)"
    if listed: "b' \<in> set (update_where p (\<lambda>b. b\<lparr>sc_revoked_at := Some clk\<rparr>) (tb_bootstraps t))" for b'
  proof -
    obtain b where "b \<in> set (tb_bootstraps t)" "b' = (if p b then b\<lparr>sc_revoked_at := Some clk\<rparr> else b)"
      using listed unfolding set_update_where by blast
    then show ?thesis by (cases "p b") (auto simp: live_bootstrap_def intro!: bexI [of _ b])
  qed
  then show ?thesis using assms(2) by (auto simp: n sessions_evolve_def bootstraps_evolve_def)
qed simp

lemma rotate_evolves:
  assumes "rotate hash_token fresh now clk t w = (r, t')"
    and "hash_token (fs_access fresh) \<notin> taken" and "hash_token (fs_refresh fresh) \<notin> taken"
    and "fs_access_id fresh \<notin> taken" and "fs_refresh_id fresh \<notin> taken"
  shows "sessions_evolve taken t t' \<and> outside_fleet (queue t) (queue t')"
  using assms(1) unfolding rotate_def by (rule transact_rotation [OF _ _ assms(2-5)]) simp

lemma refresh_evolves:
  assumes "refresh_session hash_token fresh now clk before t raw = (r, t')"
    and "hash_token (fs_access fresh) \<notin> taken" and "hash_token (fs_refresh fresh) \<notin> taken"
    and "fs_access_id fresh \<notin> taken" and "fs_refresh_id fresh \<notin> taken"
  shows "sessions_evolve taken t t' \<and> outside_fleet (queue t) (queue t')"
proof (cases "authenticate_refresh hash_token now before raw")
  case (Inl e)
  then show ?thesis using assms(1) by (simp add: refresh_session_def transact_def)
next
  case (Inr s)
  show ?thesis
  proof (cases "rs_credential_family_expires_at s \<le> now")
    case True
    then show ?thesis using assms(1) Inr by (simp add: refresh_session_def transact_def)
  next
    case False
    with assms(1) Inr show ?thesis
      unfolding refresh_session_def Let_def by simp (erule transact_rotation [OF _ _ assms(2-5)], simp)
  qed
qed

lemma runtime_step_cases:
  assumes "runtime_step hash_token taken st e st'"
  shows "sessions_evolve taken (snd st) (snd st') \<and> (\<exists>f. fleet_step st f st')"
proof -
  have outside: "\<exists>f. fleet_step (keys, t) f (keys', t')" if "outside_fleet (queue t) (queue t')" for keys t keys' t'
    using f_environment [OF that] by blast
  show ?thesis using assms
  proof cases
    case (r_fleet f)
    then show ?thesis using fleet_call_sessions by blast
  next
    case (r_issue i secret family now before t w ri t' keys)
    then show ?thesis using issue_evolves [of hash_token i secret family now before t w ri t' taken] outside by auto
  next
    case (r_bootstrap put i secret now clk before t w rb t' keys)
    then show ?thesis using bootstrap_evolves [of hash_token put i secret now clk before t w rb t' taken] outside by auto
  next
    case (r_register fresh now clk t raw rr t' keys)
    then show ?thesis using register_evolves [of hash_token fresh now clk t raw rr t' taken] outside by auto
  next
    case (r_rotate fresh now clk t w ri t' keys)
    then show ?thesis using rotate_evolves [of hash_token fresh now clk t w ri t' taken] outside by auto
  next
    case (r_refresh fresh now clk before t raw rr t' keys)
    then show ?thesis using refresh_evolves [of hash_token fresh now clk before t raw rr t' taken] outside by auto
  next
    case (r_revoke_one clk i t b t' keys)
    then have "queue t' = queue t" "sessions_evolve taken t t'"
      by (auto simp: revoke_credential_def Let_def sessions_evolve_def credentials_revoke)
    then show ?thesis using r_revoke_one outside by auto
  next
    case (r_bump w t rg t' keys)
    then have "outside_fleet (queue t) (queue t')" "sessions_evolve taken t t'"
      using set_workspace_outside [of "\<lambda>w. w\<lparr>wk_credential_generation := wk_credential_generation w + 1\<rparr>" t w]
      by (auto simp: bump_workspace_generation_def sessions_evolve_def session_written_def split: option.splits)
    then show ?thesis using r_bump outside by auto
  next
    case (r_revoke_all keys t clk w)
    then show ?thesis using outside
      by (auto simp: revoke_workspace_credentials_def sessions_evolve_def revoke_secrets_evolves)
  next
    case (r_environment t' t keys keys')
    then show ?thesis using outside by (auto simp: sessions_evolve_def outside_fleet_def list_all2_refl)
  qed
qed

section \<open>Generations grow and hashes stay distinct\<close>

lemma fleet_generations:
  assumes "fleet_step st e st'" and "fleet_keyed (queue (snd st))" and "w \<in> set (db_workspaces (queue (snd st)))"
  shows "\<exists>w' \<in> set (db_workspaces (queue (snd st'))). wk_id w' = wk_id w \<and> wk_credential_generation w \<le> wk_credential_generation w'"
proof -
  let ?q = "queue (snd st)" and ?q' = "queue (snd st')"
  have "\<exists>w' \<in> set (db_workspaces ?q'). workspace_evolves w w'"
    using fleet_step_moves [OF assms(1,2)] unfolding fleet_moves_def
  proof (elim disjE)
    assume "fleet_evolves (e = LateStop) ?q ?q'"
    then show ?thesis using evolves_target [OF _ assms(3)] by (auto simp: fleet_evolves_def)
  next
    assume "tenant_created ?q ?q'"
    then show ?thesis using assms(3) by (auto simp: tenant_created_def intro!: bexI [of _ w])
  next
    assume "worker_hired ?q ?q'"
    then obtain v where "list_all2 workspace_evolves (db_workspaces ?q @ [v]) (db_workspaces ?q')" by (auto simp: worker_hired_def)
    then show ?thesis using evolves_target [of _ _ _ w] assms(3) by fastforce
  qed
  then show ?thesis by (auto simp: workspace_evolves_def)
qed

lemma holder_kept:
  assumes "fleet_step st e st'" and "fleet_keyed (queue (snd st))" and "holder (queue (snd st)) w g"
  shows "holder (queue (snd st')) w g"
proof -
  obtain v where "v \<in> set (db_workspaces (queue (snd st)))" "wk_id v = w" "g \<le> wk_credential_generation v"
    using assms(3) by (auto simp: holder_def)
  then show ?thesis using fleet_generations [OF assms(1,2), of v] by (force simp: holder_def)
qed

definition runtime_ok :: "TenantStore \<Rightarrow> bool" where
  "runtime_ok st \<longleftrightarrow> fleet_ok st \<and> distinct (map rc_hash (tb_runtime_credentials (snd st))) \<and>
     distinct (map sc_id (tb_runtime_credentials (snd st))) \<and>
     (\<forall>c \<in> set (tb_runtime_credentials (snd st)). holder (queue (snd st)) (sc_owner c) (rc_generation c))"

lemma runtime_ok_step:
  assumes "runtime_step hash_token taken st e st'" and "runtime_ok st"
  shows "runtime_ok st'"
proof -
  obtain f where f: "fleet_step st f st'" and step: "sessions_evolve taken (snd st) (snd st')"
    using runtime_step_cases [OF assms(1)] by blast
  have keyed: "fleet_keyed (queue (snd st))" using assms(2) by (simp add: runtime_ok_def fleet_ok_def)
  have "holder (queue (snd st')) (sc_owner c) (rc_generation c)" if listed: "c \<in> set (tb_runtime_credentials (snd st'))" for c
  proof (cases "minted taken (queue (snd st')) c")
    case False
    then obtain d where d: "d \<in> set (tb_runtime_credentials (snd st))" "credential_kept d c"
      using step listed by (auto simp: sessions_evolve_def credentials_evolve_def)
    then have "holder (queue (snd st)) (sc_owner d) (rc_generation d)" using assms(2) by (simp add: runtime_ok_def)
    then show ?thesis using holder_kept [OF f keyed] credential_keptD [OF d(2)] by simp
  qed (simp add: minted_def)
  then show ?thesis using f step assms(2) fleetsys.inv_trans
    by (auto simp: runtime_ok_def sessions_evolve_def credentials_evolve_def)
qed

interpretation runtimesys: invariant_system runtime_start "runtime_step hash_token taken" runtime_ok for hash_token taken
proof unfold_locales
  fix st assume "runtime_start st"
  then show "runtime_ok st" using fleetsys.inv_start by (simp add: runtime_start_def runtime_ok_def)
qed (rule runtime_ok_step)

text \<open>A credential is known by the hash of its secret and by its identifier.\<close>

definition credential_key :: "(CredentialRow \<Rightarrow> string) \<Rightarrow> bool" where
  "credential_key f \<longleftrightarrow> f = rc_hash \<or> f = sc_id"

lemma key_kept: "credential_key f \<Longrightarrow> credential_kept c d \<Longrightarrow> f d = f c"
  using credential_keptD by (auto simp: credential_key_def)

lemma key_minted: "credential_key f \<Longrightarrow> minted taken q c \<Longrightarrow> f c \<notin> taken"
  by (auto simp: credential_key_def minted_def)

lemma same_key_same_credential:
  assumes "credential_key f" and "runtime_ok (keys, t)" and "c \<in> set (tb_runtime_credentials t)"
    and "d \<in> set (tb_runtime_credentials t)" and "f c = f d"
  shows "c = d"
  using distinct_key [of f "tb_runtime_credentials t" c d] assms by (auto simp: runtime_ok_def credential_key_def)

section \<open>Ended sessions\<close>

text \<open>No row with the key can authenticate: it is revoked, or its workspace is past its generation.\<close>

definition over :: "TenantDb \<Rightarrow> CredentialRow \<Rightarrow> bool" where
  "over t c \<longleftrightarrow> sc_revoked_at c \<noteq> None \<or> holder (queue t) (sc_owner c) (rc_generation c + 1)"

definition ended :: "(CredentialRow \<Rightarrow> string) \<Rightarrow> string \<Rightarrow> TenantDb \<Rightarrow> bool" where
  "ended f x t \<longleftrightarrow> (\<forall>c \<in> set (tb_runtime_credentials t). f c = x \<longrightarrow> over t c)"

lemma ended_step:
  assumes "runtime_step hash_token taken st e st'" and "runtime_ok st" and "credential_key f" and "x \<in> taken" and "ended f x (snd st)"
  shows "ended f x (snd st')"
proof -
  obtain g where g: "fleet_step st g st'" and step: "sessions_evolve taken (snd st) (snd st')"
    using runtime_step_cases [OF assms(1)] by blast
  have keyed: "fleet_keyed (queue (snd st))" using assms(2) by (simp add: runtime_ok_def fleet_ok_def)
  show ?thesis unfolding ended_def
  proof (intro ballI impI)
    fix c assume listed: "c \<in> set (tb_runtime_credentials (snd st'))" and key: "f c = x"
    then have "\<not> minted taken (queue (snd st')) c" using assms(4) key_minted [OF assms(3)] by blast
    then obtain d where d: "d \<in> set (tb_runtime_credentials (snd st))" "credential_kept d c"
      using step listed by (auto simp: sessions_evolve_def credentials_evolve_def)
    note kept = credential_keptD [OF d(2)]
    have "over (snd st) d" using assms(5) d(1) key_kept [OF assms(3) d(2)] key by (simp add: ended_def)
    then show "over (snd st') c" using kept holder_kept [OF g keyed] by (auto simp: over_def)
  qed
qed

lemma ended_run:
  assumes "reach (\<lambda>x. x = st) (runtime_step hash_token taken) later" and "runtime_ok st" and "credential_key f" and "x \<in> taken"
    and "ended f x (snd st)"
  shows "runtime_ok later \<and> ended f x (snd later)"
  using assms(1)
  by (induction rule: reach.induct) (use assms(2-5) runtime_ok_step ended_step in blast)+

lemma workspace_found:
  assumes "fleet_keyed (queue t)" and "find_workspace t w = Some v" and "holder (queue t) w g"
  shows "g \<le> wk_credential_generation v"
proof -
  have v: "v \<in> set (db_workspaces (queue t))" "wk_id v = w"
    using find_SomeD [OF assms(2) [unfolded find_workspace_def]] by simp_all
  obtain u where "u \<in> set (db_workspaces (queue t))" "wk_id u = w" "g \<le> wk_credential_generation u"
    using assms(3) by (auto simp: holder_def)
  then show ?thesis using v assms(1) distinct_key [of wk_id "db_workspaces (queue t)" u v] by (simp add: fleet_keyed_def)
qed

lemma scope_fields:
  assumes "scope_of_workspace t c w = Some s"
  shows "rs_credential_generation s = rc_generation c" "rs_workspace_generation s = wk_credential_generation w"
    "rs_credential_revoked_at s = sc_revoked_at c" "rs_workspace_id s = wk_id w"
  using assms by (auto simp: scope_of_workspace_def split: option.splits)

lemma ended_refused:
  assumes "ended rc_hash (hash_token raw) t" and "runtime_ok (keys, t)"
  shows "\<exists>m. authenticate_for_audience hash_token now t raw audience = Inl (api ''AUTH_FAILED'' m)"
proof (cases "resolve_runtime_scope t (hash_token raw)")
  case None
  then show ?thesis by (cases "validate_presented_secret raw")
      (auto simp: authenticate_for_audience_def validate_presented_secret_def split: if_splits)
next
  case (Some s)
  then obtain c w where c: "List.find (\<lambda>c. rc_hash c = hash_token raw) (tb_runtime_credentials t) = Some c"
      and w: "find_workspace t (sc_owner c) = Some w" "scope_of_workspace t c w = Some s"
    by (auto simp: resolve_runtime_scope_def bind_eq_Some_conv split: option.splits)
  have "sc_revoked_at c \<noteq> None \<or> holder (queue t) (sc_owner c) (rc_generation c + 1)"
    using assms(1) find_SomeD [OF c] by (simp add: ended_def over_def)
  then have "rs_credential_revoked_at s \<noteq> None \<or> rs_credential_generation s \<noteq> rs_workspace_generation s"
    using workspace_found [OF _ w(1), of "rc_generation c + 1"] assms(2) scope_fields [OF w(2)] by (auto simp: runtime_ok_def fleet_ok_def)
  then show ?thesis using Some
    by (cases "validate_presented_secret raw")
      (auto simp: authenticate_for_audience_def validate_presented_secret_def split: if_splits)
qed

text \<open>A row that is over is not live at the generation of its workspace.\<close>

lemma over_not_current:
  assumes "over t c" and "runtime_ok (keys, t)" and "w \<in> set (db_workspaces (queue t))" and "wk_id w = sc_owner c"
    and "sc_revoked_at c = None"
  shows "rc_generation c < wk_credential_generation w"
proof -
  obtain v where v: "v \<in> set (db_workspaces (queue t))" "wk_id v = sc_owner c" "rc_generation c + 1 \<le> wk_credential_generation v"
    using assms(1,5) by (auto simp: over_def holder_def)
  then have "v = w"
    using distinct_key [of wk_id "db_workspaces (queue t)" v w] assms(2-4) by (simp add: runtime_ok_def fleet_ok_def fleet_keyed_def)
  then show ?thesis using v(3) by simp
qed

lemma ended_not_presented:
  assumes "ended rc_hash h t" and "runtime_ok (keys, t)" and "find_workspace t w = Some v"
  shows "\<not> presents_refresh clk t v h"
proof
  assume "presents_refresh clk t v h"
  then obtain c where c: "c \<in> set (tb_runtime_credentials t)" "sc_owner c = wk_id v" "rc_hash c = h" "sc_revoked_at c = None"
      "rc_generation c = wk_credential_generation v"
    by (auto simp: presents_refresh_def list_ex_iff)
  then show False
    using over_not_current [of t c keys v] assms find_SomeD [OF assms(3) [unfolded find_workspace_def]] by (simp add: ended_def)
qed

text \<open>The calls that end the sessions of a workspace.\<close>

inductive ends_sessions :: "(string \<Rightarrow> string) \<Rightarrow> string \<Rightarrow> TenantDb \<Rightarrow> TenantDb \<Rightarrow> bool"
  for hash_token w where
  rotated: "rotate hash_token fresh now clk t w = (Inr i, t') \<Longrightarrow> ends_sessions hash_token w t t'"
| refreshed: "refresh_session hash_token fresh now clk before t raw = (Inr s, t') \<Longrightarrow> si_workspace_id s = w \<Longrightarrow> ends_sessions hash_token w t t'"
| bumped: "bump_workspace_generation w t = (Inr g, t') \<Longrightarrow> ends_sessions hash_token w t t'"
| revoked: "ends_sessions hash_token w t (revoke_workspace_credentials clk w t)"
| worker_ended: "mutate_worker_tx op tnow clk t scope w delete key = Inr (o', t') \<Longrightarrow> ends_sessions hash_token w t t'"
| tenant_stopped: "enqueue_action_mutation op tnow clk actor org tenant ''stop'' key request_id t = Inr (o', t') \<Longrightarrow>
    workspace_of (queue t) tenant w \<Longrightarrow> ends_sessions hash_token w t t'"
| tenant_deleted: "delete_tenant_mutation op tnow clk actor org tenant key request_id t = Inr (o', t') \<Longrightarrow>
    scoped_tenant (queue t) org tenant = Some r \<Longrightarrow> tn_desired_state r \<noteq> ''deleting'' \<Longrightarrow>
    workspace_of (queue t) tenant w \<Longrightarrow> ends_sessions hash_token w t t'"

lemma revoked_rows:
  assumes "credential_key f" and "runtime_ok (keys, t)" and "c \<in> set (tb_runtime_credentials t)" and "owned (sc_owner c)"
    and "d \<in> set (revoke_secrets clk owned (tb_runtime_credentials t))" and "f d = f c"
  shows "sc_revoked_at d \<noteq> None"
proof -
  have "credentials_evolve {f c} (queue t) (tb_runtime_credentials t) (revoke_secrets clk owned (tb_runtime_credentials t))"
    by (rule revoke_secrets_evolves)
  then obtain e where e: "e \<in> set (tb_runtime_credentials t)" "credential_kept e d"
    using assms(5,6) key_minted [OF assms(1), of "{f c}" _ d] unfolding credentials_evolve_def by blast
  then have "e = c" using same_key_same_credential [OF assms(1,2) e(1) assms(3)] key_kept [OF assms(1) e(2)] assms(6) by simp
  then show ?thesis using revoked_secret [OF assms(5)] assms(4) credential_keptD(2) [OF e(2)] by simp
qed

lemma revoked_rows_ended:
  assumes "credential_key f" and "runtime_ok (keys, t)" and "c \<in> set (tb_runtime_credentials t)" and "owned (sc_owner c)"
    and "tb_runtime_credentials t' = revoke_secrets clk owned (tb_runtime_credentials t)"
  shows "ended f (f c) t'"
  using revoked_rows [where owned = owned, OF assms(1-4)] by (auto simp: ended_def over_def assms(5))

lemma insert_credential_new:
  assumes "insert_credential i w hash audience expires g family family_expires t = Inr (u, t')" and "credential_key f"
    and "d \<in> set (tb_runtime_credentials t')" and "f d \<in> f ` set (tb_runtime_credentials t)"
  shows "d \<in> set (tb_runtime_credentials t)"
  using assms(1) by (rule insert_credential_Inr) (use assms(2-4) in \<open>auto simp: credential_key_def\<close>)

lemma insert_session_new:
  assumes "insert_session w ai ah ae ri rh family fe g t = Inr (u, t')" and "credential_key f"
    and "d \<in> set (tb_runtime_credentials t')" and "f d \<in> f ` set (tb_runtime_credentials t)"
  shows "d \<in> set (tb_runtime_credentials t)"
proof -
  obtain t1 where t1: "insert_credential ai w ah WORKSPACE_AUDIENCE ae g family fe t = Inr ((), t1)"
      "insert_credential ri w rh WORKSPACE_REFRESH_AUDIENCE fe g family fe t1 = Inr ((), t')"
    using assms(1) by (auto simp: insert_session_def and_then_Inr)
  have "f ` set (tb_runtime_credentials t) \<subseteq> f ` set (tb_runtime_credentials t1)"
    using t1(1) by (rule insert_credential_Inr) auto
  then have "d \<in> set (tb_runtime_credentials t1)" using insert_credential_new [OF t1(2) assms(2,3)] assms(4) by blast
  then show ?thesis using insert_credential_new [OF t1(1) assms(2)] assms(4) by blast
qed

lemma rotate_pair_ends:
  assumes "rotate_credential_pair clk ai w presented ah ae ri rh family fe t = Inr (g, t')" and "runtime_ok (keys, t)"
    and "c \<in> set (tb_runtime_credentials t)" and "sc_owner c = w" and "credential_key f"
  shows "ended f (f c) t'"
  using assms(1)
proof (rule rotate_pair_Inr)
  fix v t1 t2
  assume t1: "t1 = set_workspace (\<lambda>w. w\<lparr>wk_credential_generation := wk_credential_generation w + 1\<rparr>) w t"
    and t2: "t2 = revoke_leases_for_workspace clk w (revoke_workspace_credentials clk w t1)"
    and session: "insert_session w ai ah ae ri rh family fe g t2 = Inr ((), t')"
  have creds: "tb_runtime_credentials t2 = revoke_secrets clk ((=) w) (tb_runtime_credentials t)"
    by (simp add: t1 t2 revoke_leases_for_workspace_def revoke_workspace_credentials_def)
  have "map f (tb_runtime_credentials t2) = map f (tb_runtime_credentials t)"
    using assms(5) by (auto simp: creds revoke_secrets_def map_update_where credential_key_def)
  then have "f c \<in> f ` set (tb_runtime_credentials t2)" using assms(3) by (metis image_eqI list.set_map)
  then have "d \<in> set (tb_runtime_credentials t2)" if "d \<in> set (tb_runtime_credentials t')" "f d = f c" for d
    using insert_session_new [OF session assms(5) that(1)] that(2) by simp
  then show ?thesis
    using revoked_rows [OF assms(5,2,3), of "(=) w" _ clk] assms(4) by (auto simp: ended_def over_def creds)
qed

lemma refresh_Inr:
  assumes "refresh_session hash_token fresh now clk before t raw = (Inr s, t')"
  obtains ae family fe g where "rotate_credential_pair clk (fs_access_id fresh) (si_workspace_id s) (Some (hash_token raw))
      (hash_token (fs_access fresh)) ae (fs_refresh_id fresh) (hash_token (fs_refresh fresh)) family fe t = Inr (g, t')"
  using assms
  by (auto simp: refresh_session_def transact_def and_then_Inr Let_def split: sum.splits if_splits prod.splits)

lemma ends_sessions_ended:
  assumes "ends_sessions hash_token w t t'" and "runtime_ok (keys, t)"
    and "c \<in> set (tb_runtime_credentials t)" and "sc_owner c = w" and "credential_key f"
  shows "ended f (f c) t'"
  using assms(1)
proof cases
  case (rotated fresh now clk i)
  then show ?thesis using rotate_pair_ends [OF _ assms(2-5)]
    by (auto simp: rotate_def transact_def and_then_Inr split: sum.splits)
next
  case (refreshed fresh now clk before raw s)
  from refreshed(1) show ?thesis by (rule refresh_Inr) (use rotate_pair_ends [OF _ assms(2-5)] refreshed(2) in blast)
next
  case (bumped g)
  then obtain v where v: "find_workspace t w = Some v"
      and t': "t' = set_workspace (\<lambda>w. w\<lparr>wk_credential_generation := wk_credential_generation w + 1\<rparr>) w t"
    by (auto simp: bump_workspace_generation_def workspace_generation_def split: option.splits)
  have "rc_generation c \<le> wk_credential_generation v"
    using workspace_found [OF _ v, of "rc_generation c"] assms(2-4) by (auto simp: runtime_ok_def fleet_ok_def)
  then have "holder (queue t') w (rc_generation c + 1)"
    unfolding t' using find_SomeD [OF v [unfolded find_workspace_def]] by (intro set_workspace_holder [of v]) auto
  moreover have "d = c" if "d \<in> set (tb_runtime_credentials t)" "f d = f c" for d
    using same_key_same_credential [OF assms(5,2) that(1) assms(3) that(2)] .
  ultimately show ?thesis using assms(4) by (auto simp: ended_def over_def t')
next
  case (revoked clk)
  then show ?thesis by (intro revoked_rows_ended [where owned = "(=) w" and clk = clk, OF assms(5,2,3)]) (simp_all add: assms(4) revoke_workspace_credentials_def)
next
  case (worker_ended op tnow clk scope delete key o')
  then have "tb_runtime_credentials t' = revoke_secrets clk ((=) w) (tb_runtime_credentials t)"
    by (auto simp: mutate_worker_tx_def Let_def split: option.splits if_splits)
  then show ?thesis by (intro revoked_rows_ended [OF assms(5,2,3)]) (simp_all add: assms(4))
next
  case (tenant_stopped op tnow clk actor org tenant key request_id o')
  then have "tb_runtime_credentials t' = revoke_secrets clk (workspace_of (queue t) tenant) (tb_runtime_credentials t)"
    by (auto simp: enqueue_action_mutation_def enqueue_def Let_def split: option.splits if_splits)
  then show ?thesis using tenant_stopped(2) by (intro revoked_rows_ended [OF assms(5,2,3)]) (simp_all add: assms(4))
next
  case (tenant_deleted op tnow clk actor org tenant key request_id o' r)
  then have "tb_runtime_credentials t' = revoke_secrets clk (workspace_of (queue t) tenant) (tb_runtime_credentials t)"
    by (auto simp: delete_tenant_mutation_def enqueue_def Let_def split: option.splits if_splits)
  then show ?thesis using tenant_deleted(4) by (intro revoked_rows_ended [OF assms(5,2,3)]) (simp_all add: assms(4))
qed

end
