(* ===== verification/Runtime_Permissions.thy ===== *)
theory Runtime_Permissions
  imports Manager_Base "HOL-Library.Char_ord" "HOL-Library.List_Lexorder"
begin

text \<open>
  The permission profiles of the GitHub credential broker,
  \<open>src/crates/openflows-manager/src/runtime/permissions.rs\<close>. A \<open>BTreeMap\<close> is an association list sorted
  by its keys; maps that come from GitHub are compared as maps. SHA-256 is the parameter \<open>sha\<close>.
\<close>

datatype Permission = Contents | Issues | PullRequests | Checks | Statuses | Actions | Workflows | Metadata

datatype PermissionLevel = Read | Write

type_synonym Permissions = "(Permission \<times> PermissionLevel) list"

type_synonym wire = "(string \<times> string) list"

text \<open>The derived serde names.\<close>

fun permission_name :: "Permission \<Rightarrow> string" where
  "permission_name Contents = ''contents''"
| "permission_name Issues = ''issues''"
| "permission_name PullRequests = ''pull_requests''"
| "permission_name Checks = ''checks''"
| "permission_name Statuses = ''statuses''"
| "permission_name Actions = ''actions''"
| "permission_name Workflows = ''workflows''"
| "permission_name Metadata = ''metadata''"

fun level_name :: "PermissionLevel \<Rightarrow> string" where
  "level_name Read = ''read''"
| "level_name Write = ''write''"

definition to_wire :: "Permissions \<Rightarrow> wire" where
  "to_wire ps = sort_key fst (map (\<lambda>(p, l). (permission_name p, level_name l)) ps)"

text \<open>Equality of two maps, by their entries.\<close>

definition same_map :: "wire \<Rightarrow> wire \<Rightarrow> bool" where
  "same_map a b \<longleftrightarrow> list_all (\<lambda>(k, _). map_of a k = map_of b k) (a @ b)"

definition grants_match :: "wire \<Rightarrow> wire \<Rightarrow> bool" where
  "grants_match actual expected =
     same_map (if map_of actual ''metadata'' = Some ''read'' \<and> map_of expected ''metadata'' = None
               then filter (\<lambda>(k, _). k \<noteq> ''metadata'') actual else actual) expected"

datatype RuntimePurpose = Git | ApiPurpose

definition parse_purpose :: "string \<Rightarrow> RuntimePurpose managed" where
  "parse_purpose raw =
     (if raw = ''git'' then Inr Git else if raw = ''api'' then Inr ApiPurpose
      else Inl (api ''INVALID_INPUT'' (''invalid runtime purpose '' @ CHR 0x27 # raw @ CHR 0x27 #
        '': expected '' @ CHR 0x27 # ''git'' @ CHR 0x27 # '' or '' @ CHR 0x27 # ''api'' @ [CHR 0x27])))"

fun purpose_as_str :: "RuntimePurpose \<Rightarrow> string" where
  "purpose_as_str Git = ''git''"
| "purpose_as_str ApiPurpose = ''api''"

record PermissionProfile =
  pp_name :: string
  pp_permissions :: Permissions
  pp_profile_hash :: string

definition profile_hash :: "(string \<Rightarrow> string) \<Rightarrow> wire \<Rightarrow> string" where
  "profile_hash sha ps = sha (concat (map (\<lambda>(k, v). k @ ''='' @ v @ '';'') ps))"

definition build_profile :: "(string \<Rightarrow> string) \<Rightarrow> string \<Rightarrow> RuntimePurpose \<Rightarrow> Permissions \<Rightarrow> PermissionProfile" where
  "build_profile sha role purpose ps =
     \<lparr>pp_name = role @ ''.'' @ purpose_as_str purpose, pp_permissions = ps, pp_profile_hash = profile_hash sha (to_wire ps)\<rparr>"

text \<open>The table of \<open>resolve_profile\<close>; a role outside it has none.\<close>

definition profile_permissions :: "string \<Rightarrow> RuntimePurpose \<Rightarrow> Permissions option" where
  "profile_permissions role purpose =
     (case purpose of
        Git \<Rightarrow>
          (if role = ''nexus'' \<or> role = ''sentinel'' then Some [(Contents, Read)]
           else if role = ''forge'' then Some [(Contents, Write), (Workflows, Write)]
           else if role = ''vessel'' \<or> role = ''lore'' then Some [(Contents, Write)]
           else None)
      | ApiPurpose \<Rightarrow>
          (if role = ''nexus'' then Some [(Contents, Read), (Issues, Write), (PullRequests, Write)]
           else if role = ''forge'' then Some [(Contents, Write), (PullRequests, Write)]
           else if role = ''sentinel'' then Some [(Contents, Read), (PullRequests, Write), (Checks, Read)]
           else if role = ''vessel''
           then Some [(Contents, Write), (PullRequests, Write), (Checks, Read), (Statuses, Read), (Actions, Read)]
           else if role = ''lore'' then Some [(Contents, Write), (PullRequests, Write)]
           else None))"

definition resolve_profile :: "(string \<Rightarrow> string) \<Rightarrow> string \<Rightarrow> RuntimePurpose \<Rightarrow> PermissionProfile managed" where
  "resolve_profile sha role purpose =
     (case profile_permissions role purpose of
        None \<Rightarrow> Inl (api ''INVALID_INPUT'' (''no permission profile for role '' @ CHR 0x27 # role @ CHR 0x27 #
          '' and purpose '' @ CHR 0x27 # purpose_as_str purpose @ [CHR 0x27]))
      | Some ps \<Rightarrow> Inr (build_profile sha role purpose ps))"

section \<open>Grants and profiles\<close>

lemma same_map_iff: "same_map a b \<longleftrightarrow> map_of a = map_of b"
proof
  assume same: "same_map a b"
  show "map_of a = map_of b"
  proof
    fix k
    consider "k \<in> fst ` set a \<union> fst ` set b" | "k \<notin> fst ` set a" "k \<notin> fst ` set b" by blast
    then show "map_of a k = map_of b k"
    proof cases
      case 1
      then show ?thesis using same by (auto simp: same_map_def list_all_iff)
    next
      case 2
      then show ?thesis by (metis map_of_eq_None_iff)
    qed
  qed
qed (simp add: same_map_def list_all_iff case_prod_beta)

text \<open>What the broker accepts from GitHub: the requested grants and, at most, reading metadata.\<close>

lemma grants_match_exact:
  assumes "grants_match actual expected" and "map_of actual k = Some v"
  shows "map_of expected k = Some v \<or> (k = ''metadata'' \<and> v = ''read'' \<and> map_of expected k = None)"
proof (cases "map_of actual ''metadata'' = Some ''read'' \<and> map_of expected ''metadata'' = None")
  case True
  then have same: "map_of (filter (\<lambda>(k, _). k \<noteq> ''metadata'') actual) = map_of expected"
    using assms(1) by (simp add: grants_match_def same_map_iff)
  have "map_of (filter (\<lambda>(k, _). k \<noteq> ''metadata'') actual) k = map_of actual k" if "k \<noteq> ''metadata''"
    using that by (induction actual) auto
  then show ?thesis using same assms(2) True by (cases "k = ''metadata''") auto
next
  case False
  then have "map_of actual = map_of expected" using assms(1) by (simp add: grants_match_def same_map_iff split: if_splits)
  then show ?thesis using assms(2) by simp
qed

lemma grants_match_complete:
  assumes "grants_match actual expected" and "map_of expected k = Some v"
  shows "map_of actual k = Some v"
proof (cases "map_of actual ''metadata'' = Some ''read'' \<and> map_of expected ''metadata'' = None")
  case True
  then have "map_of (filter (\<lambda>(k, _). k \<noteq> ''metadata'') actual) = map_of expected"
    using assms(1) by (simp add: grants_match_def same_map_iff)
  moreover have "map_of (filter (\<lambda>(k, _). k \<noteq> ''metadata'') actual) k = map_of actual k" if "k \<noteq> ''metadata''"
    using that by (induction actual) auto
  ultimately show ?thesis using assms(2) True by (cases "k = ''metadata''") auto
next
  case False
  then have "map_of actual = map_of expected" using assms(1) by (simp add: grants_match_def same_map_iff split: if_splits)
  then show ?thesis using assms(2) by simp
qed

lemma permission_name_inj: "permission_name p = permission_name q \<longleftrightarrow> p = q"
  by (cases p; cases q) simp_all

lemma to_wire_entry: "(k, v) \<in> set (to_wire ps) \<longleftrightarrow> (\<exists>p l. (p, l) \<in> set ps \<and> k = permission_name p \<and> v = level_name l)"
  by (auto simp: to_wire_def)

text \<open>The capabilities a profile may hold, role by role.\<close>

definition may_write :: "string \<Rightarrow> RuntimePurpose \<Rightarrow> string list" where
  "may_write role purpose =
     (if role \<in> {''forge'', ''vessel'', ''lore''} then [''contents''] else []) @
     (if role = ''forge'' \<and> purpose = Git then [''workflows''] else []) @
     (if role \<in> {''nexus'', ''sentinel'', ''forge'', ''vessel'', ''lore''} \<and> purpose = ApiPurpose then [''pull_requests''] else []) @
     (if role = ''nexus'' \<and> purpose = ApiPurpose then [''issues''] else [])"

lemma profile_writes:
  assumes "profile_permissions role purpose = Some ps" and "(k, ''write'') \<in> set (to_wire ps)"
  shows "k \<in> set (may_write role purpose)"
proof -
  obtain p l where p: "(p, l) \<in> set ps" "k = permission_name p" "''write'' = level_name l"
    using assms(2) unfolding to_wire_entry by blast
  then have "l = Write" by (cases l) simp_all
  have known: "role \<in> {''nexus'', ''sentinel'', ''forge'', ''vessel'', ''lore''}"
    using assms(1) unfolding profile_permissions_def by (cases purpose) (simp_all split: if_split_asm, blast+)
  then consider "role = ''nexus''" | "role = ''sentinel''" | "role = ''forge''" | "role = ''vessel''" | "role = ''lore''" by blast
  then have "p = Contents \<and> role \<in> {''forge'', ''vessel'', ''lore''} \<or> p = Workflows \<and> role = ''forge'' \<and> purpose = Git \<or>
      p = PullRequests \<and> purpose = ApiPurpose \<or> p = Issues \<and> role = ''nexus'' \<and> purpose = ApiPurpose"
    using assms(1) p(1) \<open>l = Write\<close> unfolding profile_permissions_def
    by cases (cases purpose; auto)+
  then show ?thesis using p(2) known unfolding may_write_def by (elim disjE conjE) simp_all
qed

end
