(* ===== verification/Runtime_Broker.thy ===== *)
theory Runtime_Broker
  imports Runtime_Sessions Runtime_Permissions
begin

text \<open>
  The GitHub credential broker: \<open>src/crates/openflows-manager/src/runtime/broker.rs\<close> with the lease
  statements of \<open>runtime/repository.rs\<close>. \<open>exchange\<close> takes what it does not do itself as arguments: the
  signed App JWT, GitHub's answer, the sealing of the token, the hash that selects the single-flight shard,
  the clocks, the new lease identifier and whether the audit insert fails. The optional ids of
  \<open>NewCredentialLease\<close> are always present in its only caller and are texts here.
\<close>

record InstallationToken =
  it_token :: string
  it_expires_at :: instant
  it_repository_ids :: "int list"
  it_permissions :: wire

record BrokerKey =
  bk_workspace_id :: string
  bk_credential_id :: string
  bk_app_id :: int
  bk_installation_id :: int
  bk_repository_id :: int
  bk_profile_hash :: string
  bk_connection_generation :: int
  bk_workspace_generation :: int

record BrokerCredential =
  bc_token :: string
  bc_expires_at :: instant
  bc_repository_id :: int
  bc_username :: string
  bc_permissions :: wire

record NewCredentialLease =
  nl_organization_id :: string
  nl_connection_id :: string
  nl_tenant_id :: string
  nl_workspace_id :: string
  nl_installation_id :: int
  nl_repository_id :: int
  nl_permission_profile_hash :: string
  nl_connection_generation :: int
  nl_workspace_generation :: int
  nl_purpose :: string
  nl_token_fingerprint :: string
  nl_encrypted_ref :: "string option"
  nl_expires_at :: instant

type_synonym ExchangeCache = "nat \<Rightarrow> (BrokerKey \<times> InstallationToken \<times> string) option"

definition MIN_TOKEN_VALIDITY :: instant where
  "MIN_TOKEN_VALIDITY = seconds (30 * 60)"

definition SINGLE_FLIGHT_SHARDS :: nat where
  "SINGLE_FLIGHT_SHARDS = 64"

definition INSTALLATION_TOKEN_USERNAME :: string where
  "INSTALLATION_TOKEN_USERNAME = ''x-access-token''"

section \<open>Checks\<close>

definition validate_resource_state :: "RuntimeScope \<Rightarrow> unit managed" where
  "validate_resource_state s =
     (let running = rs_workspace_observed_state s = ''running'' \<and>
            (rs_workspace_desired_state s = ''running'' \<or> rs_workspace_desired_state s = ''provisioning'');
          registering = rs_workspace_registered_at s \<noteq> None \<and>
            (rs_workspace_desired_state s = ''provisioning'' \<or> rs_workspace_desired_state s = ''running'') \<and>
            (rs_workspace_observed_state s = ''provisioning'' \<or> rs_workspace_observed_state s = ''stopped'') in
      if rs_organization_status s \<noteq> ''ready'' \<and> rs_organization_status s \<noteq> ''provisioning''
      then Inl (api ''ORG_UNAVAILABLE'' ''organization is not available'')
      else if rs_tenant_desired_state s = ''deleting'' \<or> rs_tenant_desired_state s = ''deleted'' \<or>
        rs_tenant_desired_state s = ''paused'' \<or> rs_tenant_observed_state s = ''deleted'' \<or> rs_tenant_observed_state s = ''deleting''
      then Inl (api ''TENANT_UNAVAILABLE'' ''tenant is not available'')
      else if \<not> running \<and> \<not> registering
      then Inl (api ''WORKSPACE_UNAVAILABLE'' ''workspace is not available for runtime access'')
      else if rs_connection_status s \<noteq> ''active''
      then Inl (api ''CONNECTION_UNAVAILABLE'' ''GitHub connection is not active'')
      else if \<not> rs_repository_accessible s
      then Inl (api ''REPOSITORY_UNAVAILABLE'' ''repository is not accessible'')
      else Inr ())"

definition validate_token :: "instant \<Rightarrow> InstallationToken \<Rightarrow> PermissionProfile \<Rightarrow> int \<Rightarrow> unit managed" where
  "validate_token now token profile repository =
     (if length (remdups (it_repository_ids token)) \<noteq> 1 \<or> repository \<notin> set (it_repository_ids token)
      then Inl (api ''GITHUB_UNAVAILABLE'' ''GitHub returned a different repository scope than requested'')
      else if \<not> grants_match (it_permissions token) (to_wire (pp_permissions profile))
      then Inl (api ''GITHUB_UNAVAILABLE'' ''GitHub returned different permissions than requested'')
      else if it_expires_at token - now < MIN_TOKEN_VALIDITY
      then Inl (api ''GITHUB_UNAVAILABLE'' ''GitHub returned an invalid token expiry'')
      else Inr ())"

section \<open>Leases\<close>

definition insert_lease_in_tx :: "string \<Rightarrow> NewCredentialLease \<Rightarrow> TenantDb \<Rightarrow> (string \<times> TenantDb) managed" where
  "insert_lease_in_tx i lease t =
     (if list_ex (\<lambda>l. sc_id l = i) (tb_credential_leases t)
      then Inl (Database ''insert violates a constraint of credential_leases'')
      else Inr (i, t\<lparr>tb_credential_leases := tb_credential_leases t @
        [\<lparr>sc_id = i, sc_owner = nl_tenant_id lease, sc_revoked_at = None, cl_organization_id = nl_organization_id lease,
          cl_connection_id = nl_connection_id lease, cl_workspace_id = nl_workspace_id lease,
          cl_installation_id = nl_installation_id lease, cl_repository_id = nl_repository_id lease,
          cl_permission_profile_hash = nl_permission_profile_hash lease, cl_connection_generation = nl_connection_generation lease,
          cl_workspace_generation = nl_workspace_generation lease, cl_purpose = nl_purpose lease,
          cl_token_fingerprint = nl_token_fingerprint lease, cl_encrypted_ref = nl_encrypted_ref lease,
          cl_expires_at = nl_expires_at lease\<rparr>]\<rparr>))"

definition insert_lease :: "string \<Rightarrow> NewCredentialLease \<Rightarrow> TenantDb \<Rightarrow> string managed \<times> TenantDb" where
  "insert_lease i lease t = transact t (insert_lease_in_tx i lease t)"

text \<open>The query of \<open>record_authorized_lease\<close>: does the whole chain of the scope still hold?\<close>

definition still_authorized :: "instant \<Rightarrow> TenantDb \<Rightarrow> RuntimeScope \<Rightarrow> bool" where
  "still_authorized clk t s \<longleftrightarrow>
     list_ex (\<lambda>o'. og_id o' = rs_organization_id s \<and> (og_status o' = ''ready'' \<or> og_status o' = ''provisioning'') \<and>
     list_ex (\<lambda>tn. tn_organization_id tn = og_id o' \<and> tn_id tn = rs_tenant_id s \<and>
       (tn_desired_state tn = ''running'' \<or> tn_desired_state tn = ''provisioning'') \<and>
       tn_observed_state tn \<noteq> ''deleted'' \<and> tn_observed_state tn \<noteq> ''deleting'' \<and>
     list_ex (\<lambda>w. wk_tenant_id w = tn_id tn \<and> wk_organization_id w = og_id o' \<and> wk_id w = rs_workspace_id s \<and>
       wk_credential_generation w = rs_workspace_generation s \<and> wk_role w = rs_workspace_role s \<and>
       (wk_desired_state w = ''running'' \<or> wk_desired_state w = ''provisioning'') \<and>
       (wk_observed_state w = ''running'' \<or>
        (wk_observed_state w = ''provisioning'' \<or> wk_observed_state w = ''stopped'') \<and> wk_registered_at w \<noteq> None) \<and>
     list_ex (\<lambda>c. sc_owner c = wk_id w \<and> sc_id c = rs_credential_id s \<and> rc_generation c = rs_workspace_generation s \<and>
       rc_audience c = WORKSPACE_AUDIENCE \<and> sc_revoked_at c = None \<and> clk < rc_expires_at c \<and>
     list_ex (\<lambda>gc. gc_id gc = tn_connection_id tn \<and> gc_organization_id gc = og_id o' \<and> gc_id gc = rs_connection_id s \<and>
       gc_installation_id gc = rs_installation_id s \<and> gc_access_generation gc = rs_connection_generation s \<and>
       gc_status gc = ''active'' \<and>
     list_ex (\<lambda>r. gr_connection_id r = gc_id gc \<and> gr_organization_id r = og_id o' \<and>
       gr_github_repository_id r = tn_github_repository_id tn \<and> gr_github_repository_id r = rs_repository_id s \<and>
       gr_accessible r)
     (tb_repositories t)) (tb_connections t)) (tb_runtime_credentials t)) (db_workspaces (queue t))) (db_tenants (queue t)))
     (od_organizations (tb_orgs t))"

definition valid_lease :: "instant \<Rightarrow> TenantDb \<Rightarrow> RuntimeScope \<Rightarrow> string \<Rightarrow> string \<Rightarrow> bool" where
  "valid_lease clk t s i fingerprint \<longleftrightarrow>
     list_ex (\<lambda>l. sc_id l = i \<and> cl_workspace_id l = rs_workspace_id s \<and> cl_connection_id l = rs_connection_id s \<and>
       sc_revoked_at l = None \<and> clk < cl_expires_at l \<and> cl_token_fingerprint l = fingerprint) (tb_credential_leases t)"

definition record_authorized_lease ::
  "instant \<Rightarrow> string \<Rightarrow> RuntimeScope \<Rightarrow> NewCredentialLease \<Rightarrow> string option \<Rightarrow> TenantDb \<Rightarrow> string managed \<times> TenantDb" where
  "record_authorized_lease clk i s lease existing t =
     transact t
       (if \<not> still_authorized clk t s then Inl (api ''AUTH_CHANGED'' ''runtime authorization changed'')
        else
          (case existing of
             Some e \<Rightarrow>
               if \<not> valid_lease clk t s e (nl_token_fingerprint lease)
               then Inl (api ''AUTH_CHANGED'' ''credential lease is no longer valid'') else Inr (e, t)
           | None \<Rightarrow> insert_lease_in_tx i lease t))"

definition lease_generations_current :: "TenantDb \<Rightarrow> string \<Rightarrow> int \<Rightarrow> int \<Rightarrow> bool" where
  "lease_generations_current t i expected_connection expected_workspace =
     (case List.find (\<lambda>l. sc_id l = i \<and>
        list_ex (\<lambda>c. gc_id c = cl_connection_id l \<and> gc_access_generation c = expected_connection \<and> gc_status c = ''active'')
          (tb_connections t) \<and>
        list_ex (\<lambda>w. wk_id w = cl_workspace_id l \<and> wk_credential_generation w = expected_workspace \<and>
          wk_observed_state w = ''running'' \<and> (wk_desired_state w = ''running'' \<or> wk_desired_state w = ''provisioning''))
          (db_workspaces (queue t))) (tb_credential_leases t) of
        None \<Rightarrow> False
      | Some l \<Rightarrow> sc_revoked_at l = None \<and> cl_connection_generation l = expected_connection \<and>
          cl_workspace_generation l = expected_workspace)"

definition revoke_lease :: "instant \<Rightarrow> string \<Rightarrow> TenantDb \<Rightarrow> bool \<times> TenantDb" where
  "revoke_lease clk i t =
     (rows_affected (\<lambda>l. sc_id l = i \<and> sc_revoked_at l = None) (tb_credential_leases t) = 1,
      t\<lparr>tb_credential_leases := revoke_leases clk (\<lambda>l. sc_id l = i) (tb_credential_leases t)\<rparr>)"

definition credential_is_current :: "instant \<Rightarrow> TenantDb \<Rightarrow> string \<Rightarrow> string \<Rightarrow> int \<Rightarrow> bool" where
  "credential_is_current clk t i workspace generation \<longleftrightarrow>
     list_ex (\<lambda>c. sc_id c = i \<and> sc_owner c = workspace \<and> sc_revoked_at c = None \<and> clk < rc_expires_at c \<and>
       rc_generation c = generation \<and>
       list_ex (\<lambda>w. wk_id w = sc_owner c \<and> wk_credential_generation w = generation) (db_workspaces (queue t)))
     (tb_runtime_credentials t)"

section \<open>The exchange\<close>

definition shard_for :: "(BrokerKey \<Rightarrow> nat) \<Rightarrow> BrokerKey \<Rightarrow> nat" where
  "shard_for hash key = hash key mod SINGLE_FLIGHT_SHARDS"

definition record_lease ::
  "(string \<Rightarrow> string) \<Rightarrow> (string \<Rightarrow> string managed) \<Rightarrow> instant \<Rightarrow> string \<Rightarrow> RuntimeScope \<Rightarrow> PermissionProfile \<Rightarrow> RuntimePurpose \<Rightarrow>
   InstallationToken \<Rightarrow> string option \<Rightarrow> TenantDb \<Rightarrow> string managed \<times> TenantDb" where
  "record_lease sha seal clk i s profile purpose token existing t =
     (case seal (it_token token) of
        Inl e \<Rightarrow> (Inl e, t)
      | Inr encrypted \<Rightarrow>
          record_authorized_lease clk i s
            \<lparr>nl_organization_id = rs_organization_id s, nl_connection_id = rs_connection_id s, nl_tenant_id = rs_tenant_id s,
             nl_workspace_id = rs_workspace_id s, nl_installation_id = rs_installation_id s, nl_repository_id = rs_repository_id s,
             nl_permission_profile_hash = pp_profile_hash profile, nl_connection_generation = rs_connection_generation s,
             nl_workspace_generation = rs_workspace_generation s, nl_purpose = purpose_as_str purpose,
             nl_token_fingerprint = sha (it_token token), nl_encrypted_ref = Some encrypted,
             nl_expires_at = it_expires_at token\<rparr> existing t)"

definition broker_key :: "int \<Rightarrow> RuntimeScope \<Rightarrow> PermissionProfile \<Rightarrow> BrokerKey" where
  "broker_key app s profile =
     \<lparr>bk_workspace_id = rs_workspace_id s, bk_credential_id = rs_credential_id s, bk_app_id = app,
      bk_installation_id = rs_installation_id s, bk_repository_id = rs_repository_id s, bk_profile_hash = pp_profile_hash profile,
      bk_connection_generation = rs_connection_generation s, bk_workspace_generation = rs_workspace_generation s\<rparr>"

definition cached_token :: "instant \<Rightarrow> BrokerKey \<Rightarrow> (BrokerKey \<times> InstallationToken \<times> string) option \<Rightarrow> (InstallationToken \<times> string) option" where
  "cached_token now key entry =
     (case entry of
        None \<Rightarrow> None
      | Some (k, token, lease) \<Rightarrow> if k = key \<and> MIN_TOKEN_VALIDITY < it_expires_at token - now then Some (token, lease) else None)"

definition audit_issued :: "instant \<Rightarrow> RuntimeScope \<Rightarrow> string \<Rightarrow> TenantDb \<Rightarrow> TenantDb" where
  "audit_issued tnow s request_id t =
     t\<lparr>tb_orgs := (tb_orgs t)\<lparr>od_audit := od_audit (tb_orgs t) @
       [\<lparr>au_organization_id = Some (rs_organization_id s), au_actor_type = ''runtime'', au_actor_id = None,
         au_action = ''runtime.github_credential_issued'', au_resource_type = Some ''workspace'',
         au_resource_id = Some (rs_workspace_id s), au_result = AuditSuccess, au_request_id = Some request_id,
         au_occurred_at = tnow\<rparr>]\<rparr>\<rparr>"

text \<open>What the world gives to one exchange.\<close>

record ExchangeInput =
  xi_jwt :: "string managed"
  xi_upstream :: "string \<Rightarrow> int \<Rightarrow> int list \<Rightarrow> wire \<Rightarrow> InstallationToken managed"
  xi_seal :: "string \<Rightarrow> string managed"
  xi_cache_time :: instant
  xi_token_time :: instant
  xi_lease_time :: instant
  xi_lease_id :: string
  xi_audit_time :: instant
  xi_audit_error :: "ManagerError option"
  xi_request_id :: string

definition issue_lease ::
  "(string \<Rightarrow> string) \<Rightarrow> ExchangeInput \<Rightarrow> RuntimeScope \<Rightarrow> PermissionProfile \<Rightarrow> RuntimePurpose \<Rightarrow> InstallationToken \<Rightarrow> string option \<Rightarrow> TenantDb \<Rightarrow>
   string managed \<times> TenantDb" where
  "issue_lease sha x s profile purpose token existing t =
     (case validate_token (xi_token_time x) token profile (rs_repository_id s) of
        Inl e \<Rightarrow> (Inl e, t)
      | Inr _ \<Rightarrow>
         (case record_lease sha (xi_seal x) (xi_lease_time x) (xi_lease_id x) s profile purpose token existing t of
            (Inl e, t') \<Rightarrow> (Inl e, t')
          | (Inr lease, t') \<Rightarrow>
             (case xi_audit_error x of
                Some e \<Rightarrow> (Inl e, t')
              | None \<Rightarrow> (Inr lease, audit_issued (xi_audit_time x) s (xi_request_id x) t'))))"

text \<open>
  The result, the cache, the database and the token that is revoked at GitHub. The scope was read
  before; \<open>t\<close> is the database when the lease is recorded.
\<close>

definition exchange ::
  "(string \<Rightarrow> string) \<Rightarrow> (BrokerKey \<Rightarrow> nat) \<Rightarrow> ExchangeInput \<Rightarrow> int \<Rightarrow> ExchangeCache \<Rightarrow> TenantDb \<Rightarrow> RuntimeScope \<Rightarrow> RuntimePurpose \<Rightarrow>
   BrokerCredential managed \<times> ExchangeCache \<times> TenantDb \<times> string option" where
  "exchange sha hash x app cache t s purpose =
     (case and_then (validate_resource_state s) (\<lambda>_. resolve_profile sha (rs_workspace_role s) purpose) of
        Inl e \<Rightarrow> (Inl e, cache, t, None)
      | Inr profile \<Rightarrow>
         (let key = broker_key app s profile; shard = shard_for hash key; cached = cached_token (xi_cache_time x) key (cache shard) in
          case xi_jwt x of
            Inl e \<Rightarrow> (Inl e, cache, t, None)
          | Inr jwt \<Rightarrow>
             (case (case cached of
                      Some (token, lease) \<Rightarrow> Inr (token, Some lease)
                    | None \<Rightarrow> and_then (xi_upstream x jwt (rs_installation_id s) [rs_repository_id s] (to_wire (pp_permissions profile)))
                        (\<lambda>token. Inr (token, None))) of
                Inl e \<Rightarrow> (Inl e, cache, t, None)
              | Inr (token, existing) \<Rightarrow>
                 (case issue_lease sha x s profile purpose token existing t of
                    (Inl e, t') \<Rightarrow> (Inl e, cache(shard := None), t', if existing = None then Some (it_token token) else None)
                  | (Inr lease, t') \<Rightarrow>
                      (Inr \<lparr>bc_token = it_token token, bc_expires_at = it_expires_at token, bc_repository_id = rs_repository_id s,
                         bc_username = INSTALLATION_TOKEN_USERNAME, bc_permissions = it_permissions token\<rparr>,
                       cache(shard := Some (key, token, lease)), t', None)))))"

section \<open>What an exchange needs and gives\<close>

lemma validate_token_Inr:
  assumes "validate_token now token profile repository = Inr u"
  shows "set (it_repository_ids token) = {repository}" and "grants_match (it_permissions token) (to_wire (pp_permissions profile))"
    and "now + MIN_TOKEN_VALIDITY \<le> it_expires_at token"
proof -
  have ids: "length (remdups (it_repository_ids token)) = 1" "repository \<in> set (it_repository_ids token)"
    using assms by (auto simp: validate_token_def split: if_splits)
  then have "card (set (it_repository_ids token)) = 1" by (metis length_remdups_card_conv)
  then show "set (it_repository_ids token) = {repository}" using ids(2) by (metis card_1_singletonE singletonD)
qed (use assms in \<open>auto simp: validate_token_def MIN_TOKEN_VALIDITY_def split: if_splits\<close>)

lemma record_lease_Inr:
  assumes "record_lease sha seal clk i s profile purpose token existing t = (Inr lease, t')"
  shows "still_authorized clk t s" and "lease = (case existing of None \<Rightarrow> i | Some e \<Rightarrow> e)"
    and "(case existing of
       Some e \<Rightarrow> t' = t \<and> valid_lease clk t s e (sha (it_token token))
     | None \<Rightarrow> \<exists>l. t' = t\<lparr>tb_credential_leases := tb_credential_leases t @ [l]\<rparr> \<and> sc_id l = i \<and> sc_owner l = rs_tenant_id s \<and>
         sc_revoked_at l = None \<and> cl_organization_id l = rs_organization_id s \<and> cl_connection_id l = rs_connection_id s \<and>
         cl_workspace_id l = rs_workspace_id s \<and> cl_repository_id l = rs_repository_id s \<and>
         cl_connection_generation l = rs_connection_generation s \<and> cl_workspace_generation l = rs_workspace_generation s \<and>
         cl_token_fingerprint l = sha (it_token token) \<and> cl_expires_at l = it_expires_at token)"
  using assms
  by (auto simp: record_lease_def record_authorized_lease_def transact_def insert_lease_in_tx_def split: sum.splits if_splits option.splits)

lemma record_lease_Inl:
  assumes "record_lease sha seal clk i s profile purpose token existing t = (Inl e, t')"
  shows "t' = t"
  using assms
  by (auto simp: record_lease_def record_authorized_lease_def transact_def insert_lease_in_tx_def split: sum.splits if_splits option.splits)

lemma exchange_Inr:
  assumes "exchange sha hash x app cache t s purpose = (Inr c, cache', t', revoked)"
  obtains profile token existing lease t1 where "resolve_profile sha (rs_workspace_role s) purpose = Inr profile"
    and "validate_token (xi_token_time x) token profile (rs_repository_id s) = Inr ()"
    and "record_lease sha (xi_seal x) (xi_lease_time x) (xi_lease_id x) s profile purpose token existing t = (Inr lease, t1)"
    and "t' = audit_issued (xi_audit_time x) s (xi_request_id x) t1"
    and "cache' = cache(shard_for hash (broker_key app s profile) := Some (broker_key app s profile, token, lease))"
    and "c = \<lparr>bc_token = it_token token, bc_expires_at = it_expires_at token, bc_repository_id = rs_repository_id s,
       bc_username = INSTALLATION_TOKEN_USERNAME, bc_permissions = it_permissions token\<rparr>" and "revoked = None"
proof -
  obtain profile where profile: "resolve_profile sha (rs_workspace_role s) purpose = Inr profile"
      "and_then (validate_resource_state s) (\<lambda>_. resolve_profile sha (rs_workspace_role s) purpose) = Inr profile"
    using assms by (auto simp: exchange_def and_then_Inr split: sum.splits)
  let ?key = "broker_key app s profile"
  obtain token existing lease where
    issued: "issue_lease sha x s profile purpose token existing t = (Inr lease, t')" and
    rest: "cache' = cache(shard_for hash ?key := Some (?key, token, lease))" "c = \<lparr>bc_token = it_token token,
       bc_expires_at = it_expires_at token, bc_repository_id = rs_repository_id s, bc_username = INSTALLATION_TOKEN_USERNAME,
       bc_permissions = it_permissions token\<rparr>" "revoked = None"
    using assms unfolding exchange_def profile(2) Let_def by (fastforce split: sum.split_asm prod.split_asm)
  obtain t1 where "validate_token (xi_token_time x) token profile (rs_repository_id s) = Inr ()"
      "record_lease sha (xi_seal x) (xi_lease_time x) (xi_lease_id x) s profile purpose token existing t = (Inr lease, t1)"
      "t' = audit_issued (xi_audit_time x) s (xi_request_id x) t1"
    using issued by (auto simp: issue_lease_def split: sum.splits prod.splits option.splits)
  then show ?thesis using that profile(1) rest by blast
qed

text \<open>An exchange that does not authorize leaves the database as it was.\<close>

lemma unauthorized_exchange:
  assumes "\<not> still_authorized (xi_lease_time x) t s"
  shows "\<exists>e cache' revoked. exchange sha hash x app cache t s purpose = (Inl e, cache', t, revoked)"
proof -
  have "\<exists>e. record_lease sha (xi_seal x) (xi_lease_time x) (xi_lease_id x) s profile purpose token existing t = (Inl e, t)"
    for profile token existing
    using assms by (auto simp: record_lease_def record_authorized_lease_def transact_def split: sum.splits)
  then obtain err where "record_lease sha (xi_seal x) (xi_lease_time x) (xi_lease_id x) s profile purpose token existing t =
      (Inl (err profile token existing), t)" for profile token existing by metis
  then have "\<exists>e. issue_lease sha x s profile purpose token existing t = (Inl e, t)" for profile token existing
    by (cases "validate_token (xi_token_time x) token profile (rs_repository_id s)") (simp_all add: issue_lease_def)
  then obtain err where err: "issue_lease sha x s profile purpose token existing t = (Inl (err profile token existing), t)"
    for profile token existing by metis
  show ?thesis by (auto simp: exchange_def Let_def err split: sum.splits prod.splits)
qed

lemma minted_token_revoked:
  assumes "exchange sha hash x app cache t s purpose = (Inl e, cache', t', None)"
    and "cached_token (xi_cache_time x) (broker_key app s profile) (cache (shard_for hash (broker_key app s profile))) = None"
    and "resolve_profile sha (rs_workspace_role s) purpose = Inr profile" and "validate_resource_state s = Inr ()"
    and "xi_jwt x = Inr jwt"
  shows "\<exists>e. xi_upstream x jwt (rs_installation_id s) [rs_repository_id s] (to_wire (pp_permissions profile)) = Inl e"
  using assms
  by (cases "xi_upstream x jwt (rs_installation_id s) [rs_repository_id s] (to_wire (pp_permissions profile))")
    (auto simp: exchange_def Let_def split: sum.splits prod.splits)

end
