(* ===== verification/Runtime_Guarantees.thy ===== *)
theory Runtime_Guarantees
  imports Runtime_Sessions Tenant_Guarantees
begin

text \<open>
  The guarantees of runtime sessions over every run of the session service and the tenant system,
  and a run in which a workspace registers and refreshes its session.
\<close>

section \<open>Spent bootstrap secrets\<close>

definition spent :: "string \<Rightarrow> TenantDb \<Rightarrow> bool" where
  "spent h t \<longleftrightarrow> (\<forall>b \<in> set (tb_bootstraps t). bs_hash b = h \<longrightarrow> \<not> live_bootstrap b)"

lemma spent_run:
  assumes "reach (\<lambda>x. x = st) (runtime_step hash_token taken) later" and "h \<in> taken" and "spent h (snd st)"
  shows "spent h (snd later)"
  using assms(1)
proof (induction rule: reach.induct)
  case (reach_step x e y)
  have "bootstraps_evolve taken (tb_bootstraps (snd x)) (tb_bootstraps (snd y))"
    using runtime_step_cases [OF reach_step.hyps(2)] by (simp add: sessions_evolve_def)
  then show ?case using reach_step.IH assms(2) unfolding spent_def bootstraps_evolve_def by metis
qed (use assms(3) in simp)

lemma registration_spends:
  assumes "register hash_token fresh now clk t raw = (Inr s, t')"
  shows "spent (hash_token raw) t'"
  using assms
proof (cases rule: register_cases)
  case (registered b w t2)
  have "tb_bootstraps t' = consumed clk (hash_token raw) (tb_bootstraps t)"
    using insert_session_frame [OF registered(3)] by (simp add: registered(4))
  moreover have "bs_consumed_at b' \<noteq> None" if listed: "b' \<in> set (consumed clk (hash_token raw) (tb_bootstraps t))"
      "bs_hash b' = hash_token raw" for b'
  proof -
    obtain b where "b' = (if bs_hash b = hash_token raw \<and> bs_consumed_at b = None then b\<lparr>bs_consumed_at := Some clk\<rparr> else b)"
      using listed(1) unfolding consumed_def set_update_where by blast
    then show ?thesis using listed(2) by (auto split: if_splits)
  qed
  ultimately show ?thesis by (simp add: spent_def live_bootstrap_def)
qed simp

lemma spent_not_redeemed:
  assumes "spent (hash_token raw) t"
  shows "\<exists>e. register hash_token fresh now clk t raw = (Inl (api ''AUTH_FAILED'' e), t)"
proof -
  have "List.find (redeemable clk (hash_token raw) t) (tb_bootstraps t) = None"
    using assms by (auto simp: find_None_iff redeemable_def spent_def)
  then show ?thesis
    by (auto simp: register_def transact_def validate_presented_secret_def consume_bootstrap_and_insert_session_def)
qed

section \<open>A run\<close>

definition demo_hash :: "string \<Rightarrow> string" where
  "demo_hash s = CHR ''h'' # s"

definition demo_fresh :: "string \<Rightarrow> FreshSession" where
  "demo_fresh s = \<lparr>fs_access = CHR ''a'' # s, fs_access_id = CHR ''i'' # s, fs_refresh = CHR ''r'' # s, fs_refresh_id = CHR ''j'' # s,
     fs_family = ''f''\<rparr>"

definition demo_worker :: WorkspaceRow where
  "demo_worker = \<lparr>wk_id = ''w1'', wk_organization_id = ''o1'', wk_tenant_id = ''a'', wk_role = ''forge'', wk_slot = Some 1,
     wk_ticket_id = None, wk_branch = None, wk_a2a_pair_token = None, wk_desired_state = ''provisioning'',
     wk_observed_state = ''provisioning'', wk_registered_at = None, wk_last_heartbeat_at = None, wk_credential_generation = 0\<rparr>"

definition demo_worked :: TenantDb where
  "demo_worked = demo_fleet [(demo_tenant ''a'' 1 ''provisioning'')\<lparr>tn_reserved_worker_capacity := 1\<rparr>] [demo_worker] [demo_quota]"

definition demo_invited :: TenantDb where
  "demo_invited = snd (issue_bootstrap demo_hash (\<lambda>n s. Inr n) ''b'' ''s'' 50 50 demo_worked demo_worked ''w1'')"

definition demo_registered :: TenantDb where
  "demo_registered = snd (register demo_hash (demo_fresh ''x'') 60 60 demo_invited ''s'')"

definition demo_refreshed :: TenantDb where
  "demo_refreshed = snd (refresh_session demo_hash (demo_fresh ''y'') 70 70 demo_registered demo_registered ''rx'')"

lemma runtime_continue:
  assumes "reach runtime_start (runtime_step hash_token {}) ([], t)" and "fleet_step ([], t) FleetCall (keys, u)"
    and "same_fleet (queue u) (queue t')" and "tb_runtime_credentials t' = tb_runtime_credentials u"
    and "tb_bootstraps t' = tb_bootstraps u"
  shows "reach runtime_start (runtime_step hash_token {}) ([], t')"
proof -
  have "reach runtime_start (runtime_step hash_token {}) (keys, u)"
    using reach_step [OF assms(1) r_fleet [OF assms(2)]] by simp
  moreover have "runtime_step hash_token {} (keys, u) None ([], t')"
    by (rule r_environment) (use assms(3-5) in \<open>simp_all add: same_fleet_def\<close>)
  ultimately show ?thesis by (rule reach_step)
qed

lemma demo_created:
  "reach runtime_start (runtime_step demo_hash {}) ([], demo_fleet [demo_tenant ''a'' 1 ''provisioning''] [] [demo_quota])"
proof (rule runtime_continue)
  show "reach runtime_start (runtime_step demo_hash {}) ([], demo_fleet [] [] [])"
    by (rule reach_init) (simp add: runtime_start_def fleet_start_def demo_fleet_def)
  let ?c = "create_tenant Some demo_limits ''k1'' ''a'' ''p1'' 10 10 (demo_fleet [] [] []) ([], demo_fleet [] [] [])
     ''u'' ''o1'' 1 ''a'' 1 ''key'' ''h'' ''r''"
  show "fleet_step ([], demo_fleet [] [] []) FleetCall (fst (snd ?c), snd (snd ?c))"
    by (rule f_create [where r = "fst ?c"]) simp
  show "same_fleet (queue (snd (snd ?c))) (queue (demo_fleet [demo_tenant ''a'' 1 ''provisioning''] [] [demo_quota]))"
    by (rule demo_create_a)
  show "tb_runtime_credentials (demo_fleet [demo_tenant ''a'' 1 ''provisioning''] [] [demo_quota]) = tb_runtime_credentials (snd (snd ?c))"
    "tb_bootstraps (demo_fleet [demo_tenant ''a'' 1 ''provisioning''] [] [demo_quota]) = tb_bootstraps (snd (snd ?c))"
    by (simp_all add: create_tenant_def validate_tenant_slug_def slug_edge_def is_ascii_lowercase_def demo_tenant_simps
      create_tenant_mutation_def repository_connection_def ensure_org_row_in_tx_def check_and_reserve_tenant_in_tx_def
      quota_row_def demo_limits_def active_tenants_def create_with_id_in_tx_def update_where_def)
qed

lemma demo_hired_fleet: "same_fleet demo_hired (queue demo_worked)"
  by (simp add: same_fleet_def demo_worked_def demo_worker_def demo_hired_def request_worker_def demo_scope_def WORKER_ROLES_def hire_worker_def
      reserve_worker_capacity_in_tx_def demo_fleet_def demo_stop_operation_def quota_row_def demo_quota_def scoped_tenant_def
      demo_tenant_def live_workers_def worker_row_def insert_workspace_def update_where_def describe_worker_def op_create_def Let_def)

lemma demo_worked_run: "reach runtime_start (runtime_step demo_hash {}) ([], demo_worked)"
proof (rule runtime_continue [OF demo_created])
  let ?t = "demo_fleet [demo_tenant ''a'' 1 ''provisioning''] [] [demo_quota]"
  show "fleet_step ([], ?t) FleetCall ([], set_queue demo_hired ?t)"
    unfolding demo_hired_def by (rule f_request [OF prod.collapse [symmetric]])
  show "same_fleet (queue (set_queue demo_hired ?t)) (queue demo_worked)" using demo_hired_fleet by simp
qed (simp_all add: demo_worked_def demo_fleet_def)

lemmas demo_session_simps = find_workspace_def workspace_generation_def transact_def demo_hash_def demo_fresh_def demo_worker_def
  demo_worked_def demo_fleet_def demo_tenant_def validate_presented_secret_def insert_session_def insert_credential_def update_where_def
  set_workspace_def set_worker_def

lemma demo_invited_bootstraps:
  "demo_invited = demo_worked\<lparr>tb_bootstraps := [\<lparr>sc_id = ''b'', sc_owner = ''w1'', sc_revoked_at = None, bs_hash = ''hs'',
     bs_secret_ref = ''workspace-bootstrap-w1-b'', bs_expires_at = 50 + BOOTSTRAP_TTL, bs_consumed_at = None\<rparr>]\<rparr>"
  by (simp add: demo_invited_def issue_bootstrap_def insert_bootstrap_def demo_session_simps)

lemma demo_registration:
  "register demo_hash (demo_fresh ''x'') 60 60 demo_invited ''s'' =
     (Inr \<lparr>si_workspace_id = ''w1'', si_access_secret = ''ax'', si_access_expires_at = 60 + ACCESS_TTL, si_refresh_secret = ''rx'',
        si_refresh_expires_at = 60 + REFRESH_FAMILY_TTL, si_generation = 0\<rparr>, demo_registered)"
  by (simp add: demo_registered_def demo_invited_bootstraps register_def consume_bootstrap_and_insert_session_def redeemable_def
      live_bootstrap_def joinable_def BOOTSTRAP_TTL_def demo_session_simps)

lemma demo_registered_credentials:
  "tb_runtime_credentials demo_registered =
     [\<lparr>sc_id = ''ix'', sc_owner = ''w1'', sc_revoked_at = None, rc_hash = ''hax'', rc_audience = WORKSPACE_AUDIENCE,
        rc_expires_at = 60 + ACCESS_TTL, rc_generation = 0, rc_family_id = ''f'', rc_family_expires_at = 60 + REFRESH_FAMILY_TTL\<rparr>,
      \<lparr>sc_id = ''jx'', sc_owner = ''w1'', sc_revoked_at = None, rc_hash = ''hrx'', rc_audience = WORKSPACE_REFRESH_AUDIENCE,
        rc_expires_at = 60 + REFRESH_FAMILY_TTL, rc_generation = 0, rc_family_id = ''f'', rc_family_expires_at = 60 + REFRESH_FAMILY_TTL\<rparr>]"
  by (simp add: demo_registered_def demo_invited_bootstraps register_def consume_bootstrap_and_insert_session_def redeemable_def
      live_bootstrap_def joinable_def BOOTSTRAP_TTL_def demo_session_simps)

lemma demo_registered_state:
  "tb_orgs demo_registered = (tb_orgs demo_worked)\<lparr>od_queue := (od_queue (tb_orgs demo_worked))
     \<lparr>db_workspaces := [demo_worker\<lparr>wk_registered_at := Some 60\<rparr>]\<rparr>\<rparr>"
  "tb_connections demo_registered = tb_connections demo_worked" "tb_repositories demo_registered = tb_repositories demo_worked"
  by (simp_all add: demo_registered_def demo_invited_bootstraps register_def consume_bootstrap_and_insert_session_def redeemable_def
      live_bootstrap_def joinable_def BOOTSTRAP_TTL_def demo_session_simps set_queue_def set_workspaces_def)

lemma demo_refresh_authenticated:
  "\<exists>s. authenticate_refresh demo_hash 70 demo_registered ''rx'' = Inr s \<and> rs_workspace_id s = ''w1'' \<and>
     rs_credential_family_expires_at s = 60 + REFRESH_FAMILY_TTL"
  by (simp add: authenticate_refresh_def authenticate_for_audience_def resolve_runtime_scope_def scope_of_workspace_def
      demo_registered_state demo_registered_credentials REFRESH_FAMILY_TTL_def find_org_def
      WORKSPACE_AUDIENCE_def WORKSPACE_REFRESH_AUDIENCE_def demo_session_simps)

lemma demo_refresh: "\<exists>s. refresh_session demo_hash (demo_fresh ''y'') 70 70 demo_registered demo_registered ''rx'' = (Inr s, demo_refreshed)"
  using demo_refresh_authenticated
  by (auto simp: demo_refreshed_def refresh_session_def rotate_credential_pair_def presents_refresh_def revoke_workspace_credentials_def
      revoke_leases_for_workspace_def revoke_secrets_def Let_def
      demo_registered_state demo_registered_credentials REFRESH_FAMILY_TTL_def
      WORKSPACE_AUDIENCE_def WORKSPACE_REFRESH_AUDIENCE_def demo_session_simps)

lemma demo_refresh_issue:
  "\<exists>s. refresh_session demo_hash (demo_fresh ''y'') 70 70 demo_registered demo_registered ''rx'' = (Inr s, demo_refreshed) \<and>
     si_workspace_id s = ''w1''"
  using demo_refresh demo_refresh_authenticated
  by (auto simp: refresh_session_def transact_def and_then_Inr Let_def split: sum.splits if_splits prod.splits)

lemma demo_registered_run: "reach runtime_start (runtime_step demo_hash {}) ([], demo_registered)"
proof -
  have "runtime_step demo_hash {} ([], demo_worked) None ([], demo_invited)"
    unfolding demo_invited_def by (rule r_bootstrap [OF prod.collapse [symmetric]]) simp
  moreover have "runtime_step demo_hash {} ([], demo_invited) None ([], demo_registered)"
    by (rule r_register [OF demo_registration]) simp_all
  ultimately show ?thesis using reach_step [OF reach_step [OF demo_worked_run]] by blast
qed

lemma demo_refresh_step: "runtime_step demo_hash {} ([], demo_registered) None ([], demo_refreshed)"
  using demo_refresh r_refresh [of demo_hash "demo_fresh ''y''" 70 70 demo_registered demo_registered "''rx''"] by auto

section \<open>Guarantees\<close>

text \<open>
  C25 (safety). A session that was ended stays ended. When a step of the system ends the sessions of a
  workspace (a rotation, a refresh, a bump of its generation, a revocation, the deletion or stop of the
  worker or of its tenant), then in every later state, whatever calls run in between, none of the secrets
  issued to that workspace before authenticates for any audience: the answer is \<open>AUTH_FAILED\<close>. This holds
  as long as no secret generated afterwards has the same hash.
\<close>

theorem ended_session_stays_ended:
  assumes "reach runtime_start (runtime_step hash_token {}) (keys, t)" and "c \<in> set (tb_runtime_credentials t)"
    and "runtime_step hash_token {} (keys, t) e (keys', t')" and "ends_sessions hash_token (sc_owner c) t t'"
    and "reach (\<lambda>x. x = (keys', t')) (runtime_step hash_token {rc_hash c}) later" and "hash_token raw = rc_hash c"
  shows "\<exists>m. authenticate_for_audience hash_token now (snd later) raw audience = Inl (api ''AUTH_FAILED'' m)"
proof -
  have ok: "runtime_ok (keys, t)" by (rule runtimesys.reach_inv [OF assms(1)])
  have "ended rc_hash (hash_token raw) t'" using ends_sessions_ended [OF assms(4) ok assms(2), of rc_hash] assms(6) by (simp add: credential_key_def)
  then have "runtime_ok later \<and> ended rc_hash (hash_token raw) (snd later)"
    using ended_run [OF assms(5) runtime_ok_step [OF assms(3) ok], of rc_hash "rc_hash c"] assms(6) by (simp add: credential_key_def)
  then show ?thesis using ended_refused [of hash_token raw "snd later" "fst later"] by simp
qed

theorem ended_session_stays_ended_witness:
  "\<exists>m. authenticate_for_audience demo_hash 80 demo_refreshed ''ax'' WORKSPACE_AUDIENCE = Inl (api ''AUTH_FAILED'' m)"
proof -
  obtain c where c: "c \<in> set (tb_runtime_credentials demo_registered)" "rc_hash c = ''hax''" "sc_owner c = ''w1''"
    using that [of "hd (tb_runtime_credentials demo_registered)"] by (simp add: demo_registered_credentials)
  obtain s where s: "refresh_session demo_hash (demo_fresh ''y'') 70 70 demo_registered demo_registered ''rx'' = (Inr s, demo_refreshed)"
      "si_workspace_id s = ''w1''"
    using demo_refresh_issue by blast
  then have "ends_sessions demo_hash (sc_owner c) demo_registered demo_refreshed" using refreshed [OF s(1)] c(3) by simp
  moreover have "reach (\<lambda>x. x = ([], demo_refreshed)) (runtime_step demo_hash {rc_hash c}) ([], demo_refreshed)"
    by (rule reach_init) simp
  ultimately show ?thesis
    using ended_session_stays_ended [OF demo_registered_run c(1) demo_refresh_step, of "([], demo_refreshed)" "''ax''" 80 WORKSPACE_AUDIENCE]
    by (simp add: c(2) demo_hash_def)
qed

text \<open>
  A refresh credential works once: after a refresh with it succeeded, every later refresh with the
  same secret fails and changes nothing, also one that authenticated in a state read before the first was
  committed.
\<close>

theorem refresh_works_once:
  assumes "reach runtime_start (runtime_step hash_token {}) (keys, t)"
    and "refresh_session hash_token fresh now clk before t raw = (Inr s, t')"
    and "reach (\<lambda>x. x = (keys, t')) (runtime_step hash_token {hash_token raw}) later"
  shows "\<exists>e. refresh_session hash_token fresh' now' clk' before' (snd later) raw = (Inl e, snd later)"
proof -
  have ok: "runtime_ok (keys, t)" by (rule runtimesys.reach_inv [OF assms(1)])
  have step: "runtime_step hash_token {} (keys, t) None (keys, t')" by (rule r_refresh [OF assms(2)]) simp_all
  obtain v where v: "find_workspace t (si_workspace_id s) = Some v" "presents_refresh clk t v (hash_token raw)"
    using assms(2) by (elim refresh_Inr rotate_pair_Inr) simp
  then obtain c where c: "c \<in> set (tb_runtime_credentials t)" "sc_owner c = si_workspace_id s" "rc_hash c = hash_token raw"
    using find_SomeD [OF v(1) [unfolded find_workspace_def]] by (auto simp: presents_refresh_def list_ex_iff)
  have "ended rc_hash (hash_token raw) t'"
    using ends_sessions_ended [OF refreshed [OF assms(2)] ok c(1), where f = rc_hash] c(2,3) by (simp add: credential_key_def)
  then have later: "runtime_ok later" "ended rc_hash (hash_token raw) (snd later)"
    using ended_run [OF assms(3) runtime_ok_step [OF step ok], of rc_hash "hash_token raw"] by (simp_all add: credential_key_def)
  have "\<not> presents_refresh clk' (snd later) u (hash_token raw)" if "find_workspace (snd later) w = Some u" for w u
    using ended_not_presented [of "hash_token raw" "snd later" "fst later" w u] later that by simp
  then have failed: "rotate_credential_pair clk' ai w (Some (hash_token raw)) ah ae ri rh family fe (snd later) \<noteq> Inr x"
    for ai w ah ae ri rh family fe x
    by (cases "find_workspace (snd later) w") (simp_all add: rotate_credential_pair_def)
  then show ?thesis
    by (cases "authenticate_refresh hash_token now' before' raw") (auto simp: refresh_session_def transact_def Let_def and_then_Inr failed split: sum.splits)
qed

theorem refresh_works_once_witness:
  "\<exists>e. refresh_session demo_hash (demo_fresh ''z'') 80 80 demo_registered demo_refreshed ''rx'' = (Inl e, demo_refreshed)"
proof -
  obtain s where s: "refresh_session demo_hash (demo_fresh ''y'') 70 70 demo_registered demo_registered ''rx'' = (Inr s, demo_refreshed)"
    using demo_refresh by blast
  have "reach (\<lambda>x. x = ([], demo_refreshed)) (runtime_step demo_hash {demo_hash ''rx''}) ([], demo_refreshed)"
    by (rule reach_init) simp
  from refresh_works_once [OF demo_registered_run s this] show ?thesis by simp
qed

text \<open>
  A bootstrap secret registers one session: after a registration with it, every later
  registration with the same secret is refused with \<open>AUTH_FAILED\<close> and changes nothing.
\<close>

theorem bootstrap_registers_once:
  assumes "register hash_token fresh now clk t raw = (Inr s, t')"
    and "reach (\<lambda>x. x = (keys, t')) (runtime_step hash_token {hash_token raw}) later"
  shows "\<exists>m. register hash_token fresh' now' clk' (snd later) raw = (Inl (api ''AUTH_FAILED'' m), snd later)"
  using spent_run [OF assms(2), of "hash_token raw"] registration_spends [OF assms(1)] spent_not_redeemed by simp

theorem bootstrap_registers_once_witness:
  "\<exists>m. register demo_hash (demo_fresh ''z'') 80 80 demo_refreshed ''s'' = (Inl (api ''AUTH_FAILED'' m), demo_refreshed)"
proof -
  have "\<exists>s. refresh_session demo_hash (demo_fresh ''y'') 70 70 demo_registered demo_registered ''rx'' = (Inr s, demo_refreshed)"
    by (rule demo_refresh)
  then have "runtime_step demo_hash {demo_hash ''s''} ([], demo_registered) None ([], demo_refreshed)"
    by (elim exE) (rule r_refresh, assumption, simp_all add: demo_hash_def demo_fresh_def)
  then have "reach (\<lambda>x. x = ([], demo_registered)) (runtime_step demo_hash {demo_hash ''s''}) ([], demo_refreshed)"
    by (intro reach_step [OF reach_init, where s = "([], demo_registered)"]) simp_all
  from bootstrap_registers_once [OF demo_registration this] show ?thesis by simp
qed

end
