(* ===== verification/Broker_Guarantees.thy ===== *)
theory Broker_Guarantees
  imports Runtime_Broker Runtime_Guarantees
begin

text \<open>
  The guarantees of the credential broker: what a token that it hands out can do, and that an ended
  session gets none, also when it ends while GitHub is being asked.
\<close>

lemma authenticated_credential:
  assumes "authenticate_for_audience hash_token now t raw audience = Inr s"
  obtains c where "c \<in> set (tb_runtime_credentials t)" and "rc_hash c = hash_token raw" and "sc_id c = rs_credential_id s"
    and "sc_owner c = rs_workspace_id s"
proof -
  have "resolve_runtime_scope t (hash_token raw) = Some s"
    using assms by (auto simp: authenticate_for_audience_def and_then_Inr split: option.splits if_splits)
  then obtain c w where c: "List.find (\<lambda>c. rc_hash c = hash_token raw) (tb_runtime_credentials t) = Some c"
      and w: "find_workspace t (sc_owner c) = Some w" "scope_of_workspace t c w = Some s"
    by (auto simp: resolve_runtime_scope_def bind_eq_Some_conv split: option.splits)
  have "sc_id c = rs_credential_id s" using w(2) by (auto simp: scope_of_workspace_def split: option.splits)
  then show ?thesis
    using that [of c] find_SomeD [OF c] find_SomeD [OF w(1) [unfolded find_workspace_def]] scope_fields [OF w(2)] by simp
qed

lemma still_authorized_credential:
  assumes "still_authorized clk t s"
  obtains c w where "c \<in> set (tb_runtime_credentials t)" and "sc_id c = rs_credential_id s" and "sc_revoked_at c = None"
    and "w \<in> set (db_workspaces (queue t))" and "wk_id w = sc_owner c" and "rc_generation c = wk_credential_generation w"
  using assms by (auto simp: still_authorized_def list_ex_iff)

lemma ended_not_authorized:
  assumes "ended sc_id (rs_credential_id s) t" and "runtime_ok (keys, t)"
  shows "\<not> still_authorized clk t s"
proof
  assume "still_authorized clk t s"
  then show False
  proof (rule still_authorized_credential)
    fix c w
    assume "c \<in> set (tb_runtime_credentials t)" "sc_id c = rs_credential_id s" "sc_revoked_at c = None"
      "w \<in> set (db_workspaces (queue t))" "wk_id w = sc_owner c" "rc_generation c = wk_credential_generation w"
    then show False using over_not_current [of t c keys w] assms by (simp add: ended_def)
  qed
qed

text \<open>
  C26 (safety). A GitHub token that the broker hands to a workspace, from the cache or newly minted, covers exactly
  the repository of its tenant; its permissions are those of the profile of the workspace's role and the purpose, with
  reading metadata as the only possible surplus, so it can write only what \<open>may_write\<close> lists; it is valid
  for at least 30 more minutes; the credential, workspace, tenant, organization, connection and repository still
  authorized it when the lease was recorded, and an unrevoked lease of that workspace and connection with the token's
  fingerprint is in the database.
\<close>

theorem issued_token_is_scoped:
  assumes "exchange sha hash x app cache t s purpose = (Inr c, cache', t', revoked)"
  shows "\<exists>token profile lease. cache' (shard_for hash (broker_key app s profile)) = Some (broker_key app s profile, token, lease) \<and>
    it_token token = bc_token c \<and> set (it_repository_ids token) = {rs_repository_id s} \<and>
    profile_permissions (rs_workspace_role s) purpose = Some (pp_permissions profile) \<and>
    (\<forall>k v. map_of (bc_permissions c) k = Some v \<longleftrightarrow>
       map_of (to_wire (pp_permissions profile)) k = Some v \<or>
       (k, v) = (''metadata'', ''read'') \<and> map_of (bc_permissions c) k = Some v) \<and>
    (\<forall>k. map_of (bc_permissions c) k = Some ''write'' \<longrightarrow> k \<in> set (may_write (rs_workspace_role s) purpose)) \<and>
    xi_token_time x + MIN_TOKEN_VALIDITY \<le> bc_expires_at c \<and> still_authorized (xi_lease_time x) t s \<and>
    (\<exists>l \<in> set (tb_credential_leases t'). sc_id l = lease \<and> sc_revoked_at l = None \<and> cl_workspace_id l = rs_workspace_id s \<and>
       cl_connection_id l = rs_connection_id s \<and> cl_token_fingerprint l = sha (bc_token c))"
  using assms
proof (rule exchange_Inr)
  fix profile token existing lease t1
  assume profile: "resolve_profile sha (rs_workspace_role s) purpose = Inr profile"
    and token: "validate_token (xi_token_time x) token profile (rs_repository_id s) = Inr ()"
    and recorded: "record_lease sha (xi_seal x) (xi_lease_time x) (xi_lease_id x) s profile purpose token existing t = (Inr lease, t1)"
    and t': "t' = audit_issued (xi_audit_time x) s (xi_request_id x) t1"
    and cache': "cache' = cache(shard_for hash (broker_key app s profile) := Some (broker_key app s profile, token, lease))"
    and c: "c = \<lparr>bc_token = it_token token, bc_expires_at = it_expires_at token, bc_repository_id = rs_repository_id s,
       bc_username = INSTALLATION_TOKEN_USERNAME, bc_permissions = it_permissions token\<rparr>"
  note valid = validate_token_Inr [OF token]
  have perms: "profile_permissions (rs_workspace_role s) purpose = Some (pp_permissions profile)"
    using profile by (auto simp: resolve_profile_def build_profile_def split: option.splits)
  have grants: "map_of (it_permissions token) k = Some v \<longleftrightarrow> map_of (to_wire (pp_permissions profile)) k = Some v \<or>
      (k, v) = (''metadata'', ''read'') \<and> map_of (it_permissions token) k = Some v" for k v
    using grants_match_exact [OF valid(2), of k v] grants_match_complete [OF valid(2), of k v] by auto
  have writes: "k \<in> set (may_write (rs_workspace_role s) purpose)" if "map_of (it_permissions token) k = Some ''write''" for k
  proof -
    have "map_of (to_wire (pp_permissions profile)) k = Some ''write''" using grants [of k "''write''"] that by auto
    then show ?thesis using profile_writes [OF perms] map_of_SomeD by metis
  qed
  have "\<exists>l \<in> set (tb_credential_leases t'). sc_id l = lease \<and> sc_revoked_at l = None \<and> cl_workspace_id l = rs_workspace_id s \<and>
      cl_connection_id l = rs_connection_id s \<and> cl_token_fingerprint l = sha (it_token token)"
    using record_lease_Inr [OF recorded] by (cases existing) (auto simp: t' audit_issued_def valid_lease_def list_ex_iff)
  then show ?thesis
    using cache' c valid perms grants writes record_lease_Inr(1) [OF recorded]
    by (intro exI [of _ token] exI [of _ profile] exI [of _ lease]) auto
qed

definition demo_token :: InstallationToken where
  "demo_token = \<lparr>it_token = ''ghs'', it_expires_at = seconds 3600, it_repository_ids = [1],
     it_permissions = [(''contents'', ''write''), (''metadata'', ''read''), (''workflows'', ''write'')]\<rparr>"

definition demo_input :: ExchangeInput where
  "demo_input = \<lparr>xi_jwt = Inr ''jwt'', xi_upstream = (\<lambda>_ _ _ _. Inr demo_token), xi_seal = Inr, xi_cache_time = 65,
     xi_token_time = 66, xi_lease_time = 67, xi_lease_id = ''l'', xi_audit_time = 68, xi_audit_error = None, xi_request_id = ''r''\<rparr>"

definition demo_runtime :: RuntimeScope where
  "demo_runtime = demo_scope\<lparr>rs_credential_id := ''ix'', rs_workspace_id := ''w1'', rs_workspace_role := ''forge'',
     rs_workspace_observed_state := ''provisioning'', rs_workspace_desired_state := ''provisioning'',
     rs_workspace_registered_at := Some 60, rs_tenant_desired_state := ''provisioning'', rs_tenant_observed_state := ''provisioning'',
     rs_credential_expires_at := 60 + ACCESS_TTL, rs_credential_family_expires_at := 60 + REFRESH_FAMILY_TTL\<rparr>"

lemma demo_authenticated: "authenticate demo_hash 65 demo_registered ''ax'' = Inr demo_runtime"
  by (simp add: authenticate_def authenticate_for_audience_def resolve_runtime_scope_def scope_of_workspace_def
      demo_registered_state demo_registered_credentials ACCESS_TTL_def REFRESH_FAMILY_TTL_def find_org_def
      WORKSPACE_AUDIENCE_def WORKSPACE_REFRESH_AUDIENCE_def demo_session_simps demo_runtime_def demo_scope_def)

lemma demo_registered_leases [simp]: "tb_credential_leases demo_registered = []"
  by (simp add: demo_registered_def demo_invited_bootstraps register_def consume_bootstrap_and_insert_session_def redeemable_def
      live_bootstrap_def joinable_def BOOTSTRAP_TTL_def demo_session_simps set_queue_def)

lemma demo_exchange:
  "\<exists>t'. exchange demo_hash (\<lambda>_. 0) demo_input 7 (\<lambda>_. None) demo_registered demo_runtime Git =
     (Inr \<lparr>bc_token = ''ghs'', bc_expires_at = seconds 3600, bc_repository_id = 1, bc_username = ''x-access-token'',
        bc_permissions = it_permissions demo_token\<rparr>,
      [0 \<mapsto> (broker_key 7 demo_runtime (build_profile demo_hash ''forge'' Git [(Contents, Write), (Workflows, Write)]), demo_token, ''l'')],
      t', None)"
  by (simp add: exchange_def demo_input_def demo_runtime_def demo_scope_def validate_resource_state_def resolve_profile_def
      profile_permissions_def build_profile_def shard_for_def SINGLE_FLIGHT_SHARDS_def cached_token_def issue_lease_def validate_token_def demo_token_def
      MIN_TOKEN_VALIDITY_def INSTALLATION_TOKEN_USERNAME_def grants_match_def same_map_def to_wire_def record_lease_def
      record_authorized_lease_def insert_lease_in_tx_def still_authorized_def demo_registered_state demo_registered_credentials
      WORKSPACE_AUDIENCE_def WORKSPACE_REFRESH_AUDIENCE_def ACCESS_TTL_def demo_session_simps)

theorem issued_token_is_scoped_witness:
  "\<exists>(token :: InstallationToken) l t'. set (it_repository_ids token) = {1} \<and> it_token token = ''ghs'' \<and>
     exchange demo_hash (\<lambda>_. 0) demo_input 7 (\<lambda>_. None) demo_registered demo_runtime Git =
       (Inr \<lparr>bc_token = ''ghs'', bc_expires_at = seconds 3600, bc_repository_id = 1, bc_username = ''x-access-token'',
         bc_permissions = it_permissions demo_token\<rparr>,
        [0 \<mapsto> (broker_key 7 demo_runtime (build_profile demo_hash ''forge'' Git [(Contents, Write), (Workflows, Write)]), demo_token, ''l'')],
        t', None) \<and> l \<in> set (tb_credential_leases t') \<and> cl_workspace_id l = ''w1''"
proof -
  obtain t' where x: "exchange demo_hash (\<lambda>_. 0) demo_input 7 (\<lambda>_. None) demo_registered demo_runtime Git =
       (Inr \<lparr>bc_token = ''ghs'', bc_expires_at = seconds 3600, bc_repository_id = 1, bc_username = ''x-access-token'',
         bc_permissions = it_permissions demo_token\<rparr>,
        [0 \<mapsto> (broker_key 7 demo_runtime (build_profile demo_hash ''forge'' Git [(Contents, Write), (Workflows, Write)]), demo_token, ''l'')],
        t', None)"
    using demo_exchange by blast
  obtain token :: InstallationToken and l where "it_token token = bc_token \<lparr>bc_token = ''ghs'', bc_expires_at = seconds 3600, bc_repository_id = 1,
        bc_username = ''x-access-token'', bc_permissions = it_permissions demo_token\<rparr>"
      "set (it_repository_ids token) = {rs_repository_id demo_runtime}" "l \<in> set (tb_credential_leases t')"
      "cl_workspace_id l = rs_workspace_id demo_runtime"
    using issued_token_is_scoped [OF x] by (elim exE conjE bexE) (rule that)
  then show ?thesis using x by (intro exI [of _ token] exI [of _ l] exI [of _ t']) (simp add: demo_runtime_def demo_scope_def)
qed

text \<open>
  A session that ends stops the issue of tokens to it, also while an exchange is under way: when a
  runtime was authenticated and its session is then ended, an exchange with the scope read at that time records no
  lease in any later state, changes nothing in the database and hands out no token.
\<close>

theorem ended_session_gets_no_token:
  assumes "reach runtime_start (runtime_step hash_token {}) (keys, t)" and "authenticate hash_token now t raw = Inr s"
    and "runtime_step hash_token {} (keys, t) e (keys', t')" and "ends_sessions hash_token (rs_workspace_id s) t t'"
    and "reach (\<lambda>x. x = (keys', t')) (runtime_step hash_token {rs_credential_id s}) later"
  shows "\<exists>err cache' revoked. exchange sha hash x app cache (snd later) s purpose = (Inl err, cache', snd later, revoked)"
proof -
  obtain c where c: "c \<in> set (tb_runtime_credentials t)" "sc_id c = rs_credential_id s" "sc_owner c = rs_workspace_id s"
    using assms(2) unfolding authenticate_def by (rule authenticated_credential)
  have key: "credential_key sc_id" by (simp add: credential_key_def)
  have ok: "runtime_ok (keys, t)" by (rule runtimesys.reach_inv [OF assms(1)])
  have "ended sc_id (rs_credential_id s) t'" using ends_sessions_ended [OF assms(4) ok c(1,3) key] c(2) by simp
  then have "runtime_ok later" "ended sc_id (rs_credential_id s) (snd later)"
    using ended_run [OF assms(5) runtime_ok_step [OF assms(3) ok] key] by simp_all
  then show ?thesis
    using ended_not_authorized [of s "snd later" "fst later"] by (intro unauthorized_exchange) simp
qed

theorem ended_session_gets_no_token_witness:
  "\<exists>err cache' revoked. exchange demo_hash (\<lambda>_. 0) demo_input 7 (\<lambda>_. None) demo_refreshed demo_runtime Git =
     (Inl err, cache', demo_refreshed, revoked)"
proof -
  obtain s where s: "refresh_session demo_hash (demo_fresh ''y'') 70 70 demo_registered demo_registered ''rx'' = (Inr s, demo_refreshed)"
      "si_workspace_id s = ''w1''"
    using demo_refresh_issue by blast
  have "reach (\<lambda>x. x = ([], demo_refreshed)) (runtime_step demo_hash {rs_credential_id demo_runtime}) ([], demo_refreshed)"
    by (rule reach_init) simp
  moreover have "ends_sessions demo_hash (rs_workspace_id demo_runtime) demo_registered demo_refreshed"
    using refreshed [OF s(1)] s(2) by (simp add: demo_runtime_def demo_scope_def)
  ultimately show ?thesis
    using ended_session_gets_no_token [OF demo_registered_run demo_authenticated demo_refresh_step, of "([], demo_refreshed)"] by simp
qed

end
