(* ===== verification/Github_Reviews.thy ===== *)
theory Github_Reviews
  imports Prelude "HOL-Library.Char_ord" "HOL-Library.List_Lexorder" "HOL-Library.Option_ord"
begin

text \<open>
  What VESSEL reads from GitHub: the rules of \<open>src/crates/github/src/rest.rs\<close> for reviews, CI status,
  ticket references and merge responses, over the shared types of
  \<open>src/crates/pocketflow-core/src/types.rs\<close>. The HTTP answers are arguments; a listing is a function from the
  page number to the answer. Digits in the patterns of \<open>extract_ticket_id\<close> are ASCII digits.
\<close>

section \<open>Shared types\<close>

datatype CiStatus = CiPending | CiSuccess | CiFailure | CiError

fun ci_is_terminal :: "CiStatus \<Rightarrow> bool" where
  "ci_is_terminal CiPending = False"
| "ci_is_terminal _ = True"

record MergeResult =
  mr_merged :: bool
  mr_sha :: "string option"
  mr_message :: string

datatype PrState = PrOpen | PrClosed | PrMerged

record PrInfo =
  pi_number :: u64
  pi_head_sha :: string
  pi_head_branch :: string
  pi_base_branch :: string
  pi_ticket_id :: "string option"
  pi_title :: string
  pi_body :: "string option"
  pi_state :: PrState
  pi_mergeable :: "bool option"

definition has_conflicts :: "PrInfo \<Rightarrow> bool" where
  "has_conflicts p \<longleftrightarrow> pi_mergeable p = Some False"

record CiPollConfig =
  cp_interval_secs :: u64
  cp_max_attempts :: u32
  cp_repo_intervals :: "(string \<times> u64) list"

definition interval_for_repo :: "CiPollConfig \<Rightarrow> string \<Rightarrow> u64" where
  "interval_for_repo c repo = (case map_of (cp_repo_intervals c) repo of Some i \<Rightarrow> i | None \<Rightarrow> cp_interval_secs c)"

section \<open>Listings\<close>

text \<open>The loop of every paged listing: it asks for the next page until one has fewer than 100 entries.\<close>

partial_function (option) fetch_pages :: "(nat \<Rightarrow> 'a list result) \<Rightarrow> nat \<Rightarrow> 'a list \<Rightarrow> 'a list result option" where
  [code]: "fetch_pages pages page acc =
     (case pages page of
        Inl e \<Rightarrow> Some (Inl e)
      | Inr batch \<Rightarrow>
          if length batch < 100 then Some (Inr (acc @ batch)) else fetch_pages pages (page + 1) (acc @ batch))"

text \<open>If some page is short and the pages before it can be read, the loop returns all entries up to that page.\<close>

lemma fetch_pages_returns:
  assumes "\<And>i. i < k \<Longrightarrow> \<exists>batch. pages (page + i) = Inr batch \<and> 100 \<le> length batch"
    and "pages (page + k) = Inr rest" and "length rest < 100"
  shows "fetch_pages pages page acc =
    Some (Inr (acc @ concat (map (\<lambda>i. case pages (page + i) of Inr b \<Rightarrow> b | Inl _ \<Rightarrow> []) [0..<k]) @ rest))"
  using assms
proof (induction k arbitrary: page acc)
  case 0
  then show ?case by (simp add: fetch_pages.simps [of pages page])
next
  case (Suc k)
  obtain batch where batch: "pages page = Inr batch" "100 \<le> length batch" using Suc.prems(1) [of 0] by auto
  have "fetch_pages pages page acc = fetch_pages pages (page + 1) (acc @ batch)"
    using batch by (simp add: fetch_pages.simps [of pages page])
  also have "\<dots> = Some (Inr ((acc @ batch) @
      concat (map (\<lambda>i. case pages (page + 1 + i) of Inr b \<Rightarrow> b | Inl _ \<Rightarrow> []) [0..<k]) @ rest))"
    by (rule Suc.IH) (use Suc.prems(1) [of "Suc i" for i] Suc.prems(2,3) in auto)
  also have "map (\<lambda>i. case pages (page + i) of Inr b \<Rightarrow> b | Inl _ \<Rightarrow> []) [0..<Suc k] =
      batch # map (\<lambda>i. case pages (page + 1 + i) of Inr b \<Rightarrow> b | Inl _ \<Rightarrow> []) [0..<k]"
    using batch(1) by (simp add: upt_conv_Cons map_Suc_upt [symmetric] del: upt_Suc)
  then have "(acc @ batch) @ concat (map (\<lambda>i. case pages (page + 1 + i) of Inr b \<Rightarrow> b | Inl _ \<Rightarrow> []) [0..<k]) @ rest =
      acc @ concat (map (\<lambda>i. case pages (page + i) of Inr b \<Rightarrow> b | Inl _ \<Rightarrow> []) [0..<Suc k]) @ rest" by simp
  finally show ?case .
qed

section \<open>CI status\<close>

fun map_status_state :: "string \<Rightarrow> CiStatus" where
  "map_status_state state =
     (let s = to_lowercase state in
      if s = ''pending'' then CiPending else if s = ''success'' then CiSuccess
      else if s = ''failure'' then CiFailure else if s = ''error'' then CiError else CiPending)"

definition is_status_api_forbidden :: "string \<Rightarrow> bool" where
  "is_status_api_forbidden msg \<longleftrightarrow>
     contains msg ''GitHub API error 403'' \<and> (contains msg ''not accessible'' \<or> contains msg ''forbidden'')"

record CheckSuiteApp =
  ca_slug :: "string option"
  ca_name :: "string option"

record CheckSuite =
  cs_status :: string
  cs_conclusion :: "string option"
  cs_latest_check_runs_count :: "u32 option"
  cs_app :: "CheckSuiteApp option"

record CombinedStatusResponse =
  cb_state :: string
  cb_total_count :: u64

definition text_or_empty :: "string option \<Rightarrow> string" where
  "text_or_empty t = (case t of None \<Rightarrow> [] | Some s \<Rightarrow> s)"

text \<open>\<open>ignored\<close> is the environment variable \<open>GITHUB_IGNORED_CHECK_APPS\<close>.\<close>

definition is_ghost_check_suite :: "string option \<Rightarrow> CheckSuite \<Rightarrow> bool" where
  "is_ghost_check_suite ignored s =
     (if cs_status s = ''completed'' then False
      else if is_some_and (cs_latest_check_runs_count s) (\<lambda>n. 0 < n) \<or> cs_status s = ''in_progress'' then False
      else if cs_latest_check_runs_count s \<noteq> Some 0 then False
      else
        (case cs_app s of
           None \<Rightarrow> False
         | Some app \<Rightarrow>
            (let slug = to_lowercase (text_or_empty (ca_slug app)); name = to_lowercase (text_or_empty (ca_name app)) in
             if slug = ''github-actions'' \<or> name = ''github actions'' then False
             else if contains slug ''openflows'' \<or> contains name ''openflows'' \<or> contains slug ''devin'' \<or> contains name ''devin'' \<or>
               contains slug ''sonarqubecloud'' \<or> contains slug ''sonarcloud'' \<or> contains name ''sonar''
             then True
             else
               is_some_and ignored (\<lambda>env. list_ex (\<lambda>pattern.
                 let p = to_lowercase (trim pattern) in p \<noteq> [] \<and> (contains slug p \<or> contains name p))
                 (split_on (\<lambda>c. c = CHR '','') env)))))"

definition aggregate_ci_sources :: "CiStatus option \<Rightarrow> CiStatus option \<Rightarrow> CiStatus" where
  "aggregate_ci_sources status checks =
     (let sources = [status, checks] in
      if list_ex (\<lambda>s. s = Some CiFailure \<or> s = Some CiError) sources then CiFailure
      else if Some CiPending \<in> set sources \<or> list_all (\<lambda>s. s = None) sources then CiPending
      else CiSuccess)"

definition suite_observed :: "CheckSuite \<Rightarrow> CiStatus" where
  "suite_observed s =
     (if cs_status s \<noteq> ''completed'' then CiPending
      else
        (case cs_conclusion s of
           Some c \<Rightarrow>
             if c = ''success'' \<or> c = ''neutral'' \<or> c = ''skipped'' then CiSuccess
             else if c = ''failure'' \<or> c = ''timed_out'' \<or> c = ''cancelled'' \<or> c = ''action_required'' \<or> c = ''startup_failure''
             then CiFailure else CiPending
         | None \<Rightarrow> CiPending))"

definition suites_status :: "string option \<Rightarrow> CheckSuite list \<Rightarrow> CiStatus option" where
  "suites_status ignored suites =
     (let active = filter (\<lambda>s. \<not> is_ghost_check_suite ignored s) suites in
      if active = [] then None
      else Some (fold (\<lambda>s status. aggregate_ci_sources (Some status) (Some (suite_observed s))) active CiSuccess))"

text \<open>\<open>None\<close> is the case of a listing that never ends.\<close>

definition get_ci_status ::
  "string option \<Rightarrow> CombinedStatusResponse result \<Rightarrow> (nat \<Rightarrow> CheckSuite list result) \<Rightarrow> CiStatus result option" where
  "get_ci_status ignored combined pages =
     (case (case combined of
              Inr r \<Rightarrow> Inr (if 0 < cb_total_count r then Some (map_status_state (cb_state r)) else None)
            | Inl e \<Rightarrow> if is_status_api_forbidden e then Inr None else Inl e) of
        Inl e \<Rightarrow> Some (Inl e)
      | Inr status \<Rightarrow>
          map_option (\<lambda>r. bind_result r (\<lambda>suites. Ok (aggregate_ci_sources status (suites_status ignored suites))))
            (fetch_pages pages 1 []))"

lemma aggregate_success:
  "aggregate_ci_sources a b = CiSuccess \<longleftrightarrow> a \<in> {None, Some CiSuccess} \<and> b \<in> {None, Some CiSuccess} \<and> (a \<noteq> None \<or> b \<noteq> None)"
proof -
  have other: "x = CiSuccess \<longleftrightarrow> x \<noteq> CiPending \<and> x \<noteq> CiFailure \<and> x \<noteq> CiError" for x by (cases x) simp_all
  show ?thesis by (cases a; cases b) (auto simp: aggregate_ci_sources_def Let_def other)
qed

lemma fold_suites_success:
  "fold (\<lambda>s status. aggregate_ci_sources (Some status) (Some (suite_observed s))) suites start = CiSuccess \<longleftrightarrow>
     start = CiSuccess \<and> (\<forall>s \<in> set suites. suite_observed s = CiSuccess)"
  by (induction suites arbitrary: start) (auto simp: aggregate_success)

lemma suites_success:
  "suites_status ignored suites = Some CiSuccess \<longleftrightarrow>
     (\<exists>s \<in> set suites. \<not> is_ghost_check_suite ignored s) \<and>
     (\<forall>s \<in> set suites. \<not> is_ghost_check_suite ignored s \<longrightarrow> suite_observed s = CiSuccess)"
  by (auto simp: suites_status_def Let_def fold_suites_success filter_empty_conv)

section \<open>Reviews\<close>

datatype PrReviewState = Approved | ChangesRequested | Commented | NoReview

record PrReview =
  rv_state :: string
  rv_user :: "string option"
  rv_submitted_at :: "string option"
  rv_body :: "string option"
  rv_commit_id :: "string option"
  rv_author_association :: "string option"

record ReviewComment =
  rm_path :: string
  rm_line :: "u64 option"
  rm_body :: string
  rm_user :: "string option"
  rm_commit_id :: "string option"
  rm_created_at :: "string option"

definition from_api_state :: "string \<Rightarrow> PrReviewState" where
  "from_api_state s =
     (if s = ''APPROVED'' then Approved else if s = ''CHANGES_REQUESTED'' then ChangesRequested
      else if s = ''COMMENTED'' then Commented else NoReview)"

definition state_enum :: "PrReview \<Rightarrow> PrReviewState" where
  "state_enum r = from_api_state (rv_state r)"

definition is_authorized_reviewer :: "PrReview \<Rightarrow> bool" where
  "is_authorized_reviewer r \<longleftrightarrow>
     is_some_and (rv_author_association r) (\<lambda>a. a = ''OWNER'' \<or> a = ''MEMBER'' \<or> a = ''COLLABORATOR'')"

definition has_verdict :: "PrReview \<Rightarrow> bool" where
  "has_verdict r \<longleftrightarrow> state_enum r = Approved \<or> state_enum r = ChangesRequested"

definition is_newer :: "PrReview \<Rightarrow> PrReview \<Rightarrow> bool" where
  "is_newer existing review =
     (case (rv_submitted_at existing, rv_submitted_at review) of
        (Some a, Some b) \<Rightarrow> a < b
      | (None, Some _) \<Rightarrow> True
      | (Some _, None) \<Rightarrow> False
      | (None, None) \<Rightarrow> True)"

definition replaces :: "PrReview \<Rightarrow> PrReview \<Rightarrow> bool" where
  "replaces existing review =
     (case (has_verdict existing, has_verdict review) of
        (True, True) \<Rightarrow> is_newer existing review
      | (False, True) \<Rightarrow> True
      | (True, False) \<Rightarrow> False
      | (False, False) \<Rightarrow> is_newer existing review)"

definition keep_newer :: "PrReview \<Rightarrow> PrReview \<Rightarrow> PrReview" where
  "keep_newer existing review = (if replaces existing review then review else existing)"

fun note_review :: "PrReview list \<Rightarrow> PrReview \<Rightarrow> PrReview list" where
  "note_review [] review = [review]"
| "note_review (r # rs) review =
     (if rv_user r = rv_user review then keep_newer r review # rs else r # note_review rs review)"

definition latest_review_per_user :: "PrReview list \<Rightarrow> PrReview list" where
  "latest_review_per_user reviews =
     fold (\<lambda>review latest.
       if rv_user review = None \<or> rv_user review = Some [] then latest else note_review latest review) reviews []"

definition effective_review_state :: "PrReview list \<Rightarrow> PrReviewState" where
  "effective_review_state reviews =
     (let latest = latest_review_per_user reviews in
      if list_ex (\<lambda>r. state_enum r = ChangesRequested) latest then ChangesRequested
      else if list_ex (\<lambda>r. state_enum r = Approved) latest then Approved else NoReview)"

text \<open>The standing review of each reviewer: a verdict before a comment, then the latest.\<close>

definition standing :: "PrReview list \<Rightarrow> PrReview \<Rightarrow> bool" where
  "standing reviews r \<longleftrightarrow> r \<in> set reviews \<and>
     (\<forall>x \<in> set reviews. rv_user x = rv_user r \<longrightarrow>
        (has_verdict x \<longrightarrow> has_verdict r) \<and> (has_verdict x = has_verdict r \<longrightarrow> rv_submitted_at x \<le> rv_submitted_at r))"

definition known_user :: "PrReview \<Rightarrow> bool" where
  "known_user r \<longleftrightarrow> rv_user r \<noteq> None \<and> rv_user r \<noteq> Some []"

lemma is_newer_le: "if is_newer a b then rv_submitted_at a \<le> rv_submitted_at b else rv_submitted_at b \<le> rv_submitted_at a"
  by (auto simp: is_newer_def split: option.splits)

lemma replaces_iff: "replaces a b = (if has_verdict a then has_verdict b \<and> is_newer a b else has_verdict b \<or> is_newer a b)"
  by (cases "has_verdict a"; cases "has_verdict b") (simp_all add: replaces_def)

lemma standingI:
  assumes "r \<in> set reviews" and "\<And>x. x \<in> set reviews \<Longrightarrow> rv_user x = rv_user r \<Longrightarrow> has_verdict x \<Longrightarrow> has_verdict r"
    and "\<And>x. x \<in> set reviews \<Longrightarrow> rv_user x = rv_user r \<Longrightarrow> has_verdict x = has_verdict r \<Longrightarrow> rv_submitted_at x \<le> rv_submitted_at r"
  shows "standing reviews r"
  unfolding standing_def by (intro conjI ballI impI) (fact assms(1), erule (2) assms(2), erule (2) assms(3))

lemma standing_step:
  assumes "standing xs r" and "rv_user x = rv_user r"
  shows "standing (xs @ [x]) (keep_newer r x)"
proof -
  have order: "rv_submitted_at y \<le> rv_submitted_at r" if "y \<in> set xs" "rv_user y = rv_user r" "has_verdict y = has_verdict r" for y
    using assms(1) that by (simp add: standing_def)
  have verdicts: "has_verdict y \<Longrightarrow> has_verdict r" if "y \<in> set xs" "rv_user y = rv_user r" for y
    using assms(1) that by (simp add: standing_def)
  show ?thesis
  proof (cases "replaces r x")
    case True
    then have newer: "has_verdict r \<Longrightarrow> has_verdict x" "has_verdict r = has_verdict x \<Longrightarrow> rv_submitted_at r \<le> rv_submitted_at x"
      using is_newer_le [of r x] by (simp_all add: replaces_iff split: if_splits)
    have "rv_submitted_at y \<le> rv_submitted_at x" if "y \<in> set xs" "rv_user y = rv_user r" "has_verdict y = has_verdict x" for y
    proof -
      have "has_verdict y = has_verdict r" using verdicts [OF that(1,2)] newer(1) that(3) by blast
      then show ?thesis using order [OF that(1,2)] newer(2) that(3) by force
    qed
    then have "standing (xs @ [x]) x" using assms(2) verdicts newer(1) by (intro standingI) auto
    then show ?thesis using True by (simp add: keep_newer_def)
  next
    case False
    then have "has_verdict x \<Longrightarrow> has_verdict r" "has_verdict x = has_verdict r \<Longrightarrow> rv_submitted_at x \<le> rv_submitted_at r"
      using is_newer_le [of r x] by (simp_all add: replaces_iff split: if_splits)
    then have "standing (xs @ [x]) r" using assms verdicts order by (intro standingI) (auto simp: standing_def)
    then show ?thesis using False by (simp add: keep_newer_def)
  qed
qed

lemma standing_other: "standing xs r \<Longrightarrow> rv_user x \<noteq> rv_user r \<Longrightarrow> standing (xs @ [x]) r"
  by (auto simp: standing_def)

text \<open>The invariant of the loop after the reviews \<open>xs\<close>.\<close>

definition reviews_kept :: "PrReview list \<Rightarrow> PrReview list \<Rightarrow> bool" where
  "reviews_kept xs latest \<longleftrightarrow> distinct (map rv_user latest) \<and> (\<forall>r \<in> set latest. known_user r \<and> standing xs r) \<and>
     rv_user ` {x \<in> set xs. known_user x} \<subseteq> rv_user ` set latest"

lemma keep_newer_user [simp]: "rv_user r = rv_user x \<Longrightarrow> rv_user (keep_newer r x) = rv_user x"
  by (simp add: keep_newer_def)

lemma note_review_users: "rv_user ` set (note_review latest x) = insert (rv_user x) (rv_user ` set latest)"
  by (induction latest) auto

lemma note_review_member:
  assumes "r \<in> set (note_review latest x)" and "distinct (map rv_user latest)"
  shows "(\<exists>q \<in> set latest. rv_user q = rv_user x \<and> r = keep_newer q x) \<or> (r = x \<and> rv_user x \<notin> rv_user ` set latest) \<or>
    (r \<in> set latest \<and> rv_user r \<noteq> rv_user x)"
  using assms
proof (induction latest)
  case (Cons a latest)
  show ?case
  proof (cases "rv_user a = rv_user x")
    case True
    then have "rv_user x \<notin> rv_user ` set latest" using Cons.prems(2) by simp
    then show ?thesis using Cons.prems(1) True by (auto simp: image_iff)
  next
    case False
    then show ?thesis using Cons by auto
  qed
qed simp

lemma note_review_distinct: "distinct (map rv_user latest) \<Longrightarrow> distinct (map rv_user (note_review latest x))"
  by (induction latest) (auto simp: note_review_users)

lemma reviews_kept_note:
  assumes "reviews_kept xs latest" and "known_user x"
  shows "reviews_kept (xs @ [x]) (note_review latest x)"
proof -
  have kept: "distinct (map rv_user latest)" "rv_user ` {x \<in> set xs. known_user x} \<subseteq> rv_user ` set latest"
      "\<And>r. r \<in> set latest \<Longrightarrow> known_user r \<and> standing xs r"
    using assms(1) by (simp_all add: reviews_kept_def)
  have "known_user r \<and> standing (xs @ [x]) r" if listed: "r \<in> set (note_review latest x)" for r
    using note_review_member [OF listed kept(1)]
  proof (elim disjE bexE conjE)
    fix q assume q: "q \<in> set latest" "rv_user q = rv_user x" "r = keep_newer q x"
    then show ?thesis using kept(3) [OF q(1)] standing_step [of xs q x] assms(2) by (simp add: known_user_def)
  next
    assume r: "r = x" "rv_user x \<notin> rv_user ` set latest"
    have "rv_user y \<noteq> rv_user x" if "y \<in> set xs" for y
    proof
      assume same: "rv_user y = rv_user x"
      then have "known_user y" using assms(2) by (simp add: known_user_def)
      then have "rv_user y \<in> rv_user ` set latest" using that kept(2) by blast
      then show False using r(2) same by simp
    qed
    then show ?thesis using r(1) assms(2) by (auto simp: standing_def)
  next
    assume "r \<in> set latest" "rv_user r \<noteq> rv_user x"
    then show ?thesis using kept(3) standing_other by metis
  qed
  moreover have "rv_user ` {y \<in> set (xs @ [x]). known_user y} \<subseteq> rv_user ` set (note_review latest x)"
    using kept(2) unfolding note_review_users by auto
  ultimately show ?thesis using note_review_distinct [OF kept(1)] by (simp add: reviews_kept_def)
qed

lemma reviews_kept_skip:
  assumes "reviews_kept xs latest" and "\<not> known_user x"
  shows "reviews_kept (xs @ [x]) latest"
proof -
  have "rv_user x \<noteq> rv_user r" if "known_user r" for r using assms(2) that by (auto simp: known_user_def)
  then show ?thesis using assms by (auto simp: reviews_kept_def intro: standing_other)
qed

lemma latest_reviews_kept: "reviews_kept reviews (latest_review_per_user reviews)"
proof -
  have "reviews_kept (xs @ reviews)
     (fold (\<lambda>review latest. if rv_user review = None \<or> rv_user review = Some [] then latest else note_review latest review) reviews latest)"
    if "reviews_kept xs latest" for xs latest
    using that
  proof (induction reviews arbitrary: xs latest)
    case (Cons x reviews)
    then show ?case
      using Cons.IH [of "xs @ [x]"] reviews_kept_note [OF Cons.prems] reviews_kept_skip [OF Cons.prems, of x]
      by (auto simp: known_user_def)
  qed simp
  from this [of "[]" "[]"] show ?thesis by (simp add: latest_review_per_user_def reviews_kept_def)
qed

end
