(* ===== verification/Vessel_Monitor.thy ===== *)
theory Vessel_Monitor
  imports Github_Reviews Ticket_State
begin

text \<open>
  VESSEL's view of a pull request: \<open>src/crates/agent-vessel/src/pr_monitor.rs\<close>, the polling loop of
  \<open>ci_poller.rs\<close> and the texts of \<open>merger.rs\<close>. \<open>parse_ts\<close> stands for the RFC 3339 parser of the
  \<open>chrono\<close> crate.
\<close>

section \<open>Classification\<close>

datatype PrMonitorState =
    MonConflicts | MonCiFailed | MonCiRunning | MonChangesRequested | MonComments | MonNeedsReview | MonApproved | MonReadyForMerge

fun monitor_as_str :: "PrMonitorState \<Rightarrow> string" where
  "monitor_as_str MonConflicts = ''conflicts''"
| "monitor_as_str MonCiFailed = ''ci_failed''"
| "monitor_as_str MonCiRunning = ''ci_running''"
| "monitor_as_str MonChangesRequested = ''changes_requested''"
| "monitor_as_str MonComments = ''comments''"
| "monitor_as_str MonNeedsReview = ''needs_review''"
| "monitor_as_str MonApproved = ''approved''"
| "monitor_as_str MonReadyForMerge = ''ready_for_merge''"

fun needs_rework :: "PrMonitorState \<Rightarrow> bool" where
  "needs_rework MonConflicts = True"
| "needs_rework MonChangesRequested = True"
| "needs_rework MonComments = True"
| "needs_rework _ = False"

record ReworkEvidence =
  re_dispatched_sha :: "string option"
  re_dispatched_at :: "string option"

definition is_feedback_addressed ::
  "(string \<Rightarrow> int option) \<Rightarrow> string option \<Rightarrow> string option \<Rightarrow> string \<Rightarrow> ReworkEvidence option \<Rightarrow> bool" where
  "is_feedback_addressed parse_ts commit timestamp head evidence =
     (if commit = Some head then False
      else
        (case evidence of
           None \<Rightarrow> False
         | Some ev \<Rightarrow>
            (case (re_dispatched_sha ev, re_dispatched_at ev) of
               (Some sha, Some at) \<Rightarrow>
                 if head = sha then False
                 else
                   (case (timestamp, parse_ts at) of
                      (Some ts, Some dispatched) \<Rightarrow>
                        (case parse_ts ts of Some t \<Rightarrow> t \<le> dispatched | None \<Rightarrow> commit = Some sha)
                    | _ \<Rightarrow> commit = Some sha)
             | _ \<Rightarrow> False)))"

definition applicable_reviews :: "(string \<Rightarrow> int option) \<Rightarrow> PrReview list \<Rightarrow> string \<Rightarrow> ReworkEvidence option \<Rightarrow> PrReview list" where
  "applicable_reviews parse_ts reviews head evidence =
     filter (\<lambda>r. state_enum r \<noteq> ChangesRequested \<or>
       \<not> is_feedback_addressed parse_ts (rv_commit_id r) (rv_submitted_at r) head evidence)
     (latest_review_per_user reviews)"

definition is_authorized_head_approval :: "PrReview \<Rightarrow> string \<Rightarrow> bool" where
  "is_authorized_head_approval r head \<longleftrightarrow>
     state_enum r = Approved \<and> is_authorized_reviewer r \<and> rv_commit_id r = Some head"

definition candidate_review_state :: "PrReview list \<Rightarrow> string \<Rightarrow> PrReviewState" where
  "candidate_review_state applicable head =
     (if list_ex (\<lambda>r. state_enum r = ChangesRequested) applicable then ChangesRequested
      else if list_ex (\<lambda>r. is_authorized_head_approval r head) applicable then Approved
      else NoReview)"

definition classify_from_parts :: "bool option \<Rightarrow> CiStatus \<Rightarrow> PrReviewState \<Rightarrow> bool \<Rightarrow> PrMonitorState" where
  "classify_from_parts mergeable ci review unaddressed =
     (if mergeable = Some False then MonConflicts
      else if ci = CiFailure \<or> ci = CiError then MonCiFailed
      else if ci = CiPending then MonCiRunning
      else if review = ChangesRequested then MonChangesRequested
      else if unaddressed \<and> review \<noteq> Approved then MonComments
      else if review = Approved then MonReadyForMerge
      else MonNeedsReview)"

definition comment_unaddressed :: "(string \<Rightarrow> int option) \<Rightarrow> string \<Rightarrow> ReworkEvidence option \<Rightarrow> ReviewComment \<Rightarrow> bool" where
  "comment_unaddressed parse_ts head evidence c \<longleftrightarrow>
     \<not> is_feedback_addressed parse_ts (rm_commit_id c) (rm_created_at c) head evidence"

text \<open>A listing that fails counts as empty.\<close>

definition unwrap_or_default :: "'a list result \<Rightarrow> 'a list" where
  "unwrap_or_default r = (case r of Inr xs \<Rightarrow> xs | Inl _ \<Rightarrow> [])"

definition classify ::
  "(string \<Rightarrow> int option) \<Rightarrow> PrReview list result \<Rightarrow> ReviewComment list result \<Rightarrow> PrInfo \<Rightarrow> CiStatus \<Rightarrow> ReworkEvidence option \<Rightarrow> PrMonitorState" where
  "classify parse_ts reviews comments pr ci evidence =
     (let effective = candidate_review_state (applicable_reviews parse_ts (unwrap_or_default reviews) (pi_head_sha pr) evidence) (pi_head_sha pr);
          unaddressed = list_ex (comment_unaddressed parse_ts (pi_head_sha pr) evidence) (unwrap_or_default comments) \<and> effective \<noteq> Approved in
      classify_from_parts (pi_mergeable pr) ci effective unaddressed)"

text \<open>\<open>Iterator::max_by\<close> over the submission times: the last of the greatest.\<close>

definition latest_submitted :: "PrReview list \<Rightarrow> PrReview option" where
  "latest_submitted reviews =
     fold (\<lambda>r best. case best of None \<Rightarrow> Some r | Some b \<Rightarrow> if rv_submitted_at b \<le> rv_submitted_at r then Some r else best) reviews None"

record ReworkDirective =
  rd_state :: PrMonitorState
  rd_pr_number :: u64
  rd_reason :: "string option"

definition collect_rework :: "PrReview list result \<Rightarrow> string \<Rightarrow> string \<Rightarrow> u64 \<Rightarrow> ReworkDirective" where
  "collect_rework reviews owner repo pr =
     \<lparr>rd_state = MonComments, rd_pr_number = pr,
      rd_reason = (if owner = [] \<or> repo = [] then None
        else Option.bind (latest_submitted (filter (\<lambda>r. \<not> blank (text_or_empty (rv_body r))) (unwrap_or_default reviews))) rv_body)\<rparr>"

definition build_directive :: "PrMonitorState \<Rightarrow> u64 \<Rightarrow> string option \<Rightarrow> string" where
  "build_directive state pr reason =
     ''/address_review'' @ [CHR 0x0A] @ ''state: '' @ monitor_as_str state @ [CHR 0x0A] @ ''pr: '' @ show_u64 pr @ [CHR 0x0A] @
     (case reason of Some r \<Rightarrow> if blank r then [] else ''reason: '' @ trim r @ [CHR 0x0A] | None \<Rightarrow> []) @
     [CHR 0x0A] @ ''Fetch the full review context (inline comments / conflicted files) '' @
     ''for this PR and address them, then re-run: openflows-harness status set testing''"

section \<open>Polling CI\<close>

datatype CiPollResult = PollStatus CiStatus | PollTimeout | PollConflicts

definition MERGEABLE_CHECK_INTERVAL :: nat where
  "MERGEABLE_CHECK_INTERVAL = 3"

text \<open>
  \<open>ci\<close> and \<open>mergeable\<close> are GitHub's answers at each attempt. The loop ends at \<open>max_attempts\<close>; the sleep between
  attempts is left out.
\<close>

function poll_from :: "nat \<Rightarrow> (nat \<Rightarrow> CiStatus result) \<Rightarrow> (nat \<Rightarrow> bool option result) \<Rightarrow> nat \<Rightarrow> CiPollResult result" where
  "poll_from max_attempts ci mergeable attempts =
     (if max_attempts \<le> attempts then Ok PollTimeout
      else
        bind_result (ci attempts) (\<lambda>status.
          if ci_is_terminal status then Ok (PollStatus status)
          else if attempts mod MERGEABLE_CHECK_INTERVAL = 0
          then bind_result (mergeable attempts) (\<lambda>m.
            if m = Some False then Ok PollConflicts else poll_from max_attempts ci mergeable (attempts + 1))
          else poll_from max_attempts ci mergeable (attempts + 1)))"
  by pat_completeness auto
termination by (relation "measure (\<lambda>(m, _, _, a). m - a)") auto

declare poll_from.simps [simp del]

definition poll_until_terminal :: "CiPollConfig \<Rightarrow> (nat \<Rightarrow> CiStatus result) \<Rightarrow> (nat \<Rightarrow> bool option result) \<Rightarrow> CiPollResult result" where
  "poll_until_terminal c ci mergeable = poll_from (unat (cp_max_attempts c)) ci mergeable 0"

section \<open>Merge messages\<close>

definition is_merge_conflict_message :: "string \<Rightarrow> bool" where
  "is_merge_conflict_message msg \<longleftrightarrow>
     (let l = to_lowercase msg in
      contains l ''merge conflict'' \<or> contains l ''merge_conflict'' \<or> contains l ''405'' \<and> contains l ''not mergeable'')"

definition is_merge_refused_pending_review :: "string \<Rightarrow> bool" where
  "is_merge_refused_pending_review msg \<longleftrightarrow> contains (to_lowercase msg) ''405'' \<and> \<not> is_merge_conflict_message msg"

definition build_merge_commit_title :: "PrInfo \<Rightarrow> string" where
  "build_merge_commit_title p =
     ''Merge PR #'' @ show_u64 (pi_number p) @ '': '' @ pi_title p @
     (case pi_ticket_id p of
        None \<Rightarrow> []
      | Some t \<Rightarrow>
         (case strip_prefix ''T-'' t of
            Some n \<Rightarrow> '' (Closes #'' @ n @ '')''
          | None \<Rightarrow> '' (Resolves '' @ t @ '')''))"

section \<open>What the verdicts mean\<close>

lemma latest_standing: "r \<in> set (latest_review_per_user reviews) \<Longrightarrow> known_user r \<and> standing reviews r"
  using latest_reviews_kept [of reviews] by (simp add: reviews_kept_def)

lemma candidate_approved:
  assumes "candidate_review_state (applicable_reviews parse_ts reviews head evidence) head = Approved"
  shows "\<exists>r \<in> set reviews. standing reviews r \<and> known_user r \<and> is_authorized_head_approval r head"
    and "\<not> (\<exists>r \<in> set (latest_review_per_user reviews). state_enum r = ChangesRequested \<and>
      \<not> is_feedback_addressed parse_ts (rv_commit_id r) (rv_submitted_at r) head evidence)"
proof -
  obtain r where "r \<in> set (latest_review_per_user reviews)" "is_authorized_head_approval r head"
    using assms by (auto simp: candidate_review_state_def applicable_reviews_def list_ex_iff split: if_splits)
  then show "\<exists>r \<in> set reviews. standing reviews r \<and> known_user r \<and> is_authorized_head_approval r head"
    using latest_standing standing_def by blast
qed (use assms in \<open>auto simp: candidate_review_state_def applicable_reviews_def list_ex_iff split: if_splits\<close>)

text \<open>A change request that is its reviewer's last verdict is the review kept for that reviewer.\<close>

lemma last_verdict_kept:
  assumes "r \<in> set reviews" and "known_user r" and "has_verdict r"
    and "\<And>x. x \<in> set reviews \<Longrightarrow> x \<noteq> r \<Longrightarrow> rv_user x = rv_user r \<Longrightarrow> has_verdict x \<Longrightarrow> rv_submitted_at x < rv_submitted_at r"
  shows "r \<in> set (latest_review_per_user reviews)"
proof -
  have "rv_user r \<in> rv_user ` set (latest_review_per_user reviews)"
    using latest_reviews_kept [of reviews] assms(1,2) unfolding reviews_kept_def by blast
  then obtain e where e: "e \<in> set (latest_review_per_user reviews)" "rv_user e = rv_user r" by force
  then have "standing reviews e" using latest_standing by blast
  then have "e \<in> set reviews" "has_verdict e" "rv_submitted_at r \<le> rv_submitted_at e"
    using assms(1,3) e(2) by (auto simp: standing_def)
  then have "e = r" using assms(4) e(2) by force
  then show ?thesis using e(1) by simp
qed

lemma classify_ready:
  assumes "classify parse_ts reviews comments pr ci evidence = MonReadyForMerge"
  shows "pi_mergeable pr \<noteq> Some False" and "ci = CiSuccess"
    and "candidate_review_state (applicable_reviews parse_ts (unwrap_or_default reviews) (pi_head_sha pr) evidence) (pi_head_sha pr) = Approved"
proof -
  have "ci = CiSuccess \<longleftrightarrow> ci \<noteq> CiPending \<and> ci \<noteq> CiFailure \<and> ci \<noteq> CiError" by (cases ci) simp_all
  then show "pi_mergeable pr \<noteq> Some False" "ci = CiSuccess"
    "candidate_review_state (applicable_reviews parse_ts (unwrap_or_default reviews) (pi_head_sha pr) evidence) (pi_head_sha pr) = Approved"
    using assms by (auto simp: classify_def classify_from_parts_def Let_def split: if_splits)
qed

text \<open>The polling loop returns: it never waits longer than \<open>max_attempts\<close>.\<close>

lemma poll_success:
  assumes "poll_from n ci mergeable a = Ok (PollStatus s)"
  shows "ci_is_terminal s \<and> (\<exists>i. a \<le> i \<and> i < n \<and> ci i = Ok s)"
  using assms
proof (induction n ci mergeable a rule: poll_from.induct)
  case (1 n ci mergeable a)
  show ?case
  proof (cases "ci a")
    case (Inr status)
    then show ?thesis using 1 
      by (auto simp: poll_from.simps [of n ci mergeable a] bind_result_Ok Suc_le_eq split: if_splits) (meson less_imp_le)+
  qed (use "1.prems" in \<open>auto simp: poll_from.simps [of n ci mergeable a] split: if_splits\<close>)
qed

end
