(* ===== verification/Vessel_Node.thy ===== *)
theory Vessel_Node
  imports Vessel_Monitor Shared_Store
begin

text \<open>
  The execution phase of VESSEL, \<open>src/crates/agent-vessel/src/node.rs\<close>: what it does with every pending pull
  request, from the confirmation of an earlier merge to the merge itself. The code is asynchronous and shares the store
  with the other controllers. It is modelled as a state-passing computation with errors in which every access to the
  store or to GitHub is a turn: before it, the rest of the system changes the store by \<open>wd_env\<close>, and the answers
  of GitHub depend on the turn. \<open>vs_log\<close> records the CI answers on which a merge rests and the merge requests sent to
  GitHub, each with the ticket's stored lifecycle when GitHub receives it. Work in Git worktrees only gives the list of conflicted files and is an answer of the world.
\<close>

section \<open>Turns\<close>

datatype VesselOutcome =
    VoMerged string u64 string string "string option"
  | VoCiFailed "string option" u64 string
  | VoMergeBlocked "string option" u64 string
  | VoCiTimeout "string option" u64
  | VoCiMissing "string option" u64
  | VoConflicts "string option" u64 "string list"
  | VoReviews "string option" u64 string "string option"
  | VoUnmanaged u64 string
  | VoDocsPrClosed u64 string

datatype VesselCall =
    CiRead string CiStatus
  | MergeRequested string u64 string "Lifecycle result"

record World =
  wd_env :: "nat \<Rightarrow> SharedStore \<Rightarrow> SharedStore"
  wd_clock :: "nat \<Rightarrow> u64"
  wd_parse_ts :: "string \<Rightarrow> int option"
  wd_poll_config :: CiPollConfig
  wd_pull_request :: "nat \<Rightarrow> u64 \<Rightarrow> PrInfo result"
  wd_confirmed_merge_sha :: "nat \<Rightarrow> u64 \<Rightarrow> string option result"
  wd_ci_status :: "nat \<Rightarrow> string \<Rightarrow> CiStatus result"
  wd_ci_poll :: "nat \<Rightarrow> string \<Rightarrow> nat \<Rightarrow> CiStatus result"
  wd_mergeable :: "nat \<Rightarrow> u64 \<Rightarrow> nat \<Rightarrow> bool option result"
  wd_reviews :: "nat \<Rightarrow> u64 \<Rightarrow> PrReview list result"
  wd_comments :: "nat \<Rightarrow> u64 \<Rightarrow> ReviewComment list result"
  wd_merge :: "nat \<Rightarrow> u64 \<Rightarrow> string \<Rightarrow> string \<Rightarrow> MergeResult result"
  wd_close :: "nat \<Rightarrow> u64 \<Rightarrow> unit result"
  wd_failed_checks :: "nat \<Rightarrow> string \<Rightarrow> string list result"
  wd_conflicted_files :: "nat \<Rightarrow> u64 \<Rightarrow> string list"

record VesselState =
  vs_turn :: nat
  vs_store :: SharedStore
  vs_log :: "VesselCall list"

type_synonym 'a vessel = "VesselState \<Rightarrow> 'a result \<times> VesselState"

definition v_ret :: "'a \<Rightarrow> 'a vessel" where
  "v_ret x = (\<lambda>s. (Ok x, s))"

definition v_fail :: "string \<Rightarrow> 'a vessel" where
  "v_fail e = (\<lambda>s. (Err e, s))"

definition v_then :: "'a vessel \<Rightarrow> ('a \<Rightarrow> 'b vessel) \<Rightarrow> 'b vessel" where
  "v_then m f = (\<lambda>s. case m s of (Inl e, s') \<Rightarrow> (Err e, s') | (Inr x, s') \<Rightarrow> f x s')"

definition v_ensure :: "bool \<Rightarrow> string \<Rightarrow> 'a vessel \<Rightarrow> 'a vessel" where
  "v_ensure b e m = (if b then m else v_fail e)"

definition turn :: "World \<Rightarrow> VesselState \<Rightarrow> VesselState" where
  "turn w s = s\<lparr>vs_turn := vs_turn s + 1, vs_store := wd_env w (vs_turn s) (vs_store s)\<rparr>"

text \<open>A call to GitHub whose error is a value, and one with \<open>?\<close>.\<close>

definition ask :: "World \<Rightarrow> (nat \<Rightarrow> 'a) \<Rightarrow> 'a vessel" where
  "ask w f = (\<lambda>s. (Ok (f (vs_turn s)), turn w s))"

definition ask_ok :: "World \<Rightarrow> (nat \<Rightarrow> 'a result) \<Rightarrow> 'a vessel" where
  "ask_ok w f = v_then (ask w f) (\<lambda>r s. (r, s))"

definition v_log :: "VesselCall \<Rightarrow> unit vessel" where
  "v_log c = (\<lambda>s. (Ok (), s\<lparr>vs_log := vs_log s @ [c]\<rparr>))"

definition v_request :: "World \<Rightarrow> string \<Rightarrow> u64 \<Rightarrow> string \<Rightarrow> unit vessel" where
  "v_request w ticket pr head =
     (\<lambda>s. let s1 = turn w s in v_log (MergeRequested ticket pr head (store_lifecycle (vs_store s1) ticket)) s1)"

definition v_lifecycle :: "World \<Rightarrow> string \<Rightarrow> Lifecycle vessel" where
  "v_lifecycle w ticket = (\<lambda>s. let s1 = turn w s in (store_lifecycle (vs_store s1) ticket, s1))"

definition v_transition :: "World \<Rightarrow> string \<Rightarrow> u64 \<Rightarrow> string \<Rightarrow> Event \<Rightarrow> Lifecycle vessel" where
  "v_transition w ticket version actor e =
     (\<lambda>s. let s1 = turn w s in
        case store_transition (vs_store s1) ticket version actor e (wd_clock w (vs_turn s)) of
          Inl m \<Rightarrow> (Err m, s1)
        | Inr (store, n) \<Rightarrow> (Ok n, s1\<lparr>vs_store := store\<rparr>))"

definition v_get :: "World \<Rightarrow> (SharedStore \<Rightarrow> 'a) \<Rightarrow> 'a vessel" where
  "v_get w f = (\<lambda>s. let s1 = turn w s in (Ok (f (vs_store s1)), s1))"

definition v_put :: "World \<Rightarrow> (SharedStore \<Rightarrow> SharedStore) \<Rightarrow> unit vessel" where
  "v_put w f = (\<lambda>s. let s1 = turn w s in (Ok (), s1\<lparr>vs_store := f (vs_store s1)\<rparr>))"

section \<open>Rework and approvals\<close>

definition get_rework_evidence :: "World \<Rightarrow> u64 \<Rightarrow> ReworkEvidence option vessel" where
  "get_rework_evidence w pr =
     v_then (v_get w (\<lambda>st. store_get_typed de_string st (address_review_dispatched_key pr))) (\<lambda>sha.
     v_then (v_get w (\<lambda>st. store_get_typed de_string st (address_review_dispatched_at_key pr))) (\<lambda>at.
     v_ret (if sha \<noteq> None \<or> at \<noteq> None then Some \<lparr>re_dispatched_sha = sha, re_dispatched_at = at\<rparr> else None)))"

definition check_pr_needs_rework :: "World \<Rightarrow> PrInfo \<Rightarrow> ReworkEvidence option \<Rightarrow> bool vessel" where
  "check_pr_needs_rework w pr evidence =
     (if has_conflicts pr then v_ret True
      else
        v_then (ask w (\<lambda>n. wd_ci_status w n (pi_head_sha pr))) (\<lambda>ci.
          if ci = Ok CiFailure \<or> ci = Ok CiError then v_ret True
          else
            v_then (ask w (\<lambda>n. wd_reviews w n (pi_number pr))) (\<lambda>reviews.
              let state = candidate_review_state
                    (applicable_reviews (wd_parse_ts w) (unwrap_or_default reviews) (pi_head_sha pr) evidence) (pi_head_sha pr) in
              if state = ChangesRequested then v_ret True
              else if state = Approved then v_ret False
              else
                v_then (ask w (\<lambda>n. wd_comments w n (pi_number pr))) (\<lambda>comments.
                  v_ret (list_ex (comment_unaddressed (wd_parse_ts w) (pi_head_sha pr) evidence) (unwrap_or_default comments))))))"

definition reset_address_review_attempts :: "World \<Rightarrow> u64 \<Rightarrow> unit vessel" where
  "reset_address_review_attempts w pr = v_put w (\<lambda>st. store_set st (address_review_attempts_key pr) (ser_u64 0))"

definition clear_address_review_dispatched :: "World \<Rightarrow> u64 \<Rightarrow> unit vessel" where
  "clear_address_review_dispatched w pr =
     v_then (v_put w (\<lambda>st. store_del st (address_review_dispatched_key pr))) (\<lambda>_.
       v_put w (\<lambda>st. store_del st (address_review_dispatched_at_key pr)))"

fun awaits_human :: "TicketStatus \<Rightarrow> bool" where
  "awaits_human (AwaitingHuman _ _ _) = True"
| "awaits_human _ = False"

definition unblock_ticket :: "string \<Rightarrow> Ticket \<Rightarrow> Ticket" where
  "unblock_ticket ticket t =
     (if tk_id t = ticket \<and> awaits_human (tk_status t) then t\<lparr>tk_status := InProgress ''vessel''\<rparr> else t)"

definition unblock_tickets :: "World \<Rightarrow> string \<Rightarrow> unit vessel" where
  "unblock_tickets w ticket =
     v_then (v_get w (\<lambda>st. store_get_typed (de_vec de_ticket) st ''tickets'')) (\<lambda>r.
       let tickets = (case r of Some ts \<Rightarrow> ts | None \<Rightarrow> []) in
       if list_ex (\<lambda>t. tk_id t = ticket \<and> awaits_human (tk_status t)) tickets
       then v_put w (\<lambda>st. store_set st ''tickets'' (ser_vec ticket_to_json (map (unblock_ticket ticket) tickets)))
       else v_ret ())"

definition head_approver :: "PrReview list \<Rightarrow> string \<Rightarrow> string option" where
  "head_approver applicable head =
     Option.bind (latest_submitted (filter (\<lambda>r. is_authorized_head_approval r head) applicable)) rv_user"

text \<open>The two decisions and the delivery that \<open>reconcile_github_approval\<close> records.\<close>

definition record_human :: "World \<Rightarrow> string \<Rightarrow> string \<Rightarrow> Lifecycle \<Rightarrow> Lifecycle vessel" where
  "record_human w ticket report cur =
     (if lc_pr_human cur = None
      then v_transition w ticket (lc_version cur) ''human''
        (Decide (lc_review_round cur) Submit True report (lc_revision cur) (lc_head cur))
      else v_ret cur)"

definition record_sentinel :: "World \<Rightarrow> string \<Rightarrow> string \<Rightarrow> Lifecycle \<Rightarrow> Lifecycle vessel" where
  "record_sentinel w ticket approver cur =
     (if lc_pr_decision cur = None
      then v_transition w ticket (lc_version cur) ''sentinel''
        (Decide (lc_review_round cur) Submit True (''Satisfied by verified testing review and GitHub approval by '' @ approver)
          (lc_revision cur) (lc_head cur))
      else v_ret cur)"

definition record_delivery :: "World \<Rightarrow> string \<Rightarrow> Lifecycle \<Rightarrow> Lifecycle vessel" where
  "record_delivery w ticket cur =
     (if lc_pr_delivery cur \<noteq> None
      then v_transition w ticket (lc_version cur) ''sentinel'' (ReviewDelivered (lc_review_round cur))
      else v_ret cur)"

definition reconcile_github_approval ::
  "World \<Rightarrow> string \<Rightarrow> Lifecycle \<Rightarrow> u64 \<Rightarrow> string \<Rightarrow> ReworkEvidence option \<Rightarrow> bool vessel" where
  "reconcile_github_approval w ticket state pr head evidence =
     (if lc_phase state \<noteq> Submit \<or> lc_pr_human state \<noteq> None \<and> lc_pr_decision state \<noteq> None then v_ret False
      else
        v_then (ask w (\<lambda>n. wd_reviews w n pr)) (\<lambda>answer.
          case answer of
            Inl _ \<Rightarrow> v_ret False
          | Inr reviews \<Rightarrow>
             (let applicable = applicable_reviews (wd_parse_ts w) reviews head evidence;
                  relies_on_evidence = length applicable \<noteq> length (latest_review_per_user reviews) in
              if list_ex (\<lambda>r. state_enum r = ChangesRequested) applicable then v_ret False
              else
                (case head_approver applicable head of
                   None \<Rightarrow> v_ret False
                 | Some approver \<Rightarrow>
                     v_then (v_lifecycle w ticket) (\<lambda>current.
                       if lc_pr_human current \<noteq> None \<and> lc_pr_decision current \<noteq> None \<or> lc_head current \<noteq> Some head then v_ret False
                       else if lc_pr_decision current = None \<and> \<not> is_some_and (lc_test_decision current) d_approved then v_ret False
                       else
                         v_then (record_human w ticket (''Approved on GitHub by '' @ approver @ '' at '' @ head) current) (\<lambda>cur.
                         v_then (record_sentinel w ticket approver cur) (\<lambda>cur.
                         v_then (record_delivery w ticket cur) (\<lambda>_.
                         v_then (reset_address_review_attempts w pr) (\<lambda>_.
                         v_then (if relies_on_evidence then v_ret () else clear_address_review_dispatched w pr) (\<lambda>_.
                         v_then (unblock_tickets w ticket) (\<lambda>_. v_ret True)))))))))))"

section \<open>Merging\<close>

definition begin_merge :: "World \<Rightarrow> string \<Rightarrow> string \<Rightarrow> Lifecycle \<Rightarrow> Lifecycle vessel" where
  "begin_merge w ticket head state =
     (if lc_merge_pending state then v_ret state
      else v_transition w ticket (lc_version state) ''vessel'' (BeginMerge head))"

text \<open>The result of the merge request is a value of \<open>merge_reviewed\<close>, its error included.\<close>

definition settle_merge :: "World \<Rightarrow> string \<Rightarrow> PrInfo \<Rightarrow> Lifecycle \<Rightarrow> MergeResult result \<Rightarrow> MergeResult vessel" where
  "settle_merge w ticket pr state answer =
     (case answer of
        Inl e \<Rightarrow> v_fail e
      | Inr r \<Rightarrow>
          if mr_merged r
          then
            (case mr_sha r of
               None \<Rightarrow> v_fail ''Merge response missing SHA''
             | Some sha \<Rightarrow>
                 v_then (v_transition w ticket (lc_version state) ''vessel'' (Merged (pi_number pr) (pi_head_sha pr) sha))
                   (\<lambda>_. v_ret r))
          else v_then (v_transition w ticket (lc_version state) ''vessel'' CancelMerge) (\<lambda>_. v_ret r))"

definition request_merge :: "World \<Rightarrow> string \<Rightarrow> PrInfo \<Rightarrow> Lifecycle \<Rightarrow> MergeResult vessel" where
  "request_merge w ticket pr state =
     v_then (v_request w ticket (pi_number pr) (pi_head_sha pr)) (\<lambda>_.
     v_then (ask w (\<lambda>n. wd_merge w n (pi_number pr) (build_merge_commit_title pr) (pi_head_sha pr)))
       (settle_merge w ticket pr state))"

definition merge_reviewed :: "World \<Rightarrow> PrInfo \<Rightarrow> MergeResult vessel" where
  "merge_reviewed w pr =
     (case pi_ticket_id pr of
        None \<Rightarrow> v_fail ''PR has no ticket''
      | Some ticket \<Rightarrow>
          v_then (v_lifecycle w ticket) (\<lambda>state.
          v_ensure (merge_ready state (pi_head_sha pr) \<and> lc_pr_number state = Some (pi_number pr))
            ''Current head lacks lifecycle approval'' (
          v_then (ask_ok w (\<lambda>n. wd_ci_status w n (pi_head_sha pr))) (\<lambda>ci.
          v_then (v_log (CiRead (pi_head_sha pr) ci)) (\<lambda>_.
          v_ensure (ci = CiSuccess) ''CI must succeed for the candidate head'' (
          v_then (begin_merge w ticket (pi_head_sha pr) state) (request_merge w ticket pr)))))))"

text \<open>An error of a sub-computation as a value, for \<open>match\<close> on a \<open>Result\<close>.\<close>

definition v_try :: "'a vessel \<Rightarrow> 'a result vessel" where
  "v_try m = (\<lambda>s. case m s of (r, s') \<Rightarrow> (Ok r, s'))"

definition is_docs_pr :: "PrInfo \<Rightarrow> bool" where
  "is_docs_pr pr \<longleftrightarrow> starts_with (pi_head_branch pr) ''lore/'' \<or> pi_ticket_id pr = Some ''T-DOCS''"

definition close_docs_pr_with_conflicts :: "World \<Rightarrow> PrInfo \<Rightarrow> VesselOutcome vessel" where
  "close_docs_pr_with_conflicts w pr =
     v_then (ask w (\<lambda>n. wd_close w n (pi_number pr))) (\<lambda>r.
       v_ret (case r of
          Inr _ \<Rightarrow> VoDocsPrClosed (pi_number pr) (''Merge conflicts on docs PR '' @ [CHR 0xE2, CHR 0x80, CHR 0x94] @ '' closed for regeneration'')
        | Inl _ \<Rightarrow> VoConflicts None (pi_number pr) [''Docs PR could not be closed'']))"

definition handle_conflicts :: "World \<Rightarrow> PrInfo \<Rightarrow> VesselOutcome vessel" where
  "handle_conflicts w pr =
     (if is_docs_pr pr then close_docs_pr_with_conflicts w pr
      else
        (case pi_ticket_id pr of
           None \<Rightarrow> v_fail ''Conflict PR has no ticket''
         | Some ticket \<Rightarrow>
             v_then (v_lifecycle w ticket) (\<lambda>current.
             v_ensure (\<not> lc_merge_pending current) ''Merge outcome is still unresolved'' (
             v_ensure (lc_phase current = Submit) ''Conflict rework requires a submitted candidate'' (
             v_then (v_transition w ticket (lc_version current) ''vessel'' (Move Building None)) (\<lambda>_.
             v_then (ask w (\<lambda>n. wd_conflicted_files w n (pi_number pr))) (\<lambda>files.
             v_ret (VoConflicts (pi_ticket_id pr) (pi_number pr) files))))))))"

fun debug_ci :: "CiStatus \<Rightarrow> string" where
  "debug_ci CiPending = ''Pending''"
| "debug_ci CiSuccess = ''Success''"
| "debug_ci CiFailure = ''Failure''"
| "debug_ci CiError = ''Error''"

definition ci_failure_reason :: "CiStatus \<Rightarrow> string list result \<Rightarrow> string" where
  "ci_failure_reason status checks =
     ''CI status: '' @ debug_ci status @
     (case checks of
        Inr (c # cs) \<Rightarrow> '' '' @ [CHR 0xE2, CHR 0x80, CHR 0x94] @ '' failed checks: '' @ join '', '' (c # cs)
      | _ \<Rightarrow> [])"

definition reviews_outcome :: "string option \<Rightarrow> PrInfo \<Rightarrow> PrMonitorState \<Rightarrow> VesselOutcome" where
  "reviews_outcome ticket pr state = VoReviews ticket (pi_number pr) (monitor_as_str state) (Some (pi_head_sha pr))"

text \<open>The outcome of the merge attempt of \<open>process_single_pr\<close>.\<close>

definition merge_outcome :: "World \<Rightarrow> string option \<Rightarrow> PrInfo \<Rightarrow> MergeResult result \<Rightarrow> VesselOutcome vessel" where
  "merge_outcome w ticket pr attempt =
     (case attempt of
        Inr r \<Rightarrow>
          if mr_merged r
          then v_ret (VoMerged (case ticket of Some t \<Rightarrow> t | None \<Rightarrow> ''T-'' @ show_u64 (pi_number pr)) (pi_number pr)
            (text_or_empty (mr_sha r)) (pi_title pr) (pi_body pr))
          else if is_merge_conflict_message (mr_message r) then handle_conflicts w pr
          else if is_merge_refused_pending_review (mr_message r) then v_ret (reviews_outcome ticket pr MonNeedsReview)
          else v_ret (VoMergeBlocked ticket (pi_number pr) (mr_message r))
      | Inl e \<Rightarrow>
          if is_merge_conflict_message e then handle_conflicts w pr
          else v_ret (VoMergeBlocked ticket (pi_number pr) e))"

text \<open>Is the lifecycle readable and not yet ready? Then the pull request stays pending.\<close>

definition waits_for_lifecycle :: "World \<Rightarrow> string option \<Rightarrow> string \<Rightarrow> bool vessel" where
  "waits_for_lifecycle w ticket head =
     (case ticket of
        None \<Rightarrow> v_ret False
      | Some t \<Rightarrow>
          v_then (v_try (v_lifecycle w t)) (\<lambda>r.
            v_ret (case r of Inr state \<Rightarrow> \<not> merge_ready state head | Inl _ \<Rightarrow> False)))"

definition process_green :: "World \<Rightarrow> string option \<Rightarrow> PrInfo \<Rightarrow> ReworkEvidence option \<Rightarrow> VesselOutcome vessel" where
  "process_green w ticket pr evidence =
     v_then (ask w (\<lambda>n. wd_reviews w n (pi_number pr))) (\<lambda>reviews.
     v_then (ask w (\<lambda>n. wd_comments w n (pi_number pr))) (\<lambda>comments.
       let state = classify (wd_parse_ts w) reviews comments pr CiSuccess evidence in
       if state = MonConflicts \<or> has_conflicts pr then handle_conflicts w pr
       else if state = MonNeedsReview then v_ret (reviews_outcome ticket pr MonNeedsReview)
       else if state = MonChangesRequested \<or> state = MonComments
       then v_then (ask w (\<lambda>n. ())) (\<lambda>_. v_ret (reviews_outcome ticket pr state))
       else
         v_then (waits_for_lifecycle w ticket (pi_head_sha pr)) (\<lambda>waits.
           if waits then v_ret (reviews_outcome ticket pr MonNeedsReview)
           else v_then (v_try (merge_reviewed w pr)) (merge_outcome w ticket pr))))"

definition process_polled :: "World \<Rightarrow> string option \<Rightarrow> PrInfo \<Rightarrow> ReworkEvidence option \<Rightarrow> VesselOutcome vessel" where
  "process_polled w ticket pr evidence =
     v_then (ask_ok w (\<lambda>n. poll_until_terminal (wd_poll_config w) (wd_ci_poll w n (pi_head_sha pr)) (wd_mergeable w n (pi_number pr))))
       (\<lambda>poll.
         case poll of
           PollStatus status \<Rightarrow>
             if status = CiSuccess then process_green w ticket pr evidence
             else
               v_then (ask w (\<lambda>n. wd_failed_checks w n (pi_head_sha pr))) (\<lambda>checks.
                 v_ret (VoCiFailed ticket (pi_number pr) (ci_failure_reason status checks)))
         | PollConflicts \<Rightarrow> handle_conflicts w pr
         | PollTimeout \<Rightarrow> v_ret (VoCiTimeout ticket (pi_number pr)))"

definition process_single_pr :: "World \<Rightarrow> PrInfo \<Rightarrow> ReworkEvidence option \<Rightarrow> VesselOutcome vessel" where
  "process_single_pr w pr evidence =
     (let ticket = (if is_docs_pr pr then Some ''T-DOCS'' else pi_ticket_id pr) in
      if is_docs_pr pr \<and> has_conflicts pr then close_docs_pr_with_conflicts w pr
      else if is_docs_pr pr \<and> pi_mergeable pr = None
      then
        v_then (ask_ok w (\<lambda>n. wd_pull_request w n (pi_number pr))) (\<lambda>fresh.
          if has_conflicts fresh then close_docs_pr_with_conflicts w fresh else process_polled w ticket pr evidence)
      else process_polled w ticket pr evidence)"

section \<open>The execution phase\<close>

text \<open>One entry of the queue; \<open>None\<close> is an entry that is skipped or deferred.\<close>

definition confirm_merged :: "World \<Rightarrow> string \<Rightarrow> Lifecycle \<Rightarrow> PrInfo \<Rightarrow> u64 \<Rightarrow> string \<Rightarrow> VesselOutcome option vessel" where
  "confirm_merged w ticket state pr number sha =
     v_then (if lc_phase state \<noteq> Done
             then v_then (v_transition w ticket (lc_version state) ''vessel'' (ReconcileMerged number sha)) (\<lambda>_. v_ret ())
             else v_ret ()) (\<lambda>_.
       v_ret (Some (VoMerged ticket number sha (pi_title pr) (pi_body pr))))"

definition process_submitted :: "World \<Rightarrow> string \<Rightarrow> Lifecycle \<Rightarrow> PrInfo \<Rightarrow> u64 \<Rightarrow> VesselOutcome option vessel" where
  "process_submitted w ticket state pr number =
     v_then (get_rework_evidence w number) (\<lambda>evidence.
     v_then
       (if merge_ready state (pi_head_sha pr) then v_ret True
        else
          v_then (reconcile_github_approval w ticket state number (pi_head_sha pr) evidence) (\<lambda>reconciled.
          v_then (if reconciled
                  then v_then (v_lifecycle w ticket) (\<lambda>now. v_ret (merge_ready now (pi_head_sha pr)))
                  else v_ret False) (\<lambda>ready.
            if ready then v_ret True else check_pr_needs_rework w pr evidence)))
       (\<lambda>proceed.
         if proceed then v_then (process_single_pr w pr evidence) (\<lambda>o'. v_ret (Some o')) else v_ret None))"

definition process_owned :: "World \<Rightarrow> string \<Rightarrow> PrInfo \<Rightarrow> u64 \<Rightarrow> VesselOutcome option vessel" where
  "process_owned w ticket pr number =
     v_then (v_lifecycle w ticket) (\<lambda>state.
     v_then (ask_ok w (\<lambda>n. wd_confirmed_merge_sha w n number)) (\<lambda>merged.
       case merged of
         Some sha \<Rightarrow> confirm_merged w ticket state pr number sha
       | None \<Rightarrow>
           if lc_merge_pending state then v_ret None
           else if lc_phase state \<noteq> Submit then v_ret None
           else if lc_head state \<noteq> Some (pi_head_sha pr)
           then v_then (v_transition w ticket (lc_version state) ''vessel'' (Move Building None)) (\<lambda>_. v_ret None)
           else process_submitted w ticket state pr number))"

definition process_entry :: "World \<Rightarrow> json \<Rightarrow> VesselOutcome option vessel" where
  "process_entry w entry =
     (let number = (case Option.bind (json_get entry ''number'') as_u64 of Some n \<Rightarrow> n | None \<Rightarrow> 0) in
      if number = 0 then v_ret None
      else
        v_then (ask w (\<lambda>n. wd_pull_request w n number)) (\<lambda>answer.
          case answer of
            Inl _ \<Rightarrow> v_ret None
          | Inr pr \<Rightarrow>
             (case (case Option.bind (json_get entry ''ticket_id'') as_str of Some t \<Rightarrow> Some t | None \<Rightarrow> pi_ticket_id pr) of
                Some ticket \<Rightarrow>
                  if blank ticket
                  then v_ret (Some (VoUnmanaged number ''PR has no lifecycle ticket; manual review and merge required''))
                  else process_owned w ticket (pr\<lparr>pi_ticket_id := Some ticket\<rparr>) number
              | None \<Rightarrow> v_ret (Some (VoUnmanaged number ''PR has no lifecycle ticket; manual review and merge required'')))))"

fun vessel_exec :: "World \<Rightarrow> json list \<Rightarrow> VesselOutcome list vessel" where
  "vessel_exec w [] = v_ret []"
| "vessel_exec w (entry # entries) =
     v_then (process_entry w entry) (\<lambda>o'.
     v_then (vessel_exec w entries) (\<lambda>rest. v_ret (case o' of Some x \<Rightarrow> x # rest | None \<Rightarrow> rest)))"

end
