(* ===== verification/Vessel_Runs.thy ===== *)
theory Vessel_Runs
  imports Vessel_Node Store_Properties
begin

text \<open>
  Runs of VESSEL beside the other controllers. The others act on the shared store by the operations of
  \<open>Store_Properties\<close>, never in VESSEL's name, and do not escalate tickets, which only NEXUS does. A stored ticket whose version is unchanged is unchanged, and a ticket
  with a pending merge cannot be changed by them at all. The rules of \<open>keeps\<close> carry an invariant of VESSEL's state
  through a computation, and the locale collects what every computation needs of the invariant.
\<close>

section \<open>The other controllers\<close>

text \<open>
  Neither VESSEL's own transitions nor NEXUS's escalations run beside VESSEL: the flow runs one node at a time.
\<close>

fun flow_node_op :: "StoreOp \<Rightarrow> bool" where
  "flow_node_op (OpTransition tk v a e t) = (to_lowercase a = ''vessel'')"
| "flow_node_op (OpEscalate tk) = True"
| "flow_node_op _ = False"

definition others_run :: "SharedStore \<Rightarrow> SharedStore \<Rightarrow> bool" where
  "others_run s s' \<longleftrightarrow> (\<exists>ls. length ls < 2 ^ 62 \<and> \<not> list_ex flow_node_op ls \<and> store_run s ls s')"

text \<open>Before each of VESSEL's turns the others run fewer than \<open>2 ^ 62\<close> operations.\<close>

definition beside_others :: "World \<Rightarrow> bool" where
  "beside_others w \<longleftrightarrow> (\<forall>n s. others_run s (wd_env w n s))"

lemma not_escalated: "\<not> list_ex flow_node_op ls \<Longrightarrow> OpEscalate tk \<notin> set ls"
  by (auto simp: list_ex_iff)

text \<open>While a merge is pending, only VESSEL changes the ticket.\<close>

lemma pending_needs_vessel:
  assumes "lc_apply s a e t = Ok n" and "lc_merge_pending s"
  shows "to_lowercase a = ''vessel''"
proof -
  from assms have "reconciles e" by (auto simp: lc_apply_def Let_def)
  with assms show ?thesis by (cases e) (auto simp: lc_apply_def Let_def apply_arm_defs bind_result_Ok)
qed

lemma store_run_pending:
  assumes "store_run s ls s'" and "\<not> list_ex flow_node_op ls" and "store_lifecycle s tk = Ok a" and "lc_merge_pending a"
  shows "store_lifecycle s' tk = Ok a"
  using assms(1-3)
proof (induction ls arbitrary: s)
  case (Cons l ls)
  then obtain u where u: "store_step s l u" "store_run u ls s'" by auto
  have "store_lifecycle u tk = Ok a"
    using store_step_read [OF u(1) Cons.prems(3)] not_escalated [OF Cons.prems(2)] pending_needs_vessel assms(4) Cons.prems(2) by fastforce
  then show ?case using Cons.IH [OF u(2)] Cons.prems(2) by simp
qed simp

lemma others_run_pending:
  "others_run s s' \<Longrightarrow> store_lifecycle s tk = Ok a \<Longrightarrow> lc_merge_pending a \<Longrightarrow> store_lifecycle s' tk = Ok a"
  by (auto simp: others_run_def dest: store_run_pending)

lemma others_run_tickets_ok: "others_run s s' \<Longrightarrow> tickets_ok s \<Longrightarrow> tickets_ok s'"
  by (auto simp: others_run_def dest: store_run_tickets_ok)

text \<open>Across two turns of the others, a ticket with the same version is the same ticket.\<close>

lemma same_version_same_ticket:
  assumes "others_run s s1" and "others_run s1 s2" and "store_lifecycle s tk = Ok a"
    and "store_lifecycle s2 tk = Ok b" and "lc_version b = lc_version a"
  shows "b = a"
proof -
  from assms(1) obtain ls where ls: "length ls < 2 ^ 62" "store_run s ls s1" "\<not> list_ex flow_node_op ls" by (auto simp: others_run_def)
  from assms(2) obtain ms where ms: "length ms < 2 ^ 62" "store_run s1 ms s2" "\<not> list_ex flow_node_op ms" by (auto simp: others_run_def)
  from store_run_version [OF ls(2) assms(3) not_escalated [OF ls(3)]] obtain k c where k: "k \<le> length ls" "store_lifecycle s1 tk = Ok c"
    "lc_version c = lc_version a + of_nat k" "k = 0 \<longrightarrow> c = a" by blast
  from store_run_version [OF ms(2) k(2) not_escalated [OF ms(3)]] assms(4) obtain j where j: "j \<le> length ms"
    "lc_version b = lc_version c + of_nat j" "j = 0 \<longrightarrow> b = c" by auto
  have "of_nat (k + j) = (0 :: u64)" using assms(5) k(3) j(2) by (simp add: algebra_simps)
  moreover have "k + j < 2 ^ 64" using k(1) j(1) ls(1) ms(1) by simp
  ultimately have "k + j = 0" using word_of_nat_eq_0_iff [where 'a = 64, of "k + j"] by (auto simp: dvd_imp_le)
  then show ?thesis using k(4) j(3) by simp
qed

section \<open>Invariants of VESSEL's computations\<close>

definition keeps :: "(VesselState \<Rightarrow> bool) \<Rightarrow> 'a vessel \<Rightarrow> bool" where
  "keeps P m \<longleftrightarrow> (\<forall>s. P s \<longrightarrow> P (snd (m s)))"

lemmas vessel_defs = v_ret_def v_fail_def v_then_def v_ensure_def ask_def ask_ok_def v_log_def v_request_def
  v_lifecycle_def v_transition_def v_get_def v_put_def v_try_def turn_def Let_def

lemma keepsD: "keeps P m \<Longrightarrow> P s \<Longrightarrow> P (snd (m s))"
  by (simp add: keeps_def)

lemma keeps_pure [simp]: "keeps P (v_ret x)" "keeps P (v_fail e)"
  by (simp_all add: keeps_def v_ret_def v_fail_def)

lemma keeps_then:
  assumes "keeps P m" and "\<And>x. keeps P (f x)"
  shows "keeps P (v_then m f)"
proof -
  have "P (snd (v_then m f s))" if "P s" for s
    using keepsD [OF assms(1) that] keepsD [OF assms(2)]
    by (cases "m s"; cases "fst (m s)") (auto simp: v_then_def)
  then show ?thesis by (simp add: keeps_def)
qed

lemma keeps_ensure: "keeps P m \<Longrightarrow> keeps P (v_ensure b e m)"
  by (simp add: v_ensure_def)

lemma keeps_try: "keeps P m \<Longrightarrow> keeps P (v_try m)"
  by (auto simp: keeps_def v_try_def split: prod.splits)

text \<open>
  An invariant that the others' turns keep, that VESSEL's store transitions keep, and that writes of keys other than
  a ticket's status keep.
\<close>

locale vessel_invariant =
  fixes w :: World and P :: "VesselState \<Rightarrow> bool"
  assumes others: "P s \<Longrightarrow> P (turn w s)"
    and commit: "P s \<Longrightarrow> store_transition (vs_store s) tk v a e t = Ok (st, n) \<Longrightarrow> P (s\<lparr>vs_store := st\<rparr>)"
    and stored: "P s \<Longrightarrow> not_status k \<Longrightarrow> P (s\<lparr>vs_store := store_set (vs_store s) k x\<rparr>)"
    and deleted: "P s \<Longrightarrow> not_status k \<Longrightarrow> P (s\<lparr>vs_store := store_del (vs_store s) k\<rparr>)"
begin

lemma keeps_ask: "keeps P (ask w f)"
  by (simp add: keeps_def ask_def others)

lemma keeps_ask_ok: "keeps P (ask_ok w f)"
  by (auto simp: keeps_def ask_ok_def v_then_def ask_def others)

lemma keeps_lifecycle: "keeps P (v_lifecycle w tk)"
  by (simp add: keeps_def v_lifecycle_def Let_def others)

lemma keeps_get: "keeps P (v_get w f)"
  by (simp add: keeps_def v_get_def Let_def others)

lemma keeps_transition: "keeps P (v_transition w tk v a e)"
  by (auto simp: keeps_def v_transition_def Let_def others commit split: sum.splits)

lemma keeps_set: "not_status k \<Longrightarrow> keeps P (v_put w (\<lambda>st. store_set st k x))"
  by (simp add: keeps_def v_put_def Let_def others stored)

lemma keeps_del: "not_status k \<Longrightarrow> keeps P (v_put w (\<lambda>st. store_del st k))"
  by (simp add: keeps_def v_put_def Let_def others deleted)

lemmas keeps_steps = keeps_then keeps_ensure keeps_try keeps_ask keeps_ask_ok keeps_lifecycle keeps_get keeps_transition

end

text \<open>The keys that VESSEL writes are never a ticket's status.\<close>

lemma vessel_keys [simp]:
  "not_status (address_review_attempts_key n)" "not_status (address_review_dispatched_key n)"
  "not_status (address_review_dispatched_at_key n)" "not_status ''tickets''"
  by (simp_all add: not_status_def status_key_def address_review_attempts_key_def address_review_dispatched_key_def
      address_review_dispatched_at_key_def)

context vessel_invariant
begin

lemma keeps_reconcile: "keeps P (reconcile_github_approval w ticket state pr head evidence)"
  unfolding reconcile_github_approval_def record_human_def record_sentinel_def record_delivery_def
    reset_address_review_attempts_def clear_address_review_dispatched_def unblock_tickets_def
  by (auto intro!: keeps_steps keeps_set keeps_del simp: Let_def split: sum.splits option.splits)

lemma keeps_conflicts: "keeps P (handle_conflicts w pr)"
  unfolding handle_conflicts_def close_docs_pr_with_conflicts_def
  by (auto intro!: keeps_steps split: option.splits)

lemma keeps_merge_outcome: "keeps P (merge_outcome w ticket pr attempt)"
  by (auto simp: merge_outcome_def keeps_conflicts split: sum.splits)

end

text \<open>If moreover the merge itself keeps the invariant, then so does the whole execution phase.\<close>

locale vessel_merge_invariant = vessel_invariant +
  assumes merges: "keeps P (merge_reviewed w pr)"
begin

lemma keeps_green: "keeps P (process_green w ticket pr evidence)"
  unfolding process_green_def waits_for_lifecycle_def
  by (auto intro!: keeps_steps keeps_conflicts merges keeps_merge_outcome simp: Let_def split: option.splits)

lemma keeps_single: "keeps P (process_single_pr w pr evidence)"
  unfolding process_single_pr_def process_polled_def close_docs_pr_with_conflicts_def
  by (auto intro!: keeps_steps keeps_conflicts keeps_green simp: Let_def split: CiPollResult.splits)

lemma keeps_submitted: "keeps P (process_submitted w ticket state pr number)"
  unfolding process_submitted_def get_rework_evidence_def check_pr_needs_rework_def
  by (auto intro!: keeps_steps keeps_reconcile keeps_single simp: Let_def)

lemma keeps_entry: "keeps P (process_entry w entry)"
  unfolding process_entry_def process_owned_def confirm_merged_def
  by (auto intro!: keeps_steps keeps_submitted simp: Let_def split: option.splits sum.splits)

lemma keeps_exec: "keeps P (vessel_exec w entries)"
  by (induction entries) (auto intro!: keeps_then keeps_entry split: option.splits)

end

end
