(* ===== verification/Vessel_Guarantees.thy ===== *)
theory Vessel_Guarantees
  imports Vessel_Runs
begin

text \<open>
  What VESSEL guarantees: which requests to merge it sends to GitHub while other controllers use the same store, which
  GitHub approvals it records, how an unknown outcome is settled, and what its classification of a pull request and
  the CI status it acts on mean.
\<close>

section \<open>Reservations\<close>

definition reserved :: "SharedStore \<Rightarrow> string \<Rightarrow> u64 \<Rightarrow> string \<Rightarrow> bool" where
  "reserved st ticket number head \<longleftrightarrow>
     (\<exists>cur. store_lifecycle st ticket = Ok cur \<and> lc_merge_pending cur \<and> merge_ready cur head \<and> lc_pr_number cur = Some number)"

text \<open>What is true of the stored ticket when GitHub receives a merge request: every gate of the lifecycle is passed.\<close>

definition merge_justified :: "Lifecycle \<Rightarrow> u64 \<Rightarrow> string \<Rightarrow> bool" where
  "merge_justified cur number head \<longleftrightarrow>
     lc_merge_pending cur \<and> merge_ready cur head \<and> lc_pr_number cur = Some number \<and> plan_gate cur \<and> test_gate cur \<and>
     (\<exists>ds dh. lc_pr_decision cur = Some ds \<and> lc_pr_human cur = Some dh \<and>
        d_approved ds \<and> d_actor ds = ''sentinel'' \<and> d_head ds = Some head \<and> d_pr_number ds = Some number \<and>
        d_approved dh \<and> d_actor dh = ''human'' \<and> d_head dh = Some head \<and> d_pr_number dh = Some number)"

lemma ready_justified:
  assumes "lc_reachable cur" and "lc_merge_pending cur" and "merge_ready cur head" and "lc_pr_number cur = Some number"
  shows "merge_justified cur number head"
proof -
  have "phase_inv cur" by (rule lc_reachable_phase_inv [OF assms(1)])
  with assms show ?thesis
    by (auto simp: merge_justified_def merge_ready_def phase_inv_def pr_current_def is_some_and_iff is_none_or_iff)
qed

definition requests_ok :: "VesselCall list \<Rightarrow> bool" where
  "requests_ok calls \<longleftrightarrow>
     (\<forall>i < length calls. \<forall>ticket number head r. calls ! i = MergeRequested ticket number head r \<longrightarrow>
        0 < i \<and> calls ! (i - 1) = CiRead head CiSuccess \<and> (\<exists>cur. r = Ok cur \<and> merge_justified cur number head))"

lemma requests_ok_ci: "requests_ok calls \<Longrightarrow> requests_ok (calls @ [CiRead head ci])"
  by (auto simp: requests_ok_def nth_append less_Suc_eq)

lemma requests_ok_request:
  assumes "requests_ok calls" and "calls \<noteq> []" and "last calls = CiRead head CiSuccess" and "merge_justified cur number head"
  shows "requests_ok (calls @ [MergeRequested ticket number head (Ok cur)])"
  using assms by (auto simp: requests_ok_def nth_append less_Suc_eq last_conv_nth)

definition vessel_inv :: "World \<Rightarrow> VesselState \<Rightarrow> bool" where
  "vessel_inv w s \<longleftrightarrow> (beside_others w \<longrightarrow> tickets_ok (vs_store s) \<and> requests_ok (vs_log s))"

lemma turn_others: "beside_others w \<Longrightarrow> others_run (vs_store s) (vs_store (turn w s))"
  by (simp add: beside_others_def turn_def)

lemma turn_log [simp]: "vs_log (turn w s) = vs_log s"
  by (simp add: turn_def)

lemma turn_reserved:
  "beside_others w \<Longrightarrow> reserved (vs_store s) ticket number head \<Longrightarrow> reserved (vs_store (turn w s)) ticket number head"
  unfolding reserved_def using others_run_pending [OF turn_others] by blast

text \<open>Taking the reservation: what was read two turns ago is still the stored ticket when it is reserved.\<close>

lemma begin_merge_reserves:
  assumes w: "beside_others w" and r: "store_lifecycle (vs_store s) ticket = Ok state"
    and ready: "merge_ready state head" "lc_pr_number state = Some number"
    and run: "begin_merge w ticket head state ((turn w s)\<lparr>vs_log := l\<rparr>) = (Ok now, s')"
  shows "reserved (vs_store s') ticket number head \<and> vs_log s' = l"
proof (cases "lc_merge_pending state")
  case True
  then have "reserved (vs_store (turn w s)) ticket number head"
    using turn_reserved [OF w] r ready by (auto simp: reserved_def)
  then show ?thesis using run True by (auto simp: begin_merge_def v_ret_def)
next
  case False
  let ?u = "(turn w s)\<lparr>vs_log := l\<rparr>"
  from run False obtain st where st:
    "store_transition (vs_store (turn w ?u)) ticket (lc_version state) ''vessel'' (BeginMerge head) (wd_clock w (vs_turn ?u)) = Ok (st, now)"
    and s': "s' = (turn w ?u)\<lparr>vs_store := st\<rparr>"
    by (auto simp: begin_merge_def v_transition_def Let_def split: sum.splits)
  from mem_store.cas_commits [OF st] obtain cur where cur: "store_lifecycle (vs_store (turn w ?u)) ticket = Ok cur"
    "lc_version cur = lc_version state" "lc_apply cur ''vessel'' (BeginMerge head) (wd_clock w (vs_turn ?u)) = Ok now"
    and now: "store_lifecycle st ticket = Ok now" by blast
  have "cur = state"
    using same_version_same_ticket [OF turn_others [OF w] _ r cur(1,2)] turn_others [OF w, of ?u] by simp
  with cur(3) ready have "lc_merge_pending now \<and> merge_ready now head \<and> lc_pr_number now = Some number"
    by (auto simp: lc_apply_def Let_def bind_result_Ok apply_begin_merge_def stamp_def merge_ready_def)
  then show ?thesis using now s' by (auto simp: reserved_def)
qed

section \<open>The invariant of VESSEL's runs\<close>

interpretation merging: vessel_invariant w "vessel_inv w" for w
proof unfold_locales
  fix s assume "vessel_inv w s"
  then show "vessel_inv w (turn w s)"
    using others_run_tickets_ok turn_others by (auto simp: vessel_inv_def)
next
  fix s tk v a e t st n
  assume "vessel_inv w s" and "store_transition (vs_store s) tk v a e t = Ok (st, n)"
  then show "vessel_inv w (s\<lparr>vs_store := st\<rparr>)"
    using store_step_tickets_ok [of "vs_store s" "OpTransition tk v a e t" st] by (auto simp: vessel_inv_def)
next
  fix s k x
  assume "vessel_inv w s" and "not_status k"
  then show "vessel_inv w (s\<lparr>vs_store := store_set (vs_store s) k x\<rparr>)" "vessel_inv w (s\<lparr>vs_store := store_del (vs_store s) k\<rparr>)"
    using store_step_tickets_ok [of "vs_store s" "OpSet k x"] store_step_tickets_ok [of "vs_store s" "OpDel k"]
    by (auto simp: vessel_inv_def)
qed

lemma begin_merge_keeps: "keeps (vessel_inv w) (begin_merge w ticket head state)"
  by (simp add: begin_merge_def merging.keeps_transition)

lemma request_merge_inv:
  assumes "vessel_inv w s" and "beside_others w" and "reserved (vs_store s) ticket (pi_number pr) (pi_head_sha pr)"
    and "vs_log s = l @ [CiRead (pi_head_sha pr) CiSuccess]"
  shows "vessel_inv w (snd (request_merge w ticket pr state s))"
proof -
  let ?s1 = "turn w s"
  obtain cur where cur: "store_lifecycle (vs_store ?s1) ticket = Ok cur" "lc_merge_pending cur" "merge_ready cur (pi_head_sha pr)"
    "lc_pr_number cur = Some (pi_number pr)"
    using turn_reserved [OF assms(2,3)] by (auto simp: reserved_def)
  let ?s2 = "?s1\<lparr>vs_log := vs_log s @ [MergeRequested ticket (pi_number pr) (pi_head_sha pr) (Ok cur)]\<rparr>"
  have ok: "tickets_ok (vs_store ?s1)" "requests_ok (vs_log s)"
    using merging.others [OF assms(1)] assms(2) by (auto simp: vessel_inv_def)
  then have "vessel_inv w ?s2"
    using requests_ok_request [of "vs_log s"] ready_justified [OF _ cur(2-4)] cur(1) assms(4)
    by (auto simp: vessel_inv_def tickets_ok_def)
  moreover have "keeps (vessel_inv w) (v_then (ask w f) (settle_merge w ticket pr state))" for f
    unfolding settle_merge_def
    by (auto intro!: keeps_then merging.keeps_ask merging.keeps_transition split: sum.splits option.splits)
  ultimately show ?thesis
    using cur(1) by (simp add: request_merge_def v_then_def v_request_def v_log_def Let_def keeps_def)
qed

lemma merge_reviewed_keeps: "keeps (vessel_inv w) (merge_reviewed w pr)"
proof (cases "pi_ticket_id pr")
  case (Some ticket)
  let ?h = "pi_head_sha pr"
  have "vessel_inv w (snd (merge_reviewed w pr s))" if inv: "vessel_inv w s" and w: "beside_others w" for s
  proof -
    let ?s1 = "turn w s" and ?s2 = "turn w (turn w s)"
    have i2: "vessel_inv w ?s1" "vessel_inv w ?s2" using inv by (simp_all add: merging.others)
    have i3: "vessel_inv w (?s2\<lparr>vs_log := vs_log s @ [CiRead ?h ci]\<rparr>)" for ci
      using i2(2) w by (simp add: vessel_inv_def requests_ok_ci)
    show ?thesis
    proof (cases "store_lifecycle (vs_store ?s1) ticket")
      case (Inr state)
      show ?thesis
      proof (cases "merge_ready state ?h \<and> lc_pr_number state = Some (pi_number pr) \<and> wd_ci_status w (vs_turn ?s1) ?h = Ok CiSuccess")
        case True
        let ?s3 = "?s2\<lparr>vs_log := vs_log s @ [CiRead ?h CiSuccess]\<rparr>"
        obtain r s4 where b: "begin_merge w ticket ?h state ?s3 = (r, s4)" by force
        have eq: "merge_reviewed w pr s = (case (r, s4) of (Inl e, s') \<Rightarrow> (Err e, s') | (Inr x, s') \<Rightarrow> request_merge w ticket pr x s')"
          using Some Inr True b
          by (simp add: merge_reviewed_def v_then_def v_lifecycle_def Let_def v_ensure_def ask_ok_def ask_def v_log_def)
        have "vessel_inv w s4" using keepsD [OF begin_merge_keeps i3] b by (metis snd_conv)
        then show ?thesis
          using eq request_merge_inv begin_merge_reserves [OF w Inr] True b w
          by (cases r) auto
      next
        case False
        then show ?thesis using Some Inr i2 i3
          by (cases "wd_ci_status w (vs_turn ?s1) ?h")
            (auto simp: merge_reviewed_def v_then_def v_lifecycle_def Let_def v_ensure_def ask_ok_def ask_def v_log_def v_fail_def)
      qed
    qed (use Some i2 in \<open>simp add: merge_reviewed_def v_then_def v_lifecycle_def Let_def\<close>)
  qed
  moreover have "vessel_inv w s" if "\<not> beside_others w" for s using that by (simp add: vessel_inv_def)
  ultimately show ?thesis by (auto simp: keeps_def)
qed (simp add: merge_reviewed_def)

interpretation merging: vessel_merge_invariant w "vessel_inv w" for w
  by unfold_locales (rule merge_reviewed_keeps)

section \<open>A concrete run\<close>

definition demo_review :: PrReview where
  "demo_review = \<lparr>rv_state = ''APPROVED'', rv_user = Some ''ann'', rv_submitted_at = Some ''2026-01-02T00:00:00Z'',
     rv_body = None, rv_commit_id = Some ''c0ffee'', rv_author_association = Some ''MEMBER''\<rparr>"

definition demo_pull :: PrInfo where
  "demo_pull = \<lparr>pi_number = 7, pi_head_sha = ''c0ffee'', pi_head_branch = ''forge-1/T-1'', pi_base_branch = ''main'',
     pi_ticket_id = Some ''T-1'', pi_title = ''Add parser'', pi_body = None, pi_state = PrOpen, pi_mergeable = Some True\<rparr>"

definition demo_github :: World where
  "demo_github = \<lparr>wd_env = (\<lambda>_ s. s), wd_clock = (\<lambda>_. 9), wd_parse_ts = (\<lambda>_. None),
     wd_poll_config = \<lparr>cp_interval_secs = 30, cp_max_attempts = 20, cp_repo_intervals = []\<rparr>,
     wd_pull_request = (\<lambda>_ _. Ok demo_pull), wd_confirmed_merge_sha = (\<lambda>_ _. Ok None),
     wd_ci_status = (\<lambda>_ _. Ok CiSuccess), wd_ci_poll = (\<lambda>_ _ _. Ok CiSuccess), wd_mergeable = (\<lambda>_ _ _. Ok (Some True)),
     wd_reviews = (\<lambda>_ _. Ok [demo_review]), wd_comments = (\<lambda>_ _. Ok []),
     wd_merge = (\<lambda>_ _ _ _. Ok \<lparr>mr_merged = True, mr_sha = Some ''abc'', mr_message = ''merged''\<rparr>),
     wd_close = (\<lambda>_ _. Ok ()), wd_failed_checks = (\<lambda>_ _. Ok []), wd_conflicted_files = (\<lambda>_ _. [])\<rparr>"

definition demo_entry :: json where
  "demo_entry = JObj [(''number'', JNum (PosInt 7)), (''ticket_id'', JStr ''T-1'')]"

definition demo_store :: "Lifecycle \<Rightarrow> SharedStore" where
  "demo_store cur = backend_set new_in_memory (ns_key (ss_tenant new_in_memory) (status_key ''T-1'')) (lifecycle_to_json cur)"

definition demo_vessel :: "Lifecycle \<Rightarrow> VesselState" where
  "demo_vessel cur = \<lparr>vs_turn = 0, vs_store = demo_store cur, vs_log = []\<rparr>"

lemma demo_beside: "beside_others (demo_github\<lparr>wd_confirmed_merge_sha := f\<rparr>)" "beside_others demo_github"
  by (auto simp: beside_others_def demo_github_def others_run_def intro!: exI [of _ "[]"])

lemma empty_store: "backend_get new_in_memory k = None"
  by (simp add: new_in_memory_def new_in_memory_with_tenant_def backend_get_def)

lemma demo_read:
  assumes "lc_reachable cur"
  shows "store_lifecycle (demo_store cur) tk = Ok (if tk = ''T-1'' then cur else default_lifecycle)"
proof -
  show ?thesis
    using lcdel.reach_inv [OF assms]
    by (simp add: demo_store_def store_lifecycle_def backend_get_set empty_store decode_encode scrub_named decode_lifecycle_def)
qed

lemma demo_tickets_ok: "lc_reachable cur \<Longrightarrow> tickets_ok (demo_store cur)"
  by (auto simp: tickets_ok_def demo_read default_reachable)

lemma demo_ready_state: "classify parse_ts (Ok [demo_review]) (Ok []) demo_pull CiSuccess None = MonReadyForMerge"
  by (simp add: classify_def classify_from_parts_def unwrap_or_default_def applicable_reviews_def latest_review_per_user_def
      candidate_review_state_def is_authorized_head_approval_def is_authorized_reviewer_def state_enum_def from_api_state_def demo_review_def demo_pull_def)

text \<open>The run of VESSEL on one merge-ready ticket reads CI and sends one request.\<close>

lemma demo_turn: "turn demo_github u = u\<lparr>vs_turn := vs_turn u + 1\<rparr>"
  by (simp add: turn_def demo_github_def)

lemma demo_world:
  "wd_ci_status demo_github = (\<lambda>_ _. Ok CiSuccess)" "wd_clock demo_github = (\<lambda>_. 9)"
  "wd_pull_request demo_github = (\<lambda>_ _. Ok demo_pull)" "wd_confirmed_merge_sha demo_github = (\<lambda>_ _. Ok None)"
  "wd_reviews demo_github = (\<lambda>_ _. Ok [demo_review])" "wd_comments demo_github = (\<lambda>_ _. Ok [])"
  "poll_until_terminal (wd_poll_config demo_github) (wd_ci_poll demo_github n h) m = Ok (PollStatus CiSuccess)"
  "pi_ticket_id demo_pull = Some ''T-1''" "pi_number demo_pull = 7" "pi_head_sha demo_pull = ''c0ffee''"
  "has_conflicts demo_pull = False" "is_docs_pr demo_pull = False" "demo_pull\<lparr>pi_ticket_id := Some ''T-1''\<rparr> = demo_pull"
  by (simp_all add: demo_github_def demo_pull_def has_conflicts_def is_docs_pr_def poll_until_terminal_def
      poll_from.simps [of 20])

lemma demo_no_evidence: "not_status k \<Longrightarrow> store_get_typed de (demo_store cur) k = None"
  using backend_get_set [of new_in_memory] by (auto simp: store_get_typed_def store_get_def demo_store_def not_status_def empty_store)

interpretation quiet: vessel_invariant w "\<lambda>s. vs_log s = l" for w l
  by unfold_locales simp_all

lemma settle_log: "vs_log (snd (settle_merge w ticket pr state answer s)) = vs_log s"
proof (rule keepsD)
  show "keeps (\<lambda>u. vs_log u = vs_log s) (settle_merge w ticket pr state answer)"
    by (auto intro!: keeps_then quiet.keeps_transition simp: settle_merge_def split: sum.splits option.splits)
qed simp

lemma demo_merge_log:
  assumes "lc_reachable cur" "merge_ready cur ''c0ffee''" "lc_pr_number cur = Some 7" "\<not> lc_merge_pending cur"
    and "vs_store s = demo_store cur"
  shows "\<exists>answer. vs_log (snd (merge_reviewed demo_github demo_pull s)) =
    vs_log s @ [CiRead ''c0ffee'' CiSuccess, MergeRequested ''T-1'' 7 ''c0ffee'' answer]"
proof -
  have read: "store_lifecycle (demo_store cur) ''T-1'' = Ok cur" using demo_read [OF assms(1)] by simp
  have "\<exists>n. lc_apply cur ''vessel'' (BeginMerge ''c0ffee'') 9 = Ok n"
    using assms(2-4) by (simp add: leg_simps merge_ready_def)
  then obtain n where "lc_apply cur ''vessel'' (BeginMerge ''c0ffee'') 9 = Ok n" ..
  then obtain st where st: "store_transition (demo_store cur) ''T-1'' (lc_version cur) ''vessel'' (BeginMerge ''c0ffee'') 9 = Ok (st, n)"
    using mem_store.cas_enabled [OF read refl] by blast
  show ?thesis
    using assms st read
    by (simp add: merge_reviewed_def request_merge_def begin_merge_def demo_world demo_turn v_then_def v_lifecycle_def v_ensure_def
        ask_ok_def ask_def v_log_def v_transition_def v_request_def Let_def settle_log)
qed

lemma demo_run_log:
  assumes "lc_reachable cur" "merge_ready cur ''c0ffee''" "lc_pr_number cur = Some 7" "\<not> lc_merge_pending cur"
  shows "\<exists>answer. vs_log (snd (vessel_exec demo_github [demo_entry] (demo_vessel cur))) =
    [CiRead ''c0ffee'' CiSuccess, MergeRequested ''T-1'' 7 ''c0ffee'' answer]"
proof -
  have read: "store_lifecycle (demo_store cur) ''T-1'' = Ok cur" using demo_read [OF assms(1)] by simp
  have cur: "lc_phase cur = Submit" "lc_head cur = Some ''c0ffee''" using assms(2) by (simp_all add: merge_ready_def)
  let ?s = "(demo_vessel cur)\<lparr>vs_turn := Suc (Suc (Suc (Suc (Suc (Suc (Suc (Suc (Suc 0))))))))\<rparr>"
  obtain r u where m: "merge_reviewed demo_github demo_pull ?s = (r, u)" by force
  have "process_entry demo_github demo_entry (demo_vessel cur) =
      (case merge_outcome demo_github (Some ''T-1'') demo_pull r u of (x, s') \<Rightarrow> (map_sum id Some x, s'))"
    using read cur assms(2,4) m
    by (simp add: process_entry_def process_owned_def process_submitted_def process_single_pr_def process_polled_def process_green_def
        get_rework_evidence_def waits_for_lifecycle_def demo_entry_def demo_vessel_def demo_world demo_turn demo_no_evidence demo_ready_state
        v_then_def v_ret_def v_try_def v_lifecycle_def v_get_def ask_ok_def ask_def Let_def
        blank_iff is_whitespace_def split: prod.splits sum.splits)
  then have "vs_log (snd (vessel_exec demo_github [demo_entry] (demo_vessel cur))) = vs_log (snd (merge_outcome demo_github (Some ''T-1'') demo_pull r u))"
    by (auto simp: v_then_def v_ret_def split: prod.splits sum.splits)
  also have "\<dots> = vs_log u" using keepsD [OF quiet.keeps_merge_outcome] by simp
  finally show ?thesis
    using demo_merge_log [OF assms, of ?s] m by (simp add: demo_vessel_def)
qed

section \<open>Properties\<close>

text \<open>
  C2 (safety). VESSEL sends GitHub a request to merge only for a reviewed candidate. Whatever the other controllers do
  to the shared store between VESSEL's steps, and whatever GitHub answers, each merge request of a run directly
  follows a successful CI answer for the same head, and when it is received the stored ticket is reserved for merging
  exactly this head and pull request, has an approved plan, a verified and approved test gate, and the approvals of
  SENTINEL and of a human for this head.
\<close>

theorem merge_requests_are_justified:
  assumes "beside_others w" and "tickets_ok (vs_store s)" and "vs_log s = []"
    and "vessel_exec w entries s = (r, s')"
    and "i < length (vs_log s')" and "vs_log s' ! i = MergeRequested ticket number head answer"
  shows "0 < i \<and> vs_log s' ! (i - 1) = CiRead head CiSuccess \<and> (\<exists>cur. answer = Ok cur \<and> merge_justified cur number head)"
proof -
  have "vessel_inv w s" using assms(2,3) by (simp add: vessel_inv_def requests_ok_def)
  then have "vessel_inv w s'" using keepsD [OF merging.keeps_exec] assms(4) by (metis snd_conv)
  then show ?thesis using assms(1,5,6) unfolding vessel_inv_def requests_ok_def by blast
qed

theorem merge_requests_are_justified_witness:
  "\<exists>cur r s'. lc_reachable cur \<and> vessel_exec demo_github [demo_entry] (demo_vessel cur) = (r, s') \<and>
     (\<exists>now. vs_log s' ! 1 = MergeRequested ''T-1'' 7 ''c0ffee'' (Ok now) \<and> merge_justified now 7 ''c0ffee'')"
proof -
  obtain cur where cur: "lc_reachable cur" "merge_ready cur ''c0ffee''" "lc_pr_number cur = Some 7" "\<not> lc_merge_pending cur"
    by (rule demo_ready)
  obtain r s' where run: "vessel_exec demo_github [demo_entry] (demo_vessel cur) = (r, s')" by force
  obtain answer where log: "vs_log s' = [CiRead ''c0ffee'' CiSuccess, MergeRequested ''T-1'' 7 ''c0ffee'' answer]"
    using demo_run_log [OF cur] run by auto
  from merge_requests_are_justified [OF demo_beside(2) _ _ run, of 1] demo_tickets_ok [OF cur(1)] log
  have "\<exists>now. answer = Ok now \<and> merge_justified now 7 ''c0ffee''" by (simp add: demo_vessel_def)
  then show ?thesis using cur(1) run log by auto
qed

text \<open>
  C5 (liveness). An unknown merge outcome is settled by GitHub's confirmation and by nothing else. If the stored ticket has
  a pending merge, then whatever the others do to the store: when GitHub confirms the merge, VESSEL reports it merged and
  the stored ticket is done with that merge commit; when GitHub does not confirm it, VESSEL reports nothing, sends
  no request and the ticket keeps its reservation unchanged.
\<close>

theorem pending_merge_is_settled_by_confirmation:
  assumes "beside_others w" and "tickets_ok (vs_store s)"
    and "store_lifecycle (vs_store s) ticket = Ok state" and "lc_merge_pending state"
    and "json_get entry ''number'' = Some (JNum (PosInt number))" and "number \<noteq> 0"
    and "json_get entry ''ticket_id'' = Some (JStr ticket)" and "\<not> blank ticket"
    and "wd_pull_request w (vs_turn s) number = Ok pr"
    and "\<And>n. wd_confirmed_merge_sha w n number = Ok confirmed" and "confirmed \<noteq> Some []"
  shows "\<exists>s' now. process_entry w entry s = (Ok (map_option (\<lambda>sha. VoMerged ticket number sha (pi_title pr) (pi_body pr)) confirmed), s') \<and>
    store_lifecycle (vs_store s') ticket = Ok now \<and> vs_log s' = vs_log s \<and>
    (case confirmed of
       Some sha \<Rightarrow> lc_phase now = Done \<and> lc_merge_sha now = Some sha \<and> lc_pr_number now = Some number \<and> \<not> lc_merge_pending now
     | None \<Rightarrow> now = state)"
proof -
  let ?s3 = "turn w (turn w (turn w s))" and ?s4 = "turn w (turn w (turn w (turn w s)))"
  have frozen: "store_lifecycle (vs_store (turn w u)) ticket = Ok state" if "store_lifecycle (vs_store u) ticket = Ok state" for u
    by (rule others_run_pending [OF turn_others [OF assms(1)] that assms(4)])
  note reads = assms(3) [THEN frozen] assms(3) [THEN frozen, THEN frozen] assms(3) [THEN frozen, THEN frozen, THEN frozen]
  have phase: "lc_phase state = Submit"
    using lifecycle_invariant_merge [of state] assms(2-4) by (auto simp: tickets_ok_def merge_inv_def merge_ready_def is_some_and_iff)
  have entry: "process_entry w entry s = process_owned w ticket (pr\<lparr>pi_ticket_id := Some ticket\<rparr>) number (turn w s)"
    using assms(5-9) by (simp add: process_entry_def v_then_def ask_def)
  show ?thesis
  proof (cases confirmed)
    case None
    then show ?thesis using reads assms(4,10) entry
      by (simp add: process_owned_def v_then_def v_lifecycle_def Let_def ask_ok_def ask_def v_ret_def)
  next
    case (Some sha)
    let ?e = "ReconcileMerged number sha" and ?t = "wd_clock w (vs_turn ?s3)"
    have "\<exists>now. lc_apply state ''vessel'' ?e ?t = Ok now \<and>
        lc_phase now = Done \<and> lc_merge_sha now = Some sha \<and> lc_pr_number now = Some number \<and> \<not> lc_merge_pending now"
      using phase Some assms(6,11) by (simp add: leg_simps word_gt_0)
    then obtain now where now: "lc_apply state ''vessel'' ?e ?t = Ok now"
      "lc_phase now = Done" "lc_merge_sha now = Some sha" "lc_pr_number now = Some number" "\<not> lc_merge_pending now" by blast
    have "store_lifecycle (vs_store ?s4) ticket = Ok state" by (rule frozen) (rule reads(3))
    from mem_store.cas_enabled [OF this refl now(1)] obtain st where
      st: "store_transition (vs_store ?s4) ticket (lc_version state) ''vessel'' ?e ?t = Ok (st, now)" by blast
    then have "store_lifecycle st ticket = Ok now" using mem_store.cas_commits by blast
    then show ?thesis using reads assms(10) entry Some st now phase
      by (simp add: process_owned_def confirm_merged_def v_then_def v_lifecycle_def v_transition_def Let_def ask_ok_def ask_def v_ret_def)
  qed
qed

theorem pending_merge_is_settled_by_confirmation_witness:
  "\<exists>cur s' now. lc_merge_pending cur \<and>
     process_entry (demo_github\<lparr>wd_confirmed_merge_sha := (\<lambda>_ _. Ok (Some ''abc''))\<rparr>) demo_entry (demo_vessel cur) =
       (Ok (Some (VoMerged ''T-1'' 7 ''abc'' ''Add parser'' None)), s') \<and>
     store_lifecycle (vs_store s') ''T-1'' = Ok now \<and> lc_phase now = Done \<and> lc_merge_sha now = Some ''abc''"
proof -
  obtain u where u: "lc_reachable u" "merge_ready u ''c0ffee''" "\<not> lc_merge_pending u" by (rule demo_ready)
  then have "\<exists>cur. lc_apply u ''vessel'' (BeginMerge ''c0ffee'') 1 = Ok cur \<and> lc_merge_pending cur"
    by (simp add: leg_simps)
  then obtain cur where cur: "lc_apply u ''vessel'' (BeginMerge ''c0ffee'') 1 = Ok cur" "lc_merge_pending cur" by blast
  have r: "lc_reachable cur" by (rule lc_reachable_apply [OF u(1) cur(1)])
  let ?w = "demo_github\<lparr>wd_confirmed_merge_sha := (\<lambda>_ _. Ok (Some ''abc''))\<rparr>"
  have "\<exists>s' now. process_entry ?w demo_entry (demo_vessel cur) =
      (Ok (map_option (\<lambda>sha. VoMerged ''T-1'' 7 sha (pi_title demo_pull) (pi_body demo_pull)) (Some ''abc'')), s') \<and>
    store_lifecycle (vs_store s') ''T-1'' = Ok now \<and> vs_log s' = vs_log (demo_vessel cur) \<and>
    (case Some ''abc'' of
       Some sha \<Rightarrow> lc_phase now = Done \<and> lc_merge_sha now = Some sha \<and> lc_pr_number now = Some 7 \<and> \<not> lc_merge_pending now
     | None \<Rightarrow> now = cur)"
    by (rule pending_merge_is_settled_by_confirmation [OF demo_beside(1)])
      (simp_all add: demo_tickets_ok [OF r] demo_read [OF r] cur(2) demo_vessel_def demo_entry_def demo_world blank_iff is_whitespace_def)
  then show ?thesis using cur(2) by (fastforce simp: demo_pull_def)
qed

text \<open>
  VESSEL records a GitHub approval in the lifecycle only if one stands. Unless the reviews that GitHub
  lists contain an approval of exactly the current head by an authorized reviewer, which that reviewer's later verdicts do
  not revoke, and no kept change request is left unaddressed, the reconciliation answers false and leaves the store
  as the others made it.
\<close>

theorem no_standing_approval_is_not_recorded:
  assumes "\<And>reviews. wd_reviews w (vs_turn s) pr = Ok reviews \<Longrightarrow>
      (\<forall>r \<in> set reviews. \<not> (standing reviews r \<and> known_user r \<and> is_authorized_head_approval r head)) \<or>
      (\<exists>r \<in> set (latest_review_per_user reviews). state_enum r = ChangesRequested \<and>
         \<not> is_feedback_addressed (wd_parse_ts w) (rv_commit_id r) (rv_submitted_at r) head evidence)"
  shows "reconcile_github_approval w ticket state pr head evidence s \<in> {(Ok False, s), (Ok False, turn w s)}"
proof (cases "wd_reviews w (vs_turn s) pr")
  case (Inr reviews)
  let ?app = "applicable_reviews (wd_parse_ts w) reviews head evidence"
  have kept: "r \<in> set reviews \<and> known_user r \<and> standing reviews r" if "r \<in> set (latest_review_per_user reviews)" for r
    using latest_standing [OF that] by (simp add: standing_def)
  have "list_ex (\<lambda>r. state_enum r = ChangesRequested) ?app \<or> filter (\<lambda>r. is_authorized_head_approval r head) ?app = []"
    using assms [OF Inr] kept by (fastforce simp: applicable_reviews_def list_ex_iff filter_empty_conv)
  then show ?thesis using Inr
    by (auto simp: reconcile_github_approval_def head_approver_def latest_submitted_def v_then_def ask_def v_ret_def Let_def)
qed (auto simp: reconcile_github_approval_def v_then_def ask_def v_ret_def)

theorem no_standing_approval_is_not_recorded_witness:
  "reconcile_github_approval demo_github ''T-1'' default_lifecycle 7 ''beef'' None (demo_vessel default_lifecycle)
     \<in> {(Ok False, demo_vessel default_lifecycle), (Ok False, turn demo_github (demo_vessel default_lifecycle))}"
  by (rule no_standing_approval_is_not_recorded)
    (auto simp: demo_github_def is_authorized_head_approval_def demo_review_def)

text \<open>
  A pull request is classified as ready for merge only if GitHub does not report a conflict, CI
  succeeded, an authorized reviewer's standing review approves exactly the current head, and every change request that
  is its reviewer's last verdict has been addressed by rework.
\<close>

theorem ready_for_merge_is_reviewed:
  assumes "classify parse_ts answer comments pr ci evidence = MonReadyForMerge"
  shows "pi_mergeable pr \<noteq> Some False \<and> ci = CiSuccess \<and>
    (\<exists>reviews. answer = Ok reviews \<and>
      (\<exists>r \<in> set reviews. standing reviews r \<and> known_user r \<and> is_authorized_head_approval r (pi_head_sha pr)) \<and>
      (\<forall>r \<in> set reviews. known_user r \<and> state_enum r = ChangesRequested \<and>
         (\<forall>x \<in> set reviews. x \<noteq> r \<and> rv_user x = rv_user r \<and> has_verdict x \<longrightarrow> rv_submitted_at x < rv_submitted_at r) \<longrightarrow>
         is_feedback_addressed parse_ts (rv_commit_id r) (rv_submitted_at r) (pi_head_sha pr) evidence))"
proof -
  note ready = classify_ready [OF assms]
  note approved = candidate_approved [OF ready(3)]
  have ok: "answer = Ok (unwrap_or_default answer)" using approved(1) by (cases answer) (auto simp: unwrap_or_default_def)
  have "is_feedback_addressed parse_ts (rv_commit_id r) (rv_submitted_at r) (pi_head_sha pr) evidence"
    if "r \<in> set (unwrap_or_default answer)" "known_user r" "state_enum r = ChangesRequested"
      "\<forall>x \<in> set (unwrap_or_default answer). x \<noteq> r \<and> rv_user x = rv_user r \<and> has_verdict x \<longrightarrow> rv_submitted_at x < rv_submitted_at r" for r
    using last_verdict_kept [OF that(1,2)] that(3,4) approved(2) by (auto simp: has_verdict_def)
  then show ?thesis using ready(1,2) approved(1) ok by blast
qed

theorem ready_for_merge_is_reviewed_witness:
  "pi_mergeable demo_pull \<noteq> Some False \<and>
   (\<exists>reviews. Ok [demo_review] = Ok reviews \<and> (\<exists>r \<in> set reviews. is_authorized_head_approval r (pi_head_sha demo_pull)))"
  using ready_for_merge_is_reviewed [OF demo_ready_state] by blast

text \<open>
  C6 (functional). The CI status that the merge rests on is a success exactly if there is evidence and all of it is good:
  the combined status is successful or absent (no statuses, or a status API the token may not read), every check suite that
  is not a ghost is completed with a success, neutral or skipped conclusion, and one of the two sources exists. An
  empty set of checks is never a success.
\<close>

theorem ci_success_needs_evidence:
  assumes "fetch_pages pages 1 [] = Some (Ok suites)"
  shows "get_ci_status ignored combined pages = Some (Ok CiSuccess) \<longleftrightarrow>
    (\<forall>s \<in> set suites. is_ghost_check_suite ignored s \<or>
       cs_status s = ''completed'' \<and> cs_conclusion s \<in> {Some ''success'', Some ''neutral'', Some ''skipped''}) \<and>
    (case combined of
       Inr r \<Rightarrow> 0 < cb_total_count r \<and> to_lowercase (cb_state r) = ''success'' \<or>
         cb_total_count r = 0 \<and> (\<exists>s \<in> set suites. \<not> is_ghost_check_suite ignored s)
     | Inl e \<Rightarrow> is_status_api_forbidden e \<and> (\<exists>s \<in> set suites. \<not> is_ghost_check_suite ignored s))"
proof -
  have observed: "suite_observed s = CiSuccess \<longleftrightarrow>
      cs_status s = ''completed'' \<and> cs_conclusion s \<in> {Some ''success'', Some ''neutral'', Some ''skipped''}" for s
    by (auto simp: suite_observed_def split: option.splits)
  have none: "suites_status ignored suites = None \<longleftrightarrow> (\<forall>s \<in> set suites. is_ghost_check_suite ignored s)"
    by (auto simp: suites_status_def Let_def filter_empty_conv)
  have status: "map_status_state t = CiSuccess \<longleftrightarrow> to_lowercase t = ''success''" for t by (simp add: Let_def)
  show ?thesis
    using assms
    by (auto simp: get_ci_status_def aggregate_success suites_success none observed status word_gt_0
        simp del: map_status_state.simps split: sum.splits if_splits)
qed

theorem ci_success_needs_evidence_witness:
  "get_ci_status None (Ok \<lparr>cb_state = ''pending'', cb_total_count = 0\<rparr>) (\<lambda>_. Ok []) \<noteq> Some (Ok CiSuccess) \<and>
   get_ci_status None (Ok \<lparr>cb_state = ''pending'', cb_total_count = 0\<rparr>)
     (\<lambda>_. Ok [\<lparr>cs_status = ''completed'', cs_conclusion = Some ''success'', cs_latest_check_runs_count = Some 1, cs_app = None\<rparr>]) =
     Some (Ok CiSuccess)"
  by (simp add: ci_success_needs_evidence fetch_pages.simps is_ghost_check_suite_def)

end
