(* ===== verification/Fleet_Registry.thy ===== *)
theory Fleet_Registry
  imports Ticket_State
begin

text \<open>
  The team registry, \<open>src/crates/config/src/registry.rs\<close>: entries, the choice of command-line back end and Coder
  module, and the worker slots that the fleet consists of. \<open>env\<close> is the process environment; the token of the
  external authentication, read from it by another module, is the argument \<open>global_token\<close>.
\<close>

section \<open>Back ends and modules\<close>

datatype CliBackend = Claude | Codex | Aider | Goose

definition parse_cli :: "string \<Rightarrow> CliBackend" where
  "parse_cli s =
     (let l = to_lowercase s in
      if l = ''codex'' then Codex else if l = ''claude'' then Claude else if l = ''aider'' then Aider
      else if l = ''goose'' then Goose else Claude)"

fun cli_as_str :: "CliBackend \<Rightarrow> string" where
  "cli_as_str Claude = ''claude''"
| "cli_as_str Codex = ''codex''"
| "cli_as_str Aider = ''aider''"
| "cli_as_str Goose = ''goose''"

fun path_env_var :: "CliBackend \<Rightarrow> string" where
  "path_env_var Claude = ''CLAUDE_PATH''"
| "path_env_var Codex = ''CODEX_PATH''"
| "path_env_var Aider = ''AIDER_PATH''"
| "path_env_var Goose = ''GOOSE_PATH''"

record CoderModule =
  cm_source :: string
  cm_version :: string
  cm_params :: json

definition new_module :: "string \<Rightarrow> string \<Rightarrow> CoderModule" where
  "new_module source version = \<lparr>cm_source = source, cm_version = version, cm_params = JObj []\<rparr>"

definition str_param :: "CoderModule \<Rightarrow> string \<Rightarrow> string \<Rightarrow> string" where
  "str_param m key dflt = (case Option.bind (json_get (cm_params m) key) as_str of Some s \<Rightarrow> s | None \<Rightarrow> dflt)"

definition workdir :: "CoderModule \<Rightarrow> string" where
  "workdir m = str_param m ''workdir'' ''/home/coder/workspace''"

definition permission_mode :: "CoderModule \<Rightarrow> string" where
  "permission_mode m = str_param m ''permission_mode'' ''auto''"

definition ai_gateway_enabled :: "CoderModule \<Rightarrow> bool" where
  "ai_gateway_enabled m =
     (case json_get (cm_params m) ''enable_ai_gateway'' of
        Some v \<Rightarrow> (case v of JBool b \<Rightarrow> b | _ \<Rightarrow> False)
      | None \<Rightarrow> contains (cm_source m) ''claude-code'')"

definition resolve_ai_gateway_enabled :: "(string \<Rightarrow> string option) \<Rightarrow> bool \<Rightarrow> bool" where
  "resolve_ai_gateway_enabled env module_default =
     (case env ''USE_AI_GATEWAY'' of Some v \<Rightarrow> v = ''true'' \<or> v = ''1'' | None \<Rightarrow> module_default)"

definition default_permission_mode_for_role :: "string \<Rightarrow> string" where
  "default_permission_mode_for_role role =
     (if role = ''forge'' \<or> role = ''vessel'' \<or> role = ''lore'' then ''acceptEdits''
      else if role = ''sentinel'' \<or> role = ''nexus'' then ''plan''
      else ''auto'')"

definition DEFAULT_AGENT_MODULES :: "(string \<times> string \<times> string) list" where
  "DEFAULT_AGENT_MODULES =
     [(''claude'', ''registry.coder.com/coder/claude-code/coder'', ''5.2.0''),
      (''codex'', ''registry.coder.com/coder-labs/codex/coder'', ''VERIFY_ON_REGISTRY''),
      (''aider'', ''registry.coder.com/coder/aider/coder'', ''VERIFY_ON_REGISTRY''),
      (''goose'', ''registry.coder.com/coder/goose/coder'', ''VERIFY_ON_REGISTRY'')]"

definition resolve_coder_module :: "string \<Rightarrow> CoderModule option \<Rightarrow> CoderModule" where
  "resolve_coder_module cli entry_module =
     (case entry_module of
        Some m \<Rightarrow> m
      | None \<Rightarrow>
          (case find (\<lambda>(key, _, _). key = cli) DEFAULT_AGENT_MODULES of
             Some (_, source, version) \<Rightarrow> new_module source version
           | None \<Rightarrow> new_module ''registry.coder.com/coder/claude-code/coder'' ''5.2.0''))"

section \<open>The registry\<close>

record RegistryEntry =
  ge_id :: string
  ge_enabled :: bool
  ge_max_instances :: u32
  ge_skills :: "string list"
  ge_mcp :: json
  ge_cli :: string
  ge_model_backend :: "string option"
  ge_routing_key :: "string option"
  ge_github_token_env :: "string option"
  ge_allowed_domains :: "string list option"
  ge_coder_module :: "CoderModule option"

record Registry =
  rg_default_cli :: string
  rg_allowed_domains :: "string list"
  rg_team :: "RegistryEntry list"

definition cli_backend :: "RegistryEntry \<Rightarrow> string \<Rightarrow> CliBackend" where
  "cli_backend e dflt = parse_cli (if ge_cli e = [] then dflt else ge_cli e)"

definition resolve_allowed_domains :: "RegistryEntry \<Rightarrow> string list \<Rightarrow> string list" where
  "resolve_allowed_domains e dflt = (case ge_allowed_domains e of Some (d # ds) \<Rightarrow> d # ds | _ \<Rightarrow> dflt)"

definition effective_instances :: "RegistryEntry \<Rightarrow> u32" where
  "effective_instances e = ge_max_instances e"

definition effective_default_cli :: "(string \<Rightarrow> string option) \<Rightarrow> Registry \<Rightarrow> CliBackend" where
  "effective_default_cli env rg =
     (case env ''DEFAULT_CLI'' of
        Some (c # cs) \<Rightarrow> parse_cli (c # cs)
      | _ \<Rightarrow> parse_cli (rg_default_cli rg))"

definition active_agents :: "Registry \<Rightarrow> RegistryEntry list" where
  "active_agents rg = filter ge_enabled (rg_team rg)"

definition registry_get :: "Registry \<Rightarrow> string \<Rightarrow> RegistryEntry option" where
  "registry_get rg i = find (\<lambda>e. ge_id e = i \<and> ge_enabled e) (rg_team rg)"

text \<open>\<open>str::rsplit_once('-')\<close>.\<close>

definition rsplit_dash :: "string \<Rightarrow> (string \<times> string) option" where
  "rsplit_dash s =
     (let suffix = after_last (\<lambda>c. c = CHR ''-'') s in
      if CHR ''-'' \<in> set s then Some (take (length s - length suffix - 1) s, suffix) else None)"

definition normalize_agent_id :: "Registry \<Rightarrow> string \<Rightarrow> string" where
  "normalize_agent_id rg agent =
     (if registry_get rg agent \<noteq> None then agent
      else
        (case rsplit_dash agent of
           Some (base, _) \<Rightarrow> if registry_get rg base \<noteq> None then base else agent
         | None \<Rightarrow> agent))"

definition resolve_cli_backend :: "(string \<Rightarrow> string option) \<Rightarrow> Registry \<Rightarrow> string \<Rightarrow> CliBackend" where
  "resolve_cli_backend env rg agent =
     (case registry_get rg (normalize_agent_id rg agent) of
        Some e \<Rightarrow> if ge_cli e \<noteq> [] then parse_cli (ge_cli e) else effective_default_cli env rg
      | None \<Rightarrow> effective_default_cli env rg)"

text \<open>The sum of \<open>u32\<close> values; it wraps in a release build.\<close>

definition total_instances :: "Registry \<Rightarrow> u32" where
  "total_instances rg = sum_list (map effective_instances (active_agents rg))"

definition indexed_slots :: "string \<Rightarrow> nat \<Rightarrow> string list" where
  "indexed_slots base n = map (\<lambda>i. base @ ''-'' @ show_nat i) [1..<Suc n]"

definition forge_slots :: "Registry \<Rightarrow> string list" where
  "forge_slots rg =
     (case registry_get rg ''forge'' of
        None \<Rightarrow> []
      | Some e \<Rightarrow> indexed_slots ''forge'' (unat (effective_instances e)))"

definition entry_slots :: "RegistryEntry \<Rightarrow> string list" where
  "entry_slots e =
     (let count = unat (effective_instances e) in
      if 0 < count
      then if ge_id e = ''forge'' then indexed_slots ''forge'' count
           else if count = 1 then [ge_id e]
           else indexed_slots (ge_id e) count
      else [])"

definition all_worker_slots :: "Registry \<Rightarrow> string list" where
  "all_worker_slots rg = concat (map entry_slots (active_agents rg))"

definition with_team_fleet :: "Registry \<Rightarrow> u32 \<Rightarrow> Registry" where
  "with_team_fleet rg pairs =
     rg\<lparr>rg_team := map (\<lambda>e. if ge_id e = ''forge'' \<or> ge_id e = ''sentinel'' then e\<lparr>ge_max_instances := pairs\<rparr> else e) (rg_team rg)\<rparr>"

text \<open>\<open>Context::context\<close>: the shown text of the error is the outer one.\<close>

definition with_context :: "'a result \<Rightarrow> string \<Rightarrow> 'a result" where
  "with_context r e = (case r of Inl _ \<Rightarrow> Err e | Inr x \<Rightarrow> Ok x)"

definition resolve_github_token :: "(string \<Rightarrow> string option) \<Rightarrow> string result \<Rightarrow> Registry \<Rightarrow> string \<Rightarrow> string result" where
  "resolve_github_token env global_token rg agent =
     (let base = normalize_agent_id rg agent;
          stripped = (case rsplit_dash agent of Some (b, _) \<Rightarrow> b | None \<Rightarrow> agent);
          entry_exists = list_ex (\<lambda>e. ge_id e = base \<or> ge_id e = stripped) (rg_team rg) in
      case registry_get rg base of
        Some e \<Rightarrow>
          (case ge_github_token_env e of
             Some var \<Rightarrow> (case env var of Some v \<Rightarrow> Ok v | None \<Rightarrow> Err (var @ '' not set for agent '' @ agent))
           | None \<Rightarrow> with_context global_token ''no GitHub token available for agent without github_token_env'')
      | None \<Rightarrow>
          if entry_exists
          then Err (''Agent '' @ [CHR 0x27] @ (if base = agent then stripped else base) @ [CHR 0x27] @
            '' exists but is inactive '' @ [CHR 0xE2, CHR 0x80, CHR 0x94] @
            '' set enabled: true in registry.json or remove agent from flow'')
          else with_context global_token (''Agent '' @ [CHR 0x27] @ base @ [CHR 0x27] @ '' not found in registry''))"

section \<open>Lemmas\<close>

lemma rsplit_dash_append:
  assumes "CHR ''-'' \<notin> set t"
  shows "rsplit_dash (b @ CHR ''-'' # t) = Some (b, t)"
proof -
  have "after_last (\<lambda>c. c = CHR ''-'') (b @ CHR ''-'' # t) = t"
    by (rule after_last_append) (use assms in auto)
  then show ?thesis by (simp add: rsplit_dash_def Let_def)
qed

lemma rsplit_dash_None: "CHR ''-'' \<notin> set s \<Longrightarrow> rsplit_dash s = None"
  by (simp add: rsplit_dash_def)

lemma show_nat_no_dash [simp]: "CHR ''-'' \<notin> set (show_nat n)"
  using show_nat_digits [of "CHR ''-''" n] by (auto simp: is_ascii_digit_def)

lemma rsplit_indexed [simp]: "rsplit_dash (b @ CHR ''-'' # show_nat i) = Some (b, show_nat i)"
  by (rule rsplit_dash_append) simp

end
