(* ===== verification/Nexus_Tickets.thy ===== *)
theory Nexus_Tickets
  imports Fleet_Registry Github_Reviews
begin

text \<open>
  The rules of the NEXUS controller (\<open>src/crates/agent-nexus/src/lib.rs\<close>) that need no store: which tickets set up CI,
  what an unrecognised status means, the tickets that come from GitHub issues, the assignment of reviewers, the
  inconsistencies between tickets, workers and pull requests, and the rule-based decision of a pass. A \<open>HashMap\<close> is an
  association list; its order stands for the iteration order.
\<close>

type_synonym slots = "(string \<times> WorkerSlot) list"

section \<open>CI set-up tickets\<close>

datatype CiReadiness = Ready | Missing | SetupInProgress

definition CI_SETUP_TICKET_ID :: string where
  "CI_SETUP_TICKET_ID = ''T-CI-001''"

definition is_synthetic_ci_setup_ticket :: "Ticket \<Rightarrow> bool" where
  "is_synthetic_ci_setup_ticket t \<longleftrightarrow> tk_id t = CI_SETUP_TICKET_ID \<or> starts_with (tk_id t) ''T-CI-''"

definition is_ci_setup_ticket :: "Ticket \<Rightarrow> bool" where
  "is_ci_setup_ticket t \<longleftrightarrow>
     (let title = to_lowercase (tk_title t) in
      contains title ''ci'' \<and> (contains title ''setup'' \<or> contains title ''pipeline'' \<or> contains title ''workflow'')) \<or>
     tk_id t = CI_SETUP_TICKET_ID \<or> starts_with (tk_id t) ''T-CI-''"

definition has_ci_setup_ticket :: "Ticket list \<Rightarrow> bool" where
  "has_ci_setup_ticket ts = list_ex is_ci_setup_ticket ts"

definition ci_setup_ticket_active :: "Ticket list \<Rightarrow> bool" where
  "ci_setup_ticket_active ts = list_ex (\<lambda>t. is_ci_setup_ticket t \<and> is_assignable t) ts"

definition ci_setup_ticket :: Ticket where
  "ci_setup_ticket = \<lparr>tk_id = CI_SETUP_TICKET_ID, tk_title = ''CI: Setup GitHub Actions workflows'',
     tk_body = ''This repository has no CI/CD workflows. Create `.github/workflows/ci.yml` '' @
       ''with build, test, and lint checks before any other work proceeds. '' @
       ''Without CI, VESSEL cannot validate PRs and the merge pipeline stalls.'',
     tk_priority = 0, tk_branch = None, tk_status = Open, tk_issue_url = None, tk_attempts = 0\<rparr>"

definition ensure_ci_setup_ticket :: "Ticket list \<Rightarrow> CiReadiness \<Rightarrow> Ticket list" where
  "ensure_ci_setup_ticket ts readiness =
     (if readiness \<noteq> Missing \<or> has_ci_setup_ticket ts then ts else ts @ [ci_setup_ticket])"

definition remove_stale_ci_setup_tickets :: "Ticket list \<Rightarrow> Ticket list" where
  "remove_stale_ci_setup_tickets ts = filter (\<lambda>t. \<not> is_synthetic_ci_setup_ticket t) ts"

text \<open>A stable sort by the pair of the flag, CI first, and the priority; the pair is one number.\<close>

definition ci_first_key :: "Ticket \<Rightarrow> nat" where
  "ci_first_key t = (if is_ci_setup_ticket t then 0 else 2 ^ 32) + unat (tk_priority t)"

definition prioritize_ci_first :: "Ticket list \<Rightarrow> Ticket list" where
  "prioritize_ci_first ts = sort_key ci_first_key ts"

definition ci_must_go_first :: "CiReadiness \<Rightarrow> Ticket list \<Rightarrow> bool" where
  "ci_must_go_first readiness ts \<longleftrightarrow> readiness = Missing \<or> readiness = SetupInProgress \<and> ci_setup_ticket_active ts"

definition assignable_tickets :: "CiReadiness \<Rightarrow> Ticket list \<Rightarrow> Ticket list" where
  "assignable_tickets readiness ts =
     (if ci_must_go_first readiness ts then filter (\<lambda>t. is_ci_setup_ticket t \<and> is_assignable t) ts
      else filter is_assignable ts)"

section \<open>Unrecognised statuses\<close>

definition to_upper_char :: "char \<Rightarrow> char" where
  "to_upper_char c = (let n = (of_char c :: nat) in if 97 \<le> n \<and> n \<le> 122 then char_of (n - 32) else c)"

definition to_uppercase :: "string \<Rightarrow> string" where
  "to_uppercase s = map to_upper_char s"

definition remap_unrecognized_status :: "string \<Rightarrow> string option" where
  "remap_unrecognized_status raw =
     (let upper = to_uppercase (trim raw); has = contains upper;
          completion = has ''DONE'' \<or> has ''COMPLETE'' \<or> has ''FINISH'' \<or> has ''SUCCESS'' in
      if (has ''PR'' \<or> has ''PULL_REQUEST'') \<and> (has ''OPEN'' \<or> has ''CREAT'' \<or> has ''SUBMIT'') then Some ''PR_OPENED''
      else if has ''EXHAUST'' \<or> has ''FUEL'' \<or> has ''BUDGET'' then Some ''FUEL_EXHAUSTED''
      else if has ''SENTINEL'' then Some ''AWAITING_SENTINEL_REVIEW''
      else if has ''APPROVE'' \<or> has ''READY'' \<and> \<not> has ''PR'' then Some ''APPROVED_READY''
      else if \<not> completion \<and> (has ''REVIEW'' \<or> has ''WAIT'' \<or> has ''PAUSE'' \<or> has ''HOLD'') then Some ''PENDING_REVIEW''
      else if completion then Some ''COMPLETE''
      else if has ''BLOCK'' \<or> has ''FAIL'' \<or> has ''ERROR'' \<or> has ''STUCK'' \<or> has ''ABORT'' \<or> has ''ABANDON'' \<or> has ''CANNOT''
      then Some ''BLOCKED''
      else if has ''SEGMENT'' then Some ''SEGMENT_N_DONE''
      else None)"

text \<open>\<open>s.split(pat).next()\<close>: the text before the first occurrence of a pattern.\<close>

fun before_first :: "string \<Rightarrow> string \<Rightarrow> string" where
  "before_first pat [] = []"
| "before_first pat (c # s) = (if starts_with (c # s) pat then [] else c # before_first pat s)"

definition raw_status_of :: "string \<Rightarrow> string" where
  "raw_status_of reason =
     trim (case strip_prefix ''Unrecognized STATUS.json status: '' reason of
             Some s \<Rightarrow> before_first '' (normalized:'' s
           | None \<Rightarrow> [])"

fun unrecognized_resolved :: "TicketStatus \<Rightarrow> bool" where
  "unrecognized_resolved (Failed _ reason _) =
     (starts_with reason ''Unrecognized STATUS.json status:'' \<and> remap_unrecognized_status (raw_status_of reason) \<noteq> None)"
| "unrecognized_resolved _ = False"

definition auto_resolve_unrecognized_statuses :: "Ticket list \<Rightarrow> Ticket list \<times> nat" where
  "auto_resolve_unrecognized_statuses ts =
     (map (\<lambda>t. if unrecognized_resolved (tk_status t) then t\<lparr>tk_status := Open\<rparr> else t) ts,
      length (filter (\<lambda>t. unrecognized_resolved (tk_status t)) ts))"

section \<open>Tickets from issues\<close>

record GithubIssue =
  gi_number :: u64
  gi_title :: string
  gi_body :: "string option"
  gi_html_url :: string
  gi_is_pull_request :: bool

text \<open>\<open>{:03}\<close>: at least three digits.\<close>

definition pad3 :: "string \<Rightarrow> string" where
  "pad3 s = replicate (3 - length s) (CHR ''0'') @ s"

definition issue_ticket_id :: "GithubIssue \<Rightarrow> string" where
  "issue_ticket_id i = ''T-'' @ pad3 (show_u64 (gi_number i))"

definition issue_ticket :: "GithubIssue \<Rightarrow> Ticket" where
  "issue_ticket i = \<lparr>tk_id = issue_ticket_id i, tk_title = gi_title i, tk_body = text_or_empty (gi_body i), tk_priority = 0,
     tk_branch = None, tk_status = Open, tk_issue_url = Some (gi_html_url i), tk_attempts = 0\<rparr>"

definition sync_issue :: "GithubIssue \<Rightarrow> Ticket list \<Rightarrow> Ticket list" where
  "sync_issue i ts =
     (if gi_is_pull_request i \<or> list_ex (\<lambda>t. tk_id t = issue_ticket_id i) ts then ts else ts @ [issue_ticket i])"

definition sync_issue_list :: "GithubIssue list \<Rightarrow> Ticket list \<Rightarrow> Ticket list" where
  "sync_issue_list issues ts = fold sync_issue issues ts"

section \<open>Workers\<close>

definition worker_role :: "string \<Rightarrow> string" where
  "worker_role w = (case rsplit_dash w of Some (base, _) \<Rightarrow> base | None \<Rightarrow> w)"

text \<open>\<open>str::parse::<u32>\<close>: an optional plus sign, then digits, within the range.\<close>

definition parse_nat :: "nat \<Rightarrow> string \<Rightarrow> nat option" where
  "parse_nat bound s =
     (let d = (case s of CHR ''+'' # r \<Rightarrow> r | _ \<Rightarrow> s) in
      if d \<noteq> [] \<and> list_all is_ascii_digit d \<and> eval_digits d < bound then Some (eval_digits d) else None)"

definition worker_index :: "string \<Rightarrow> nat option" where
  "worker_index w = Option.bind (rsplit_dash w) (\<lambda>(_, suffix). parse_nat (2 ^ 32) suffix)"

definition paired_sentinel_slot :: "string \<Rightarrow> string option" where
  "paired_sentinel_slot w = map_option (\<lambda>i. ''sentinel-'' @ show_nat i) (worker_index w)"

fun busy_ticket :: "WorkerStatus \<Rightarrow> string option" where
  "busy_ticket (WAssigned t _) = Some t"
| "busy_ticket (Working t _) = Some t"
| "busy_ticket _ = None"

definition review_sentinel_for_ticket :: "string \<Rightarrow> string \<Rightarrow> slots \<Rightarrow> (string \<times> WorkerSlot) option" where
  "review_sentinel_for_ticket ticket forge live =
     (case find (\<lambda>(i, slot). worker_role i = ''sentinel'' \<and> busy_ticket (ws_status slot) = Some ticket) live of
        Some r \<Rightarrow> Some r
      | None \<Rightarrow>
          (case Option.bind (paired_sentinel_slot forge) (\<lambda>i. map_option (Pair i) (map_of live i)) of
             Some (i, slot) \<Rightarrow>
               if ws_status slot = Idle then Some (i, slot)
               else find (\<lambda>(i, slot). worker_role i = ''sentinel'' \<and> ws_status slot = Idle) live
           | None \<Rightarrow> find (\<lambda>(i, slot). worker_role i = ''sentinel'' \<and> ws_status slot = Idle) live))"

fun ticket_worker_id :: "TicketStatus \<Rightarrow> string option" where
  "ticket_worker_id (Assigned w) = Some w"
| "ticket_worker_id (InProgress w) = Some w"
| "ticket_worker_id (MergedAs w _) = Some w"
| "ticket_worker_id (Failed w _ _) = Some w"
| "ticket_worker_id (Completed w _) = Some w"
| "ticket_worker_id (Exhausted w _) = Some w"
| "ticket_worker_id (AwaitingHuman w _ _) = Some w"
| "ticket_worker_id Open = None"

fun held_by :: "TicketStatus \<Rightarrow> string option" where
  "held_by (Assigned w) = Some w"
| "held_by (InProgress w) = Some w"
| "held_by _ = None"

definition managed_worker_request_key :: "string \<Rightarrow> string \<Rightarrow> string" where
  "managed_worker_request_key worker ticket = ''runtime:worker-request:'' @ worker @ '':'' @ ticket"

definition workspace_name_for_ticket :: "string \<Rightarrow> string \<Rightarrow> string" where
  "workspace_name_for_ticket worker ticket = worker_role worker @ ''-'' @ ticket"

definition template_name_for_worker :: "(string \<Rightarrow> string option) \<Rightarrow> string \<Rightarrow> string" where
  "template_name_for_worker env worker =
     (let role = worker_role worker;
          key = ''CODER_'' @ map (\<lambda>c. if c = CHR ''-'' then CHR ''_'' else c) (to_uppercase role) @ ''_TEMPLATE'' in
      case env key of Some v \<Rightarrow> v | None \<Rightarrow> ''openflows-'' @ role)"

definition resolve_workspace_branch :: "json list \<Rightarrow> string \<Rightarrow> string" where
  "resolve_workspace_branch prs ticket =
     text_or_empty (Option.bind (find (\<lambda>p. Option.bind (json_get p ''ticket_id'') as_str = Some ticket) prs)
       (\<lambda>p. Option.bind (json_get p ''head_branch'') as_str))"

definition rework_prompt :: "string \<Rightarrow> string \<Rightarrow> string" where
  "rework_prompt ticket directive =
     ''You are resuming existing work on ticket '' @ ticket @ ''.'' @ [CHR 0x0A, CHR 0x0A] @ directive @ [CHR 0x0A, CHR 0x0A] @
     ''Address the rework directive above. Re-check `openflows-harness status get` '' @
     ''and `openflows-harness dispatch read` for context.'' @ [CHR 0x0A]"

text \<open>\<open>str::lines\<close> only matters up to trimming here, so a carriage return may stay at the end of a line.\<close>

definition directive_line :: "string \<Rightarrow> nat option" where
  "directive_line l =
     (let line = trim l in
      Option.bind (case strip_prefix ''pr:'' line of Some r \<Rightarrow> Some r | None \<Rightarrow> strip_prefix ''pr :'' line)
        (\<lambda>r. parse_nat (2 ^ 64) (trim r)))"

definition directive_pr_number :: "string \<Rightarrow> u64 option" where
  "directive_pr_number directive =
     map_option of_nat (Option.bind (find (\<lambda>l. directive_line l \<noteq> None) (split_on (\<lambda>c. c = CHR 0x0A) directive)) directive_line)"

end
