(* ===== verification/Nexus_Controller.thy ===== *)
theory Nexus_Controller
  imports Nexus_Tickets Shared_Store Flow
begin

text \<open>
  The NEXUS controller on the shared store (\<open>src/crates/agent-nexus/src/lib.rs\<close>): the worker fleet, the release of
  workers, escalation to a human, recovery of orphaned tickets and workers, the pull requests handed to VESSEL, the
  decision of a pass and its bookkeeping. Coder and the Manager only answer whether a workspace could be deleted;
  the answer may differ from call to call.
\<close>

section \<open>State\<close>

record CoderWorld =
  cw_managed :: bool
  cw_env_url :: "string option"
  cw_env_token :: "string option"
  cw_delete :: "nat \<Rightarrow> string \<Rightarrow> unit result"

record NexusState =
  nx_store :: SharedStore
  nx_calls :: nat

fun de_slots :: "json \<Rightarrow> slots option" where
  "de_slots (JObj fs) = those (map (\<lambda>(k, v). map_option (Pair k) (de_worker_slot v)) fs)"
| "de_slots _ = None"

definition ser_slots :: "slots \<Rightarrow> json" where
  "ser_slots xs = JObj (map (\<lambda>(k, slot). (k, worker_slot_to_json slot)) xs)"

definition read_tickets :: "SharedStore \<Rightarrow> Ticket list" where
  "read_tickets st = (case store_get_typed (de_vec de_ticket) st ''tickets'' of Some ts \<Rightarrow> ts | None \<Rightarrow> [])"

definition write_tickets :: "SharedStore \<Rightarrow> Ticket list \<Rightarrow> SharedStore" where
  "write_tickets st ts = store_set st ''tickets'' (ser_vec ticket_to_json ts)"

definition read_slots :: "SharedStore \<Rightarrow> slots" where
  "read_slots st = (case store_get_typed de_slots st ''worker_slots'' of Some xs \<Rightarrow> xs | None \<Rightarrow> [])"

definition write_slots :: "SharedStore \<Rightarrow> slots \<Rightarrow> SharedStore" where
  "write_slots st xs = store_set st ''worker_slots'' (ser_slots xs)"

definition update_slot :: "string \<Rightarrow> (WorkerSlot \<Rightarrow> WorkerSlot) \<Rightarrow> slots \<Rightarrow> slots" where
  "update_slot k f xs = map (\<lambda>(i, slot). (i, if i = k then f slot else slot)) xs"

definition idle_slot :: "WorkerSlot \<Rightarrow> WorkerSlot" where
  "idle_slot slot = slot\<lparr>ws_status := Idle, ws_workspace_id := None\<rparr>"

section \<open>The worker fleet\<close>

definition fleet_registry :: "Registry result \<Rightarrow> string option \<Rightarrow> Registry result" where
  "fleet_registry registry fleet_size =
     bind_result (with_context registry ''Cannot initialize worker fleet from registry'') (\<lambda>rg.
       case fleet_size of
         None \<Rightarrow> Ok rg
       | Some value \<Rightarrow>
           (case parse_nat (2 ^ 32) value of
              None \<Rightarrow> Err ''OPENFLOWS_FLEET_SIZE must be a positive integer''
            | Some pairs \<Rightarrow>
                ensure (0 < pairs) ''OPENFLOWS_FLEET_SIZE must be positive'' (Ok (with_team_fleet rg (of_nat pairs)))))"

definition new_slot :: "string \<Rightarrow> WorkerSlot" where
  "new_slot k = \<lparr>ws_id = k, ws_status = Idle, ws_workspace_id = None\<rparr>"

definition sync_slots :: "string list \<Rightarrow> slots \<Rightarrow> slots" where
  "sync_slots ids xs =
     fold (\<lambda>k ys. if map_of ys k = None then ys @ [(k, new_slot k)] else ys) ids (filter (\<lambda>(k, _). k \<in> set ids) xs)"

definition sync_registry :: "string \<Rightarrow> Registry result \<Rightarrow> string option \<Rightarrow> SharedStore \<Rightarrow> SharedStore result" where
  "sync_registry path registry fleet_size st =
     bind_result (fleet_registry registry fleet_size) (\<lambda>rg.
     ensure (forge_slots rg \<noteq> []) (''Worker fleet has no enabled FORGE slots; check enabled and max_instances in '' @ path) (
     ensure (is_some_and (registry_get rg ''sentinel'') (\<lambda>e. 0 < effective_instances e))
       ''Worker fleet requires an enabled SENTINEL with max_instances > 0'' (
     let ids = all_worker_slots rg; xs = read_slots st; ys = sync_slots ids xs in
     Ok (if ys \<noteq> xs then write_slots st ys else st))))"

section \<open>Deleting workspaces\<close>

definition coder_client_available :: "CoderWorld \<Rightarrow> SharedStore \<Rightarrow> bool" where
  "coder_client_available w st =
     (let url = (case store_get_typed de_string st ''coder_url'' of Some u \<Rightarrow> Some u | None \<Rightarrow> cw_env_url w);
          token = (if is_some_and (cw_env_token w) (\<lambda>t. t \<noteq> []) then cw_env_token w
                   else store_get_typed de_string st ''coder_session_token'') in
      is_some_and url (\<lambda>u. u \<noteq> []) \<and> is_some_and token (\<lambda>t. t \<noteq> []))"

definition clear_workspace :: "string \<Rightarrow> slots \<Rightarrow> slots" where
  "clear_workspace ws xs =
     map (\<lambda>(k, slot). (k, if ws_workspace_id slot = Some ws then slot\<lparr>ws_workspace_id := None\<rparr> else slot)) xs"

definition destroy_coder_workspace :: "CoderWorld \<Rightarrow> string \<Rightarrow> NexusState \<Rightarrow> unit result \<times> NexusState" where
  "destroy_coder_workspace w ws s =
     (if \<not> coder_client_available w (nx_store s) then (Ok (), s)
      else
        (let s1 = s\<lparr>nx_calls := nx_calls s + 1\<rparr> in
         case cw_delete w (nx_calls s) ws of
           Inl _ \<Rightarrow> (Err ''Failed to delete Coder workspace'', s1)
         | Inr _ \<Rightarrow> (Ok (), s1\<lparr>nx_store := write_slots (nx_store s) (clear_workspace ws (read_slots (nx_store s)))\<rparr>)))"

definition worker_request_key :: "SharedStore \<Rightarrow> string \<Rightarrow> string option" where
  "worker_request_key st ws =
     Option.bind
       (find (\<lambda>(k, slot). ws_workspace_id slot = Some ws \<and> worker_ticket_id (ws_status slot) \<noteq> None) (read_slots st))
       (\<lambda>(k, slot). map_option (managed_worker_request_key k) (worker_ticket_id (ws_status slot)))"

definition destroy_worker_workspace :: "CoderWorld \<Rightarrow> string \<Rightarrow> NexusState \<Rightarrow> unit result \<times> NexusState" where
  "destroy_worker_workspace w ws s =
     (if cw_managed w
      then
        (let s1 = s\<lparr>nx_calls := nx_calls s + 1\<rparr> in
         case cw_delete w (nx_calls s) ws of
           Inl _ \<Rightarrow> (Err ''Failed to request managed workspace deletion'', s1)
         | Inr _ \<Rightarrow>
             (Ok (), case worker_request_key (nx_store s) ws of
                       Some key \<Rightarrow> s1\<lparr>nx_store := store_del (nx_store s) key\<rparr>
                     | None \<Rightarrow> s1))
      else destroy_coder_workspace w ws s)"

section \<open>Releasing workers and escalation\<close>

definition release_worker_slot :: "CoderWorld \<Rightarrow> string \<Rightarrow> NexusState \<Rightarrow> NexusState" where
  "release_worker_slot w worker s =
     (case map_of (read_slots (nx_store s)) worker of
        None \<Rightarrow> s
      | Some slot \<Rightarrow>
          if ws_status slot = Idle \<and> ws_workspace_id slot = None then s
          else
            (let workspace = ws_workspace_id slot;
                 (r, s1) = (case workspace of Some ws \<Rightarrow> destroy_worker_workspace w ws s | None \<Rightarrow> (Ok (), s)) in
             case r of
               Inl _ \<Rightarrow> s1
             | Inr _ \<Rightarrow>
                 (let xs = update_slot worker
                        (\<lambda>now. if ws_workspace_id now = workspace \<or> workspace \<noteq> None \<and> ws_workspace_id now = None
                                then idle_slot now else now) (read_slots (nx_store s1)) in
                  s1\<lparr>nx_store := write_slots (nx_store s1) xs\<rparr>)))"

definition reset_recovery_attempts :: "string \<Rightarrow> SharedStore \<Rightarrow> SharedStore" where
  "reset_recovery_attempts ticket st = store_set st (full_ticket_key_flat ticket ''recovery_attempts'') (ser_u64 0)"

text \<open>\<open>current + 1\<close> wraps in a release build.\<close>

definition increment_recovery_attempts :: "string \<Rightarrow> SharedStore \<Rightarrow> u32 \<times> SharedStore" where
  "increment_recovery_attempts ticket st =
     (let key = full_ticket_key_flat ticket ''recovery_attempts'';
          current = (case store_get_typed de_u32 st key of Some n \<Rightarrow> n | None \<Rightarrow> 0) in
      (current + 1, store_set st key (ser_u32 (current + 1))))"

fun is_awaiting_human :: "TicketStatus \<Rightarrow> bool" where
  "is_awaiting_human (AwaitingHuman _ _ _) = True"
| "is_awaiting_human _ = False"

text \<open>The first ticket with the identifier.\<close>

fun escalate_first :: "string \<Rightarrow> string \<Rightarrow> string \<Rightarrow> Ticket list \<Rightarrow> Ticket list" where
  "escalate_first ticket worker reason [] = []"
| "escalate_first ticket worker reason (t # ts) =
     (if tk_id t = ticket
      then t\<lparr>tk_attempts := tk_attempts t + 1, tk_status := AwaitingHuman worker reason (tk_attempts t + 1)\<rparr> # ts
      else t # escalate_first ticket worker reason ts)"

definition mark_ticket_awaiting_human :: "CoderWorld \<Rightarrow> string \<Rightarrow> string \<Rightarrow> string \<Rightarrow> NexusState \<Rightarrow> NexusState" where
  "mark_ticket_awaiting_human w ticket worker reason s =
     (let ts = read_tickets (nx_store s) in
      if is_some_and (find (\<lambda>t. tk_id t = ticket) ts) (\<lambda>t. is_awaiting_human (tk_status t))
      then release_worker_slot w worker s
      else
        (let st = write_tickets (nx_store s) (escalate_first ticket worker reason ts);
             st = store_set st (full_ticket_key_flat ticket ''status'') (JStr ''awaiting_human'');
             st = reset_recovery_attempts ticket st in
         release_worker_slot w worker (s\<lparr>nx_store := st\<rparr>)))"

section \<open>Recovery of orphans\<close>

definition reset_orphan :: "slots \<Rightarrow> Ticket \<Rightarrow> Ticket" where
  "reset_orphan xs t =
     (case held_by (tk_status t) of
        Some worker \<Rightarrow> if map_of xs worker = None then t\<lparr>tk_status := Open\<rparr> else t
      | None \<Rightarrow> t)"

definition lifecycle_done :: "SharedStore \<Rightarrow> string \<Rightarrow> bool" where
  "lifecycle_done st ticket = (case store_lifecycle st ticket of Inr cur \<Rightarrow> lc_phase cur = Done | Inl _ \<Rightarrow> False)"

definition ticket_finished :: "SharedStore \<Rightarrow> Ticket list \<Rightarrow> string \<Rightarrow> bool" where
  "ticket_finished st ts ticket \<longleftrightarrow>
     list_ex (\<lambda>t. tk_id t = ticket \<and> is_terminal (tk_status t)) ts \<or> lifecycle_done st ticket"

definition ticket_open :: "Ticket list \<Rightarrow> string \<Rightarrow> bool" where
  "ticket_open ts ticket \<longleftrightarrow> list_ex (\<lambda>t. tk_id t = ticket \<and> tk_status t = Open) ts"

text \<open>The ticket for which a slot is to be recycled.\<close>

fun recycle_ticket :: "SharedStore \<Rightarrow> Ticket list \<Rightarrow> WorkerStatus \<Rightarrow> string option" where
  "recycle_ticket st ts (Suspended t _ _) = (if ticket_finished st ts t then Some t else None)"
| "recycle_ticket st ts (WAssigned t _) = (if ticket_finished st ts t \<or> ticket_open ts t then Some t else None)"
| "recycle_ticket st ts (Working t _) = (if ticket_finished st ts t \<or> ticket_open ts t then Some t else None)"
| "recycle_ticket st ts _ = None"

definition recycle_slot :: "CoderWorld \<Rightarrow> string \<Rightarrow> WorkerSlot \<Rightarrow> NexusState \<Rightarrow> WorkerSlot \<times> bool \<times> NexusState" where
  "recycle_slot w ticket slot s =
     (case ws_workspace_id slot of
        None \<Rightarrow> (idle_slot slot, True, s)
      | Some ws \<Rightarrow>
          (case destroy_worker_workspace w ws s of
             (Inl _, s1) \<Rightarrow> (slot, False, s1)
           | (Inr _, s1) \<Rightarrow>
               (idle_slot slot, True,
                s1\<lparr>nx_store := store_del (nx_store s1) (full_ticket_key ticket ''workspace'' (worker_role (ws_id slot)))\<rparr>)))"

fun recover_slots :: "CoderWorld \<Rightarrow> Ticket list \<Rightarrow> slots \<Rightarrow> NexusState \<Rightarrow> slots \<times> bool \<times> NexusState" where
  "recover_slots w ts [] s = ([], False, s)"
| "recover_slots w ts ((k, slot) # xs) s =
     (let (slot', changed, s1) =
            (case recycle_ticket (nx_store s) ts (ws_status slot) of
               Some ticket \<Rightarrow> recycle_slot w ticket slot s
             | None \<Rightarrow> (slot, False, s));
          (ys, more, s2) = recover_slots w ts xs s1 in
      ((k, slot') # ys, changed \<or> more, s2))"

definition retry_workspace :: "CoderWorld \<Rightarrow> string \<Rightarrow> string \<Rightarrow> NexusState \<Rightarrow> NexusState" where
  "retry_workspace w ticket role s =
     (let key = full_ticket_key ticket ''workspace'' role in
      case store_get_typed de_string (nx_store s) key of
        None \<Rightarrow> s
      | Some ws \<Rightarrow>
          (case destroy_worker_workspace w ws s of
             (Inl _, s1) \<Rightarrow> s1
           | (Inr _, s1) \<Rightarrow>
               if store_get_typed de_string (nx_store s1) key = Some ws
               then s1\<lparr>nx_store := store_del (nx_store s1) key\<rparr> else s1))"

definition retry_ticket :: "CoderWorld \<Rightarrow> Ticket \<Rightarrow> NexusState \<Rightarrow> NexusState" where
  "retry_ticket w t s =
     (if is_terminal (tk_status t) \<or> lifecycle_done (nx_store s) (tk_id t)
      then retry_workspace w (tk_id t) ''sentinel'' (retry_workspace w (tk_id t) ''forge'' s)
      else s)"

definition recover_orphans :: "CoderWorld \<Rightarrow> NexusState \<Rightarrow> NexusState" where
  "recover_orphans w s =
     (let old = read_tickets (nx_store s); xs = read_slots (nx_store s); ts = map (reset_orphan xs) old;
          (ys, changed, s1) = recover_slots w ts xs s;
          s2 = (if ts \<noteq> old then s1\<lparr>nx_store := write_tickets (nx_store s1) ts\<rparr> else s1);
          s3 = (if changed then s2\<lparr>nx_store := write_slots (nx_store s2) ys\<rparr> else s2) in
      fold (retry_ticket w) ts s3)"

section \<open>Hand-over to VESSEL\<close>

definition pr_ticket :: "json \<Rightarrow> string option" where
  "pr_ticket pr = Option.bind (json_get pr ''ticket_id'') as_str"

definition ready_for_vessel :: "SharedStore \<Rightarrow> json \<Rightarrow> bool" where
  "ready_for_vessel st pr =
     (case pr_ticket pr of
        None \<Rightarrow> False
      | Some ticket \<Rightarrow>
          \<not> blank ticket \<and> store_get st (full_ticket_key ticket ''rework_directive'' ''forge'') = None \<and>
          (case store_lifecycle st ticket of Inr cur \<Rightarrow> lc_phase cur = Submit | Inl _ \<Rightarrow> False))"

definition pending_prs_ready_for_vessel :: "SharedStore \<Rightarrow> json list \<Rightarrow> json list" where
  "pending_prs_ready_for_vessel st prs = filter (ready_for_vessel st) prs"

definition should_discover_pr :: "SharedStore \<Rightarrow> u64 \<Rightarrow> string option \<Rightarrow> bool" where
  "should_discover_pr st number ticket \<longleftrightarrow>
     is_some_and ticket (\<lambda>t. t \<noteq> []) \<or> store_get st (''pr:'' @ show_u64 number @ '':unmanaged'') = None"

text \<open>The loop of \<open>prep\<close> over the lifecycles of the tickets; an unreadable one is an error.\<close>

fun review_delivery_pending :: "SharedStore \<Rightarrow> Ticket list \<Rightarrow> bool result" where
  "review_delivery_pending st [] = Ok False"
| "review_delivery_pending st (t # ts) =
     (if is_terminal (tk_status t) then review_delivery_pending st ts
      else
        bind_result (store_lifecycle st (tk_id t)) (\<lambda>cur.
          if deliverable_review cur \<noteq> None then Ok True else review_delivery_pending st ts))"

definition ticket_phase :: "SharedStore \<Rightarrow> string \<Rightarrow> string option" where
  "ticket_phase st ticket =
     Option.bind (store_get st (full_ticket_key_flat ticket ''status'')) (\<lambda>v.
       case as_str v of Some p \<Rightarrow> Some p | None \<Rightarrow> Option.bind (json_get v ''phase'') as_str)"

definition gate_approved :: "SharedStore \<Rightarrow> string \<Rightarrow> bool" where
  "gate_approved st ticket =
     (case store_lifecycle st ticket of Inr cur \<Rightarrow> is_some_and (lc_plan_decision cur) d_approved | Inl _ \<Rightarrow> False)"

definition is_waiting_for_planning_gate :: "SharedStore \<Rightarrow> string \<Rightarrow> bool" where
  "is_waiting_for_planning_gate st ticket \<longleftrightarrow> ticket_phase st ticket = Some ''plan_ready'' \<and> \<not> gate_approved st ticket"

section \<open>Inconsistencies\<close>

text \<open>
  The crashed workspaces and chats of \<open>FlowRecovery\<close>, which a later step asks Coder for, are empty after
  \<open>reconcile\<close> and left out; so are the flags that repeat whether a list is empty.
\<close>

record FlowRecovery =
  fr_unmerged_prs :: "(u64 \<times> string option) list"
  fr_orphaned_tickets :: "(string \<times> string \<times> string) list"
  fr_stale_workers :: "(string \<times> string \<times> string) list"
  fr_completed_without_pr :: "string list"

definition unmerged_pr :: "json \<Rightarrow> (u64 \<times> string option) option" where
  "unmerged_pr pr =
     (case pr of
        JObj _ \<Rightarrow> map_option (\<lambda>n. (n, pr_ticket pr)) (Option.bind (json_get pr ''number'') as_u64)
      | _ \<Rightarrow> None)"

definition orphaned_ticket :: "slots \<Rightarrow> Ticket \<Rightarrow> (string \<times> string \<times> string) option" where
  "orphaned_ticket xs t =
     (case held_by (tk_status t) of
        None \<Rightarrow> None
      | Some worker \<Rightarrow>
          (case map_of xs worker of
             None \<Rightarrow> Some (tk_id t, worker, ''worker slot missing'')
           | Some slot \<Rightarrow>
               if ws_status slot = Idle then Some (tk_id t, worker, ''worker is idle but ticket still assigned'') else None))"

definition lost_pr :: "json list \<Rightarrow> Ticket \<Rightarrow> bool" where
  "lost_pr prs t \<longleftrightarrow>
     (case tk_status t of Completed _ outcome \<Rightarrow> outcome = ''pr_opened'' | _ \<Rightarrow> False) \<and>
     \<not> list_ex (\<lambda>pr. pr_ticket pr = Some (tk_id t)) prs"

fun stale_reason :: "Ticket list \<Rightarrow> WorkerStatus \<Rightarrow> (string \<times> string) option" where
  "stale_reason ts (Suspended t _ _) =
     (if list_ex (\<lambda>x. tk_id x = t \<and> is_terminal (tk_status x)) ts
      then Some (t, ''ticket already completed/merged but worker still suspended'') else None)"
| "stale_reason ts Idle = None"
| "stale_reason ts (WDone _ _) = None"
| "stale_reason ts st =
     (case busy_ticket st of
        None \<Rightarrow> None
      | Some t \<Rightarrow>
          (case find (\<lambda>x. tk_id x = t) ts of
             None \<Rightarrow> Some (t, ''ticket no longer exists'')
           | Some x \<Rightarrow>
               if is_terminal (tk_status x)
               then Some (t, ''ticket already completed/merged but worker still assigned/working'') else None))"

definition nexus_reconcile :: "Ticket list \<Rightarrow> slots \<Rightarrow> json list \<Rightarrow> FlowRecovery" where
  "nexus_reconcile ts xs prs =
     \<lparr>fr_unmerged_prs = List.map_filter unmerged_pr prs,
      fr_orphaned_tickets = List.map_filter (orphaned_ticket xs) ts,
      fr_stale_workers = List.map_filter (\<lambda>(_, slot). map_option (\<lambda>(t, r). (ws_id slot, t, r)) (stale_reason ts (ws_status slot))) xs,
      fr_completed_without_pr = map tk_id (filter (lost_pr prs) ts)\<rparr>"

definition needs_recovery :: "FlowRecovery \<Rightarrow> bool" where
  "needs_recovery r \<longleftrightarrow> fr_unmerged_prs r \<noteq> [] \<or> fr_orphaned_tickets r \<noteq> [] \<or> fr_stale_workers r \<noteq> [] \<or> fr_completed_without_pr r \<noteq> []"

section \<open>The decision of a pass\<close>

record AgentDecision =
  ad_action :: string
  ad_notes :: string
  ad_assign_to :: "string option"
  ad_ticket_id :: "string option"
  ad_issue_url :: "string option"

definition plain_decision :: "string \<Rightarrow> string \<Rightarrow> AgentDecision" where
  "plain_decision action notes = \<lparr>ad_action = action, ad_notes = notes, ad_assign_to = None, ad_ticket_id = None, ad_issue_url = None\<rparr>"

definition context_array :: "json \<Rightarrow> string \<Rightarrow> json list" where
  "context_array ctx key = (case Option.bind (json_get ctx key) as_array of Some xs \<Rightarrow> xs | None \<Rightarrow> [])"

text \<open>The slots of the context that can be decoded.\<close>

definition context_slots :: "json \<Rightarrow> WorkerSlot list" where
  "context_slots ctx =
     (case json_get ctx ''worker_slots'' of
        Some (JObj fs) \<Rightarrow> List.map_filter (\<lambda>(_, v). de_worker_slot v) fs
      | _ \<Rightarrow> [])"

definition idle_forge_workers :: "json \<Rightarrow> string list" where
  "idle_forge_workers ctx =
     map ws_id (filter (\<lambda>slot. ws_status slot = Idle \<and> worker_role (ws_id slot) = ''forge'') (context_slots ctx))"

definition busy_forge_workers :: "json \<Rightarrow> string list" where
  "busy_forge_workers ctx =
     map ws_id (filter (\<lambda>slot. busy_ticket (ws_status slot) \<noteq> None \<and> worker_role (ws_id slot) = ''forge'') (context_slots ctx))"

definition rework_decision :: "json \<Rightarrow> AgentDecision option" where
  "rework_decision ctx =
     (case context_array ctx ''rework_provision'' of
        [] \<Rightarrow> None
      | first # _ \<Rightarrow>
          (case (Option.bind (json_get first ''ticket_id'') as_str, Option.bind (json_get first ''worker_id'') as_str) of
             (Some ticket, Some worker) \<Rightarrow>
               Some \<lparr>ad_action = ''rework_assigned'', ad_notes = ''Provisioning FORGE for persisted rework directive'',
                 ad_assign_to = Some worker, ad_ticket_id = Some ticket, ad_issue_url = None\<rparr>
           | _ \<Rightarrow> None))"

definition nexus_exec :: "json \<Rightarrow> AgentDecision" where
  "nexus_exec ctx =
     (let tickets = context_array ctx ''assignable_tickets''; idle = idle_forge_workers ctx in
      case rework_decision ctx of
        Some d \<Rightarrow> d
      | None \<Rightarrow>
          if Option.bind (json_get ctx ''review_delivery_pending'') de_bool = Some True
          then plain_decision ''sentinel_spawned'' (''Review delivery pending '' @ [CHR 0xE2, CHR 0x80, CHR 0x94] @ '' route to SENTINEL'')
          else if context_array ctx ''open_prs'' \<noteq> []
          then plain_decision ''merge_prs'' (''Pending PRs found '' @ [CHR 0xE2, CHR 0x80, CHR 0x94] @ '' route to vessel'')
          else if tickets = [] \<and> idle = [] \<and> busy_forge_workers ctx = []
          then plain_decision ''no_work'' ''No assignable tickets, no idle or busy forge workers''
          else if idle = []
          then plain_decision PAUSE_SIGNAL ''No idle forge worker; workers will be checked on the next poll''
          else if tickets = []
          then plain_decision PAUSE_SIGNAL ''Idle forge workers available but no assignable tickets''
          else
            \<lparr>ad_action = ''work_assigned'',
             ad_notes = ''Assignable ticket + idle forge worker '' @ [CHR 0xE2, CHR 0x80, CHR 0x94] @ '' route to forge'',
             ad_assign_to = Some (hd idle), ad_ticket_id = Option.bind (json_get (hd tickets) ''id'') as_str,
             ad_issue_url = Option.bind (json_get (hd tickets) ''issue_url'') as_str\<rparr>)"

section \<open>The bookkeeping of a pass\<close>

definition no_work_reset :: "SharedStore \<Rightarrow> SharedStore" where
  "no_work_reset st = store_set st ''_no_work_count'' (ser_u64 0)"

fun assign_first :: "string \<Rightarrow> string \<Rightarrow> string option \<Rightarrow> Ticket list \<Rightarrow> Ticket list" where
  "assign_first ticket worker url [] = []"
| "assign_first ticket worker url (t # ts) =
     (if tk_id t = ticket
      then (case url of Some u \<Rightarrow> t\<lparr>tk_status := Assigned worker, tk_issue_url := Some u\<rparr> | None \<Rightarrow> t\<lparr>tk_status := Assigned worker\<rparr>) # ts
      else t # assign_first ticket worker url ts)"

definition assigned_tickets :: "AgentDecision \<Rightarrow> string \<Rightarrow> string \<Rightarrow> Ticket list \<Rightarrow> Ticket list" where
  "assigned_tickets d ticket worker ts =
     (if list_ex (\<lambda>t. tk_id t = ticket) ts then assign_first ticket worker (ad_issue_url d) ts
      else ts @ [\<lparr>tk_id = ticket, tk_title = ad_notes d, tk_body = [], tk_priority = 0, tk_branch = None,
        tk_status = Assigned worker, tk_issue_url = ad_issue_url d, tk_attempts = 0\<rparr>])"

definition assign_slot :: "string \<Rightarrow> string \<Rightarrow> string option \<Rightarrow> SharedStore \<Rightarrow> SharedStore" where
  "assign_slot worker ticket url st =
     (let xs = read_slots st in
      if map_of xs worker \<noteq> None
      then write_slots st (update_slot worker (\<lambda>slot. slot\<lparr>ws_status := WAssigned ticket url\<rparr>) xs) else st)"

definition assign_work :: "AgentDecision \<Rightarrow> string \<Rightarrow> string \<Rightarrow> SharedStore \<Rightarrow> SharedStore" where
  "assign_work d ticket worker st =
     (let st = write_tickets st (assigned_tickets d ticket worker (read_tickets st));
          st = (if starts_with ticket ''T-CI-'' then store_set st ''ci_readiness'' (JStr ''setup_in_progress'') else st) in
      assign_slot worker ticket (ad_issue_url d) st)"

definition assign_rework :: "string \<Rightarrow> string \<Rightarrow> SharedStore \<Rightarrow> SharedStore" where
  "assign_rework ticket worker st =
     assign_slot worker ticket None (write_tickets st (assign_first ticket worker None (read_tickets st)))"

fun resumed_status :: "bool \<Rightarrow> WorkerStatus \<Rightarrow> WorkerStatus" where
  "resumed_status True (Suspended t _ u) = WAssigned t u"
| "resumed_status True st = st"
| "resumed_status False st = Idle"

definition gate_entries :: "SharedStore \<Rightarrow> (string \<times> json) list" where
  "gate_entries st = (case store_get st ''command_gate'' of Some (JObj fs) \<Rightarrow> fs | _ \<Rightarrow> [])"

definition process_command :: "bool \<Rightarrow> SharedStore \<Rightarrow> SharedStore" where
  "process_command approve st =
     (case gate_entries st of
        [] \<Rightarrow> st
      | (worker, _) # rest \<Rightarrow>
          (let st = store_set st ''command_gate'' (JObj (AList.delete worker (gate_entries st))) in
           write_slots st (update_slot worker (\<lambda>slot. slot\<lparr>ws_status := resumed_status approve (ws_status slot)\<rparr>) (read_slots st))))"

text \<open>
  \<open>hand_over worker ticket\<close> stands for what follows an assignment: the workspace of a slot without one, the chat, and
  the comment on the issue.
\<close>

definition nexus_post ::
  "CoderWorld \<Rightarrow> (string \<Rightarrow> string \<Rightarrow> NexusState \<Rightarrow> NexusState) \<Rightarrow> AgentDecision \<Rightarrow> NexusState \<Rightarrow> Action \<times> NexusState" where
  "nexus_post w hand_over d s0 =
     (let s = recover_orphans w s0; on_store = (\<lambda>f. s\<lparr>nx_store := f (nx_store s)\<rparr>) in
      if ad_action d = ''merge_prs''
      then
        (let st = no_work_reset (nx_store s) in
         (if store_get_typed (de_vec Some) st ''pending_prs'' \<in> {None, Some []} then ''no_work'' else ''merge_prs'', s\<lparr>nx_store := st\<rparr>))
      else if ad_action d = ''work_assigned''
      then
        (ad_action d,
         case (ad_assign_to d, ad_ticket_id d) of
           (Some worker, Some ticket) \<Rightarrow> hand_over worker ticket (on_store (\<lambda>st. assign_work d ticket worker (no_work_reset st)))
         | _ \<Rightarrow> on_store no_work_reset)
      else if ad_action d = ''rework_assigned''
      then
        (ad_action d,
         case (ad_assign_to d, ad_ticket_id d) of
           (Some worker, Some ticket) \<Rightarrow> hand_over worker ticket (on_store (\<lambda>st. assign_rework ticket worker (no_work_reset st)))
         | _ \<Rightarrow> on_store no_work_reset)
      else if ad_action d = ''no_work'' then (PAUSE_SIGNAL, on_store no_work_reset)
      else if ad_action d = ''approve_command'' \<or> ad_action d = ''reject_command''
      then (ad_action d, on_store (process_command (ad_action d = ''approve_command'')))
      else (ad_action d, s))"

end
