(* ===== verification/Nexus_Store.thy ===== *)
theory Nexus_Store
  imports Nexus_Controller Store_Properties
begin

text \<open>
  What the NEXUS operations leave of the store: tickets and worker slots survive the store, each operation touches only
  its own keys, and no operation but the escalation changes a lifecycle record.
\<close>

section \<open>Reading back\<close>

lemma store_get_set: "store_get (store_set st k v) k' = (if k' = k then Some v else store_get st k')"
  by (simp add: store_get_def store_set_def backend_get_set)

lemma store_get_del: "store_get (store_del st k) k' = (if k' = k then None else store_get st k')"
  by (simp add: store_get_def store_del_def backend_get_del)

lemma de_ticket_roundtrip [simp]: "de_ticket (ticket_to_json t) = Some t"
  by (simp add: ticket_to_json_def ticket_of_fields_def de_req_def de_dflt_def)

lemma de_worker_slot_roundtrip [simp]: "de_worker_slot (worker_slot_to_json slot) = Some slot"
  by (simp add: worker_slot_to_json_def worker_slot_of_fields_def de_req_def de_dflt_def)

lemma de_tickets_roundtrip [simp]: "de_vec de_ticket (ser_vec ticket_to_json ts) = Some ts"
  unfolding ser_vec_def de_vec.simps by (induction ts) auto

lemma de_slots_roundtrip [simp]: "de_slots (ser_slots xs) = Some xs"
  unfolding ser_slots_def de_slots.simps by (induction xs) auto

lemma read_write [simp]:
  "read_tickets (write_tickets st ts) = ts" "read_slots (write_slots st xs) = xs"
  "read_tickets (write_slots st xs) = read_tickets st" "read_slots (write_tickets st ts) = read_slots st"
  by (simp_all add: read_tickets_def write_tickets_def read_slots_def write_slots_def store_get_typed_def store_get_set)

lemma read_set_other:
  "k \<noteq> ''tickets'' \<Longrightarrow> read_tickets (store_set st k v) = read_tickets st"
  "k \<noteq> ''worker_slots'' \<Longrightarrow> read_slots (store_set st k v) = read_slots st"
  "k \<noteq> ''tickets'' \<Longrightarrow> read_tickets (store_del st k) = read_tickets st"
  "k \<noteq> ''worker_slots'' \<Longrightarrow> read_slots (store_del st k) = read_slots st"
  by (auto simp: read_tickets_def read_slots_def store_get_typed_def store_get_set store_get_del)

lemma nexus_keys [simp]:
  "full_ticket_key t sub role \<noteq> ''tickets''" "full_ticket_key t sub role \<noteq> ''worker_slots''"
  "full_ticket_key_flat t sub \<noteq> ''tickets''" "full_ticket_key_flat t sub \<noteq> ''worker_slots''"
  "managed_worker_request_key k t \<noteq> ''tickets''" "managed_worker_request_key k t \<noteq> ''worker_slots''"
  "not_status ''tickets''" "not_status ''worker_slots''" "not_status (managed_worker_request_key k t)"
  "not_status ''_no_work_count''" "not_status ''ci_readiness''" "not_status ''command_gate''"
  by (simp_all add: full_ticket_key_def full_ticket_key_flat_def managed_worker_request_key_def not_status_def status_key_def)

lemma lifecycle_write [simp]:
  "store_lifecycle (write_tickets st ts) tk = store_lifecycle st tk"
  "store_lifecycle (write_slots st xs) tk = store_lifecycle st tk"
  by (simp_all add: write_tickets_def write_slots_def store_set_def lifecycle_set_other)

lemma lifecycle_other:
  "not_status k \<Longrightarrow> store_lifecycle (store_set st k v) tk = store_lifecycle st tk"
  "not_status k \<Longrightarrow> store_lifecycle (store_del st k) tk = store_lifecycle st tk"
  by (simp_all add: store_set_def store_del_def lifecycle_set_other)

text \<open>A role that cannot be confused with the last part of a status key.\<close>

definition plain_role :: "string \<Rightarrow> bool" where
  "plain_role role \<longleftrightarrow> CHR '':'' \<notin> set role \<and> role \<noteq> ''status''"

lemma last_part_not_status:
  assumes "plain_role role"
  shows "not_status (''ticket:'' @ p @ '':'' @ role)"
proof -
  have "role = ''status''" if "''ticket:'' @ p @ '':'' @ role = ''ticket:'' @ tk @ '':status''" for tk
  proof -
    have "p @ CHR '':'' # role = tk @ CHR '':'' # ''status''" using that by simp
    from arg_cong [OF this, of rev] have "rev role @ CHR '':'' # rev p = rev ''status'' @ CHR '':'' # rev tk" by simp
    from append_sep_eq [OF this] assms have "rev role = rev ''status''" by (simp add: plain_role_def)
    then show ?thesis by (simp only: rev_is_rev_conv)
  qed
  then show ?thesis using assms by (auto simp: not_status_def status_key_def plain_role_def)
qed

lemma workspace_key_not_status: "plain_role role \<Longrightarrow> not_status (full_ticket_key t sub role)"
  using last_part_not_status [of role "t @ '':'' @ sub"] by (simp add: full_ticket_key_def)

lemma flat_key_not_status: "plain_role sub \<Longrightarrow> not_status (full_ticket_key_flat t sub)"
  using last_part_not_status [of sub t] by (simp add: full_ticket_key_flat_def)

end
