(* ===== verification/Nexus_Recovery.thy ===== *)
theory Nexus_Recovery
  imports Nexus_Store
begin

text \<open>
  Recovery of orphans, slot by slot: what the deletion of a workspace changes, which slots are recycled, and that the
  tickets and the lifecycle records are left alone.
\<close>

text \<open>A well-formed table of worker slots: every slot once, under its own identifier.\<close>

definition slots_ok :: "slots \<Rightarrow> bool" where
  "slots_ok xs \<longleftrightarrow> distinct (map fst xs) \<and> (\<forall>(k, slot) \<in> set xs. ws_id slot = k)"

section \<open>Deletion of a workspace\<close>

definition deletion_refused :: "CoderWorld \<Rightarrow> string \<Rightarrow> bool" where
  "deletion_refused w ws \<longleftrightarrow> (\<exists>n e. cw_delete w n ws = Err e)"

lemma deletion_refusedI: "cw_delete w n ws = Inl e \<Longrightarrow> deletion_refused w ws"
  unfolding deletion_refused_def by blast

definition same_records :: "SharedStore \<Rightarrow> SharedStore \<Rightarrow> bool" where
  "same_records st st' \<longleftrightarrow> read_tickets st' = read_tickets st \<and> (\<forall>tk. store_lifecycle st' tk = store_lifecycle st tk)"

lemma same_records_refl [simp]: "same_records st st"
  by (simp add: same_records_def)

lemma same_records_trans: "same_records a b \<Longrightarrow> same_records b c \<Longrightarrow> same_records a c"
  by (simp add: same_records_def)

lemma same_records_slots [simp]: "same_records st (write_slots st xs)"
  by (simp add: same_records_def)

lemma same_records_del: "k \<noteq> ''tickets'' \<Longrightarrow> not_status k \<Longrightarrow> same_records st (store_del st k)"
  by (simp add: same_records_def read_set_other lifecycle_other)

lemma destroy_worker_workspace_cases:
  assumes "destroy_worker_workspace w ws s = (r, s')"
  obtains (refused) e where "r = Err e" "deletion_refused w ws" "nx_store s' = nx_store s"
  | (gone) "r = Ok ()" "same_records (nx_store s) (nx_store s')"
      "read_slots (nx_store s') \<in> {read_slots (nx_store s), clear_workspace ws (read_slots (nx_store s))}"
  using assms
  by (auto simp: destroy_worker_workspace_def destroy_coder_workspace_def Let_def same_records_del read_set_other
      worker_request_key_def bind_eq_Some_conv deletion_refusedI split: if_splits sum.splits option.splits prod.splits)

text \<open>What a step of the recovery leaves: records, and the status of every slot.\<close>

definition same_status :: "slots \<Rightarrow> slots \<Rightarrow> bool" where
  "same_status xs ys \<longleftrightarrow>
     list_all2 (\<lambda>(k, slot) (k', slot'). k' = k \<and> ws_id slot' = ws_id slot \<and> ws_status slot' = ws_status slot \<and>
       (ws_workspace_id slot = None \<longrightarrow> ws_workspace_id slot' = None)) xs ys"

lemma same_status_refl [simp]: "same_status xs xs"
  by (auto simp: same_status_def intro!: list.rel_refl_strong)

lemma same_status_trans: "same_status xs ys \<Longrightarrow> same_status ys zs \<Longrightarrow> same_status xs zs"
  unfolding same_status_def by (erule list_all2_trans [rotated], assumption) auto

lemma same_status_clear: "ys \<in> {xs, clear_workspace ws xs} \<Longrightarrow> same_status xs ys"
  by (auto simp: same_status_def clear_workspace_def list_all2_map2 intro!: list.rel_refl_strong)

section \<open>Recycling slots\<close>

text \<open>What becomes of one slot: kept if it is not stale; otherwise idle, or kept because its workspace could not be deleted.\<close>

definition slot_recovered :: "CoderWorld \<Rightarrow> SharedStore \<Rightarrow> Ticket list \<Rightarrow> WorkerSlot \<Rightarrow> WorkerSlot \<Rightarrow> bool" where
  "slot_recovered w st ts slot slot' \<longleftrightarrow>
     (case recycle_ticket st ts (ws_status slot) of
        None \<Rightarrow> slot' = slot
      | Some _ \<Rightarrow> slot' = idle_slot slot \<or> slot' = slot \<and> (\<exists>ws. ws_workspace_id slot = Some ws \<and> deletion_refused w ws))"

lemma recycle_ticket_cong:
  "same_records st st' \<Longrightarrow> recycle_ticket st' ts status = recycle_ticket st ts status"
  by (cases status) (simp_all add: same_records_def ticket_finished_def lifecycle_done_def)

lemma recycle_slot_frame:
  assumes "recycle_slot w ticket slot s = (slot', changed, s')" and "plain_role (worker_role (ws_id slot))"
  shows "same_records (nx_store s) (nx_store s')"
    and "slot' = idle_slot slot \<or> slot' = slot \<and> (\<exists>ws. ws_workspace_id slot = Some ws \<and> deletion_refused w ws)"
    and "changed \<or> slot' = slot \<and> read_slots (nx_store s') = read_slots (nx_store s)"
proof -
  have del: "same_records st (store_del st (full_ticket_key ticket ''workspace'' (worker_role (ws_id slot))))" for st
    by (rule same_records_del) (simp_all add: workspace_key_not_status assms(2))
  show "same_records (nx_store s) (nx_store s')"
    "slot' = idle_slot slot \<or> slot' = slot \<and> (\<exists>ws. ws_workspace_id slot = Some ws \<and> deletion_refused w ws)"
    "changed \<or> slot' = slot \<and> read_slots (nx_store s') = read_slots (nx_store s)"
    using assms(1) del
    by (auto simp: recycle_slot_def split: option.splits prod.splits sum.splits
        elim!: destroy_worker_workspace_cases intro: same_records_trans)
qed

lemma recover_slots_frame:
  assumes "recover_slots w ts xs s = (ys, changed, s')" and "\<forall>(k, slot) \<in> set xs. plain_role (worker_role (ws_id slot))"
  shows "same_records (nx_store s) (nx_store s') \<and>
    list_all2 (\<lambda>(k, slot) (k', slot'). k' = k \<and> slot_recovered w (nx_store s) ts slot slot') xs ys \<and>
    (changed \<or> ys = xs \<and> read_slots (nx_store s') = read_slots (nx_store s))"
  using assms
proof (induction xs arbitrary: s s' ys changed)
  case (Cons x xs)
  obtain k slot where x: "x = (k, slot)" by force
  let ?step = "case recycle_ticket (nx_store s) ts (ws_status slot) of Some ticket \<Rightarrow> recycle_slot w ticket slot s | None \<Rightarrow> (slot, False, s)"
  obtain slot' c1 s1 where one: "?step = (slot', c1, s1)" by (metis prod_cases3)
  obtain zs c2 s2 where rest: "recover_slots w ts xs s1 = (zs, c2, s2)" by (metis prod_cases3)
  have out: "ys = (k, slot') # zs" "changed = (c1 \<or> c2)" "s' = s2"
    using Cons.prems(1) x one rest by simp_all
  have first: "same_records (nx_store s) (nx_store s1)" "slot_recovered w (nx_store s) ts slot slot'"
    "c1 \<or> slot' = slot \<and> read_slots (nx_store s1) = read_slots (nx_store s)"
    using one Cons.prems(2) x recycle_slot_frame [of w _ slot s slot' c1 s1]
    by (auto simp: slot_recovered_def split: option.splits)
  have eq: "slot_recovered w (nx_store s1) ts = slot_recovered w (nx_store s) ts"
    by (intro ext) (simp add: slot_recovered_def recycle_ticket_cong [OF first(1)])
  have ih: "same_records (nx_store s1) (nx_store s2)"
    "list_all2 (\<lambda>(k, slot) (k', slot'). k' = k \<and> slot_recovered w (nx_store s) ts slot slot') xs zs"
    "c2 \<or> zs = xs \<and> read_slots (nx_store s2) = read_slots (nx_store s1)"
    using Cons.IH [OF rest] Cons.prems(2) unfolding eq by simp_all
  show ?case
    using first(2,3) ih(2,3) same_records_trans [OF first(1) ih(1)] unfolding out x by auto
qed simp

section \<open>Retrying deletions\<close>

lemma retry_workspace_frame:
  assumes "role = ''forge'' \<or> role = ''sentinel''"
  shows "same_records (nx_store s) (nx_store (retry_workspace w ticket role s)) \<and>
    same_status (read_slots (nx_store s)) (read_slots (nx_store (retry_workspace w ticket role s)))"
proof (cases "store_get_typed de_string (nx_store s) (full_ticket_key ticket ''workspace'' role)")
  case (Some ws)
  let ?k = "full_ticket_key ticket ''workspace'' role"
  obtain r s1 where d: "destroy_worker_workspace w ws s = (r, s1)" by force
  have del: "same_records st (store_del st ?k)" "read_slots (store_del st ?k) = read_slots st" for st
    using assms by (auto intro!: same_records_del workspace_key_not_status simp: plain_role_def read_set_other)
  have "same_records (nx_store s) (nx_store s1) \<and> same_status (read_slots (nx_store s)) (read_slots (nx_store s1))"
    using d by (rule destroy_worker_workspace_cases) (simp_all add: same_status_clear)
  then show ?thesis
    using Some d del by (auto simp: retry_workspace_def Let_def intro: same_records_trans split: sum.splits)
qed (simp add: retry_workspace_def Let_def)

lemma retry_tickets_frame:
  "same_records (nx_store s) (nx_store (fold (retry_ticket w) ts s)) \<and>
   same_status (read_slots (nx_store s)) (read_slots (nx_store (fold (retry_ticket w) ts s)))"
proof (induction ts arbitrary: s)
  case (Cons t ts)
  have "same_records (nx_store s) (nx_store (retry_ticket w t s)) \<and>
      same_status (read_slots (nx_store s)) (read_slots (nx_store (retry_ticket w t s)))"
    unfolding retry_ticket_def using retry_workspace_frame same_records_trans same_status_trans
    by (smt (verit, best) same_records_refl same_status_refl)
  then show ?case using Cons same_records_trans same_status_trans by fastforce
qed simp

section \<open>Releasing one worker\<close>

lemma status_key_flat: "full_ticket_key_flat ticket ''status'' = status_key ticket"
  by (simp add: full_ticket_key_flat_def status_key_def)

lemma map_of_same_status:
  assumes "same_status xs ys" and "map_of xs k = Some slot"
  shows "\<exists>slot'. map_of ys k = Some slot' \<and> ws_id slot' = ws_id slot \<and> ws_status slot' = ws_status slot \<and>
    (ws_workspace_id slot = None \<longrightarrow> ws_workspace_id slot' = None)"
  using assms unfolding same_status_def by (induction xs ys rule: list_all2_induct) (auto split: if_splits)

lemma map_of_clear: "map_of (clear_workspace ws xs) k =
    map_option (\<lambda>slot. if ws_workspace_id slot = Some ws then slot\<lparr>ws_workspace_id := None\<rparr> else slot) (map_of xs k)"
  by (induction xs) (auto simp: clear_workspace_def)

lemma map_of_update_slot: "map_of (update_slot k f xs) k' = (if k' = k then map_option f (map_of xs k) else map_of xs k')"
  by (induction xs) (auto simp: update_slot_def)

text \<open>The worker is idle without workspace afterwards, unless the deletion of its workspace is refused.\<close>

lemma release_worker_slot_frame:
  "same_records (nx_store s) (nx_store (release_worker_slot w worker s)) \<and>
   (\<forall>slot. map_of (read_slots (nx_store s)) worker = Some slot \<longrightarrow>
      (\<exists>now. map_of (read_slots (nx_store (release_worker_slot w worker s))) worker = Some now \<and>
         ws_status now = Idle \<and> ws_workspace_id now = None) \<or>
      (\<exists>ws. ws_workspace_id slot = Some ws \<and> deletion_refused w ws))"
proof (cases "map_of (read_slots (nx_store s)) worker")
  case (Some slot)
  show ?thesis
  proof (cases "ws_workspace_id slot")
    case None
    then show ?thesis
      using Some by (auto simp: release_worker_slot_def Let_def map_of_update_slot idle_slot_def)
  next
    case (Some ws)
    obtain r s1 where d: "destroy_worker_workspace w ws s = (r, s1)" by force
    from d show ?thesis
    proof (cases rule: destroy_worker_workspace_cases)
      case (refused e)
      then show ?thesis using \<open>map_of (read_slots (nx_store s)) worker = Some slot\<close> Some d
        by (auto simp: release_worker_slot_def Let_def)
    next
      case gone
      then have "\<exists>now. map_of (read_slots (nx_store s1)) worker = Some now \<and> ws_workspace_id now \<in> {Some ws, None}"
        using \<open>map_of (read_slots (nx_store s)) worker = Some slot\<close> Some by (auto simp: map_of_clear)
      then obtain now where now: "map_of (read_slots (nx_store s1)) worker = Some now" "ws_workspace_id now \<in> {Some ws, None}" by blast
      have "map_of (read_slots (nx_store (release_worker_slot w worker s))) worker = Some (idle_slot now)"
        using gone(1) now \<open>map_of (read_slots (nx_store s)) worker = Some slot\<close> Some d
        by (auto simp: release_worker_slot_def Let_def map_of_update_slot)
      moreover have "same_records (nx_store s) (nx_store (release_worker_slot w worker s))"
        using gone(1,2) \<open>map_of (read_slots (nx_store s)) worker = Some slot\<close> Some d
        by (auto simp: release_worker_slot_def Let_def intro: same_records_trans)
      ultimately show ?thesis by (simp add: idle_slot_def)
    qed
  qed
qed (simp add: release_worker_slot_def)

end
