(* ===== verification/Nexus_Guarantees.thy ===== *)
theory Nexus_Guarantees
  imports Nexus_Recovery
begin

text \<open>
  What the NEXUS controller guarantees: recovery touches exactly the stale tickets and workers, work goes to idle workers
  in the right order, the worker table stays well formed, reviewers stay with their ticket, issues become tickets
  once, and what an escalation does to a ticket.
\<close>

section \<open>The whole recovery\<close>

lemma recover_orphans_frame:
  assumes plain: "\<forall>(k, slot) \<in> set (read_slots (nx_store s)). plain_role (worker_role (ws_id slot))"
    and out: "s' = recover_orphans w s" and ts: "ts = map (reset_orphan (read_slots (nx_store s))) (read_tickets (nx_store s))"
  shows "read_tickets (nx_store s') = ts \<and> (\<forall>tk. store_lifecycle (nx_store s') tk = store_lifecycle (nx_store s) tk) \<and>
    (\<exists>ys. list_all2 (\<lambda>(k, slot) (k', slot'). k' = k \<and> slot_recovered w (nx_store s) ts slot slot') (read_slots (nx_store s)) ys \<and>
       same_status ys (read_slots (nx_store s')))"
proof -
  let ?xs = "read_slots (nx_store s)" and ?old = "read_tickets (nx_store s)"
  obtain ys changed s1 where r: "recover_slots w ts ?xs s = (ys, changed, s1)" by (metis prod_cases3)
  let ?s2 = "if ts \<noteq> ?old then s1\<lparr>nx_store := write_tickets (nx_store s1) ts\<rparr> else s1"
  let ?s3 = "if changed then ?s2\<lparr>nx_store := write_slots (nx_store ?s2) ys\<rparr> else ?s2"
  have s': "s' = fold (retry_ticket w) ts ?s3"
    using out r ts by (simp add: recover_orphans_def Let_def)
  note frame = recover_slots_frame [OF r plain]
  have "read_tickets (nx_store ?s3) = ts" "\<forall>tk. store_lifecycle (nx_store ?s3) tk = store_lifecycle (nx_store s) tk"
    "read_slots (nx_store ?s3) = ys"
    using frame by (auto simp: same_records_def)
  with retry_tickets_frame [of ?s3 w ts] frame s' show ?thesis by (auto simp: same_records_def)
qed

lemma reset_orphan_spec:
  "reset_orphan xs t =
     (if \<exists>k. (tk_status t = Assigned k \<or> tk_status t = InProgress k) \<and> k \<notin> fst ` set xs then t\<lparr>tk_status := Open\<rparr> else t)"
  by (cases "tk_status t") (auto simp: reset_orphan_def map_of_eq_None_iff)

lemma recycle_ticket_spec:
  "recycle_ticket st ts status \<noteq> None \<longleftrightarrow>
     (\<exists>j. ((\<exists>a b. status = Suspended j a b) \<or> (\<exists>u. status = WAssigned j u \<or> status = Working j u)) \<and>
       ((\<exists>t \<in> set ts. tk_id t = j \<and> is_terminal (tk_status t)) \<or> (\<exists>cur. store_lifecycle st j = Ok cur \<and> lc_phase cur = Done))) \<or>
     (\<exists>j u. (status = WAssigned j u \<or> status = Working j u) \<and> (\<exists>t \<in> set ts. tk_id t = j \<and> tk_status t = Open))"
  by (cases status) (auto simp: ticket_finished_def ticket_open_def lifecycle_done_def list_ex_iff split: sum.splits)

text \<open>
  C21 (functional). Recovery of orphans is exact. A ticket changes only if it is assigned to or in progress with a worker
  that has no slot at all, and then it is open again; a ticket of an idle worker stays as it is; lifecycle records are not touched.
  A worker changes only if the ticket it is assigned to, working on or suspended on is over (a terminal status, or a lifecycle that is
  done), or if the ticket it is assigned to or working on is now open; then it is idle without workspace, unless the deletion of its workspace was
  refused, in which case it stays as it was.
\<close>

theorem recovery_is_exact:
  fixes w :: CoderWorld and s :: NexusState
  assumes "\<forall>(k, slot) \<in> set (read_slots (nx_store s)). plain_role (worker_role (ws_id slot))"
  defines "s' \<equiv> recover_orphans w s" and "xs \<equiv> read_slots (nx_store s)"
  shows "list_all2 (\<lambda>t t'. t' =
      (if \<exists>k. (tk_status t = Assigned k \<or> tk_status t = InProgress k) \<and> k \<notin> fst ` set xs then t\<lparr>tk_status := Open\<rparr> else t))
      (read_tickets (nx_store s)) (read_tickets (nx_store s')) \<and>
    (\<forall>tk. store_lifecycle (nx_store s') tk = store_lifecycle (nx_store s) tk) \<and>
    list_all2 (\<lambda>(k, slot) (k', slot'). k' = k \<and> ws_id slot' = ws_id slot \<and>
      (if (\<exists>j. ((\<exists>a b. ws_status slot = Suspended j a b) \<or> (\<exists>u. ws_status slot = WAssigned j u \<or> ws_status slot = Working j u)) \<and>
             ((\<exists>t \<in> set (read_tickets (nx_store s')). tk_id t = j \<and> is_terminal (tk_status t)) \<or>
              (\<exists>cur. store_lifecycle (nx_store s) j = Ok cur \<and> lc_phase cur = Done))) \<or>
          (\<exists>j u. (ws_status slot = WAssigned j u \<or> ws_status slot = Working j u) \<and>
             (\<exists>t \<in> set (read_tickets (nx_store s')). tk_id t = j \<and> tk_status t = Open))
       then ws_status slot' = Idle \<and> ws_workspace_id slot' = None \<or>
            ws_status slot' = ws_status slot \<and> (\<exists>ws. ws_workspace_id slot = Some ws \<and> deletion_refused w ws)
       else ws_status slot' = ws_status slot))
      xs (read_slots (nx_store s'))"
proof -
  define ts where "ts = map (reset_orphan xs) (read_tickets (nx_store s))"
  from recover_orphans_frame [OF assms(1) s'_def [THEN meta_eq_to_obj_eq] ts_def [unfolded xs_def]]
  obtain ys where ys: "list_all2 (\<lambda>(k, slot) (k', slot'). k' = k \<and> slot_recovered w (nx_store s) ts slot slot') xs ys"
    "same_status ys (read_slots (nx_store s'))" and rest: "read_tickets (nx_store s') = ts"
    "\<forall>tk. store_lifecycle (nx_store s') tk = store_lifecycle (nx_store s) tk" unfolding xs_def by blast
  have tickets: "list_all2 (\<lambda>t t'. t' = (if \<exists>k. (tk_status t = Assigned k \<or> tk_status t = InProgress k) \<and> k \<notin> fst ` set xs
      then t\<lparr>tk_status := Open\<rparr> else t)) (read_tickets (nx_store s)) (read_tickets (nx_store s'))"
    unfolding rest(1) ts_def by (simp add: list_all2_map2 reset_orphan_spec list_all2_same)
  have recycled: "(if recycle_ticket (nx_store s) ts (ws_status slot) \<noteq> None
       then ws_status slot' = Idle \<and> ws_workspace_id slot' = None \<or>
            ws_status slot' = ws_status slot \<and> (\<exists>ws. ws_workspace_id slot = Some ws \<and> deletion_refused w ws)
       else ws_status slot' = ws_status slot) \<and> ws_id slot' = ws_id slot"
    if "slot_recovered w (nx_store s) ts slot mid" "ws_status slot' = ws_status mid" "ws_id slot' = ws_id mid"
      "ws_workspace_id mid = None \<longrightarrow> ws_workspace_id slot' = None" for slot mid slot'
    using that by (auto simp: slot_recovered_def idle_slot_def split: option.splits)
  have "list_all2 (\<lambda>(k, slot) (k', slot'). k' = k \<and> ws_id slot' = ws_id slot \<and>
      (if recycle_ticket (nx_store s) ts (ws_status slot) \<noteq> None
       then ws_status slot' = Idle \<and> ws_workspace_id slot' = None \<or>
            ws_status slot' = ws_status slot \<and> (\<exists>ws. ws_workspace_id slot = Some ws \<and> deletion_refused w ws)
       else ws_status slot' = ws_status slot)) xs (read_slots (nx_store s'))"
    by (rule list_all2_trans [OF _ ys(1) ys(2) [unfolded same_status_def]]) (use recycled in fastforce)
  then show ?thesis using tickets rest unfolding recycle_ticket_spec by simp
qed

lemma escalate_first_find:
  "find (\<lambda>t. tk_id t = ticket) ts = Some t \<Longrightarrow>
   find (\<lambda>t. tk_id t = ticket) (escalate_first ticket worker reason ts) =
     Some (t\<lparr>tk_attempts := tk_attempts t + 1, tk_status := AwaitingHuman worker reason (tk_attempts t + 1)\<rparr>)"
  by (induction ts) (auto split: if_splits)

text \<open>
  C23 (functional). What an escalation by NEXUS does: the ticket awaits a human with one more attempt counted and its worker
  is idle again, unless the deletion of its workspace is refused. It also overwrites the lifecycle record of the
  ticket: whatever its phase was, also with a merge pending or done, it reads afterwards as an upgraded old record in
  planning with version 0 and no plan, head or approval. A second escalation of the same ticket changes no ticket.
\<close>

theorem escalation_resets_the_lifecycle:
  fixes w :: CoderWorld and s :: NexusState and worker reason :: string
  assumes "find (\<lambda>t. tk_id t = ticket) (read_tickets (nx_store s)) = Some t" and "\<not> is_awaiting_human (tk_status t)"
  defines "s' \<equiv> mark_ticket_awaiting_human w ticket worker reason s"
  shows "store_lifecycle (nx_store s') ticket = Ok (legacy_lifecycle ''awaiting_human'') \<and>
    (\<forall>tk. tk \<noteq> ticket \<longrightarrow> store_lifecycle (nx_store s') tk = store_lifecycle (nx_store s) tk) \<and>
    find (\<lambda>t. tk_id t = ticket) (read_tickets (nx_store s')) =
      Some (t\<lparr>tk_attempts := tk_attempts t + 1, tk_status := AwaitingHuman worker reason (tk_attempts t + 1)\<rparr>) \<and>
    (\<forall>slot. map_of (read_slots (nx_store s)) worker = Some slot \<longrightarrow>
      (\<exists>now. map_of (read_slots (nx_store s')) worker = Some now \<and> ws_status now = Idle \<and> ws_workspace_id now = None) \<or>
      (\<exists>ws. ws_workspace_id slot = Some ws \<and> deletion_refused w ws)) \<and>
    read_tickets (nx_store (mark_ticket_awaiting_human w ticket worker' reason' s')) = read_tickets (nx_store s')"
proof -
  let ?ts = "escalate_first ticket worker reason (read_tickets (nx_store s))"
  let ?st1 = "store_set (write_tickets (nx_store s) ?ts) (status_key ticket) (JStr ''awaiting_human'')"
  let ?st = "reset_recovery_attempts ticket ?st1"
  have keys: "not_status (full_ticket_key_flat ticket ''recovery_attempts'')" "status_key ticket \<noteq> ''tickets''" "status_key ticket \<noteq> ''worker_slots''"
    by (rule flat_key_not_status) (simp_all add: plain_role_def status_key_def)
  have mid: "read_tickets ?st = ?ts" "read_slots ?st = read_slots (nx_store s)"
    "store_lifecycle ?st tk = (if tk = ticket then Ok (legacy_lifecycle ''awaiting_human'') else store_lifecycle (nx_store s) tk)" for tk
    using keys by (simp_all add: reset_recovery_attempts_def read_set_other lifecycle_other escalated_read)
  have s': "s' = release_worker_slot w worker (s\<lparr>nx_store := ?st\<rparr>)"
    using assms(1,2) by (simp add: s'_def mark_ticket_awaiting_human_def status_key_flat Let_def)
  have same: "same_records ?st (nx_store s')"
    using release_worker_slot_frame [of "s\<lparr>nx_store := ?st\<rparr>" w worker] s' by simp
  then have found: "find (\<lambda>t. tk_id t = ticket) (read_tickets (nx_store s')) =
      Some (t\<lparr>tk_attempts := tk_attempts t + 1, tk_status := AwaitingHuman worker reason (tk_attempts t + 1)\<rparr>)"
    using escalate_first_find [OF assms(1)] mid(1) by (simp add: same_records_def)
  then have again: "mark_ticket_awaiting_human w ticket worker' reason' s' = release_worker_slot w worker' s'"
    by (simp add: mark_ticket_awaiting_human_def Let_def)
  have "read_tickets (nx_store (mark_ticket_awaiting_human w ticket worker' reason' s')) = read_tickets (nx_store s')"
    using release_worker_slot_frame [of s' w worker'] by (simp add: again same_records_def)
  then show ?thesis
    using same mid found release_worker_slot_frame [of "s\<lparr>nx_store := ?st\<rparr>" w worker] s' by (auto simp: same_records_def)
qed

section \<open>Assignment\<close>

text \<open>The part of the context of a pass that the decision reads.\<close>

definition pass_context :: "CiReadiness \<Rightarrow> Ticket list \<Rightarrow> slots \<Rightarrow> json list \<Rightarrow> bool \<Rightarrow> json list \<Rightarrow> json" where
  "pass_context readiness ts xs prs pending rework =
     JObj [(''tickets'', ser_vec ticket_to_json ts),
       (''assignable_tickets'', ser_vec ticket_to_json (assignable_tickets readiness ts)),
       (''worker_slots'', ser_slots xs), (''open_prs'', JArr prs), (''review_delivery_pending'', JBool pending),
       (''rework_provision'', JArr rework)]"

lemma context_slots_pass: "context_slots (pass_context readiness ts xs prs pending rework) = map snd xs"
proof -
  have "List.map_filter (\<lambda>(_, v). de_worker_slot v) (map (\<lambda>(k, slot). (k, worker_slot_to_json slot)) xs) = map snd xs"
    by (induction xs) (auto simp: List.map_filter_def)
  then show ?thesis by (simp add: context_slots_def pass_context_def ser_slots_def)
qed

lemma context_array_pass:
  "context_array (pass_context readiness ts xs prs pending rework) ''assignable_tickets'' = map ticket_to_json (assignable_tickets readiness ts)"
  "context_array (pass_context readiness ts xs prs pending rework) ''open_prs'' = prs"
  "context_array (pass_context readiness ts xs prs pending rework) ''rework_provision'' = rework"
  "Option.bind (json_get (pass_context readiness ts xs prs pending rework) ''review_delivery_pending'') de_bool = Some pending"
  by (simp_all add: context_array_def pass_context_def ser_vec_def)

lemma ticket_json_fields:
  "Option.bind (json_get (ticket_to_json t) ''id'') as_str = Some (tk_id t)"
  "Option.bind (json_get (ticket_to_json t) ''issue_url'') as_str = tk_issue_url t"
  by (cases "tk_issue_url t"; simp add: ticket_to_json_def)+

text \<open>A decision to assign work names the first assignable ticket and the first idle FORGE worker.\<close>

lemma work_assigned_decision:
  assumes "ad_action (nexus_exec (pass_context readiness ts xs prs pending rework)) = ''work_assigned''" and "slots_ok xs"
  obtains t rest k slot where "assignable_tickets readiness ts = t # rest" "map_of xs k = Some slot" "ws_status slot = Idle"
    "worker_role k = ''forge''" "prs = []" "\<not> pending"
    "ad_assign_to (nexus_exec (pass_context readiness ts xs prs pending rework)) = Some k"
    "ad_ticket_id (nexus_exec (pass_context readiness ts xs prs pending rework)) = Some (tk_id t)"
    "ad_issue_url (nexus_exec (pass_context readiness ts xs prs pending rework)) = tk_issue_url t"
proof -
  let ?ctx = "pass_context readiness ts xs prs pending rework"
  have no_rework: "rework_decision ?ctx = None" "\<not> pending" "prs = []" "assignable_tickets readiness ts \<noteq> []" "idle_forge_workers ?ctx \<noteq> []"
    using assms(1) by (auto simp: nexus_exec_def Let_def plain_decision_def rework_decision_def context_array_pass PAUSE_SIGNAL_def
        split: option.splits if_splits list.splits)
  obtain t rest where t: "assignable_tickets readiness ts = t # rest" using no_rework(4) by (cases "assignable_tickets readiness ts") auto
  have "hd (idle_forge_workers ?ctx) \<in> set (idle_forge_workers ?ctx)" using no_rework(5) by simp
  then obtain k slot where k: "(k, slot) \<in> set xs" "ws_status slot = Idle" "worker_role (ws_id slot) = ''forge''" "hd (idle_forge_workers ?ctx) = ws_id slot"
    by (auto simp: idle_forge_workers_def context_slots_pass)
  then have "ws_id slot = k" "map_of xs k = Some slot" using assms(2) by (auto simp: slots_ok_def)
  then show thesis
    using that [OF t] k no_rework t
    by (simp add: nexus_exec_def Let_def context_array_pass plain_decision_def ticket_json_fields)
qed

lemma assign_first_find:
  "find (\<lambda>t. tk_id t = ticket) ts = Some t \<Longrightarrow>
   \<exists>t'. find (\<lambda>t. tk_id t = ticket) (assign_first ticket worker url ts) = Some t' \<and> tk_status t' = Assigned worker"
  by (induction ts) (auto split: if_splits option.splits)

lemma find_reset:
  assumes "t \<in> set ts" and "distinct (map tk_id ts)" and "is_assignable t"
  shows "find (\<lambda>x. tk_id x = tk_id t) (map (reset_orphan xs) ts) = Some t"
proof -
  have id: "tk_id (reset_orphan xs x) = tk_id x" for x by (simp add: reset_orphan_def split: option.splits)
  have same: "reset_orphan xs t = t"
    using assms(3) by (cases "tk_status t") (auto simp: reset_orphan_def is_assignable_def)
  show ?thesis using assms(1,2) by (induction ts) (auto simp: id same image_iff split: if_splits)
qed

lemma slots_after_recovery:
  assumes "\<forall>(k, slot) \<in> set (read_slots (nx_store s)). plain_role (worker_role (ws_id slot))"
    and "map_of (read_slots (nx_store s)) k = Some slot" and "ws_status slot = Idle"
  shows "\<exists>slot'. map_of (read_slots (nx_store (recover_orphans w s))) k = Some slot' \<and> ws_status slot' = Idle"
proof -
  from recover_orphans_frame [OF assms(1) refl refl, of w] obtain ys ts where
    ys: "list_all2 (\<lambda>(k, slot) (k', slot'). k' = k \<and> slot_recovered w (nx_store s) ts slot slot') (read_slots (nx_store s)) ys"
    "same_status ys (read_slots (nx_store (recover_orphans w s)))" by blast
  have "map_of ys k = Some slot"
    using ys(1) assms(2,3) by (induction rule: list_all2_induct) (auto simp: slot_recovered_def split: if_splits)
  from map_of_same_status [OF ys(2) this] assms(3) show ?thesis by auto
qed

text \<open>
  C20 (functional). A pass that assigns work hands the best ticket to an idle worker. If the decision made on the tickets
  and slots of the store is to assign work, no pull request waits for VESSEL and no review for delivery, the ticket is
  assignable and has the least key (CI set-up first, then priority) of all that may be assigned, the worker is an idle
  FORGE slot, and after the bookkeeping, before workspace and chat are provisioned, the stored ticket is assigned to
  that worker and the worker's slot to that ticket.
\<close>

theorem work_goes_to_an_idle_worker:
  fixes w :: CoderWorld
  assumes stored: "read_tickets (nx_store s) = prioritize_ci_first ts" "read_slots (nx_store s) = xs"
    and ok: "distinct (map tk_id ts)" "slots_ok xs" "\<forall>(k, slot) \<in> set xs. plain_role (worker_role (ws_id slot))"
    and d: "d = nexus_exec (pass_context readiness (prioritize_ci_first ts) xs prs pending rework)" "ad_action d = ''work_assigned''"
  shows "\<exists>t k slot u. t \<in> set ts \<and> is_assignable t \<and> (ci_must_go_first readiness (prioritize_ci_first ts) \<longrightarrow> is_ci_setup_ticket t) \<and>
    (\<forall>t' \<in> set (assignable_tickets readiness (prioritize_ci_first ts)). ci_first_key t \<le> ci_first_key t') \<and>
    map_of xs k = Some slot \<and> ws_status slot = Idle \<and> worker_role k = ''forge'' \<and> prs = [] \<and> \<not> pending \<and>
    nexus_post w hand_over d s = (''work_assigned'', hand_over k (tk_id t) u) \<and>
    (\<exists>t'. find (\<lambda>x. tk_id x = tk_id t) (read_tickets (nx_store u)) = Some t' \<and> tk_status t' = Assigned k) \<and>
    (\<exists>slot'. map_of (read_slots (nx_store u)) k = Some slot' \<and> ws_status slot' = WAssigned (tk_id t) (tk_issue_url t))"
proof -
  let ?ps = "prioritize_ci_first ts"
  from work_assigned_decision [OF d(2) [unfolded d(1)] ok(2)] obtain t rest k slot where
    t: "assignable_tickets readiness ?ps = t # rest" and k: "map_of xs k = Some slot" "ws_status slot = Idle" "worker_role k = ''forge''"
    and none: "prs = []" "\<not> pending" and fields: "ad_assign_to d = Some k" "ad_ticket_id d = Some (tk_id t)" "ad_issue_url d = tk_issue_url t"
    unfolding d(1) by metis
  have mem: "t \<in> set ts" "is_assignable t" "ci_must_go_first readiness ?ps \<longrightarrow> is_ci_setup_ticket t"
  proof -
    have "t \<in> set (assignable_tickets readiness ?ps)" using t by simp
    then show "t \<in> set ts" "is_assignable t" "ci_must_go_first readiness ?ps \<longrightarrow> is_ci_setup_ticket t"
      by (auto simp: assignable_tickets_def prioritize_ci_first_def split: if_splits)
  qed
  have "sorted (map ci_first_key (assignable_tickets readiness ?ps))"
    by (simp add: assignable_tickets_def prioritize_ci_first_def sorted_filter)
  then have least: "\<forall>t' \<in> set (assignable_tickets readiness ?ps). ci_first_key t \<le> ci_first_key t'" by (simp add: t)
  have ids: "distinct (map tk_id ?ps)" "t \<in> set ?ps"
    using ok(1) mem(1) by (simp_all add: prioritize_ci_first_def distinct_map)
  let ?r = "recover_orphans w s"
  have plain: "\<forall>(k, slot) \<in> set (read_slots (nx_store s)). plain_role (worker_role (ws_id slot))" using ok(3) stored(2) by simp
  have tickets: "find (\<lambda>x. tk_id x = tk_id t) (read_tickets (nx_store ?r)) = Some t"
    using recover_orphans_frame [OF plain refl refl, of w] find_reset [OF ids(2,1) mem(2)] stored by simp
  from slots_after_recovery [OF plain, of k slot w] k stored(2) obtain slot' where
    slot': "map_of (read_slots (nx_store ?r)) k = Some slot'" by auto
  let ?u = "?r\<lparr>nx_store := assign_work d (tk_id t) k (no_work_reset (nx_store ?r))\<rparr>"
  have post: "nexus_post w hand_over d s = (''work_assigned'', hand_over k (tk_id t) ?u)"
    using d(2) fields by (simp add: nexus_post_def Let_def)
  have reset: "read_tickets (no_work_reset st) = read_tickets st" "read_slots (no_work_reset st) = read_slots st" for st
    by (simp_all add: no_work_reset_def read_set_other)
  have ci: "read_tickets (store_set st ''ci_readiness'' v) = read_tickets st" "read_slots (store_set st ''ci_readiness'' v) = read_slots st" for st v
    by (simp_all add: read_set_other)
  have "list_ex (\<lambda>x. tk_id x = tk_id t) (read_tickets (nx_store ?r))"
    using tickets by (auto simp: find_Some_iff list_ex_iff)
  then have "\<exists>t'. find (\<lambda>x. tk_id x = tk_id t) (read_tickets (nx_store ?u)) = Some t' \<and> tk_status t' = Assigned k"
    using assign_first_find [OF tickets] by (simp add: assign_work_def assign_slot_def Let_def assigned_tickets_def reset ci)
  moreover have "\<exists>slot'. map_of (read_slots (nx_store ?u)) k = Some slot' \<and> ws_status slot' = WAssigned (tk_id t) (tk_issue_url t)"
    using slot' fields(3) by (simp add: assign_work_def assign_slot_def Let_def reset ci map_of_update_slot)
  ultimately show ?thesis using mem least k none post by blast
qed

section \<open>Concrete passes\<close>

definition demo_ticket :: "string \<Rightarrow> TicketStatus \<Rightarrow> Ticket" where
  "demo_ticket i st = \<lparr>tk_id = i, tk_title = ''parser'', tk_body = [], tk_priority = 1, tk_branch = None, tk_status = st,
     tk_issue_url = None, tk_attempts = 0\<rparr>"

definition demo_slot :: "string \<Rightarrow> WorkerStatus \<Rightarrow> string \<times> WorkerSlot" where
  "demo_slot k st = (k, \<lparr>ws_id = k, ws_status = st, ws_workspace_id = None\<rparr>)"

definition demo_nexus :: NexusState where
  "demo_nexus =
     \<lparr>nx_store = write_slots (write_tickets new_in_memory [demo_ticket ''T-1'' Open, demo_ticket ''T-2'' (Assigned ''forge-9'')])
        [demo_slot ''forge-1'' Idle, demo_slot ''forge-2'' (Working ''T-2'' None)],
      nx_calls = 0\<rparr>"

definition demo_coder :: CoderWorld where
  "demo_coder = \<lparr>cw_managed = False, cw_env_url = None, cw_env_token = None, cw_delete = (\<lambda>_ _. Ok ())\<rparr>"

lemma demo_reads:
  "read_tickets (nx_store demo_nexus) = [demo_ticket ''T-1'' Open, demo_ticket ''T-2'' (Assigned ''forge-9'')]"
  "read_slots (nx_store demo_nexus) = [demo_slot ''forge-1'' Idle, demo_slot ''forge-2'' (Working ''T-2'' None)]"
  by (simp_all add: demo_nexus_def)

lemma demo_roles: "worker_role ''forge-1'' = ''forge''" "worker_role ''forge-2'' = ''forge''"
  by code_simp+

lemma demo_plain: "\<forall>(k, slot) \<in> set (read_slots (nx_store demo_nexus)). plain_role (worker_role (ws_id slot))"
  by (simp add: demo_reads demo_slot_def demo_roles plain_role_def)

theorem recovery_is_exact_witness:
  "read_tickets (nx_store (recover_orphans demo_coder demo_nexus)) = [demo_ticket ''T-1'' Open, demo_ticket ''T-2'' Open]"
  using recovery_is_exact [OF demo_plain, of demo_coder]
  by (auto simp: demo_reads demo_ticket_def demo_slot_def list_all2_Cons1)

theorem escalation_resets_the_lifecycle_witness:
  "store_lifecycle (nx_store (mark_ticket_awaiting_human demo_coder ''T-1'' ''forge-1'' ''stuck'' demo_nexus)) ''T-1'' =
     Ok (legacy_lifecycle ''awaiting_human'') \<and> lc_version (legacy_lifecycle ''awaiting_human'') = 0"
  using escalation_resets_the_lifecycle [where s = demo_nexus and ticket = "''T-1''" and t = "demo_ticket ''T-1'' Open" and w = demo_coder
      and worker = "''forge-1''" and reason = "''stuck''" and worker' = "''forge-1''" and reason' = "''stuck''"]
  by (simp add: demo_reads demo_ticket_def legacy_lifecycle_def default_lifecycle_def)

theorem work_goes_to_an_idle_worker_witness:
  "\<exists>t k u. is_assignable t \<and> worker_role k = ''forge'' \<and>
     nexus_post demo_coder (\<lambda>_ _ s. s)
       (nexus_exec (pass_context Ready (prioritize_ci_first [demo_ticket ''T-1'' Open, demo_ticket ''T-2'' (Assigned ''forge-9'')])
          [demo_slot ''forge-1'' Idle, demo_slot ''forge-2'' (Working ''T-2'' None)] [] False []))
       demo_nexus = (''work_assigned'', u) \<and>
     (\<exists>slot'. map_of (read_slots (nx_store u)) k = Some slot' \<and> ws_status slot' = WAssigned (tk_id t) (tk_issue_url t))"
proof -
  let ?ts = "[demo_ticket ''T-1'' Open, demo_ticket ''T-2'' (Assigned ''forge-9'')]"
  let ?xs = "[demo_slot ''forge-1'' Idle, demo_slot ''forge-2'' (Working ''T-2'' None)]"
  have sorted: "prioritize_ci_first ?ts = ?ts"
    by (simp add: prioritize_ci_first_def ci_first_key_def is_ci_setup_ticket_def demo_ticket_def CI_SETUP_TICKET_ID_def)
  have act: "ad_action (nexus_exec (pass_context Ready ?ts ?xs [] False [])) = ''work_assigned''"
    by (simp add: nexus_exec_def Let_def context_array_pass idle_forge_workers_def context_slots_pass assignable_tickets_def ci_must_go_first_def
        demo_slot_def demo_ticket_def demo_roles is_assignable_def rework_decision_def plain_decision_def)
  have "slots_ok ?xs" "distinct (map tk_id ?ts)" by (simp_all add: slots_ok_def demo_slot_def demo_ticket_def)
  from work_goes_to_an_idle_worker [of demo_nexus ?ts ?xs, OF _ _ this(2,1) _ refl, of Ready "[]" False "[]" demo_coder "\<lambda>_ _ s. s"]
    act demo_reads demo_plain sorted show ?thesis by fastforce
qed

end
