(* ===== verification/Nexus_Fleet.thy ===== *)
theory Nexus_Fleet
  imports Nexus_Recovery Reachability
begin

text \<open>
  The worker table under all operations of NEXUS, the choice of a reviewer, and the tickets that come from GitHub issues.
\<close>

section \<open>The worker table\<close>

text \<open>Operations of NEXUS on the store, as labels; the last one is a write of any other key by anybody.\<close>

datatype NexusOp =
    SyncRegistry string "Registry result" "string option"
  | RecoverOrphans
  | ReleaseWorker string
  | EscalateTicket string string string
  | AssignWork AgentDecision string string
  | AssignRework string string
  | ProcessCommand bool
  | OtherWrite string json

fun nexus_step :: "NexusState \<Rightarrow> CoderWorld \<times> NexusOp \<Rightarrow> NexusState \<Rightarrow> bool" where
  "nexus_step s (w, SyncRegistry path registry fleet) s' =
     (\<exists>st. sync_registry path registry fleet (nx_store s) = Ok st \<and> s' = s\<lparr>nx_store := st\<rparr>)"
| "nexus_step s (w, RecoverOrphans) s' = (s' = recover_orphans w s)"
| "nexus_step s (w, ReleaseWorker worker) s' = (s' = release_worker_slot w worker s)"
| "nexus_step s (w, EscalateTicket ticket worker reason) s' = (s' = mark_ticket_awaiting_human w ticket worker reason s)"
| "nexus_step s (w, AssignWork d ticket worker) s' = (s' = s\<lparr>nx_store := assign_work d ticket worker (nx_store s)\<rparr>)"
| "nexus_step s (w, AssignRework ticket worker) s' = (s' = s\<lparr>nx_store := assign_rework ticket worker (nx_store s)\<rparr>)"
| "nexus_step s (w, ProcessCommand approve) s' = (s' = s\<lparr>nx_store := process_command approve (nx_store s)\<rparr>)"
| "nexus_step s (w, OtherWrite k v) s' = (k \<noteq> ''worker_slots'' \<and> s' = s\<lparr>nx_store := store_set (nx_store s) k v\<rparr>)"

text \<open>
  The other writers of the table (provisioning, hand-over to reviewers and LORE, recovery of crashed workspaces, VESSEL's clean-up and
  rework assignment) read it, change the status and the workspace of slots that are in it, and write all of it back, possibly after
  others have written; and the command line and the Manager clear it. So the system remembers the tables that were ever stored.
\<close>

definition slots_edited :: "slots \<Rightarrow> slots \<Rightarrow> bool" where
  "slots_edited xs ys \<longleftrightarrow>
     list_all2 (\<lambda>(k, a) (k', b). k' = k \<and> (\<exists>st ws. b = a\<lparr>ws_status := st, ws_workspace_id := ws\<rparr>)) xs ys"

datatype TableOp = ByNexus CoderWorld NexusOp | EditSlots slots slots | ClearSlots

fun table_step :: "slots list \<times> NexusState \<Rightarrow> TableOp \<Rightarrow> slots list \<times> NexusState \<Rightarrow> bool" where
  "table_step (past, s) (ByNexus w oper) (past', s') = (nexus_step s (w, oper) s' \<and> past' = read_slots (nx_store s') # past)"
| "table_step (past, s) (EditSlots xs ys) (past', s') =
     (xs \<in> set past \<and> slots_edited xs ys \<and> s' = s\<lparr>nx_store := write_slots (nx_store s) ys\<rparr> \<and> past' = ys # past)"
| "table_step (past, s) ClearSlots (past', s') =
     (s' \<in> {s\<lparr>nx_store := write_slots (nx_store s) []\<rparr>, s\<lparr>nx_store := store_del (nx_store s) ''worker_slots''\<rparr>} \<and> past' = [] # past)"

definition table_start :: "slots list \<times> NexusState \<Rightarrow> bool" where
  "table_start ps \<longleftrightarrow> fst ps = [[]] \<and> (\<exists>t. nx_store (snd ps) = new_in_memory_with_tenant t)"

definition same_names :: "slots \<Rightarrow> slots \<Rightarrow> bool" where
  "same_names xs ys \<longleftrightarrow> map (\<lambda>(k, slot). (k, ws_id slot)) ys = map (\<lambda>(k, slot). (k, ws_id slot)) xs"

lemma slots_ok_names: "slots_ok xs \<longleftrightarrow> distinct (map fst (map (\<lambda>(k, slot). (k, ws_id slot)) xs)) \<and>
    (\<forall>(k, i) \<in> set (map (\<lambda>(k, slot). (k, ws_id slot)) xs). i = k)"
  by (auto simp: slots_ok_def comp_def case_prod_beta)

lemma slots_ok_same: "same_names xs ys \<Longrightarrow> slots_ok xs \<Longrightarrow> slots_ok ys"
  unfolding slots_ok_names same_names_def by simp

lemma same_names_refl [simp]: "same_names xs xs"
  by (simp add: same_names_def)

lemma same_names_trans: "same_names xs ys \<Longrightarrow> same_names ys zs \<Longrightarrow> same_names xs zs"
  by (simp add: same_names_def)

lemma same_names_clear: "ys \<in> {xs, clear_workspace ws xs} \<Longrightarrow> same_names xs ys"
  by (auto simp: same_names_def clear_workspace_def)

lemma same_names_update: "(\<And>slot. ws_id (f slot) = ws_id slot) \<Longrightarrow> same_names xs (update_slot k f xs)"
  by (auto simp: same_names_def update_slot_def)

lemma destroy_names:
  assumes "destroy_worker_workspace w ws s = (r, s')"
  shows "same_names (read_slots (nx_store s)) (read_slots (nx_store s'))"
  using assms by (rule destroy_worker_workspace_cases) (simp_all add: same_names_clear)

lemma recycle_names:
  assumes "recycle_slot w ticket slot s = (slot', changed, s')"
  shows "ws_id slot' = ws_id slot \<and> same_names (read_slots (nx_store s)) (read_slots (nx_store s'))"
  using assms
  by (auto simp: recycle_slot_def idle_slot_def read_set_other split: option.splits prod.splits sum.splits dest: destroy_names)

lemma recover_slots_names:
  "recover_slots w ts xs s = (ys, changed, s') \<Longrightarrow> same_names xs ys \<and> same_names (read_slots (nx_store s)) (read_slots (nx_store s'))"
proof (induction xs arbitrary: s s' ys changed)
  case (Cons x xs)
  obtain k slot where x: "x = (k, slot)" by force
  let ?step = "case recycle_ticket (nx_store s) ts (ws_status slot) of Some ticket \<Rightarrow> recycle_slot w ticket slot s | None \<Rightarrow> (slot, False, s)"
  obtain slot' c1 s1 where one: "?step = (slot', c1, s1)" by (metis prod_cases3)
  obtain zs c2 s2 where rest: "recover_slots w ts xs s1 = (zs, c2, s2)" by (metis prod_cases3)
  have "ws_id slot' = ws_id slot \<and> same_names (read_slots (nx_store s)) (read_slots (nx_store s1))"
    using one recycle_names by (auto split: option.splits)
  then show ?case using Cons.prems x one rest Cons.IH [OF rest] by (auto simp: same_names_def)
qed simp

lemma retry_names: "same_names (read_slots (nx_store s)) (read_slots (nx_store (retry_workspace w ticket role s)))"
  by (auto simp: retry_workspace_def Let_def read_set_other split: option.splits prod.splits sum.splits dest: destroy_names)

lemma retry_fold_names: "same_names (read_slots (nx_store s)) (read_slots (nx_store (fold (retry_ticket w) ts s)))"
proof (induction ts arbitrary: s)
  case (Cons t ts)
  have "same_names (read_slots (nx_store s)) (read_slots (nx_store (retry_ticket w t s)))"
    unfolding retry_ticket_def using retry_names same_names_trans by (smt (verit) same_names_refl)
  then show ?case using Cons same_names_trans by fastforce
qed simp

lemma recover_names: "same_names (read_slots (nx_store s)) (read_slots (nx_store (recover_orphans w s)))"
proof -
  let ?xs = "read_slots (nx_store s)" and ?old = "read_tickets (nx_store s)"
  define ts where "ts = map (reset_orphan ?xs) ?old"
  obtain ys changed s1 where r: "recover_slots w ts ?xs s = (ys, changed, s1)" by (metis prod_cases3)
  let ?s2 = "if ts \<noteq> ?old then s1\<lparr>nx_store := write_tickets (nx_store s1) ts\<rparr> else s1"
  let ?s3 = "if changed then ?s2\<lparr>nx_store := write_slots (nx_store ?s2) ys\<rparr> else ?s2"
  have eq: "recover_orphans w s = fold (retry_ticket w) ts ?s3"
    using r ts_def by (simp add: recover_orphans_def Let_def)
  have "same_names ?xs (read_slots (nx_store ?s3))" using recover_slots_names [OF r] by auto
  from same_names_trans [OF this retry_fold_names] show ?thesis unfolding eq .
qed

lemma release_names: "same_names (read_slots (nx_store s)) (read_slots (nx_store (release_worker_slot w worker s)))"
proof -
  have up: "same_names xs (update_slot worker (\<lambda>now. if c now then idle_slot now else now) xs)" for c xs
    by (rule same_names_update) (simp add: idle_slot_def)
  show ?thesis
  proof (cases "map_of (read_slots (nx_store s)) worker")
    case (Some slot)
    obtain r s1 where d: "(case ws_workspace_id slot of Some ws \<Rightarrow> destroy_worker_workspace w ws s | None \<Rightarrow> (Ok (), s)) = (r, s1)" by force
    then have "same_names (read_slots (nx_store s)) (read_slots (nx_store s1))"
      by (cases "ws_workspace_id slot") (auto dest: destroy_names)
    then show ?thesis
      using Some d up [of "read_slots (nx_store s1)"] same_names_trans
      by (cases r) (auto simp: release_worker_slot_def Let_def)
  qed (simp add: release_worker_slot_def)
qed

lemma sync_slots_ok:
  assumes "slots_ok xs"
  shows "slots_ok (sync_slots ids xs) \<and> fst ` set (sync_slots ids xs) = set ids \<and>
    (\<forall>k \<in> set ids. \<forall>slot. map_of xs k = Some slot \<longrightarrow> map_of (sync_slots ids xs) k = Some slot)"
proof -
  let ?add = "\<lambda>k ys. if map_of ys k = None then ys @ [(k, new_slot k)] else ys"
  have step: "slots_ok ys \<Longrightarrow> slots_ok (fold ?add js ys) \<and> fst ` set (fold ?add js ys) = fst ` set ys \<union> set js \<and>
      (\<forall>k slot. map_of ys k = Some slot \<longrightarrow> map_of (fold ?add js ys) k = Some slot)" for js ys
  proof (induction js arbitrary: ys)
    case (Cons j js)
    have "slots_ok (?add j ys)" "fst ` set (?add j ys) = fst ` set ys \<union> {j}" "\<forall>k slot. map_of ys k = Some slot \<longrightarrow> map_of (?add j ys) k = Some slot"
      using Cons.prems by (auto simp: slots_ok_def new_slot_def map_of_eq_None_iff map_add_def split: option.splits)
    with Cons.IH [of "?add j ys"] show ?case by auto
  qed simp
  have kept: "slots_ok (filter (\<lambda>(k, _). k \<in> set ids) xs)"
    using assms by (auto simp: slots_ok_def distinct_map inj_on_def)
  have "map_of (filter (\<lambda>(k, _). k \<in> set ids) xs) k = Some slot" if "k \<in> set ids" "map_of xs k = Some slot" for k slot
    using that by (induction xs) (auto split: if_splits)
  with step [OF kept, of ids] show ?thesis by (auto simp: sync_slots_def)
qed

lemma sync_registry_slots:
  assumes "sync_registry path registry fleet st = Ok st'"
  shows "\<exists>rg. fleet_registry registry fleet = Ok rg \<and> read_slots st' = sync_slots (all_worker_slots rg) (read_slots st)"
proof -
  from assms obtain rg where rg: "fleet_registry registry fleet = Ok rg" by (auto simp: sync_registry_def bind_result_Ok)
  let ?ys = "sync_slots (all_worker_slots rg) (read_slots st)"
  have "st' = (if ?ys \<noteq> read_slots st then write_slots st ?ys else st)"
    using assms rg by (simp add: sync_registry_def Let_def ensure_def split: if_split_asm)
  then show ?thesis using rg by (cases "?ys = read_slots st") auto
qed

lemma assign_names:
  "same_names (read_slots st) (read_slots (assign_work d ticket worker st))"
  "same_names (read_slots st) (read_slots (assign_rework ticket worker st))"
  "same_names (read_slots st) (read_slots (process_command approve st))"
  by (auto simp: assign_work_def assign_rework_def assign_slot_def process_command_def Let_def read_set_other same_names_update
      split: list.splits)

lemma release_names_from:
  "read_slots st = xs \<Longrightarrow> same_names xs (read_slots (nx_store (release_worker_slot w worker (s\<lparr>nx_store := st\<rparr>))))"
  using release_names [of "s\<lparr>nx_store := st\<rparr>"] by simp

lemma escalated_slots:
  "read_slots (reset_recovery_attempts ticket (store_set (write_tickets st ts) (full_ticket_key_flat ticket ''status'') v)) = read_slots st"
  by (simp add: reset_recovery_attempts_def read_set_other)

lemma nexus_step_slots_ok:
  assumes "nexus_step s l s'" and "slots_ok (read_slots (nx_store s))"
  shows "slots_ok (read_slots (nx_store s'))"
proof -
  obtain w oper where l: "l = (w, oper)" by force
  show ?thesis
  proof (cases oper)
    case (SyncRegistry path registry fleet)
    then obtain st where st: "sync_registry path registry fleet (nx_store s) = Ok st" "s' = s\<lparr>nx_store := st\<rparr>" using assms(1) l by auto
    from sync_registry_slots [OF st(1)] sync_slots_ok [OF assms(2)] st(2) show ?thesis by auto
  next
    case RecoverOrphans
    with assms l show ?thesis using slots_ok_same [OF recover_names] by simp
  next
    case (ReleaseWorker worker)
    with assms l show ?thesis using slots_ok_same [OF release_names] by simp
  next
    case (EscalateTicket ticket worker reason)
    have "same_names (read_slots (nx_store s)) (read_slots (nx_store s'))"
      using assms(1) l EscalateTicket
      by (auto simp: mark_ticket_awaiting_human_def Let_def escalated_slots intro!: release_names release_names_from split: if_splits)
    then show ?thesis using slots_ok_same assms(2) by blast
  next
    case (OtherWrite k v)
    with assms l show ?thesis by (simp add: read_set_other)
  qed (use assms l in \<open>auto intro: slots_ok_same [OF assign_names(1)] slots_ok_same [OF assign_names(2)] slots_ok_same [OF assign_names(3)]\<close>)
qed

lemma slots_edited_names:
  assumes "slots_edited xs ys"
  shows "same_names xs ys"
proof -
  have "list_all2 (\<lambda>(k, a) (k', b). k' = k \<and> ws_id b = ws_id a) xs ys"
    using assms unfolding slots_edited_def by (rule list_all2_mono) auto
  then show ?thesis by (induction rule: list_all2_induct) (auto simp: same_names_def)
qed

definition tables_ok :: "slots list \<times> NexusState \<Rightarrow> bool" where
  "tables_ok ps \<longleftrightarrow> (\<forall>xs \<in> set (fst ps). slots_ok xs) \<and> slots_ok (read_slots (nx_store (snd ps)))"

interpretation table_sys: invariant_system table_start table_step tables_ok
proof unfold_locales
  fix ps assume "table_start ps"
  then have "read_slots (nx_store (snd ps)) = []" "fst ps = [[]]"
    by (auto simp: table_start_def read_slots_def store_get_typed_def store_get_def backend_get_def new_in_memory_with_tenant_def)
  then show "tables_ok ps" by (simp add: tables_ok_def slots_ok_def)
next
  fix ps l ps' assume step: "table_step ps l ps'" and ok: "tables_ok ps"
  obtain past s past' s' where ps: "ps = (past, s)" "ps' = (past', s')" by force
  show "tables_ok ps'"
  proof (cases l)
    case (ByNexus w oper)
    then show ?thesis using step ok ps nexus_step_slots_ok [of s "(w, oper)" s'] by (auto simp: tables_ok_def)
  next
    case (EditSlots xs ys)
    then have "slots_ok ys" using step ok ps slots_ok_same [OF slots_edited_names] by (auto simp: tables_ok_def)
    then show ?thesis using EditSlots step ok ps by (auto simp: tables_ok_def)
  next
    case ClearSlots
    have "slots_ok []" by (simp add: slots_ok_def)
    then show ?thesis using ClearSlots step ok ps
      by (auto simp: tables_ok_def read_slots_def store_get_typed_def store_kv.get_remove write_slots_def)
  qed
qed

text \<open>
  C22 (type). The worker table is always well formed: from an empty store, under any interleaving of registry
  synchronisation, recovery, release, escalation, assignment, command decisions and writes to other keys with any other
  writer that changes the status or workspace of slots in a table it read earlier, or clears the table, every
  worker slot occurs once and under its own identifier; and a synchronisation with the registry leaves exactly the
  slots the registry defines, keeping what it knew of those that existed.
\<close>

theorem worker_table_is_well_formed:
  assumes "reach table_start table_step (past, s)"
  shows "slots_ok (read_slots (nx_store s)) \<and>
    (\<forall>path registry fleet st. sync_registry path registry fleet (nx_store s) = Ok st \<longrightarrow>
      (\<exists>rg. fleet_registry registry fleet = Ok rg \<and> slots_ok (read_slots st) \<and>
        fst ` set (read_slots st) = set (all_worker_slots rg) \<and>
        (\<forall>k \<in> set (all_worker_slots rg). \<forall>slot. map_of (read_slots (nx_store s)) k = Some slot \<longrightarrow> map_of (read_slots st) k = Some slot)))"
proof (intro conjI allI impI)
  show ok: "slots_ok (read_slots (nx_store s))" using table_sys.reach_inv [OF assms] by (simp add: tables_ok_def)
  fix path registry fleet st assume "sync_registry path registry fleet (nx_store s) = Ok st"
  from sync_registry_slots [OF this] obtain rg where rg: "fleet_registry registry fleet = Ok rg"
    "read_slots st = sync_slots (all_worker_slots rg) (read_slots (nx_store s))" by blast
  from sync_slots_ok [OF ok, of "all_worker_slots rg"] rg show "\<exists>rg. fleet_registry registry fleet = Ok rg \<and> slots_ok (read_slots st) \<and>
      fst ` set (read_slots st) = set (all_worker_slots rg) \<and>
      (\<forall>k \<in> set (all_worker_slots rg). \<forall>slot. map_of (read_slots (nx_store s)) k = Some slot \<longrightarrow> map_of (read_slots st) k = Some slot)"
    by auto
qed

definition demo_registry :: Registry where
  "demo_registry =
     (let e = \<lparr>ge_id = ''forge'', ge_enabled = True, ge_max_instances = 2, ge_skills = [], ge_mcp = JNull, ge_cli = [],
        ge_model_backend = None, ge_routing_key = None, ge_github_token_env = None, ge_allowed_domains = None, ge_coder_module = None\<rparr> in
      \<lparr>rg_default_cli = ''claude'', rg_allowed_domains = [], rg_team = [e, e\<lparr>ge_id := ''sentinel''\<rparr>, e\<lparr>ge_id := ''lore'', ge_max_instances := 1\<rparr>]\<rparr>)"

lemma demo_fleet:
  "all_worker_slots demo_registry = [''forge-1'', ''forge-2'', ''sentinel-1'', ''sentinel-2'', ''lore'']"
  "forge_slots demo_registry \<noteq> []"
  "is_some_and (registry_get demo_registry ''sentinel'') (\<lambda>e. 0 < effective_instances e)"
  by code_simp+

theorem worker_table_is_well_formed_witness:
  "\<exists>st. sync_registry ''registry.json'' (Ok demo_registry) None new_in_memory = Ok st \<and> slots_ok (read_slots st) \<and>
     fst ` set (read_slots st) = {''forge-1'', ''forge-2'', ''sentinel-1'', ''sentinel-2'', ''lore''}"
proof -
  let ?s = "\<lparr>nx_store = new_in_memory, nx_calls = 0\<rparr>"
  have "reach table_start table_step ([[]], ?s)" by (rule reach_init) (auto simp: table_start_def new_in_memory_def)
  note wf = worker_table_is_well_formed [OF this]
  have "\<exists>st. sync_registry ''registry.json'' (Ok demo_registry) None new_in_memory = Ok st"
    using demo_fleet(2,3) by (simp add: sync_registry_def fleet_registry_def with_context_def Let_def ensure_def)
  then obtain st where st: "sync_registry ''registry.json'' (Ok demo_registry) None new_in_memory = Ok st" ..
  moreover have "fleet_registry (Ok demo_registry) None = Ok demo_registry" by (simp add: fleet_registry_def with_context_def)
  ultimately have "slots_ok (read_slots st) \<and> fst ` set (read_slots st) = set (all_worker_slots demo_registry)"
    using wf [THEN conjunct2, rule_format, of "''registry.json''" "Ok demo_registry" None st] by auto
  then show ?thesis using st demo_fleet(1) by auto
qed

section \<open>Reviewers\<close>

lemma sentinel_role: "worker_role (''sentinel-'' @ show_nat i) = ''sentinel''"
  using rsplit_indexed [of "''sentinel''" i] by (simp add: worker_role_def)

text \<open>
  The choice of a reviewer. A SENTINEL that is already working on the ticket keeps it; otherwise an
  idle SENTINEL is chosen, the one paired with the ticket's FORGE first; a reviewer is found whenever some SENTINEL
  is working on the ticket or idle, and the chosen slot is one of the live slots and a SENTINEL.
\<close>

theorem reviewer_stays_with_its_ticket:
  assumes "distinct (map fst live)"
  shows "(case review_sentinel_for_ticket ticket forge live of
      Some (k, slot) \<Rightarrow> (k, slot) \<in> set live \<and> worker_role k = ''sentinel'' \<and>
        (busy_ticket (ws_status slot) = Some ticket \<or>
         ws_status slot = Idle \<and> (\<forall>(i, x) \<in> set live. worker_role i = ''sentinel'' \<longrightarrow> busy_ticket (ws_status x) \<noteq> Some ticket) \<and>
         (\<forall>i x. paired_sentinel_slot forge = Some i \<and> map_of live i = Some x \<and> ws_status x = Idle \<longrightarrow> k = i))
    | None \<Rightarrow> \<forall>(i, x) \<in> set live. worker_role i = ''sentinel'' \<longrightarrow> busy_ticket (ws_status x) \<noteq> Some ticket \<and> ws_status x \<noteq> Idle)"
proof -
  have paired: "worker_role i = ''sentinel''" if "paired_sentinel_slot forge = Some i" for i
    using that sentinel_role by (auto simp: paired_sentinel_slot_def)
  let ?busy = "\<lambda>(i, x). worker_role i = ''sentinel'' \<and> busy_ticket (ws_status x) = Some ticket"
  let ?idle = "\<lambda>(i, x). worker_role i = ''sentinel'' \<and> ws_status x = Idle"
  let ?paired = "Option.bind (paired_sentinel_slot forge) (\<lambda>i. map_option (Pair i) (map_of live i))"
  have found: "find P live = Some y \<Longrightarrow> y \<in> set live \<and> P y" for P y by (auto simp: find_Some_iff)
  show ?thesis
  proof (cases "find ?busy live")
    case (Some y)
    then show ?thesis using found [OF Some] by (cases y) (simp add: review_sentinel_for_ticket_def)
  next
    case None
    then have nobody: "\<forall>(i, x) \<in> set live. worker_role i = ''sentinel'' \<longrightarrow> busy_ticket (ws_status x) \<noteq> Some ticket"
      by (auto simp: find_None_iff)
    show ?thesis
    proof (cases "\<exists>i x. paired_sentinel_slot forge = Some i \<and> map_of live i = Some x \<and> ws_status x = Idle")
      case True
      then obtain i x where i: "paired_sentinel_slot forge = Some i" "map_of live i = Some x" "ws_status x = Idle" by blast
      then have "review_sentinel_for_ticket ticket forge live = Some (i, x)" using None by (simp add: review_sentinel_for_ticket_def)
      then show ?thesis using i nobody paired map_of_SomeD [OF i(2)] by simp
    next
      case False
      then have r: "review_sentinel_for_ticket ticket forge live = find ?idle live"
        using None by (auto simp: review_sentinel_for_ticket_def bind_eq_Some_conv split: option.splits)
      show ?thesis
      proof (cases "find ?idle live")
        case (Some y)
        then show ?thesis using found [OF Some] nobody False r by (cases y) auto
      next
        case None
        then have "\<forall>y \<in> set live. \<not> ?idle y" by (auto simp: find_None_iff)
        then show ?thesis using nobody r None by auto
      qed
    qed
  qed
qed

theorem reviewer_stays_with_its_ticket_witness:
  "review_sentinel_for_ticket ''T-1'' ''forge-1''
     [(''sentinel-1'', \<lparr>ws_id = ''sentinel-1'', ws_status = Idle, ws_workspace_id = None\<rparr>),
      (''sentinel-2'', \<lparr>ws_id = ''sentinel-2'', ws_status = Working ''T-1'' None, ws_workspace_id = None\<rparr>)] \<noteq> None"
  using reviewer_stays_with_its_ticket [where ticket = "''T-1''" and forge = "''forge-1''" and live =
    "[(''sentinel-1'', \<lparr>ws_id = ''sentinel-1'', ws_status = Idle, ws_workspace_id = None\<rparr>),
      (''sentinel-2'', \<lparr>ws_id = ''sentinel-2'', ws_status = Working ''T-1'' None, ws_workspace_id = None\<rparr>)]"]
  by (auto simp: worker_role_def rsplit_dash_def after_last_def split: option.splits)

section \<open>Issues\<close>

lemma eval_zeros: "eval_digits (replicate n (CHR ''0'') @ s) = eval_digits s"
  by (induction n) (simp_all add: eval_digits_def digit_val_def)

lemma issue_ticket_id_inj: "issue_ticket_id i = issue_ticket_id j \<longleftrightarrow> gi_number i = gi_number j"
proof
  assume "issue_ticket_id i = issue_ticket_id j"
  then have "eval_digits (pad3 (show_u64 (gi_number i))) = eval_digits (pad3 (show_u64 (gi_number j)))"
    by (simp add: issue_ticket_id_def)
  then show "gi_number i = gi_number j" by (simp add: pad3_def eval_zeros show_u64_def word_unat_eq_iff)
qed (simp add: issue_ticket_id_def)

text \<open>
  Issues become tickets once. Synchronising the tickets with the open issues of GitHub leaves every known
  ticket as it is, in its place, whatever its status; adds only open tickets of listed issues that are not pull
  requests; afterwards every such issue has its ticket; and ticket identifiers stay distinct, since different
  issue numbers never share one.
\<close>

theorem issue_sync_keeps_tickets:
  assumes "distinct (map tk_id ts)"
  shows "\<exists>new. sync_issue_list issues ts = ts @ new \<and> distinct (map tk_id (ts @ new)) \<and>
    set new \<subseteq> {issue_ticket i | i. i \<in> set issues \<and> \<not> gi_is_pull_request i} \<and> (\<forall>t \<in> set new. tk_status t = Open) \<and>
    (\<forall>i \<in> set issues. \<not> gi_is_pull_request i \<longrightarrow> issue_ticket_id i \<in> tk_id ` set (ts @ new)) \<and>
    (\<forall>i \<in> set issues. \<forall>j \<in> set issues. issue_ticket_id i = issue_ticket_id j \<longrightarrow> gi_number i = gi_number j)"
proof -
  have "\<exists>new. sync_issue_list issues ts = ts @ new \<and> distinct (map tk_id (ts @ new)) \<and>
      set new \<subseteq> {issue_ticket i | i. i \<in> set issues \<and> \<not> gi_is_pull_request i} \<and>
      (\<forall>i \<in> set issues. \<not> gi_is_pull_request i \<longrightarrow> issue_ticket_id i \<in> tk_id ` set (ts @ new))"
    using assms
  proof (induction issues arbitrary: ts)
    case (Cons i issues)
    have "distinct (map tk_id (sync_issue i ts))"
      using Cons.prems by (auto simp: sync_issue_def issue_ticket_def list_ex_iff)
    from Cons.IH [OF this] obtain new where new: "sync_issue_list issues (sync_issue i ts) = sync_issue i ts @ new"
      "distinct (map tk_id (sync_issue i ts @ new))" "set new \<subseteq> {issue_ticket i | i. i \<in> set issues \<and> \<not> gi_is_pull_request i}"
      "\<forall>j \<in> set issues. \<not> gi_is_pull_request j \<longrightarrow> issue_ticket_id j \<in> tk_id ` set (sync_issue i ts @ new)" by blast
    show ?case
    proof (cases "sync_issue i ts = ts")
      case True
      then have "gi_is_pull_request i \<or> issue_ticket_id i \<in> tk_id ` set ts"
        by (force simp: sync_issue_def list_ex_iff split: if_splits)
      then show ?thesis using new True by (intro exI [of _ new]) (auto simp: sync_issue_list_def)
    next
      case False
      then have "sync_issue i ts = ts @ [issue_ticket i]" "\<not> gi_is_pull_request i" by (auto simp: sync_issue_def split: if_splits)
      then show ?thesis using new by (intro exI [of _ "issue_ticket i # new"]) (auto simp: sync_issue_list_def issue_ticket_def)
    qed
  qed (simp add: sync_issue_list_def)
  then show ?thesis using issue_ticket_id_inj by (fastforce simp: issue_ticket_def)
qed

theorem issue_sync_keeps_tickets_witness:
  "\<exists>new. sync_issue_list [\<lparr>gi_number = 7, gi_title = ''x'', gi_body = None, gi_html_url = ''u'', gi_is_pull_request = False\<rparr>] [ci_setup_ticket] =
     [ci_setup_ticket] @ new \<and> issue_ticket_id \<lparr>gi_number = 7, gi_title = ''x'', gi_body = None, gi_html_url = ''u'', gi_is_pull_request = False\<rparr>
       \<in> tk_id ` set ([ci_setup_ticket] @ new)"
  using issue_sync_keeps_tickets [of "[ci_setup_ticket]"
    "[\<lparr>gi_number = 7, gi_title = ''x'', gi_body = None, gi_html_url = ''u'', gi_is_pull_request = False\<rparr>]"] by auto

end
