(* ===== verification/Spec2Isabelle.thy ===== *)
theory Spec2Isabelle
  imports
    Lifecycle_Reviews
    Store_Properties
    Store_Leases
    Flow_Properties
    Ticket_State
    Command_Gate
    Relay_Properties
    Server_Properties
    Shell_Properties
    Guard_Properties
    Outbox_Properties
    Manager_Idempotency
    Pagination
    Organization_Guarantees
    Organization_Routes
    Rate_Limits
    Tenant_Guarantees
    Broker_Guarantees
    Vessel_Guarantees
    Nexus_Guarantees
    Nexus_Fleet
begin

text \<open>
  OpenFlows runs a team of agents (NEXUS the orchestrator, FORGE the implementer, SENTINEL the
  reviewer, VESSEL the merger) over tickets. NEXUS owns the authoritative state of every ticket;
  the agents work in their own workspaces and change that state only through NEXUS. This library
  models the parts of the program that decide what may happen, and proves what they promise.

  \<^bold>\<open>The parts and how they interact.\<close> The \<^emph>\<open>ticket lifecycle\<close>
  (\<open>src/crates/config/src/lifecycle.rs\<close>) is a pure transition function from planning to a merged
  pull request. The \<^emph>\<open>shared store\<close> (\<open>src/crates/pocketflow-core/src/store.rs\<close>) keeps every
  ticket's lifecycle as JSON below a tenant prefix and changes it by compare-and-set on its
  version; it also gives leases, a glob over keys and an event ring buffer. The \<^emph>\<open>flow engine\<close>
  (\<open>flow.rs\<close>, \<open>node.rs\<close>, \<open>batch.rs\<close>, \<open>action.rs\<close> of the same crate) runs NEXUS itself: nodes
  that read and write the store, wired by the actions they return. The \<^emph>\<open>command gate\<close>
  (\<open>command_gate.rs\<close>) lets a worker ask NEXUS about a dangerous command through the store.
  The \<^emph>\<open>ticket records and keys\<close> (\<open>src/crates/config/src/state.rs\<close>) are what the controllers put
  there. The \<^emph>\<open>A2A protocol, relay and server\<close> (\<open>src/crates/a2a-protocol\<close>,
  \<open>src/crates/agent-nexus/src/a2a\<close>) carry verification requests from SENTINEL to FORGE and the
  results back, with bounded progress buffers and pair tokens. The \<^emph>\<open>phase guard\<close>
  (\<open>src/crates/agent-nexus/src/hooks\<close>) reads every tool call an agent is about to make, shell
  commands included, and denies writes that the ticket's phase does not permit. The \<^emph>\<open>NEXUS controller\<close>
  (\<open>src/crates/agent-nexus/src/lib.rs\<close>, with the team registry of \<open>src/crates/config/src/registry.rs\<close>) turns issues into
  tickets, assigns them to workers and recovers what got lost. \<^emph>\<open>VESSEL\<close> (\<open>src/crates/agent-vessel\<close>, with
  \<open>src/crates/github/src/rest.rs\<close>) reads reviews and CI status and merges what the lifecycle has approved. The
  \<^emph>\<open>Manager\<close> (\<open>src/crates/openflows-manager\<close>) is the hosted control plane over a PostgreSQL database: sign-in and
  sessions of people, organizations and members, tenants and workspaces within quotas, queues of durable operations and
  outbox events worked on by competing instances, sessions of the workspaces and the GitHub tokens they are given.

  \<^bold>\<open>Theories and sources.\<close>
  \<^item> \<open>Prelude\<close>, \<open>Reachability\<close>, \<open>Json\<close>: shared vocabulary. Machine integers are words
    (\<open>u64\<close>, \<open>u32\<close>), \<open>anyhow::Result\<close> is a sum type with the error text on the left, \<open>String\<close> is a list
    of characters; the parts of serde's data model that the derived codecs use are functions on a
    \<open>json\<close> datatype. The locale \<open>invariant_system\<close> is the contract of an inductive invariant.
  \<^item> \<open>Lifecycle\<close>: \<open>Phase\<close>, \<open>Decision\<close>, \<open>Lifecycle\<close>, \<open>Event\<close>, one definition per arm of
    \<open>Lifecycle::apply\<close>, and \<open>lc_apply\<close> for the whole function with its merge guard, early
    return and history record. \<open>Lifecycle_Safety\<close> has the invariant, \<open>Lifecycle_Progress\<close> the
    legs of a successful run, \<open>Lifecycle_Properties\<close> and \<open>Lifecycle_Reviews\<close> the properties.
    \<open>Lifecycle_Codec\<close> is the stored form and \<open>Lifecycle::decode\<close> with its upgrade of old records.
  \<^item> \<open>Glob\<close> is \<open>glob_match\<close> against a declarative meaning. \<open>Shared_Store\<close> is \<open>SharedStore\<close> on
    its in-memory backend; its locales \<open>kv_store\<close> and \<open>lifecycle_store\<close> are what the clients rely
    on, interpreted as \<open>store_kv\<close> and \<open>mem_store\<close>. \<open>Store_Properties\<close> and \<open>Store_Leases\<close> have
    the properties of transitions, tenants, leases and the ring buffer.
  \<^item> \<open>Flow\<close> and \<open>Flow_Properties\<close>: \<open>Flow::run\<close>, \<open>Node::run\<close>, \<open>BatchNode::run_batch\<close>. A node's
    phases are arbitrary functions of the store and of the outside world; this includes \<open>exec\<close>, which the trait gives no store,
    since VESSEL keeps a handle of it.
  \<^item> \<open>Command_Gate\<close>: \<open>CommandGate::check_and_wait\<close>, where the rest of the system may do anything to
    the store before each of its awaited calls (\<open>GateTurn\<close>).
  \<^item> \<open>Ticket_State\<close>: tickets, worker slots, their serde form and the key builders.
  \<^item> \<open>A2A_Protocol\<close>: payloads, command policy, idempotency seed. \<open>Event_Buffer\<close>: the bounded
    progress buffer. \<open>A2A_Relay\<close>: the operations of \<open>A2ARelay\<close> in \<open>routing.rs\<close> and
    \<open>submit_verify_request\<close>. \<open>Relay_Invariant\<close>: all their interleavings, with submitting, completing and
    cancelling split where the code releases its locks. \<open>Relay_Properties\<close>: what holds in all of
    them. \<open>A2A_Server\<close>, \<open>Server_Properties\<close>: the JSON-RPC handlers of \<open>http_server.rs\<close>.
  \<^item> \<open>Shell_Words\<close>, \<open>Shell_Properties\<close>: the shell reader of \<open>hooks/guard.rs\<close>. \<open>Phase_Guard\<close>,
    \<open>Guard_Properties\<close>: \<open>phase_guard\<close> on top of it, with the store-backed context of
    \<open>hooks/context.rs\<close>.
  \<^item> \<open>Github_Reviews\<close>: the latest review per user, the CI status from statuses and check suites.
    \<open>Vessel_Monitor\<close>: \<open>pr_monitor.rs\<close>, \<open>ci_poller.rs\<close>, \<open>merger.rs\<close>. \<open>Vessel_Node\<close>: the execution phase of
    \<open>node.rs\<close> as a computation in turns, with the rest of the system acting between them. \<open>Vessel_Runs\<close>: its
    invariants, by the locales \<open>vessel_invariant\<close> and \<open>vessel_merge_invariant\<close>. \<open>Vessel_Guarantees\<close>: the properties.
  \<^item> \<open>Fleet_Registry\<close>: the team registry. \<open>Nexus_Tickets\<close>: the rules of NEXUS that need no store.
    \<open>Nexus_Controller\<close>: fleet, release, escalation, recovery, decision and bookkeeping. \<open>Nexus_Store\<close>,
    \<open>Nexus_Recovery\<close>: what each operation leaves of the store. \<open>Nexus_Fleet\<close>, \<open>Nexus_Guarantees\<close>: the properties.
  \<^item> \<open>Manager_Base\<close>: \<open>error.rs\<close> and the rows of the database as records, tables as lists.
    \<open>Manager_Operations\<close>, \<open>Manager_Outbox\<close>, \<open>Manager_Idempotency\<close>, \<open>Pagination\<close>: the modules of those names.
    \<open>Manager_Queue\<close>: the two queues as a transition system of any number of instances; \<open>Queue_Properties\<close> and
    \<open>Outbox_Properties\<close> what holds in it.
  \<^item> \<open>Organization_Policy\<close>, \<open>Organizations\<close>: \<open>policy.rs\<close>, \<open>repository.rs\<close> and \<open>service.rs\<close> of the organizations;
    \<open>Organization_System\<close>, \<open>Organization_Properties\<close>, \<open>Organization_Guarantees\<close>: their transition system, its abstract
    specification and the theorems.
  \<^item> \<open>Auth_Sessions\<close>: users, sessions, cookies and CSRF tokens (\<open>auth/repository.rs\<close>, \<open>auth/csrf.rs\<close>). \<open>Auth_Flows\<close>: the rate
    limiter, the approval of a command line client and the GitHub login (\<open>rate_limit.rs\<close>, \<open>auth/device.rs\<close>, \<open>auth/oauth.rs\<close>).
    \<open>Auth_Routes\<close>: the handlers of \<open>routes/auth.rs\<close> and \<open>routes/device.rs\<close>, with others acting between their statements.
    \<open>Table_Growth\<close>: how tables without deletions evolve. \<open>Auth_System\<close>: all of it as a transition system; \<open>Auth_Guarantees\<close>, \<open>Auth_Devices\<close>, \<open>Auth_Logins\<close>, \<open>Rate_Limits\<close>: what
    holds in it. \<open>Organization_Routes\<close>: the mutations of \<open>routes/organizations.rs\<close> and \<open>routes/invitations.rs\<close> from the headers to
    the service.
  \<^item> \<open>Tenants\<close>: \<open>quotas.rs\<close>, the mutations of \<open>tenants/service.rs\<close>, \<open>runtime/workspaces.rs\<close> and the final transactions of
    \<open>provisioning/tenant_worker.rs\<close>; \<open>Tenant_System\<close>, \<open>Tenant_Properties\<close>, \<open>Tenant_Guarantees\<close> as above.
  \<^item> \<open>Runtime_Permissions\<close>, \<open>Runtime_Credentials\<close>: \<open>runtime/permissions.rs\<close> and \<open>runtime/credentials.rs\<close> with the statements
    of \<open>runtime/repository.rs\<close>; \<open>Runtime_System\<close>, \<open>Runtime_Sessions\<close>, \<open>Runtime_Guarantees\<close> as above. \<open>Runtime_Broker\<close>,
    \<open>Broker_Guarantees\<close>: \<open>runtime/broker.rs\<close>.

  \<^bold>\<open>What is shown.\<close> For the lifecycle: the invariant of every reachable ticket, that a merge has
  passed every gate, that a pending merge freezes its candidate, that the history is the path
  taken, that stale reviews are refused and rejections discard evidence, and that no ticket is ever
  stuck. For the store: no lost update between two controllers whatever
  else is written in between (an escalation of the ticket apart, which sets its version back), only reachable lifecycles are ever
  stored, tenants do not see each other, leases are exclusive until they end, the ring buffer is the tail of the log.
  For the flow: a pass is a bounded walk over the route table and work within the limits is never cut
  short; node events come in order, batch results in item order. For the gate: it always answers, and
  a dangerous command needs an approval written during its check, though it may answer an earlier proposal. For the relay: one active task per request, every task
  claimed once, results durable before they are visible, pairs isolated at the JSON-RPC surface. For
  the guard: writes only where the phase permits them (of a shell call that also carries a path this does not hold, which is
  shown too), a write cannot hide behind a separator, an
  accepted delegation is one literal command. For VESSEL: every merge request rests on a CI success for the same
  head and on a reserved ticket with every gate passed, an unknown merge outcome is settled by GitHub's confirmation
  alone, approvals are recorded only if they stand, and what a CI success means. For NEXUS: work goes to idle
  workers in order, recovery is exact, the worker table stays well formed under every writer of it, issues become tickets once, and an
  escalation erases the lifecycle record, which is a defect of the program. For the Manager: leases are exclusive
  and a worker that lost its lease is powerless, slots and quotas hold in every interleaving, mutations run once per
  key, outbox events are delivered at most once, owners and admins remain, memberships change only by right,
  a session of the command line belongs to whoever approved it after a recent login and ends thirty days after its delivery, a reused refresh token ends its
  session, a login returns to where it started, attempts beyond a rate limit are refused exactly, ownership changes need a
  fresh login, ended sessions stay ended, and a GitHub token handed out covers exactly one repository with the role's permissions,
  reading metadata being the only possible surplus.

  \<^bold>\<open>Time and concurrency.\<close> The components that share state with others are proved correct against them: the gate and
  VESSEL under any change of the store by others before each of their steps, the relay and the Manager as transition
  systems in which statements and transactions of any number of instances interleave. In the Manager a step has
  the start of its transaction, which is what \<open>now()\<close> returns, and the time of its statement; rows that others hold locked
  are skipped by passing over any set of them; a value that was read in an earlier step is a parameter of the later
  one. Fresh tokens, identifiers and hashes are outside a set of those taken. In \<open>Vessel_Node\<close> the others act by
  \<open>wd_env\<close> before each turn; VESSEL's theorems assume that they use the store's operations, fewer than \<open>2 ^ 62\<close> per
  turn, since the version of a ticket is a word that could wrap, and leave out NEXUS's own node, which the flow never
  runs at the same time. NEXUS's read-modify-write of tickets and slots is not atomic in the code; its theorems are
  about one operation or pass at a time. The one about the worker table is about all its writers: \<open>table_step\<close> of \<open>Nexus_Fleet\<close> has,
  next to the modelled operations, any other code of NEXUS and VESSEL that changes status or workspace of slots in a
  table it read at any earlier time and writes it back.

  \<^bold>\<open>Bounds and termination.\<close> The matcher, the flow loop, the eviction loop, the CI poller and the
  shell readers are recursive functions with measures; the flow loop descends on the steps
  that remain. The polling loop of the gate, the eviction loop and the loop over pages of check suites, which as written
  could run for ever, return options, and it is proved that they return: the gate within 121
  polls, eviction always, the listing at the first short page. The walk over all pages of a Manager listing has fuel, and one request more than there are rows
  is proved to be enough. Counters are words where the code lets them wrap (the lifecycle
  version, the plan revision, attempts) and lengths are natural numbers. Characters are the 8-bit
  characters of HOL, so case mapping and white space are those of ASCII; where the code counts
  characters and not bytes, so does the model, reading the text as UTF-8.

  \<^bold>\<open>Parameters.\<close> The clock, fresh UUIDs, SHA-256 and token hashing, sealing and signing of secrets, the compact JSON printer
  and the byte size of a progress event, the text form of cursors, the RFC 3339 parser, the process environment, and the
  answers of GitHub, Coder and the secret provider are arguments of the definitions that use them; what is
  needed of them (fresh identifiers, a printer that tells two requests apart, a cursor that can be read back) is a hypothesis of the property.

  \<^bold>\<open>Not modelled.\<close> The Redis backend of the store and the kick bus (their behaviour is
  the server's), HTTP framing, SSE streams and processes, the GitHub, Coder and LLM clients, the
  command line tools and user interfaces. Of NEXUS: provisioning of workspaces and chats, the recovery of crashed
  workspaces and the discovery of pull requests. Of VESSEL: the preparation and bookkeeping phases, Git worktrees
  and chat dispatch. Of the Manager: the router, pages and listings, the sign-in of a local installation, connections and
  releases. Modelling would continue with VESSEL's bookkeeping, the remaining hooks of \<open>agent-nexus\<close>, the Manager's
  connections, and the sandbox and executor of \<open>openflows-harness\<close>.
\<close>

end
